(* ===== verification/Prelude.thy ===== *)
theory Prelude
  imports Main "HOL-Library.Word"
begin

text \<open>
  Shared vocabulary of the development.

  \<^item> The scalar types of the Rust code: \<open>uuid\<close> (\<^verbatim>\<open>uuid::Uuid\<close>, a 128-bit value whose order is
    the unsigned one), \<open>datetime\<close> (\<^verbatim>\<open>chrono::DateTime<Utc>\<close>, nanoseconds since the epoch as an
    integer), \<open>duration\<close>, \<open>u64\<close> as a 64-bit word, and \<open>i64\<close> as an integer with its
    range written out where the code checks for overflow.
  \<^item> \<open>Result\<close>: the sum type with \<open>Ok\<close> and \<open>Err\<close> as names of its injections,
    and \<open>and_then\<close> and \<open>map_err\<close> for the question-mark operator.
  \<^item> The interface locales shared by the aggregates: an aggregate whose operations keep an
    invariant, one with a terminal condition no operation undoes, an authority that can be spent
    once, and a snapshot that is written to and read from a record.
  \<^item> The collections \<open>wf_defs\<close>, \<open>op_defs\<close> and \<open>record_defs\<close>, which the theories of
    the components fill.
\<close>

section \<open>Scalars\<close>

type_synonym uuid = "128 word"

type_synonym datetime = int

type_synonym duration = int

type_synonym u64 = "64 word"

type_synonym i64 = int

abbreviation nanos_per_second :: int where
  "nanos_per_second \<equiv> 1000000000"

definition i64_max :: int where
  "i64_max = 2 ^ 63 - 1"

definition in_i64 :: "int \<Rightarrow> bool" where
  "in_i64 n \<longleftrightarrow> - (2 ^ 63) \<le> n \<and> n \<le> i64_max"

text \<open>\<^verbatim>\<open>i64::checked_add\<close>.\<close>

definition checked_add_i64 :: "i64 \<Rightarrow> i64 \<Rightarrow> i64 option" where
  "checked_add_i64 a b = (if in_i64 (a + b) then Some (a + b) else None)"

text \<open>\<^verbatim>\<open>Timelike::with_nanosecond\<close> replaces the sub-second part and fails from two seconds on.\<close>

definition with_nanosecond :: "datetime \<Rightarrow> nat \<Rightarrow> datetime option" where
  "with_nanosecond t n =
     (if n \<ge> 2000000000 then None else Some (t - t mod nanos_per_second + int n))"

lemma with_nanosecond_zero [simp]:
  "with_nanosecond t 0 = Some (t - t mod nanos_per_second)"
  by (simp add: with_nanosecond_def)

section \<open>Results\<close>

abbreviation Ok :: "'a \<Rightarrow> 'e + 'a" where
  "Ok \<equiv> Inr"

abbreviation Err :: "'e \<Rightarrow> 'e + 'a" where
  "Err \<equiv> Inl"

fun and_then :: "'e + 'a \<Rightarrow> ('a \<Rightarrow> 'e + 'b) \<Rightarrow> 'e + 'b" where
  "and_then (Inl e) f = Inl e"
| "and_then (Inr x) f = f x"

fun map_err :: "('e \<Rightarrow> 'f) \<Rightarrow> 'e + 'a \<Rightarrow> 'f + 'a" where
  "map_err f (Inl e) = Inl (f e)"
| "map_err f (Inr x) = Inr x"

fun is_ok :: "'e + 'a \<Rightarrow> bool" where
  "is_ok (Inl e) = False"
| "is_ok (Inr x) = True"

fun is_err :: "'e + 'a \<Rightarrow> bool" where
  "is_err (Inl e) = True"
| "is_err (Inr x) = False"

lemma and_then_Ok_iff: "and_then r f = Inr y \<longleftrightarrow> (\<exists>x. r = Inr x \<and> f x = Inr y)"
  by (cases r) auto

lemma and_then_Err_iff:
  "and_then r f = Inl e \<longleftrightarrow> r = Inl e \<or> (\<exists>x. r = Inr x \<and> f x = Inl e)"
  by (cases r) auto

lemma map_err_Ok_iff [simp]: "map_err f r = Inr x \<longleftrightarrow> r = Inr x"
  by (cases r) auto

lemma map_err_Err_iff: "map_err f r = Inl e \<longleftrightarrow> (\<exists>e'. r = Inl e' \<and> e = f e')"
  by (cases r) auto

lemma not_is_err [simp]: "\<not> is_err r \<longleftrightarrow> is_ok r"
  by (cases r) auto

text \<open>\<^verbatim>\<open>Option::is_some_and\<close>, \<^verbatim>\<open>Option::is_none_or\<close>, \<^verbatim>\<open>Option::or\<close>.\<close>

definition is_some_and :: "('a \<Rightarrow> bool) \<Rightarrow> 'a option \<Rightarrow> bool" where
  "is_some_and P x = (case x of None \<Rightarrow> False | Some v \<Rightarrow> P v)"

definition is_none_or :: "('a \<Rightarrow> bool) \<Rightarrow> 'a option \<Rightarrow> bool" where
  "is_none_or P x = (case x of None \<Rightarrow> True | Some v \<Rightarrow> P v)"

definition option_or :: "'a option \<Rightarrow> 'a option \<Rightarrow> 'a option" where
  "option_or x y = (case x of None \<Rightarrow> y | Some v \<Rightarrow> Some v)"

lemma is_some_and_simps [simp]:
  "is_some_and P None = False" "is_some_and P (Some v) = P v"
  by (simp_all add: is_some_and_def)

lemma is_none_or_simps [simp]:
  "is_none_or P None = True" "is_none_or P (Some v) = P v"
  by (simp_all add: is_none_or_def)

lemma option_or_simps [simp]:
  "option_or None y = y" "option_or (Some v) y = Some v"
  by (simp_all add: option_or_def)

section \<open>More of the standard library\<close>

text \<open>\<^verbatim>\<open>Option::ok_or\<close>.\<close>

fun ok_or :: "'e \<Rightarrow> 'a option \<Rightarrow> 'e + 'a" where
  "ok_or e None = Err e"
| "ok_or e (Some x) = Ok x"

lemma ok_or_Ok_iff [simp]: "ok_or e x = Inr y \<longleftrightarrow> x = Some y"
  by (cases x) auto

text \<open>\<^verbatim>\<open>Option::map(f).transpose()\<close>.\<close>

fun map_transpose :: "('a \<Rightarrow> 'e + 'b) \<Rightarrow> 'a option \<Rightarrow> 'e + 'b option" where
  "map_transpose f None = Ok None"
| "map_transpose f (Some x) = and_then (f x) (\<lambda>y. Ok (Some y))"

text \<open>\<^verbatim>\<open>collect::<Result<Vec<_>, _>>()\<close>: the first error, or all values.\<close>

fun collect_results :: "('e + 'a) list \<Rightarrow> 'e + 'a list" where
  "collect_results [] = Ok []"
| "collect_results (r # rs) = and_then r (\<lambda>x. and_then (collect_results rs) (\<lambda>xs. Ok (x # xs)))"

text \<open>\<^verbatim>\<open>Iterator::position\<close> and \<^verbatim>\<open>Vec::remove\<close>.\<close>

fun position :: "('a \<Rightarrow> bool) \<Rightarrow> 'a list \<Rightarrow> nat option" where
  "position P [] = None"
| "position P (x # xs) = (if P x then Some 0 else map_option Suc (position P xs))"

definition vec_remove :: "nat \<Rightarrow> 'a list \<Rightarrow> 'a list" where
  "vec_remove i xs = take i xs @ drop (Suc i) xs"

abbreviation applied_or :: "'a \<Rightarrow> 'e + 'a \<Rightarrow> 'a" where
  "applied_or v r \<equiv> (case r of Inl e \<Rightarrow> v | Inr v' \<Rightarrow> v')"

lemma position_SomeD: "position P xs = Some i \<Longrightarrow> i < length xs \<and> P (xs ! i)"
  by (induction xs arbitrary: i) (auto split: if_splits)

lemma position_None_iff: "position P xs = None \<longleftrightarrow> (\<forall>x \<in> set xs. \<not> P x)"
  by (induction xs) auto

lemma vec_remove_split: "i < length xs \<Longrightarrow> \<exists>ys zs. xs = ys @ xs ! i # zs \<and> vec_remove i xs = ys @ zs"
  by (metis id_take_nth_drop vec_remove_def)

lemma collect_results_map:
  "(\<And>x. x \<in> set xs \<Longrightarrow> f x = Inr (g x)) \<Longrightarrow> collect_results (map f xs) = Inr (map g xs)"
  by (induction xs) auto

lemma sort_key_map: "sort_key k (map f xs) = map f (sort_key (\<lambda>x. k (f x)) xs)"
proof -
  have "insort_key k (f x) (map f ys) = map f (insort_key (\<lambda>x. k (f x)) x ys)" for x ys
    by (induction ys) auto
  then show ?thesis by (induction xs) auto
qed

lemma collect_results_all2:
  "collect_results (map f xs) = Inr ys \<Longrightarrow> list_all2 (\<lambda>x y. f x = Inr y) xs ys"
  by (induction xs arbitrary: ys) (auto simp: and_then_Ok_iff)

lemma collect_results_Ok [simp]: "collect_results (map Inr xs) = Inr xs"
  by (induction xs) auto

section \<open>Collections\<close>

named_theorems wf_defs \<open>well-formedness predicates of the aggregates\<close>
named_theorems op_defs \<open>definitions of the aggregates' operations\<close>
named_theorems record_defs \<open>persistence records and their conversions\<close>
named_theorems tx_post \<open>postconditions of transactional operations\<close>

section \<open>Runs\<close>

text \<open>A condition that a run establishes is established by one of its operations.\<close>

lemma fold_becomes:
  assumes "\<not> P a" and "P (fold step ops a)"
  obtains xs op ys where "ops = xs @ op # ys" and "\<not> P (fold step xs a)"
    and "P (step op (fold step xs a))"
  using assms
proof (induction ops arbitrary: a thesis)
  case (Cons op ops)
  show ?case
  proof (cases "P (step op a)")
    case True
    with Cons.prems(1,2) show ?thesis by (metis append_Nil fold_simps(1))
  next
    case False
    from Cons.prems(3) have "P (fold step ops (step op a))" by simp
    from Cons.IH [OF _ False this] obtain xs q ys where "ops = xs @ q # ys"
      "\<not> P (fold step xs (step op a))" "P (step q (fold step xs (step op a)))" by blast
    then show ?thesis by (intro Cons.prems(1) [of "op # xs" q ys]) simp_all
  qed
qed simp

lemma fold_keeps: "(\<And>op a. f (step op a) = f a) \<Longrightarrow> f (fold step ops a) = f a"
  by (induction ops arbitrary: a) simp_all

section \<open>Interfaces\<close>

text \<open>
  An aggregate: a type of operations, the state after an operation (unchanged where the operation
  is refused) and a well-formedness invariant that every operation allowed in that state keeps.
  A sequence of operations runs as \<open>fold step\<close>.
\<close>

fun allowed_run :: "('op \<Rightarrow> 'a \<Rightarrow> 'a) \<Rightarrow> ('op \<Rightarrow> 'a \<Rightarrow> bool) \<Rightarrow> 'op list \<Rightarrow> 'a \<Rightarrow> bool" where
  "allowed_run step allowed [] a = True"
| "allowed_run step allowed (op # ops) a =
     (allowed op a \<and> allowed_run step allowed ops (step op a))"

lemma allowed_run_True [simp]: "allowed_run step (\<lambda>_ _. True) ops a"
  by (induction ops arbitrary: a) auto

locale aggregate =
  fixes step :: "'op \<Rightarrow> 'a \<Rightarrow> 'a"
    and allowed :: "'op \<Rightarrow> 'a \<Rightarrow> bool"
    and wf :: "'a \<Rightarrow> bool"
  assumes step_wf: "wf a \<Longrightarrow> allowed op a \<Longrightarrow> wf (step op a)"
begin

lemma run_wf: "wf a \<Longrightarrow> allowed_run step allowed ops a \<Longrightarrow> wf (fold step ops a)"
  by (induction ops arbitrary: a) (auto intro: step_wf)

end

text \<open>An aggregate with a terminal condition that no operation undoes.\<close>

locale terminal_aggregate = aggregate step allowed wf
  for step :: "'op \<Rightarrow> 'a \<Rightarrow> 'a" and allowed wf +
  fixes dead :: "'a \<Rightarrow> bool"
  assumes dead_step: "dead a \<Longrightarrow> dead (step op a)"
begin

lemma dead_run: "dead a \<Longrightarrow> dead (fold step ops a)"
  by (induction ops arbitrary: a) (auto intro: dead_step)

end

text \<open>
  A single-use authority: an attempt either is refused or spends it, and a spent authority refuses
  every attempt. Whatever the sequence of attempts, racing or retried, at most one succeeds.
\<close>

fun successes :: "('arg \<Rightarrow> 'a \<Rightarrow> 'e + 'a) \<Rightarrow> 'arg list \<Rightarrow> 'a \<Rightarrow> nat" where
  "successes attempt [] a = 0"
| "successes attempt (x # xs) a =
     (case attempt x a of Inl e \<Rightarrow> successes attempt xs a
      | Inr b \<Rightarrow> Suc (successes attempt xs b))"

locale single_use =
  fixes attempt :: "'arg \<Rightarrow> 'a \<Rightarrow> 'e + 'a"
    and spent :: "'a \<Rightarrow> bool"
  assumes attempt_spends: "attempt x a = Inr b \<Longrightarrow> spent b"
    and spent_refuses: "spent a \<Longrightarrow> is_err (attempt x a)"
begin

lemma successes_spent: "spent a \<Longrightarrow> successes attempt xs a = 0"
proof (induction xs)
  case (Cons x xs)
  then show ?case using spent_refuses [of a x] by (cases "attempt x a") auto
qed simp

lemma successes_le_one: "successes attempt xs a \<le> 1"
proof (induction xs)
  case (Cons x xs)
  then show ?case
    by (auto split: sum.splits simp: successes_spent dest: attempt_spends)
qed simp

end

text \<open>
  A snapshot: the aggregate is written to a record and read back through a check. Reading gives
  the aggregate back exactly when it is well-formed, and never gives one that is not.
\<close>

locale snapshot =
  fixes from_domain :: "'a \<Rightarrow> 'r"
    and into_domain :: "'r \<Rightarrow> 'e + 'a"
    and wf :: "'a \<Rightarrow> bool"
  assumes reload: "wf a \<Longrightarrow> into_domain (from_domain a) = Inr a"
    and loaded_wf: "into_domain r = Inr a \<Longrightarrow> wf a"
begin

lemma reload_iff: "into_domain (from_domain a) = Inr a \<longleftrightarrow> wf a"
  using reload loaded_wf by blast

lemma from_domain_inj: "wf a \<Longrightarrow> wf b \<Longrightarrow> from_domain a = from_domain b \<Longrightarrow> a = b"
  by (metis reload sum.inject(2))

end

text \<open>A stored aggregate: every state its operations reach can be saved and loaded again.\<close>

locale stored_aggregate =
  aggregate step allowed wf + snapshot from_domain into_domain wf
  for step :: "'op \<Rightarrow> 'a \<Rightarrow> 'a" and allowed wf
    and from_domain :: "'a \<Rightarrow> 'r" and into_domain :: "'r \<Rightarrow> 'e + 'a"
begin

lemma reload_run:
  "into_domain r = Inr a \<Longrightarrow> allowed_run step allowed ops a \<Longrightarrow>
     into_domain (from_domain (fold step ops a)) = Inr (fold step ops a)"
  by (blast intro: reload run_wf dest: loaded_wf)

end

end
