(* ===== verification/Rust_Text.thy ===== *)
theory Rust_Text
  imports Prelude
begin

text \<open>
  Rust strings as the lists of their UTF-8 bytes, one \<open>char\<close> per byte, with the standard-library
  operations the code applies to them: \<^verbatim>\<open>str::len\<close> is \<open>length\<close>, \<^verbatim>\<open>str::trim\<close> removes
  the Unicode white space at both ends (ASCII white space and the two- and three-byte encodings of
  U+0085, U+00A0, U+1680, U+2000 to U+200A, U+2028, U+2029, U+202F, U+205F and U+3000), and
  \<^verbatim>\<open>str::chars().count()\<close> counts the bytes that start a code point. The lemmas show that
  \<open>trim\<close> is idempotent and when it leaves nothing.
\<close>

section \<open>Bytes\<close>

abbreviation byte_of :: "char \<Rightarrow> nat" where
  "byte_of c \<equiv> of_char c"

definition is_ascii_digit :: "char \<Rightarrow> bool" where
  "is_ascii_digit c \<longleftrightarrow> 48 \<le> byte_of c \<and> byte_of c \<le> 57"

definition is_ascii_uppercase :: "char \<Rightarrow> bool" where
  "is_ascii_uppercase c \<longleftrightarrow> 65 \<le> byte_of c \<and> byte_of c \<le> 90"

definition is_ascii_lowercase :: "char \<Rightarrow> bool" where
  "is_ascii_lowercase c \<longleftrightarrow> 97 \<le> byte_of c \<and> byte_of c \<le> 122"

definition is_ascii_alphanumeric :: "char \<Rightarrow> bool" where
  "is_ascii_alphanumeric c \<longleftrightarrow>
     is_ascii_digit c \<or> is_ascii_uppercase c \<or> is_ascii_lowercase c"

definition is_continuation_byte :: "char \<Rightarrow> bool" where
  "is_continuation_byte c \<longleftrightarrow> 128 \<le> byte_of c \<and> byte_of c < 192"

text \<open>\<^verbatim>\<open>str::chars().count()\<close>.\<close>

definition chars_count :: "string \<Rightarrow> nat" where
  "chars_count s = length (filter (\<lambda>c. \<not> is_continuation_byte c) s)"

lemma chars_count_le_length: "chars_count s \<le> length s"
  by (simp add: chars_count_def)

section \<open>White space\<close>

definition ascii_ws :: "nat \<Rightarrow> bool" where
  "ascii_ws b \<longleftrightarrow> (9 \<le> b \<and> b \<le> 13) \<or> b = 32"

definition ws2 :: "nat \<Rightarrow> nat \<Rightarrow> bool" where
  "ws2 a b \<longleftrightarrow> a = 194 \<and> (b = 133 \<or> b = 160)"

definition ws3 :: "nat \<Rightarrow> nat \<Rightarrow> nat \<Rightarrow> bool" where
  "ws3 a b c \<longleftrightarrow>
     (a = 225 \<and> b = 154 \<and> c = 128)
   \<or> (a = 226 \<and> b = 128 \<and> (128 \<le> c \<and> c \<le> 138 \<or> c = 168 \<or> c = 169 \<or> c = 175))
   \<or> (a = 226 \<and> b = 129 \<and> c = 159)
   \<or> (a = 227 \<and> b = 128 \<and> c = 128)"

text \<open>Number of bytes of the white-space character a text starts with, 0 where it starts with none.\<close>

fun ws_front :: "string \<Rightarrow> nat" where
  "ws_front (a # b # c # s) =
     (if ascii_ws (byte_of a) then 1
      else if ws2 (byte_of a) (byte_of b) then 2
      else if ws3 (byte_of a) (byte_of b) (byte_of c) then 3 else 0)"
| "ws_front [a, b] =
     (if ascii_ws (byte_of a) then 1 else if ws2 (byte_of a) (byte_of b) then 2 else 0)"
| "ws_front [a] = (if ascii_ws (byte_of a) then 1 else 0)"
| "ws_front [] = 0"

text \<open>The same for the end of a text, which is given reversed.\<close>

fun ws_back :: "string \<Rightarrow> nat" where
  "ws_back (c # b # a # s) =
     (if ascii_ws (byte_of c) then 1
      else if ws2 (byte_of b) (byte_of c) then 2
      else if ws3 (byte_of a) (byte_of b) (byte_of c) then 3 else 0)"
| "ws_back [c, b] =
     (if ascii_ws (byte_of c) then 1 else if ws2 (byte_of b) (byte_of c) then 2 else 0)"
| "ws_back [c] = (if ascii_ws (byte_of c) then 1 else 0)"
| "ws_back [] = 0"

lemma ws_front_le: "ws_front s \<le> length s"
  by (induction s rule: ws_front.induct) auto

lemma ws_back_le: "ws_back s \<le> length s"
  by (induction s rule: ws_back.induct) auto

lemma ws_front_append: "ws_front s = 0 \<or> ws_front (s @ t) \<noteq> 0"
  by (induction s rule: ws_front.induct) (cases t; cases "tl t"; auto)+

lemma ws_back_append: "ws_back s = 0 \<or> ws_back (s @ t) \<noteq> 0"
  by (induction s rule: ws_back.induct) (cases t; cases "tl t"; auto)+

section \<open>Trimming\<close>

function trim_start :: "string \<Rightarrow> string" where
  "trim_start s = (if ws_front s = 0 then s else trim_start (drop (ws_front s) s))"
  by pat_completeness auto
termination
proof (relation "measure length")
  fix s :: string
  assume "ws_front s \<noteq> 0"
  moreover have "ws_front s \<le> length s" by (rule ws_front_le)
  ultimately show "(drop (ws_front s) s, s) \<in> measure length" by (cases s) auto
qed simp

function trim_back :: "string \<Rightarrow> string" where
  "trim_back s = (if ws_back s = 0 then s else trim_back (drop (ws_back s) s))"
  by pat_completeness auto
termination
proof (relation "measure length")
  fix s :: string
  assume "ws_back s \<noteq> 0"
  moreover have "ws_back s \<le> length s" by (rule ws_back_le)
  ultimately show "(drop (ws_back s) s, s) \<in> measure length" by (cases s) auto
qed simp

declare trim_start.simps [simp del] trim_back.simps [simp del]

definition trim_end :: "string \<Rightarrow> string" where
  "trim_end s = rev (trim_back (rev s))"

definition trim :: "string \<Rightarrow> string" where
  "trim s = trim_end (trim_start s)"

definition is_blank :: "string \<Rightarrow> bool" where
  "is_blank s \<longleftrightarrow> trim s = []"

lemma ws_front_trim_start: "ws_front (trim_start s) = 0"
proof (induction s rule: trim_start.induct)
  case (1 s)
  then show ?case
    by (cases "ws_front s = 0") (simp_all add: trim_start.simps [of s])
qed

lemma ws_back_trim_back: "ws_back (trim_back s) = 0"
proof (induction s rule: trim_back.induct)
  case (1 s)
  then show ?case
    by (cases "ws_back s = 0") (simp_all add: trim_back.simps [of s])
qed

lemma trim_start_id: "ws_front s = 0 \<Longrightarrow> trim_start s = s"
  by (simp add: trim_start.simps [of s])

lemma trim_back_id: "ws_back s = 0 \<Longrightarrow> trim_back s = s"
  by (simp add: trim_back.simps [of s])

lemma trim_start_suffix: "\<exists>p. s = p @ trim_start s"
proof (induction s rule: trim_start.induct)
  case (1 s)
  show ?case
  proof (cases "ws_front s = 0")
    case True
    then show ?thesis by (simp add: trim_start_id)
  next
    case False
    with 1 obtain p where "drop (ws_front s) s = p @ trim_start (drop (ws_front s) s)" by auto
    then have "s = (take (ws_front s) s @ p) @ trim_start s"
      using False by (metis append_assoc append_take_drop_id trim_start.simps)
    then show ?thesis by blast
  qed
qed

lemma trim_back_suffix: "\<exists>p. s = p @ trim_back s"
proof (induction s rule: trim_back.induct)
  case (1 s)
  show ?case
  proof (cases "ws_back s = 0")
    case True
    then show ?thesis by (simp add: trim_back_id)
  next
    case False
    with 1 obtain p where "drop (ws_back s) s = p @ trim_back (drop (ws_back s) s)" by auto
    then have "s = (take (ws_back s) s @ p) @ trim_back s"
      using False by (metis append_assoc append_take_drop_id trim_back.simps)
    then show ?thesis by blast
  qed
qed

lemma trim_end_prefix: "\<exists>p. s = trim_end s @ p"
  using trim_back_suffix [of "rev s"]
  by (metis rev_append rev_rev_ident trim_end_def)

lemma ws_front_trim: "ws_front (trim s) = 0"
proof -
  obtain p where "trim_start s = trim s @ p"
    using trim_end_prefix [of "trim_start s"] by (auto simp: trim_def)
  then show ?thesis
    using ws_front_append [of "trim s" p] ws_front_trim_start [of s] by auto
qed

lemma trim_idem [simp]: "trim (trim s) = trim s"
  using ws_back_trim_back [of "rev (trim_start s)"]
  by (simp add: trim_start_id [OF ws_front_trim] trim_def [of "trim s"])
     (simp add: trim_def trim_end_def trim_back_id)

lemma is_blank_trim [simp]: "is_blank (trim s) = is_blank s"
  by (simp add: is_blank_def)

lemma trim_infix: "\<exists>p q. s = p @ trim s @ q"
proof -
  obtain p where p: "s = p @ trim_start s" using trim_start_suffix by blast
  obtain q where "trim_start s = trim s @ q"
    using trim_end_prefix [of "trim_start s"] by (auto simp: trim_def)
  with p have "s = p @ trim s @ q" by metis
  then show ?thesis by blast
qed

lemma set_trim: "set (trim s) \<subseteq> set s"
  using trim_infix [of s] by (metis set_append Un_iff subsetI)

lemma length_trim: "length (trim s) \<le> length s"
  using trim_infix [of s] by (metis length_append le_add1 le_add2 le_trans)

lemma not_is_blank_Nil [simp]: "is_blank []"
  by (simp add: is_blank_def trim_def trim_end_def trim_start.simps trim_back.simps)

section \<open>Searching\<close>

text \<open>\<^verbatim>\<open>str::split_once\<close> at a one-byte pattern.\<close>

fun split_once :: "char \<Rightarrow> string \<Rightarrow> (string \<times> string) option" where
  "split_once c [] = None"
| "split_once c (x # s) =
     (if x = c then Some ([], s)
      else map_option (\<lambda>(l, r). (x # l, r)) (split_once c s))"

lemma split_once_Some:
  "split_once c s = Some (l, r) \<longleftrightarrow> s = l @ c # r \<and> c \<notin> set l"
proof (induction s arbitrary: l)
  case (Cons x s)
  show ?case
  proof (cases "x = c")
    case True
    then show ?thesis by (cases l) auto
  next
    case False
    then show ?thesis using Cons.IH by (cases l) auto
  qed
qed simp

lemma split_once_None: "split_once c s = None \<longleftrightarrow> c \<notin> set s"
  by (induction s) auto

text \<open>\<^verbatim>\<open>str::split\<close> at a one-byte pattern: always at least one segment.\<close>

fun split_on :: "char \<Rightarrow> string \<Rightarrow> string list" where
  "split_on c [] = [[]]"
| "split_on c (x # s) =
     (if x = c then [] # split_on c s
      else (case split_on c s of [] \<Rightarrow> [[x]] | p # ps \<Rightarrow> (x # p) # ps))"

lemma split_on_not_Nil [simp]: "split_on c s \<noteq> []"
  by (cases s) (auto split: list.splits)

fun join_with :: "char \<Rightarrow> string list \<Rightarrow> string" where
  "join_with c [] = []"
| "join_with c [p] = p"
| "join_with c (p # q # ps) = p @ c # join_with c (q # ps)"

lemma join_split_on: "join_with c (split_on c s) = s"
proof (induction s)
  case (Cons x s)
  obtain p ps where "split_on c s = p # ps" by (cases "split_on c s") auto
  with Cons show ?case by (cases ps) auto
qed simp

lemma split_on_append_sep:
  "split_on c (s @ c # t) = split_on c s @ split_on c t"
proof (induction s)
  case (Cons x s)
  obtain p ps where "split_on c s = p # ps" by (cases "split_on c s") auto
  with Cons show ?case by auto
qed simp

lemma split_on_no_sep: "c \<notin> set s \<Longrightarrow> split_on c s = [s]"
  by (induction s) auto

lemma split_on_segments: "p \<in> set (split_on c s) \<Longrightarrow> c \<notin> set p"
proof (induction s arbitrary: p)
  case (Cons x s)
  obtain q qs where "split_on c s = q # qs" by (cases "split_on c s") auto
  with Cons show ?case by (auto split: if_splits)
qed simp

text \<open>Lower-case hexadecimal digests: \<^verbatim>\<open>byte.is_ascii_digit() || (b'a'..=b'f')\<close>.\<close>

definition is_lower_hex :: "char \<Rightarrow> bool" where
  "is_lower_hex c \<longleftrightarrow> is_ascii_digit c \<or> (97 \<le> byte_of c \<and> byte_of c \<le> 102)"

section \<open>Decimal text\<close>

text \<open>The text \<^verbatim>\<open>format!\<close> gives for an unsigned integer.\<close>

fun show_nat :: "nat \<Rightarrow> string" where
  "show_nat n = (if n < 10 then [char_of (48 + n)] else show_nat (n div 10) @ [char_of (48 + n mod 10)])"

definition show_int :: "int \<Rightarrow> string" where
  "show_int n = (if n < 0 then CHR ''-'' # show_nat (nat (- n)) else show_nat (nat n))"

declare show_nat.simps [simp del]

text \<open>\<^verbatim>\<open>[String]::join\<close> with a separator text.\<close>

fun join_text :: "string \<Rightarrow> string list \<Rightarrow> string" where
  "join_text sep [] = []"
| "join_text sep [x] = x"
| "join_text sep (x # y # xs) = x @ sep @ join_text sep (y # xs)"

end
