(* ===== verification/Validation.thy ===== *)
theory Validation
  imports Rust_Text
begin

text \<open>
  The validation layer: the accumulating \<open>validation\<close> type of \<^verbatim>\<open>src/validation/mod.rs\<close> with its
  combinators and the \<^verbatim>\<open>validate!\<close> macro, the domain errors of \<^verbatim>\<open>src/domain/error.rs\<close>, the text
  and file-name rules of \<^verbatim>\<open>src/domain/validation.rs\<close> and the batch rules of
  \<^verbatim>\<open>src/domain/batch.rs\<close>. The lemmas characterise each rule by the condition it accepts and the
  errors it reports, in order.
\<close>

section \<open>Accumulating validation\<close>

datatype ('t, 'e) validation = Valid 't | Invalid "'e list"

fun into_result :: "('t, 'e) validation \<Rightarrow> 'e list + 't" where
  "into_result (Valid x) = Ok x"
| "into_result (Invalid es) = Err es"

fun validation_map :: "('t \<Rightarrow> 'u) \<Rightarrow> ('t, 'e) validation \<Rightarrow> ('u, 'e) validation" where
  "validation_map f (Valid x) = Valid (f x)"
| "validation_map f (Invalid es) = Invalid es"

fun validation_and_then ::
  "('t, 'e) validation \<Rightarrow> ('t \<Rightarrow> ('u, 'e) validation) \<Rightarrow> ('u, 'e) validation" where
  "validation_and_then (Valid x) f = f x"
| "validation_and_then (Invalid es) f = Invalid es"

fun is_valid :: "('t, 'e) validation \<Rightarrow> bool" where
  "is_valid (Valid x) = True"
| "is_valid (Invalid es) = False"

fun binding_value :: "('t, 'e) validation \<Rightarrow> 't option" where
  "binding_value (Valid x) = Some x"
| "binding_value (Invalid es) = None"

fun binding_errors :: "('t, 'e) validation \<Rightarrow> 'e list" where
  "binding_errors (Valid x) = []"
| "binding_errors (Invalid es) = es"

text \<open>The macro at two and at three bindings: every binding is evaluated and its errors appended.\<close>

definition validate2 ::
  "('a, 'e) validation \<Rightarrow> ('b, 'e) validation \<Rightarrow> ('a \<Rightarrow> 'b \<Rightarrow> 't) \<Rightarrow> ('t, 'e) validation" where
  "validate2 va vb f =
     (let es = binding_errors va @ binding_errors vb
      in case (binding_value va, binding_value vb) of
           (Some a, Some b) \<Rightarrow> if es = [] then Valid (f a b) else Invalid es
         | _ \<Rightarrow> Invalid es)"

definition validate3 ::
  "('a, 'e) validation \<Rightarrow> ('b, 'e) validation \<Rightarrow> ('c, 'e) validation \<Rightarrow>
   ('a \<Rightarrow> 'b \<Rightarrow> 'c \<Rightarrow> 't) \<Rightarrow> ('t, 'e) validation" where
  "validate3 va vb vc f =
     (let es = binding_errors va @ binding_errors vb @ binding_errors vc
      in case (binding_value va, binding_value vb, binding_value vc) of
           (Some a, Some b, Some c) \<Rightarrow> if es = [] then Valid (f a b c) else Invalid es
         | _ \<Rightarrow> Invalid es)"

lemma validate2_Valid_iff:
  "validate2 va vb f = Valid t \<longleftrightarrow> (\<exists>a b. va = Valid a \<and> vb = Valid b \<and> t = f a b)"
  by (cases va; cases vb) (auto simp: validate2_def)

lemma validate3_Valid_iff:
  "validate3 va vb vc f = Valid t \<longleftrightarrow>
     (\<exists>a b c. va = Valid a \<and> vb = Valid b \<and> vc = Valid c \<and> t = f a b c)"
  by (cases va; cases vb; cases vc) (auto simp: validate3_def)

lemma validate2_Invalid_iff:
  "validate2 va vb f = Invalid es \<longleftrightarrow>
     \<not> (is_valid va \<and> is_valid vb) \<and> es = binding_errors va @ binding_errors vb"
  by (cases va; cases vb) (auto simp: validate2_def)

lemma validate3_Invalid_iff:
  "validate3 va vb vc f = Invalid es \<longleftrightarrow>
     \<not> (is_valid va \<and> is_valid vb \<and> is_valid vc) \<and>
     es = binding_errors va @ binding_errors vb @ binding_errors vc"
  by (cases va; cases vb; cases vc) (auto simp: validate3_def)

lemma into_result_Ok_iff [simp]: "into_result v = Inr x \<longleftrightarrow> v = Valid x"
  by (cases v) auto

lemma validation_map_Valid_iff [simp]:
  "validation_map f v = Valid y \<longleftrightarrow> (\<exists>x. v = Valid x \<and> y = f x)"
  by (cases v) auto

section \<open>Domain errors\<close>

datatype domain_error =
    EmptyRequiredText string
  | BlankOptionalText string
  | RequiredTextTooLong string nat
  | OptionalTextTooLong string nat
  | InvalidEnumValue string string
  | DuplicatePermission string
  | DuplicatePolicyControlId
  | InvalidCoverageWindow
  | InvalidAuditReviewPeriod
  | EmptyDocumentFilename
  | DocumentFilenameTooLong
  | InvalidDocumentFilenameCharacters
  | ReservedDocumentFilename
  | InvalidDocumentContentType
  | DocumentContentLengthTooLarge u64
  | InvalidDocumentSha256Checksum

section \<open>Text rules\<close>

definition required_text :: "string \<Rightarrow> string \<Rightarrow> (string, domain_error) validation" where
  "required_text field value =
     (if trim value = [] then Invalid [EmptyRequiredText field] else Valid value)"

definition optional_text ::
  "string \<Rightarrow> string option \<Rightarrow> nat \<Rightarrow> (string option, domain_error) validation" where
  "optional_text field value maximum =
     (case value of
        None \<Rightarrow> Valid None
      | Some raw \<Rightarrow>
          let trimmed = trim raw
          in if trimmed = [] then Invalid [BlankOptionalText field]
             else if chars_count trimmed > maximum
               then Invalid [OptionalTextTooLong field maximum]
             else Valid (Some trimmed))"

lemma required_text_Valid_iff:
  "required_text field value = Valid t \<longleftrightarrow> t = value \<and> \<not> is_blank value"
  by (auto simp: required_text_def is_blank_def)

lemma required_text_stable:
  "required_text field value = Valid t \<Longrightarrow> required_text field' t = Valid t"
  by (auto simp: required_text_Valid_iff)

lemma optional_text_Valid_iff:
  "optional_text field value n = Valid t \<longleftrightarrow>
     (case value of None \<Rightarrow> t = None
      | Some raw \<Rightarrow> t = Some (trim raw) \<and> \<not> is_blank raw \<and> chars_count (trim raw) \<le> n)"
  by (auto simp: optional_text_def is_blank_def Let_def split: option.splits)

lemma optional_text_stable:
  "optional_text field value n = Valid t \<Longrightarrow> optional_text field t n = Valid t"
  by (auto simp: optional_text_Valid_iff split: option.splits)

section \<open>File names\<close>

definition filename_byte_ok :: "char \<Rightarrow> bool" where
  "filename_byte_ok c \<longleftrightarrow>
     is_ascii_alphanumeric c \<or> c \<in> {CHR '' '', CHR ''.'', CHR ''_'', CHR ''-'', CHR ''('', CHR '')''}"

definition validate_document_filename :: "string \<Rightarrow> (string, domain_error) validation" where
  "validate_document_filename value =
     (let errors =
        (if trim value = [] then [EmptyDocumentFilename] else [])
        @ (if length value > 255 then [DocumentFilenameTooLong] else [])
        @ (if \<not> list_all filename_byte_ok value then [InvalidDocumentFilenameCharacters] else [])
        @ (if value = ''.'' \<or> value = ''..'' then [ReservedDocumentFilename] else [])
      in if errors = [] then Valid value else Invalid errors)"

lemma validate_document_filename_Valid_iff:
  "validate_document_filename value = Valid t \<longleftrightarrow>
     t = value \<and> \<not> is_blank value \<and> length value \<le> 255 \<and> list_all filename_byte_ok value
     \<and> value \<noteq> ''.'' \<and> value \<noteq> ''..''"
  by (auto simp: validate_document_filename_def is_blank_def Let_def)

section \<open>Canonical relative paths\<close>

definition canonical_segment :: "string \<Rightarrow> bool" where
  "canonical_segment segment \<longleftrightarrow>
     segment \<noteq> [] \<and> segment \<noteq> ''.'' \<and> segment \<noteq> ''..''
     \<and> CHR 0x5C \<notin> set segment \<and> CHR 0x00 \<notin> set segment"

definition is_canonical_relative_path :: "string \<Rightarrow> bool" where
  "is_canonical_relative_path value \<longleftrightarrow>
     value \<noteq> [] \<and> hd value \<noteq> CHR ''/'' \<and> last value \<noteq> CHR ''/''
     \<and> list_all canonical_segment (split_on (CHR ''/'') value)"

text \<open>
  The slash tests are implied by the segment test: a leading or trailing slash leaves an empty
  segment.
\<close>

lemma split_on_hd: "split_on c (c # s) = [] # split_on c s"
  by simp

lemma split_on_last: "split_on c (s @ [c]) = split_on c s @ [[]]"
  using split_on_append_sep [of c s "[]"] by simp

lemma canonical_path_iff:
  "is_canonical_relative_path value \<longleftrightarrow> list_all canonical_segment (split_on (CHR ''/'') value)"
proof
  assume segs: "list_all canonical_segment (split_on (CHR ''/'') value)"
  have "value \<noteq> []" using segs by (auto simp: canonical_segment_def)
  moreover have "hd value \<noteq> CHR ''/''"
    using segs \<open>value \<noteq> []\<close> by (cases "value") (auto simp: canonical_segment_def)
  moreover have "last value \<noteq> CHR ''/''"
  proof
    assume "last value = CHR ''/''"
    then obtain s where "value = s @ [CHR ''/'']"
      using \<open>value \<noteq> []\<close> by (metis append_butlast_last_id)
    then show False using segs by (simp add: split_on_last canonical_segment_def)
  qed
  ultimately show "is_canonical_relative_path value"
    using segs by (simp add: is_canonical_relative_path_def)
qed (simp add: is_canonical_relative_path_def)

lemma canonical_path_join:
  "is_canonical_relative_path p \<Longrightarrow> is_canonical_relative_path q \<Longrightarrow>
     is_canonical_relative_path (p @ CHR ''/'' # q)"
  by (simp add: canonical_path_iff split_on_append_sep)

lemma canonical_path_single:
  "canonical_segment s \<Longrightarrow> CHR ''/'' \<notin> set s \<Longrightarrow> is_canonical_relative_path s"
  by (simp add: canonical_path_iff split_on_no_sep)

lemma filename_byte_ok_excludes:
  "\<not> filename_byte_ok (CHR ''/'')" "\<not> filename_byte_ok (CHR 0x5C)" "\<not> filename_byte_ok (CHR 0x00)"
  by (simp_all add: filename_byte_ok_def is_ascii_alphanumeric_def is_ascii_digit_def
      is_ascii_uppercase_def is_ascii_lowercase_def)

lemma valid_filename_canonical:
  assumes "validate_document_filename value = Valid t"
  shows "canonical_segment t" and "CHR ''/'' \<notin> set t"
proof -
  have ok: "list_all filename_byte_ok t" "\<not> is_blank t" "t \<noteq> ''.''" "t \<noteq> ''..''"
    using assms by (auto simp: validate_document_filename_Valid_iff)
  then have "t \<noteq> []" by auto
  moreover have "CHR ''/'' \<notin> set t" "CHR 0x5C \<notin> set t" "CHR 0x00 \<notin> set t"
    using ok(1) filename_byte_ok_excludes by (auto simp: list_all_iff)
  ultimately show "canonical_segment t" "CHR ''/'' \<notin> set t"
    using ok by (simp_all add: canonical_segment_def)
qed

section \<open>Batches\<close>

definition max_batch_items :: nat where
  "max_batch_items = 50"

datatype batch_error =
    BatchEmpty string
  | BatchTooLarge string nat nat
  | BatchDuplicates string "uuid list"

fun duplicate_ids_loop :: "uuid set \<Rightarrow> uuid list \<Rightarrow> uuid list \<Rightarrow> uuid list" where
  "duplicate_ids_loop seen duplicates [] = duplicates"
| "duplicate_ids_loop seen duplicates (i # ids) =
     duplicate_ids_loop (insert i seen)
       (if i \<in> seen \<and> i \<notin> set duplicates then duplicates @ [i] else duplicates) ids"

definition duplicate_ids :: "('t \<Rightarrow> uuid) \<Rightarrow> 't list \<Rightarrow> uuid list" where
  "duplicate_ids key items = duplicate_ids_loop {} [] (map key items)"

definition validate_batch :: "('t \<Rightarrow> uuid) \<Rightarrow> string \<Rightarrow> 't list \<Rightarrow> batch_error + 't list" where
  "validate_batch key field items =
     (if items = [] then Err (BatchEmpty field)
      else if length items > max_batch_items
        then Err (BatchTooLarge field max_batch_items (length items))
      else let duplicates = duplicate_ids key items
           in if duplicates \<noteq> [] then Err (BatchDuplicates field duplicates) else Ok items)"

lemma duplicate_ids_loop_distinct:
  "distinct dups \<Longrightarrow> distinct (duplicate_ids_loop seen dups ids)"
  by (induction seen dups ids rule: duplicate_ids_loop.induct) auto

lemma duplicate_ids_loop_set:
  "set (duplicate_ids_loop seen dups ids) =
     set dups \<union> {x. (x \<in> seen \<and> x \<in> set ids) \<or> 2 \<le> count_list ids x}"
proof (induction seen dups ids rule: duplicate_ids_loop.induct)
  case (2 seen dups i ids)
  have "2 \<le> count_list ids x \<Longrightarrow> x \<in> set ids" for x
    by (metis count_notin not_numeral_le_zero)
  moreover have "i \<in> set ids \<longleftrightarrow> 2 \<le> count_list (i # ids) i"
    using count_list_0_iff [of ids i] by auto
  ultimately show ?case using 2 by auto
qed simp

lemma duplicate_ids_set:
  "set (duplicate_ids key items) = {x. 2 \<le> count_list (map key items) x}"
  by (simp add: duplicate_ids_def duplicate_ids_loop_set)

lemma distinct_iff_count_list: "distinct xs \<longleftrightarrow> (\<forall>x. count_list xs x < 2)"
proof (induction xs)
  case (Cons a xs)
  have "a \<notin> set xs \<longleftrightarrow> count_list xs a = 0" by (simp add: count_list_0_iff)
  then show ?case using Cons by (auto simp: less_Suc_eq numeral_2_eq_2)
qed simp

lemma duplicate_ids_Nil_iff: "duplicate_ids key items = [] \<longleftrightarrow> distinct (map key items)"
proof -
  have "duplicate_ids key items = [] \<longleftrightarrow> set (duplicate_ids key items) = {}" by simp
  also have "\<dots> \<longleftrightarrow> (\<forall>x. \<not> 2 \<le> count_list (map key items) x)"
    by (simp add: duplicate_ids_set)
  finally show ?thesis by (simp add: distinct_iff_count_list not_le)
qed

lemma validate_batch_Ok_iff:
  "validate_batch key field items = Inr out \<longleftrightarrow>
     out = items \<and> items \<noteq> [] \<and> length items \<le> 50 \<and> distinct (map key items)"
  by (auto simp: validate_batch_def max_batch_items_def Let_def duplicate_ids_Nil_iff)

section \<open>Properties\<close>

text \<open>
  A batch request is accepted exactly when it has between one and fifty items whose keys are all
  different, and is then passed on as it is; a refusal for duplicates lists every key that occurs
  more than once, each once.
\<close>

theorem batch_accepted_exactly:
  "(validate_batch key field items = Inr out \<longleftrightarrow>
      out = items \<and> items \<noteq> [] \<and> length items \<le> 50 \<and> distinct (map key items))
   \<and> distinct (duplicate_ids key items)
   \<and> set (duplicate_ids key items) = {x. 2 \<le> count_list (map key items) x}"
  using validate_batch_Ok_iff [of key field items out] duplicate_ids_set [of key items]
    duplicate_ids_loop_distinct [of "[]" "{}"]
  by (auto simp: duplicate_ids_def)

end
