(* ===== verification/Permissions.thy ===== *)
theory Permissions
  imports Validation
begin

text \<open>
  Workspace permissions (\<^verbatim>\<open>src/domain/permission.rs\<close>): the seven capabilities, their names, the
  bit set kept in a request context and the canonical list stored with a connection. The bit set
  refines a set of permissions (\<open>has_from_iter\<close>, \<open>permission_set\<close>), names are parsed back to
  the permission they print, and the canonical list is the sorted list of the distinct permissions
  asked for.
\<close>

unbundle bit_operations_syntax

datatype workspace_permission =
    ReadEvidence
  | WriteEvidence
  | ReadEvidenceSubmissions
  | WriteEvidenceSubmissions
  | ReadControls
  | WriteControls
  | ManageAuditorAccess

definition all_permissions :: "workspace_permission list" where
  "all_permissions =
     [ReadEvidence, WriteEvidence, ReadEvidenceSubmissions, WriteEvidenceSubmissions,
      ReadControls, WriteControls, ManageAuditorAccess]"

fun permission_as_str :: "workspace_permission \<Rightarrow> string" where
  "permission_as_str ReadEvidence = ''read_evidence''"
| "permission_as_str WriteEvidence = ''write_evidence''"
| "permission_as_str ReadEvidenceSubmissions = ''read_evidence_submissions''"
| "permission_as_str WriteEvidenceSubmissions = ''write_evidence_submissions''"
| "permission_as_str ReadControls = ''read_controls''"
| "permission_as_str WriteControls = ''write_controls''"
| "permission_as_str ManageAuditorAccess = ''manage_auditor_access''"

fun permission_bit :: "workspace_permission \<Rightarrow> 8 word" where
  "permission_bit ReadEvidence = push_bit 0 1"
| "permission_bit WriteEvidence = push_bit 1 1"
| "permission_bit ReadEvidenceSubmissions = push_bit 2 1"
| "permission_bit WriteEvidenceSubmissions = push_bit 3 1"
| "permission_bit ReadControls = push_bit 4 1"
| "permission_bit WriteControls = push_bit 5 1"
| "permission_bit ManageAuditorAccess = push_bit 6 1"

definition permission_from_str :: "string \<Rightarrow> domain_error + workspace_permission" where
  "permission_from_str value =
     (if value = ''read_evidence'' then Ok ReadEvidence
      else if value = ''write_evidence'' then Ok WriteEvidence
      else if value = ''read_evidence_submissions'' then Ok ReadEvidenceSubmissions
      else if value = ''write_evidence_submissions'' then Ok WriteEvidenceSubmissions
      else if value = ''read_controls'' then Ok ReadControls
      else if value = ''write_controls'' then Ok WriteControls
      else if value = ''manage_auditor_access'' then Ok ManageAuditorAccess
      else Err (InvalidEnumValue ''permission'' value))"

fun permission_index :: "workspace_permission \<Rightarrow> nat" where
  "permission_index ReadEvidence = 0"
| "permission_index WriteEvidence = 1"
| "permission_index ReadEvidenceSubmissions = 2"
| "permission_index WriteEvidenceSubmissions = 3"
| "permission_index ReadControls = 4"
| "permission_index WriteControls = 5"
| "permission_index ManageAuditorAccess = 6"

record workspace_permissions =
  permission_bits :: "8 word"

definition permissions_none :: workspace_permissions where
  "permissions_none = \<lparr>permission_bits = 0\<rparr>"

definition permissions_insert ::
  "workspace_permission \<Rightarrow> workspace_permissions \<Rightarrow> workspace_permissions" where
  "permissions_insert p ps = ps\<lparr>permission_bits := permission_bits ps OR permission_bit p\<rparr>"

definition has :: "workspace_permissions \<Rightarrow> workspace_permission \<Rightarrow> bool" where
  "has ps p \<longleftrightarrow> permission_bits ps AND permission_bit p \<noteq> 0"

definition permissions_is_empty :: "workspace_permissions \<Rightarrow> bool" where
  "permissions_is_empty ps \<longleftrightarrow> permission_bits ps = 0"

definition permissions_iter :: "workspace_permissions \<Rightarrow> workspace_permission list" where
  "permissions_iter ps = filter (has ps) all_permissions"

definition permissions_from_iter :: "workspace_permission list \<Rightarrow> workspace_permissions" where
  "permissions_from_iter xs = fold permissions_insert xs permissions_none"

definition permissions_all :: workspace_permissions where
  "permissions_all = permissions_from_iter all_permissions"

text \<open>The loop of \<^verbatim>\<open>canonical_permissions\<close> over the array of the seven \<open>seen\<close> flags.\<close>

fun mark_seen :: "bool list \<Rightarrow> workspace_permission list \<Rightarrow> domain_error + bool list" where
  "mark_seen seen [] = Ok seen"
| "mark_seen seen (p # ps) =
     (let index = permission_index p
      in if seen ! index then Err (DuplicatePermission (permission_as_str p))
         else mark_seen (seen[index := True]) ps)"

definition canonical_permissions ::
  "workspace_permission list \<Rightarrow> domain_error + workspace_permission list" where
  "canonical_permissions values =
     and_then (mark_seen (replicate 7 False) values)
       (\<lambda>seen. Ok (filter (\<lambda>p. seen ! permission_index p) all_permissions))"

section \<open>The canonical order\<close>

lemma permission_index_inj [simp]: "permission_index p = permission_index q \<longleftrightarrow> p = q"
  by (cases p; cases q) simp_all

lemma permission_index_less [simp]: "permission_index p < 7"
  by (cases p) simp_all

instantiation workspace_permission :: linorder
begin

definition less_eq_workspace_permission :: "workspace_permission \<Rightarrow> workspace_permission \<Rightarrow> bool" where
  "p \<le> q \<longleftrightarrow> permission_index p \<le> permission_index q"

definition less_workspace_permission :: "workspace_permission \<Rightarrow> workspace_permission \<Rightarrow> bool" where
  "p < q \<longleftrightarrow> permission_index p < permission_index q"

instance
  by standard (auto simp: less_eq_workspace_permission_def less_workspace_permission_def)

end

lemma set_all_permissions [simp]: "set all_permissions = UNIV"
proof -
  have "p \<in> set all_permissions" for p by (cases p) (simp_all add: all_permissions_def)
  then show ?thesis by auto
qed

lemma distinct_all_permissions: "distinct all_permissions"
  by (simp add: all_permissions_def)

lemma sorted_all_permissions: "sorted all_permissions"
  by (simp add: all_permissions_def less_eq_workspace_permission_def)

section \<open>The bit set\<close>

text \<open>The set of permissions a bit set stands for.\<close>

definition permission_set :: "workspace_permissions \<Rightarrow> workspace_permission set" where
  "permission_set ps = {p. has ps p}"

lemma has_bit: "has ps p \<longleftrightarrow> bit (permission_bits ps) (permission_index p)"
proof -
  have "permission_bit p = push_bit (permission_index p) 1" by (cases p) simp_all
  then show ?thesis
    unfolding has_def
    by (metis and_exp_eq_0_iff_not_bit push_bit_eq_mult mult_1)
qed

lemma has_none [simp]: "\<not> has permissions_none p"
  by (simp add: has_def permissions_none_def)

lemma has_insert [simp]: "has (permissions_insert q ps) p \<longleftrightarrow> p = q \<or> has ps p"
proof -
  have "permission_bit q = push_bit (permission_index q) 1" by (cases q) simp_all
  moreover have "bit (push_bit (permission_index q) (1 :: 8 word)) (permission_index p) \<longleftrightarrow> p = q"
    by (cases p; cases q) simp_all
  ultimately show ?thesis
    by (auto simp: has_bit permissions_insert_def bit_or_iff)
qed

lemma has_fold_insert: "has (fold permissions_insert xs ps) p \<longleftrightarrow> p \<in> set xs \<or> has ps p"
  by (induction xs arbitrary: ps) auto

lemma has_from_iter [simp]: "has (permissions_from_iter xs) p \<longleftrightarrow> p \<in> set xs"
  by (simp add: permissions_from_iter_def has_fold_insert)

lemma permission_set_from_iter [simp]: "permission_set (permissions_from_iter xs) = set xs"
  by (simp add: permission_set_def)

lemma permissions_iter_sorted: "sorted (permissions_iter ps)"
  unfolding permissions_iter_def by (rule sorted_wrt_filter [OF sorted_all_permissions])

lemma permissions_iter_distinct: "distinct (permissions_iter ps)"
  by (simp add: permissions_iter_def distinct_all_permissions)

lemma set_permissions_iter [simp]: "set (permissions_iter ps) = permission_set ps"
  by (auto simp: permissions_iter_def permission_set_def)

section \<open>Names\<close>

lemma permission_from_as_str: "permission_from_str (permission_as_str p) = Inr p"
  by (cases p) (simp_all add: permission_from_str_def)

lemma permission_from_str_Ok:
  "permission_from_str value = Inr p \<Longrightarrow> permission_as_str p = value"
  by (auto simp: permission_from_str_def split: if_splits)

section \<open>Canonical lists\<close>

lemma mark_seen_Ok_iff:
  "length seen = 7 \<Longrightarrow>
   mark_seen seen ps = Inr seen' \<longleftrightarrow>
     distinct ps \<and> (\<forall>p\<in>set ps. \<not> seen ! permission_index p) \<and> length seen' = 7 \<and>
     (\<forall>i<7. seen' ! i \<longleftrightarrow> seen ! i \<or> i \<in> permission_index ` set ps)"
proof (induction ps arbitrary: seen)
  case Nil
  then show ?case by (auto simp: list_eq_iff_nth_eq)
next
  case (Cons p ps)
  have step: "mark_seen (seen[permission_index p := True]) ps = Inr seen' \<longleftrightarrow>
      distinct ps \<and> (\<forall>q\<in>set ps. \<not> seen[permission_index p := True] ! permission_index q) \<and>
      length seen' = 7 \<and>
      (\<forall>i<7. seen' ! i \<longleftrightarrow> seen[permission_index p := True] ! i \<or> i \<in> permission_index ` set ps)"
    using Cons by simp
  have upd: "seen[permission_index p := True] ! i \<longleftrightarrow> i = permission_index p \<or> seen ! i"
    if "i < 7" for i
    using that Cons.prems by (cases "i = permission_index p") auto
  show ?case
    using step upd by (auto simp: Let_def)
qed

lemma canonical_permissions_Ok_iff:
  "canonical_permissions values = Inr ps \<longleftrightarrow>
     distinct values \<and> ps = filter (\<lambda>p. p \<in> set values) all_permissions"
proof
  assume "canonical_permissions values = Inr ps"
  then obtain seen where seen: "mark_seen (replicate 7 False) values = Inr seen"
    and ps: "ps = filter (\<lambda>p. seen ! permission_index p) all_permissions"
    by (auto simp: canonical_permissions_def and_then_Ok_iff)
  from seen have "distinct values" and "\<forall>p. seen ! permission_index p \<longleftrightarrow> p \<in> set values"
    by (auto simp: mark_seen_Ok_iff)
  with ps show "distinct values \<and> ps = filter (\<lambda>p. p \<in> set values) all_permissions"
    by simp
next
  assume rhs: "distinct values \<and> ps = filter (\<lambda>p. p \<in> set values) all_permissions"
  define seen where "seen = map (\<lambda>i. i \<in> permission_index ` set values) [0..<7]"
  have "mark_seen (replicate 7 False) values = Inr seen"
    using rhs by (simp add: mark_seen_Ok_iff seen_def)
  moreover have "seen ! permission_index p \<longleftrightarrow> p \<in> set values" for p
    by (auto simp: seen_def)
  ultimately show "canonical_permissions values = Inr ps"
    using rhs by (simp add: canonical_permissions_def)
qed

lemma mark_seen_Err:
  "mark_seen seen ps = Inl e \<Longrightarrow> \<exists>p\<in>set ps. e = DuplicatePermission (permission_as_str p)"
  by (induction ps arbitrary: seen) (auto simp: Let_def split: if_splits)

section \<open>Properties\<close>

text \<open>
  C40: The canonical form of a list of permissions: it is computed exactly when the list names no
  permission twice, is then the sorted list of the same permissions, does not depend on the order in
  which they were given, and is what iterating over the bit set of the permissions gives.
\<close>

theorem canonical_permissions_exact:
  "canonical_permissions values = Inr ps \<longleftrightarrow>
     distinct values \<and> set ps = set values \<and> sorted ps \<and> distinct ps
     \<and> ps = permissions_iter (permissions_from_iter values)"
proof -
  have iter: "permissions_iter (permissions_from_iter values) = filter (\<lambda>p. p \<in> set values) all_permissions"
    unfolding permissions_iter_def by (rule filter_cong) simp_all
  show ?thesis
    using permissions_iter_sorted [of "permissions_from_iter values"]
      permissions_iter_distinct [of "permissions_from_iter values"]
    by (auto simp: canonical_permissions_Ok_iff iter)
qed

end
