(* ===== verification/Identifiers.thy ===== *)
theory Identifiers
  imports Prelude
begin

text \<open>
  The typed identifiers made by the \<^verbatim>\<open>uuid_id!\<close> macro of \<^verbatim>\<open>src/domain/ids.rs\<close>: one type per kind of
  aggregate, so that an identifier of one kind cannot stand for another, each with its selector
  as the conversion back to \<open>uuid\<close>. \<open>sha256_digest\<close> is the 32-byte digest of
  \<^verbatim>\<open>src/domain/sha256_digest.rs\<close>; the hash function itself is a parameter of the definitions
  that use it.
\<close>

datatype user_id = UserId (user_uuid: uuid)
datatype workspace_id = WorkspaceId (workspace_uuid: uuid)
datatype workspace_invitation_id = WorkspaceInvitationId (invitation_uuid: uuid)
datatype document_id = DocumentId (document_id_uuid: uuid)
datatype evidence_id = EvidenceId (evidence_uuid: uuid)
datatype evidence_submission_id = EvidenceSubmissionId (submission_uuid: uuid)
datatype document_upload_grant_id = DocumentUploadGrantId (document_upload_grant_uuid: uuid)
datatype policy_id = PolicyId (policy_uuid: uuid)
datatype policy_document_upload_grant_id =
  PolicyDocumentUploadGrantId (policy_document_upload_grant_uuid: uuid)
datatype control_id = ControlId (control_uuid: uuid)
datatype framework_requirement_id = FrameworkRequirementId (framework_requirement_uuid: uuid)
datatype agent_connection_id = AgentConnectionId (agent_connection_uuid: uuid)
datatype agent_authorization_transaction_id =
  AgentAuthorizationTransactionId (agent_authorization_transaction_uuid: uuid)
datatype agent_evidence_upload_grant_id =
  AgentEvidenceUploadGrantId (agent_evidence_upload_grant_uuid: uuid)
datatype agent_policy_document_upload_grant_id =
  AgentPolicyDocumentUploadGrantId (agent_policy_document_upload_grant_uuid: uuid)
datatype auditor_access_grant_id = AuditorAccessGrantId (auditor_access_grant_uuid: uuid)
datatype auditor_session_id = AuditorSessionId (auditor_session_uuid: uuid)
datatype auditor_auth_transaction_id =
  AuditorAuthTransactionId (auditor_auth_transaction_uuid: uuid)
datatype oauth_authorization_request_id =
  OAuthAuthorizationRequestId (oauth_authorization_request_uuid: uuid)

type_synonym bytes = "8 word list"

datatype sha256_digest = Sha256Digest (as_bytes: bytes)

text \<open>\<^verbatim>\<open>Sha256Digest::digest\<close> over the hash function of the \<^verbatim>\<open>sha2\<close> crate.\<close>

definition sha256_digest_of :: "(bytes \<Rightarrow> bytes) \<Rightarrow> bytes \<Rightarrow> sha256_digest" where
  "sha256_digest_of sha256 input = Sha256Digest (sha256 input)"

end
