(* ===== verification/Persistence.thy ===== *)
theory Persistence
  imports Validation Identifiers
begin

text \<open>
  The persistence layer the aggregates share: repository errors and the classification of unique
  violations (\<^verbatim>\<open>src/persistence/error.rs\<close>, \<^verbatim>\<open>constraints.rs\<close>), the statement built for a complete
  snapshot (\<^verbatim>\<open>snapshot.rs\<close>), tables as lists of rows with a key column, and the unit of work of
  \<^verbatim>\<open>src/persistence/mod.rs\<close>, which commits an operation's state when it returns \<^verbatim>\<open>Ok\<close> and drops it
  when it returns \<^verbatim>\<open>Err\<close>. A unit of work runs against one state: the row and advisory locks the
  code takes serialise the units of work that touch the same rows.
\<close>

section \<open>Errors\<close>

datatype conflict_kind =
    AgentConnectionExists | WorkspaceSlugTaken | ControlCodeTaken | PolicyNameTaken
  | PolicyControlMappingExists | WorkspaceMembershipExists | EvidenceControlMappingExists

fun conflict_code :: "conflict_kind \<Rightarrow> string" where
  "conflict_code AgentConnectionExists = ''agent_connection_exists''"
| "conflict_code WorkspaceSlugTaken = ''slug_taken''"
| "conflict_code ControlCodeTaken = ''control_code_taken''"
| "conflict_code PolicyNameTaken = ''policy_name_taken''"
| "conflict_code PolicyControlMappingExists = ''policy_control_mapping_exists''"
| "conflict_code WorkspaceMembershipExists = ''user_already_has_workspace''"
| "conflict_code EvidenceControlMappingExists = ''evidence_control_mapping_exists''"

record batch_map_rejection =
  map_unknown :: "uuid list"
  map_archived :: "uuid list"
  map_already_mapped :: "uuid list"

definition map_rejection_is_empty :: "batch_map_rejection \<Rightarrow> bool" where
  "map_rejection_is_empty r \<longleftrightarrow>
     map_unknown r = [] \<and> map_archived r = [] \<and> map_already_mapped r = []"

record batch_unmap_rejection =
  unmap_unknown :: "uuid list"
  unmap_archived :: "uuid list"
  unmap_not_mapped :: "uuid list"

definition unmap_rejection_is_empty :: "batch_unmap_rejection \<Rightarrow> bool" where
  "unmap_rejection_is_empty r \<longleftrightarrow>
     unmap_unknown r = [] \<and> unmap_archived r = [] \<and> unmap_not_mapped r = []"

text \<open>A failure of the driver: one reported by the server with its SQL state, or another one.\<close>

datatype db_failure = DbError string "string option" | DriverFailure

datatype repository_error =
    Database db_failure
  | Conflict conflict_kind
  | PoolFailure
  | InvalidData domain_error
  | InvalidPolicyControlReferences
  | BatchMapRejected batch_map_rejection
  | BatchUnmapRejected batch_unmap_rejection
  | InvariantViolation string

definition conflict_kind_for_constraint :: "string \<Rightarrow> conflict_kind option" where
  "conflict_kind_for_constraint c =
     (if c = ''agent_connections_live_tuple_key'' then Some AgentConnectionExists
      else if c = ''workspaces_slug_key'' then Some WorkspaceSlugTaken
      else if c = ''controls_workspace_id_code_key'' then Some ControlCodeTaken
      else if c = ''policies_workspace_lower_name_active_key'' then Some PolicyNameTaken
      else if c = ''policy_control_mappings_pkey'' then Some PolicyControlMappingExists
      else if c = ''workspace_memberships_pkey'' then Some WorkspaceMembershipExists
      else if c = ''evidence_control_mappings_pkey'' then Some EvidenceControlMappingExists
      else None)"

definition unique_violation :: string where
  "unique_violation = ''23505''"

fun classify_db_error :: "db_failure \<Rightarrow> repository_error" where
  "classify_db_error (DbError code (Some c)) =
     (if code = unique_violation then
        (case conflict_kind_for_constraint c of Some kind \<Rightarrow> Conflict kind
         | None \<Rightarrow> Database (DbError code (Some c)))
      else Database (DbError code (Some c)))"
| "classify_db_error e = Database e"

abbreviation unique_error :: "string \<Rightarrow> repository_error" where
  "unique_error c \<equiv> classify_db_error (DbError unique_violation (Some c))"

lemma classify_db_error_Conflict_iff:
  "classify_db_error e = Conflict kind \<longleftrightarrow>
     (\<exists>c. e = DbError unique_violation (Some c) \<and> conflict_kind_for_constraint c = Some kind)"
  by (cases e rule: classify_db_error.cases) (auto split: option.splits)

lemma conflict_code_inj: "conflict_code a = conflict_code b \<Longrightarrow> a = b"
  by (cases a; cases b) simp_all

text \<open>\<^verbatim>\<open>Vec<u8>::try_into\<close> a 32-byte array.\<close>

definition digest_from_bytes :: "string \<Rightarrow> bytes \<Rightarrow> repository_error + sha256_digest" where
  "digest_from_bytes message bs =
     (if length bs = 32 then Ok (Sha256Digest bs) else Err (InvariantViolation message))"

lemma digest_from_bytes_of [simp]:
  "digest_from_bytes m (as_bytes d) = Inr d \<longleftrightarrow> length (as_bytes d) = 32"
  by (cases d) (simp add: digest_from_bytes_def)

lemma digest_from_bytes_Ok: "digest_from_bytes m bs = Inr d \<longleftrightarrow> d = Sha256Digest bs \<and> length bs = 32"
  by (auto simp: digest_from_bytes_def)

section \<open>Complete snapshots\<close>

record snapshot_metadata =
  snapshot_table :: string
  snapshot_conflict_column :: string
  snapshot_columns :: "string list"

definition build_upsert_sql :: "snapshot_metadata \<Rightarrow> repository_error + string" where
  "build_upsert_sql m =
     (let columns = snapshot_columns m; key = snapshot_conflict_column m in
      if length (filter (\<lambda>c. c = key) columns) \<noteq> 1
        then Err (InvariantViolation ''snapshot must include its conflict column exactly once'')
      else if card (set columns) \<noteq> length columns
        then Err (InvariantViolation ''snapshot columns must be unique'')
      else if length columns < 2
        then Err (InvariantViolation ''snapshot must include a non-conflict column'')
      else
        let placeholders = join_text '', '' (map (\<lambda>i. ''$'' @ show_nat i) [1..<Suc (length columns)]);
            assignments = join_text '', ''
              (map (\<lambda>c. c @ '' = EXCLUDED.'' @ c) (filter (\<lambda>c. c \<noteq> key) columns))
        in Ok (''INSERT INTO '' @ snapshot_table m @ '' ('' @ join_text '', '' columns @ '') VALUES (''
             @ placeholders @ '') ON CONFLICT ('' @ key @ '') DO UPDATE SET '' @ assignments))"

definition ensure_one_affected :: "u64 \<Rightarrow> repository_error + unit" where
  "ensure_one_affected affected =
     (if affected = 1 then Ok ()
      else Err (InvariantViolation ''snapshot save must affect exactly one row''))"

lemma filter_eq_distinct:
  "distinct xs \<Longrightarrow> filter (\<lambda>c. c = k) xs = (if k \<in> set xs then [k] else [])"
  by (induction xs) auto

text \<open>A snapshot is accepted exactly when its columns are distinct, contain the key and one more.\<close>

lemma build_upsert_sql_Ok_iff:
  "is_ok (build_upsert_sql m) \<longleftrightarrow>
     distinct (snapshot_columns m) \<and> snapshot_conflict_column m \<in> set (snapshot_columns m)
     \<and> 2 \<le> length (snapshot_columns m)"
proof -
  let ?cs = "snapshot_columns m"
  have "card (set ?cs) = length ?cs \<longleftrightarrow> distinct ?cs"
    using card_distinct distinct_card by blast
  then show ?thesis
    by (auto simp: build_upsert_sql_def Let_def filter_eq_distinct split: if_splits)
qed

section \<open>Tables\<close>

text \<open>
  A table is the list of its rows. \<open>find_row\<close> selects by key, \<open>upsert_row\<close> is the effect of
  the snapshot statement (replace the row with the same key, append otherwise), and
  \<open>delete_rows\<close> deletes the rows a predicate selects.
\<close>

definition find_row :: "('r \<Rightarrow> 'k) \<Rightarrow> 'k \<Rightarrow> 'r list \<Rightarrow> 'r option" where
  "find_row key k rows = find (\<lambda>r. key r = k) rows"

fun upsert_row :: "('r \<Rightarrow> 'k) \<Rightarrow> 'r \<Rightarrow> 'r list \<Rightarrow> 'r list" where
  "upsert_row key r [] = [r]"
| "upsert_row key r (x # rows) =
     (if key x = key r then r # rows else x # upsert_row key r rows)"

definition delete_rows :: "('r \<Rightarrow> bool) \<Rightarrow> 'r list \<Rightarrow> 'r list" where
  "delete_rows P rows = filter (\<lambda>r. \<not> P r) rows"

definition table_wf :: "('r \<Rightarrow> 'k) \<Rightarrow> 'r list \<Rightarrow> bool" where
  "table_wf key rows \<longleftrightarrow> distinct (map key rows)"

text \<open>What a keyed store promises, and what follows for every client of one.\<close>

locale keyed_store =
  fixes lookup :: "'k \<Rightarrow> 's \<Rightarrow> 'r option"
    and upsert :: "'r \<Rightarrow> 's \<Rightarrow> 's"
    and key :: "'r \<Rightarrow> 'k"
    and ok :: "'s \<Rightarrow> bool"
  assumes lookup_upsert: "lookup k (upsert r s) = (if k = key r then Some r else lookup k s)"
    and lookup_key: "lookup k s = Some r \<Longrightarrow> key r = k"
    and upsert_ok: "ok s \<Longrightarrow> ok (upsert r s)"
begin

lemma lookup_upsert_same: "lookup (key r) (upsert r s) = Some r"
  by (simp add: lookup_upsert)

lemma lookup_upsert_other: "k \<noteq> key r \<Longrightarrow> lookup k (upsert r s) = lookup k s"
  by (simp add: lookup_upsert)

lemma upsert_overwrites:
  "key r = key r' \<Longrightarrow> lookup k (upsert r' (upsert r s)) = lookup k (upsert r' s)"
  by (simp add: lookup_upsert)

lemma upserts_ok: "ok s \<Longrightarrow> ok (fold upsert rs s)"
  by (induction rs arbitrary: s) (auto intro: upsert_ok)

end

lemma find_row_upsert [simp]:
  "find_row key k (upsert_row key r rows) = (if k = key r then Some r else find_row key k rows)"
  by (induction rows) (auto simp: find_row_def)

lemma find_row_SomeD: "find_row key k rows = Some r \<Longrightarrow> r \<in> set rows \<and> key r = k"
  by (auto simp: find_row_def find_Some_iff)

lemma find_row_None_iff: "find_row key k rows = None \<longleftrightarrow> k \<notin> key ` set rows"
  by (auto simp: find_row_def find_None_iff)

lemma upsert_row_keys: "key ` set (upsert_row key r rows) = insert (key r) (key ` set rows)"
  by (induction rows) auto

lemma upsert_row_wf: "table_wf key rows \<Longrightarrow> table_wf key (upsert_row key r rows)"
proof (induction rows)
  case (Cons x rows)
  have "key x \<notin> key ` set (upsert_row key r rows)" if "key x \<noteq> key r"
    using Cons.prems that by (auto simp: upsert_row_keys table_wf_def)
  with Cons show ?case by (auto simp: table_wf_def)
qed (simp add: table_wf_def)

lemma find_row_iff:
  "table_wf key rows \<Longrightarrow> find_row key k rows = Some r \<longleftrightarrow> r \<in> set rows \<and> key r = k"
proof (induction rows)
  case (Cons x rows)
  then show ?case by (auto simp: find_row_def table_wf_def rev_image_eqI split: if_splits)
qed (simp add: find_row_def)

lemma set_upsert_row:
  "table_wf key rows \<Longrightarrow> set (upsert_row key r rows) = insert r {x \<in> set rows. key x \<noteq> key r}"
proof (induction rows)
  case (Cons x rows)
  then show ?case by (auto simp: table_wf_def rev_image_eqI)
qed simp

lemma delete_rows_wf: "table_wf key rows \<Longrightarrow> table_wf key (delete_rows P rows)"
  by (simp add: table_wf_def delete_rows_def distinct_map inj_on_def)

lemma set_delete_rows [simp]: "set (delete_rows P rows) = {r \<in> set rows. \<not> P r}"
  by (auto simp: delete_rows_def)

interpretation rows: keyed_store "find_row key" "upsert_row key" key "table_wf key"
  for key :: "'r \<Rightarrow> 'k"
  by unfold_locales (auto intro: upsert_row_wf dest: find_row_SomeD)

section \<open>Units of work\<close>

type_synonym ('s, 'a) tx = "'s \<Rightarrow> (repository_error + 'a) \<times> 's"

definition tx_return :: "'a \<Rightarrow> ('s, 'a) tx" where
  "tx_return x s = (Ok x, s)"

definition tx_fail :: "repository_error \<Rightarrow> ('s, 'a) tx" where
  "tx_fail e s = (Err e, s)"

definition tx_bind :: "('s, 'a) tx \<Rightarrow> ('a \<Rightarrow> ('s, 'b) tx) \<Rightarrow> ('s, 'b) tx" where
  "tx_bind m f s = (case m s of (Inl e, s') \<Rightarrow> (Inl e, s') | (Inr x, s') \<Rightarrow> f x s')"

text \<open>A query, which may fail and does not change the state, and a statement.\<close>

definition tx_read :: "('s \<Rightarrow> repository_error + 'a) \<Rightarrow> ('s, 'a) tx" where
  "tx_read f s = (f s, s)"

definition tx_write :: "('s \<Rightarrow> repository_error + 's) \<Rightarrow> ('s, unit) tx" where
  "tx_write f s = (case f s of Inl e \<Rightarrow> (Inl e, s) | Inr s' \<Rightarrow> (Inr (), s'))"

definition tx_lift :: "repository_error + 'a \<Rightarrow> ('s, 'a) tx" where
  "tx_lift r s = (r, s)"

definition in_unit_of_work :: "('s, 'a) tx \<Rightarrow> ('s, 'a) tx" where
  "in_unit_of_work operation s =
     (case operation s of (Inl e, s') \<Rightarrow> (Inl e, s) | (Inr x, s') \<Rightarrow> (Inr x, s'))"

lemmas tx_defs = tx_return_def tx_fail_def tx_bind_def tx_read_def tx_write_def tx_lift_def

lemma tx_bind_Ok_iff:
  "tx_bind m f s = (Inr y, t) \<longleftrightarrow> (\<exists>x u. m s = (Inr x, u) \<and> f x u = (Inr y, t))"
  by (auto simp: tx_bind_def split: prod.splits sum.splits)

lemma tx_read_Ok_iff [simp]: "tx_read f s = (Inr y, t) \<longleftrightarrow> f s = Inr y \<and> t = s"
  by (auto simp: tx_read_def)

lemma tx_write_Ok_iff [simp]: "tx_write f s = (Inr u, t) \<longleftrightarrow> f s = Inr t"
  by (auto simp: tx_write_def split: sum.splits)

lemma tx_lift_Ok_iff [simp]: "tx_lift r s = (Inr y, t) \<longleftrightarrow> r = Inr y \<and> t = s"
  by (auto simp: tx_lift_def)

lemma tx_return_Ok_iff [simp]: "tx_return x s = (Inr y, t) \<longleftrightarrow> y = x \<and> t = s"
  by (auto simp: tx_return_def)

lemma tx_fail_Ok_iff [simp]: "\<not> tx_fail e s = (Inr y, t)"
  by (simp add: tx_fail_def)

lemma unit_of_work_Ok_iff [simp]: "in_unit_of_work m s = (Inr y, t) \<longleftrightarrow> m s = (Inr y, t)"
  by (auto simp: in_unit_of_work_def split: prod.splits sum.splits)

lemma unit_of_work_Err: "in_unit_of_work m s = (Inl e, t) \<Longrightarrow> t = s"
  by (auto simp: in_unit_of_work_def split: prod.splits sum.splits)

text \<open>
  What holds after every successful run of an operation, as a function of the state it starts from:
  one equation per construct, so that the postcondition of a whole handler unfolds by rewriting with
  \<open>tx_post\<close>.
\<close>

definition tx_ensures :: "('s, 'a) tx \<Rightarrow> ('a \<Rightarrow> 's \<Rightarrow> bool) \<Rightarrow> 's \<Rightarrow> bool" where
  "tx_ensures m Q s \<longleftrightarrow> (\<forall>x t. m s = (Inr x, t) \<longrightarrow> Q x t)"

lemma tx_ensures_bind [tx_post]:
  "tx_ensures (tx_bind m f) Q s \<longleftrightarrow> tx_ensures m (\<lambda>x. tx_ensures (f x) Q) s"
  by (auto simp: tx_ensures_def tx_bind_Ok_iff)

lemma tx_ensures_return [tx_post]: "tx_ensures (tx_return x) Q s \<longleftrightarrow> Q x s"
  by (simp add: tx_ensures_def)

lemma tx_ensures_fail [tx_post]: "tx_ensures (tx_fail e) Q s"
  by (simp add: tx_ensures_def)

lemma tx_ensures_read [tx_post]: "tx_ensures (tx_read f) Q s \<longleftrightarrow> (\<forall>x. f s = Inr x \<longrightarrow> Q x s)"
  by (simp add: tx_ensures_def)

lemma tx_ensures_write [tx_post]: "tx_ensures (tx_write f) Q s \<longleftrightarrow> (\<forall>t. f s = Inr t \<longrightarrow> Q () t)"
  by (auto simp: tx_ensures_def)

lemma tx_ensures_lift [tx_post]: "tx_ensures (tx_lift r) Q s \<longleftrightarrow> (\<forall>x. r = Inr x \<longrightarrow> Q x s)"
  by (simp add: tx_ensures_def)

lemma tx_ensures_if [tx_post]:
  "tx_ensures (if b then m else n) Q s \<longleftrightarrow> (b \<longrightarrow> tx_ensures m Q s) \<and> (\<not> b \<longrightarrow> tx_ensures n Q s)"
  by simp

lemma tx_ensures_option [tx_post]:
  "tx_ensures (case x of None \<Rightarrow> m | Some y \<Rightarrow> f y) Q s \<longleftrightarrow>
     (x = None \<longrightarrow> tx_ensures m Q s) \<and> (\<forall>y. x = Some y \<longrightarrow> tx_ensures (f y) Q s)"
  by (simp split: option.split)

lemma tx_ensures_sum [tx_post]:
  "tx_ensures (case x of Inl e \<Rightarrow> f e | Inr y \<Rightarrow> g y) Q s \<longleftrightarrow>
     (\<forall>e. x = Inl e \<longrightarrow> tx_ensures (f e) Q s) \<and> (\<forall>y. x = Inr y \<longrightarrow> tx_ensures (g y) Q s)"
  by (simp split: sum.split)

lemma tx_ensures_pair [tx_post]:
  "tx_ensures (case x of (a, b) \<Rightarrow> f a b) Q s \<longleftrightarrow> tx_ensures (f (fst x) (snd x)) Q s"
  by (simp add: case_prod_beta)

lemma tx_ensuresD: "tx_ensures m Q s \<Longrightarrow> m s = (Inr x, t) \<Longrightarrow> Q x t"
  by (simp add: tx_ensures_def)

lemma tx_ensures_unit_of_work [tx_post]:
  "tx_ensures (in_unit_of_work m) Q s \<longleftrightarrow> tx_ensures m Q s"
  by (simp add: tx_ensures_def)

text \<open>
  A unit of work changes the state only where it succeeds: what a successful run ensures of the state, and
  what holds of the state before, holds after.
\<close>

lemma unit_of_work_post:
  assumes "tx_ensures m (\<lambda>x t. P t) s" and "P s"
  shows "P (snd (in_unit_of_work m s))"
  using assms by (auto simp: tx_ensures_def in_unit_of_work_def split: prod.splits sum.splits)

text \<open>An invariant of the successful runs of an operation is one of its unit of work.\<close>

lemma unit_of_work_invariant:
  assumes "\<And>x t. m s = (Inr x, t) \<Longrightarrow> P t" and "P s"
  shows "P (snd (in_unit_of_work m s))"
  using assms by (auto simp: in_unit_of_work_def split: prod.splits sum.splits)

section \<open>Properties\<close>

text \<open>
  A snapshot statement is built exactly when the columns are distinct, contain the key of the
  conflict and at least one other column; its effect on a table makes the written row the one found
  under its key, leaves every other key as it was and keeps the keys of the table distinct.
\<close>

theorem snapshot_save_exact:
  assumes "table_wf key rows"
  shows "(is_ok (build_upsert_sql m) \<longleftrightarrow>
      distinct (snapshot_columns m) \<and> snapshot_conflict_column m \<in> set (snapshot_columns m)
      \<and> 2 \<le> length (snapshot_columns m))
   \<and> find_row key k (upsert_row key r rows) = (if k = key r then Some r else find_row key k rows)
   \<and> set (upsert_row key r rows) = insert r {x \<in> set rows. key x \<noteq> key r}
   \<and> table_wf key (upsert_row key r rows)"
  using build_upsert_sql_Ok_iff [of m] set_upsert_row [OF assms] rows.upsert_ok [OF assms] by simp

theorem snapshot_save_exact_witness:
  "find_row fst (1::nat) (upsert_row fst (1, ''b'') [(1, ''a''), (2, ''c'')]) = Some (1, ''b'')"
  using snapshot_save_exact [of fst "[(1::nat, ''a''), (2, ''c'')]" _ 1 "(1, ''b'')"]
  by (simp add: table_wf_def)

end
