(* ===== verification/Workspaces.thy ===== *)
theory Workspaces
  imports Identifiers Persistence "HOL-Library.Multiset" "HOL-Library.Product_Lexorder"
begin

text \<open>
  The workspace aggregate and its memberships (\<^verbatim>\<open>src/domain/workspace.rs\<close>) with the repository
  that saves and loads it (\<^verbatim>\<open>src/persistence/aggregates/workspaces.rs\<close>). A workspace keeps its
  memberships in its own scope, one per user, with at least one owner; a member is removed only by
  another member and never the last owner. Loading orders the memberships by time and user, so a
  reload gives the saved workspace up to that order.
\<close>

section \<open>The aggregate\<close>

datatype workspace_role = Owner | Admin

fun role_as_str :: "workspace_role \<Rightarrow> string" where
  "role_as_str Owner = ''owner''"
| "role_as_str Admin = ''admin''"

definition role_from_str :: "string \<Rightarrow> unit + workspace_role" where
  "role_from_str value =
     (if value = ''owner'' then Ok Owner else if value = ''admin'' then Ok Admin else Err ())"

record workspace_membership =
  mem_user_id :: user_id
  mem_workspace_id :: workspace_id
  mem_role :: workspace_role
  mem_created_at :: datetime

record workspace =
  ws_id :: workspace_id
  ws_slug :: "string option"
  ws_name :: string
  ws_created_at :: datetime
  ws_memberships :: "workspace_membership list"

datatype workspace_error = InvalidMemberships | AlreadyMember

datatype workspace_member_error = MemberUnavailable | MemberNotFound | LastOwner | SelfRemoval

definition create_owned ::
  "workspace_id \<Rightarrow> string option \<Rightarrow> string \<Rightarrow> datetime \<Rightarrow> user_id \<Rightarrow> workspace" where
  "create_owned i slug nm created_at owner_user_id =
     \<lparr>ws_id = i, ws_slug = slug, ws_name = nm, ws_created_at = created_at,
      ws_memberships = [\<lparr>mem_user_id = owner_user_id, mem_workspace_id = i, mem_role = Owner,
                          mem_created_at = created_at\<rparr>]\<rparr>"

definition workspace_rehydrate ::
  "workspace_id \<Rightarrow> string option \<Rightarrow> string \<Rightarrow> datetime \<Rightarrow> workspace_membership list
   \<Rightarrow> workspace_error + workspace" where
  "workspace_rehydrate i slug nm created_at memberships =
     (let scoped = list_all (\<lambda>m. mem_workspace_id m = i) memberships;
          unique_users = card (set (map mem_user_id memberships)) = length memberships;
          has_owner = list_ex (\<lambda>m. mem_role m = Owner) memberships
      in if \<not> scoped \<or> \<not> unique_users \<or> \<not> has_owner then Err InvalidMemberships
         else Ok \<lparr>ws_id = i, ws_slug = slug, ws_name = nm, ws_created_at = created_at,
                  ws_memberships = memberships\<rparr>)"

definition role_for :: "user_id \<Rightarrow> workspace \<Rightarrow> workspace_role option" where
  "role_for u w = map_option mem_role (find (\<lambda>m. mem_user_id m = u) (ws_memberships w))"

definition add_member ::
  "user_id \<Rightarrow> workspace_role \<Rightarrow> datetime \<Rightarrow> workspace \<Rightarrow> workspace_error + workspace" where
  "add_member u role created_at w =
     (if role_for u w \<noteq> None then Err AlreadyMember
      else Ok (w\<lparr>ws_memberships := ws_memberships w @
             [\<lparr>mem_user_id = u, mem_workspace_id = ws_id w, mem_role = role,
               mem_created_at = created_at\<rparr>]\<rparr>))"

definition owner_count :: "workspace \<Rightarrow> nat" where
  "owner_count w = length (filter (\<lambda>m. mem_role m = Owner) (ws_memberships w))"

definition remove_member ::
  "user_id \<Rightarrow> user_id \<Rightarrow> workspace \<Rightarrow> workspace_member_error + workspace" where
  "remove_member actor target w =
     (if role_for actor w \<notin> {Some Owner, Some Admin} then Err MemberUnavailable
      else case position (\<lambda>m. mem_user_id m = target) (ws_memberships w) of
        None \<Rightarrow> Err MemberNotFound
      | Some index \<Rightarrow>
          if mem_role (ws_memberships w ! index) = Owner \<and> owner_count w = 1 then Err LastOwner
          else if actor = target then Err SelfRemoval
          else Ok (w\<lparr>ws_memberships := vec_remove index (ws_memberships w)\<rparr>))"

section \<open>The repository\<close>

record membership_record =
  memrec_user_id :: uuid
  memrec_workspace_id :: uuid
  memrec_role :: string
  memrec_created_at :: datetime

definition membership_from_domain :: "workspace_membership \<Rightarrow> membership_record" where
  "membership_from_domain m =
     \<lparr>memrec_user_id = user_uuid (mem_user_id m),
      memrec_workspace_id = workspace_uuid (mem_workspace_id m),
      memrec_role = role_as_str (mem_role m),
      memrec_created_at = mem_created_at m\<rparr>"

definition workspace_membership_from_row ::
  "membership_record \<Rightarrow> repository_error + workspace_membership" where
  "workspace_membership_from_row r =
     and_then (map_err (\<lambda>_. InvariantViolation ''unknown workspace membership role'')
                 (role_from_str (memrec_role r))) (\<lambda>role.
       Ok \<lparr>mem_user_id = UserId (memrec_user_id r),
           mem_workspace_id = WorkspaceId (memrec_workspace_id r),
           mem_role = role, mem_created_at = memrec_created_at r\<rparr>)"

record workspace_record =
  wsrec_id :: uuid
  wsrec_slug :: "string option"
  wsrec_name :: string
  wsrec_created_at :: datetime

definition workspace_from_domain :: "workspace \<Rightarrow> workspace_record" where
  "workspace_from_domain w =
     \<lparr>wsrec_id = workspace_uuid (ws_id w), wsrec_slug = ws_slug w, wsrec_name = ws_name w,
      wsrec_created_at = ws_created_at w\<rparr>"

definition workspace_into_domain ::
  "workspace_record \<Rightarrow> workspace_membership list \<Rightarrow> repository_error + workspace" where
  "workspace_into_domain r memberships =
     map_err (\<lambda>_. InvariantViolation ''persisted workspace membership snapshot is inconsistent'')
       (workspace_rehydrate (WorkspaceId (wsrec_id r)) (wsrec_slug r) (wsrec_name r)
          (wsrec_created_at r) memberships)"

record workspace_tables =
  workspaces_table :: "workspace_record list"
  memberships_table :: "membership_record list"

definition membership_order :: "membership_record \<Rightarrow> datetime \<times> uuid" where
  "membership_order r = (memrec_created_at r, memrec_user_id r)"

definition aggregate_from_workspace_row ::
  "workspace_record \<Rightarrow> membership_record list \<Rightarrow> repository_error + workspace" where
  "aggregate_from_workspace_row row memberships =
     and_then
       (collect_results (map workspace_membership_from_row
          (sort_key membership_order
            (filter (\<lambda>m. memrec_workspace_id m = wsrec_id row) memberships))))
       (workspace_into_domain row)"

definition workspace_get ::
  "workspace_id \<Rightarrow> workspace_tables \<Rightarrow> repository_error + workspace option" where
  "workspace_get i t =
     (case find_row wsrec_id (workspace_uuid i) (workspaces_table t) of
        None \<Rightarrow> Ok None
      | Some row \<Rightarrow>
          and_then (aggregate_from_workspace_row row (memberships_table t)) (\<lambda>w. Ok (Some w)))"

text \<open>
  The snapshot statement on \<^verbatim>\<open>workspaces\<close> fails where another workspace has the slug
  (\<^verbatim>\<open>workspaces_slug_key\<close>), the membership insert where the user is in the table already
  (\<^verbatim>\<open>workspace_memberships_pkey\<close>, the primary key is the user).
\<close>

definition slug_taken :: "workspace_record \<Rightarrow> workspace_record list \<Rightarrow> bool" where
  "slug_taken r rows \<longleftrightarrow>
     list_ex (\<lambda>x. wsrec_id x \<noteq> wsrec_id r \<and> wsrec_slug x \<noteq> None \<and> wsrec_slug x = wsrec_slug r) rows"

fun insert_memberships ::
  "workspace_membership list \<Rightarrow> membership_record list \<Rightarrow> repository_error + membership_record list"
where
  "insert_memberships [] rows = Ok rows"
| "insert_memberships (m # ms) rows =
     (if memrec_user_id (membership_from_domain m) \<in> memrec_user_id ` set rows
      then Err (unique_error ''workspace_memberships_pkey'')
      else insert_memberships ms (rows @ [membership_from_domain m]))"

definition workspace_save ::
  "workspace \<Rightarrow> workspace_tables \<Rightarrow> repository_error + workspace_tables" where
  "workspace_save w t =
     (let r = workspace_from_domain w in
      if slug_taken r (workspaces_table t) then Err (unique_error ''workspaces_slug_key'')
      else and_then
        (insert_memberships (ws_memberships w)
          (delete_rows (\<lambda>m. memrec_workspace_id m = workspace_uuid (ws_id w)) (memberships_table t)))
        (\<lambda>ms. Ok \<lparr>workspaces_table = upsert_row wsrec_id r (workspaces_table t),
                  memberships_table = ms\<rparr>))"

section \<open>The invariant\<close>

definition wf_workspace :: "workspace \<Rightarrow> bool" where
  "wf_workspace w \<longleftrightarrow>
     (\<forall>m \<in> set (ws_memberships w). mem_workspace_id m = ws_id w)
     \<and> distinct (map mem_user_id (ws_memberships w))
     \<and> (\<exists>m \<in> set (ws_memberships w). mem_role m = Owner)"

lemma role_round_trip [simp]: "role_from_str (role_as_str r) = Inr r"
  by (cases r) (simp_all add: role_from_str_def)

lemma role_from_str_Ok: "role_from_str value = Inr r \<Longrightarrow> role_as_str r = value"
  by (auto simp: role_from_str_def split: if_splits)

lemma card_users_distinct: "card (set (map f xs)) = length xs \<longleftrightarrow> distinct (map f xs)"
  using card_distinct [of "map f xs"] distinct_card [of "map f xs"] by auto

lemma workspace_rehydrate_Ok_iff:
  "workspace_rehydrate i slug nm t ms = Inr w \<longleftrightarrow>
     w = \<lparr>ws_id = i, ws_slug = slug, ws_name = nm, ws_created_at = t, ws_memberships = ms\<rparr>
     \<and> wf_workspace w"
  unfolding workspace_rehydrate_def Let_def card_users_distinct
  by (auto simp: wf_workspace_def list_all_iff list_ex_iff split: if_splits)

lemma create_owned_wf: "wf_workspace (create_owned i slug nm t u)"
  by (simp add: create_owned_def wf_workspace_def)

lemma role_for_None_iff: "role_for u w = None \<longleftrightarrow> u \<notin> mem_user_id ` set (ws_memberships w)"
  by (auto simp: role_for_def find_None_iff)

lemma role_for_Some_iff:
  "wf_workspace w \<Longrightarrow>
     role_for u w = Some r \<longleftrightarrow>
       (\<exists>m \<in> set (ws_memberships w). mem_user_id m = u \<and> mem_role m = r)"
  using find_row_iff [of mem_user_id "ws_memberships w" u]
  by (auto simp: role_for_def find_row_def table_wf_def wf_workspace_def)

lemma add_member_wf: "wf_workspace w \<Longrightarrow> add_member u r t w = Inr w' \<Longrightarrow> wf_workspace w'"
  by (auto simp: add_member_def role_for_None_iff wf_workspace_def split: if_splits)

text \<open>What a successful removal does: the target's membership goes, every other one stays.\<close>

lemma remove_member_Ok:
  assumes "wf_workspace w" and "remove_member actor target w = Inr w'"
  obtains ys m zs where "ws_memberships w = ys @ m # zs" and "mem_user_id m = target"
    and "w' = w\<lparr>ws_memberships := ys @ zs\<rparr>" and "actor \<noteq> target"
    and "role_for actor w \<noteq> None"
    and "mem_role m = Owner \<Longrightarrow> owner_count w \<noteq> 1"
proof -
  from assms(2) obtain i where
    i: "position (\<lambda>m. mem_user_id m = target) (ws_memberships w) = Some i"
    and rest: "w' = w\<lparr>ws_memberships := vec_remove i (ws_memberships w)\<rparr>" "actor \<noteq> target"
      "role_for actor w \<noteq> None"
      "mem_role (ws_memberships w ! i) = Owner \<Longrightarrow> owner_count w \<noteq> 1"
    by (auto simp: remove_member_def split: if_splits option.splits)
  from vec_remove_split position_SomeD [OF i] obtain ys zs where
    "ws_memberships w = ys @ ws_memberships w ! i # zs"
    "vec_remove i (ws_memberships w) = ys @ zs" by blast
  with rest position_SomeD [OF i] show ?thesis by (intro that) auto
qed

lemma remove_member_wf:
  assumes "wf_workspace w" and "remove_member actor target w = Inr w'"
  shows "wf_workspace w'"
  using assms
proof (rule remove_member_Ok)
  fix ys m zs
  assume *: "ws_memberships w = ys @ m # zs" "w' = w\<lparr>ws_memberships := ys @ zs\<rparr>"
    "mem_role m = Owner \<Longrightarrow> owner_count w \<noteq> 1"
  have "\<exists>x \<in> set (ys @ zs). mem_role x = Owner"
  proof (rule ccontr)
    assume "\<not> ?thesis"
    then have "filter (\<lambda>m. mem_role m = Owner) (ys @ zs) = []" by (auto simp: filter_empty_conv)
    then show False using * assms(1) by (auto simp: wf_workspace_def owner_count_def filter_empty_conv split: if_splits)
  qed
  with * assms(1) show ?thesis by (auto simp: wf_workspace_def)
qed

datatype workspace_op = AddMemberOp user_id workspace_role datetime | RemoveMemberOp user_id user_id

text \<open>An operation that is refused leaves the workspace as it was.\<close>

fun workspace_step :: "workspace_op \<Rightarrow> workspace \<Rightarrow> workspace" where
  "workspace_step (AddMemberOp u r t) w = (case add_member u r t w of Inl e \<Rightarrow> w | Inr w' \<Rightarrow> w')"
| "workspace_step (RemoveMemberOp a u) w =
     (case remove_member a u w of Inl e \<Rightarrow> w | Inr w' \<Rightarrow> w')"

lemma workspace_step_wf: "wf_workspace w \<Longrightarrow> wf_workspace (workspace_step op w)"
  by (cases op) (auto split: sum.splits intro: add_member_wf remove_member_wf)

interpretation ws: aggregate workspace_step "\<lambda>_ _. True" wf_workspace
  by unfold_locales (rule workspace_step_wf)

section \<open>Saving and loading\<close>

lemma membership_reload [simp]:
  "workspace_membership_from_row (membership_from_domain m) = Inr m"
  by (simp add: workspace_membership_from_row_def membership_from_domain_def)

lemma memrec_from_domain [simp]:
  "memrec_workspace_id (membership_from_domain m) = workspace_uuid (mem_workspace_id m)"
  "memrec_user_id (membership_from_domain m) = user_uuid (mem_user_id m)"
  by (simp_all add: membership_from_domain_def)

lemma wsrec_id_from_domain [simp]: "wsrec_id (workspace_from_domain w) = workspace_uuid (ws_id w)"
  by (simp add: workspace_from_domain_def)

definition ordered_memberships :: "workspace \<Rightarrow> workspace" where
  "ordered_memberships w = w\<lparr>ws_memberships :=
     sort_key (\<lambda>m. (mem_created_at m, user_uuid (mem_user_id m))) (ws_memberships w)\<rparr>"

lemma ordered_memberships_mset:
  "mset (ws_memberships (ordered_memberships w)) = mset (ws_memberships w)"
  by (simp add: ordered_memberships_def)

lemma ordered_memberships_wf: "wf_workspace (ordered_memberships w) \<longleftrightarrow> wf_workspace w"
proof -
  have "distinct (map mem_user_id (sort_key k (ws_memberships w)))
      \<longleftrightarrow> distinct (map mem_user_id (ws_memberships w))" for k :: "_ \<Rightarrow> int \<times> uuid"
    by (simp add: distinct_map)
  then show ?thesis by (simp add: wf_workspace_def ordered_memberships_def)
qed

lemma insert_memberships_Ok:
  "insert_memberships ms rows = Inr rows' \<Longrightarrow>
     rows' = rows @ map membership_from_domain ms
     \<and> (table_wf memrec_user_id rows \<longrightarrow> table_wf memrec_user_id rows')"
proof (induction ms arbitrary: rows)
  case (Cons m ms)
  let ?rows = "rows @ [membership_from_domain m]"
  have new: "user_uuid (mem_user_id m) \<notin> memrec_user_id ` set rows"
    and rest: "insert_memberships ms ?rows = Inr rows'"
    using Cons.prems by (auto split: if_splits)
  have "table_wf memrec_user_id rows \<Longrightarrow> table_wf memrec_user_id ?rows"
    using new by (simp add: table_wf_def)
  with Cons.IH [OF rest] show ?case by auto
qed simp

lemma workspace_save_Ok:
  assumes "workspace_save w t = Inr t'"
  shows "workspaces_table t' = upsert_row wsrec_id (workspace_from_domain w) (workspaces_table t)"
    and "memberships_table t' =
           delete_rows (\<lambda>m. memrec_workspace_id m = workspace_uuid (ws_id w)) (memberships_table t)
           @ map membership_from_domain (ws_memberships w)"
    and "table_wf memrec_user_id (memberships_table t) \<Longrightarrow>
           table_wf memrec_user_id (memberships_table t')"
    and "\<not> slug_taken (workspace_from_domain w) (workspaces_table t)"
  using assms delete_rows_wf [of memrec_user_id "memberships_table t"]
  by (auto simp: workspace_save_def Let_def and_then_Ok_iff split: if_splits
      dest!: insert_memberships_Ok)

lemma aggregate_from_saved_row:
  assumes "wf_workspace w"
    and "filter (\<lambda>m. memrec_workspace_id m = workspace_uuid (ws_id w)) ms
         = map membership_from_domain (ws_memberships w)"
  shows "aggregate_from_workspace_row (workspace_from_domain w) ms = Inr (ordered_memberships w)"
proof -
  have "map workspace_membership_from_row
      (sort_key membership_order (map membership_from_domain (ws_memberships w)))
    = map Inr (ws_memberships (ordered_memberships w))"
    by (simp add: sort_key_map ordered_memberships_def membership_order_def membership_from_domain_def
        workspace_membership_from_row_def)
  then have "collect_results (map workspace_membership_from_row
      (sort_key membership_order (map membership_from_domain (ws_memberships w))))
    = Inr (ws_memberships (ordered_memberships w))"
    using collect_results_map [of "ws_memberships (ordered_memberships w)" Inr "\<lambda>x. x"]
    by (simp del: map_map)
  moreover have "workspace_rehydrate (ws_id w) (ws_slug w) (ws_name w) (ws_created_at w)
      (ws_memberships (ordered_memberships w)) = Inr (ordered_memberships w)"
    using assms(1) by (simp add: workspace_rehydrate_Ok_iff ordered_memberships_wf)
      (simp add: ordered_memberships_def)
  ultimately show ?thesis
    using assms(2)
    by (simp add: aggregate_from_workspace_row_def workspace_into_domain_def workspace_from_domain_def)
qed

lemma saved_membership_rows:
  assumes "workspace_save w t = Inr t'" and "wf_workspace w"
  shows "filter (\<lambda>m. memrec_workspace_id m = workspace_uuid (ws_id w)) (memberships_table t')
         = map membership_from_domain (ws_memberships w)"
  using assms(2) unfolding workspace_save_Ok(2) [OF assms(1)]
  by (auto simp: delete_rows_def wf_workspace_def filter_empty_conv filter_map comp_def
      intro: filter_True)

lemma workspace_save_get:
  assumes "workspace_save w t = Inr t'" and "wf_workspace w"
  shows "workspace_get (ws_id w) t' = Inr (Some (ordered_memberships w))"
  using aggregate_from_saved_row [OF assms(2) saved_membership_rows [OF assms]]
  by (simp add: workspace_get_def workspace_save_Ok(1) [OF assms(1)])

lemma other_membership_rows:
  assumes "workspace_save w t = Inr t'" and "wf_workspace w" and "k \<noteq> workspace_uuid (ws_id w)"
  shows "filter (\<lambda>m. memrec_workspace_id m = k) (memberships_table t')
         = filter (\<lambda>m. memrec_workspace_id m = k) (memberships_table t)"
  using assms(2,3) unfolding workspace_save_Ok(2) [OF assms(1)]
  by (auto simp: delete_rows_def wf_workspace_def filter_map filter_empty_conv
      intro: filter_cong)

lemma workspace_save_get_other:
  assumes "workspace_save w t = Inr t'" and "wf_workspace w" and "i \<noteq> ws_id w"
  shows "workspace_get i t' = workspace_get i t"
proof -
  have k: "workspace_uuid i \<noteq> workspace_uuid (ws_id w)"
    using assms(3) by (metis workspace_id.expand)
  then have "aggregate_from_workspace_row row (memberships_table t')
      = aggregate_from_workspace_row row (memberships_table t)"
    if "find_row wsrec_id (workspace_uuid i) (workspaces_table t) = Some row" for row
    using other_membership_rows [OF assms(1,2) k] find_row_SomeD [OF that]
    by (simp add: aggregate_from_workspace_row_def)
  with k show ?thesis
    by (auto simp: workspace_get_def workspace_save_Ok(1) [OF assms(1)] split: option.splits)
qed

text \<open>
  The tables are consistent when their keys are, and every workspace row loads: its memberships
  have known roles and contain an owner.
\<close>

definition wf_workspace_tables :: "workspace_tables \<Rightarrow> bool" where
  "wf_workspace_tables t \<longleftrightarrow>
     table_wf wsrec_id (workspaces_table t) \<and> table_wf memrec_user_id (memberships_table t)
     \<and> (\<forall>r \<in> set (workspaces_table t). is_ok (aggregate_from_workspace_row r (memberships_table t)))"

lemma workspace_save_wf_tables:
  assumes "workspace_save w t = Inr t'" and "wf_workspace w" and "wf_workspace_tables t"
  shows "wf_workspace_tables t'"
proof -
  have keys: "table_wf wsrec_id (workspaces_table t)" "table_wf memrec_user_id (memberships_table t)"
    using assms(3) by (auto simp: wf_workspace_tables_def)
  have "is_ok (aggregate_from_workspace_row r (memberships_table t'))"
    if r: "r \<in> set (workspaces_table t')" for r
  proof (cases "wsrec_id r = workspace_uuid (ws_id w)")
    case True
    with r keys have "r = workspace_from_domain w"
      by (auto simp: workspace_save_Ok(1) [OF assms(1)] set_upsert_row)
    then show ?thesis
      using aggregate_from_saved_row [OF assms(2) saved_membership_rows [OF assms(1,2)]] by simp
  next
    case False
    with r keys have "r \<in> set (workspaces_table t)"
      by (auto simp: workspace_save_Ok(1) [OF assms(1)] set_upsert_row)
    with False other_membership_rows [OF assms(1,2) False] assms(3) show ?thesis
      by (auto simp: wf_workspace_tables_def aggregate_from_workspace_row_def)
  qed
  then show ?thesis
    using keys workspace_save_Ok(3) [OF assms(1)]
    by (simp add: wf_workspace_tables_def workspace_save_Ok(1) [OF assms(1)] upsert_row_wf)
qed

lemma workspace_get_wf: "workspace_get i t = Inr (Some w) \<Longrightarrow> wf_workspace w \<and> ws_id w = i"
  by (auto simp: workspace_get_def aggregate_from_workspace_row_def workspace_into_domain_def
      and_then_Ok_iff workspace_rehydrate_Ok_iff split: option.splits dest!: find_row_SomeD)

section \<open>Properties\<close>

lemma role_cases: "r = Some Owner \<or> r = Some Admin \<or> r = None"
  by (metis not_None_eq workspace_role.exhaust)

lemma filter_other_users:
  assumes "distinct (map mem_user_id (ys @ m # zs))"
  shows "filter (\<lambda>x. mem_user_id x \<noteq> mem_user_id m) (ys @ m # zs) = ys @ zs"
proof -
  have "\<forall>x \<in> set (ys @ zs). mem_user_id x \<noteq> mem_user_id m"
    using assms by (auto simp: image_iff)
  then show ?thesis by (simp add: filter_id_conv)
qed

lemma workspace_step_id: "ws_id (workspace_step op w) = ws_id w"
  by (cases op) (auto simp: add_member_def remove_member_def split: sum.splits if_splits option.splits)

text \<open>
  Whatever sequence of members is added and removed, a workspace created for an owner keeps an
  owner, keeps one membership per user and keeps every membership in its own scope, and the
  workspace loads from the record written for it.
\<close>

theorem owned_workspace_keeps_owner:
  "let w = fold workspace_step ops (create_owned i slug nm t u) in
     list_ex (\<lambda>m. mem_role m = Owner) (ws_memberships w)
     \<and> distinct (map mem_user_id (ws_memberships w))
     \<and> list_all (\<lambda>m. mem_workspace_id m = i) (ws_memberships w)
     \<and> workspace_into_domain (workspace_from_domain w) (ws_memberships w) = Inr w"
proof -
  let ?w = "fold workspace_step ops (create_owned i slug nm t u)"
  have "wf_workspace ?w" using ws.run_wf [OF create_owned_wf] by simp
  moreover have "ws_id ?w = i"
    using fold_keeps [of ws_id workspace_step ops] workspace_step_id by (simp add: create_owned_def)
  ultimately show ?thesis
    by (auto simp: wf_workspace_def workspace_into_domain_def workspace_from_domain_def
        workspace_rehydrate_Ok_iff Let_def list_all_iff list_ex_iff)
qed

text \<open>
  Removing a member succeeds exactly when the actor is a member, the target is another member
  and the target is not the only owner; the result is the workspace without the target's membership.
\<close>

theorem remove_member_exact:
  assumes "wf_workspace w"
  shows "remove_member actor target w = Inr w' \<longleftrightarrow>
     role_for actor w \<noteq> None \<and> role_for target w \<noteq> None \<and> actor \<noteq> target
     \<and> \<not> (role_for target w = Some Owner \<and> owner_count w = 1)
     \<and> w' = w\<lparr>ws_memberships := filter (\<lambda>m. mem_user_id m \<noteq> target) (ws_memberships w)\<rparr>"
proof -
  let ?ms = "ws_memberships w"
  have actor: "role_for actor w \<in> {Some Owner, Some Admin} \<longleftrightarrow> role_for actor w \<noteq> None"
    using role_cases [of "role_for actor w"] by auto
  show ?thesis
  proof (cases "position (\<lambda>m. mem_user_id m = target) ?ms")
    case None
    then have "role_for target w = None"
      by (auto simp: position_None_iff role_for_None_iff)
    with None show ?thesis by (simp add: remove_member_def)
  next
    case (Some i)
    note i = position_SomeD [OF Some]
    from vec_remove_split i obtain ys zs where
      split: "?ms = ys @ ?ms ! i # zs" "vec_remove i ?ms = ys @ zs" by blast
    have "distinct (map mem_user_id (ys @ ?ms ! i # zs))"
      using assms split(1) by (simp add: wf_workspace_def)
    from filter_other_users [OF this] have "filter (\<lambda>m. mem_user_id m \<noteq> target) ?ms = vec_remove i ?ms"
      using i split by metis
    moreover have "role_for target w = Some (mem_role (?ms ! i))"
      using i by (auto simp: role_for_Some_iff [OF assms])
    ultimately show ?thesis
      using Some actor by (auto simp: remove_member_def)
  qed
qed

theorem remove_member_exact_witness:
  "wf_workspace \<lparr>ws_id = WorkspaceId 7, ws_slug = None, ws_name = ''acme'', ws_created_at = 1,
      ws_memberships = [\<lparr>mem_user_id = UserId 1, mem_workspace_id = WorkspaceId 7, mem_role = Owner, mem_created_at = 1\<rparr>]\<rparr>
   \<and> \<not> is_ok (remove_member (UserId 1) (UserId 1)
      \<lparr>ws_id = WorkspaceId 7, ws_slug = None, ws_name = ''acme'', ws_created_at = 1,
      ws_memberships = [\<lparr>mem_user_id = UserId 1, mem_workspace_id = WorkspaceId 7, mem_role = Owner, mem_created_at = 1\<rparr>]\<rparr>)"
proof -
  let ?w = "\<lparr>ws_id = WorkspaceId 7, ws_slug = None, ws_name = ''acme'', ws_created_at = 1,
      ws_memberships = [\<lparr>mem_user_id = UserId 1, mem_workspace_id = WorkspaceId 7, mem_role = Owner, mem_created_at = 1\<rparr>]\<rparr>"
  have wf: "wf_workspace ?w" by (simp add: wf_workspace_def)
  have "remove_member (UserId 1) (UserId 1) ?w \<noteq> Inr w'" for w'
    using remove_member_exact [OF wf, of "UserId 1" "UserId 1" w'] by simp
  with wf show ?thesis by (metis is_ok.elims(2))
qed



end
