(* ===== verification/Invitations.thy ===== *)
theory Invitations
  imports Workspaces
begin

text \<open>
  The workspace invitation aggregate (\<^verbatim>\<open>src/domain/workspace_invitation.rs\<close>) and its persistence
  record (\<^verbatim>\<open>src/persistence/aggregates/workspace_invitations.rs\<close>). An invitation is pending until
  it is accepted, revoked or expired; a resend raises its generation, and the operations that name
  a generation act on the current one only. The lemmas show that the accepted and revoked states
  are final, that the generation only grows within its range, that a token issued for one
  generation never fits after a resend, and that the record of a well-formed invitation loads.
\<close>

section \<open>The aggregate\<close>

datatype delivery_failure = Retryable | Permanent | Exhausted

fun delivery_failure_as_str :: "delivery_failure \<Rightarrow> string" where
  "delivery_failure_as_str Retryable = ''retryable''"
| "delivery_failure_as_str Permanent = ''permanent''"
| "delivery_failure_as_str Exhausted = ''exhausted''"

datatype invitation_error =
  InvalidInvitationSnapshot | InvitationUnavailable | AcceptedByAnotherUser | StaleGeneration

definition delivery_failure_from_str :: "string \<Rightarrow> invitation_error + delivery_failure" where
  "delivery_failure_from_str value =
     (if value = ''retryable'' then Ok Retryable
      else if value = ''permanent'' then Ok Permanent
      else if value = ''exhausted'' then Ok Exhausted
      else Err InvalidInvitationSnapshot)"

record workspace_invitation =
  inv_id :: workspace_invitation_id
  inv_workspace_id :: workspace_id
  inv_inviter_user_id :: user_id
  inv_invited_email :: string
  inv_role :: workspace_role
  inv_generation :: i64
  inv_created_at :: datetime
  inv_expires_at :: datetime
  inv_accepted_at :: "datetime option"
  inv_revoked_at :: "datetime option"
  inv_accepting_user_id :: "user_id option"
  inv_queued_generation :: "i64 option"
  inv_queued_at :: "datetime option"
  inv_delivered_generation :: "i64 option"
  inv_delivered_at :: "datetime option"
  inv_last_delivery_failure :: "delivery_failure option"
  inv_delivery_failed_at :: "datetime option"

datatype invitation_status = InvPending | InvAccepted | InvRevoked | InvExpired

datatype invitation_acceptance = AcceptanceApplied | AcceptanceReplay

datatype delivery_state = NotQueued | Queued | Delivered | DeliveryFailed

datatype delivery_update = DeliveryApplied | DeliveryIgnored

definition delivery_state_from_snapshot ::
  "i64 \<Rightarrow> i64 option \<Rightarrow> i64 option \<Rightarrow> delivery_failure option \<Rightarrow> delivery_state" where
  "delivery_state_from_snapshot generation queued delivered failure =
     (if failure \<noteq> None then DeliveryFailed
      else if delivered = Some generation then Delivered
      else if queued = Some generation then Queued
      else NotQueued)"

definition delivery_state_of :: "workspace_invitation \<Rightarrow> delivery_state" where
  "delivery_state_of v = delivery_state_from_snapshot (inv_generation v) (inv_queued_generation v)
     (inv_delivered_generation v) (inv_last_delivery_failure v)"

fun terminal_valid :: "datetime option \<Rightarrow> datetime option \<Rightarrow> user_id option \<Rightarrow> bool" where
  "terminal_valid (Some a) None (Some u) = True"
| "terminal_valid None (Some r) None = True"
| "terminal_valid None None None = True"
| "terminal_valid _ _ _ = False"

definition delivery_valid :: "workspace_invitation \<Rightarrow> bool" where
  "delivery_valid v \<longleftrightarrow>
     (inv_queued_generation v = None) = (inv_queued_at v = None)
     \<and> (inv_delivered_generation v = None) = (inv_delivered_at v = None)
     \<and> (inv_last_delivery_failure v = None) = (inv_delivery_failed_at v = None)
     \<and> is_none_or (\<lambda>g. g > 0 \<and> g \<le> inv_generation v) (inv_queued_generation v)
     \<and> is_none_or (\<lambda>g. g > 0 \<and> g \<le> inv_generation v) (inv_delivered_generation v)"

text \<open>\<^verbatim>\<open>rehydrate\<close>, whose seventeen arguments are the fields of its result.\<close>

definition invitation_rehydrate ::
  "workspace_invitation \<Rightarrow> invitation_error + workspace_invitation" where
  "invitation_rehydrate v =
     (if inv_role v \<noteq> Admin
       \<or> inv_generation v \<le> 0
       \<or> trim (inv_invited_email v) = []
       \<or> inv_expires_at v \<le> inv_created_at v
       \<or> \<not> terminal_valid (inv_accepted_at v) (inv_revoked_at v) (inv_accepting_user_id v)
       \<or> \<not> delivery_valid v
      then Err InvalidInvitationSnapshot else Ok v)"

definition invitation_create ::
  "workspace_invitation_id \<Rightarrow> workspace_id \<Rightarrow> user_id \<Rightarrow> string \<Rightarrow> datetime \<Rightarrow> datetime
   \<Rightarrow> invitation_error + workspace_invitation" where
  "invitation_create i workspace inviter invited_email created_at expires_at =
     and_then (ok_or InvalidInvitationSnapshot (with_nanosecond created_at 0)) (\<lambda>created_at.
     and_then (ok_or InvalidInvitationSnapshot (with_nanosecond expires_at 0)) (\<lambda>expires_at.
       invitation_rehydrate
         \<lparr>inv_id = i, inv_workspace_id = workspace, inv_inviter_user_id = inviter,
          inv_invited_email = invited_email, inv_role = Admin, inv_generation = 1,
          inv_created_at = created_at, inv_expires_at = expires_at,
          inv_accepted_at = None, inv_revoked_at = None, inv_accepting_user_id = None,
          inv_queued_generation = None, inv_queued_at = None,
          inv_delivered_generation = None, inv_delivered_at = None,
          inv_last_delivery_failure = None, inv_delivery_failed_at = None\<rparr>))"

definition invitation_status_at :: "datetime \<Rightarrow> workspace_invitation \<Rightarrow> invitation_status" where
  "invitation_status_at now v =
     (if inv_accepted_at v \<noteq> None then InvAccepted
      else if inv_revoked_at v \<noteq> None then InvRevoked
      else if now \<ge> inv_expires_at v then InvExpired
      else InvPending)"

definition ensure_current ::
  "i64 \<Rightarrow> datetime \<Rightarrow> datetime \<Rightarrow> workspace_invitation \<Rightarrow> invitation_error + unit" where
  "ensure_current generation expires_at now v =
     (if inv_generation v = generation \<and> inv_expires_at v = expires_at
       \<and> invitation_status_at now v = InvPending
      then Ok () else Err InvitationUnavailable)"

definition invitation_accept ::
  "user_id \<Rightarrow> datetime \<Rightarrow> workspace_invitation
   \<Rightarrow> invitation_error + workspace_invitation \<times> invitation_acceptance" where
  "invitation_accept u accepted_at v =
     (if inv_accepting_user_id v = Some u \<and> inv_accepted_at v \<noteq> None
        then Ok (v, AcceptanceReplay)
      else if inv_accepted_at v \<noteq> None then Err AcceptedByAnotherUser
      else if invitation_status_at accepted_at v \<noteq> InvPending then Err InvitationUnavailable
      else Ok (v\<lparr>inv_accepted_at := Some accepted_at, inv_accepting_user_id := Some u\<rparr>,
               AcceptanceApplied))"

definition queue_delivery ::
  "i64 \<Rightarrow> datetime \<Rightarrow> workspace_invitation \<Rightarrow> invitation_error + workspace_invitation" where
  "queue_delivery generation queued_at v =
     (if generation \<noteq> inv_generation v then Err StaleGeneration
      else if invitation_status_at queued_at v \<noteq> InvPending then Err InvitationUnavailable
      else Ok (v\<lparr>inv_queued_generation := Some generation, inv_queued_at := Some queued_at,
                 inv_last_delivery_failure := None, inv_delivery_failed_at := None\<rparr>))"

definition resend ::
  "i64 \<Rightarrow> datetime \<Rightarrow> datetime \<Rightarrow> workspace_invitation \<Rightarrow> invitation_error + workspace_invitation"
where
  "resend expected sent_at expires_at v =
     (if expected \<noteq> inv_generation v then Err StaleGeneration
      else if invitation_status_at sent_at v \<noteq> InvPending \<or> expires_at \<le> sent_at
        then Err InvitationUnavailable
      else and_then (ok_or InvalidInvitationSnapshot (checked_add_i64 (inv_generation v) 1))
        (\<lambda>g. Ok (v\<lparr>inv_generation := g, inv_expires_at := expires_at,
                   inv_queued_generation := Some g, inv_queued_at := Some sent_at,
                   inv_last_delivery_failure := None, inv_delivery_failed_at := None\<rparr>)))"

definition invitation_revoke ::
  "i64 \<Rightarrow> datetime \<Rightarrow> workspace_invitation \<Rightarrow> invitation_error + workspace_invitation" where
  "invitation_revoke expected revoked_at v =
     (if expected \<noteq> inv_generation v then Err StaleGeneration
      else if invitation_status_at revoked_at v \<noteq> InvPending then Err InvitationUnavailable
      else Ok (v\<lparr>inv_revoked_at := Some revoked_at\<rparr>))"

definition record_delivery_success ::
  "i64 \<Rightarrow> datetime \<Rightarrow> workspace_invitation \<Rightarrow> workspace_invitation \<times> delivery_update" where
  "record_delivery_success generation delivered_at v =
     (if generation \<noteq> inv_generation v \<or> invitation_status_at delivered_at v \<noteq> InvPending
      then (v, DeliveryIgnored)
      else (v\<lparr>inv_delivered_generation := Some generation, inv_delivered_at := Some delivered_at,
              inv_last_delivery_failure := None, inv_delivery_failed_at := None\<rparr>,
            DeliveryApplied))"

definition record_delivery_failure ::
  "i64 \<Rightarrow> delivery_failure \<Rightarrow> datetime \<Rightarrow> workspace_invitation
   \<Rightarrow> workspace_invitation \<times> delivery_update" where
  "record_delivery_failure generation classification failed_at v =
     (if generation \<noteq> inv_generation v \<or> invitation_status_at failed_at v \<noteq> InvPending
      then (v, DeliveryIgnored)
      else (v\<lparr>inv_last_delivery_failure := Some classification,
              inv_delivery_failed_at := Some failed_at\<rparr>, DeliveryApplied))"

section \<open>The persistence record\<close>

record invitation_record =
  invrec_id :: uuid
  invrec_workspace_id :: uuid
  invrec_inviter_user_id :: uuid
  invrec_invited_email :: string
  invrec_role :: string
  invrec_generation :: i64
  invrec_created_at :: datetime
  invrec_expires_at :: datetime
  invrec_accepted_at :: "datetime option"
  invrec_revoked_at :: "datetime option"
  invrec_accepting_user_id :: "uuid option"
  invrec_queued_generation :: "i64 option"
  invrec_queued_at :: "datetime option"
  invrec_delivered_generation :: "i64 option"
  invrec_delivered_at :: "datetime option"
  invrec_last_delivery_failure :: "string option"
  invrec_delivery_failed_at :: "datetime option"

definition invitation_from_domain :: "workspace_invitation \<Rightarrow> invitation_record" where
  "invitation_from_domain v =
     \<lparr>invrec_id = invitation_uuid (inv_id v),
      invrec_workspace_id = workspace_uuid (inv_workspace_id v),
      invrec_inviter_user_id = user_uuid (inv_inviter_user_id v),
      invrec_invited_email = inv_invited_email v,
      invrec_role = role_as_str (inv_role v),
      invrec_generation = inv_generation v,
      invrec_created_at = inv_created_at v,
      invrec_expires_at = inv_expires_at v,
      invrec_accepted_at = inv_accepted_at v,
      invrec_revoked_at = inv_revoked_at v,
      invrec_accepting_user_id = map_option user_uuid (inv_accepting_user_id v),
      invrec_queued_generation = inv_queued_generation v,
      invrec_queued_at = inv_queued_at v,
      invrec_delivered_generation = inv_delivered_generation v,
      invrec_delivered_at = inv_delivered_at v,
      invrec_last_delivery_failure = map_option delivery_failure_as_str (inv_last_delivery_failure v),
      invrec_delivery_failed_at = inv_delivery_failed_at v\<rparr>"

definition invitation_into_domain ::
  "invitation_record \<Rightarrow> repository_error + workspace_invitation" where
  "invitation_into_domain r =
     and_then (map_err (\<lambda>_. InvariantViolation ''unknown invitation role'')
                 (role_from_str (invrec_role r))) (\<lambda>role.
     and_then (map_err (\<lambda>_. InvariantViolation ''unknown invitation delivery failure'')
                 (map_transpose delivery_failure_from_str (invrec_last_delivery_failure r)))
       (\<lambda>failure.
     map_err (\<lambda>_. InvariantViolation ''persisted workspace invitation is inconsistent'')
       (invitation_rehydrate
         \<lparr>inv_id = WorkspaceInvitationId (invrec_id r),
          inv_workspace_id = WorkspaceId (invrec_workspace_id r),
          inv_inviter_user_id = UserId (invrec_inviter_user_id r),
          inv_invited_email = invrec_invited_email r,
          inv_role = role, inv_generation = invrec_generation r,
          inv_created_at = invrec_created_at r, inv_expires_at = invrec_expires_at r,
          inv_accepted_at = invrec_accepted_at r, inv_revoked_at = invrec_revoked_at r,
          inv_accepting_user_id = map_option UserId (invrec_accepting_user_id r),
          inv_queued_generation = invrec_queued_generation r,
          inv_queued_at = invrec_queued_at r,
          inv_delivered_generation = invrec_delivered_generation r,
          inv_delivered_at = invrec_delivered_at r,
          inv_last_delivery_failure = failure,
          inv_delivery_failed_at = invrec_delivery_failed_at r\<rparr>)))"

section \<open>The lifecycle\<close>

datatype invitation_op =
    AcceptOp user_id datetime
  | QueueOp i64 datetime
  | ResendOp i64 datetime datetime
  | RevokeOp i64 datetime
  | DeliveredOp i64 datetime
  | FailedOp i64 delivery_failure datetime

fun invitation_step :: "invitation_op \<Rightarrow> workspace_invitation \<Rightarrow> workspace_invitation" where
  "invitation_step (AcceptOp u t) v =
     (case invitation_accept u t v of Inl e \<Rightarrow> v | Inr (v', _) \<Rightarrow> v')"
| "invitation_step (QueueOp g t) v = applied_or v (queue_delivery g t v)"
| "invitation_step (ResendOp g t e) v = applied_or v (resend g t e v)"
| "invitation_step (RevokeOp g t) v = applied_or v (invitation_revoke g t v)"
| "invitation_step (DeliveredOp g t) v = fst (record_delivery_success g t v)"
| "invitation_step (FailedOp g c t) v = fst (record_delivery_failure g c t v)"

lemmas invitation_op_defs [op_defs] =
  invitation_accept_def queue_delivery_def resend_def invitation_revoke_def
  record_delivery_success_def record_delivery_failure_def invitation_status_at_def
  checked_add_i64_def

text \<open>
  Every operation keeps the well-formedness \<^verbatim>\<open>rehydrate\<close> checks, except that a resend whose clock is
  behind the creation time may move the expiry to or before it; \<open>clock_ok\<close> excludes that.
\<close>

definition wf_invitation :: "workspace_invitation \<Rightarrow> bool" where
  "wf_invitation v \<longleftrightarrow> is_ok (invitation_rehydrate v)"

fun clock_ok :: "invitation_op \<Rightarrow> workspace_invitation \<Rightarrow> bool" where
  "clock_ok (ResendOp g t e) v \<longleftrightarrow> inv_created_at v \<le> t"
| "clock_ok _ v \<longleftrightarrow> True"

lemma wf_invitation_iff:
  "wf_invitation v \<longleftrightarrow>
     inv_role v = Admin \<and> 0 < inv_generation v \<and> trim (inv_invited_email v) \<noteq> []
     \<and> inv_created_at v < inv_expires_at v
     \<and> terminal_valid (inv_accepted_at v) (inv_revoked_at v) (inv_accepting_user_id v)
     \<and> delivery_valid v"
  by (auto simp: wf_invitation_def invitation_rehydrate_def)

lemma invitation_rehydrate_Ok_iff:
  "invitation_rehydrate v = Inr w \<longleftrightarrow> w = v \<and> wf_invitation v"
  by (auto simp: wf_invitation_def invitation_rehydrate_def)

lemma terminal_valid_open:
  "terminal_valid None None u \<longleftrightarrow> u = None"
  by (cases u) auto

lemma invitation_step_wf:
  assumes "wf_invitation v" and "clock_ok op v"
  shows "wf_invitation (invitation_step op v)"
  using assms
  by (cases op) (auto simp: wf_invitation_iff op_defs delivery_valid_def terminal_valid_open
      split: sum.splits if_splits)

lemma invitation_create_wf:
  "invitation_create i w u e t x = Inr v \<Longrightarrow>
     wf_invitation v \<and> inv_generation v = 1 \<and> inv_accepted_at v = None \<and> inv_revoked_at v = None"
  by (auto simp: invitation_create_def invitation_rehydrate_Ok_iff)

section \<open>Saving and loading\<close>

lemma delivery_failure_round_trip [simp]:
  "delivery_failure_from_str (delivery_failure_as_str f) = Inr f"
  by (cases f) (simp_all add: delivery_failure_from_str_def)

lemma failure_transpose [simp]:
  "map_transpose delivery_failure_from_str (map_option delivery_failure_as_str x) = Inr x"
  by (cases x) simp_all

lemma invitation_reload:
  "wf_invitation v \<Longrightarrow> invitation_into_domain (invitation_from_domain v) = Inr v"
  by (cases v) (simp add: invitation_into_domain_def invitation_from_domain_def
      invitation_rehydrate_Ok_iff option.map_comp comp_def option.map_ident)

lemma invitation_loaded_wf: "invitation_into_domain r = Inr v \<Longrightarrow> wf_invitation v"
  by (auto simp: invitation_into_domain_def and_then_Ok_iff invitation_rehydrate_Ok_iff)

interpretation inv: stored_aggregate invitation_step clock_ok wf_invitation
  invitation_from_domain invitation_into_domain
  by unfold_locales (auto intro: invitation_step_wf invitation_reload dest: invitation_loaded_wf)

section \<open>Final states and generations\<close>

definition decided :: "workspace_invitation \<Rightarrow> bool" where
  "decided v \<longleftrightarrow> inv_accepted_at v \<noteq> None \<or> inv_revoked_at v \<noteq> None"

lemma decided_step: "decided v \<Longrightarrow> invitation_step op v = v"
  by (cases op) (auto simp: decided_def op_defs)

interpretation inv_final: terminal_aggregate invitation_step clock_ok wf_invitation
  "\<lambda>x. x = v \<and> decided v"
  by unfold_locales (simp add: decided_step)

lemma decided_run: "decided v \<Longrightarrow> fold invitation_step ops v = v"
  using inv_final.dead_run [of v v ops] by simp

lemma generation_step: "inv_generation v \<le> inv_generation (invitation_step op v)"
  by (cases op) (auto simp: op_defs split: sum.splits)

lemma generation_run: "inv_generation v \<le> inv_generation (fold invitation_step ops v)"
proof (induction ops arbitrary: v)
  case (Cons op ops)
  then show ?case using generation_step [of v op] by (force intro: order_trans)
qed simp

lemma generation_in_range:
  "in_i64 (inv_generation v) \<Longrightarrow> in_i64 (inv_generation (fold invitation_step ops v))"
proof (induction ops arbitrary: v)
  case (Cons op ops)
  have "in_i64 (inv_generation (invitation_step op v))"
    using Cons.prems by (cases op) (auto simp: op_defs split: sum.splits)
  then show ?case using Cons.IH by simp
qed simp

lemma resend_generation:
  "resend g t x v = Inr v' \<Longrightarrow> g = inv_generation v \<and> inv_generation v' = inv_generation v + 1"
  by (auto simp: op_defs split: if_splits)

lemma ensure_current_generation:
  "ensure_current g x now v = Inr u \<Longrightarrow> inv_generation v = g \<and> invitation_status_at now v = InvPending"
  by (auto simp: ensure_current_def split: if_splits)

text \<open>The attempts to accept that change the invitation: at most one of them ever does.\<close>

definition accept_attempt ::
  "user_id \<times> datetime \<Rightarrow> workspace_invitation \<Rightarrow> invitation_error + workspace_invitation" where
  "accept_attempt a v =
     (case invitation_accept (fst a) (snd a) v of
        Inl e \<Rightarrow> Err e
      | Inr (v', AcceptanceApplied) \<Rightarrow> Ok v'
      | Inr (v', AcceptanceReplay) \<Rightarrow> Err AcceptedByAnotherUser)"

interpretation inv_accept: single_use accept_attempt decided
  by unfold_locales
    (auto simp: accept_attempt_def op_defs decided_def split: if_splits)

section \<open>Properties\<close>

definition sample_invitation :: workspace_invitation where
  "sample_invitation =
     \<lparr>inv_id = WorkspaceInvitationId 1, inv_workspace_id = WorkspaceId 2,
      inv_inviter_user_id = UserId 3, inv_invited_email = ''ada@example.com'', inv_role = Admin,
      inv_generation = 1, inv_created_at = 0, inv_expires_at = 90,
      inv_accepted_at = None, inv_revoked_at = None, inv_accepting_user_id = None,
      inv_queued_generation = None, inv_queued_at = None, inv_delivered_generation = None,
      inv_delivered_at = None, inv_last_delivery_failure = None, inv_delivery_failed_at = None\<rparr>"

text \<open>
  Accepting an invitation applies at most once, whatever sequence of users tries whenever; and
  after an acceptance no operation on the invitation, in any number, changes it again.
\<close>

theorem invitation_accepted_once:
  assumes "accept_attempt a v = Inr v'"
  shows "successes accept_attempt attempts v \<le> 1 \<and> fold invitation_step ops v' = v'"
  using inv_accept.successes_le_one [of attempts v] decided_run [of v']
    inv_accept.attempt_spends [OF assms] by simp

theorem invitation_accepted_once_witness:
  "fold invitation_step [AcceptOp (UserId 6) 6, RevokeOp 1 7]
     (sample_invitation\<lparr>inv_accepted_at := Some 5, inv_accepting_user_id := Some (UserId 4)\<rparr>)
   = sample_invitation\<lparr>inv_accepted_at := Some 5, inv_accepting_user_id := Some (UserId 4)\<rparr>"
proof -
  have "accept_attempt (UserId 4, 5) sample_invitation
    = Inr (sample_invitation\<lparr>inv_accepted_at := Some 5, inv_accepting_user_id := Some (UserId 4)\<rparr>)"
    by (simp add: accept_attempt_def sample_invitation_def op_defs)
  from invitation_accepted_once [OF this] show ?thesis by blast
qed

text \<open>
  Sending an invitation again retires every link of an earlier generation for good: after any
  further operations the old generation is refused, at every time and with every expiry.
\<close>

theorem resend_retires_links:
  assumes "resend g sent_at expires_at v = Inr v'" and "g' \<le> g"
  shows "ensure_current g' x now (fold invitation_step ops v') = Inl InvitationUnavailable"
  using resend_generation [OF assms(1)] generation_run [of v' ops] assms(2)
  by (auto simp: ensure_current_def)

theorem resend_retires_links_witness:
  "\<exists>v'. resend 1 10 80 sample_invitation = Inr v'
     \<and> ensure_current 1 90 20 sample_invitation = Inr ()
     \<and> ensure_current 1 90 20 (fold invitation_step [ResendOp 2 15 85] v') = Inl InvitationUnavailable"
proof -
  obtain v' where v': "resend 1 10 80 sample_invitation = Inr v'"
    by (simp add: sample_invitation_def op_defs in_i64_def i64_max_def)
  with resend_retires_links [OF v', of 1 90 20 "[ResendOp 2 15 85]"] show ?thesis
    by (simp add: ensure_current_def sample_invitation_def invitation_status_at_def)
qed

text \<open>
  An invitation loaded from its record stays loadable: after every sequence of operations whose
  clock does not run backwards, the record written for it reads back as the same invitation, with
  its generation within the range of the column.
\<close>

theorem invitation_survives_reload:
  assumes "invitation_into_domain r = Inr v" and "allowed_run invitation_step clock_ok ops v"
    and "in_i64 (inv_generation v)"
  shows "invitation_into_domain (invitation_from_domain (fold invitation_step ops v))
           = Inr (fold invitation_step ops v)
     \<and> in_i64 (inv_generation (fold invitation_step ops v))"
  using inv.reload_run [OF assms(1,2)] generation_in_range [OF assms(3)] by simp

theorem invitation_survives_reload_witness:
  "invitation_into_domain (invitation_from_domain (fold invitation_step [ResendOp 1 10 80] sample_invitation))
     = Inr (fold invitation_step [ResendOp 1 10 80] sample_invitation)"
proof -
  have "wf_invitation sample_invitation"
    by (simp add: wf_invitation_iff sample_invitation_def delivery_valid_def) code_simp
  then have "invitation_into_domain (invitation_from_domain sample_invitation) = Inr sample_invitation"
    by (rule invitation_reload)
  moreover have "in_i64 (inv_generation sample_invitation)"
    "allowed_run invitation_step clock_ok [ResendOp 1 10 80] sample_invitation"
    by (simp_all add: sample_invitation_def in_i64_def i64_max_def)
  ultimately show ?thesis using invitation_survives_reload by blast
qed

end
