(* ===== verification/Documents.thy ===== *)
theory Documents
  imports Identifiers Validation
begin

text \<open>
  The document aggregate (\<^verbatim>\<open>src/domain/document.rs\<close>) and its persistence record
  (\<^verbatim>\<open>src/persistence/aggregates/documents.rs\<close>). A document is staged, scanned and finalized; each
  operation returns the document and a transition with an outcome and at most one event. The
  abstract status machine \<open>status_edge\<close> has four edges; every operation refines it
  (\<open>document_step_status\<close>), and a document is uploaded only after its first scan verdict was
  clean and a finalization followed (\<open>uploaded_trace\<close>).
\<close>

section \<open>Data\<close>

datatype document_upload_status =
  PendingUpload | Finalizing | Uploaded | ContainsVirus | FailedUpload

fun upload_status_as_str :: "document_upload_status \<Rightarrow> string" where
  "upload_status_as_str PendingUpload = ''pending''"
| "upload_status_as_str Finalizing = ''finalizing''"
| "upload_status_as_str Uploaded = ''uploaded''"
| "upload_status_as_str ContainsVirus = ''contains_virus''"
| "upload_status_as_str FailedUpload = ''failed''"

definition upload_status_from_str :: "string \<Rightarrow> domain_error + document_upload_status" where
  "upload_status_from_str value =
     (if value = ''pending'' then Ok PendingUpload
      else if value = ''finalizing'' then Ok Finalizing
      else if value = ''uploaded'' then Ok Uploaded
      else if value = ''contains_virus'' then Ok ContainsVirus
      else if value = ''failed'' then Ok FailedUpload
      else Err (InvalidEnumValue ''upload_status'' value))"

datatype document_owner =
    OwnedBySubmission evidence_submission_id
  | OwnedByPolicy policy_id

fun owner_type :: "document_owner \<Rightarrow> string" where
  "owner_type (OwnedBySubmission i) = ''evidence_submission''"
| "owner_type (OwnedByPolicy i) = ''policy''"

fun owner_uuid :: "document_owner \<Rightarrow> uuid" where
  "owner_uuid (OwnedBySubmission i) = submission_uuid i"
| "owner_uuid (OwnedByPolicy i) = policy_uuid i"

datatype document_identity =
    EvidenceDocument evidence_submission_id document_id
  | PolicyDocument policy_id document_id

fun identity_document_id :: "document_identity \<Rightarrow> document_id" where
  "identity_document_id (EvidenceDocument s d) = d"
| "identity_document_id (PolicyDocument p d) = d"

fun document_uuid :: "document_identity \<Rightarrow> uuid" where
  "document_uuid (EvidenceDocument s d) = document_id_uuid d"
| "document_uuid (PolicyDocument p d) = document_id_uuid d"

fun identity_owner :: "document_identity \<Rightarrow> document_owner" where
  "identity_owner (EvidenceDocument s d) = OwnedBySubmission s"
| "identity_owner (PolicyDocument p d) = OwnedByPolicy p"

record document =
  doc_identity :: document_identity
  doc_workspace_id :: workspace_id
  doc_created_by_user_id :: user_id
  doc_filename :: string
  doc_content_type :: string
  doc_content_length :: i64
  doc_object_key :: string
  doc_checksum_sha256 :: string
  doc_checksum_crc32c :: string
  doc_upload_status :: document_upload_status
  doc_archived :: bool
  doc_created_at :: datetime

definition document_id_of :: "document \<Rightarrow> document_id" where
  "document_id_of d = identity_document_id (doc_identity d)"

definition document_owner_of :: "document \<Rightarrow> document_owner" where
  "document_owner_of d = identity_owner (doc_identity d)"

datatype document_event =
    ScanRequested document_identity string
  | FinalizationRequested document_identity string

datatype document_transition_outcome =
    TransitionCreated | TransitionScanned | TransitionFinalized
  | TransitionArchived | TransitionIgnored | TransitionRejected

record document_transition =
  transition_outcome :: document_transition_outcome
  transition_event :: "document_event option"

definition transition_applied ::
  "document_transition_outcome \<Rightarrow> document_event option \<Rightarrow> document_transition" where
  "transition_applied out event = \<lparr>transition_outcome = out, transition_event = event\<rparr>"

definition transition_ignored :: document_transition where
  "transition_ignored = transition_applied TransitionIgnored None"

definition transition_rejected :: document_transition where
  "transition_rejected = transition_applied TransitionRejected None"

definition transition_changed :: "document_transition \<Rightarrow> bool" where
  "transition_changed t \<longleftrightarrow> transition_outcome t \<notin> {TransitionIgnored, TransitionRejected}"

datatype document_lifecycle_error = OwnerMismatch | NegativeContentLength

record create_document_payload =
  payload_owner :: document_owner
  payload_filename :: string
  payload_content_type :: string
  payload_content_length :: i64
  payload_object_key :: string
  payload_checksum_sha256 :: string
  payload_checksum_crc32c :: string

section \<open>Operations\<close>

definition document_create ::
  "document_identity \<Rightarrow> workspace_id \<Rightarrow> user_id \<Rightarrow> create_document_payload \<Rightarrow> datetime
   \<Rightarrow> document_lifecycle_error + document \<times> document_transition" where
  "document_create identity workspace created_by payload created_at =
     (if payload_owner payload \<noteq> identity_owner identity then Err OwnerMismatch
      else if payload_content_length payload < 0 then Err NegativeContentLength
      else
        let document =
          \<lparr>doc_identity = identity, doc_workspace_id = workspace,
           doc_created_by_user_id = created_by, doc_filename = payload_filename payload,
           doc_content_type = payload_content_type payload,
           doc_content_length = payload_content_length payload,
           doc_object_key = payload_object_key payload,
           doc_checksum_sha256 = payload_checksum_sha256 payload,
           doc_checksum_crc32c = payload_checksum_crc32c payload,
           doc_upload_status = PendingUpload, doc_archived = False, doc_created_at = created_at\<rparr>
        in Ok (document,
             transition_applied TransitionCreated
               (Some (ScanRequested (doc_identity document) (doc_object_key document)))))"

definition document_transition_to ::
  "document_upload_status \<Rightarrow> document_upload_status \<Rightarrow> document_event option
   \<Rightarrow> document \<Rightarrow> document \<times> document_transition" where
  "document_transition_to expected next event d =
     (if doc_archived d \<or> doc_upload_status d \<noteq> expected then (d, transition_ignored)
      else (d\<lparr>doc_upload_status := next\<rparr>, transition_applied TransitionScanned event))"

definition scan_clean :: "document \<Rightarrow> document \<times> document_transition" where
  "scan_clean d = document_transition_to PendingUpload Finalizing
     (Some (FinalizationRequested (doc_identity d) (doc_object_key d))) d"

definition scan_malicious :: "document \<Rightarrow> document \<times> document_transition" where
  "scan_malicious d = document_transition_to PendingUpload ContainsVirus None d"

definition scan_failed :: "document \<Rightarrow> document \<times> document_transition" where
  "scan_failed d = document_transition_to PendingUpload FailedUpload None d"

definition finalize_uploaded :: "string \<Rightarrow> document \<Rightarrow> document \<times> document_transition" where
  "finalize_uploaded final_key d =
     (if doc_archived d \<or> doc_upload_status d \<noteq> Finalizing then (d, transition_ignored)
      else (d\<lparr>doc_object_key := final_key, doc_upload_status := Uploaded\<rparr>,
            transition_applied TransitionFinalized None))"

definition document_archive :: "document \<Rightarrow> document \<times> document_transition" where
  "document_archive d =
     (if doc_archived d then (d, transition_ignored)
      else if doc_upload_status d \<notin> {Uploaded, ContainsVirus, FailedUpload}
        then (d, transition_rejected)
      else (d\<lparr>doc_archived := True\<rparr>, transition_applied TransitionArchived None))"

lemmas document_op_defs [op_defs] =
  document_transition_to_def scan_clean_def scan_malicious_def scan_failed_def
  finalize_uploaded_def document_archive_def

lemmas transition_defs [simp] =
  transition_applied_def transition_ignored_def transition_rejected_def transition_changed_def

section \<open>The persistence record\<close>

record document_record =
  rec_id :: uuid
  rec_workspace_id :: uuid
  rec_owner_type :: string
  rec_owner_id :: uuid
  rec_created_by_user_id :: uuid
  rec_filename :: string
  rec_content_type :: string
  rec_content_length :: i64
  rec_object_key :: string
  rec_checksum_sha256 :: string
  rec_checksum_crc32c :: string
  rec_archived :: bool
  rec_upload_status :: string
  rec_created_at :: datetime

definition document_from_domain :: "document \<Rightarrow> document_record" where
  "document_from_domain d =
     \<lparr>rec_id = document_id_uuid (document_id_of d),
      rec_workspace_id = workspace_uuid (doc_workspace_id d),
      rec_owner_type = owner_type (document_owner_of d),
      rec_owner_id = owner_uuid (document_owner_of d),
      rec_created_by_user_id = user_uuid (doc_created_by_user_id d),
      rec_filename = doc_filename d,
      rec_content_type = doc_content_type d,
      rec_content_length = doc_content_length d,
      rec_object_key = doc_object_key d,
      rec_checksum_sha256 = doc_checksum_sha256 d,
      rec_checksum_crc32c = doc_checksum_crc32c d,
      rec_archived = doc_archived d,
      rec_upload_status = upload_status_as_str (doc_upload_status d),
      rec_created_at = doc_created_at d\<rparr>"

definition document_into_domain ::
  "document_record \<Rightarrow> document_identity \<Rightarrow> domain_error + document" where
  "document_into_domain r identity =
     and_then (upload_status_from_str (rec_upload_status r)) (\<lambda>status.
       Ok \<lparr>doc_identity = identity,
           doc_workspace_id = WorkspaceId (rec_workspace_id r),
           doc_created_by_user_id = UserId (rec_created_by_user_id r),
           doc_filename = rec_filename r,
           doc_content_type = rec_content_type r,
           doc_content_length = rec_content_length r,
           doc_object_key = rec_object_key r,
           doc_checksum_sha256 = rec_checksum_sha256 r,
           doc_checksum_crc32c = rec_checksum_crc32c r,
           doc_upload_status = status,
           doc_archived = rec_archived r,
           doc_created_at = rec_created_at r\<rparr>)"

definition document_identity_for :: "document_id \<Rightarrow> document_owner \<Rightarrow> document_identity" where
  "document_identity_for i owner =
     (case owner of OwnedBySubmission s \<Rightarrow> EvidenceDocument s i
      | OwnedByPolicy p \<Rightarrow> PolicyDocument p i)"

section \<open>Names and identities\<close>

lemma upload_status_round_trip [simp]:
  "upload_status_from_str (upload_status_as_str s) = Inr s"
  by (cases s) (simp_all add: upload_status_from_str_def)

lemma upload_status_from_str_Ok:
  "upload_status_from_str value = Inr s \<Longrightarrow> upload_status_as_str s = value"
  by (auto simp: upload_status_from_str_def split: if_splits)

lemma document_identity_for_owner [simp]:
  "document_identity_for (identity_document_id i) (identity_owner i) = i"
  by (cases i) (simp_all add: document_identity_for_def)

lemma identity_of_identity_for [simp]:
  "identity_owner (document_identity_for i ow) = ow"
  "identity_document_id (document_identity_for i ow) = i"
  by (cases ow; simp add: document_identity_for_def)+

lemma owner_determined: "owner_type a = owner_type b \<Longrightarrow> owner_uuid a = owner_uuid b \<Longrightarrow> a = b"
  by (cases a; cases b) (auto intro: evidence_submission_id.expand policy_id.expand)

lemma document_reload:
  "document_into_domain (document_from_domain d) (doc_identity d) = Inr d"
  by (simp add: document_into_domain_def document_from_domain_def)

section \<open>The lifecycle\<close>

datatype document_op =
    ScanCleanOp | ScanMaliciousOp | ScanFailedOp | FinalizeOp string | ArchiveOp

fun apply_document_op :: "document_op \<Rightarrow> document \<Rightarrow> document \<times> document_transition" where
  "apply_document_op ScanCleanOp d = scan_clean d"
| "apply_document_op ScanMaliciousOp d = scan_malicious d"
| "apply_document_op ScanFailedOp d = scan_failed d"
| "apply_document_op (FinalizeOp k) d = finalize_uploaded k d"
| "apply_document_op ArchiveOp d = document_archive d"

definition document_step :: "document_op \<Rightarrow> document \<Rightarrow> document" where
  "document_step op d = fst (apply_document_op op d)"

definition terminal_status :: "document_upload_status \<Rightarrow> bool" where
  "terminal_status s \<longleftrightarrow> s \<in> {Uploaded, ContainsVirus, FailedUpload}"

definition wf_document :: "document \<Rightarrow> bool" where
  "wf_document d \<longleftrightarrow>
     0 \<le> doc_content_length d \<and> (doc_archived d \<longrightarrow> terminal_status (doc_upload_status d))"

text \<open>The abstract machine over the statuses.\<close>

inductive status_edge :: "document_upload_status \<Rightarrow> document_upload_status \<Rightarrow> bool" where
  clean: "status_edge PendingUpload Finalizing"
| malicious: "status_edge PendingUpload ContainsVirus"
| failed: "status_edge PendingUpload FailedUpload"
| finalized: "status_edge Finalizing Uploaded"

inductive_cases status_edge_from_terminal [elim!]:
  "status_edge Uploaded s" "status_edge ContainsVirus s" "status_edge FailedUpload s"

inductive_cases status_edge_to_uploaded [elim!]: "status_edge s Uploaded"

code_pred status_edge .

lemma document_step_status:
  "doc_upload_status (document_step op d) = doc_upload_status d
   \<or> status_edge (doc_upload_status d) (doc_upload_status (document_step op d))"
  by (cases op) (auto simp: document_step_def op_defs intro: status_edge.intros)

lemma document_step_terminal:
  "terminal_status (doc_upload_status d) \<Longrightarrow>
     doc_upload_status (document_step op d) = doc_upload_status d"
  using document_step_status [of op d] by (auto simp: terminal_status_def)

lemma document_step_wf: "wf_document d \<Longrightarrow> wf_document (document_step op d)"
  by (cases op) (auto simp: document_step_def op_defs wf_document_def terminal_status_def)

lemma document_create_wf:
  "document_create i w u p t = Inr (d, tr) \<Longrightarrow> wf_document d \<and> doc_upload_status d = PendingUpload"
  by (auto simp: document_create_def Let_def wf_document_def split: if_splits)

lemma document_step_identity [simp]: "doc_identity (document_step op d) = doc_identity d"
  by (cases op) (auto simp: document_step_def op_defs)

interpretation doc: terminal_aggregate document_step "\<lambda>_ _. True" wf_document
  "\<lambda>d. doc_upload_status d = s \<and> terminal_status s"
  by unfold_locales (auto intro: document_step_wf simp: document_step_terminal)

text \<open>
  What a sequence of operations does to a pending, finalizing or finished document: only the first
  verdict counts, and after a clean one only the first finalization.
\<close>

fun is_verdict :: "document_op \<Rightarrow> bool" where
  "is_verdict ScanCleanOp = True"
| "is_verdict ScanMaliciousOp = True"
| "is_verdict ScanFailedOp = True"
| "is_verdict (FinalizeOp k) = False"
| "is_verdict ArchiveOp = False"

fun is_finalize :: "document_op \<Rightarrow> bool" where
  "is_finalize (FinalizeOp k) = True"
| "is_finalize _ = False"

lemma pending_step_other:
  "\<not> doc_archived d \<Longrightarrow> doc_upload_status d = PendingUpload \<Longrightarrow> \<not> is_verdict op \<Longrightarrow>
     document_step op d = d"
  by (cases op) (auto simp: document_step_def op_defs)

lemma finalizing_step_other:
  "\<not> doc_archived d \<Longrightarrow> doc_upload_status d = Finalizing \<Longrightarrow> \<not> is_finalize op \<Longrightarrow>
     document_step op d = d"
  by (cases op) (auto simp: document_step_def op_defs)

lemma uploaded_step_key:
  "doc_upload_status d = Uploaded \<Longrightarrow> doc_object_key (document_step op d) = doc_object_key d"
  by (cases op) (auto simp: document_step_def op_defs)

lemma uploaded_fold_key:
  "doc_upload_status d = Uploaded \<Longrightarrow>
     doc_object_key (fold document_step ops d) = doc_object_key d"
proof (induction ops arbitrary: d)
  case (Cons op ops)
  then show ?case
    using document_step_terminal [of d op]
    by (simp add: terminal_status_def uploaded_step_key)
qed simp

lemma finalizing_trace:
  assumes "\<not> doc_archived d" and "doc_upload_status d = Finalizing"
    and "doc_upload_status (fold document_step ops d) = Uploaded"
  shows "\<exists>xs k ys. ops = xs @ FinalizeOp k # ys \<and> \<not> list_ex is_finalize xs
           \<and> doc_object_key (fold document_step ops d) = k"
  using assms
proof (induction ops)
  case (Cons op ops)
  show ?case
  proof (cases "is_finalize op")
    case True
    then obtain k where k: "op = FinalizeOp k" by (cases op) auto
    then have "document_step op d = d\<lparr>doc_object_key := k, doc_upload_status := Uploaded\<rparr>"
      using Cons.prems by (simp add: document_step_def op_defs)
    then have "doc_object_key (fold document_step (op # ops) d) = k"
      by (simp add: uploaded_fold_key)
    with k show ?thesis
      by (intro exI [of _ "[]"] exI [of _ k] exI [of _ ops]) auto
  next
    case False
    then have same: "document_step op d = d" using Cons.prems by (simp add: finalizing_step_other)
    then have "doc_upload_status (fold document_step ops d) = Uploaded" using Cons.prems(3) by simp
    from Cons.IH [OF Cons.prems(1,2) this] obtain xs k ys where
      "ops = xs @ FinalizeOp k # ys" "\<not> list_ex is_finalize xs"
      "doc_object_key (fold document_step ops d) = k" by blast
    with False same show ?thesis
      by (intro exI [of _ "op # xs"] exI [of _ k] exI [of _ ys]) simp
  qed
qed simp

lemma uploaded_trace:
  assumes "\<not> doc_archived d" and "doc_upload_status d = PendingUpload"
    and "doc_upload_status (fold document_step ops d) = Uploaded"
  shows "\<exists>xs ys k zs. ops = xs @ ScanCleanOp # ys @ FinalizeOp k # zs
           \<and> \<not> list_ex is_verdict xs \<and> \<not> list_ex is_finalize ys
           \<and> doc_object_key (fold document_step ops d) = k"
  using assms
proof (induction ops)
  case (Cons op ops)
  consider (clean) "op = ScanCleanOp" | (bad) "op = ScanMaliciousOp \<or> op = ScanFailedOp"
    | (other) "\<not> is_verdict op" by (cases op) auto
  then show ?case
  proof cases
    case clean
    let ?d = "document_step op d"
    have "\<not> doc_archived ?d" "doc_upload_status ?d = Finalizing"
      using clean Cons.prems by (simp_all add: document_step_def op_defs)
    moreover have "doc_upload_status (fold document_step ops ?d) = Uploaded"
      using Cons.prems(3) by simp
    ultimately obtain ys k zs where
      "ops = ys @ FinalizeOp k # zs" "\<not> list_ex is_finalize ys"
      "doc_object_key (fold document_step ops ?d) = k"
      using finalizing_trace by blast
    with clean show ?thesis
      by (intro exI [of _ "[]"] exI [of _ ys] exI [of _ k] exI [of _ zs]) simp
  next
    case bad
    then have "doc_upload_status (document_step op d) \<in> {ContainsVirus, FailedUpload}"
      using Cons.prems by (auto simp: document_step_def op_defs)
    then have "doc_upload_status (fold document_step ops (document_step op d))
        = doc_upload_status (document_step op d)"
      using doc.dead_run [of "document_step op d" "doc_upload_status (document_step op d)" ops]
      by (auto simp: terminal_status_def)
    with Cons.prems \<open>doc_upload_status (document_step op d) \<in> _\<close> show ?thesis by auto
  next
    case other
    then have same: "document_step op d = d" using Cons.prems by (simp add: pending_step_other)
    then have "doc_upload_status (fold document_step ops d) = Uploaded" using Cons.prems(3) by simp
    from Cons.IH [OF Cons.prems(1,2) this] obtain xs ys k zs where
      "ops = xs @ ScanCleanOp # ys @ FinalizeOp k # zs" "\<not> list_ex is_verdict xs"
      "\<not> list_ex is_finalize ys" "doc_object_key (fold document_step ops d) = k" by blast
    with other same show ?thesis
      by (intro exI [of _ "op # xs"] exI [of _ ys] exI [of _ k] exI [of _ zs]) simp
  qed
qed simp

section \<open>Properties\<close>

definition sample_document :: document where
  "sample_document =
     \<lparr>doc_identity = PolicyDocument (PolicyId 1) (DocumentId 2), doc_workspace_id = WorkspaceId 3,
      doc_created_by_user_id = UserId 4, doc_filename = ''plan.pdf'',
      doc_content_type = ''application/pdf'', doc_content_length = 12, doc_object_key = ''staged'',
      doc_checksum_sha256 = ''a'', doc_checksum_crc32c = ''b'', doc_upload_status = PendingUpload,
      doc_archived = False, doc_created_at = 0\<rparr>"

definition sample_payload :: create_document_payload where
  "sample_payload =
     \<lparr>payload_owner = OwnedByPolicy (PolicyId 1), payload_filename = ''plan.pdf'',
      payload_content_type = ''application/pdf'', payload_content_length = 12,
      payload_object_key = ''staged'', payload_checksum_sha256 = ''a'', payload_checksum_crc32c = ''b''\<rparr>"

lemma document_step_sample [simp]:
  "document_step ScanCleanOp d = fst (scan_clean d)"
  "document_step ScanMaliciousOp d = fst (scan_malicious d)"
  "document_step ScanFailedOp d = fst (scan_failed d)"
  "document_step (FinalizeOp k) d = fst (finalize_uploaded k d)"
  "document_step ArchiveOp d = fst (document_archive d)"
  by (simp_all add: document_step_def)

text \<open>
  C1: A created document becomes available only through a clean scan: if after any sequence of
  operations it is uploaded, then the first verdict in the sequence was clean, a finalization
  followed it, and the object the document names is the one of that first finalization.
\<close>

theorem uploaded_only_after_clean_scan:
  assumes "document_create i w u p t = Inr (d, tr)"
    and "doc_upload_status (fold document_step ops d) = Uploaded"
  shows "\<exists>xs ys k zs. ops = xs @ ScanCleanOp # ys @ FinalizeOp k # zs
           \<and> \<not> list_ex is_verdict xs \<and> \<not> list_ex is_finalize ys
           \<and> doc_object_key (fold document_step ops d) = k"
proof (rule uploaded_trace [OF _ _ assms(2)])
  show "\<not> doc_archived d" "doc_upload_status d = PendingUpload"
    using assms(1) by (auto simp: document_create_def Let_def split: if_splits)
qed

theorem uploaded_only_after_clean_scan_witness:
  "\<exists>xs ys k zs. [ArchiveOp, ScanCleanOp, ScanMaliciousOp, FinalizeOp ''final'', FinalizeOp ''late'']
     = xs @ ScanCleanOp # ys @ FinalizeOp k # zs
     \<and> \<not> list_ex is_verdict xs \<and> \<not> list_ex is_finalize ys \<and> k = ''final''"
proof -
  let ?ops = "[ArchiveOp, ScanCleanOp, ScanMaliciousOp, FinalizeOp ''final'', FinalizeOp ''late'']"
  have c: "\<exists>tr. document_create (PolicyDocument (PolicyId 1) (DocumentId 2)) (WorkspaceId 3) (UserId 4)
             sample_payload 0 = Inr (sample_document, tr)"
    by (simp add: document_create_def sample_payload_def sample_document_def)
  have "doc_upload_status (fold document_step ?ops sample_document) = Uploaded"
    and k: "doc_object_key (fold document_step ?ops sample_document) = ''final''"
    by (simp_all add: sample_document_def op_defs)
  with c uploaded_only_after_clean_scan [of _ _ _ _ _ sample_document _ ?ops] show ?thesis
    unfolding k by blast
qed


end
