(* ===== verification/Users.thy ===== *)
theory Users
  imports Identifiers Persistence
begin

text \<open>
  The user aggregate (\<^verbatim>\<open>src/domain/user.rs\<close>) and its record
  (\<^verbatim>\<open>src/persistence/aggregates/users.rs\<close>). A profile claim that is absent keeps the known value;
  logins only move forward in time and never lie before the creation of the user.
\<close>

section \<open>The aggregate\<close>

record user =
  usr_id :: user_id
  usr_auth0_sub :: string
  usr_email :: "string option"
  usr_name :: "string option"
  usr_last_login_at :: "datetime option"
  usr_created_at :: datetime

datatype user_transition = UserApplied | UserReplay

datatype user_error = InvalidUserLifecycle

definition user_provision ::
  "user_id \<Rightarrow> string \<Rightarrow> string option \<Rightarrow> string option \<Rightarrow> datetime \<Rightarrow> user" where
  "user_provision i sub email nm created_at =
     \<lparr>usr_id = i, usr_auth0_sub = sub, usr_email = email, usr_name = nm,
      usr_last_login_at = None, usr_created_at = created_at\<rparr>"

text \<open>\<^verbatim>\<open>rehydrate\<close>, whose arguments are the fields of its result.\<close>

definition user_rehydrate :: "user \<Rightarrow> user_error + user" where
  "user_rehydrate u =
     (if is_some_and (\<lambda>t. t < usr_created_at u) (usr_last_login_at u)
      then Err InvalidUserLifecycle else Ok u)"

definition provision_profile ::
  "string option \<Rightarrow> string option \<Rightarrow> user \<Rightarrow> user \<times> user_transition" where
  "provision_profile email nm u =
     (let next_email = option_or email (usr_email u); next_name = option_or nm (usr_name u) in
      if usr_email u = next_email \<and> usr_name u = next_name then (u, UserReplay)
      else (u\<lparr>usr_email := next_email, usr_name := next_name\<rparr>, UserApplied))"

definition record_login :: "datetime \<Rightarrow> user \<Rightarrow> user_error + user \<times> user_transition" where
  "record_login logged_in_at u =
     (if logged_in_at < usr_created_at u then Err InvalidUserLifecycle
      else if is_some_and (\<lambda>current. logged_in_at \<le> current) (usr_last_login_at u)
        then Ok (u, UserReplay)
      else Ok (u\<lparr>usr_last_login_at := Some logged_in_at\<rparr>, UserApplied))"

section \<open>The persistence record\<close>

record user_record =
  usrrec_id :: uuid
  usrrec_auth0_sub :: string
  usrrec_email :: "string option"
  usrrec_name :: "string option"
  usrrec_last_login_at :: "datetime option"
  usrrec_created_at :: datetime

definition user_from_domain :: "user \<Rightarrow> user_record" where
  "user_from_domain u =
     \<lparr>usrrec_id = user_uuid (usr_id u), usrrec_auth0_sub = usr_auth0_sub u,
      usrrec_email = usr_email u, usrrec_name = usr_name u,
      usrrec_last_login_at = usr_last_login_at u, usrrec_created_at = usr_created_at u\<rparr>"

definition user_into_domain :: "user_record \<Rightarrow> repository_error + user" where
  "user_into_domain r =
     map_err (\<lambda>_. InvariantViolation ''persisted user lifecycle is inconsistent'')
       (user_rehydrate
         \<lparr>usr_id = UserId (usrrec_id r), usr_auth0_sub = usrrec_auth0_sub r,
          usr_email = usrrec_email r, usr_name = usrrec_name r,
          usr_last_login_at = usrrec_last_login_at r, usr_created_at = usrrec_created_at r\<rparr>)"

section \<open>The lifecycle\<close>

definition wf_user :: "user \<Rightarrow> bool" where
  "wf_user u \<longleftrightarrow> is_none_or (\<lambda>t. usr_created_at u \<le> t) (usr_last_login_at u)"

datatype user_op = ProfileOp "string option" "string option" | LoginOp datetime

fun user_step :: "user_op \<Rightarrow> user \<Rightarrow> user" where
  "user_step (ProfileOp e n) u = fst (provision_profile e n u)"
| "user_step (LoginOp t) u = (case record_login t u of Inl e \<Rightarrow> u | Inr (u', _) \<Rightarrow> u')"

lemma user_rehydrate_Ok_iff: "user_rehydrate u = Inr v \<longleftrightarrow> v = u \<and> wf_user u"
  by (cases "usr_last_login_at u") (auto simp: user_rehydrate_def wf_user_def)

lemma user_provision_wf: "wf_user (user_provision i s e n t)"
  by (simp add: wf_user_def user_provision_def)

lemma user_step_wf: "wf_user u \<Longrightarrow> wf_user (user_step op u)"
  by (cases op) (auto simp: wf_user_def provision_profile_def record_login_def Let_def)

lemma user_reload: "wf_user u \<Longrightarrow> user_into_domain (user_from_domain u) = Inr u"
  by (cases u) (simp add: user_into_domain_def user_from_domain_def user_rehydrate_Ok_iff)

lemma user_loaded_wf: "user_into_domain r = Inr u \<Longrightarrow> wf_user u"
  by (auto simp: user_into_domain_def user_rehydrate_Ok_iff)

interpretation usr: stored_aggregate user_step "\<lambda>_ _. True" wf_user
  user_from_domain user_into_domain
  by unfold_locales (auto intro: user_step_wf user_reload dest: user_loaded_wf)

text \<open>
  The last login after a sequence of operations is the latest accepted login time, whatever the
  order in which the logins arrive.
\<close>

fun login_times :: "datetime \<Rightarrow> user_op list \<Rightarrow> datetime list" where
  "login_times created [] = []"
| "login_times created (ProfileOp e n # ops) = login_times created ops"
| "login_times created (LoginOp t # ops) =
     (if created \<le> t then t # login_times created ops else login_times created ops)"

definition latest :: "datetime option \<Rightarrow> datetime list \<Rightarrow> datetime option" where
  "latest m ts = fold (\<lambda>t m. case m of None \<Rightarrow> Some t | Some x \<Rightarrow> Some (max x t)) ts m"

lemma user_step_created_at [simp]: "usr_created_at (user_step op u) = usr_created_at u"
  by (cases op) (auto simp: provision_profile_def record_login_def Let_def)

lemma user_last_login:
  "usr_last_login_at (fold user_step ops u) =
     latest (usr_last_login_at u) (login_times (usr_created_at u) ops)"
proof (induction ops arbitrary: u)
  case (Cons op ops)
  have "usr_last_login_at (user_step op u) =
      latest (usr_last_login_at u) (login_times (usr_created_at u) [op])"
    by (cases op) (auto simp: latest_def provision_profile_def record_login_def Let_def
        split: option.splits)
  moreover have "latest m (login_times c (op # ops)) =
      latest (latest m (login_times c [op])) (login_times c ops)" for m c
    by (cases op) (auto simp: latest_def)
  ultimately show ?case using Cons.IH [of "user_step op u"] by simp
qed (simp add: latest_def)

section \<open>Properties\<close>

text \<open>
  Whatever the order in which logins and profile updates of a user arrive, the recorded last
  login is the latest login at or after the creation of the user, replays and late arrivals
  included, and the user's record reads back as the user.
\<close>

theorem last_login_is_latest:
  "let u = fold user_step ops (user_provision i s e n t) in
     usr_last_login_at u = latest None (login_times t ops)
     \<and> user_into_domain (user_from_domain u) = Inr u"
  using user_last_login [of ops "user_provision i s e n t"]
    usr.reload [OF usr.run_wf [OF user_provision_wf, of ops i s e n t]]
  by (simp add: Let_def user_provision_def)

end
