(* ===== verification/Agent_Connections.thy ===== *)
theory Agent_Connections
  imports Workspaces Permissions
begin

text \<open>
  The agent connection aggregate (\<^verbatim>\<open>src/domain/agent_connection.rs\<close>) and its repository
  (\<^verbatim>\<open>src/persistence/aggregates/agent_connections.rs\<close>), which keeps a connection in three tables:
  the connection, its permissions and its one-shot authorization transaction. The status machine
  is \<open>conn_edge\<close>; a revoked connection stays revoked, a continuation is consumed once and only
  before its deadline by the holder of both secrets.
\<close>

section \<open>The aggregate\<close>

datatype connection_status = ConnPending | ConnAuthorized | ConnActive | ConnRevoked

fun connection_status_as_str :: "connection_status \<Rightarrow> string" where
  "connection_status_as_str ConnPending = ''pending''"
| "connection_status_as_str ConnAuthorized = ''authorized''"
| "connection_status_as_str ConnActive = ''active''"
| "connection_status_as_str ConnRevoked = ''revoked''"

definition connection_status_from_str :: "string \<Rightarrow> unit + connection_status" where
  "connection_status_from_str value =
     (if value = ''pending'' then Ok ConnPending
      else if value = ''authorized'' then Ok ConnAuthorized
      else if value = ''active'' then Ok ConnActive
      else if value = ''revoked'' then Ok ConnRevoked
      else Err ())"

record agent_authorization_transaction =
  auth_id :: agent_authorization_transaction_id
  auth_continuation_digest :: sha256_digest
  auth_nonce_digest :: sha256_digest
  auth_consumed_at :: "datetime option"

record agent_connection =
  conn_id :: agent_connection_id
  conn_user_id :: user_id
  conn_workspace_id :: workspace_id
  conn_auth0_subject :: string
  conn_auth0_client_id :: string
  conn_client_display_name :: string
  conn_resource :: string
  conn_status :: connection_status
  conn_permissions :: "workspace_permission list"
  conn_pending_expires_at :: datetime
  conn_activated_at :: "datetime option"
  conn_last_used_at :: "datetime option"
  conn_revoked_at :: "datetime option"
  conn_created_at :: datetime
  conn_authorization :: agent_authorization_transaction

datatype connection_consumption = ConsumptionAuthorized | ConsumptionUnavailable
datatype connection_activation = Activated | AlreadyActive | ActivationUnavailable
datatype connection_use = ConnectionUsed | UseUnavailable
datatype connection_revocation = ConnectionRevoked | AlreadyRevoked

datatype connection_lifecycle_error =
  InvalidConnectionRequest | InvalidConnectionRehydration | InvalidConnectionTransition

definition connection_request ::
  "agent_connection_id \<Rightarrow> agent_authorization_transaction_id \<Rightarrow> user_id \<Rightarrow> workspace_id
   \<Rightarrow> string \<Rightarrow> string \<Rightarrow> string \<Rightarrow> string \<Rightarrow> workspace_permission list \<Rightarrow> datetime
   \<Rightarrow> sha256_digest \<Rightarrow> sha256_digest \<Rightarrow> datetime
   \<Rightarrow> connection_lifecycle_error + agent_connection" where
  "connection_request i transaction user workspace subject client display_name resource permissions
     pending_expires_at continuation nonce created_at =
     (if pending_expires_at \<le> created_at
       \<or> permissions = []
       \<or> trim subject = []
       \<or> trim client = []
       \<or> trim display_name = []
       \<or> trim resource = []
      then Err InvalidConnectionRequest
      else Ok \<lparr>conn_id = i, conn_user_id = user, conn_workspace_id = workspace,
               conn_auth0_subject = subject, conn_auth0_client_id = client,
               conn_client_display_name = display_name, conn_resource = resource,
               conn_status = ConnPending, conn_permissions = permissions,
               conn_pending_expires_at = pending_expires_at, conn_activated_at = None,
               conn_last_used_at = None, conn_revoked_at = None, conn_created_at = created_at,
               conn_authorization =
                 \<lparr>auth_id = transaction, auth_continuation_digest = continuation,
                  auth_nonce_digest = nonce, auth_consumed_at = None\<rparr>\<rparr>)"

fun status_fields_valid ::
  "connection_status \<Rightarrow> datetime option \<Rightarrow> datetime option \<Rightarrow> datetime option \<Rightarrow> bool" where
  "status_fields_valid ConnPending activated revoked consumed \<longleftrightarrow>
     activated = None \<and> revoked = None \<and> consumed = None"
| "status_fields_valid ConnAuthorized activated revoked consumed \<longleftrightarrow>
     activated = None \<and> revoked = None \<and> consumed \<noteq> None"
| "status_fields_valid ConnActive activated revoked consumed \<longleftrightarrow>
     activated \<noteq> None \<and> revoked = None \<and> consumed \<noteq> None"
| "status_fields_valid ConnRevoked activated revoked consumed \<longleftrightarrow> revoked \<noteq> None"

text \<open>\<^verbatim>\<open>rehydrate\<close>, whose arguments are the fields of the connection and of its transaction.\<close>

definition connection_rehydrate ::
  "agent_connection \<Rightarrow> connection_lifecycle_error + agent_connection" where
  "connection_rehydrate c =
     (let a = conn_authorization c; before = (\<lambda>t. t < conn_created_at c) in
      and_then
        (map_err (\<lambda>_. InvalidConnectionRehydration)
          (connection_request (conn_id c) (auth_id a) (conn_user_id c) (conn_workspace_id c)
            (conn_auth0_subject c) (conn_auth0_client_id c) (conn_client_display_name c)
            (conn_resource c) (conn_permissions c) (conn_pending_expires_at c)
            (auth_continuation_digest a) (auth_nonce_digest a) (conn_created_at c)))
        (\<lambda>connection.
          if \<not> status_fields_valid (conn_status c) (conn_activated_at c) (conn_revoked_at c)
                 (auth_consumed_at a)
           \<or> is_some_and before (conn_activated_at c)
           \<or> is_some_and before (conn_last_used_at c)
           \<or> is_some_and before (conn_revoked_at c)
           \<or> is_some_and before (auth_consumed_at a)
          then Err InvalidConnectionRehydration
          else Ok (connection\<lparr>conn_status := conn_status c,
                 conn_activated_at := conn_activated_at c,
                 conn_last_used_at := conn_last_used_at c,
                 conn_revoked_at := conn_revoked_at c,
                 conn_authorization :=
                   (conn_authorization connection)\<lparr>auth_consumed_at := auth_consumed_at a\<rparr>\<rparr>)))"

definition consume_continuation ::
  "sha256_digest \<Rightarrow> sha256_digest \<Rightarrow> datetime \<Rightarrow> agent_connection
   \<Rightarrow> agent_connection \<times> connection_consumption" where
  "consume_continuation continuation nonce now c =
     (if conn_status c \<noteq> ConnPending
       \<or> now \<ge> conn_pending_expires_at c
       \<or> auth_continuation_digest (conn_authorization c) \<noteq> continuation
       \<or> auth_nonce_digest (conn_authorization c) \<noteq> nonce
      then (c, ConsumptionUnavailable)
      else (c\<lparr>conn_status := ConnAuthorized,
              conn_authorization := (conn_authorization c)\<lparr>auth_consumed_at := Some now\<rparr>\<rparr>,
            ConsumptionAuthorized))"

definition connection_activate ::
  "datetime \<Rightarrow> agent_connection \<Rightarrow> agent_connection \<times> connection_activation" where
  "connection_activate now c =
     (if conn_status c = ConnActive then (c, AlreadyActive)
      else if conn_status c = ConnAuthorized \<and> now < conn_pending_expires_at c
        then (c\<lparr>conn_status := ConnActive, conn_activated_at := Some now\<rparr>, Activated)
      else (c, ActivationUnavailable))"

definition use_at :: "datetime \<Rightarrow> agent_connection \<Rightarrow> agent_connection \<times> connection_use" where
  "use_at now c =
     (if conn_status c \<noteq> ConnActive then (c, UseUnavailable)
      else (c\<lparr>conn_last_used_at := Some now\<rparr>, ConnectionUsed))"

definition connection_revoke ::
  "datetime \<Rightarrow> agent_connection
   \<Rightarrow> connection_lifecycle_error + agent_connection \<times> connection_revocation" where
  "connection_revoke now c =
     (if conn_status c = ConnRevoked then Ok (c, AlreadyRevoked)
      else if now < conn_created_at c then Err InvalidConnectionTransition
      else Ok (c\<lparr>conn_status := ConnRevoked, conn_revoked_at := Some now\<rparr>, ConnectionRevoked))"

lemmas connection_op_defs [op_defs] =
  consume_continuation_def connection_activate_def use_at_def connection_revoke_def

section \<open>The status machine\<close>

datatype connection_op =
    ConsumeOp sha256_digest sha256_digest datetime
  | ActivateOp datetime
  | UseOp datetime
  | RevokeConnOp datetime

fun connection_step :: "connection_op \<Rightarrow> agent_connection \<Rightarrow> agent_connection" where
  "connection_step (ConsumeOp k n t) c = fst (consume_continuation k n t c)"
| "connection_step (ActivateOp t) c = fst (connection_activate t c)"
| "connection_step (UseOp t) c = fst (use_at t c)"
| "connection_step (RevokeConnOp t) c =
     (case connection_revoke t c of Inl e \<Rightarrow> c | Inr (c', _) \<Rightarrow> c')"

fun op_time :: "connection_op \<Rightarrow> datetime" where
  "op_time (ConsumeOp k n t) = t"
| "op_time (ActivateOp t) = t"
| "op_time (UseOp t) = t"
| "op_time (RevokeConnOp t) = t"

text \<open>The clock has not gone back behind the creation of the connection.\<close>

definition conn_clock_ok :: "connection_op \<Rightarrow> agent_connection \<Rightarrow> bool" where
  "conn_clock_ok op c \<longleftrightarrow> conn_created_at c \<le> op_time op"

inductive conn_edge :: "connection_status \<Rightarrow> connection_status \<Rightarrow> bool" where
  consumed: "conn_edge ConnPending ConnAuthorized"
| activated: "conn_edge ConnAuthorized ConnActive"
| revoked: "s \<noteq> ConnRevoked \<Longrightarrow> conn_edge s ConnRevoked"

inductive_cases conn_edge_from_revoked [elim!]: "conn_edge ConnRevoked s"
inductive_simps conn_edge_to_active: "conn_edge s ConnActive"
inductive_simps conn_edge_to_authorized: "conn_edge s ConnAuthorized"

lemma connection_step_status:
  "conn_status (connection_step op c) = conn_status c
   \<or> conn_edge (conn_status c) (conn_status (connection_step op c))"
  by (cases op) (auto simp: op_defs intro: conn_edge.intros)

definition wf_connection :: "agent_connection \<Rightarrow> bool" where
  "wf_connection c \<longleftrightarrow> is_ok (connection_rehydrate c)"

lemma wf_connection_iff:
  "wf_connection c \<longleftrightarrow>
     conn_created_at c < conn_pending_expires_at c \<and> conn_permissions c \<noteq> []
     \<and> trim (conn_auth0_subject c) \<noteq> [] \<and> trim (conn_auth0_client_id c) \<noteq> []
     \<and> trim (conn_client_display_name c) \<noteq> [] \<and> trim (conn_resource c) \<noteq> []
     \<and> status_fields_valid (conn_status c) (conn_activated_at c) (conn_revoked_at c)
         (auth_consumed_at (conn_authorization c))
     \<and> is_none_or (\<lambda>t. conn_created_at c \<le> t) (conn_activated_at c)
     \<and> is_none_or (\<lambda>t. conn_created_at c \<le> t) (conn_last_used_at c)
     \<and> is_none_or (\<lambda>t. conn_created_at c \<le> t) (conn_revoked_at c)
     \<and> is_none_or (\<lambda>t. conn_created_at c \<le> t) (auth_consumed_at (conn_authorization c))"
proof -
  have not_before: "is_some_and (\<lambda>t. t < a) x \<longleftrightarrow> \<not> is_none_or (\<lambda>t. a \<le> t) x" for a :: int and x
    by (cases x) auto
  show ?thesis
    by (simp add: wf_connection_def connection_rehydrate_def connection_request_def Let_def not_before)
qed

lemma connection_rehydrate_Ok_iff:
  "connection_rehydrate c = Inr d \<longleftrightarrow> d = c \<and> wf_connection c"
  unfolding wf_connection_def
  by (cases c) (auto simp: connection_rehydrate_def connection_request_def Let_def)

lemma connection_request_wf:
  "connection_request i tr u w s cl dn rs ps x k n t = Inr c \<Longrightarrow>
     wf_connection c \<and> conn_status c = ConnPending"
  by (auto simp: connection_request_def wf_connection_iff split: if_splits)

lemma connection_step_wf:
  "wf_connection c \<Longrightarrow> conn_clock_ok op c \<Longrightarrow> wf_connection (connection_step op c)"
  by (cases op) (auto simp: wf_connection_iff conn_clock_ok_def op_defs)

lemma revoked_step: "conn_status c = ConnRevoked \<Longrightarrow> connection_step op c = c"
  by (cases op) (simp_all add: op_defs)

interpretation conn: terminal_aggregate connection_step conn_clock_ok wf_connection
  "\<lambda>c. conn_status c = ConnRevoked \<and> c = d"
  by unfold_locales (auto intro: connection_step_wf simp: revoked_step)

text \<open>Attempts to consume the continuation: a consumed one is spent, so is an abandoned one.\<close>

definition consume_attempt ::
  "sha256_digest \<times> sha256_digest \<times> datetime \<Rightarrow> agent_connection \<Rightarrow> unit + agent_connection" where
  "consume_attempt a c =
     (case consume_continuation (fst a) (fst (snd a)) (snd (snd a)) c of
        (c', ConsumptionAuthorized) \<Rightarrow> Ok c' | (c', ConsumptionUnavailable) \<Rightarrow> Err ())"

interpretation continuation: single_use consume_attempt "\<lambda>c. conn_status c \<noteq> ConnPending"
  by unfold_locales (auto simp: consume_attempt_def op_defs split: if_splits)

lemma connection_step_static [simp]:
  "auth_continuation_digest (conn_authorization (connection_step op c))
     = auth_continuation_digest (conn_authorization c)"
  "auth_nonce_digest (conn_authorization (connection_step op c))
     = auth_nonce_digest (conn_authorization c)"
  "conn_pending_expires_at (connection_step op c) = conn_pending_expires_at c"
  "conn_permissions (connection_step op c) = conn_permissions c"
  "conn_id (connection_step op c) = conn_id c"
  "conn_user_id (connection_step op c) = conn_user_id c"
  "conn_workspace_id (connection_step op c) = conn_workspace_id c"
  by (cases op; auto simp: op_defs)+

lemmas connection_run_static =
  fold_keeps [where step = connection_step
      and f = "\<lambda>c. auth_continuation_digest (conn_authorization c)", OF connection_step_static(1)]
  fold_keeps [where step = connection_step
      and f = "\<lambda>c. auth_nonce_digest (conn_authorization c)", OF connection_step_static(2)]
  fold_keeps [where step = connection_step and f = conn_pending_expires_at,
      OF connection_step_static(3)]
  fold_keeps [where step = connection_step and f = conn_permissions, OF connection_step_static(4)]

lemma becomes_active:
  assumes "conn_status c \<noteq> ConnActive" and "conn_status (connection_step op c) = ConnActive"
  obtains t where "op = ActivateOp t" and "conn_status c = ConnAuthorized"
    and "t < conn_pending_expires_at c"
  using assms by (cases op) (auto simp: op_defs split: if_splits)

lemma becomes_authorized:
  assumes "conn_status c \<noteq> ConnAuthorized" and "conn_status (connection_step op c) = ConnAuthorized"
  obtains t where "op = ConsumeOp (auth_continuation_digest (conn_authorization c))
      (auth_nonce_digest (conn_authorization c)) t"
    and "conn_status c = ConnPending" and "t < conn_pending_expires_at c"
  using assms by (cases op) (auto simp: op_defs split: if_splits)

text \<open>
  A pending connection becomes active only by a run that consumes its continuation with both
  secrets and then activates it, each before the deadline.
\<close>

lemma active_trace:
  assumes "conn_status c = ConnPending" and "conn_status (fold connection_step ops c) = ConnActive"
  shows "\<exists>xs t ys u zs. ops = xs @ ConsumeOp (auth_continuation_digest (conn_authorization c))
             (auth_nonce_digest (conn_authorization c)) t # ys @ ActivateOp u # zs
           \<and> t < conn_pending_expires_at c \<and> u < conn_pending_expires_at c"
proof -
  from assms have "conn_status c \<noteq> ConnActive" by simp
  from this assms(2) obtain as op zs where ops: "ops = as @ op # zs"
    and before: "conn_status (fold connection_step as c) \<noteq> ConnActive"
    and after: "conn_status (connection_step op (fold connection_step as c)) = ConnActive"
    by (rule fold_becomes [where P = "\<lambda>c. conn_status c = ConnActive"])
  from before after obtain u where u: "op = ActivateOp u" "u < conn_pending_expires_at c"
    and auth: "conn_status (fold connection_step as c) = ConnAuthorized"
    by (rule becomes_active) (simp add: connection_run_static)
  from assms have "conn_status c \<noteq> ConnAuthorized" by simp
  from this auth obtain xs q ys where as: "as = xs @ q # ys"
    and qb: "conn_status (fold connection_step xs c) \<noteq> ConnAuthorized"
    and qa: "conn_status (connection_step q (fold connection_step xs c)) = ConnAuthorized"
    by (rule fold_becomes [where P = "\<lambda>c. conn_status c = ConnAuthorized"])
  from qb qa obtain t where "q = ConsumeOp (auth_continuation_digest (conn_authorization c))
      (auth_nonce_digest (conn_authorization c)) t" "t < conn_pending_expires_at c"
    by (rule becomes_authorized) (simp add: connection_run_static)
  with ops as u show ?thesis
    by (intro exI [of _ xs] exI [of _ t] exI [of _ ys] exI [of _ u] exI [of _ zs]) simp
qed

section \<open>The repository\<close>

record connection_record =
  connrec_id :: uuid
  connrec_user_id :: uuid
  connrec_workspace_id :: uuid
  connrec_auth0_subject :: string
  connrec_auth0_client_id :: string
  connrec_client_display_name :: string
  connrec_resource :: string
  connrec_status :: string
  connrec_pending_expires_at :: datetime
  connrec_activated_at :: "datetime option"
  connrec_last_used_at :: "datetime option"
  connrec_revoked_at :: "datetime option"
  connrec_created_at :: datetime

record authorization_record =
  authrec_id :: uuid
  authrec_connection_id :: uuid
  authrec_continuation_digest :: bytes
  authrec_nonce_digest :: bytes
  authrec_consumed_at :: "datetime option"
  authrec_created_at :: datetime

record permission_record =
  permrec_connection_id :: uuid
  permrec_permission :: string

record agent_tables =
  connections_table :: "connection_record list"
  connection_permissions_table :: "permission_record list"
  authorizations_table :: "authorization_record list"

definition connection_from_domain :: "agent_connection \<Rightarrow> connection_record" where
  "connection_from_domain c =
     \<lparr>connrec_id = agent_connection_uuid (conn_id c), connrec_user_id = user_uuid (conn_user_id c),
      connrec_workspace_id = workspace_uuid (conn_workspace_id c),
      connrec_auth0_subject = conn_auth0_subject c,
      connrec_auth0_client_id = conn_auth0_client_id c,
      connrec_client_display_name = conn_client_display_name c,
      connrec_resource = conn_resource c,
      connrec_status = connection_status_as_str (conn_status c),
      connrec_pending_expires_at = conn_pending_expires_at c,
      connrec_activated_at = conn_activated_at c, connrec_last_used_at = conn_last_used_at c,
      connrec_revoked_at = conn_revoked_at c, connrec_created_at = conn_created_at c\<rparr>"

definition authorization_from_domain :: "agent_connection \<Rightarrow> authorization_record" where
  "authorization_from_domain c =
     \<lparr>authrec_id = agent_authorization_transaction_uuid (auth_id (conn_authorization c)),
      authrec_connection_id = agent_connection_uuid (conn_id c),
      authrec_continuation_digest = as_bytes (auth_continuation_digest (conn_authorization c)),
      authrec_nonce_digest = as_bytes (auth_nonce_digest (conn_authorization c)),
      authrec_consumed_at = auth_consumed_at (conn_authorization c),
      authrec_created_at = conn_created_at c\<rparr>"

definition permission_from_domain :: "uuid \<Rightarrow> workspace_permission \<Rightarrow> permission_record" where
  "permission_from_domain i p =
     \<lparr>permrec_connection_id = i, permrec_permission = permission_as_str p\<rparr>"

definition connection_into_domain ::
  "connection_record \<Rightarrow> string list \<Rightarrow> authorization_record \<Rightarrow> repository_error + agent_connection"
where
  "connection_into_domain r permission_names a =
     and_then (digest_from_bytes ''agent continuation digest must contain 32 bytes''
                 (authrec_continuation_digest a)) (\<lambda>continuation.
     and_then (digest_from_bytes ''agent nonce digest must contain 32 bytes''
                 (authrec_nonce_digest a)) (\<lambda>nonce.
     and_then (collect_results (map (\<lambda>p.
         map_err (\<lambda>_. InvariantViolation ''unknown agent connection permission'')
           (permission_from_str p)) permission_names)) (\<lambda>permissions.
     and_then (map_err (\<lambda>_. InvariantViolation ''unknown agent connection status'')
                 (connection_status_from_str (connrec_status r))) (\<lambda>status.
     map_err (\<lambda>_. InvariantViolation ''persisted agent connection is inconsistent'')
       (connection_rehydrate
         \<lparr>conn_id = AgentConnectionId (connrec_id r), conn_user_id = UserId (connrec_user_id r),
          conn_workspace_id = WorkspaceId (connrec_workspace_id r),
          conn_auth0_subject = connrec_auth0_subject r,
          conn_auth0_client_id = connrec_auth0_client_id r,
          conn_client_display_name = connrec_client_display_name r,
          conn_resource = connrec_resource r, conn_status = status,
          conn_permissions = permissions,
          conn_pending_expires_at = connrec_pending_expires_at r,
          conn_activated_at = connrec_activated_at r,
          conn_last_used_at = connrec_last_used_at r,
          conn_revoked_at = connrec_revoked_at r, conn_created_at = connrec_created_at r,
          conn_authorization =
            \<lparr>auth_id = AgentAuthorizationTransactionId (authrec_id a),
             auth_continuation_digest = continuation, auth_nonce_digest = nonce,
             auth_consumed_at = authrec_consumed_at a\<rparr>\<rparr>)))))"

text \<open>
  The order \<^verbatim>\<open>array_position\<close> gives the permissions of a connection in the query; a name that is
  not in the array sorts last.
\<close>

definition permission_position :: "string \<Rightarrow> nat" where
  "permission_position s =
     (case position (\<lambda>x. x = s)
        [''read_evidence'', ''write_evidence'', ''read_evidence_submissions'',
         ''write_evidence_submissions'', ''read_controls'', ''write_controls'',
         ''manage_auditor_access''] of Some i \<Rightarrow> i | None \<Rightarrow> 7)"

definition connection_permission_names :: "uuid \<Rightarrow> agent_tables \<Rightarrow> string list" where
  "connection_permission_names i t =
     sort_key permission_position
       (map permrec_permission
         (filter (\<lambda>p. permrec_connection_id p = i) (connection_permissions_table t)))"

definition connection_get ::
  "agent_connection_id \<Rightarrow> agent_tables \<Rightarrow> repository_error + agent_connection option" where
  "connection_get i t =
     (let k = agent_connection_uuid i in
      case (find_row connrec_id k (connections_table t),
            find_row authrec_connection_id k (authorizations_table t)) of
        (Some r, Some a) \<Rightarrow>
          and_then (connection_into_domain r (connection_permission_names k t) a)
            (\<lambda>c. Ok (Some c))
      | _ \<Rightarrow> Ok None)"

definition live_status :: "string \<Rightarrow> bool" where
  "live_status s \<longleftrightarrow> s \<in> {''pending'', ''authorized'', ''active''}"

text \<open>The partial unique index on the live connections of a user, client and resource.\<close>

definition live_tuple_taken :: "connection_record \<Rightarrow> connection_record list \<Rightarrow> bool" where
  "live_tuple_taken r rows \<longleftrightarrow>
     live_status (connrec_status r) \<and>
     list_ex (\<lambda>x. connrec_id x \<noteq> connrec_id r \<and> live_status (connrec_status x)
       \<and> connrec_user_id x = connrec_user_id r
       \<and> connrec_auth0_client_id x = connrec_auth0_client_id r
       \<and> connrec_resource x = connrec_resource r) rows"

fun insert_permissions ::
  "permission_record list \<Rightarrow> permission_record list \<Rightarrow> repository_error + permission_record list"
where
  "insert_permissions [] rows = Ok rows"
| "insert_permissions (p # ps) rows =
     (if p \<in> set rows
      then Err (Database (DbError unique_violation (Some ''agent_connection_permissions_pkey'')))
      else insert_permissions ps (rows @ [p]))"

definition digest_taken :: "authorization_record \<Rightarrow> authorization_record list \<Rightarrow> bool" where
  "digest_taken a rows \<longleftrightarrow>
     list_ex (\<lambda>x. authrec_connection_id x \<noteq> authrec_connection_id a
       \<and> (authrec_continuation_digest x = authrec_continuation_digest a
          \<or> authrec_nonce_digest x = authrec_nonce_digest a \<or> authrec_id x = authrec_id a)) rows"

definition connection_save ::
  "agent_connection \<Rightarrow> agent_tables \<Rightarrow> repository_error + agent_tables" where
  "connection_save c t =
     (let r = connection_from_domain c; a = authorization_from_domain c in
      if live_tuple_taken r (connections_table t)
        then Err (unique_error ''agent_connections_live_tuple_key'')
      else and_then
        (insert_permissions (map (permission_from_domain (connrec_id r)) (conn_permissions c))
          (delete_rows (\<lambda>p. permrec_connection_id p = connrec_id r)
            (connection_permissions_table t)))
        (\<lambda>ps. if digest_taken a (authorizations_table t)
               then Err (unique_error ''agent_authorization_transactions_continuation_digest_key'')
               else Ok \<lparr>connections_table = upsert_row connrec_id r (connections_table t),
                        connection_permissions_table = ps,
                        authorizations_table =
                          upsert_row authrec_connection_id a (authorizations_table t)\<rparr>))"

section \<open>Saving and loading\<close>

lemma connection_status_round_trip [simp]:
  "connection_status_from_str (connection_status_as_str s) = Inr s"
  by (cases s) (simp_all add: connection_status_from_str_def)

lemma live_status_iff [simp]: "live_status (connection_status_as_str s) \<longleftrightarrow> s \<noteq> ConnRevoked"
  by (cases s) (simp_all add: live_status_def)

lemma permission_position_as_str [simp]:
  "permission_position (permission_as_str p) = permission_index p"
  by (cases p) (simp_all add: permission_position_def)

lemma insert_permissions_Ok:
  "insert_permissions ps rows = Inr rows' \<Longrightarrow> rows' = rows @ ps"
proof (induction ps arbitrary: rows)
  case (Cons p ps)
  then show ?case using Cons.IH [of "rows @ [p]"] by (simp split: if_splits)
qed simp

lemma connrec_id_from_domain [simp]:
  "connrec_id (connection_from_domain c) = agent_connection_uuid (conn_id c)"
  by (simp add: connection_from_domain_def)

lemma authrec_id_from_domain [simp]:
  "authrec_connection_id (authorization_from_domain c) = agent_connection_uuid (conn_id c)"
  by (simp add: authorization_from_domain_def)

lemma connection_save_Ok:
  assumes "connection_save c t = Inr t'"
  shows "connections_table t' = upsert_row connrec_id (connection_from_domain c) (connections_table t)"
    and "authorizations_table t' =
           upsert_row authrec_connection_id (authorization_from_domain c) (authorizations_table t)"
    and "connection_permissions_table t' =
           delete_rows (\<lambda>p. permrec_connection_id p = agent_connection_uuid (conn_id c))
             (connection_permissions_table t)
           @ map (permission_from_domain (agent_connection_uuid (conn_id c))) (conn_permissions c)"
    and "\<not> live_tuple_taken (connection_from_domain c) (connections_table t)"
  using assms
  by (auto simp: connection_save_def Let_def and_then_Ok_iff connection_from_domain_def
      split: if_splits dest!: insert_permissions_Ok)

text \<open>A connection as the request handler builds it: canonical permissions and 32-byte digests.\<close>

definition canonical_connection :: "agent_connection \<Rightarrow> bool" where
  "canonical_connection c \<longleftrightarrow>
     sorted (map permission_index (conn_permissions c))
     \<and> length (as_bytes (auth_continuation_digest (conn_authorization c))) = 32
     \<and> length (as_bytes (auth_nonce_digest (conn_authorization c))) = 32"

lemma connection_into_domain_reload:
  assumes "wf_connection c" and "canonical_connection c"
  shows "connection_into_domain (connection_from_domain c) (map permission_as_str (conn_permissions c))
           (authorization_from_domain c) = Inr c"
  using assms
  by (cases c; cases "conn_authorization c")
    (simp add: connection_into_domain_def connection_from_domain_def authorization_from_domain_def
      digest_from_bytes_def canonical_connection_def connection_rehydrate_Ok_iff
      comp_def permission_from_as_str)

lemma saved_permission_names:
  assumes "connection_save c t = Inr t'" and "canonical_connection c"
  shows "connection_permission_names (agent_connection_uuid (conn_id c)) t'
         = map permission_as_str (conn_permissions c)"
  using assms(2)
  by (simp add: connection_permission_names_def connection_save_Ok(3) [OF assms(1)]
      delete_rows_def permission_from_domain_def comp_def filter_map canonical_connection_def
      sort_key_id_if_sorted)

lemma connection_save_get:
  assumes "connection_save c t = Inr t'" and "wf_connection c" and "canonical_connection c"
  shows "connection_get (conn_id c) t' = Inr (Some c)"
  using connection_into_domain_reload [OF assms(2,3)] saved_permission_names [OF assms(1,3)]
  by (simp add: connection_get_def Let_def connection_save_Ok(1,2) [OF assms(1)])

lemma connection_save_get_other:
  assumes "connection_save c t = Inr t'" and "i \<noteq> conn_id c"
  shows "connection_get i t' = connection_get i t"
proof -
  have k: "agent_connection_uuid i \<noteq> agent_connection_uuid (conn_id c)"
    using assms(2) by (metis agent_connection_id.expand)
  then have "connection_permission_names (agent_connection_uuid i) t'
      = connection_permission_names (agent_connection_uuid i) t"
    by (auto simp: connection_permission_names_def connection_save_Ok(3) [OF assms(1)]
        delete_rows_def permission_from_domain_def filter_map comp_def intro!: arg_cong [where f = "sort_key _"]
        arg_cong [where f = "map _"] filter_cong)
  with k show ?thesis
    by (simp add: connection_get_def Let_def connection_save_Ok(1,2) [OF assms(1)]
        split: option.splits)
qed

text \<open>At most one live connection per user, client and resource: the index holds after a save.\<close>

definition live_key :: "connection_record \<Rightarrow> uuid \<times> string \<times> string" where
  "live_key r = (connrec_user_id r, connrec_auth0_client_id r, connrec_resource r)"

definition live_unique :: "connection_record list \<Rightarrow> bool" where
  "live_unique rows \<longleftrightarrow>
     (\<forall>r \<in> set rows. \<forall>s \<in> set rows. live_status (connrec_status r) \<and> live_status (connrec_status s)
        \<and> live_key r = live_key s \<longrightarrow> r = s)"

lemma connection_save_live_unique:
  assumes "connection_save c t = Inr t'" and "table_wf connrec_id (connections_table t)"
    and "live_unique (connections_table t)"
  shows "live_unique (connections_table t') \<and> table_wf connrec_id (connections_table t')"
proof -
  let ?r = "connection_from_domain c"
  have new: "\<not> (live_status (connrec_status ?r) \<and> live_status (connrec_status x) \<and> live_key x = live_key ?r)"
    if "x \<in> set (connections_table t)" "connrec_id x \<noteq> connrec_id ?r" for x
    using connection_save_Ok(4) [OF assms(1)] that
    by (auto simp: live_tuple_taken_def live_key_def list_ex_iff)
  have "live_unique (connections_table t')"
    unfolding live_unique_def connection_save_Ok(1) [OF assms(1)] set_upsert_row [OF assms(2)]
    using new assms(3) unfolding live_unique_def by (auto; metis)
  then show ?thesis
    by (simp add: connection_save_Ok(1) [OF assms(1)] upsert_row_wf [OF assms(2)])
qed

section \<open>Properties\<close>

definition sample_connection :: agent_connection where
  "sample_connection =
     \<lparr>conn_id = AgentConnectionId 1, conn_user_id = UserId 2, conn_workspace_id = WorkspaceId 3,
      conn_auth0_subject = ''s'', conn_auth0_client_id = ''c'', conn_client_display_name = ''d'',
      conn_resource = ''r'', conn_status = ConnPending, conn_permissions = [ReadEvidence],
      conn_pending_expires_at = 100, conn_activated_at = None, conn_last_used_at = None,
      conn_revoked_at = None, conn_created_at = 0,
      conn_authorization = \<lparr>auth_id = AgentAuthorizationTransactionId 4,
        auth_continuation_digest = Sha256Digest (replicate 32 1),
        auth_nonce_digest = Sha256Digest (replicate 32 2), auth_consumed_at = None\<rparr>\<rparr>"

lemma sample_connection_requested:
  "connection_request (AgentConnectionId 1) (AgentAuthorizationTransactionId 4) (UserId 2)
     (WorkspaceId 3) ''s'' ''c'' ''d'' ''r'' [ReadEvidence] 100 (Sha256Digest (replicate 32 1))
     (Sha256Digest (replicate 32 2)) 0 = Inr sample_connection"
  by (simp add: connection_request_def sample_connection_def) code_simp

text \<open>
  A requested agent connection becomes active only for the holder of both secrets: the sequence
  of operations contains a consumption with the digests of the request, before the deadline, and
  after it an activation before the deadline.
\<close>

theorem activation_needs_both_secrets:
  assumes "connection_request i tr u w s cl dn rs ps deadline continuation nonce t = Inr c"
    and "conn_status (fold connection_step ops c) = ConnActive"
  shows "\<exists>xs t ys u zs. ops = xs @ ConsumeOp continuation nonce t # ys @ ActivateOp u # zs
           \<and> t < deadline \<and> u < deadline"
proof -
  have c: "conn_status c = ConnPending" "conn_pending_expires_at c = deadline"
    "auth_continuation_digest (conn_authorization c) = continuation"
    "auth_nonce_digest (conn_authorization c) = nonce"
    using assms(1) by (auto simp: connection_request_def split: if_splits)
  from active_trace [OF c(1) assms(2)] show ?thesis by (simp only: c)
qed

theorem activation_needs_both_secrets_witness:
  "\<exists>xs t ys u zs. [ConsumeOp (Sha256Digest (replicate 32 1)) (Sha256Digest (replicate 32 2)) 5, ActivateOp 6]
     = xs @ ConsumeOp (Sha256Digest (replicate 32 1)) (Sha256Digest (replicate 32 2)) t # ys @ ActivateOp u # zs
     \<and> t < (100 :: int) \<and> u < (100 :: int)"
proof (rule activation_needs_both_secrets [OF sample_connection_requested])
  show "conn_status (fold connection_step
      [ConsumeOp (Sha256Digest (replicate 32 1)) (Sha256Digest (replicate 32 2)) 5, ActivateOp 6]
      sample_connection) = ConnActive"
    by (simp add: sample_connection_def op_defs)
qed

text \<open>
  Revocation is final: after a connection is revoked no operation changes it, and of all the
  attempts to consume a connection's continuation at most one succeeds.
\<close>

theorem connection_revocation_final:
  assumes "connection_revoke t c = Inr (d, outcome)"
  shows "fold connection_step ops d = d \<and> successes consume_attempt attempts d = 0
     \<and> successes consume_attempt attempts c \<le> 1"
proof -
  have d: "conn_status d = ConnRevoked" using assms by (auto simp: connection_revoke_def split: if_splits)
  then have "fold connection_step ops d = d" using conn.dead_run [of d d ops] by simp
  with d continuation.successes_spent [of d attempts] continuation.successes_le_one [of attempts c]
  show ?thesis by simp
qed

theorem connection_revocation_final_witness:
  "\<exists>d outcome. connection_revoke 7 sample_connection = Inr (d, outcome)
     \<and> fold connection_step [UseOp 8, ActivateOp 9] d = d"
proof -
  obtain d outcome where d: "connection_revoke 7 sample_connection = Inr (d, outcome)"
    by (simp add: connection_revoke_def sample_connection_def)
  with connection_revocation_final [OF d] show ?thesis by blast
qed



end
