(* ===== verification/OAuth_Flows.thy ===== *)
theory OAuth_Flows
  imports Persistence Permissions
begin

text \<open>
  The OAuth authorization flow (\<^verbatim>\<open>src/domain/oauth.rs\<close>) and its two records, request and code
  (\<^verbatim>\<open>src/persistence/aggregates/oauth.rs\<close>). A flow is requested, gets one subject, is then either
  cancelled or approved, and an approved flow's code is redeemed once by the client and redirect
  address it was issued for. Every state the operations reach can be saved and loaded.
\<close>

section \<open>The aggregate\<close>

record oauth_flow_code =
  code_digest :: sha256_digest
  code_agent_connection_id :: agent_connection_id
  code_workspace_id :: workspace_id
  code_expires_at :: datetime
  code_consumed_at :: "datetime option"
  code_created_at :: datetime

record oauth_flow =
  flow_id :: oauth_authorization_request_id
  flow_client_id :: string
  flow_client_name :: string
  flow_redirect_uri :: string
  flow_code_challenge :: string
  flow_state :: string
  flow_resource :: string
  flow_scopes :: "workspace_permission list"
  flow_csrf_digest :: sha256_digest
  flow_auth0_subject :: "string option"
  flow_user_id :: "user_id option"
  flow_expires_at :: datetime
  flow_created_at :: datetime
  flow_consumed_at :: "datetime option"
  flow_authorization_code :: "oauth_flow_code option"

datatype oauth_flow_error = FlowUnavailable | InvalidFlowCreation | InvalidFlowRehydration

definition flow_request ::
  "oauth_authorization_request_id \<Rightarrow> string \<Rightarrow> string \<Rightarrow> string \<Rightarrow> string \<Rightarrow> string \<Rightarrow> string
   \<Rightarrow> workspace_permission list \<Rightarrow> sha256_digest \<Rightarrow> datetime \<Rightarrow> datetime
   \<Rightarrow> oauth_flow_error + oauth_flow" where
  "flow_request i client client_name redirect challenge state resource scopes csrf
     created_at expires_at =
     (if expires_at \<le> created_at \<or> client = [] \<or> redirect = [] \<or> challenge = []
       \<or> resource = [] \<or> scopes = []
      then Err InvalidFlowCreation
      else Ok \<lparr>flow_id = i, flow_client_id = client, flow_client_name = client_name,
               flow_redirect_uri = redirect, flow_code_challenge = challenge, flow_state = state,
               flow_resource = resource, flow_scopes = scopes, flow_csrf_digest = csrf,
               flow_auth0_subject = None, flow_user_id = None, flow_expires_at = expires_at,
               flow_created_at = created_at, flow_consumed_at = None,
               flow_authorization_code = None\<rparr>)"

text \<open>\<^verbatim>\<open>rehydrate\<close>, whose arguments are the fields of its result.\<close>

definition flow_rehydrate :: "oauth_flow \<Rightarrow> oauth_flow_error + oauth_flow" where
  "flow_rehydrate f =
     and_then
       (map_err (\<lambda>_. InvalidFlowRehydration)
         (flow_request (flow_id f) (flow_client_id f) (flow_client_name f) (flow_redirect_uri f)
           (flow_code_challenge f) (flow_state f) (flow_resource f) (flow_scopes f)
           (flow_csrf_digest f) (flow_created_at f) (flow_expires_at f)))
       (\<lambda>flow.
         if (flow_auth0_subject f \<noteq> None) \<noteq> (flow_user_id f \<noteq> None)
          \<or> is_some_and (\<lambda>t. t < flow_created_at f \<or> t \<ge> flow_expires_at f) (flow_consumed_at f)
          \<or> flow_authorization_code f \<noteq> None \<and> flow_consumed_at f = None
         then Err InvalidFlowRehydration
         else Ok (flow\<lparr>flow_auth0_subject := flow_auth0_subject f, flow_user_id := flow_user_id f,
                       flow_consumed_at := flow_consumed_at f,
                       flow_authorization_code := flow_authorization_code f\<rparr>))"

definition flow_available_at :: "datetime \<Rightarrow> oauth_flow \<Rightarrow> bool" where
  "flow_available_at now f \<longleftrightarrow>
     flow_consumed_at f = None \<and> now \<ge> flow_created_at f \<and> now < flow_expires_at f"

definition attach_subject ::
  "string \<Rightarrow> user_id \<Rightarrow> datetime \<Rightarrow> oauth_flow \<Rightarrow> oauth_flow_error + oauth_flow" where
  "attach_subject subject u now f =
     (if \<not> flow_available_at now f \<or> flow_auth0_subject f \<noteq> None \<or> subject = []
      then Err FlowUnavailable
      else Ok (f\<lparr>flow_auth0_subject := Some subject, flow_user_id := Some u\<rparr>))"

definition flow_cancel :: "datetime \<Rightarrow> oauth_flow \<Rightarrow> oauth_flow_error + oauth_flow" where
  "flow_cancel now f =
     (if \<not> flow_available_at now f \<or> flow_auth0_subject f = None \<or> flow_user_id f = None
      then Err FlowUnavailable
      else Ok (f\<lparr>flow_consumed_at := Some now\<rparr>))"

definition approve_and_issue_code ::
  "sha256_digest \<Rightarrow> agent_connection_id \<Rightarrow> workspace_id \<Rightarrow> datetime \<Rightarrow> datetime \<Rightarrow> oauth_flow
   \<Rightarrow> oauth_flow_error + oauth_flow" where
  "approve_and_issue_code digest connection workspace now expires_at f =
     (if \<not> flow_available_at now f \<or> flow_auth0_subject f = None \<or> flow_user_id f = None
       \<or> expires_at \<le> now
      then Err FlowUnavailable
      else Ok (f\<lparr>flow_consumed_at := Some now,
                 flow_authorization_code :=
                   Some \<lparr>code_digest = digest, code_agent_connection_id = connection,
                         code_workspace_id = workspace, code_expires_at = expires_at,
                         code_consumed_at = None, code_created_at = now\<rparr>\<rparr>))"

definition consume_code ::
  "string \<Rightarrow> string \<Rightarrow> datetime \<Rightarrow> oauth_flow \<Rightarrow> oauth_flow_error + oauth_flow" where
  "consume_code client redirect now f =
     (case flow_authorization_code f of
        None \<Rightarrow> Err FlowUnavailable
      | Some code \<Rightarrow>
          if flow_client_id f \<noteq> client \<or> flow_redirect_uri f \<noteq> redirect
           \<or> code_consumed_at code \<noteq> None \<or> now < code_created_at code \<or> now \<ge> code_expires_at code
          then Err FlowUnavailable
          else Ok (f\<lparr>flow_authorization_code := Some (code\<lparr>code_consumed_at := Some now\<rparr>)\<rparr>))"

text \<open>\<^verbatim>\<open>OAuthAuthorizationFlowCode::rehydrate\<close>.\<close>

definition code_rehydrate :: "oauth_flow_code \<Rightarrow> oauth_flow_error + oauth_flow_code" where
  "code_rehydrate code =
     (if code_expires_at code \<le> code_created_at code
       \<or> is_some_and (\<lambda>t. t < code_created_at code \<or> t \<ge> code_expires_at code) (code_consumed_at code)
      then Err InvalidFlowRehydration else Ok code)"

lemmas flow_op_defs [op_defs] =
  attach_subject_def flow_cancel_def approve_and_issue_code_def consume_code_def
  flow_available_at_def

section \<open>The records\<close>

record flow_record =
  flowrec_id :: uuid
  flowrec_client_id :: string
  flowrec_client_name :: string
  flowrec_redirect_uri :: string
  flowrec_code_challenge :: string
  flowrec_state :: string
  flowrec_resource :: string
  flowrec_scopes :: "string list"
  flowrec_csrf_token_digest :: bytes
  flowrec_auth0_subject :: "string option"
  flowrec_user_id :: "uuid option"
  flowrec_expires_at :: datetime
  flowrec_created_at :: datetime
  flowrec_consumed_at :: "datetime option"

record code_record =
  coderec_code_digest :: bytes
  coderec_request_id :: uuid
  coderec_agent_connection_id :: uuid
  coderec_workspace_id :: uuid
  coderec_client_id :: string
  coderec_redirect_uri :: string
  coderec_code_challenge :: string
  coderec_resource :: string
  coderec_scopes :: "string list"
  coderec_expires_at :: datetime
  coderec_created_at :: datetime
  coderec_consumed_at :: "datetime option"

definition permission_strings :: "workspace_permission list \<Rightarrow> string list" where
  "permission_strings ps = map permission_as_str ps"

definition parse_permissions :: "string list \<Rightarrow> repository_error + workspace_permission list" where
  "parse_permissions values =
     collect_results
       (map (\<lambda>v. map_err (\<lambda>_. InvariantViolation ''unknown OAuth scope'') (permission_from_str v)) values)"

definition flow_from_domain :: "oauth_flow \<Rightarrow> flow_record" where
  "flow_from_domain f =
     \<lparr>flowrec_id = oauth_authorization_request_uuid (flow_id f),
      flowrec_client_id = flow_client_id f, flowrec_client_name = flow_client_name f,
      flowrec_redirect_uri = flow_redirect_uri f, flowrec_code_challenge = flow_code_challenge f,
      flowrec_state = flow_state f, flowrec_resource = flow_resource f,
      flowrec_scopes = permission_strings (flow_scopes f),
      flowrec_csrf_token_digest = as_bytes (flow_csrf_digest f),
      flowrec_auth0_subject = flow_auth0_subject f,
      flowrec_user_id = map_option user_uuid (flow_user_id f),
      flowrec_expires_at = flow_expires_at f, flowrec_created_at = flow_created_at f,
      flowrec_consumed_at = flow_consumed_at f\<rparr>"

definition code_from_domain :: "oauth_flow \<Rightarrow> code_record option" where
  "code_from_domain f = map_option (\<lambda>code.
     \<lparr>coderec_code_digest = as_bytes (code_digest code),
      coderec_request_id = oauth_authorization_request_uuid (flow_id f),
      coderec_agent_connection_id = agent_connection_uuid (code_agent_connection_id code),
      coderec_workspace_id = workspace_uuid (code_workspace_id code),
      coderec_client_id = flow_client_id f, coderec_redirect_uri = flow_redirect_uri f,
      coderec_code_challenge = flow_code_challenge f, coderec_resource = flow_resource f,
      coderec_scopes = permission_strings (flow_scopes f),
      coderec_expires_at = code_expires_at code, coderec_created_at = code_created_at code,
      coderec_consumed_at = code_consumed_at code\<rparr>) (flow_authorization_code f)"

definition code_into_domain :: "code_record \<Rightarrow> repository_error + oauth_flow_code" where
  "code_into_domain r =
     and_then (digest_from_bytes ''OAuth code digest must contain 32 bytes'' (coderec_code_digest r))
       (\<lambda>digest.
     map_err (\<lambda>_. InvariantViolation ''persisted OAuth authorization code is inconsistent'')
       (code_rehydrate
         \<lparr>code_digest = digest,
          code_agent_connection_id = AgentConnectionId (coderec_agent_connection_id r),
          code_workspace_id = WorkspaceId (coderec_workspace_id r),
          code_expires_at = coderec_expires_at r, code_consumed_at = coderec_consumed_at r,
          code_created_at = coderec_created_at r\<rparr>))"

definition flow_into_domain ::
  "flow_record \<Rightarrow> oauth_flow_code option \<Rightarrow> repository_error + oauth_flow" where
  "flow_into_domain r code =
     and_then (digest_from_bytes ''OAuth CSRF digest must contain 32 bytes''
                 (flowrec_csrf_token_digest r)) (\<lambda>csrf.
     and_then (parse_permissions (flowrec_scopes r)) (\<lambda>scopes.
     map_err (\<lambda>_. InvariantViolation ''persisted OAuth authorization flow is inconsistent'')
       (flow_rehydrate
         \<lparr>flow_id = OAuthAuthorizationRequestId (flowrec_id r),
          flow_client_id = flowrec_client_id r, flow_client_name = flowrec_client_name r,
          flow_redirect_uri = flowrec_redirect_uri r,
          flow_code_challenge = flowrec_code_challenge r, flow_state = flowrec_state r,
          flow_resource = flowrec_resource r, flow_scopes = scopes, flow_csrf_digest = csrf,
          flow_auth0_subject = flowrec_auth0_subject r,
          flow_user_id = map_option UserId (flowrec_user_id r),
          flow_expires_at = flowrec_expires_at r, flow_created_at = flowrec_created_at r,
          flow_consumed_at = flowrec_consumed_at r, flow_authorization_code = code\<rparr>)))"

text \<open>
  \<^verbatim>\<open>get\<close> and \<^verbatim>\<open>save\<close> over the two tables. The code row is found by its request; saving a flow without
  a code deletes the row.
\<close>

record oauth_tables =
  flows_table :: "flow_record list"
  codes_table :: "code_record list"

definition flow_get ::
  "oauth_authorization_request_id \<Rightarrow> oauth_tables \<Rightarrow> repository_error + oauth_flow option" where
  "flow_get i t =
     (let k = oauth_authorization_request_uuid i in
      case find_row flowrec_id k (flows_table t) of
        None \<Rightarrow> Ok None
      | Some r \<Rightarrow>
          and_then (map_transpose code_into_domain (find_row coderec_request_id k (codes_table t)))
            (\<lambda>code. and_then (flow_into_domain r code) (\<lambda>f. Ok (Some f))))"

definition flow_save :: "oauth_flow \<Rightarrow> oauth_tables \<Rightarrow> oauth_tables" where
  "flow_save f t =
     \<lparr>flows_table = upsert_row flowrec_id (flow_from_domain f) (flows_table t),
      codes_table = (case code_from_domain f of
          Some code \<Rightarrow> upsert_row coderec_request_id code (codes_table t)
        | None \<Rightarrow> delete_rows (\<lambda>c. coderec_request_id c = oauth_authorization_request_uuid (flow_id f))
                    (codes_table t))\<rparr>"

section \<open>The lifecycle\<close>

datatype flow_op =
    AttachOp string user_id datetime
  | CancelOp datetime
  | ApproveOp sha256_digest agent_connection_id workspace_id datetime datetime
  | ConsumeCodeOp string string datetime

fun flow_step :: "flow_op \<Rightarrow> oauth_flow \<Rightarrow> oauth_flow" where
  "flow_step (AttachOp s u t) f = applied_or f (attach_subject s u t f)"
| "flow_step (CancelOp t) f = applied_or f (flow_cancel t f)"
| "flow_step (ApproveOp d c w t x) f = applied_or f (approve_and_issue_code d c w t x f)"
| "flow_step (ConsumeCodeOp c r t) f = applied_or f (consume_code c r t f)"

text \<open>What loading checks: the flow, its code, and the lengths of the digests.\<close>

definition wf_flow_code :: "oauth_flow_code \<Rightarrow> bool" where
  "wf_flow_code code \<longleftrightarrow> code_created_at code < code_expires_at code
     \<and> is_none_or (\<lambda>t. code_created_at code \<le> t \<and> t < code_expires_at code) (code_consumed_at code)"

definition wf_flow :: "oauth_flow \<Rightarrow> bool" where
  "wf_flow f \<longleftrightarrow>
     flow_created_at f < flow_expires_at f \<and> flow_client_id f \<noteq> [] \<and> flow_redirect_uri f \<noteq> []
     \<and> flow_code_challenge f \<noteq> [] \<and> flow_resource f \<noteq> [] \<and> flow_scopes f \<noteq> []
     \<and> (flow_auth0_subject f = None) = (flow_user_id f = None)
     \<and> is_none_or (\<lambda>t. flow_created_at f \<le> t \<and> t < flow_expires_at f) (flow_consumed_at f)
     \<and> (flow_authorization_code f \<noteq> None \<longrightarrow> flow_consumed_at f \<noteq> None)
     \<and> is_none_or wf_flow_code (flow_authorization_code f)"

definition digests_32 :: "oauth_flow \<Rightarrow> bool" where
  "digests_32 f \<longleftrightarrow> length (as_bytes (flow_csrf_digest f)) = 32
     \<and> is_none_or (\<lambda>c. length (as_bytes (code_digest c)) = 32) (flow_authorization_code f)"

lemma flow_request_wf: "flow_request i c n r ch s rs sc d t x = Inr f \<Longrightarrow> wf_flow f"
  by (auto simp: flow_request_def wf_flow_def split: if_splits)

lemma flow_step_wf: "wf_flow f \<Longrightarrow> wf_flow (flow_step op f)"
  by (cases op) (auto simp: op_defs wf_flow_def wf_flow_code_def split: sum.splits option.splits)

interpretation flow: aggregate flow_step "\<lambda>_ _. True" wf_flow
  by unfold_locales (rule flow_step_wf)

text \<open>Redeeming the code: at most one of any sequence of attempts succeeds.\<close>

definition code_spent :: "oauth_flow \<Rightarrow> bool" where
  "code_spent f \<longleftrightarrow> is_some_and (\<lambda>c. code_consumed_at c \<noteq> None) (flow_authorization_code f)"

definition redeem_attempt ::
  "string \<times> string \<times> datetime \<Rightarrow> oauth_flow \<Rightarrow> oauth_flow_error + oauth_flow" where
  "redeem_attempt a f = consume_code (fst a) (fst (snd a)) (snd (snd a)) f"

interpretation code: single_use redeem_attempt code_spent
  by unfold_locales
    (auto simp: redeem_attempt_def consume_code_def code_spent_def split: option.splits if_splits)

text \<open>
  The states of a flow; \<open>flow_edge\<close> is the machine every operation refines.
\<close>

datatype flow_state_kind =
  FlowRequested | FlowIdentified | FlowCancelled | FlowCodeIssued | FlowCodeRedeemed

definition flow_kind :: "oauth_flow \<Rightarrow> flow_state_kind" where
  "flow_kind f =
     (case flow_authorization_code f of
        Some c \<Rightarrow> if code_consumed_at c = None then FlowCodeIssued else FlowCodeRedeemed
      | None \<Rightarrow> if flow_consumed_at f \<noteq> None then FlowCancelled
               else if flow_auth0_subject f = None then FlowRequested else FlowIdentified)"

inductive flow_edge :: "flow_state_kind \<Rightarrow> flow_state_kind \<Rightarrow> bool" where
  identified: "flow_edge FlowRequested FlowIdentified"
| cancelled: "flow_edge FlowIdentified FlowCancelled"
| issued: "flow_edge FlowIdentified FlowCodeIssued"
| redeemed: "flow_edge FlowCodeIssued FlowCodeRedeemed"

inductive_cases flow_edge_from_cancelled [elim!]: "flow_edge FlowCancelled s"
inductive_cases flow_edge_from_redeemed [elim!]: "flow_edge FlowCodeRedeemed s"

lemma flow_step_kind:
  assumes "wf_flow f"
  shows "flow_kind (flow_step op f) = flow_kind f
     \<or> flow_edge (flow_kind f) (flow_kind (flow_step op f))"
proof (cases op)
  case (ConsumeCodeOp c r t)
  then show ?thesis
    by (auto simp: op_defs flow_kind_def intro: flow_edge.intros split: option.splits)
qed (use assms in \<open>auto simp: op_defs flow_kind_def wf_flow_def intro: flow_edge.intros
      split: option.splits\<close>)

section \<open>Saving and loading\<close>

lemma permissions_round_trip [simp]: "parse_permissions (permission_strings ps) = Inr ps"
  by (simp add: parse_permissions_def permission_strings_def comp_def permission_from_as_str)

lemma flow_rehydrate_Ok_iff:
  "is_none_or wf_flow_code (flow_authorization_code f) \<Longrightarrow>
     flow_rehydrate f = Inr g \<longleftrightarrow> g = f \<and> wf_flow f"
  by (cases f; cases "flow_consumed_at f")
    (auto simp: flow_rehydrate_def flow_request_def wf_flow_def)

lemma code_rehydrate_Ok_iff: "code_rehydrate c = Inr d \<longleftrightarrow> d = c \<and> wf_flow_code c"
  by (cases "code_consumed_at c") (auto simp: code_rehydrate_def wf_flow_code_def)

lemma code_reload:
  assumes "is_none_or wf_flow_code (flow_authorization_code f)" and "digests_32 f"
  shows "map_transpose code_into_domain (code_from_domain f) = Inr (flow_authorization_code f)"
proof (cases "flow_authorization_code f")
  case (Some c)
  with assms show ?thesis
    by (cases c; cases "code_digest c")
      (simp add: code_from_domain_def code_into_domain_def digests_32_def digest_from_bytes_def
        code_rehydrate_Ok_iff and_then_Ok_iff)
qed (simp add: code_from_domain_def)

lemma flow_into_domain_reload:
  assumes "wf_flow f" and "digests_32 f"
  shows "flow_into_domain (flow_from_domain f) (flow_authorization_code f) = Inr f"
proof -
  have "is_none_or wf_flow_code (flow_authorization_code f)" using assms(1) by (simp add: wf_flow_def)
  with assms show ?thesis
    by (cases f; cases "flow_csrf_digest f")
      (simp add: flow_into_domain_def flow_from_domain_def digests_32_def digest_from_bytes_def
        flow_rehydrate_Ok_iff option.map_comp comp_def option.map_ident)
qed

lemma code_from_domain_request:
  "code_from_domain f = Some r \<Longrightarrow> coderec_request_id r = oauth_authorization_request_uuid (flow_id f)"
  by (auto simp: code_from_domain_def)

lemma flow_save_code_row:
  "find_row coderec_request_id (oauth_authorization_request_uuid (flow_id f)) (codes_table (flow_save f t))
   = code_from_domain f"
  by (cases "code_from_domain f")
    (auto simp: flow_save_def code_from_domain_request find_row_None_iff)

lemma flow_save_get:
  assumes "wf_flow f" and "digests_32 f"
  shows "flow_get (flow_id f) (flow_save f t) = Inr (Some f)"
proof -
  have "is_none_or wf_flow_code (flow_authorization_code f)" using assms(1) by (simp add: wf_flow_def)
  moreover have "find_row flowrec_id (oauth_authorization_request_uuid (flow_id f))
      (flows_table (flow_save f t)) = Some (flow_from_domain f)"
    by (simp add: flow_save_def) (simp add: flow_from_domain_def)
  ultimately show ?thesis
    using assms by (simp add: flow_get_def Let_def flow_save_code_row code_reload flow_into_domain_reload)
qed

section \<open>Properties\<close>

definition sample_flow :: oauth_flow where
  "sample_flow =
     \<lparr>flow_id = OAuthAuthorizationRequestId 1, flow_client_id = ''c'', flow_client_name = ''n'',
      flow_redirect_uri = ''u'', flow_code_challenge = ''h'', flow_state = ''s'',
      flow_resource = ''r'', flow_scopes = [ReadEvidence],
      flow_csrf_digest = Sha256Digest (replicate 32 1), flow_auth0_subject = None,
      flow_user_id = None, flow_expires_at = 100, flow_created_at = 0, flow_consumed_at = None,
      flow_authorization_code = None\<rparr>"

lemma sample_flow_requested:
  "flow_request (OAuthAuthorizationRequestId 1) ''c'' ''n'' ''u'' ''h'' ''s'' ''r'' [ReadEvidence]
     (Sha256Digest (replicate 32 1)) 0 100 = Inr sample_flow"
  by (simp add: flow_request_def sample_flow_def)

text \<open>
  An authorization code is redeemed at most once, whatever attempts are made, and a redemption
  that succeeds is by the client and for the redirect address the flow was requested with, within
  the lifetime of the code.
\<close>

theorem code_redeemed_once:
  assumes "consume_code client redirect now f = Inr g"
  shows "successes redeem_attempt attempts f \<le> 1 \<and> successes redeem_attempt attempts g = 0
     \<and> client = flow_client_id f \<and> redirect = flow_redirect_uri f
     \<and> (\<exists>code. flow_authorization_code f = Some code \<and> code_consumed_at code = None
           \<and> code_created_at code \<le> now \<and> now < code_expires_at code)"
proof -
  have "redeem_attempt (client, redirect, now) f = Inr g" using assms by (simp add: redeem_attempt_def)
  from code.attempt_spends [OF this] have "successes redeem_attempt attempts g = 0"
    by (rule code.successes_spent)
  then show ?thesis
    using code.successes_le_one [of attempts f] assms
    by (auto simp: consume_code_def split: option.splits if_splits)
qed

theorem code_redeemed_once_witness:
  "\<exists>f g. f = fold flow_step [AttachOp ''s'' (UserId 9) 1,
        ApproveOp (Sha256Digest (replicate 32 2)) (AgentConnectionId 5) (WorkspaceId 6) 2 50] sample_flow
     \<and> consume_code ''c'' ''u'' 3 f = Inr g \<and> successes redeem_attempt [(''c'', ''u'', 4)] g = 0"
proof -
  let ?f = "fold flow_step [AttachOp ''s'' (UserId 9) 1,
        ApproveOp (Sha256Digest (replicate 32 2)) (AgentConnectionId 5) (WorkspaceId 6) 2 50] sample_flow"
  obtain g where "consume_code ''c'' ''u'' 3 ?f = Inr g"
    by (simp add: sample_flow_def op_defs)
  with code_redeemed_once [of "''c''" "''u''" 3 ?f g "[(''c'', ''u'', 4)]"] show ?thesis by blast
qed



lemma flow_step_id: "flow_id (flow_step op f) = flow_id f"
  by (cases op) (auto simp: op_defs split: sum.splits option.splits)

text \<open>
  Saving a flow makes it readable with its code, over the two tables: a read of its id gives back
  the flow, for every flow an accepted sequence of operations leads to from a request.
\<close>

theorem flow_save_round_trip:
  assumes "flow_request i c n r ch s rs sc d t x = Inr f" and "digests_32 (fold flow_step ops f)"
  shows "flow_get i (flow_save (fold flow_step ops f) tables) = Inr (Some (fold flow_step ops f))"
proof -
  have wf: "wf_flow (fold flow_step ops f)"
    using flow.run_wf [OF flow_request_wf [OF assms(1)]] by simp
  have "flow_id (fold flow_step ops f) = flow_id f"
    by (rule fold_keeps) (rule flow_step_id)
  moreover have "flow_id f = i" using assms(1) by (auto simp: flow_request_def split: if_splits)
  ultimately show ?thesis using flow_save_get [OF wf assms(2)] by simp
qed

theorem flow_save_round_trip_witness:
  "flow_get (OAuthAuthorizationRequestId 1)
     (flow_save (fold flow_step [AttachOp ''s'' (UserId 9) 1] sample_flow)
        \<lparr>flows_table = [], codes_table = []\<rparr>)
   = Inr (Some (fold flow_step [AttachOp ''s'' (UserId 9) 1] sample_flow))"
  by (rule flow_save_round_trip [OF sample_flow_requested])
    (simp add: digests_32_def sample_flow_def op_defs)

end
