(* ===== verification/Auditor_Access.thy ===== *)
theory Auditor_Access
  imports Persistence
begin

text \<open>
  Auditor access: the grant a workspace issues to an auditor
  (\<^verbatim>\<open>src/domain/auditor_access_grant.rs\<close>), the one-use authentication transaction
  (\<^verbatim>\<open>src/domain/auditor_auth_transaction.rs\<close>) and the session opened with it
  (\<^verbatim>\<open>src/domain/auditor_access_session.rs\<close>), each with its record
  (\<^verbatim>\<open>src/persistence/aggregates/auditor_*.rs\<close>). A revoked or expired grant or session is never
  active again, a transaction is claimed once, and the records of the states reached in clock order
  load again.
\<close>

section \<open>Grants\<close>

record audit_review_period =
  period_start :: datetime
  period_end :: datetime

definition audit_review_period_new :: "datetime \<Rightarrow> datetime \<Rightarrow> domain_error + audit_review_period" where
  "audit_review_period_new s e =
     (if e < s then Err InvalidAuditReviewPeriod else Ok \<lparr>period_start = s, period_end = e\<rparr>)"

definition valid_normalized_email :: "string \<Rightarrow> bool" where
  "valid_normalized_email value =
     (case split_once (CHR ''@'') value of
        None \<Rightarrow> False
      | Some (local, domain) \<Rightarrow>
          local \<noteq> [] \<and> domain \<noteq> [] \<and> CHR ''@'' \<notin> set domain \<and> value = trim value
          \<and> list_all (\<lambda>b. \<not> is_ascii_uppercase b) value)"

record auditor_grant =
  agr_id :: auditor_access_grant_id
  agr_workspace_id :: workspace_id
  agr_auditor_email :: string
  agr_created_by_user_id :: user_id
  agr_created_via_agent_connection_id :: agent_connection_id
  agr_created_at :: datetime
  agr_expires_at :: datetime
  agr_period :: audit_review_period
  agr_revoked_at :: "datetime option"
  agr_secret_digest :: sha256_digest

datatype auditor_grant_revocation = GrantRevoked | GrantAlreadyRevoked

datatype auditor_grant_error =
  InvalidGrantIssuance | InvalidGrantRehydration | GrantUnavailable | InvalidGrantRevocation

definition auditor_grant_issue ::
  "auditor_access_grant_id \<Rightarrow> workspace_id \<Rightarrow> string \<Rightarrow> sha256_digest \<Rightarrow> user_id
   \<Rightarrow> agent_connection_id \<Rightarrow> datetime \<Rightarrow> datetime \<Rightarrow> audit_review_period
   \<Rightarrow> auditor_grant_error + auditor_grant" where
  "auditor_grant_issue i workspace email digest created_by via created_at expires_at period =
     (if expires_at \<le> created_at \<or> \<not> valid_normalized_email email then Err InvalidGrantIssuance
      else Ok \<lparr>agr_id = i, agr_workspace_id = workspace, agr_auditor_email = email,
               agr_created_by_user_id = created_by, agr_created_via_agent_connection_id = via,
               agr_created_at = created_at, agr_expires_at = expires_at, agr_period = period,
               agr_revoked_at = None, agr_secret_digest = digest\<rparr>)"

definition auditor_grant_rehydrate :: "auditor_grant \<Rightarrow> auditor_grant_error + auditor_grant" where
  "auditor_grant_rehydrate g =
     and_then
       (map_err (\<lambda>_. InvalidGrantRehydration)
         (auditor_grant_issue (agr_id g) (agr_workspace_id g) (agr_auditor_email g)
           (agr_secret_digest g) (agr_created_by_user_id g) (agr_created_via_agent_connection_id g)
           (agr_created_at g) (agr_expires_at g) (agr_period g)))
       (\<lambda>grant. if is_some_and (\<lambda>t. t < agr_created_at g) (agr_revoked_at g)
                then Err InvalidGrantRehydration
                else Ok (grant\<lparr>agr_revoked_at := agr_revoked_at g\<rparr>))"

definition grant_ensure_active_at :: "datetime \<Rightarrow> auditor_grant \<Rightarrow> auditor_grant_error + unit" where
  "grant_ensure_active_at now g =
     (if agr_revoked_at g \<noteq> None \<or> now \<ge> agr_expires_at g then Err GrantUnavailable else Ok ())"

definition auditor_grant_revoke ::
  "datetime \<Rightarrow> auditor_grant \<Rightarrow> auditor_grant_error + auditor_grant \<times> auditor_grant_revocation" where
  "auditor_grant_revoke revoked_at g =
     (if agr_revoked_at g \<noteq> None then Ok (g, GrantAlreadyRevoked)
      else if revoked_at < agr_created_at g then Err InvalidGrantRevocation
      else Ok (g\<lparr>agr_revoked_at := Some revoked_at\<rparr>, GrantRevoked))"

record auditor_grant_record =
  agrrec_id :: uuid
  agrrec_workspace_id :: uuid
  agrrec_auditor_email :: string
  agrrec_secret_digest :: bytes
  agrrec_created_by_user_id :: uuid
  agrrec_created_via_agent_connection_id :: uuid
  agrrec_created_at :: datetime
  agrrec_expires_at :: datetime
  agrrec_period_start :: datetime
  agrrec_period_end :: datetime
  agrrec_revoked_at :: "datetime option"

definition auditor_grant_from_domain :: "auditor_grant \<Rightarrow> auditor_grant_record" where
  "auditor_grant_from_domain g =
     \<lparr>agrrec_id = auditor_access_grant_uuid (agr_id g),
      agrrec_workspace_id = workspace_uuid (agr_workspace_id g),
      agrrec_auditor_email = agr_auditor_email g,
      agrrec_secret_digest = as_bytes (agr_secret_digest g),
      agrrec_created_by_user_id = user_uuid (agr_created_by_user_id g),
      agrrec_created_via_agent_connection_id =
        agent_connection_uuid (agr_created_via_agent_connection_id g),
      agrrec_created_at = agr_created_at g, agrrec_expires_at = agr_expires_at g,
      agrrec_period_start = period_start (agr_period g),
      agrrec_period_end = period_end (agr_period g), agrrec_revoked_at = agr_revoked_at g\<rparr>"

definition auditor_grant_into_domain ::
  "auditor_grant_record \<Rightarrow> repository_error + auditor_grant" where
  "auditor_grant_into_domain r =
     and_then (digest_from_bytes ''auditor access grant digest must contain 32 bytes''
                 (agrrec_secret_digest r)) (\<lambda>digest.
     and_then (map_err InvalidData
                 (audit_review_period_new (agrrec_period_start r) (agrrec_period_end r)))
       (\<lambda>period.
     map_err (\<lambda>_. InvariantViolation ''persisted auditor access grant is inconsistent'')
       (auditor_grant_rehydrate
         \<lparr>agr_id = AuditorAccessGrantId (agrrec_id r),
          agr_workspace_id = WorkspaceId (agrrec_workspace_id r),
          agr_auditor_email = agrrec_auditor_email r,
          agr_created_by_user_id = UserId (agrrec_created_by_user_id r),
          agr_created_via_agent_connection_id =
            AgentConnectionId (agrrec_created_via_agent_connection_id r),
          agr_created_at = agrrec_created_at r, agr_expires_at = agrrec_expires_at r,
          agr_period = period, agr_revoked_at = agrrec_revoked_at r,
          agr_secret_digest = digest\<rparr>)))"

section \<open>Authentication transactions\<close>

record auditor_transaction =
  atx_id :: auditor_auth_transaction_id
  atx_grant_id :: auditor_access_grant_id
  atx_state_digest :: sha256_digest
  atx_nonce_digest :: sha256_digest
  atx_pkce_verifier :: string
  atx_expires_at :: datetime
  atx_consumed_at :: "datetime option"
  atx_created_at :: datetime
  atx_updated_at :: datetime

datatype auditor_transaction_error =
  InvalidTransactionCreation | InvalidTransactionRehydration | TransactionUnavailable

definition auditor_transaction_start ::
  "auditor_auth_transaction_id \<Rightarrow> auditor_access_grant_id \<Rightarrow> sha256_digest \<Rightarrow> sha256_digest
   \<Rightarrow> string \<Rightarrow> datetime \<Rightarrow> datetime \<Rightarrow> auditor_transaction_error + auditor_transaction" where
  "auditor_transaction_start i grant state nonce verifier created_at expires_at =
     (if expires_at \<le> created_at \<or> \<not> (43 \<le> length verifier \<and> length verifier \<le> 128)
      then Err InvalidTransactionCreation
      else Ok \<lparr>atx_id = i, atx_grant_id = grant, atx_state_digest = state,
               atx_nonce_digest = nonce, atx_pkce_verifier = verifier,
               atx_expires_at = expires_at, atx_consumed_at = None,
               atx_created_at = created_at, atx_updated_at = created_at\<rparr>)"

definition auditor_transaction_rehydrate ::
  "auditor_transaction \<Rightarrow> auditor_transaction_error + auditor_transaction" where
  "auditor_transaction_rehydrate x =
     and_then
       (map_err (\<lambda>_. InvalidTransactionRehydration)
         (auditor_transaction_start (atx_id x) (atx_grant_id x) (atx_state_digest x)
           (atx_nonce_digest x) (atx_pkce_verifier x) (atx_created_at x) (atx_expires_at x)))
       (\<lambda>transaction.
         if is_some_and (\<lambda>t. t < atx_created_at x \<or> t \<ge> atx_expires_at x) (atx_consumed_at x)
          \<or> atx_updated_at x < atx_created_at x
          \<or> is_some_and (\<lambda>t. atx_updated_at x < t) (atx_consumed_at x)
         then Err InvalidTransactionRehydration
         else Ok (transaction\<lparr>atx_consumed_at := atx_consumed_at x,
                              atx_updated_at := atx_updated_at x\<rparr>))"

definition transaction_claim ::
  "datetime \<Rightarrow> auditor_transaction \<Rightarrow> auditor_transaction_error + auditor_transaction" where
  "transaction_claim consumed_at x =
     (if atx_consumed_at x \<noteq> None \<or> consumed_at < atx_created_at x
       \<or> consumed_at \<ge> atx_expires_at x
      then Err TransactionUnavailable
      else Ok (x\<lparr>atx_consumed_at := Some consumed_at, atx_updated_at := consumed_at\<rparr>))"

record auditor_transaction_record =
  atxrec_id :: uuid
  atxrec_grant_id :: uuid
  atxrec_state_digest :: bytes
  atxrec_nonce_digest :: bytes
  atxrec_pkce_verifier :: string
  atxrec_expires_at :: datetime
  atxrec_consumed_at :: "datetime option"
  atxrec_created_at :: datetime
  atxrec_updated_at :: datetime

definition auditor_transaction_from_domain :: "auditor_transaction \<Rightarrow> auditor_transaction_record" where
  "auditor_transaction_from_domain x =
     \<lparr>atxrec_id = auditor_auth_transaction_uuid (atx_id x),
      atxrec_grant_id = auditor_access_grant_uuid (atx_grant_id x),
      atxrec_state_digest = as_bytes (atx_state_digest x),
      atxrec_nonce_digest = as_bytes (atx_nonce_digest x),
      atxrec_pkce_verifier = atx_pkce_verifier x, atxrec_expires_at = atx_expires_at x,
      atxrec_consumed_at = atx_consumed_at x, atxrec_created_at = atx_created_at x,
      atxrec_updated_at = atx_updated_at x\<rparr>"

definition auditor_transaction_into_domain ::
  "auditor_transaction_record \<Rightarrow> repository_error + auditor_transaction" where
  "auditor_transaction_into_domain r =
     and_then (digest_from_bytes ''auditor state digest must contain 32 bytes''
                 (atxrec_state_digest r)) (\<lambda>state.
     and_then (digest_from_bytes ''auditor nonce digest must contain 32 bytes''
                 (atxrec_nonce_digest r)) (\<lambda>nonce.
     map_err (\<lambda>_. InvariantViolation
         ''persisted auditor authentication transaction is inconsistent'')
       (auditor_transaction_rehydrate
         \<lparr>atx_id = AuditorAuthTransactionId (atxrec_id r),
          atx_grant_id = AuditorAccessGrantId (atxrec_grant_id r), atx_state_digest = state,
          atx_nonce_digest = nonce, atx_pkce_verifier = atxrec_pkce_verifier r,
          atx_expires_at = atxrec_expires_at r, atx_consumed_at = atxrec_consumed_at r,
          atx_created_at = atxrec_created_at r, atx_updated_at = atxrec_updated_at r\<rparr>)))"

section \<open>Sessions\<close>

record auditor_session =
  ses_id :: auditor_session_id
  ses_grant_id :: auditor_access_grant_id
  ses_workspace_id :: workspace_id
  ses_auditor_email :: string
  ses_auth0_subject :: string
  ses_expires_at :: datetime
  ses_period :: audit_review_period
  ses_revoked_at :: "datetime option"
  ses_last_used_at :: datetime
  ses_created_at :: datetime
  ses_updated_at :: datetime
  ses_session_digest :: sha256_digest

datatype session_transition = SessionUsed | SessionRevoked | SessionAlreadyRevoked

datatype session_error =
  InvalidSessionCreation | InvalidSessionRehydration | SessionUnavailable | InvalidSessionTransition

definition session_create ::
  "auditor_session_id \<Rightarrow> auditor_access_grant_id \<Rightarrow> workspace_id \<Rightarrow> string \<Rightarrow> sha256_digest
   \<Rightarrow> string \<Rightarrow> datetime \<Rightarrow> audit_review_period \<Rightarrow> datetime \<Rightarrow> session_error + auditor_session" where
  "session_create i grant workspace email digest subject expires_at period created_at =
     (if expires_at \<le> created_at \<or> trim subject = [] \<or> \<not> valid_normalized_email email
      then Err InvalidSessionCreation
      else Ok \<lparr>ses_id = i, ses_grant_id = grant, ses_workspace_id = workspace,
               ses_auditor_email = email, ses_auth0_subject = subject,
               ses_expires_at = expires_at, ses_period = period, ses_revoked_at = None,
               ses_last_used_at = created_at, ses_created_at = created_at,
               ses_updated_at = created_at, ses_session_digest = digest\<rparr>)"

definition session_rehydrate :: "auditor_session \<Rightarrow> session_error + auditor_session" where
  "session_rehydrate s =
     and_then
       (map_err (\<lambda>_. InvalidSessionRehydration)
         (session_create (ses_id s) (ses_grant_id s) (ses_workspace_id s) (ses_auditor_email s)
           (ses_session_digest s) (ses_auth0_subject s) (ses_expires_at s) (ses_period s)
           (ses_created_at s)))
       (\<lambda>session.
         if ses_last_used_at s < ses_created_at s
          \<or> is_some_and (\<lambda>t. t < ses_created_at s) (ses_revoked_at s)
          \<or> ses_updated_at s < ses_created_at s
          \<or> ses_updated_at s < ses_last_used_at s
          \<or> is_some_and (\<lambda>t. ses_updated_at s < t) (ses_revoked_at s)
         then Err InvalidSessionRehydration
         else Ok (session\<lparr>ses_revoked_at := ses_revoked_at s,
                          ses_last_used_at := ses_last_used_at s,
                          ses_updated_at := ses_updated_at s\<rparr>))"

definition session_ensure_active_at :: "datetime \<Rightarrow> auditor_session \<Rightarrow> session_error + unit" where
  "session_ensure_active_at now s =
     (if ses_revoked_at s \<noteq> None \<or> now \<ge> ses_expires_at s then Err SessionUnavailable else Ok ())"

definition session_touch ::
  "datetime \<Rightarrow> auditor_session \<Rightarrow> session_error + auditor_session \<times> session_transition" where
  "session_touch used_at s =
     and_then (session_ensure_active_at used_at s) (\<lambda>_.
       if used_at < ses_created_at s \<or> used_at < ses_last_used_at s
       then Err InvalidSessionTransition
       else Ok (s\<lparr>ses_last_used_at := used_at, ses_updated_at := used_at\<rparr>, SessionUsed))"

definition session_revoke ::
  "datetime \<Rightarrow> auditor_session \<Rightarrow> session_error + auditor_session \<times> session_transition" where
  "session_revoke revoked_at s =
     (if ses_revoked_at s \<noteq> None then Ok (s, SessionAlreadyRevoked)
      else if revoked_at < ses_created_at s then Err InvalidSessionTransition
      else Ok (s\<lparr>ses_revoked_at := Some revoked_at, ses_updated_at := revoked_at\<rparr>, SessionRevoked))"

record session_record =
  sesrec_id :: uuid
  sesrec_grant_id :: uuid
  sesrec_session_digest :: bytes
  sesrec_auditor_email :: string
  sesrec_auth0_subject :: string
  sesrec_expires_at :: datetime
  sesrec_revoked_at :: "datetime option"
  sesrec_last_used_at :: datetime
  sesrec_created_at :: datetime
  sesrec_updated_at :: datetime

definition session_from_domain :: "auditor_session \<Rightarrow> session_record" where
  "session_from_domain s =
     \<lparr>sesrec_id = auditor_session_uuid (ses_id s),
      sesrec_grant_id = auditor_access_grant_uuid (ses_grant_id s),
      sesrec_session_digest = as_bytes (ses_session_digest s),
      sesrec_auditor_email = ses_auditor_email s, sesrec_auth0_subject = ses_auth0_subject s,
      sesrec_expires_at = ses_expires_at s, sesrec_revoked_at = ses_revoked_at s,
      sesrec_last_used_at = ses_last_used_at s, sesrec_created_at = ses_created_at s,
      sesrec_updated_at = ses_updated_at s\<rparr>"

text \<open>The workspace and the period come from the grant's row, joined in the query.\<close>

definition session_into_domain ::
  "session_record \<Rightarrow> auditor_grant_record \<Rightarrow> repository_error + auditor_session" where
  "session_into_domain r g =
     and_then (digest_from_bytes ''auditor session digest must contain 32 bytes''
                 (sesrec_session_digest r)) (\<lambda>digest.
     and_then (map_err InvalidData
                 (audit_review_period_new (agrrec_period_start g) (agrrec_period_end g)))
       (\<lambda>period.
     map_err (\<lambda>_. InvariantViolation ''persisted auditor session is inconsistent'')
       (session_rehydrate
         \<lparr>ses_id = AuditorSessionId (sesrec_id r),
          ses_grant_id = AuditorAccessGrantId (sesrec_grant_id r),
          ses_workspace_id = WorkspaceId (agrrec_workspace_id g),
          ses_auditor_email = sesrec_auditor_email r, ses_auth0_subject = sesrec_auth0_subject r,
          ses_expires_at = sesrec_expires_at r, ses_period = period,
          ses_revoked_at = sesrec_revoked_at r, ses_last_used_at = sesrec_last_used_at r,
          ses_created_at = sesrec_created_at r, ses_updated_at = sesrec_updated_at r,
          ses_session_digest = digest\<rparr>)))"

section \<open>Lemmas\<close>

lemma valid_normalized_email_iff:
  "valid_normalized_email e \<longleftrightarrow>
     (\<exists>l d. e = l @ CHR ''@'' # d \<and> l \<noteq> [] \<and> d \<noteq> [] \<and> CHR ''@'' \<notin> set l \<and> CHR ''@'' \<notin> set d)
     \<and> trim e = e \<and> (\<forall>b \<in> set e. \<not> is_ascii_uppercase b)"
proof (cases "split_once (CHR ''@'') e")
  case None
  moreover from None have "CHR ''@'' \<notin> set e" by (simp add: split_once_None)
  ultimately show ?thesis by (auto simp: valid_normalized_email_def)
next
  case (Some p)
  obtain l d where p: "p = (l, d)" by fastforce
  with Some have e: "e = l @ CHR ''@'' # d" "CHR ''@'' \<notin> set l" by (auto simp: split_once_Some)
  have uniq: "l' = l \<and> d' = d" if "e = l' @ CHR ''@'' # d'" "CHR ''@'' \<notin> set l'" for l' d'
    using split_once_Some [of "CHR ''@''" e l' d'] that Some p by simp
  have "(\<exists>l d. e = l @ CHR ''@'' # d \<and> l \<noteq> [] \<and> d \<noteq> [] \<and> CHR ''@'' \<notin> set l \<and> CHR ''@'' \<notin> set d)
      \<longleftrightarrow> l \<noteq> [] \<and> d \<noteq> [] \<and> CHR ''@'' \<notin> set d"
    using e uniq by blast
  with Some p show ?thesis by (simp add: valid_normalized_email_def list_all_iff eq_commute [of e])
qed

lemma audit_review_period_new_Ok:
  "audit_review_period_new s e = Inr p \<longleftrightarrow> p = \<lparr>period_start = s, period_end = e\<rparr> \<and> s \<le> e"
  by (auto simp: audit_review_period_new_def)

definition wf_period :: "audit_review_period \<Rightarrow> bool" where
  "wf_period p \<longleftrightarrow> period_start p \<le> period_end p"

lemma period_reload [simp]:
  "audit_review_period_new (period_start p) (period_end p) = Inr p \<longleftrightarrow> wf_period p"
  by (cases p) (auto simp: audit_review_period_new_def wf_period_def)

definition wf_auditor_grant :: "auditor_grant \<Rightarrow> bool" where
  "wf_auditor_grant g \<longleftrightarrow>
     agr_created_at g < agr_expires_at g \<and> valid_normalized_email (agr_auditor_email g)
     \<and> is_none_or (\<lambda>t. agr_created_at g \<le> t) (agr_revoked_at g) \<and> wf_period (agr_period g)
     \<and> length (as_bytes (agr_secret_digest g)) = 32"

lemma auditor_grant_rehydrate_Ok_iff:
  "auditor_grant_rehydrate g = Inr h \<longleftrightarrow>
     h = g \<and> agr_created_at g < agr_expires_at g \<and> valid_normalized_email (agr_auditor_email g)
     \<and> is_none_or (\<lambda>t. agr_created_at g \<le> t) (agr_revoked_at g)"
  by (cases g; cases "agr_revoked_at g")
    (auto simp: auditor_grant_rehydrate_def auditor_grant_issue_def)

lemma auditor_grant_reload:
  "wf_auditor_grant g \<Longrightarrow> auditor_grant_into_domain (auditor_grant_from_domain g) = Inr g"
  by (cases g; cases "agr_secret_digest g"; cases "agr_period g")
    (auto simp: auditor_grant_into_domain_def auditor_grant_from_domain_def wf_auditor_grant_def
      and_then_Ok_iff digest_from_bytes_Ok audit_review_period_new_Ok auditor_grant_rehydrate_Ok_iff
      wf_period_def)

lemma auditor_grant_loaded_wf: "auditor_grant_into_domain r = Inr g \<Longrightarrow> wf_auditor_grant g"
  by (auto simp: auditor_grant_into_domain_def and_then_Ok_iff digest_from_bytes_Ok
      audit_review_period_new_Ok auditor_grant_rehydrate_Ok_iff wf_auditor_grant_def wf_period_def)

definition auditor_grant_step :: "datetime \<Rightarrow> auditor_grant \<Rightarrow> auditor_grant" where
  "auditor_grant_step t g = (case auditor_grant_revoke t g of Inl e \<Rightarrow> g | Inr (g', _) \<Rightarrow> g')"

interpretation agr: stored_aggregate auditor_grant_step "\<lambda>_ _. True" wf_auditor_grant
  auditor_grant_from_domain auditor_grant_into_domain
  by unfold_locales (auto simp: auditor_grant_step_def auditor_grant_revoke_def wf_auditor_grant_def
      intro: auditor_grant_reload dest: auditor_grant_loaded_wf)

definition wf_auditor_transaction :: "auditor_transaction \<Rightarrow> bool" where
  "wf_auditor_transaction x \<longleftrightarrow>
     atx_created_at x < atx_expires_at x
     \<and> 43 \<le> length (atx_pkce_verifier x) \<and> length (atx_pkce_verifier x) \<le> 128
     \<and> is_none_or (\<lambda>t. atx_created_at x \<le> t \<and> t < atx_expires_at x \<and> t \<le> atx_updated_at x)
         (atx_consumed_at x)
     \<and> atx_created_at x \<le> atx_updated_at x
     \<and> length (as_bytes (atx_state_digest x)) = 32 \<and> length (as_bytes (atx_nonce_digest x)) = 32"

lemma auditor_transaction_rehydrate_Ok_iff:
  "auditor_transaction_rehydrate x = Inr y \<longleftrightarrow>
     y = x \<and> atx_created_at x < atx_expires_at x
     \<and> 43 \<le> length (atx_pkce_verifier x) \<and> length (atx_pkce_verifier x) \<le> 128
     \<and> is_none_or (\<lambda>t. atx_created_at x \<le> t \<and> t < atx_expires_at x \<and> t \<le> atx_updated_at x)
         (atx_consumed_at x)
     \<and> atx_created_at x \<le> atx_updated_at x"
  by (cases x; cases "atx_consumed_at x")
    (auto simp: auditor_transaction_rehydrate_def auditor_transaction_start_def)

lemma auditor_transaction_reload:
  "wf_auditor_transaction x \<Longrightarrow>
     auditor_transaction_into_domain (auditor_transaction_from_domain x) = Inr x"
  by (cases x; cases "atx_state_digest x"; cases "atx_nonce_digest x")
    (auto simp: auditor_transaction_into_domain_def auditor_transaction_from_domain_def
      wf_auditor_transaction_def and_then_Ok_iff digest_from_bytes_Ok
      auditor_transaction_rehydrate_Ok_iff)

lemma auditor_transaction_loaded_wf:
  "auditor_transaction_into_domain r = Inr x \<Longrightarrow> wf_auditor_transaction x"
  by (auto simp: auditor_transaction_into_domain_def and_then_Ok_iff digest_from_bytes_Ok
      auditor_transaction_rehydrate_Ok_iff wf_auditor_transaction_def)

definition transaction_step :: "datetime \<Rightarrow> auditor_transaction \<Rightarrow> auditor_transaction" where
  "transaction_step t x = applied_or x (transaction_claim t x)"

interpretation atx: stored_aggregate transaction_step "\<lambda>_ _. True" wf_auditor_transaction
  auditor_transaction_from_domain auditor_transaction_into_domain
  by unfold_locales (auto simp: transaction_step_def transaction_claim_def wf_auditor_transaction_def
      intro: auditor_transaction_reload dest: auditor_transaction_loaded_wf)

interpretation claim: single_use transaction_claim "\<lambda>x. atx_consumed_at x \<noteq> None"
  by unfold_locales (auto simp: transaction_claim_def split: if_splits)

section \<open>Sessions in clock order\<close>

definition wf_session :: "auditor_session \<Rightarrow> bool" where
  "wf_session s \<longleftrightarrow>
     ses_created_at s < ses_expires_at s \<and> trim (ses_auth0_subject s) \<noteq> []
     \<and> valid_normalized_email (ses_auditor_email s)
     \<and> ses_created_at s \<le> ses_last_used_at s \<and> ses_last_used_at s \<le> ses_updated_at s
     \<and> is_none_or (\<lambda>t. ses_created_at s \<le> t \<and> t \<le> ses_updated_at s) (ses_revoked_at s)"

lemma session_rehydrate_Ok_iff: "session_rehydrate s = Inr t \<longleftrightarrow> t = s \<and> wf_session s"
  by (cases s; cases "ses_revoked_at s")
    (auto simp: session_rehydrate_def session_create_def wf_session_def)

text \<open>The grant row a session joins with: the same grant, workspace and period.\<close>

definition session_grant_row :: "auditor_session \<Rightarrow> auditor_grant_record \<Rightarrow> bool" where
  "session_grant_row s g \<longleftrightarrow>
     agrrec_workspace_id g = workspace_uuid (ses_workspace_id s)
     \<and> agrrec_period_start g = period_start (ses_period s)
     \<and> agrrec_period_end g = period_end (ses_period s)"

lemma session_into_domain_Ok_iff:
  assumes "session_grant_row s g" and "length (as_bytes (ses_session_digest s)) = 32"
    and "wf_period (ses_period s)"
  shows "session_into_domain (session_from_domain s) g = Inr t \<longleftrightarrow> t = s \<and> wf_session s"
  using assms
  by (cases s; cases "ses_session_digest s"; cases "ses_period s")
    (auto simp: session_into_domain_def session_from_domain_def and_then_Ok_iff digest_from_bytes_Ok
      audit_review_period_new_Ok session_rehydrate_Ok_iff session_grant_row_def wf_period_def)

datatype session_op = TouchOp datetime | RevokeSessionOp datetime

fun session_step :: "session_op \<Rightarrow> auditor_session \<Rightarrow> auditor_session" where
  "session_step (TouchOp t) s = (case session_touch t s of Inl e \<Rightarrow> s | Inr (s', _) \<Rightarrow> s')"
| "session_step (RevokeSessionOp t) s = (case session_revoke t s of Inl e \<Rightarrow> s | Inr (s', _) \<Rightarrow> s')"

fun session_clock_ok :: "session_op \<Rightarrow> auditor_session \<Rightarrow> bool" where
  "session_clock_ok (TouchOp t) s = True"
| "session_clock_ok (RevokeSessionOp t) s \<longleftrightarrow> ses_last_used_at s \<le> t"

definition session_dead :: "auditor_session \<Rightarrow> bool" where
  "session_dead s \<longleftrightarrow> ses_revoked_at s \<noteq> None"

lemma session_step_wf: "wf_session s \<Longrightarrow> session_clock_ok op s \<Longrightarrow> wf_session (session_step op s)"
  by (cases op) (auto simp: wf_session_def session_touch_def session_ensure_active_at_def
      session_revoke_def)

lemma session_dead_step: "session_dead s \<Longrightarrow> session_step op s = s"
  by (cases op) (auto simp: session_dead_def session_touch_def session_ensure_active_at_def
      session_revoke_def)

interpretation ses: terminal_aggregate session_step session_clock_ok wf_session session_dead
  by unfold_locales (auto intro: session_step_wf simp: session_dead_step)

text \<open>
  A revocation whose time lies before the last use is accepted, and leaves a session that does not
  load any more: \<^verbatim>\<open>revoke\<close> checks its time against the creation only, and sets the time of the last
  update back before the last use.
\<close>

lemma session_revoke_before_last_use:
  assumes "wf_session s" and "ses_revoked_at s = None"
    and "ses_created_at s \<le> t" and "t < ses_last_used_at s"
  shows "\<exists>s'. session_revoke t s = Inr (s', SessionRevoked) \<and> \<not> wf_session s'"
  using assms by (simp add: session_revoke_def wf_session_def)

section \<open>Properties\<close>

definition sample_session :: auditor_session where
  "sample_session =
     \<lparr>ses_id = AuditorSessionId 1, ses_grant_id = AuditorAccessGrantId 2, ses_workspace_id = WorkspaceId 3,
      ses_auditor_email = ''ada@example.com'', ses_auth0_subject = ''s'', ses_expires_at = 100,
      ses_period = \<lparr>period_start = 1, period_end = 2\<rparr>, ses_revoked_at = None,
      ses_last_used_at = 50, ses_created_at = 0, ses_updated_at = 50,
      ses_session_digest = Sha256Digest (replicate 32 1)\<rparr>"

lemma sample_session_wf: "wf_session sample_session"
  by (simp add: wf_session_def sample_session_def) code_simp

text \<open>
  The callback of an auditor's login is claimed at most once, whatever claims are made, and a
  claimed transaction is still accepted when it is loaded.
\<close>

theorem auditor_login_claimed_once:
  assumes "wf_auditor_transaction x" and "transaction_claim now x = Inr y"
  shows "successes transaction_claim clocks x \<le> 1 \<and> successes transaction_claim clocks y = 0
     \<and> auditor_transaction_into_domain (auditor_transaction_from_domain y) = Inr y"
proof -
  have "y = transaction_step now x" using assms(2) by (simp add: transaction_step_def)
  with assms(1) atx.step_wf have "wf_auditor_transaction y" by simp
  then show ?thesis
    using claim.successes_le_one [of clocks x] claim.successes_spent claim.attempt_spends [OF assms(2)]
      atx.reload by simp
qed

theorem auditor_login_claimed_once_witness:
  "\<exists>x y. transaction_claim 5 x = Inr y \<and> successes transaction_claim [6, 7] y = 0"
proof -
  let ?x = "\<lparr>atx_id = AuditorAuthTransactionId 1, atx_grant_id = AuditorAccessGrantId 2,
    atx_state_digest = Sha256Digest (replicate 32 1), atx_nonce_digest = Sha256Digest (replicate 32 2),
    atx_pkce_verifier = replicate 43 CHR ''v'', atx_expires_at = 100, atx_consumed_at = None,
    atx_created_at = 0, atx_updated_at = 0\<rparr>"
  have wf: "wf_auditor_transaction ?x"
    by (simp add: wf_auditor_transaction_def)
  obtain y where y: "transaction_claim 5 ?x = Inr y" by (simp add: transaction_claim_def)
  from auditor_login_claimed_once [OF wf y] y show ?thesis by blast
qed

text \<open>
  C34: Revoking an auditor session is final, and no revoked session passes the check that guards every
  request, at any time and after any sequence of further operations.
\<close>

theorem revoked_session_locked_out:
  assumes "session_revoke t s = Inr (s', outcome)"
  shows "fold session_step ops s' = s'
     \<and> session_ensure_active_at now (fold session_step ops s') = Inl SessionUnavailable"
proof -
  have dead: "session_dead s'"
    using assms by (auto simp: session_revoke_def session_dead_def split: if_splits)
  then have "fold session_step ops s' = s'" by (induction ops) (simp_all add: session_dead_step)
  with dead show ?thesis by (simp add: session_ensure_active_at_def session_dead_def)
qed

theorem revoked_session_locked_out_witness:
  "\<exists>s' outcome. session_revoke 60 sample_session = Inr (s', outcome)
     \<and> session_ensure_active_at 61 sample_session = Inr ()
     \<and> session_ensure_active_at 61 (fold session_step [TouchOp 61] s') = Inl SessionUnavailable"
proof -
  obtain s' outcome where s': "session_revoke 60 sample_session = Inr (s', outcome)"
    by (simp add: session_revoke_def sample_session_def)
  have "session_ensure_active_at 61 sample_session = Inr ()"
    by (simp add: session_ensure_active_at_def sample_session_def)
  with s' revoked_session_locked_out [OF s', of "[TouchOp 61]" 61] show ?thesis by blast
qed

text \<open>
  C35: A revocation whose clock lies between the creation and the last use of the session is accepted,
  but the session it leaves is refused when it is loaded from the row written for it: \<^verbatim>\<open>revoke\<close> sets
  the update time back before the last use, which \<^verbatim>\<open>rehydrate\<close> rejects.
\<close>

theorem late_clock_revocation_unloadable:
  assumes "wf_session s" and "ses_revoked_at s = None" and "ses_created_at s \<le> t"
    and "t < ses_last_used_at s" and "session_grant_row s g" and "wf_period (ses_period s)"
    and "length (as_bytes (ses_session_digest s)) = 32"
  shows "session_into_domain (session_from_domain s) g = Inr s
     \<and> (\<exists>s'. session_revoke t s = Inr (s', SessionRevoked)
          \<and> is_err (session_into_domain (session_from_domain s') g))"
proof -
  let ?s' = "s\<lparr>ses_revoked_at := Some t, ses_updated_at := t\<rparr>"
  have s': "session_revoke t s = Inr (?s', SessionRevoked)" and "\<not> wf_session ?s'"
    using assms(2-4) by (auto simp: session_revoke_def wf_session_def)
  moreover have "session_grant_row ?s' g" using assms(5) by (simp add: session_grant_row_def)
  ultimately have "session_into_domain (session_from_domain ?s') g \<noteq> Inr x" for x
    using session_into_domain_Ok_iff [of ?s' g x] assms(6,7) by simp
  then have "is_err (session_into_domain (session_from_domain ?s') g)"
    by (metis is_err.simps(1) sum.exhaust)
  with s' show ?thesis using session_into_domain_Ok_iff [OF assms(5,7,6)] assms(1) by blast
qed

theorem late_clock_revocation_unloadable_witness:
  "\<exists>s' g. session_revoke 40 sample_session = Inr (s', SessionRevoked)
     \<and> is_err (session_into_domain (session_from_domain s') g)"
proof -
  let ?g = "\<lparr>agrrec_id = 2, agrrec_workspace_id = 3, agrrec_auditor_email = ''ada@example.com'',
     agrrec_secret_digest = [], agrrec_created_by_user_id = 9,
     agrrec_created_via_agent_connection_id = 8, agrrec_created_at = 0, agrrec_expires_at = 200,
     agrrec_period_start = 1, agrrec_period_end = 2, agrrec_revoked_at = None\<rparr>"
  have "session_grant_row sample_session ?g"
    by (simp add: session_grant_row_def sample_session_def)
  from late_clock_revocation_unloadable [OF sample_session_wf _ _ _ this, of 40] show ?thesis
    by (auto simp: sample_session_def wf_period_def)
qed

end
