(* ===== verification/Catalog.thy ===== *)
theory Catalog
  imports Persistence
begin

text \<open>
  The compliance catalog: evidence with its control mappings (\<^verbatim>\<open>src/domain/evidence.rs\<close>), controls
  with their framework requirements (\<^verbatim>\<open>src/domain/controls.rs\<close>), policies with their control
  mappings and archive state (\<^verbatim>\<open>src/domain/policy.rs\<close>) and evidence submissions with their coverage
  window (\<^verbatim>\<open>src/domain/evidence_submission.rs\<close>), with the records of
  \<^verbatim>\<open>src/persistence/aggregates/{evidence,controls,policies,evidence_submissions}.rs\<close>. Mappings are kept
  sorted by control and free of duplicates (\<^verbatim>\<open>sort_unstable_by_key\<close> gives one result where the keys
  are distinct, and where they are not the operation is refused); an archived policy is frozen.
\<close>

section \<open>Sorted identifiers\<close>

text \<open>The first pair of \<^verbatim>\<open>windows(2)\<close> with equal keys.\<close>

fun adjacent_duplicate :: "('a \<Rightarrow> 'k) \<Rightarrow> 'a list \<Rightarrow> 'a option" where
  "adjacent_duplicate key (x # y # xs) =
     (if key x = key y then Some x else adjacent_duplicate key (y # xs))"
| "adjacent_duplicate key _ = None"

text \<open>The first element of a list whose insertion into the \<^verbatim>\<open>HashSet\<close> finds it there.\<close>

fun first_repeated :: "'a set \<Rightarrow> 'a list \<Rightarrow> 'a option" where
  "first_repeated seen [] = None"
| "first_repeated seen (x # xs) = (if x \<in> seen then Some x else first_repeated (insert x seen) xs)"

lemma adjacent_duplicate_None_iff:
  fixes key :: "'a \<Rightarrow> 'k :: linorder"
  assumes "sorted (map key xs)"
  shows "adjacent_duplicate key xs = None \<longleftrightarrow> distinct (map key xs)"
  using assms
proof (induction xs rule: induct_list012)
  case (3 x y zs)
  then show ?case by (auto dest: order_antisym)
qed simp_all

lemma sorted_by_key [simp]: "sorted (map key (sort_key key xs))"
  by simp

lemma distinct_map_sort_key: "distinct (map key (sort_key k xs)) \<longleftrightarrow> distinct (map key xs)"
  by (simp add: distinct_map)

lemma adjacent_duplicate_sorted:
  "adjacent_duplicate key (sort_key key xs) = None \<longleftrightarrow> distinct (map key xs)"
  using adjacent_duplicate_None_iff [of key "sort_key key xs"] by (simp add: distinct_map_sort_key)

lemma first_repeated_None_iff:
  "first_repeated seen xs = None \<longleftrightarrow> distinct xs \<and> set xs \<inter> seen = {}"
  by (induction xs arbitrary: seen) auto

section \<open>Evidence\<close>

datatype evidence_status = EvidenceActive | EvidencePaused | EvidenceRetired

fun evidence_status_as_str :: "evidence_status \<Rightarrow> string" where
  "evidence_status_as_str EvidenceActive = ''active''"
| "evidence_status_as_str EvidencePaused = ''paused''"
| "evidence_status_as_str EvidenceRetired = ''retired''"

definition evidence_status_from_str :: "string \<Rightarrow> domain_error + evidence_status" where
  "evidence_status_from_str value =
     (if value = ''active'' then Ok EvidenceActive
      else if value = ''paused'' then Ok EvidencePaused
      else if value = ''retired'' then Ok EvidenceRetired
      else Err (InvalidEnumValue ''status'' value))"

record evidence_definition =
  evd_title :: string
  evd_description :: string
  evd_collection_instructions :: string

definition evidence_definition_new ::
  "string \<Rightarrow> string \<Rightarrow> string \<Rightarrow> (evidence_definition, domain_error) validation" where
  "evidence_definition_new title description instructions =
     validate3 (required_text ''title'' title) (required_text ''description'' description)
       (required_text ''collection_instructions'' instructions)
       (\<lambda>t d i. \<lparr>evd_title = t, evd_description = d, evd_collection_instructions = i\<rparr>)"

record evidence_control_mapping =
  ecm_control_id :: control_id
  ecm_rationale :: string
  ecm_created_at :: datetime

definition evidence_control_mapping_new ::
  "control_id \<Rightarrow> string \<Rightarrow> datetime \<Rightarrow> (evidence_control_mapping, domain_error) validation" where
  "evidence_control_mapping_new control rationale created_at =
     validation_map
       (\<lambda>r. \<lparr>ecm_control_id = control, ecm_rationale = r, ecm_created_at = created_at\<rparr>)
       (required_text ''rationale'' rationale)"

record evidence =
  ev_id :: evidence_id
  ev_workspace_id :: workspace_id
  ev_definition :: evidence_definition
  ev_status :: evidence_status
  ev_mappings :: "evidence_control_mapping list"
  ev_created_at :: datetime
  ev_updated_at :: datetime

datatype evidence_error =
  DuplicateControlMapping control_id | InvalidEvidenceRehydration | InvalidEvidenceReplacementTime

definition evidence_define ::
  "evidence_id \<Rightarrow> workspace_id \<Rightarrow> evidence_definition \<Rightarrow> evidence_status \<Rightarrow> datetime \<Rightarrow> evidence"
where
  "evidence_define i workspace def status created_at =
     \<lparr>ev_id = i, ev_workspace_id = workspace, ev_definition = def, ev_status = status,
      ev_mappings = [], ev_created_at = created_at, ev_updated_at = created_at\<rparr>"

definition ecm_key :: "evidence_control_mapping \<Rightarrow> uuid" where
  "ecm_key m = control_uuid (ecm_control_id m)"

definition normalize_mappings ::
  "evidence_control_mapping list \<Rightarrow> evidence_error + evidence_control_mapping list" where
  "normalize_mappings mappings =
     (let mappings = sort_key ecm_key mappings in
      case adjacent_duplicate ecm_key mappings of
        Some m \<Rightarrow> Err (DuplicateControlMapping (ecm_control_id m))
      | None \<Rightarrow> Ok mappings)"

definition evidence_replace_mappings ::
  "evidence_control_mapping list \<Rightarrow> evidence \<Rightarrow> evidence_error + evidence" where
  "evidence_replace_mappings mappings e =
     and_then (normalize_mappings mappings) (\<lambda>ms. Ok (e\<lparr>ev_mappings := ms\<rparr>))"

definition evidence_rehydrate :: "evidence \<Rightarrow> evidence_error + evidence" where
  "evidence_rehydrate e =
     (if ev_updated_at e < ev_created_at e then Err InvalidEvidenceRehydration
      else and_then
        (evidence_replace_mappings (ev_mappings e)
          (evidence_define (ev_id e) (ev_workspace_id e) (ev_definition e) (ev_status e)
            (ev_created_at e)))
        (\<lambda>x. Ok (x\<lparr>ev_updated_at := ev_updated_at e\<rparr>)))"

definition evidence_replace ::
  "evidence_definition \<Rightarrow> evidence_status \<Rightarrow> datetime \<Rightarrow> evidence \<Rightarrow> evidence_error + evidence" where
  "evidence_replace def status updated_at e =
     (if updated_at < ev_created_at e then Err InvalidEvidenceReplacementTime
      else Ok (e\<lparr>ev_definition := def, ev_status := status, ev_updated_at := updated_at\<rparr>))"

record evidence_record =
  evrec_id :: uuid
  evrec_workspace_id :: uuid
  evrec_title :: string
  evrec_description :: string
  evrec_collection_instructions :: string
  evrec_status :: string
  evrec_created_at :: datetime
  evrec_updated_at :: datetime

record evidence_mapping_record =
  ecmrec_evidence_id :: uuid
  ecmrec_control_id :: uuid
  ecmrec_rationale :: string
  ecmrec_created_at :: datetime

definition evidence_from_domain :: "evidence \<Rightarrow> evidence_record" where
  "evidence_from_domain e =
     \<lparr>evrec_id = evidence_uuid (ev_id e), evrec_workspace_id = workspace_uuid (ev_workspace_id e),
      evrec_title = evd_title (ev_definition e),
      evrec_description = evd_description (ev_definition e),
      evrec_collection_instructions = evd_collection_instructions (ev_definition e),
      evrec_status = evidence_status_as_str (ev_status e),
      evrec_created_at = ev_created_at e, evrec_updated_at = ev_updated_at e\<rparr>"

definition evidence_mapping_from_domain ::
  "uuid \<Rightarrow> evidence_control_mapping \<Rightarrow> evidence_mapping_record" where
  "evidence_mapping_from_domain i m =
     \<lparr>ecmrec_evidence_id = i, ecmrec_control_id = control_uuid (ecm_control_id m),
      ecmrec_rationale = ecm_rationale m, ecmrec_created_at = ecm_created_at m\<rparr>"

definition evidence_mapping_from_row ::
  "evidence_mapping_record \<Rightarrow> repository_error + evidence_control_mapping" where
  "evidence_mapping_from_row r =
     map_err (\<lambda>_. InvariantViolation ''persisted evidence mapping is invalid'')
       (into_result (evidence_control_mapping_new (ControlId (ecmrec_control_id r))
          (ecmrec_rationale r) (ecmrec_created_at r)))"

definition evidence_into_domain ::
  "evidence_record \<Rightarrow> evidence_control_mapping list \<Rightarrow> repository_error + evidence" where
  "evidence_into_domain r mappings =
     and_then (map_err (\<lambda>_. InvariantViolation ''persisted evidence definition is invalid'')
       (into_result (evidence_definition_new (evrec_title r) (evrec_description r)
         (evrec_collection_instructions r)))) (\<lambda>def.
     and_then (map_err InvalidData (evidence_status_from_str (evrec_status r))) (\<lambda>status.
     map_err (\<lambda>_. InvariantViolation ''persisted evidence snapshot is inconsistent'')
       (evidence_rehydrate
         \<lparr>ev_id = EvidenceId (evrec_id r), ev_workspace_id = WorkspaceId (evrec_workspace_id r),
          ev_definition = def, ev_status = status, ev_mappings = mappings,
          ev_created_at = evrec_created_at r, ev_updated_at = evrec_updated_at r\<rparr>)))"

section \<open>Controls\<close>

record control_definition =
  cd_code :: string
  cd_title :: string
  cd_description :: string

definition control_definition_new ::
  "string \<Rightarrow> string \<Rightarrow> string \<Rightarrow> (control_definition, domain_error) validation" where
  "control_definition_new code title description =
     validate3 (required_text ''code'' code) (required_text ''title'' title)
       (required_text ''description'' description)
       (\<lambda>c t d. \<lparr>cd_code = c, cd_title = t, cd_description = d\<rparr>)"

record control =
  ctl_id :: control_id
  ctl_workspace_id :: workspace_id
  ctl_definition :: control_definition
  ctl_framework_requirement_ids :: "framework_requirement_id list"
  ctl_created_at :: datetime
  ctl_updated_at :: datetime

datatype control_error =
    DuplicateFrameworkRequirementReference framework_requirement_id
  | InvalidControlRehydration
  | InvalidControlReplacementTime

definition normalize_framework_requirement_ids ::
  "framework_requirement_id list \<Rightarrow> control_error + framework_requirement_id list" where
  "normalize_framework_requirement_ids ids =
     (let ids = sort_key framework_requirement_uuid ids in
      case first_repeated {} ids of
        Some i \<Rightarrow> Err (DuplicateFrameworkRequirementReference i)
      | None \<Rightarrow> Ok ids)"

definition control_define ::
  "control_id \<Rightarrow> workspace_id \<Rightarrow> control_definition \<Rightarrow> framework_requirement_id list \<Rightarrow> datetime
   \<Rightarrow> control_error + control" where
  "control_define i workspace def ids created_at =
     and_then (normalize_framework_requirement_ids ids) (\<lambda>ids.
       Ok \<lparr>ctl_id = i, ctl_workspace_id = workspace, ctl_definition = def,
           ctl_framework_requirement_ids = ids, ctl_created_at = created_at,
           ctl_updated_at = created_at\<rparr>)"

definition control_rehydrate :: "control \<Rightarrow> control_error + control" where
  "control_rehydrate c =
     (if ctl_updated_at c < ctl_created_at c then Err InvalidControlRehydration
      else and_then
        (control_define (ctl_id c) (ctl_workspace_id c) (ctl_definition c)
          (ctl_framework_requirement_ids c) (ctl_created_at c))
        (\<lambda>x. Ok (x\<lparr>ctl_updated_at := ctl_updated_at c\<rparr>)))"

definition control_replace ::
  "control_definition \<Rightarrow> framework_requirement_id list \<Rightarrow> datetime \<Rightarrow> control
   \<Rightarrow> control_error + control" where
  "control_replace def ids updated_at c =
     and_then (normalize_framework_requirement_ids ids) (\<lambda>ids.
       if updated_at < ctl_created_at c then Err InvalidControlReplacementTime
       else Ok (c\<lparr>ctl_definition := def, ctl_framework_requirement_ids := ids,
                  ctl_updated_at := updated_at\<rparr>))"

record control_record =
  ctlrec_id :: uuid
  ctlrec_workspace_id :: uuid
  ctlrec_code :: string
  ctlrec_title :: string
  ctlrec_description :: string
  ctlrec_created_at :: datetime
  ctlrec_updated_at :: datetime

definition control_from_domain :: "control \<Rightarrow> control_record" where
  "control_from_domain c =
     \<lparr>ctlrec_id = control_uuid (ctl_id c),
      ctlrec_workspace_id = workspace_uuid (ctl_workspace_id c),
      ctlrec_code = cd_code (ctl_definition c), ctlrec_title = cd_title (ctl_definition c),
      ctlrec_description = cd_description (ctl_definition c),
      ctlrec_created_at = ctl_created_at c, ctlrec_updated_at = ctl_updated_at c\<rparr>"

definition control_into_domain ::
  "control_record \<Rightarrow> framework_requirement_id list \<Rightarrow> repository_error + control" where
  "control_into_domain r ids =
     and_then (map_err (\<lambda>_. InvariantViolation ''persisted control definition is invalid'')
       (into_result (control_definition_new (ctlrec_code r) (ctlrec_title r)
         (ctlrec_description r)))) (\<lambda>def.
     map_err (\<lambda>_. InvariantViolation ''persisted control snapshot is inconsistent'')
       (control_rehydrate
         \<lparr>ctl_id = ControlId (ctlrec_id r), ctl_workspace_id = WorkspaceId (ctlrec_workspace_id r),
          ctl_definition = def, ctl_framework_requirement_ids = ids,
          ctl_created_at = ctlrec_created_at r, ctl_updated_at = ctlrec_updated_at r\<rparr>))"

section \<open>Policies\<close>

definition validate_policy_name :: "string \<Rightarrow> (string, domain_error) validation" where
  "validate_policy_name value =
     (let value = trim value in
      if value = [] then Invalid [EmptyRequiredText ''name'']
      else if chars_count value > 200 then Invalid [RequiredTextTooLong ''name'' 200]
      else Valid value)"

definition validate_unique_policy_control_ids ::
  "control_id list \<Rightarrow> (control_id list, domain_error) validation" where
  "validate_unique_policy_control_ids ids =
     (if first_repeated {} ids = None then Valid ids else Invalid [DuplicatePolicyControlId])"

record policy_definition =
  pd_name :: string
  pd_description :: "string option"

definition policy_definition_new ::
  "string \<Rightarrow> string option \<Rightarrow> (policy_definition, domain_error) validation" where
  "policy_definition_new nm description =
     validate2 (validate_policy_name nm) (optional_text ''description'' description 4000)
       (\<lambda>n d. \<lparr>pd_name = n, pd_description = d\<rparr>)"

record policy_control_mapping =
  pcm_control_id :: control_id
  pcm_created_at :: datetime

record policy =
  pol_id :: policy_id
  pol_workspace_id :: workspace_id
  pol_definition :: policy_definition
  pol_mappings :: "policy_control_mapping list"
  pol_created_at :: datetime
  pol_updated_at :: datetime
  pol_archived_at :: "datetime option"

datatype policy_error =
    PolicyArchived | DuplicatePolicyControlMapping | InvalidPolicyRehydration
  | InvalidPolicyReplacementTime

definition policy_define ::
  "policy_id \<Rightarrow> workspace_id \<Rightarrow> policy_definition \<Rightarrow> datetime \<Rightarrow> policy" where
  "policy_define i workspace def created_at =
     \<lparr>pol_id = i, pol_workspace_id = workspace, pol_definition = def, pol_mappings = [],
      pol_created_at = created_at, pol_updated_at = created_at, pol_archived_at = None\<rparr>"

definition policy_ensure_active :: "policy \<Rightarrow> policy_error + unit" where
  "policy_ensure_active p = (if pol_archived_at p \<noteq> None then Err PolicyArchived else Ok ())"

definition policy_replace ::
  "policy_definition \<Rightarrow> datetime \<Rightarrow> policy \<Rightarrow> policy_error + policy" where
  "policy_replace def at p =
     and_then (policy_ensure_active p) (\<lambda>_.
       if at < pol_created_at p then Err InvalidPolicyReplacementTime
       else Ok (p\<lparr>pol_definition := def, pol_updated_at := at\<rparr>))"

definition policy_archive :: "datetime \<Rightarrow> policy \<Rightarrow> policy_error + policy" where
  "policy_archive at p =
     and_then (policy_ensure_active p) (\<lambda>_.
       if at < pol_created_at p then Err InvalidPolicyReplacementTime
       else Ok (p\<lparr>pol_archived_at := Some at, pol_updated_at := at\<rparr>))"

definition pcm_key :: "policy_control_mapping \<Rightarrow> uuid" where
  "pcm_key m = control_uuid (pcm_control_id m)"

definition policy_replace_mappings ::
  "policy_control_mapping list \<Rightarrow> policy \<Rightarrow> policy_error + policy" where
  "policy_replace_mappings mappings p =
     and_then (policy_ensure_active p) (\<lambda>_.
       let mappings = sort_key pcm_key mappings in
       if adjacent_duplicate pcm_key mappings \<noteq> None then Err DuplicatePolicyControlMapping
       else Ok (p\<lparr>pol_mappings := mappings\<rparr>))"

definition policy_rehydrate :: "policy \<Rightarrow> policy_error + policy" where
  "policy_rehydrate p =
     (if pol_updated_at p < pol_created_at p
       \<or> is_some_and (\<lambda>t. t < pol_created_at p) (pol_archived_at p)
      then Err InvalidPolicyRehydration
      else and_then
        (policy_replace_mappings (pol_mappings p)
          (policy_define (pol_id p) (pol_workspace_id p) (pol_definition p) (pol_created_at p)))
        (\<lambda>x. Ok (x\<lparr>pol_updated_at := pol_updated_at p, pol_archived_at := pol_archived_at p\<rparr>)))"

record policy_record =
  polrec_id :: uuid
  polrec_workspace_id :: uuid
  polrec_name :: string
  polrec_description :: "string option"
  polrec_created_at :: datetime
  polrec_updated_at :: datetime
  polrec_archived_at :: "datetime option"

record policy_mapping_record =
  pcmrec_policy_id :: uuid
  pcmrec_control_id :: uuid
  pcmrec_created_at :: datetime

definition policy_from_domain :: "policy \<Rightarrow> policy_record" where
  "policy_from_domain p =
     \<lparr>polrec_id = policy_uuid (pol_id p), polrec_workspace_id = workspace_uuid (pol_workspace_id p),
      polrec_name = pd_name (pol_definition p),
      polrec_description = pd_description (pol_definition p),
      polrec_created_at = pol_created_at p, polrec_updated_at = pol_updated_at p,
      polrec_archived_at = pol_archived_at p\<rparr>"

definition policy_mapping_from_domain :: "uuid \<Rightarrow> policy_control_mapping \<Rightarrow> policy_mapping_record" where
  "policy_mapping_from_domain i m =
     \<lparr>pcmrec_policy_id = i, pcmrec_control_id = control_uuid (pcm_control_id m),
      pcmrec_created_at = pcm_created_at m\<rparr>"

definition policy_mapping_from_row :: "policy_mapping_record \<Rightarrow> policy_control_mapping" where
  "policy_mapping_from_row r =
     \<lparr>pcm_control_id = ControlId (pcmrec_control_id r), pcm_created_at = pcmrec_created_at r\<rparr>"

definition policy_into_domain ::
  "policy_record \<Rightarrow> policy_control_mapping list \<Rightarrow> repository_error + policy" where
  "policy_into_domain r mappings =
     and_then (map_err (\<lambda>_. InvariantViolation ''persisted policy definition is invalid'')
       (into_result (policy_definition_new (polrec_name r) (polrec_description r)))) (\<lambda>def.
     map_err (\<lambda>_. InvariantViolation ''persisted policy snapshot is inconsistent'')
       (policy_rehydrate
         \<lparr>pol_id = PolicyId (polrec_id r), pol_workspace_id = WorkspaceId (polrec_workspace_id r),
          pol_definition = def, pol_mappings = mappings, pol_created_at = polrec_created_at r,
          pol_updated_at = polrec_updated_at r, pol_archived_at = polrec_archived_at r\<rparr>))"

section \<open>Submissions\<close>

record coverage_window =
  cov_valid_from :: datetime
  cov_valid_until :: datetime

definition coverage_window_new :: "datetime \<Rightarrow> datetime \<Rightarrow> domain_error + coverage_window" where
  "coverage_window_new valid_from valid_until =
     (if valid_until < valid_from then Err InvalidCoverageWindow
      else Ok \<lparr>cov_valid_from = valid_from, cov_valid_until = valid_until\<rparr>)"

datatype evidence_submitter = SubmittedByConnection agent_connection_id user_id

record evidence_submission =
  sub_id :: evidence_submission_id
  sub_evidence_id :: evidence_id
  sub_submitted_by :: evidence_submitter
  sub_received_at :: datetime
  sub_valid_from :: datetime
  sub_valid_until :: datetime

definition submission_create ::
  "evidence_submission_id \<Rightarrow> evidence_id \<Rightarrow> evidence_submitter \<Rightarrow> coverage_window \<Rightarrow> datetime
   \<Rightarrow> evidence_submission" where
  "submission_create i e submitted_by coverage received_at =
     \<lparr>sub_id = i, sub_evidence_id = e, sub_submitted_by = submitted_by,
      sub_received_at = received_at, sub_valid_from = cov_valid_from coverage,
      sub_valid_until = cov_valid_until coverage\<rparr>"

definition submission_coverage :: "evidence_submission \<Rightarrow> coverage_window" where
  "submission_coverage s =
     \<lparr>cov_valid_from = sub_valid_from s, cov_valid_until = sub_valid_until s\<rparr>"

record submission_record =
  subrec_id :: uuid
  subrec_evidence_id :: uuid
  subrec_submitted_by_agent_connection_id :: uuid
  subrec_received_at :: datetime
  subrec_valid_from :: datetime
  subrec_valid_until :: datetime

definition submission_from_domain :: "evidence_submission \<Rightarrow> submission_record" where
  "submission_from_domain s =
     \<lparr>subrec_id = submission_uuid (sub_id s),
      subrec_evidence_id = evidence_uuid (sub_evidence_id s),
      subrec_submitted_by_agent_connection_id =
        (case sub_submitted_by s of SubmittedByConnection c u \<Rightarrow> agent_connection_uuid c),
      subrec_received_at = sub_received_at s, subrec_valid_from = sub_valid_from s,
      subrec_valid_until = sub_valid_until s\<rparr>"

text \<open>The submitting user is the user of the connection's row, joined in the query.\<close>

definition submission_into_domain :: "submission_record \<Rightarrow> uuid \<Rightarrow> evidence_submission" where
  "submission_into_domain r submitted_by_user_id =
     \<lparr>sub_id = EvidenceSubmissionId (subrec_id r),
      sub_evidence_id = EvidenceId (subrec_evidence_id r),
      sub_submitted_by = SubmittedByConnection
        (AgentConnectionId (subrec_submitted_by_agent_connection_id r)) (UserId submitted_by_user_id),
      sub_received_at = subrec_received_at r, sub_valid_from = subrec_valid_from r,
      sub_valid_until = subrec_valid_until r\<rparr>"

section \<open>Lemmas\<close>

lemma normalize_mappings_Ok_iff:
  "normalize_mappings ms = Inr out \<longleftrightarrow> distinct (map ecm_key ms) \<and> out = sort_key ecm_key ms"
  using adjacent_duplicate_sorted [of ecm_key ms]
  by (auto simp: normalize_mappings_def Let_def split: option.splits)

lemma normalize_requirement_ids_Ok_iff:
  "normalize_framework_requirement_ids ids = Inr out \<longleftrightarrow>
     distinct ids \<and> out = sort_key framework_requirement_uuid ids"
  using first_repeated_None_iff [of "{}" "sort_key framework_requirement_uuid ids"]
  by (auto simp: normalize_framework_requirement_ids_def Let_def split: option.splits)

lemma validate_unique_policy_control_ids_Valid_iff:
  "validate_unique_policy_control_ids ids = Valid out \<longleftrightarrow> out = ids \<and> distinct ids"
  by (auto simp: validate_unique_policy_control_ids_def first_repeated_None_iff)

lemma validate_policy_name_Valid_iff:
  "validate_policy_name v = Valid n \<longleftrightarrow> n = trim v \<and> \<not> is_blank v \<and> chars_count (trim v) \<le> 200"
  by (auto simp: validate_policy_name_def Let_def is_blank_def)

text \<open>Evidence is well-formed when its texts are not blank and its mappings are sorted and unique.\<close>

definition wf_evidence :: "evidence \<Rightarrow> bool" where
  "wf_evidence e \<longleftrightarrow>
     \<not> is_blank (evd_title (ev_definition e)) \<and> \<not> is_blank (evd_description (ev_definition e))
     \<and> \<not> is_blank (evd_collection_instructions (ev_definition e))
     \<and> sorted (map ecm_key (ev_mappings e)) \<and> distinct (map ecm_key (ev_mappings e))
     \<and> (\<forall>m \<in> set (ev_mappings e). \<not> is_blank (ecm_rationale m))
     \<and> ev_created_at e \<le> ev_updated_at e"

definition wf_control :: "control \<Rightarrow> bool" where
  "wf_control c \<longleftrightarrow>
     \<not> is_blank (cd_code (ctl_definition c)) \<and> \<not> is_blank (cd_title (ctl_definition c))
     \<and> \<not> is_blank (cd_description (ctl_definition c))
     \<and> sorted (map framework_requirement_uuid (ctl_framework_requirement_ids c))
     \<and> distinct (ctl_framework_requirement_ids c) \<and> ctl_created_at c \<le> ctl_updated_at c"

definition wf_policy :: "policy \<Rightarrow> bool" where
  "wf_policy p \<longleftrightarrow>
     policy_definition_new (pd_name (pol_definition p)) (pd_description (pol_definition p))
       = Valid (pol_definition p)
     \<and> sorted (map pcm_key (pol_mappings p)) \<and> distinct (map pcm_key (pol_mappings p))
     \<and> pol_created_at p \<le> pol_updated_at p
     \<and> is_none_or (\<lambda>t. pol_created_at p \<le> t) (pol_archived_at p)"

lemma evidence_status_round_trip [simp]:
  "evidence_status_from_str (evidence_status_as_str s) = Inr s"
  by (cases s) (simp_all add: evidence_status_from_str_def)

lemma evidence_definition_new_Valid_iff:
  "evidence_definition_new t d i = Valid def \<longleftrightarrow>
     def = \<lparr>evd_title = t, evd_description = d, evd_collection_instructions = i\<rparr>
     \<and> \<not> is_blank t \<and> \<not> is_blank d \<and> \<not> is_blank i"
  by (auto simp: evidence_definition_new_def validate3_Valid_iff required_text_Valid_iff)

lemma control_definition_new_Valid_iff:
  "control_definition_new c t d = Valid def \<longleftrightarrow>
     def = \<lparr>cd_code = c, cd_title = t, cd_description = d\<rparr>
     \<and> \<not> is_blank c \<and> \<not> is_blank t \<and> \<not> is_blank d"
  by (auto simp: control_definition_new_def validate3_Valid_iff required_text_Valid_iff)

lemma policy_definition_new_stable:
  "policy_definition_new n d = Valid def \<Longrightarrow>
     policy_definition_new (pd_name def) (pd_description def) = Valid def"
  by (auto simp: policy_definition_new_def validate2_Valid_iff validate_policy_name_Valid_iff
      dest: optional_text_stable simp: is_blank_trim)

lemma evidence_reload:
  "wf_evidence e \<Longrightarrow> evidence_into_domain (evidence_from_domain e) (ev_mappings e) = Inr e"
  by (cases e; cases "ev_definition e")
    (auto simp: evidence_into_domain_def evidence_from_domain_def wf_evidence_def and_then_Ok_iff
      evidence_definition_new_Valid_iff evidence_rehydrate_def evidence_replace_mappings_def
      evidence_define_def normalize_mappings_Ok_iff sort_key_id_if_sorted)

lemma control_reload:
  "wf_control c \<Longrightarrow>
     control_into_domain (control_from_domain c) (ctl_framework_requirement_ids c) = Inr c"
  by (cases c; cases "ctl_definition c")
    (auto simp: control_into_domain_def control_from_domain_def wf_control_def and_then_Ok_iff
      control_definition_new_Valid_iff control_rehydrate_def control_define_def
      normalize_requirement_ids_Ok_iff sort_key_id_if_sorted)

lemma policy_reload:
  "wf_policy p \<Longrightarrow> policy_into_domain (policy_from_domain p) (pol_mappings p) = Inr p"
  using adjacent_duplicate_None_iff [of pcm_key "pol_mappings p"]
  by (cases p; cases "pol_archived_at p")
    (auto simp: policy_into_domain_def policy_from_domain_def wf_policy_def and_then_Ok_iff
      policy_rehydrate_def policy_replace_mappings_def policy_define_def policy_ensure_active_def
      Let_def sort_key_id_if_sorted)

datatype policy_op =
    ReplacePolicyOp policy_definition datetime
  | ArchivePolicyOp datetime
  | ReplacePolicyMappingsOp "policy_control_mapping list"

fun policy_step :: "policy_op \<Rightarrow> policy \<Rightarrow> policy" where
  "policy_step (ReplacePolicyOp d t) p = applied_or p (policy_replace d t p)"
| "policy_step (ArchivePolicyOp t) p = applied_or p (policy_archive t p)"
| "policy_step (ReplacePolicyMappingsOp ms) p = applied_or p (policy_replace_mappings ms p)"

text \<open>A definition an operation receives was made by the definition's constructor.\<close>

fun policy_op_valid :: "policy_op \<Rightarrow> policy \<Rightarrow> bool" where
  "policy_op_valid (ReplacePolicyOp d t) p \<longleftrightarrow>
     policy_definition_new (pd_name d) (pd_description d) = Valid d"
| "policy_op_valid _ p \<longleftrightarrow> True"

lemma policy_step_wf: "wf_policy p \<Longrightarrow> policy_op_valid op p \<Longrightarrow> wf_policy (policy_step op p)"
  by (cases op) (auto simp: wf_policy_def policy_replace_def policy_archive_def policy_ensure_active_def
      policy_replace_mappings_def Let_def adjacent_duplicate_sorted distinct_map_sort_key)

lemma archived_policy_step: "pol_archived_at p \<noteq> None \<Longrightarrow> policy_step op p = p"
  by (cases op) (auto simp: policy_replace_def policy_archive_def policy_ensure_active_def
      policy_replace_mappings_def)

interpretation pol: terminal_aggregate policy_step policy_op_valid wf_policy
  "\<lambda>p. pol_archived_at p \<noteq> None \<and> p = q"
  by unfold_locales (auto intro: policy_step_wf simp: archived_policy_step)

datatype evidence_op =
    ReplaceEvidenceOp evidence_definition evidence_status datetime
  | ReplaceEvidenceMappingsOp "evidence_control_mapping list"

fun evidence_step :: "evidence_op \<Rightarrow> evidence \<Rightarrow> evidence" where
  "evidence_step (ReplaceEvidenceOp d s t) e = applied_or e (evidence_replace d s t e)"
| "evidence_step (ReplaceEvidenceMappingsOp ms) e = applied_or e (evidence_replace_mappings ms e)"

fun evidence_op_valid :: "evidence_op \<Rightarrow> evidence \<Rightarrow> bool" where
  "evidence_op_valid (ReplaceEvidenceOp d s t) e \<longleftrightarrow>
     evidence_definition_new (evd_title d) (evd_description d) (evd_collection_instructions d) = Valid d"
| "evidence_op_valid (ReplaceEvidenceMappingsOp ms) e \<longleftrightarrow>
     (\<forall>m \<in> set ms. evidence_control_mapping_new (ecm_control_id m) (ecm_rationale m)
        (ecm_created_at m) = Valid m)"

lemma evidence_control_mapping_new_Valid:
  "evidence_control_mapping_new c r t = Valid m \<Longrightarrow> \<not> is_blank r \<and> ecm_rationale m = r"
  by (cases "required_text ''rationale'' r")
    (auto simp: evidence_control_mapping_new_def required_text_Valid_iff)

lemma evidence_step_wf: "wf_evidence e \<Longrightarrow> evidence_op_valid op e \<Longrightarrow> wf_evidence (evidence_step op e)"
  by (cases op) (auto simp: wf_evidence_def evidence_replace_def evidence_replace_mappings_def
      evidence_definition_new_Valid_iff normalize_mappings_Ok_iff distinct_map_sort_key and_then_Ok_iff
      dest!: evidence_control_mapping_new_Valid split: sum.splits)

interpretation ev: aggregate evidence_step evidence_op_valid wf_evidence
  by unfold_locales (rule evidence_step_wf)

section \<open>Properties\<close>

text \<open>
  A policy defined from a validated definition stays well-formed under every sequence of
  replacements with validated definitions, archivings and mapping replacements: its mappings are
  sorted and name each control once, its name fits, and its row and mappings read back as the policy.
\<close>

theorem policy_run_reloads:
  assumes "policy_definition_new nm description = Valid def"
    and "allowed_run policy_step policy_op_valid ops (policy_define i w def t)"
  shows "let p = fold policy_step ops (policy_define i w def t) in
     distinct (map pcm_control_id (pol_mappings p))
     \<and> sorted (map pcm_key (pol_mappings p))
     \<and> policy_into_domain (policy_from_domain p) (pol_mappings p) = Inr p"
proof -
  let ?p = "fold policy_step ops (policy_define i w def t)"
  have "wf_policy (policy_define i w def t)"
    using policy_definition_new_stable [OF assms(1)] by (simp add: wf_policy_def policy_define_def)
  from pol.run_wf [OF this assms(2)] have wf: "wf_policy ?p" .
  have "pcm_key = control_uuid \<circ> pcm_control_id" by (auto simp: pcm_key_def)
  with wf have "distinct (map control_uuid (map pcm_control_id (pol_mappings ?p)))"
    by (simp add: wf_policy_def)
  then have "distinct (map pcm_control_id (pol_mappings ?p))" by (rule distinct_map [THEN iffD1, THEN conjunct1])
  with wf policy_reload [OF wf] show ?thesis by (simp add: wf_policy_def Let_def)
qed

theorem policy_run_reloads_witness:
  "let p = fold policy_step [ReplacePolicyMappingsOp [\<lparr>pcm_control_id = ControlId 2, pcm_created_at = 1\<rparr>,
          \<lparr>pcm_control_id = ControlId 1, pcm_created_at = 1\<rparr>]]
        (policy_define (PolicyId 1) (WorkspaceId 2) \<lparr>pd_name = ''x'', pd_description = None\<rparr> 0) in
   map pcm_control_id (pol_mappings p) = [ControlId 1, ControlId 2]
   \<and> policy_into_domain (policy_from_domain p) (pol_mappings p) = Inr p"
proof -
  have "policy_definition_new ''x'' None = Valid \<lparr>pd_name = ''x'', pd_description = None\<rparr>"
    by code_simp
  from policy_run_reloads [OF this, of "[ReplacePolicyMappingsOp [\<lparr>pcm_control_id = ControlId 2, pcm_created_at = 1\<rparr>,
          \<lparr>pcm_control_id = ControlId 1, pcm_created_at = 1\<rparr>]]" "PolicyId 1" "WorkspaceId 2" 0]
  moreover have "map pcm_control_id (pol_mappings (fold policy_step
      [ReplacePolicyMappingsOp [\<lparr>pcm_control_id = ControlId 2, pcm_created_at = 1\<rparr>,
          \<lparr>pcm_control_id = ControlId 1, pcm_created_at = 1\<rparr>]]
      (policy_define (PolicyId 1) (WorkspaceId 2) \<lparr>pd_name = ''x'', pd_description = None\<rparr> 0)))
    = [ControlId 1, ControlId 2]"
    by code_simp
  ultimately show ?thesis by (simp add: Let_def)
qed

text \<open>
  Archiving a policy is final: whatever is then asked of it, the policy stays as it was.
\<close>

theorem archived_policy_final:
  assumes "policy_archive at p = Inr q"
  shows "fold policy_step ops q = q"
proof -
  have "pol_archived_at q \<noteq> None"
    using assms by (auto simp: policy_archive_def and_then_Ok_iff split: if_splits)
  then show ?thesis using pol.dead_run [of q q ops] by simp
qed

theorem archived_policy_final_witness:
  "\<exists>q. policy_archive 5 (policy_define (PolicyId 1) (WorkspaceId 2) \<lparr>pd_name = ''x'', pd_description = None\<rparr> 0) = Inr q
     \<and> fold policy_step [ReplacePolicyMappingsOp [], ArchivePolicyOp 9] q = q"
proof -
  obtain q where q: "policy_archive 5 (policy_define (PolicyId 1) (WorkspaceId 2) \<lparr>pd_name = ''x'', pd_description = None\<rparr> 0) = Inr q"
    by (simp add: policy_archive_def policy_define_def policy_ensure_active_def)
  from archived_policy_final [OF q] q show ?thesis by blast
qed

text \<open>
  Replacing the control mappings of evidence succeeds exactly when no control is named twice, and
  stores the same mappings in the order of their controls; such evidence, when its texts and
  rationales are not blank, reads back from its row and mappings.
\<close>

theorem evidence_mappings_normalised:
  assumes "wf_evidence e" and "list_all (\<lambda>m. \<not> is_blank (ecm_rationale m)) ms"
  shows "(if distinct (map ecm_control_id ms)
          then evidence_replace_mappings ms e = Inr (e\<lparr>ev_mappings := sort_key ecm_key ms\<rparr>)
            \<and> evidence_into_domain (evidence_from_domain (e\<lparr>ev_mappings := sort_key ecm_key ms\<rparr>))
                (sort_key ecm_key ms) = Inr (e\<lparr>ev_mappings := sort_key ecm_key ms\<rparr>)
          else is_err (evidence_replace_mappings ms e))"
proof -
  have key: "ecm_key = control_uuid \<circ> ecm_control_id" by (auto simp: ecm_key_def)
  have "inj control_uuid" by (rule injI) (rule control_id.expand)
  then have "inj_on control_uuid (set (map ecm_control_id ms))" by (rule inj_on_subset) simp
  then have d: "distinct (map ecm_key ms) \<longleftrightarrow> distinct (map ecm_control_id ms)"
    unfolding key by (metis distinct_map map_map)
  show ?thesis
  proof (cases "distinct (map ecm_control_id ms)")
    case True
    have n: "normalize_mappings ms = Inr (sort_key ecm_key ms)"
      using True d by (simp add: normalize_mappings_Ok_iff)
    have "wf_evidence (e\<lparr>ev_mappings := sort_key ecm_key ms\<rparr>)"
      using assms True d by (auto simp: wf_evidence_def distinct_map_sort_key list_all_iff)
    from evidence_reload [OF this] n True show ?thesis by (simp add: evidence_replace_mappings_def)
  next
    case False
    with d have "normalize_mappings ms \<noteq> Inr out" for out by (simp add: normalize_mappings_Ok_iff)
    then have "is_err (normalize_mappings ms)" by (metis is_err.simps(1) sum.exhaust)
    with False show ?thesis by (cases "normalize_mappings ms") (simp_all add: evidence_replace_mappings_def)
  qed
qed

theorem evidence_mappings_normalised_witness:
  "\<exists>e. evidence_replace_mappings [\<lparr>ecm_control_id = ControlId 2, ecm_rationale = ''b'', ecm_created_at = 0\<rparr>,
        \<lparr>ecm_control_id = ControlId 1, ecm_rationale = ''a'', ecm_created_at = 0\<rparr>] e
     = Inr (e\<lparr>ev_mappings := [\<lparr>ecm_control_id = ControlId 1, ecm_rationale = ''a'', ecm_created_at = 0\<rparr>,
         \<lparr>ecm_control_id = ControlId 2, ecm_rationale = ''b'', ecm_created_at = 0\<rparr>]\<rparr>)"
proof -
  let ?e = "evidence_define (EvidenceId 1) (WorkspaceId 2)
    \<lparr>evd_title = ''t'', evd_description = ''d'', evd_collection_instructions = ''i''\<rparr> EvidenceActive 0"
  have b: "\<not> is_blank ''t''" "\<not> is_blank ''d''" "\<not> is_blank ''i''" "\<not> is_blank ''a''" "\<not> is_blank ''b''"
    by code_simp+
  have "wf_evidence ?e" using b by (simp add: wf_evidence_def evidence_define_def)
  from evidence_mappings_normalised [OF this, of "[\<lparr>ecm_control_id = ControlId 2, ecm_rationale = ''b'', ecm_created_at = 0\<rparr>,
        \<lparr>ecm_control_id = ControlId 1, ecm_rationale = ''a'', ecm_created_at = 0\<rparr>]"] b
  have "evidence_replace_mappings [\<lparr>ecm_control_id = ControlId 2, ecm_rationale = ''b'', ecm_created_at = 0\<rparr>,
        \<lparr>ecm_control_id = ControlId 1, ecm_rationale = ''a'', ecm_created_at = 0\<rparr>] ?e
     = Inr (?e\<lparr>ev_mappings := sort_key ecm_key [\<lparr>ecm_control_id = ControlId 2, ecm_rationale = ''b'', ecm_created_at = 0\<rparr>,
        \<lparr>ecm_control_id = ControlId 1, ecm_rationale = ''a'', ecm_created_at = 0\<rparr>]\<rparr>)" by simp
  moreover have "sort_key ecm_key [\<lparr>ecm_control_id = ControlId 2, ecm_rationale = ''b'', ecm_created_at = 0\<rparr>,
        \<lparr>ecm_control_id = ControlId 1, ecm_rationale = ''a'', ecm_created_at = 0\<rparr>]
     = [\<lparr>ecm_control_id = ControlId 1, ecm_rationale = ''a'', ecm_created_at = 0\<rparr>,
         \<lparr>ecm_control_id = ControlId 2, ecm_rationale = ''b'', ecm_created_at = 0\<rparr>]" by code_simp
  ultimately show ?thesis by metis
qed

end
