(* ===== verification/Upload_Declarations.thy ===== *)
theory Upload_Declarations
  imports Persistence
begin

text \<open>
  The file an agent declares before it uploads (\<^verbatim>\<open>src/domain/declared_upload_file.rs\<close>). The media
  type parser, the header value check and the hexadecimal codec are third-party code: they are the
  fields of \<open>upload_codec\<close>, a parameter of the definitions, and \<open>hex_codec_ok\<close> states what
  the documentation of the codec promises. \<open>hex_codec\<close> is the usual codec, which satisfies it.
\<close>

section \<open>Third-party parameters\<close>

record upload_codec =
  mime_parses :: "string \<Rightarrow> bool"
  header_value_ok :: "string \<Rightarrow> bool"
  hex_encode :: "bytes \<Rightarrow> string"
  hex_decode :: "string \<Rightarrow> bytes option"

definition is_lowercase_sha256 :: "string \<Rightarrow> bool" where
  "is_lowercase_sha256 value \<longleftrightarrow> length value = 64 \<and> list_all is_lower_hex value"

definition hex_codec_ok :: "upload_codec \<Rightarrow> bool" where
  "hex_codec_ok c \<longleftrightarrow>
     (\<forall>b. hex_decode c (hex_encode c b) = Some b
        \<and> length (hex_encode c b) = 2 * length b \<and> list_all is_lower_hex (hex_encode c b))
     \<and> (\<forall>s b. hex_decode c s = Some b \<longrightarrow> length s = 2 * length b)
     \<and> (\<forall>s b. list_all is_lower_hex s \<longrightarrow> hex_decode c s = Some b \<longrightarrow> hex_encode c b = s)
     \<and> (\<forall>s. list_all is_lower_hex s \<and> even (length s) \<longrightarrow> hex_decode c s \<noteq> None)"

section \<open>The declaration\<close>

definition max_content_type_bytes :: nat where
  "max_content_type_bytes = 255"

record declared_upload_file =
  duf_filename :: string
  duf_content_type :: string
  duf_expected_content_length :: u64
  duf_expected_sha256 :: "sha256_digest option"

definition valid_content_type :: "upload_codec \<Rightarrow> string \<Rightarrow> bool" where
  "valid_content_type c content_type \<longleftrightarrow>
     content_type \<noteq> [] \<and> length content_type \<le> max_content_type_bytes
     \<and> trim content_type = content_type \<and> mime_parses c content_type
     \<and> header_value_ok c content_type"

definition declared_maximum :: "u64 \<Rightarrow> u64" where
  "declared_maximum max_bytes = min max_bytes (word_of_int i64_max)"

text \<open>The outer option is \<^verbatim>\<open>None\<close> where the checksum text is malformed.\<close>

definition parse_expected_sha256 :: "upload_codec \<Rightarrow> string option \<Rightarrow> sha256_digest option option" where
  "parse_expected_sha256 c expected =
     (case expected of
        None \<Rightarrow> Some None
      | Some value \<Rightarrow>
          if is_lowercase_sha256 value
          then (case hex_decode c value of
                  Some bs \<Rightarrow> if length bs = 32 then Some (Some (Sha256Digest bs)) else None
                | None \<Rightarrow> None)
          else None)"

definition declared_upload_file_new ::
  "upload_codec \<Rightarrow> string \<Rightarrow> string \<Rightarrow> u64 \<Rightarrow> string option \<Rightarrow> u64
   \<Rightarrow> (declared_upload_file, domain_error) validation" where
  "declared_upload_file_new c filename content_type content_length sha256 max_bytes =
     (let name_result = validate_document_filename filename;
          content_type_ok = valid_content_type c content_type;
          maximum = declared_maximum max_bytes;
          digest = parse_expected_sha256 c sha256;
          errors = binding_errors name_result
            @ (if \<not> content_type_ok then [InvalidDocumentContentType] else [])
            @ (if content_length > maximum then [DocumentContentLengthTooLarge maximum] else [])
            @ (if digest = None then [InvalidDocumentSha256Checksum] else [])
      in case (binding_value name_result, digest) of
           (Some f, Some d) \<Rightarrow>
             if content_type_ok \<and> errors = []
             then Valid \<lparr>duf_filename = f, duf_content_type = content_type,
                         duf_expected_content_length = content_length, duf_expected_sha256 = d\<rparr>
             else Invalid errors
         | _ \<Rightarrow> Invalid errors)"

datatype declared_upload_error =
    InvalidDeclarationRehydration | DeclaredContentTypeMismatch | DeclaredContentLengthMismatch
  | ReceivedContentLengthMismatch | ReceivedChecksumMismatch

definition declared_upload_file_rehydrate ::
  "upload_codec \<Rightarrow> string \<Rightarrow> string \<Rightarrow> u64 \<Rightarrow> sha256_digest option
   \<Rightarrow> declared_upload_error + declared_upload_file" where
  "declared_upload_file_rehydrate c filename content_type content_length sha256 =
     map_err (\<lambda>_. InvalidDeclarationRehydration)
       (into_result (declared_upload_file_new c filename content_type content_length
          (map_option (\<lambda>d. hex_encode c (as_bytes d)) sha256) (word_of_int i64_max)))"

definition validate_declared ::
  "declared_upload_file \<Rightarrow> string \<Rightarrow> u64 \<Rightarrow> declared_upload_error + unit" where
  "validate_declared f content_type content_length =
     (if content_type \<noteq> duf_content_type f then Err DeclaredContentTypeMismatch
      else if content_length \<noteq> duf_expected_content_length f
        then Err DeclaredContentLengthMismatch
      else Ok ())"

text \<open>\<^verbatim>\<open>u64::try_from(i64)\<close> and \<^verbatim>\<open>i64::try_from(u64)\<close>.\<close>

definition u64_try_from_i64 :: "i64 \<Rightarrow> u64 option" where
  "u64_try_from_i64 n = (if n < 0 then None else Some (word_of_int n))"

definition i64_try_from_u64 :: "u64 \<Rightarrow> i64 option" where
  "i64_try_from_u64 n = (if uint n \<le> i64_max then Some (uint n) else None)"

definition validate_staged ::
  "upload_codec \<Rightarrow> declared_upload_file \<Rightarrow> i64 \<Rightarrow> string \<Rightarrow> declared_upload_error + unit" where
  "validate_staged c f content_length checksum_sha256 =
     and_then (ok_or ReceivedContentLengthMismatch (u64_try_from_i64 content_length)) (\<lambda>received.
       if received \<noteq> duf_expected_content_length f then Err ReceivedContentLengthMismatch
       else if is_some_and (\<lambda>d. hex_encode c (as_bytes d) \<noteq> checksum_sha256) (duf_expected_sha256 f)
         then Err ReceivedChecksumMismatch
       else Ok ())"

section \<open>A concrete codec\<close>

definition hex_digit :: "nat \<Rightarrow> char" where
  "hex_digit n = char_of (if n < 10 then 48 + n else 87 + n)"

definition hex_value :: "char \<Rightarrow> nat option" where
  "hex_value ch =
     (let n = byte_of ch in
      if 48 \<le> n \<and> n \<le> 57 then Some (n - 48)
      else if 97 \<le> n \<and> n \<le> 102 then Some (n - 87)
      else if 65 \<le> n \<and> n \<le> 70 then Some (n - 55)
      else None)"

fun hex_text :: "bytes \<Rightarrow> string" where
  "hex_text [] = []"
| "hex_text (b # bs) = hex_digit (unat b div 16) # hex_digit (unat b mod 16) # hex_text bs"

fun hex_bytes :: "string \<Rightarrow> bytes option" where
  "hex_bytes [] = Some []"
| "hex_bytes [x] = None"
| "hex_bytes (x # y # s) =
     (case (hex_value x, hex_value y, hex_bytes s) of
        (Some h, Some l, Some bs) \<Rightarrow> Some (word_of_nat (16 * h + l) # bs)
      | _ \<Rightarrow> None)"

definition hex_codec :: "(string \<Rightarrow> bool) \<Rightarrow> (string \<Rightarrow> bool) \<Rightarrow> upload_codec" where
  "hex_codec mime header =
     \<lparr>mime_parses = mime, header_value_ok = header, hex_encode = hex_text, hex_decode = hex_bytes\<rparr>"

lemma hex_value_digit: "n < 16 \<Longrightarrow> hex_value (hex_digit n) = Some n"
  by (simp add: hex_value_def hex_digit_def Let_def of_char_of)

lemma is_lower_hex_digit: "n < 16 \<Longrightarrow> is_lower_hex (hex_digit n)"
  by (simp add: is_lower_hex_def hex_digit_def is_ascii_digit_def of_char_of)

lemma unat_byte_less: "unat (b :: 8 word) < 256"
proof -
  have "unat b < 2 ^ LENGTH(8)" by (rule unsigned_less)
  then show ?thesis by simp
qed

lemma hex_decode_encode: "hex_bytes (hex_text bs) = Some bs"
proof (induction bs)
  case (Cons b bs)
  have "unat b div 16 < 16" using unat_byte_less [of b] by simp
  with Cons show ?case
    by (simp add: hex_value_digit mult.commute [of 16] del: of_nat_add of_nat_mult)
qed simp

lemma hex_text_shape: "length (hex_text bs) = 2 * length bs \<and> list_all is_lower_hex (hex_text bs)"
proof (induction bs)
  case (Cons b bs)
  have "unat b div 16 < 16" using unat_byte_less [of b] by simp
  with Cons show ?case by (simp add: is_lower_hex_digit)
qed simp

lemma hex_bytes_length: "hex_bytes s = Some bs \<Longrightarrow> length s = 2 * length bs"
  by (induction s arbitrary: bs rule: hex_bytes.induct) (auto split: option.splits)

lemma hex_value_lower:
  assumes "is_lower_hex ch"
  obtains n where "hex_value ch = Some n" and "n < 16" and "hex_digit n = ch"
proof -
  have r: "48 \<le> byte_of ch \<and> byte_of ch \<le> (57 :: nat) \<or> 97 \<le> byte_of ch \<and> byte_of ch \<le> (102 :: nat)"
    using assms by (auto simp: is_lower_hex_def is_ascii_digit_def)
  then show ?thesis
  proof
    assume a: "48 \<le> byte_of ch \<and> byte_of ch \<le> (57 :: nat)"
    then show ?thesis
      by (intro that [of "byte_of ch - 48"]) (auto simp: hex_value_def hex_digit_def Let_def)
  next
    assume a: "97 \<le> byte_of ch \<and> byte_of ch \<le> (102 :: nat)"
    then show ?thesis
      by (intro that [of "byte_of ch - 87"]) (auto simp: hex_value_def hex_digit_def Let_def)
  qed
qed

lemma hex_encode_decode:
  "list_all is_lower_hex s \<Longrightarrow> hex_bytes s = Some bs \<Longrightarrow> hex_text bs = s"
proof (induction s arbitrary: bs rule: hex_bytes.induct)
  case (3 x y s)
  obtain h where h: "hex_value x = Some h" "h < 16" "hex_digit h = x"
    using 3(2) by (auto elim: hex_value_lower)
  obtain l where l: "hex_value y = Some l" "l < 16" "hex_digit l = y"
    using 3(2) by (auto elim: hex_value_lower)
  from 3(3) h l obtain cs where cs: "hex_bytes s = Some cs" "bs = word_of_nat (16 * h + l) # cs"
    by (auto split: option.splits)
  have "unat (word_of_nat (16 * h + l) :: 8 word) = 16 * h + l"
    using h(2) l(2) by (simp add: unat_of_nat take_bit_eq_mod del: of_nat_add of_nat_mult)
  moreover have "hex_text cs = s" using 3 cs(1) h l by auto
  ultimately show ?case using h l cs by simp
qed auto

lemma hex_bytes_total: "list_all is_lower_hex s \<Longrightarrow> even (length s) \<Longrightarrow> hex_bytes s \<noteq> None"
proof (induction s rule: hex_bytes.induct)
  case (3 x y s)
  then show ?case by (auto elim!: hex_value_lower)
qed auto

lemma hex_codec_ok: "hex_codec_ok (hex_codec mime header)"
  using hex_decode_encode hex_text_shape hex_bytes_length hex_encode_decode hex_bytes_total
  by (simp add: hex_codec_ok_def hex_codec_def)

section \<open>What a declaration accepts\<close>

lemma binding_value_None_iff: "binding_value v = None \<longleftrightarrow> \<not> is_valid v"
  by (cases v) auto

lemma binding_errors_filename:
  "binding_errors (validate_document_filename f) = [] \<longleftrightarrow> validate_document_filename f = Valid f"
  by (auto simp: validate_document_filename_def Let_def)

lemma declared_upload_file_new_Valid_iff:
  "declared_upload_file_new c f ct n sha mx = Valid d \<longleftrightarrow>
     validate_document_filename f = Valid f \<and> valid_content_type c ct \<and> n \<le> declared_maximum mx
     \<and> (\<exists>digest. parse_expected_sha256 c sha = Some digest
        \<and> d = \<lparr>duf_filename = f, duf_content_type = ct, duf_expected_content_length = n,
               duf_expected_sha256 = digest\<rparr>)"
proof (cases "validate_document_filename f")
  case (Valid g)
  then have "g = f" by (simp add: validate_document_filename_Valid_iff)
  with Valid show ?thesis
    by (cases "parse_expected_sha256 c sha")
      (auto simp: declared_upload_file_new_def Let_def not_less split: if_splits)
next
  case (Invalid es)
  then show ?thesis by (auto simp: declared_upload_file_new_def Let_def)
qed

lemma parse_expected_sha256_encoded:
  assumes "hex_codec_ok c" and "length (as_bytes d) = 32"
  shows "parse_expected_sha256 c (Some (hex_encode c (as_bytes d))) = Some (Some d)"
proof -
  have "hex_decode c (hex_encode c b) = Some b \<and> length (hex_encode c b) = 2 * length b
      \<and> list_all is_lower_hex (hex_encode c b)" for b
    using assms(1) unfolding hex_codec_ok_def by blast
  with assms(2) show ?thesis
    by (cases d) (simp add: parse_expected_sha256_def is_lowercase_sha256_def)
qed

lemma parse_expected_sha256_Some:
  assumes "hex_codec_ok c" and "parse_expected_sha256 c (Some s) = Some (Some d)"
  shows "hex_encode c (as_bytes d) = s \<and> length (as_bytes d) = 32"
proof -
  from assms(2) obtain bs where
    bs: "hex_decode c s = Some bs" "list_all is_lower_hex s" "d = Sha256Digest bs" "length bs = 32"
    by (auto simp: parse_expected_sha256_def is_lowercase_sha256_def split: if_splits option.splits)
  with assms(1) have "hex_encode c bs = s" by (simp add: hex_codec_ok_def)
  with bs show ?thesis by simp
qed

definition wf_declaration :: "upload_codec \<Rightarrow> declared_upload_file \<Rightarrow> bool" where
  "wf_declaration c f \<longleftrightarrow>
     validate_document_filename (duf_filename f) = Valid (duf_filename f)
     \<and> valid_content_type c (duf_content_type f)
     \<and> uint (duf_expected_content_length f) \<le> i64_max
     \<and> is_none_or (\<lambda>d. length (as_bytes d) = 32) (duf_expected_sha256 f)"

lemma uint_i64_max [simp]: "uint (word_of_int i64_max :: u64) = i64_max"
  by (simp add: i64_max_def uint_word_of_int)

lemma word_le_i64_max: "(n :: u64) \<le> word_of_int i64_max \<longleftrightarrow> uint n \<le> i64_max"
  using word_le_def [of n "word_of_int i64_max"] by simp

lemma declared_maximum_le: "n \<le> declared_maximum mx \<longleftrightarrow> n \<le> mx \<and> uint n \<le> i64_max"
  by (simp add: declared_maximum_def word_le_i64_max)

lemma declared_upload_file_new_wf:
  "declared_upload_file_new c f ct n sha mx = Valid d \<Longrightarrow> wf_declaration c d"
  by (auto simp: declared_upload_file_new_Valid_iff wf_declaration_def declared_maximum_le
      parse_expected_sha256_def split: option.splits if_splits)

lemma declaration_reload:
  assumes "hex_codec_ok c" and "wf_declaration c f"
  shows "declared_upload_file_rehydrate c (duf_filename f) (duf_content_type f)
           (duf_expected_content_length f) (duf_expected_sha256 f) = Inr f"
proof -
  have "parse_expected_sha256 c (map_option (\<lambda>d. hex_encode c (as_bytes d)) (duf_expected_sha256 f))
      = Some (duf_expected_sha256 f)"
    using assms parse_expected_sha256_encoded [OF assms(1)]
    by (cases "duf_expected_sha256 f") (auto simp: wf_declaration_def parse_expected_sha256_def)
  then have "declared_upload_file_new c (duf_filename f) (duf_content_type f)
      (duf_expected_content_length f) (map_option (\<lambda>d. hex_encode c (as_bytes d)) (duf_expected_sha256 f))
      (word_of_int i64_max) = Valid f"
    using assms(2)
    by (auto simp: declared_upload_file_new_Valid_iff wf_declaration_def declared_maximum_le word_le_i64_max)
  then show ?thesis by (simp add: declared_upload_file_rehydrate_def)
qed

lemma declaration_rehydrate_wf:
  "declared_upload_file_rehydrate c f ct n sha = Inr d \<Longrightarrow> wf_declaration c d"
  by (cases "declared_upload_file_new c f ct n (map_option (\<lambda>d. hex_encode c (as_bytes d)) sha)
      (word_of_int i64_max)")
    (auto simp: declared_upload_file_rehydrate_def dest: declared_upload_file_new_wf)

lemma uint_u64_of_i64: "0 \<le> n \<Longrightarrow> n \<le> i64_max \<Longrightarrow> uint (word_of_int n :: u64) = n"
  by (simp add: i64_max_def uint_word_of_int)

lemma i64_u64_round_trip: "i64_try_from_u64 n = Some m \<Longrightarrow> u64_try_from_i64 m = Some n"
  by (auto simp: i64_try_from_u64_def u64_try_from_i64_def split: if_splits)

text \<open>What is staged has the declared length, and the declared checksum where one was declared.\<close>

lemma validate_staged_Ok_iff:
  assumes "in_i64 n"
  shows "validate_staged c f n sha = Inr u \<longleftrightarrow>
     0 \<le> n \<and> n = uint (duf_expected_content_length f)
     \<and> is_none_or (\<lambda>d. hex_encode c (as_bytes d) = sha) (duf_expected_sha256 f)"
proof (cases "n < 0")
  case False
  with assms have "uint (word_of_int n :: u64) = n" by (simp add: in_i64_def uint_u64_of_i64)
  then have "word_of_int n = duf_expected_content_length f \<longleftrightarrow> n = uint (duf_expected_content_length f)"
    by (metis word_of_int_uint)
  with False show ?thesis
    by (cases "duf_expected_sha256 f") (auto simp: validate_staged_def u64_try_from_i64_def)
qed (simp add: validate_staged_def u64_try_from_i64_def)

section \<open>Properties\<close>

text \<open>
  C36: A staged upload is accepted for a declaration exactly when its length, which arrives as a
  signed column, is the declared one and its checksum is the declared one where one was declared;
  and an accepted declaration survives being stored and loaded again.
\<close>

theorem staged_upload_exact:
  assumes "hex_codec_ok c" and "declared_upload_file_new c filename content_type n sha maximum = Valid f"
    and "in_i64 len"
  shows "(validate_staged c f len checksum = Inr () \<longleftrightarrow>
           len = uint n \<and> (case sha of None \<Rightarrow> True | Some s \<Rightarrow> checksum = s))
     \<and> declared_upload_file_rehydrate c (duf_filename f) (duf_content_type f)
           (duf_expected_content_length f) (duf_expected_sha256 f) = Inr f"
proof -
  from assms(2) obtain digest where d: "parse_expected_sha256 c sha = Some digest"
    "duf_expected_content_length f = n" "duf_expected_sha256 f = digest"
    by (auto simp: declared_upload_file_new_Valid_iff)
  have "is_none_or (\<lambda>x. hex_encode c (as_bytes x) = checksum) digest
      \<longleftrightarrow> (case sha of None \<Rightarrow> True | Some s \<Rightarrow> checksum = s)"
    using d(1) parse_expected_sha256_Some [OF assms(1)]
    by (cases sha; cases digest) (auto simp: parse_expected_sha256_def split: if_splits option.splits)
  then have "validate_staged c f len checksum = Inr () \<longleftrightarrow>
      len = uint n \<and> (case sha of None \<Rightarrow> True | Some s \<Rightarrow> checksum = s)"
    using validate_staged_Ok_iff [OF assms(3), of c f checksum] d by auto
  moreover have "declared_upload_file_rehydrate c (duf_filename f) (duf_content_type f)
      (duf_expected_content_length f) (duf_expected_sha256 f) = Inr f"
    using declaration_reload [OF assms(1) declared_upload_file_new_wf [OF assms(2)]] .
  ultimately show ?thesis by blast
qed

theorem staged_upload_exact_witness:
  "\<exists>f. declared_upload_file_new (hex_codec (\<lambda>_. True) (\<lambda>_. True)) ''a.pdf'' ''application/pdf'' 12
        (Some (hex_text (replicate 32 7))) 1000 = Valid f
     \<and> validate_staged (hex_codec (\<lambda>_. True) (\<lambda>_. True)) f 12 (hex_text (replicate 32 7)) = Inr ()"
proof -
  let ?c = "hex_codec (\<lambda>_. True) (\<lambda>_. True)"
  have "is_valid (declared_upload_file_new ?c ''a.pdf'' ''application/pdf'' 12 (Some (hex_text (replicate 32 7))) 1000)"
    by code_simp
  then obtain f where f: "declared_upload_file_new ?c ''a.pdf'' ''application/pdf'' 12
      (Some (hex_text (replicate 32 7))) 1000 = Valid f"
    by (rule is_valid.elims(2))
  have "in_i64 12" by (simp add: in_i64_def i64_max_def)
  from staged_upload_exact [OF hex_codec_ok f this] f show ?thesis by auto
qed

end
