(* ===== verification/Upload_Grants.thy ===== *)
theory Upload_Grants
  imports Upload_Declarations Catalog
begin

text \<open>
  The four upload grants: for machine uploads of evidence and of policy documents
  (\<^verbatim>\<open>src/domain/agent_evidence_upload_grant.rs\<close>, \<^verbatim>\<open>agent_policy_document_upload_grant.rs\<close>) and for
  uploads by a person (\<^verbatim>\<open>evidence_document_upload_grant.rs\<close>, \<^verbatim>\<open>policy_document_upload_grant.rs\<close>), with
  the records of \<^verbatim>\<open>src/persistence/aggregates/\<close>. A grant acts only for the authority it was issued to,
  before it expires, and once: all four interpret \<open>single_use\<close>.
\<close>

section \<open>Machine uploads of evidence\<close>

record agent_evidence_authority =
  aea_upload_id :: agent_evidence_upload_grant_id
  aea_workspace_id :: workspace_id
  aea_evidence_id :: evidence_id
  aea_submission_id :: evidence_submission_id
  aea_issued_by_user_id :: user_id
  aea_issued_via_agent_connection_id :: agent_connection_id
  aea_expires_at :: datetime

datatype upload_lifecycle = UploadPending | UploadCompleted document_id datetime

fun lifecycle_completed_at :: "upload_lifecycle \<Rightarrow> datetime option" where
  "lifecycle_completed_at UploadPending = None"
| "lifecycle_completed_at (UploadCompleted d t) = Some t"

fun lifecycle_document_id :: "upload_lifecycle \<Rightarrow> document_id option" where
  "lifecycle_document_id UploadPending = None"
| "lifecycle_document_id (UploadCompleted d t) = Some d"

record agent_evidence_grant =
  aeg_id :: agent_evidence_upload_grant_id
  aeg_submission_id :: evidence_submission_id
  aeg_workspace_id :: workspace_id
  aeg_evidence_id :: evidence_id
  aeg_coverage :: coverage_window
  aeg_declaration :: declared_upload_file
  aeg_issued_by_user_id :: user_id
  aeg_issued_via_agent_connection_id :: agent_connection_id
  aeg_issued_at :: datetime
  aeg_expires_at :: datetime
  aeg_lifecycle :: upload_lifecycle

datatype machine_grant_error =
    InvalidMachineIssuance | InvalidMachineRehydration | MachineAuthorityMismatch | MachineExpired
  | MachineAlreadyCompleted | InvalidMachineCompletion | MachineContentTypeMismatch
  | MachineDeclaredLengthMismatch | MachineReceivedLengthMismatch | MachineChecksumMismatch

fun machine_error_from_declared :: "declared_upload_error \<Rightarrow> machine_grant_error" where
  "machine_error_from_declared InvalidDeclarationRehydration = InvalidMachineRehydration"
| "machine_error_from_declared DeclaredContentTypeMismatch = MachineContentTypeMismatch"
| "machine_error_from_declared DeclaredContentLengthMismatch = MachineDeclaredLengthMismatch"
| "machine_error_from_declared ReceivedContentLengthMismatch = MachineReceivedLengthMismatch"
| "machine_error_from_declared ReceivedChecksumMismatch = MachineChecksumMismatch"

definition agent_evidence_grant_issue ::
  "agent_evidence_upload_grant_id \<Rightarrow> evidence_submission_id \<Rightarrow> workspace_id \<Rightarrow> evidence_id
   \<Rightarrow> coverage_window \<Rightarrow> declared_upload_file \<Rightarrow> user_id \<Rightarrow> agent_connection_id \<Rightarrow> datetime
   \<Rightarrow> datetime \<Rightarrow> machine_grant_error + agent_evidence_grant" where
  "agent_evidence_grant_issue i submission workspace evidence coverage declaration user connection
     issued_at expires_at =
     (if expires_at \<le> issued_at then Err InvalidMachineIssuance
      else Ok \<lparr>aeg_id = i, aeg_submission_id = submission, aeg_workspace_id = workspace,
               aeg_evidence_id = evidence, aeg_coverage = coverage,
               aeg_declaration = declaration, aeg_issued_by_user_id = user,
               aeg_issued_via_agent_connection_id = connection, aeg_issued_at = issued_at,
               aeg_expires_at = expires_at, aeg_lifecycle = UploadPending\<rparr>)"

text \<open>The lifecycle read back from the two nullable columns.\<close>

definition lifecycle_rehydrate ::
  "datetime \<Rightarrow> datetime \<Rightarrow> datetime option \<Rightarrow> document_id option
   \<Rightarrow> machine_grant_error + upload_lifecycle" where
  "lifecycle_rehydrate issued_at expires_at completed_at document =
     (case (completed_at, document) of
        (None, None) \<Rightarrow> Ok UploadPending
      | (Some t, Some d) \<Rightarrow>
          if t \<ge> issued_at \<and> t < expires_at then Ok (UploadCompleted d t)
          else Err InvalidMachineRehydration
      | _ \<Rightarrow> Err InvalidMachineRehydration)"

definition agent_evidence_grant_rehydrate ::
  "agent_evidence_upload_grant_id \<Rightarrow> evidence_submission_id \<Rightarrow> workspace_id \<Rightarrow> evidence_id
   \<Rightarrow> coverage_window \<Rightarrow> declared_upload_file \<Rightarrow> user_id \<Rightarrow> agent_connection_id \<Rightarrow> datetime
   \<Rightarrow> datetime \<Rightarrow> datetime option \<Rightarrow> document_id option
   \<Rightarrow> machine_grant_error + agent_evidence_grant" where
  "agent_evidence_grant_rehydrate i submission workspace evidence coverage declaration user
     connection issued_at expires_at completed_at document =
     and_then
       (map_err (\<lambda>_. InvalidMachineRehydration)
         (agent_evidence_grant_issue i submission workspace evidence coverage declaration user
           connection issued_at expires_at))
       (\<lambda>grant. and_then (lifecycle_rehydrate issued_at expires_at completed_at document)
         (\<lambda>lc. Ok (grant\<lparr>aeg_lifecycle := lc\<rparr>)))"

definition evidence_matches_authority ::
  "agent_evidence_authority \<Rightarrow> agent_evidence_grant \<Rightarrow> machine_grant_error + unit" where
  "evidence_matches_authority a g =
     (if aeg_id g = aea_upload_id a \<and> aeg_workspace_id g = aea_workspace_id a
       \<and> aeg_evidence_id g = aea_evidence_id a \<and> aeg_submission_id g = aea_submission_id a
       \<and> aeg_issued_by_user_id g = aea_issued_by_user_id a
       \<and> aeg_issued_via_agent_connection_id g = aea_issued_via_agent_connection_id a
       \<and> aeg_expires_at g = aea_expires_at a
      then Ok () else Err MachineAuthorityMismatch)"

definition evidence_completed_document_at ::
  "datetime \<Rightarrow> agent_evidence_grant \<Rightarrow> machine_grant_error + document_id option" where
  "evidence_completed_document_at now g =
     (if now \<ge> aeg_expires_at g then Err MachineExpired
      else Ok (lifecycle_document_id (aeg_lifecycle g)))"

definition evidence_ensure_pending_at ::
  "datetime \<Rightarrow> agent_evidence_grant \<Rightarrow> machine_grant_error + unit" where
  "evidence_ensure_pending_at now g =
     and_then (evidence_completed_document_at now g) (\<lambda>d.
       if d \<noteq> None then Err MachineAlreadyCompleted else Ok ())"

definition evidence_validate_declared_file ::
  "string \<Rightarrow> u64 \<Rightarrow> agent_evidence_grant \<Rightarrow> machine_grant_error + unit" where
  "evidence_validate_declared_file content_type n g =
     map_err machine_error_from_declared (validate_declared (aeg_declaration g) content_type n)"

definition evidence_validate_staged_file ::
  "upload_codec \<Rightarrow> i64 \<Rightarrow> string \<Rightarrow> agent_evidence_grant \<Rightarrow> machine_grant_error + unit" where
  "evidence_validate_staged_file c n checksum g =
     map_err machine_error_from_declared (validate_staged c (aeg_declaration g) n checksum)"

definition agent_evidence_grant_complete ::
  "document_id \<Rightarrow> datetime \<Rightarrow> agent_evidence_grant \<Rightarrow> machine_grant_error + agent_evidence_grant"
where
  "agent_evidence_grant_complete d completed_at g =
     and_then (evidence_ensure_pending_at completed_at g) (\<lambda>_.
       if completed_at < aeg_issued_at g then Err InvalidMachineCompletion
       else Ok (g\<lparr>aeg_lifecycle := UploadCompleted d completed_at\<rparr>))"

record agent_evidence_grant_record =
  aegrec_id :: uuid
  aegrec_submission_id :: uuid
  aegrec_workspace_id :: uuid
  aegrec_evidence_id :: uuid
  aegrec_valid_from :: datetime
  aegrec_valid_until :: datetime
  aegrec_filename :: string
  aegrec_content_type :: string
  aegrec_expected_content_length :: i64
  aegrec_expected_sha256 :: "bytes option"
  aegrec_issued_by_user_id :: uuid
  aegrec_issued_via_agent_connection_id :: uuid
  aegrec_issued_at :: datetime
  aegrec_expires_at :: datetime
  aegrec_completed_at :: "datetime option"
  aegrec_document_id :: "uuid option"

definition agent_evidence_grant_from_domain ::
  "agent_evidence_grant \<Rightarrow> repository_error + agent_evidence_grant_record" where
  "agent_evidence_grant_from_domain g =
     and_then (ok_or (InvariantViolation ''machine upload length exceeds Postgres BIGINT'')
       (i64_try_from_u64 (duf_expected_content_length (aeg_declaration g)))) (\<lambda>n.
       Ok \<lparr>aegrec_id = agent_evidence_upload_grant_uuid (aeg_id g),
           aegrec_submission_id = submission_uuid (aeg_submission_id g),
           aegrec_workspace_id = workspace_uuid (aeg_workspace_id g),
           aegrec_evidence_id = evidence_uuid (aeg_evidence_id g),
           aegrec_valid_from = cov_valid_from (aeg_coverage g),
           aegrec_valid_until = cov_valid_until (aeg_coverage g),
           aegrec_filename = duf_filename (aeg_declaration g),
           aegrec_content_type = duf_content_type (aeg_declaration g),
           aegrec_expected_content_length = n,
           aegrec_expected_sha256 = map_option as_bytes (duf_expected_sha256 (aeg_declaration g)),
           aegrec_issued_by_user_id = user_uuid (aeg_issued_by_user_id g),
           aegrec_issued_via_agent_connection_id =
             agent_connection_uuid (aeg_issued_via_agent_connection_id g),
           aegrec_issued_at = aeg_issued_at g, aegrec_expires_at = aeg_expires_at g,
           aegrec_completed_at = lifecycle_completed_at (aeg_lifecycle g),
           aegrec_document_id =
             map_option document_id_uuid (lifecycle_document_id (aeg_lifecycle g))\<rparr>)"

definition agent_evidence_grant_into_domain ::
  "upload_codec \<Rightarrow> agent_evidence_grant_record \<Rightarrow> repository_error + agent_evidence_grant" where
  "agent_evidence_grant_into_domain c r =
     and_then (ok_or (InvariantViolation ''persisted machine upload length is negative'')
       (u64_try_from_i64 (aegrec_expected_content_length r))) (\<lambda>n.
     and_then (map_transpose
       (digest_from_bytes ''persisted machine upload SHA-256 is invalid'')
       (aegrec_expected_sha256 r)) (\<lambda>sha.
     and_then (map_err
       (\<lambda>_. InvariantViolation ''persisted machine upload declaration is invalid'')
       (declared_upload_file_rehydrate c (aegrec_filename r) (aegrec_content_type r) n sha))
       (\<lambda>declaration.
     and_then (map_err InvalidData
       (coverage_window_new (aegrec_valid_from r) (aegrec_valid_until r))) (\<lambda>coverage.
     map_err (\<lambda>_. InvariantViolation ''persisted machine upload grant is inconsistent'')
       (agent_evidence_grant_rehydrate (AgentEvidenceUploadGrantId (aegrec_id r))
         (EvidenceSubmissionId (aegrec_submission_id r)) (WorkspaceId (aegrec_workspace_id r))
         (EvidenceId (aegrec_evidence_id r)) coverage declaration
         (UserId (aegrec_issued_by_user_id r))
         (AgentConnectionId (aegrec_issued_via_agent_connection_id r)) (aegrec_issued_at r)
         (aegrec_expires_at r) (aegrec_completed_at r)
         (map_option DocumentId (aegrec_document_id r)))))))"

section \<open>Machine uploads of policy documents\<close>

record agent_policy_authority =
  apa_upload_id :: agent_policy_document_upload_grant_id
  apa_workspace_id :: workspace_id
  apa_policy_id :: policy_id
  apa_issued_by_user_id :: user_id
  apa_issued_via_agent_connection_id :: agent_connection_id
  apa_expires_at :: datetime

record agent_policy_grant =
  apg_id :: agent_policy_document_upload_grant_id
  apg_workspace_id :: workspace_id
  apg_policy_id :: policy_id
  apg_declaration :: declared_upload_file
  apg_issued_by_user_id :: user_id
  apg_issued_via_agent_connection_id :: agent_connection_id
  apg_issued_at :: datetime
  apg_expires_at :: datetime
  apg_lifecycle :: upload_lifecycle

definition agent_policy_grant_issue ::
  "agent_policy_document_upload_grant_id \<Rightarrow> workspace_id \<Rightarrow> policy_id \<Rightarrow> declared_upload_file
   \<Rightarrow> user_id \<Rightarrow> agent_connection_id \<Rightarrow> datetime \<Rightarrow> datetime
   \<Rightarrow> machine_grant_error + agent_policy_grant" where
  "agent_policy_grant_issue i workspace policy declaration user connection issued_at expires_at =
     (if expires_at \<le> issued_at then Err InvalidMachineIssuance
      else Ok \<lparr>apg_id = i, apg_workspace_id = workspace, apg_policy_id = policy,
               apg_declaration = declaration, apg_issued_by_user_id = user,
               apg_issued_via_agent_connection_id = connection, apg_issued_at = issued_at,
               apg_expires_at = expires_at, apg_lifecycle = UploadPending\<rparr>)"

definition agent_policy_grant_rehydrate ::
  "agent_policy_document_upload_grant_id \<Rightarrow> workspace_id \<Rightarrow> policy_id \<Rightarrow> declared_upload_file
   \<Rightarrow> user_id \<Rightarrow> agent_connection_id \<Rightarrow> datetime \<Rightarrow> datetime \<Rightarrow> datetime option
   \<Rightarrow> document_id option \<Rightarrow> machine_grant_error + agent_policy_grant" where
  "agent_policy_grant_rehydrate i workspace policy declaration user connection issued_at expires_at
     completed_at document =
     and_then
       (map_err (\<lambda>_. InvalidMachineRehydration)
         (agent_policy_grant_issue i workspace policy declaration user connection issued_at expires_at))
       (\<lambda>grant. and_then (lifecycle_rehydrate issued_at expires_at completed_at document)
         (\<lambda>lc. Ok (grant\<lparr>apg_lifecycle := lc\<rparr>)))"

definition policy_matches_authority ::
  "agent_policy_authority \<Rightarrow> agent_policy_grant \<Rightarrow> machine_grant_error + unit" where
  "policy_matches_authority a g =
     (if apg_id g = apa_upload_id a \<and> apg_workspace_id g = apa_workspace_id a
       \<and> apg_policy_id g = apa_policy_id a \<and> apg_issued_by_user_id g = apa_issued_by_user_id a
       \<and> apg_issued_via_agent_connection_id g = apa_issued_via_agent_connection_id a
       \<and> apg_expires_at g = apa_expires_at a
      then Ok () else Err MachineAuthorityMismatch)"

definition policy_completed_document_at ::
  "datetime \<Rightarrow> agent_policy_grant \<Rightarrow> machine_grant_error + document_id option" where
  "policy_completed_document_at now g =
     (if now \<ge> apg_expires_at g then Err MachineExpired
      else Ok (lifecycle_document_id (apg_lifecycle g)))"

definition policy_ensure_pending_at ::
  "datetime \<Rightarrow> agent_policy_grant \<Rightarrow> machine_grant_error + unit" where
  "policy_ensure_pending_at now g =
     and_then (policy_completed_document_at now g) (\<lambda>d.
       if d \<noteq> None then Err MachineAlreadyCompleted else Ok ())"

definition policy_validate_declared_file ::
  "string \<Rightarrow> u64 \<Rightarrow> agent_policy_grant \<Rightarrow> machine_grant_error + unit" where
  "policy_validate_declared_file content_type n g =
     map_err machine_error_from_declared (validate_declared (apg_declaration g) content_type n)"

definition policy_validate_staged_file ::
  "upload_codec \<Rightarrow> i64 \<Rightarrow> string \<Rightarrow> agent_policy_grant \<Rightarrow> machine_grant_error + unit" where
  "policy_validate_staged_file c n checksum g =
     map_err machine_error_from_declared (validate_staged c (apg_declaration g) n checksum)"

definition agent_policy_grant_complete ::
  "document_id \<Rightarrow> datetime \<Rightarrow> agent_policy_grant \<Rightarrow> machine_grant_error + agent_policy_grant" where
  "agent_policy_grant_complete d completed_at g =
     and_then (policy_ensure_pending_at completed_at g) (\<lambda>_.
       if completed_at < apg_issued_at g then Err InvalidMachineCompletion
       else Ok (g\<lparr>apg_lifecycle := UploadCompleted d completed_at\<rparr>))"

record agent_policy_grant_record =
  apgrec_id :: uuid
  apgrec_workspace_id :: uuid
  apgrec_policy_id :: uuid
  apgrec_filename :: string
  apgrec_content_type :: string
  apgrec_expected_content_length :: i64
  apgrec_expected_sha256 :: "bytes option"
  apgrec_issued_by_user_id :: uuid
  apgrec_issued_via_agent_connection_id :: uuid
  apgrec_issued_at :: datetime
  apgrec_expires_at :: datetime
  apgrec_completed_at :: "datetime option"
  apgrec_document_id :: "uuid option"

definition agent_policy_grant_from_domain ::
  "agent_policy_grant \<Rightarrow> repository_error + agent_policy_grant_record" where
  "agent_policy_grant_from_domain g =
     and_then (ok_or (InvariantViolation ''policy machine upload length exceeds Postgres BIGINT'')
       (i64_try_from_u64 (duf_expected_content_length (apg_declaration g)))) (\<lambda>n.
       Ok \<lparr>apgrec_id = agent_policy_document_upload_grant_uuid (apg_id g),
           apgrec_workspace_id = workspace_uuid (apg_workspace_id g),
           apgrec_policy_id = policy_uuid (apg_policy_id g),
           apgrec_filename = duf_filename (apg_declaration g),
           apgrec_content_type = duf_content_type (apg_declaration g),
           apgrec_expected_content_length = n,
           apgrec_expected_sha256 = map_option as_bytes (duf_expected_sha256 (apg_declaration g)),
           apgrec_issued_by_user_id = user_uuid (apg_issued_by_user_id g),
           apgrec_issued_via_agent_connection_id =
             agent_connection_uuid (apg_issued_via_agent_connection_id g),
           apgrec_issued_at = apg_issued_at g, apgrec_expires_at = apg_expires_at g,
           apgrec_completed_at = lifecycle_completed_at (apg_lifecycle g),
           apgrec_document_id =
             map_option document_id_uuid (lifecycle_document_id (apg_lifecycle g))\<rparr>)"

definition agent_policy_grant_into_domain ::
  "upload_codec \<Rightarrow> agent_policy_grant_record \<Rightarrow> repository_error + agent_policy_grant" where
  "agent_policy_grant_into_domain c r =
     and_then (ok_or (InvariantViolation ''persisted policy machine upload length is negative'')
       (u64_try_from_i64 (apgrec_expected_content_length r))) (\<lambda>n.
     and_then (map_transpose
       (digest_from_bytes ''persisted policy machine upload SHA-256 is invalid'')
       (apgrec_expected_sha256 r)) (\<lambda>sha.
     and_then (map_err
       (\<lambda>_. InvariantViolation ''persisted policy machine upload declaration is invalid'')
       (declared_upload_file_rehydrate c (apgrec_filename r) (apgrec_content_type r) n sha))
       (\<lambda>declaration.
     map_err (\<lambda>_. InvariantViolation ''persisted policy machine upload grant is inconsistent'')
       (agent_policy_grant_rehydrate (AgentPolicyDocumentUploadGrantId (apgrec_id r))
         (WorkspaceId (apgrec_workspace_id r)) (PolicyId (apgrec_policy_id r)) declaration
         (UserId (apgrec_issued_by_user_id r))
         (AgentConnectionId (apgrec_issued_via_agent_connection_id r)) (apgrec_issued_at r)
         (apgrec_expires_at r) (apgrec_completed_at r)
         (map_option DocumentId (apgrec_document_id r))))))"

section \<open>Uploads by a person\<close>

datatype human_grant_error =
    InvalidHumanIssuance | InvalidHumanRehydration | HumanAuthorityMismatch | HumanExpired
  | AlreadyRedeemed

record evidence_upload_authority =
  eua_id :: document_upload_grant_id
  eua_workspace_id :: workspace_id
  eua_evidence_id :: evidence_id
  eua_coverage :: coverage_window
  eua_issued_by_user_id :: user_id
  eua_issued_via_agent_connection_id :: agent_connection_id
  eua_expires_at :: datetime

record evidence_upload_grant =
  eug_id :: document_upload_grant_id
  eug_workspace_id :: workspace_id
  eug_evidence_id :: evidence_id
  eug_coverage :: coverage_window
  eug_issued_by_user_id :: user_id
  eug_issued_via_agent_connection_id :: agent_connection_id
  eug_issued_at :: datetime
  eug_expires_at :: datetime
  eug_redeemed_at :: "datetime option"

definition evidence_upload_grant_issue ::
  "document_upload_grant_id \<Rightarrow> workspace_id \<Rightarrow> evidence_id \<Rightarrow> coverage_window \<Rightarrow> user_id
   \<Rightarrow> agent_connection_id \<Rightarrow> datetime \<Rightarrow> datetime \<Rightarrow> human_grant_error + evidence_upload_grant" where
  "evidence_upload_grant_issue i workspace evidence coverage user connection issued_at expires_at =
     (if expires_at \<le> issued_at then Err InvalidHumanIssuance
      else Ok \<lparr>eug_id = i, eug_workspace_id = workspace, eug_evidence_id = evidence,
               eug_coverage = coverage, eug_issued_by_user_id = user,
               eug_issued_via_agent_connection_id = connection, eug_issued_at = issued_at,
               eug_expires_at = expires_at, eug_redeemed_at = None\<rparr>)"

text \<open>\<^verbatim>\<open>rehydrate\<close>, whose arguments are the fields of its result.\<close>

definition evidence_upload_grant_rehydrate ::
  "evidence_upload_grant \<Rightarrow> human_grant_error + evidence_upload_grant" where
  "evidence_upload_grant_rehydrate g =
     and_then
       (map_err (\<lambda>_. InvalidHumanRehydration)
         (evidence_upload_grant_issue (eug_id g) (eug_workspace_id g) (eug_evidence_id g)
           (eug_coverage g) (eug_issued_by_user_id g) (eug_issued_via_agent_connection_id g)
           (eug_issued_at g) (eug_expires_at g)))
       (\<lambda>grant. if is_some_and (\<lambda>t. t < eug_issued_at grant \<or> t \<ge> eug_expires_at grant)
                     (eug_redeemed_at g)
                then Err InvalidHumanRehydration
                else Ok (grant\<lparr>eug_redeemed_at := eug_redeemed_at g\<rparr>))"

definition evidence_upload_matches ::
  "evidence_upload_authority \<Rightarrow> evidence_upload_grant \<Rightarrow> human_grant_error + unit" where
  "evidence_upload_matches a g =
     (if eug_id g = eua_id a \<and> eug_workspace_id g = eua_workspace_id a
       \<and> eug_evidence_id g = eua_evidence_id a \<and> eug_coverage g = eua_coverage a
       \<and> eug_issued_by_user_id g = eua_issued_by_user_id a
       \<and> eug_issued_via_agent_connection_id g = eua_issued_via_agent_connection_id a
       \<and> eug_expires_at g = eua_expires_at a
      then Ok () else Err HumanAuthorityMismatch)"

definition evidence_upload_redeem ::
  "evidence_upload_authority \<Rightarrow> datetime \<Rightarrow> evidence_upload_grant
   \<Rightarrow> human_grant_error + evidence_upload_grant" where
  "evidence_upload_redeem a redeemed_at g =
     and_then (evidence_upload_matches a g) (\<lambda>_.
       if eug_redeemed_at g \<noteq> None then Err AlreadyRedeemed
       else if redeemed_at < eug_issued_at g \<or> redeemed_at \<ge> eug_expires_at g then Err HumanExpired
       else Ok (g\<lparr>eug_redeemed_at := Some redeemed_at\<rparr>))"

record evidence_upload_grant_record =
  eugrec_id :: uuid
  eugrec_workspace_id :: uuid
  eugrec_evidence_id :: uuid
  eugrec_valid_from :: datetime
  eugrec_valid_until :: datetime
  eugrec_issued_by_user_id :: uuid
  eugrec_issued_via_agent_connection_id :: uuid
  eugrec_issued_at :: datetime
  eugrec_expires_at :: datetime
  eugrec_redeemed_at :: "datetime option"

definition evidence_upload_grant_from_domain ::
  "evidence_upload_grant \<Rightarrow> evidence_upload_grant_record" where
  "evidence_upload_grant_from_domain g =
     \<lparr>eugrec_id = document_upload_grant_uuid (eug_id g),
      eugrec_workspace_id = workspace_uuid (eug_workspace_id g),
      eugrec_evidence_id = evidence_uuid (eug_evidence_id g),
      eugrec_valid_from = cov_valid_from (eug_coverage g),
      eugrec_valid_until = cov_valid_until (eug_coverage g),
      eugrec_issued_by_user_id = user_uuid (eug_issued_by_user_id g),
      eugrec_issued_via_agent_connection_id =
        agent_connection_uuid (eug_issued_via_agent_connection_id g),
      eugrec_issued_at = eug_issued_at g, eugrec_expires_at = eug_expires_at g,
      eugrec_redeemed_at = eug_redeemed_at g\<rparr>"

definition evidence_upload_grant_into_domain ::
  "evidence_upload_grant_record \<Rightarrow> repository_error + evidence_upload_grant" where
  "evidence_upload_grant_into_domain r =
     and_then (map_err InvalidData
       (coverage_window_new (eugrec_valid_from r) (eugrec_valid_until r))) (\<lambda>coverage.
     map_err (\<lambda>_. InvariantViolation ''persisted evidence human upload grant is invalid'')
       (evidence_upload_grant_rehydrate
         \<lparr>eug_id = DocumentUploadGrantId (eugrec_id r),
          eug_workspace_id = WorkspaceId (eugrec_workspace_id r),
          eug_evidence_id = EvidenceId (eugrec_evidence_id r), eug_coverage = coverage,
          eug_issued_by_user_id = UserId (eugrec_issued_by_user_id r),
          eug_issued_via_agent_connection_id =
            AgentConnectionId (eugrec_issued_via_agent_connection_id r),
          eug_issued_at = eugrec_issued_at r, eug_expires_at = eugrec_expires_at r,
          eug_redeemed_at = eugrec_redeemed_at r\<rparr>))"

record policy_upload_authority =
  pua_id :: policy_document_upload_grant_id
  pua_workspace_id :: workspace_id
  pua_policy_id :: policy_id
  pua_issued_by_user_id :: user_id
  pua_issued_via_agent_connection_id :: agent_connection_id
  pua_expires_at :: datetime

record policy_upload_grant =
  pug_id :: policy_document_upload_grant_id
  pug_workspace_id :: workspace_id
  pug_policy_id :: policy_id
  pug_issued_by_user_id :: user_id
  pug_issued_via_agent_connection_id :: agent_connection_id
  pug_issued_at :: datetime
  pug_expires_at :: datetime
  pug_redeemed_at :: "datetime option"

definition policy_upload_grant_issue ::
  "policy_document_upload_grant_id \<Rightarrow> workspace_id \<Rightarrow> policy_id \<Rightarrow> user_id
   \<Rightarrow> agent_connection_id \<Rightarrow> datetime \<Rightarrow> datetime \<Rightarrow> human_grant_error + policy_upload_grant" where
  "policy_upload_grant_issue i workspace policy user connection issued_at expires_at =
     (if expires_at \<le> issued_at then Err InvalidHumanIssuance
      else Ok \<lparr>pug_id = i, pug_workspace_id = workspace, pug_policy_id = policy,
               pug_issued_by_user_id = user, pug_issued_via_agent_connection_id = connection,
               pug_issued_at = issued_at, pug_expires_at = expires_at, pug_redeemed_at = None\<rparr>)"

definition policy_upload_grant_rehydrate ::
  "policy_upload_grant \<Rightarrow> human_grant_error + policy_upload_grant" where
  "policy_upload_grant_rehydrate g =
     and_then
       (map_err (\<lambda>_. InvalidHumanRehydration)
         (policy_upload_grant_issue (pug_id g) (pug_workspace_id g) (pug_policy_id g)
           (pug_issued_by_user_id g) (pug_issued_via_agent_connection_id g)
           (pug_issued_at g) (pug_expires_at g)))
       (\<lambda>grant. if is_some_and (\<lambda>t. t < pug_issued_at grant \<or> t \<ge> pug_expires_at grant)
                     (pug_redeemed_at g)
                then Err InvalidHumanRehydration
                else Ok (grant\<lparr>pug_redeemed_at := pug_redeemed_at g\<rparr>))"

definition policy_upload_matches ::
  "policy_upload_authority \<Rightarrow> policy_upload_grant \<Rightarrow> human_grant_error + unit" where
  "policy_upload_matches a g =
     (if pug_id g = pua_id a \<and> pug_workspace_id g = pua_workspace_id a
       \<and> pug_policy_id g = pua_policy_id a \<and> pug_issued_by_user_id g = pua_issued_by_user_id a
       \<and> pug_issued_via_agent_connection_id g = pua_issued_via_agent_connection_id a
       \<and> pug_expires_at g = pua_expires_at a
      then Ok () else Err HumanAuthorityMismatch)"

definition policy_upload_redeem ::
  "policy_upload_authority \<Rightarrow> datetime \<Rightarrow> policy_upload_grant
   \<Rightarrow> human_grant_error + policy_upload_grant" where
  "policy_upload_redeem a redeemed_at g =
     and_then (policy_upload_matches a g) (\<lambda>_.
       if pug_redeemed_at g \<noteq> None then Err AlreadyRedeemed
       else if redeemed_at < pug_issued_at g \<or> redeemed_at \<ge> pug_expires_at g then Err HumanExpired
       else Ok (g\<lparr>pug_redeemed_at := Some redeemed_at\<rparr>))"

record policy_upload_grant_record =
  pugrec_id :: uuid
  pugrec_workspace_id :: uuid
  pugrec_policy_id :: uuid
  pugrec_issued_by_user_id :: uuid
  pugrec_issued_via_agent_connection_id :: uuid
  pugrec_issued_at :: datetime
  pugrec_expires_at :: datetime
  pugrec_redeemed_at :: "datetime option"

definition policy_upload_grant_from_domain :: "policy_upload_grant \<Rightarrow> policy_upload_grant_record" where
  "policy_upload_grant_from_domain g =
     \<lparr>pugrec_id = policy_document_upload_grant_uuid (pug_id g),
      pugrec_workspace_id = workspace_uuid (pug_workspace_id g),
      pugrec_policy_id = policy_uuid (pug_policy_id g),
      pugrec_issued_by_user_id = user_uuid (pug_issued_by_user_id g),
      pugrec_issued_via_agent_connection_id =
        agent_connection_uuid (pug_issued_via_agent_connection_id g),
      pugrec_issued_at = pug_issued_at g, pugrec_expires_at = pug_expires_at g,
      pugrec_redeemed_at = pug_redeemed_at g\<rparr>"

definition policy_upload_grant_into_domain ::
  "policy_upload_grant_record \<Rightarrow> repository_error + policy_upload_grant" where
  "policy_upload_grant_into_domain r =
     map_err (\<lambda>_. InvariantViolation ''persisted policy human upload grant is invalid'')
       (policy_upload_grant_rehydrate
         \<lparr>pug_id = PolicyDocumentUploadGrantId (pugrec_id r),
          pug_workspace_id = WorkspaceId (pugrec_workspace_id r),
          pug_policy_id = PolicyId (pugrec_policy_id r),
          pug_issued_by_user_id = UserId (pugrec_issued_by_user_id r),
          pug_issued_via_agent_connection_id =
            AgentConnectionId (pugrec_issued_via_agent_connection_id r),
          pug_issued_at = pugrec_issued_at r, pug_expires_at = pugrec_expires_at r,
          pug_redeemed_at = pugrec_redeemed_at r\<rparr>)"

section \<open>Grants are used once\<close>

lemmas machine_op_defs =
  agent_evidence_grant_complete_def evidence_ensure_pending_at_def
  evidence_completed_document_at_def agent_policy_grant_complete_def policy_ensure_pending_at_def
  policy_completed_document_at_def

lemmas human_op_defs =
  evidence_upload_redeem_def evidence_upload_matches_def policy_upload_redeem_def
  policy_upload_matches_def

definition complete_evidence_attempt ::
  "document_id \<times> datetime \<Rightarrow> agent_evidence_grant \<Rightarrow> machine_grant_error + agent_evidence_grant" where
  "complete_evidence_attempt x g = agent_evidence_grant_complete (fst x) (snd x) g"

definition complete_policy_attempt ::
  "document_id \<times> datetime \<Rightarrow> agent_policy_grant \<Rightarrow> machine_grant_error + agent_policy_grant" where
  "complete_policy_attempt x g = agent_policy_grant_complete (fst x) (snd x) g"

definition redeem_evidence_attempt ::
  "evidence_upload_authority \<times> datetime \<Rightarrow> evidence_upload_grant
   \<Rightarrow> human_grant_error + evidence_upload_grant" where
  "redeem_evidence_attempt x g = evidence_upload_redeem (fst x) (snd x) g"

definition redeem_policy_attempt ::
  "policy_upload_authority \<times> datetime \<Rightarrow> policy_upload_grant
   \<Rightarrow> human_grant_error + policy_upload_grant" where
  "redeem_policy_attempt x g = policy_upload_redeem (fst x) (snd x) g"

interpretation complete_evidence: single_use complete_evidence_attempt
  "\<lambda>g. aeg_lifecycle g \<noteq> UploadPending"
proof
  fix x g h
  show "complete_evidence_attempt x g = Inr h \<Longrightarrow> aeg_lifecycle h \<noteq> UploadPending"
    by (auto simp: complete_evidence_attempt_def machine_op_defs and_then_Ok_iff split: if_splits)
  show "aeg_lifecycle g \<noteq> UploadPending \<Longrightarrow> is_err (complete_evidence_attempt x g)"
    by (cases "aeg_lifecycle g") (simp_all add: complete_evidence_attempt_def machine_op_defs)
qed

interpretation complete_policy: single_use complete_policy_attempt
  "\<lambda>g. apg_lifecycle g \<noteq> UploadPending"
proof
  fix x g h
  show "complete_policy_attempt x g = Inr h \<Longrightarrow> apg_lifecycle h \<noteq> UploadPending"
    by (auto simp: complete_policy_attempt_def machine_op_defs and_then_Ok_iff split: if_splits)
  show "apg_lifecycle g \<noteq> UploadPending \<Longrightarrow> is_err (complete_policy_attempt x g)"
    by (cases "apg_lifecycle g") (simp_all add: complete_policy_attempt_def machine_op_defs)
qed

interpretation redeem_evidence: single_use redeem_evidence_attempt "\<lambda>g. eug_redeemed_at g \<noteq> None"
  by unfold_locales
    (auto simp: redeem_evidence_attempt_def human_op_defs and_then_Ok_iff split: if_splits)

interpretation redeem_policy: single_use redeem_policy_attempt "\<lambda>g. pug_redeemed_at g \<noteq> None"
  by unfold_locales
    (auto simp: redeem_policy_attempt_def human_op_defs and_then_Ok_iff split: if_splits)

text \<open>When each succeeds.\<close>

lemma agent_evidence_grant_complete_Ok_iff:
  "agent_evidence_grant_complete d t g = Inr h \<longleftrightarrow>
     aeg_lifecycle g = UploadPending \<and> aeg_issued_at g \<le> t \<and> t < aeg_expires_at g
     \<and> h = g\<lparr>aeg_lifecycle := UploadCompleted d t\<rparr>"
  by (cases "aeg_lifecycle g") (auto simp: machine_op_defs)

lemma agent_policy_grant_complete_Ok_iff:
  "agent_policy_grant_complete d t g = Inr h \<longleftrightarrow>
     apg_lifecycle g = UploadPending \<and> apg_issued_at g \<le> t \<and> t < apg_expires_at g
     \<and> h = g\<lparr>apg_lifecycle := UploadCompleted d t\<rparr>"
  by (cases "apg_lifecycle g") (auto simp: machine_op_defs)

lemma evidence_upload_redeem_Ok_iff:
  "evidence_upload_redeem a t g = Inr h \<longleftrightarrow>
     evidence_upload_matches a g = Inr () \<and> eug_redeemed_at g = None \<and> eug_issued_at g \<le> t
     \<and> t < eug_expires_at g \<and> h = g\<lparr>eug_redeemed_at := Some t\<rparr>"
  by (auto simp: evidence_upload_redeem_def and_then_Ok_iff)

lemma policy_upload_redeem_Ok_iff:
  "policy_upload_redeem a t g = Inr h \<longleftrightarrow>
     policy_upload_matches a g = Inr () \<and> pug_redeemed_at g = None \<and> pug_issued_at g \<le> t
     \<and> t < pug_expires_at g \<and> h = g\<lparr>pug_redeemed_at := Some t\<rparr>"
  by (auto simp: policy_upload_redeem_def and_then_Ok_iff)

section \<open>Saving and loading\<close>

definition wf_coverage :: "coverage_window \<Rightarrow> bool" where
  "wf_coverage w \<longleftrightarrow> cov_valid_from w \<le> cov_valid_until w"

lemma coverage_window_new_Ok_iff:
  "coverage_window_new f u = Inr w \<longleftrightarrow>
     w = \<lparr>cov_valid_from = f, cov_valid_until = u\<rparr> \<and> wf_coverage w"
  by (auto simp: coverage_window_new_def wf_coverage_def)

definition wf_lifecycle :: "datetime \<Rightarrow> datetime \<Rightarrow> upload_lifecycle \<Rightarrow> bool" where
  "wf_lifecycle issued_at expires_at lc \<longleftrightarrow>
     (case lc of UploadPending \<Rightarrow> True | UploadCompleted d t \<Rightarrow> issued_at \<le> t \<and> t < expires_at)"

lemma lifecycle_reload:
  "wf_lifecycle i x lc \<Longrightarrow>
     lifecycle_rehydrate i x (lifecycle_completed_at lc) (lifecycle_document_id lc) = Inr lc"
  by (cases lc) (auto simp: wf_lifecycle_def lifecycle_rehydrate_def)

definition wf_agent_evidence_grant :: "upload_codec \<Rightarrow> agent_evidence_grant \<Rightarrow> bool" where
  "wf_agent_evidence_grant c g \<longleftrightarrow>
     aeg_issued_at g < aeg_expires_at g \<and> wf_coverage (aeg_coverage g)
     \<and> wf_declaration c (aeg_declaration g)
     \<and> wf_lifecycle (aeg_issued_at g) (aeg_expires_at g) (aeg_lifecycle g)"

definition wf_agent_policy_grant :: "upload_codec \<Rightarrow> agent_policy_grant \<Rightarrow> bool" where
  "wf_agent_policy_grant c g \<longleftrightarrow>
     apg_issued_at g < apg_expires_at g \<and> wf_declaration c (apg_declaration g)
     \<and> wf_lifecycle (apg_issued_at g) (apg_expires_at g) (apg_lifecycle g)"

definition wf_evidence_upload_grant :: "evidence_upload_grant \<Rightarrow> bool" where
  "wf_evidence_upload_grant g \<longleftrightarrow>
     eug_issued_at g < eug_expires_at g \<and> wf_coverage (eug_coverage g)
     \<and> is_none_or (\<lambda>t. eug_issued_at g \<le> t \<and> t < eug_expires_at g) (eug_redeemed_at g)"

definition wf_policy_upload_grant :: "policy_upload_grant \<Rightarrow> bool" where
  "wf_policy_upload_grant g \<longleftrightarrow>
     pug_issued_at g < pug_expires_at g
     \<and> is_none_or (\<lambda>t. pug_issued_at g \<le> t \<and> t < pug_expires_at g) (pug_redeemed_at g)"

lemma digests_transpose:
  "is_none_or (\<lambda>d. length (as_bytes d) = 32) x \<Longrightarrow>
     map_transpose (digest_from_bytes m) (map_option as_bytes x) = Inr x"
  by (cases x) (auto simp: and_then_Ok_iff)

lemma declaration_length:
  "wf_declaration c f \<Longrightarrow>
     i64_try_from_u64 (duf_expected_content_length f) = Some (uint (duf_expected_content_length f))"
  by (simp add: wf_declaration_def i64_try_from_u64_def)

lemma coverage_reload:
  "wf_coverage w \<Longrightarrow> coverage_window_new (cov_valid_from w) (cov_valid_until w) = Inr w"
  by (cases w) (auto simp: coverage_window_new_Ok_iff)

lemma document_ids_round_trip [simp]: "map_option DocumentId (map_option document_id_uuid x) = x"
  by (cases x) auto

lemma declaration_digest:
  "wf_declaration c f \<Longrightarrow>
     map_transpose (digest_from_bytes m) (map_option as_bytes (duf_expected_sha256 f))
     = Inr (duf_expected_sha256 f)"
  by (rule digests_transpose) (simp add: wf_declaration_def)

lemmas declaration_facts = declaration_reload declaration_length declaration_digest

lemma agent_evidence_grant_reload:
  assumes "hex_codec_ok c" and "wf_agent_evidence_grant c g"
  shows "and_then (agent_evidence_grant_from_domain g) (agent_evidence_grant_into_domain c) = Inr g"
  using assms
  by (simp add: agent_evidence_grant_from_domain_def agent_evidence_grant_into_domain_def
      wf_agent_evidence_grant_def declaration_facts [of c] u64_try_from_i64_def coverage_reload
      agent_evidence_grant_rehydrate_def agent_evidence_grant_issue_def lifecycle_reload)

lemma agent_policy_grant_reload:
  assumes "hex_codec_ok c" and "wf_agent_policy_grant c g"
  shows "and_then (agent_policy_grant_from_domain g) (agent_policy_grant_into_domain c) = Inr g"
  using assms
  by (simp add: agent_policy_grant_from_domain_def agent_policy_grant_into_domain_def
      wf_agent_policy_grant_def declaration_facts [of c] u64_try_from_i64_def
      agent_policy_grant_rehydrate_def agent_policy_grant_issue_def lifecycle_reload)

lemma evidence_upload_grant_rehydrate_Ok_iff:
  "evidence_upload_grant_rehydrate g = Inr h \<longleftrightarrow>
     h = g \<and> eug_issued_at g < eug_expires_at g
     \<and> is_none_or (\<lambda>t. eug_issued_at g \<le> t \<and> t < eug_expires_at g) (eug_redeemed_at g)"
  by (cases g; cases "eug_redeemed_at g")
    (auto simp: evidence_upload_grant_rehydrate_def evidence_upload_grant_issue_def)

lemma policy_upload_grant_rehydrate_Ok_iff:
  "policy_upload_grant_rehydrate g = Inr h \<longleftrightarrow> h = g \<and> wf_policy_upload_grant g"
  by (cases g; cases "pug_redeemed_at g")
    (auto simp: policy_upload_grant_rehydrate_def policy_upload_grant_issue_def wf_policy_upload_grant_def)

definition redeem_evidence_step ::
  "evidence_upload_authority \<times> datetime \<Rightarrow> evidence_upload_grant \<Rightarrow> evidence_upload_grant" where
  "redeem_evidence_step x g = applied_or g (redeem_evidence_attempt x g)"

definition redeem_policy_step ::
  "policy_upload_authority \<times> datetime \<Rightarrow> policy_upload_grant \<Rightarrow> policy_upload_grant" where
  "redeem_policy_step x g = applied_or g (redeem_policy_attempt x g)"

interpretation eug: stored_aggregate redeem_evidence_step "\<lambda>_ _. True" wf_evidence_upload_grant
  evidence_upload_grant_from_domain evidence_upload_grant_into_domain
proof
  fix g x
  assume "wf_evidence_upload_grant g"
  then show "wf_evidence_upload_grant (redeem_evidence_step x g)"
    by (auto simp: redeem_evidence_step_def redeem_evidence_attempt_def wf_evidence_upload_grant_def
        evidence_upload_redeem_Ok_iff split: sum.splits)
next
  fix g
  assume "wf_evidence_upload_grant g"
  then show "evidence_upload_grant_into_domain (evidence_upload_grant_from_domain g) = Inr g"
    by (cases g; cases "eug_coverage g")
      (auto simp: evidence_upload_grant_into_domain_def evidence_upload_grant_from_domain_def
        and_then_Ok_iff coverage_window_new_Ok_iff evidence_upload_grant_rehydrate_Ok_iff
        wf_evidence_upload_grant_def)
next
  fix r g
  assume "evidence_upload_grant_into_domain r = Inr g"
  then show "wf_evidence_upload_grant g"
    by (auto simp: evidence_upload_grant_into_domain_def and_then_Ok_iff coverage_window_new_Ok_iff
        evidence_upload_grant_rehydrate_Ok_iff wf_evidence_upload_grant_def)
qed

interpretation pug: stored_aggregate redeem_policy_step "\<lambda>_ _. True" wf_policy_upload_grant
  policy_upload_grant_from_domain policy_upload_grant_into_domain
proof
  fix g x
  assume "wf_policy_upload_grant g"
  then show "wf_policy_upload_grant (redeem_policy_step x g)"
    by (auto simp: redeem_policy_step_def redeem_policy_attempt_def wf_policy_upload_grant_def
        policy_upload_redeem_Ok_iff split: sum.splits)
next
  fix g
  assume "wf_policy_upload_grant g"
  then show "policy_upload_grant_into_domain (policy_upload_grant_from_domain g) = Inr g"
    by (cases g) (auto simp: policy_upload_grant_into_domain_def policy_upload_grant_from_domain_def
        policy_upload_grant_rehydrate_Ok_iff)
next
  fix r g
  assume "policy_upload_grant_into_domain r = Inr g"
  then show "wf_policy_upload_grant g"
    by (auto simp: policy_upload_grant_into_domain_def policy_upload_grant_rehydrate_Ok_iff)
qed

section \<open>Properties\<close>

text \<open>
  C18: An upload grant issued to an agent for evidence is completed at most once, within its lifetime,
  and the completed grant remembers the document: a retry with the same authority is answered with
  that document and never with another one.
\<close>

theorem evidence_grant_completed_once:
  assumes "agent_evidence_grant_complete d t g = Inr h"
  shows "successes complete_evidence_attempt attempts g \<le> 1
     \<and> successes complete_evidence_attempt attempts h = 0
     \<and> aeg_issued_at g \<le> t \<and> t < aeg_expires_at g
     \<and> lifecycle_document_id (aeg_lifecycle h) = Some d
     \<and> h\<lparr>aeg_lifecycle := aeg_lifecycle g\<rparr> = g"
proof -
  have "complete_evidence_attempt (d, t) g = Inr h" using assms by (simp add: complete_evidence_attempt_def)
  from complete_evidence.attempt_spends [OF this]
  have "successes complete_evidence_attempt attempts h = 0" by (rule complete_evidence.successes_spent)
  then show ?thesis
    using assms complete_evidence.successes_le_one [of attempts g]
    by (auto simp: agent_evidence_grant_complete_Ok_iff)
qed

definition sample_declaration :: declared_upload_file where
  "sample_declaration = \<lparr>duf_filename = ''a.pdf'', duf_content_type = ''application/pdf'',
     duf_expected_content_length = 12, duf_expected_sha256 = None\<rparr>"

definition sample_grant :: agent_evidence_grant where
  "sample_grant =
     \<lparr>aeg_id = AgentEvidenceUploadGrantId 1, aeg_submission_id = EvidenceSubmissionId 2,
      aeg_workspace_id = WorkspaceId 3, aeg_evidence_id = EvidenceId 4,
      aeg_coverage = \<lparr>cov_valid_from = 0, cov_valid_until = 9\<rparr>, aeg_declaration = sample_declaration,
      aeg_issued_by_user_id = UserId 5, aeg_issued_via_agent_connection_id = AgentConnectionId 6,
      aeg_issued_at = 0, aeg_expires_at = 100, aeg_lifecycle = UploadPending\<rparr>"

theorem evidence_grant_completed_once_witness:
  "\<exists>h. agent_evidence_grant_complete (DocumentId 7) 5 sample_grant = Inr h
     \<and> successes complete_evidence_attempt [(DocumentId 8, 6)] h = 0"
proof -
  obtain h where h: "agent_evidence_grant_complete (DocumentId 7) 5 sample_grant = Inr h"
    by (simp add: agent_evidence_grant_complete_Ok_iff sample_grant_def)
  from evidence_grant_completed_once [OF h] h show ?thesis by blast
qed

text \<open>
  A grant for an agent's evidence upload, completed or not, is written to its row and read back
  unchanged, its 64-bit length through the signed column included.
\<close>

theorem evidence_grant_round_trip:
  assumes "hex_codec_ok c" and "wf_agent_evidence_grant c g"
  shows "and_then (agent_evidence_grant_from_domain g) (agent_evidence_grant_into_domain c) = Inr g
     \<and> (case agent_evidence_grant_complete d t g of Inl e \<Rightarrow> True
         | Inr h \<Rightarrow> and_then (agent_evidence_grant_from_domain h) (agent_evidence_grant_into_domain c) = Inr h)"
proof -
  have "wf_agent_evidence_grant c h" if "agent_evidence_grant_complete d t g = Inr h" for h
    using that assms(2) by (auto simp: agent_evidence_grant_complete_Ok_iff wf_agent_evidence_grant_def wf_lifecycle_def)
  then show ?thesis
    using agent_evidence_grant_reload [OF assms(1)] assms(2) by (auto split: sum.splits)
qed

theorem evidence_grant_round_trip_witness:
  "and_then (agent_evidence_grant_from_domain sample_grant)
     (agent_evidence_grant_into_domain (hex_codec (\<lambda>_. True) (\<lambda>_. True))) = Inr sample_grant"
proof -
  have "wf_declaration (hex_codec (\<lambda>_. True) (\<lambda>_. True)) sample_declaration" by code_simp
  then have "wf_agent_evidence_grant (hex_codec (\<lambda>_. True) (\<lambda>_. True)) sample_grant"
    by (simp add: wf_agent_evidence_grant_def sample_grant_def wf_coverage_def wf_lifecycle_def)
  from evidence_grant_round_trip [OF hex_codec_ok this] show ?thesis by blast
qed

text \<open>
  A human's upload link is redeemed at most once, by its own authority and within its lifetime,
  and the redeemed grant still loads.
\<close>

theorem upload_link_redeemed_once:
  assumes "wf_evidence_upload_grant g" and "evidence_upload_redeem a t g = Inr h"
  shows "successes redeem_evidence_attempt xs g \<le> 1 \<and> successes redeem_evidence_attempt xs h = 0
     \<and> evidence_upload_matches a g = Inr () \<and> eug_issued_at g \<le> t \<and> t < eug_expires_at g
     \<and> evidence_upload_grant_into_domain (evidence_upload_grant_from_domain h) = Inr h"
proof -
  have "h = redeem_evidence_step (a, t) g"
    using assms by (simp add: redeem_evidence_step_def redeem_evidence_attempt_def)
  then have "wf_evidence_upload_grant h" using assms(1) eug.step_wf by simp
  moreover have "eug_redeemed_at h \<noteq> None" using assms(2) by (simp add: evidence_upload_redeem_Ok_iff)
  ultimately show ?thesis
    using assms(2) eug.reload redeem_evidence.successes_spent redeem_evidence.successes_le_one
    by (simp add: evidence_upload_redeem_Ok_iff)
qed

theorem upload_link_redeemed_once_witness:
  "\<exists>g a h. evidence_upload_redeem a 5 g = Inr h \<and> successes redeem_evidence_attempt [(a, 6)] h = 0"
proof -
  let ?g = "\<lparr>eug_id = DocumentUploadGrantId 1, eug_workspace_id = WorkspaceId 3, eug_evidence_id = EvidenceId 4,
      eug_coverage = \<lparr>cov_valid_from = 0, cov_valid_until = 9\<rparr>, eug_issued_by_user_id = UserId 5,
      eug_issued_via_agent_connection_id = AgentConnectionId 6, eug_issued_at = 0,
      eug_expires_at = 100, eug_redeemed_at = None\<rparr>"
  let ?a = "\<lparr>eua_id = DocumentUploadGrantId 1, eua_workspace_id = WorkspaceId 3, eua_evidence_id = EvidenceId 4,
      eua_coverage = \<lparr>cov_valid_from = 0, cov_valid_until = 9\<rparr>, eua_issued_by_user_id = UserId 5,
      eua_issued_via_agent_connection_id = AgentConnectionId 6, eua_expires_at = 100\<rparr>"
  have wf: "wf_evidence_upload_grant ?g" by (simp add: wf_evidence_upload_grant_def wf_coverage_def)
  obtain h where h: "evidence_upload_redeem ?a 5 ?g = Inr h"
    by (simp add: evidence_upload_redeem_Ok_iff evidence_upload_matches_def)
  from upload_link_redeemed_once [OF wf h] h show ?thesis by blast
qed

end
