(* ===== verification/Messaging.thy ===== *)
theory Messaging
  imports Documents Upload_Declarations
begin

text \<open>
  Integration messages and their versioned envelope (\<^verbatim>\<open>src/messaging.rs\<close>), and the metadata of an
  execution (\<^verbatim>\<open>src/application/execution_metadata.rs\<close>). JSON values are a datatype: an object is a
  list of fields with distinct names whose order carries no meaning, an integer number is its value
  and any other number its literal. Reading a structure follows the derived decoders: an object
  with no field the structure lacks, or an array with one value per field; a missing optional field
  reads as absent. The text of a UUID is made and read by the \<^verbatim>\<open>uuid\<close> crate, a parameter of the
  definitions, of which \<open>uuid_codec_ok\<close> states that it prints lower-case hexadecimal digits and
  hyphens and reads back what it prints. A fresh message id is an argument where the code draws a
  random one.
\<close>

section \<open>JSON values\<close>

datatype json =
    JNull | JBool bool | JInt int | JFloat string | JStr string
  | JArr "json list" | JObj "(string \<times> json) list"

record uuid_codec =
  uuid_text :: "uuid \<Rightarrow> string"
  uuid_parse :: "string \<Rightarrow> uuid option"

definition uuid_codec_ok :: "uuid_codec \<Rightarrow> bool" where
  "uuid_codec_ok c \<longleftrightarrow>
     (\<forall>u. uuid_parse c (uuid_text c u) = Some u \<and> uuid_text c u \<noteq> []
        \<and> list_all (\<lambda>b. is_lower_hex b \<or> b = CHR ''-'') (uuid_text c u))"

text \<open>The simple form of a UUID, its thirty-two hexadecimal digits.\<close>

fun nibbles :: "nat \<Rightarrow> nat \<Rightarrow> string" where
  "nibbles 0 n = []"
| "nibbles (Suc k) n = hex_digit (n mod 16) # nibbles k (n div 16)"

fun nibbles_value :: "string \<Rightarrow> nat option" where
  "nibbles_value [] = Some 0"
| "nibbles_value (ch # s) =
     (case (hex_value ch, nibbles_value s) of (Some d, Some v) \<Rightarrow> Some (d + 16 * v) | _ \<Rightarrow> None)"

definition simple_uuid_codec :: uuid_codec where
  "simple_uuid_codec =
     \<lparr>uuid_text = (\<lambda>u. rev (nibbles 32 (unat u))),
      uuid_parse = (\<lambda>s. if length s = 32 then map_option of_nat (nibbles_value (rev s)) else None)\<rparr>"

lemma nibbles_value_nibbles: "n < 16 ^ k \<Longrightarrow> nibbles_value (nibbles k n) = Some n"
proof (induction k arbitrary: n)
  case (Suc k)
  have "n div 16 < 16 ^ k" using Suc.prems by (simp add: less_mult_imp_div_less mult.commute)
  then show ?case using Suc.IH hex_value_digit [of "n mod 16"] by simp
qed simp

lemma length_nibbles [simp]: "length (nibbles k n) = k"
  by (induction k arbitrary: n) simp_all

lemma simple_uuid_codec_ok: "uuid_codec_ok simple_uuid_codec"
proof -
  have "unat (u :: uuid) < 16 ^ 32" for u using unsigned_less [of u] by simp
  moreover have "list_all is_lower_hex (nibbles k n)" for k n
    by (induction k arbitrary: n) (simp_all add: is_lower_hex_digit)
  moreover have "nibbles 32 n \<noteq> []" for n using length_nibbles [of 32 n] by fastforce
  ultimately show ?thesis
    by (auto simp: uuid_codec_ok_def simple_uuid_codec_def nibbles_value_nibbles list_all_iff)
qed

text \<open>The values of the named fields of a structure, or none where the value is not one.\<close>

fun struct_fields :: "string list \<Rightarrow> json \<Rightarrow> json option list option" where
  "struct_fields names (JObj entries) =
     (if list_all (\<lambda>f. fst f \<in> set names) entries then Some (map (map_of entries) names) else None)"
| "struct_fields names (JArr values) =
     (if length values = length names then Some (map Some values) else None)"
| "struct_fields names _ = None"

definition json_get :: "string \<Rightarrow> json \<Rightarrow> json option" where
  "json_get name v = (case v of JObj entries \<Rightarrow> map_of entries name | _ \<Rightarrow> None)"

definition json_as_str :: "json \<Rightarrow> string option" where
  "json_as_str v = (case v of JStr s \<Rightarrow> Some s | _ \<Rightarrow> None)"

definition json_uuid :: "uuid_codec \<Rightarrow> json \<Rightarrow> uuid option" where
  "json_uuid c v = (case v of JStr s \<Rightarrow> uuid_parse c s | _ \<Rightarrow> None)"

definition json_int_in :: "int \<Rightarrow> int \<Rightarrow> json \<Rightarrow> int option" where
  "json_int_in lo hi v = (case v of JInt n \<Rightarrow> if lo \<le> n \<and> n \<le> hi then Some n else None | _ \<Rightarrow> None)"

abbreviation json_i32 :: "json \<Rightarrow> int option" where
  "json_i32 \<equiv> json_int_in (- (2 ^ 31)) (2 ^ 31 - 1)"

abbreviation json_i64 :: "json \<Rightarrow> int option" where
  "json_i64 \<equiv> json_int_in (- (2 ^ 63)) i64_max"

text \<open>An optional field: absent or null is \<^verbatim>\<open>None\<close>, and a value has to be of its type.\<close>

definition json_opt :: "(json \<Rightarrow> 'a option) \<Rightarrow> json option \<Rightarrow> 'a option option" where
  "json_opt f v = (case v of None \<Rightarrow> Some None | Some JNull \<Rightarrow> Some None
     | Some x \<Rightarrow> map_option Some (f x))"

definition json_of_uuid :: "uuid_codec \<Rightarrow> uuid \<Rightarrow> json" where
  "json_of_uuid c u = JStr (uuid_text c u)"

definition json_of_opt_uuid :: "uuid_codec \<Rightarrow> uuid option \<Rightarrow> json" where
  "json_of_opt_uuid c u = (case u of None \<Rightarrow> JNull | Some x \<Rightarrow> json_of_uuid c x)"

lemma json_uuid_of [simp]: "uuid_codec_ok c \<Longrightarrow> json_uuid c (json_of_uuid c u) = Some u"
  by (simp add: json_uuid_def json_of_uuid_def uuid_codec_ok_def)

lemma json_opt_uuid_of [simp]:
  "uuid_codec_ok c \<Longrightarrow> json_opt (json_uuid c) (Some (json_of_opt_uuid c u)) = Some u"
  by (cases u) (simp_all add: json_opt_def json_of_opt_uuid_def json_of_uuid_def json_uuid_def
      uuid_codec_ok_def)

lemma json_as_str_JStr [simp]: "json_as_str (JStr s) = Some s"
  by (simp add: json_as_str_def)

section \<open>Messages\<close>

definition scan_document_type :: string where "scan_document_type = ''ScanDocument''"
definition finalize_document_type :: string where "finalize_document_type = ''FinalizeDocument''"
definition send_workspace_invitation_type :: string where
  "send_workspace_invitation_type = ''SendWorkspaceInvitation''"
definition legacy_document_scan_requested :: string where
  "legacy_document_scan_requested = ''document.scan_requested''"
definition legacy_document_finalization_requested :: string where
  "legacy_document_finalization_requested = ''document.finalization_requested''"
definition current_message_version :: int where "current_message_version = 1"

lemmas message_names =
  scan_document_type_def finalize_document_type_def send_workspace_invitation_type_def
  legacy_document_scan_requested_def legacy_document_finalization_requested_def
  current_message_version_def

datatype integration_message_kind = CommandKind | EventKind

fun message_kind_as_str :: "integration_message_kind \<Rightarrow> string" where
  "message_kind_as_str CommandKind = ''command''"
| "message_kind_as_str EventKind = ''event''"

record integration_message_metadata =
  md_message_id :: uuid
  md_subject :: string
  md_correlation_id :: "uuid option"
  md_causation_id :: "uuid option"

datatype document_work =
    EvidenceWork (work_submission: uuid) (work_object_key: string)
  | PolicyWork (work_policy: uuid) (work_object_key: string)

record invitation_delivery_work =
  work_invitation_id :: uuid
  work_generation :: i64

datatype integration_payload =
    DocumentPayload document_work
  | InvitationPayload invitation_delivery_work

fun document_work_new :: "document_identity \<Rightarrow> string \<Rightarrow> document_work" where
  "document_work_new (EvidenceDocument s d) k = EvidenceWork (submission_uuid s) k"
| "document_work_new (PolicyDocument p d) k = PolicyWork (policy_uuid p) k"

fun document_work_aggregate_type :: "document_work \<Rightarrow> string" where
  "document_work_aggregate_type (EvidenceWork s k) = ''evidence_document''"
| "document_work_aggregate_type (PolicyWork p k) = ''policy_document''"

fun payload_aggregate_type :: "integration_payload \<Rightarrow> string" where
  "payload_aggregate_type (DocumentPayload w) = document_work_aggregate_type w"
| "payload_aggregate_type (InvitationPayload w) = ''workspace_invitation''"

datatype integration_message =
    ScanDocument (message_metadata: integration_message_metadata) (message_payload: integration_payload)
  | FinalizeDocument (message_metadata: integration_message_metadata) (message_payload: integration_payload)
  | SendWorkspaceInvitation
      (message_metadata: integration_message_metadata) (message_payload: integration_payload)

definition message_metadata_new ::
  "uuid \<Rightarrow> string \<Rightarrow> uuid option \<Rightarrow> uuid option \<Rightarrow> integration_message_metadata" where
  "message_metadata_new fresh subject correlation causation =
     \<lparr>md_message_id = fresh, md_subject = subject, md_correlation_id = correlation,
      md_causation_id = causation\<rparr>"

definition scan_document ::
  "uuid_codec \<Rightarrow> uuid \<Rightarrow> document_identity \<Rightarrow> string \<Rightarrow> uuid option \<Rightarrow> uuid option
   \<Rightarrow> integration_message" where
  "scan_document c fresh identity object_key correlation causation =
     ScanDocument (message_metadata_new fresh (uuid_text c (document_uuid identity)) correlation causation)
       (DocumentPayload (document_work_new identity object_key))"

definition finalize_document ::
  "uuid_codec \<Rightarrow> uuid \<Rightarrow> document_identity \<Rightarrow> string \<Rightarrow> uuid option \<Rightarrow> uuid option
   \<Rightarrow> integration_message" where
  "finalize_document c fresh identity object_key correlation causation =
     FinalizeDocument (message_metadata_new fresh (uuid_text c (document_uuid identity)) correlation causation)
       (DocumentPayload (document_work_new identity object_key))"

definition send_workspace_invitation ::
  "uuid_codec \<Rightarrow> uuid \<Rightarrow> uuid \<Rightarrow> i64 \<Rightarrow> uuid option \<Rightarrow> uuid option \<Rightarrow> integration_message" where
  "send_workspace_invitation c fresh invitation generation correlation causation =
     SendWorkspaceInvitation
       (message_metadata_new fresh (uuid_text c invitation) correlation causation)
       (InvitationPayload \<lparr>work_invitation_id = invitation, work_generation = generation\<rparr>)"

definition message_kind :: "integration_message \<Rightarrow> integration_message_kind" where
  "message_kind m = CommandKind"

fun message_type :: "integration_message \<Rightarrow> string" where
  "message_type (ScanDocument md p) = scan_document_type"
| "message_type (FinalizeDocument md p) = finalize_document_type"
| "message_type (SendWorkspaceInvitation md p) = send_workspace_invitation_type"

definition message_version :: "integration_message \<Rightarrow> int" where
  "message_version m = current_message_version"

section \<open>The envelope\<close>

fun document_work_to_json :: "uuid_codec \<Rightarrow> document_work \<Rightarrow> json" where
  "document_work_to_json c (EvidenceWork s k) =
     JObj [(''evidence_submission_id'', json_of_uuid c s), (''object_key'', JStr k)]"
| "document_work_to_json c (PolicyWork p k) =
     JObj [(''policy_id'', json_of_uuid c p), (''object_key'', JStr k)]"

fun payload_to_json :: "uuid_codec \<Rightarrow> integration_payload \<Rightarrow> json" where
  "payload_to_json c (DocumentPayload w) = document_work_to_json c w"
| "payload_to_json c (InvitationPayload w) =
     JObj [(''invitation_id'', json_of_uuid c (work_invitation_id w)),
           (''generation'', JInt (work_generation w))]"

definition to_envelope :: "uuid_codec \<Rightarrow> integration_message \<Rightarrow> json" where
  "to_envelope c m =
     (let md = message_metadata m in
      JObj [(''message_id'', json_of_uuid c (md_message_id md)),
            (''kind'', JStr (message_kind_as_str (message_kind m))),
            (''type'', JStr (message_type m)),
            (''version'', JInt (message_version m)),
            (''subject'', JStr (md_subject md)),
            (''correlation_id'', json_of_opt_uuid c (md_correlation_id md)),
            (''causation_id'', json_of_opt_uuid c (md_causation_id md)),
            (''payload'', payload_to_json c (message_payload m))])"

text \<open>A required field, read by its decoder.\<close>

definition required_field :: "(json \<Rightarrow> 'a option) \<Rightarrow> json option \<Rightarrow> 'a option" where
  "required_field f v = Option.bind v f"

definition work_from_fields ::
  "uuid_codec \<Rightarrow> (uuid \<Rightarrow> string \<Rightarrow> document_work) \<Rightarrow> string \<Rightarrow> json \<Rightarrow> document_work option" where
  "work_from_fields c build owner_field v =
     (case struct_fields [owner_field, ''object_key''] v of
        Some [owner, key] \<Rightarrow>
          Option.bind (required_field (json_uuid c) owner) (\<lambda>i.
          map_option (build i) (required_field json_as_str key))
      | _ \<Rightarrow> None)"

text \<open>The untagged enumeration tries its variants in order.\<close>

definition document_work_from_json :: "uuid_codec \<Rightarrow> json \<Rightarrow> document_work option" where
  "document_work_from_json c v =
     option_or (work_from_fields c EvidenceWork ''evidence_submission_id'' v)
       (work_from_fields c PolicyWork ''policy_id'' v)"

definition invitation_work_from_json :: "uuid_codec \<Rightarrow> json \<Rightarrow> invitation_delivery_work option" where
  "invitation_work_from_json c v =
     (case struct_fields [''invitation_id'', ''generation''] v of
        Some [i, g] \<Rightarrow>
          Option.bind (required_field (json_uuid c) i) (\<lambda>i.
          map_option (\<lambda>g. \<lparr>work_invitation_id = i, work_generation = g\<rparr>)
            (required_field json_i64 g))
      | _ \<Rightarrow> None)"

text \<open>A unit variant is its name, or an object with the name as its one field and a null value.\<close>

definition kind_named :: "string \<Rightarrow> integration_message_kind option" where
  "kind_named s = (if s = ''command'' then Some CommandKind
     else if s = ''event'' then Some EventKind else None)"

definition message_kind_from_json :: "json \<Rightarrow> integration_message_kind option" where
  "message_kind_from_json v =
     (case v of JStr s \<Rightarrow> kind_named s | JObj [(s, JNull)] \<Rightarrow> kind_named s | _ \<Rightarrow> None)"

record envelope_header =
  hdr_message_id :: uuid
  hdr_kind :: integration_message_kind
  hdr_type :: string
  hdr_version :: int
  hdr_subject :: string
  hdr_correlation_id :: "uuid option"
  hdr_causation_id :: "uuid option"
  hdr_payload :: json

definition envelope_header_from_json :: "uuid_codec \<Rightarrow> json \<Rightarrow> envelope_header option" where
  "envelope_header_from_json c v =
     (case struct_fields [''message_id'', ''kind'', ''type'', ''version'', ''subject'',
         ''correlation_id'', ''causation_id'', ''payload''] v of
        Some [message_id, kind, typ, version, subject, correlation, causation, payload] \<Rightarrow>
          Option.bind (required_field (json_uuid c) message_id) (\<lambda>message_id.
          Option.bind (required_field message_kind_from_json kind) (\<lambda>kind.
          Option.bind (required_field json_as_str typ) (\<lambda>typ.
          Option.bind (required_field json_i32 version) (\<lambda>version.
          Option.bind (required_field json_as_str subject) (\<lambda>subject.
          Option.bind (json_opt (json_uuid c) correlation) (\<lambda>correlation.
          Option.bind (json_opt (json_uuid c) causation) (\<lambda>causation.
          map_option (\<lambda>payload.
              \<lparr>hdr_message_id = message_id, hdr_kind = kind, hdr_type = typ,
               hdr_version = version, hdr_subject = subject, hdr_correlation_id = correlation,
               hdr_causation_id = causation, hdr_payload = payload\<rparr>) payload)))))))
      | _ \<Rightarrow> None)"

datatype integration_message_decode_error =
    MalformedEnvelope
  | UnknownKind integration_message_kind
  | UnknownType string
  | UnsupportedVersion string int
  | MalformedPayload

definition from_envelope ::
  "uuid_codec \<Rightarrow> json \<Rightarrow> integration_message_decode_error + integration_message" where
  "from_envelope c v =
     and_then (ok_or MalformedEnvelope (envelope_header_from_json c v)) (\<lambda>header.
       if hdr_kind header \<noteq> CommandKind then Err (UnknownKind (hdr_kind header))
       else if hdr_version header \<noteq> current_message_version
         then Err (UnsupportedVersion (hdr_type header) (hdr_version header))
       else
         let md = \<lparr>md_message_id = hdr_message_id header, md_subject = hdr_subject header,
                   md_correlation_id = hdr_correlation_id header,
                   md_causation_id = hdr_causation_id header\<rparr>;
             document = map_option DocumentPayload (document_work_from_json c (hdr_payload header));
             invitation = map_option InvitationPayload (invitation_work_from_json c (hdr_payload header))
         in if hdr_type header = scan_document_type
              then and_then (ok_or MalformedPayload document) (\<lambda>p. Ok (ScanDocument md p))
            else if hdr_type header = finalize_document_type
              then and_then (ok_or MalformedPayload document) (\<lambda>p. Ok (FinalizeDocument md p))
            else if hdr_type header = send_workspace_invitation_type
              then and_then (ok_or MalformedPayload invitation) (\<lambda>p. Ok (SendWorkspaceInvitation md p))
            else Err (UnknownType (hdr_type header)))"

section \<open>Execution metadata\<close>

record execution_metadata =
  exec_request_id :: "uuid option"
  exec_correlation_id :: "uuid option"
  exec_causation_id :: "uuid option"

definition execution_background :: execution_metadata where
  "execution_background =
     \<lparr>exec_request_id = None, exec_correlation_id = None, exec_causation_id = None\<rparr>"

definition execution_for_request :: "uuid \<Rightarrow> execution_metadata" where
  "execution_for_request r =
     \<lparr>exec_request_id = Some r, exec_correlation_id = None, exec_causation_id = None\<rparr>"

definition with_correlation_id :: "uuid \<Rightarrow> execution_metadata \<Rightarrow> execution_metadata" where
  "with_correlation_id u m = m\<lparr>exec_correlation_id := Some u\<rparr>"

definition with_causation_id :: "uuid \<Rightarrow> execution_metadata \<Rightarrow> execution_metadata" where
  "with_causation_id u m = m\<lparr>exec_causation_id := Some u\<rparr>"

section \<open>Round trips\<close>

text \<open>
  A message whose payload is the one its type carries, with a generation in the range of its type.
\<close>

fun payload_fits :: "integration_message \<Rightarrow> bool" where
  "payload_fits (ScanDocument md (DocumentPayload w)) = True"
| "payload_fits (FinalizeDocument md (DocumentPayload w)) = True"
| "payload_fits (SendWorkspaceInvitation md (InvitationPayload w)) = in_i64 (work_generation w)"
| "payload_fits _ = False"

lemma json_int_in_JInt [simp]: "json_int_in lo hi (JInt n) = (if lo \<le> n \<and> n \<le> hi then Some n else None)"
  by (simp add: json_int_in_def)

lemma required_field_Some [simp]: "required_field f (Some v) = f v"
  by (simp add: required_field_def)

lemma document_work_reload [simp]:
  "uuid_codec_ok c \<Longrightarrow> document_work_from_json c (document_work_to_json c w) = Some w"
  by (cases w) (simp_all add: document_work_from_json_def work_from_fields_def)

lemma invitation_work_reload:
  "uuid_codec_ok c \<Longrightarrow> in_i64 (work_generation w) \<Longrightarrow>
     invitation_work_from_json c (payload_to_json c (InvitationPayload w)) = Some w"
  by (simp add: invitation_work_from_json_def in_i64_def)

lemma envelope_header_of:
  assumes "uuid_codec_ok c"
  shows "envelope_header_from_json c (to_envelope c m) =
     Some \<lparr>hdr_message_id = md_message_id (message_metadata m), hdr_kind = CommandKind,
           hdr_type = message_type m, hdr_version = current_message_version,
           hdr_subject = md_subject (message_metadata m),
           hdr_correlation_id = md_correlation_id (message_metadata m),
           hdr_causation_id = md_causation_id (message_metadata m),
           hdr_payload = payload_to_json c (message_payload m)\<rparr>"
  using assms
  by (simp add: envelope_header_from_json_def to_envelope_def Let_def message_kind_def
      message_version_def current_message_version_def message_kind_from_json_def kind_named_def)

lemma envelope_round_trip:
  assumes "uuid_codec_ok c" and "payload_fits m"
  shows "from_envelope c (to_envelope c m) = Inr m"
proof -
  have "from_envelope c (to_envelope c m) =
     and_then (ok_or MalformedEnvelope (envelope_header_from_json c (to_envelope c m))) (\<lambda>h. Inr m)"
    using assms
    by (cases m rule: payload_fits.cases)
      (simp_all add: from_envelope_def envelope_header_of [OF assms(1)] message_names
        invitation_work_reload [OF assms(1)] del: payload_to_json.simps(2))
  then show ?thesis by (simp add: envelope_header_of [OF assms(1)])
qed

lemma json_int_in_range: "json_int_in lo hi v = Some n \<Longrightarrow> lo \<le> n \<and> n \<le> hi"
  by (cases v) (auto simp: json_int_in_def split: if_splits)

lemma invitation_work_in_range:
  "invitation_work_from_json c v = Some w \<Longrightarrow> in_i64 (work_generation w)"
  by (auto simp: invitation_work_from_json_def in_i64_def required_field_def bind_eq_Some_conv
      split: option.splits list.splits dest!: json_int_in_range)

lemma decoded_payload_fits: "from_envelope c v = Inr m \<Longrightarrow> payload_fits m"
  by (auto simp: from_envelope_def and_then_Ok_iff Let_def invitation_work_in_range split: if_splits)

section \<open>Properties\<close>

text \<open>
  An envelope that is accepted stands for exactly one message: reading it gives a command of the
  current version whose payload is the one of its type, and writing that message and reading it
  again gives the same message, its identifiers, subject and payload included.
\<close>

theorem accepted_envelope_stable:
  assumes "uuid_codec_ok c" and "from_envelope c v = Inr m"
  shows "payload_fits m \<and> from_envelope c (to_envelope c m) = Inr m"
  using envelope_round_trip [OF assms(1)] decoded_payload_fits [OF assms(2)] by simp

theorem accepted_envelope_stable_witness:
  "let m = scan_document simple_uuid_codec 1 (PolicyDocument (PolicyId 2) (DocumentId 3)) ''k'' None (Some 4)
   in from_envelope simple_uuid_codec (to_envelope simple_uuid_codec m) = Inr m"
proof -
  let ?m = "scan_document simple_uuid_codec 1 (PolicyDocument (PolicyId 2) (DocumentId 3)) ''k'' None (Some 4)"
  have "from_envelope simple_uuid_codec (to_envelope simple_uuid_codec ?m) = Inr ?m"
    by (rule envelope_round_trip [OF simple_uuid_codec_ok]) (simp add: scan_document_def)
  from accepted_envelope_stable [OF simple_uuid_codec_ok this] show ?thesis by (simp add: Let_def)
qed

end
