(* ===== verification/Object_Storage.thy ===== *)
theory Object_Storage
  imports Messaging
begin

text \<open>
  Object keys, object metadata, the filesystem store and the copy between stores
  (\<^verbatim>\<open>src/object_storage/mod.rs\<close>). A store of the filesystem kind is two trees of files, contents and
  metadata, each a partial function of the key; a metadata file whose write was interrupted is
  there but does not decode. The input and output calls that may fail are named in \<open>put_faults\<close>;
  a failure to read or write a chunk stands in the stream at its place. The hash function and the
  hexadecimal coding are parameters.
\<close>

section \<open>Errors and keys\<close>

record provider_failure =
  failure_kind :: string
  failure_http_status :: "nat option"
  failure_rpc_status :: "string option"

datatype storage_error =
    InvalidKey | ObjectNotFound | FilesystemError | MetadataPersistence
  | StreamRead string bool | Integrity
  | StorageAuthentication provider_failure | StorageUnavailable provider_failure
  | StorageProvider provider_failure

datatype object_key = ObjectKey (key_str: string)

definition validated_path :: "string \<Rightarrow> storage_error + string list" where
  "validated_path value =
     (if is_canonical_relative_path value then Ok (split_on (CHR ''/'') value) else Err InvalidKey)"

definition object_key_new ::
  "uuid_codec \<Rightarrow> workspace_id \<Rightarrow> string \<Rightarrow> string \<Rightarrow> storage_error + object_key" where
  "object_key_new c workspace stable_prefix object_name =
     and_then (validated_path stable_prefix) (\<lambda>prefix.
     and_then (validated_path object_name) (\<lambda>nm.
       Ok (ObjectKey (join_with (CHR ''/'')
         ([''workspaces'', uuid_text c (workspace_uuid workspace)] @ prefix @ nm)))))"

definition object_key_parse :: "uuid_codec \<Rightarrow> string \<Rightarrow> storage_error + object_key" where
  "object_key_parse c value =
     (if value = [] then Err InvalidKey
      else and_then (validated_path value) (\<lambda>segments.
        if length segments < 4 \<or> hd segments \<noteq> ''workspaces'' then Err InvalidKey
        else case uuid_parse c (segments ! 1) of
          None \<Rightarrow> Err InvalidKey
        | Some u \<Rightarrow> Ok (ObjectKey value)))"

definition key_segments :: "object_key \<Rightarrow> string list" where
  "key_segments k = split_on (CHR ''/'') (key_str k)"

definition has_same_workspace :: "object_key \<Rightarrow> object_key \<Rightarrow> bool" where
  "has_same_workspace a b \<longleftrightarrow>
     (if 1 < length (key_segments a) then Some (key_segments a ! 1) else None)
     = (if 1 < length (key_segments b) then Some (key_segments b ! 1) else None)"

text \<open>\<^verbatim>\<open>final_document_object_key\<close> of the finalization handler.\<close>

fun final_key_prefix :: "uuid_codec \<Rightarrow> document_identity \<Rightarrow> string" where
  "final_key_prefix c (EvidenceDocument s d) =
     ''evidence-submissions/'' @ uuid_text c (submission_uuid s) @ ''/documents/''
       @ uuid_text c (document_id_uuid d)"
| "final_key_prefix c (PolicyDocument p d) =
     ''policies/'' @ uuid_text c (policy_uuid p) @ ''/documents/'' @ uuid_text c (document_id_uuid d)"

definition final_document_object_key ::
  "uuid_codec \<Rightarrow> workspace_id \<Rightarrow> document_identity \<Rightarrow> string \<Rightarrow> storage_error + object_key" where
  "final_document_object_key c workspace identity filename =
     object_key_new c workspace (final_key_prefix c identity) filename"

section \<open>The filesystem store\<close>

record object_metadata =
  object_metadata_key :: object_key
  object_content_type :: string
  object_content_length :: u64
  object_sha256 :: string

type_synonym chunk_stream = "(storage_error + bytes) list"

record filesystem_store =
  stored_objects :: "object_key \<rightharpoonup> bytes"
  stored_metadata :: "object_key \<rightharpoonup> object_metadata option"

definition empty_store :: filesystem_store where
  "empty_store = \<lparr>stored_objects = Map.empty, stored_metadata = Map.empty\<rparr>"

record digest_codec =
  sha256 :: "bytes \<Rightarrow> bytes"
  digest_hex :: "bytes \<Rightarrow> string"

text \<open>
  \<^verbatim>\<open>write_object_stream\<close>: the bytes the file holds afterwards, and the length and digest over them or
  the error that ended the stream.
\<close>

fun write_object_stream ::
  "bytes \<Rightarrow> chunk_stream \<Rightarrow> (storage_error + unit) \<times> bytes" where
  "write_object_stream written [] = (Ok (), written)"
| "write_object_stream written (Inl e # chunks) = (Err e, written)"
| "write_object_stream written (Inr chunk # chunks) =
     (if length written + length chunk \<ge> 2 ^ 64
      then (Err (StreamRead ''object stream is too large'' True), written @ chunk)
      else write_object_stream (written @ chunk) chunks)"

record put_faults =
  parent_fails :: bool
  create_fails :: bool
  cleanup_fails :: bool
  metadata_parent_fails :: bool
  metadata_write_fails :: bool
  metadata_torn :: bool

definition no_faults :: put_faults where
  "no_faults = \<lparr>parent_fails = False, create_fails = False, cleanup_fails = False,
     metadata_parent_fails = False, metadata_write_fails = False, metadata_torn = False\<rparr>"

definition remove_object :: "bool \<Rightarrow> object_key \<Rightarrow> filesystem_store \<Rightarrow> filesystem_store" where
  "remove_object fails k s =
     (if fails then s else s\<lparr>stored_objects := (stored_objects s)(k := None)\<rparr>)"

definition put_object ::
  "digest_codec \<Rightarrow> put_faults \<Rightarrow> object_key \<Rightarrow> string \<Rightarrow> chunk_stream \<Rightarrow> filesystem_store
   \<Rightarrow> (storage_error + object_metadata) \<times> filesystem_store" where
  "put_object d io key content_type chunks s =
     (if parent_fails io then (Err FilesystemError, s)
      else if create_fails io then (Err FilesystemError, remove_object (cleanup_fails io) key s)
      else case write_object_stream [] chunks of
        (Inl e, written) \<Rightarrow>
          (Err e, remove_object (cleanup_fails io) key
             (s\<lparr>stored_objects := (stored_objects s)(key \<mapsto> written)\<rparr>))
      | (Inr u, written) \<Rightarrow>
          let s = s\<lparr>stored_objects := (stored_objects s)(key \<mapsto> written)\<rparr>;
              md = \<lparr>object_metadata_key = key, object_content_type = content_type,
                    object_content_length = of_nat (length written),
                    object_sha256 = digest_hex d (sha256 d written)\<rparr>
          in if metadata_parent_fails io then (Err FilesystemError, s)
             else if metadata_write_fails io then
               (Err FilesystemError, remove_object (cleanup_fails io) key
                  (if metadata_torn io
                   then s\<lparr>stored_metadata := (stored_metadata s)(key \<mapsto> None)\<rparr> else s))
             else (Ok md, s\<lparr>stored_metadata := (stored_metadata s)(key \<mapsto> Some md)\<rparr>))"

definition head_object ::
  "uuid_codec \<Rightarrow> object_key \<Rightarrow> filesystem_store \<Rightarrow> storage_error + object_metadata" where
  "head_object c key s =
     (case stored_metadata s key of
        None \<Rightarrow> Err ObjectNotFound
      | Some None \<Rightarrow> Err MetadataPersistence
      | Some (Some md) \<Rightarrow>
          if is_ok (object_key_parse c (key_str (object_metadata_key md))) then Ok md
          else Err MetadataPersistence)"

text \<open>A file is read in pieces of 64 KiB.\<close>

function object_chunks :: "bytes \<Rightarrow> chunk_stream" where
  "object_chunks content =
     (if content = [] then [] else Inr (take 65536 content) # object_chunks (drop 65536 content))"
  by pat_completeness auto

termination object_chunks
  by (relation "measure length") auto

declare object_chunks.simps [simp del]

definition get_object ::
  "uuid_codec \<Rightarrow> object_key \<Rightarrow> filesystem_store \<Rightarrow> storage_error + object_metadata \<times> chunk_stream" where
  "get_object c key s =
     and_then (head_object c key s) (\<lambda>md.
       case stored_objects s key of
         None \<Rightarrow> Err ObjectNotFound
       | Some content \<Rightarrow> Ok (md, object_chunks content))"

definition delete_object :: "object_key \<Rightarrow> filesystem_store \<Rightarrow> filesystem_store" where
  "delete_object key s =
     s\<lparr>stored_objects := (stored_objects s)(key := None),
       stored_metadata := (stored_metadata s)(key := None)\<rparr>"

text \<open>\<^verbatim>\<open>stream_copy_object\<close>, over the reads of one store and the writes and deletions of another.\<close>

definition stream_copy_object ::
  "(object_key \<Rightarrow> 's \<Rightarrow> storage_error + object_metadata \<times> chunk_stream)
   \<Rightarrow> (object_key \<Rightarrow> string \<Rightarrow> chunk_stream \<Rightarrow> 't \<Rightarrow> (storage_error + object_metadata) \<times> 't)
   \<Rightarrow> (object_key \<Rightarrow> 't \<Rightarrow> 't) \<Rightarrow> object_key \<Rightarrow> object_key \<Rightarrow> 's \<Rightarrow> 't
   \<Rightarrow> (storage_error + object_metadata) \<times> 't" where
  "stream_copy_object get put del source destination s t =
     (if \<not> has_same_workspace source destination then (Err InvalidKey, t)
      else case get source s of
        Inl e \<Rightarrow> (Err e, t)
      | Inr (metadata, chunks) \<Rightarrow>
          (case put destination (object_content_type metadata) chunks t of
             (Inl e, t) \<Rightarrow> (Err e, t)
           | (Inr copied, t) \<Rightarrow>
               if object_content_type copied \<noteq> object_content_type metadata
                \<or> object_content_length copied \<noteq> object_content_length metadata
                \<or> object_sha256 copied \<noteq> object_sha256 metadata
               then (Err Integrity, del destination t)
               else (Ok copied, t)))"

section \<open>Keys\<close>

lemma uuid_text_segment:
  assumes "uuid_codec_ok c"
  shows "canonical_segment (uuid_text c u)" and "CHR ''/'' \<notin> set (uuid_text c u)"
proof -
  have all: "\<forall>b \<in> set (uuid_text c u). is_lower_hex b \<or> b = CHR ''-''" and ne: "uuid_text c u \<noteq> []"
    using assms by (auto simp: uuid_codec_ok_def list_all_iff)
  have bad: "\<not> is_lower_hex (CHR ''/'')" "\<not> is_lower_hex (CHR ''.'')" "\<not> is_lower_hex (CHR 0x5C)"
    "\<not> is_lower_hex (CHR 0x00)"
    by code_simp+
  have out: "CHR ''/'' \<notin> set (uuid_text c u)" "CHR ''.'' \<notin> set (uuid_text c u)"
    "CHR 0x5C \<notin> set (uuid_text c u)" "CHR 0x00 \<notin> set (uuid_text c u)"
    using all bad by auto
  then show "CHR ''/'' \<notin> set (uuid_text c u)" by simp
  from out(2) ne have "uuid_text c u \<noteq> ''.''" "uuid_text c u \<noteq> ''..''"
    by auto
  with out ne show "canonical_segment (uuid_text c u)" by (simp add: canonical_segment_def)
qed

lemma split_join:
  "ps \<noteq> [] \<Longrightarrow> \<forall>p \<in> set ps. c \<notin> set p \<Longrightarrow> split_on c (join_with c ps) = ps"
proof (induction c ps rule: join_with.induct)
  case (3 c p q ps)
  then show ?case by (simp add: split_on_append_sep split_on_no_sep)
qed (simp_all add: split_on_no_sep)

lemma validated_path_Ok_iff:
  "validated_path v = Inr ps \<longleftrightarrow>
     ps = split_on (CHR ''/'') v \<and> list_all canonical_segment ps"
  by (auto simp: validated_path_def canonical_path_iff)

lemma object_key_new_segments:
  assumes "uuid_codec_ok c" and "object_key_new c w prefix nm = Inr k"
  shows "key_segments k = [''workspaces'', uuid_text c (workspace_uuid w)]
           @ split_on (CHR ''/'') prefix @ split_on (CHR ''/'') nm"
proof -
  let ?ps = "[''workspaces'', uuid_text c (workspace_uuid w)]
           @ split_on (CHR ''/'') prefix @ split_on (CHR ''/'') nm"
  have k: "k = ObjectKey (join_with (CHR ''/'') ?ps)"
    using assms(2) by (auto simp: object_key_new_def and_then_Ok_iff validated_path_Ok_iff)
  have "\<forall>p \<in> set ?ps. CHR ''/'' \<notin> set p"
    using uuid_text_segment(2) [OF assms(1)] by (auto dest: split_on_segments)
  then show ?thesis unfolding key_segments_def k object_key.sel by (intro split_join) simp_all
qed

lemma object_key_new_parses:
  assumes "uuid_codec_ok c" and "object_key_new c w prefix nm = Inr k"
  shows "object_key_parse c (key_str k) = Inr k"
proof -
  note segs = object_key_new_segments [OF assms]
  have "canonical_segment ''workspaces''" by code_simp
  moreover have "list_all canonical_segment (split_on (CHR ''/'') prefix)"
    "list_all canonical_segment (split_on (CHR ''/'') nm)"
    using assms(2) by (auto simp: object_key_new_def and_then_Ok_iff validated_path_Ok_iff)
  ultimately have "list_all canonical_segment (key_segments k)"
    using segs uuid_text_segment(1) [OF assms(1)] by simp
  then have path: "validated_path (key_str k) = Inr (key_segments k)"
    by (simp add: validated_path_Ok_iff key_segments_def)
  have "key_str k \<noteq> []" using segs by (auto simp: key_segments_def)
  moreover have "4 \<le> length (key_segments k)"
    unfolding segs by (cases "split_on (CHR ''/'') prefix"; cases "split_on (CHR ''/'') nm") auto
  moreover have "uuid_parse c (key_segments k ! 1) = Some (workspace_uuid w)"
    using segs assms(1) by (simp add: uuid_codec_ok_def)
  ultimately show ?thesis
    using path segs by (simp add: object_key_parse_def)
qed

lemma final_key_prefix_segments:
  assumes "uuid_codec_ok c"
  shows "split_on (CHR ''/'') (final_key_prefix c identity) =
     (case identity of
        EvidenceDocument s d \<Rightarrow> [''evidence-submissions'', uuid_text c (submission_uuid s), ''documents'',
          uuid_text c (document_id_uuid d)]
      | PolicyDocument p d \<Rightarrow> [''policies'', uuid_text c (policy_uuid p), ''documents'',
          uuid_text c (document_id_uuid d)])"
proof -
  have step: "split_on (CHR ''/'') (a @ CHR ''/'' # rest) = a # split_on (CHR ''/'') rest"
    if "CHR ''/'' \<notin> set a" for a rest
    using that by (simp add: split_on_append_sep split_on_no_sep)
  have "final_key_prefix c identity =
     (case identity of
        EvidenceDocument s d \<Rightarrow> ''evidence-submissions'' @ CHR ''/'' # uuid_text c (submission_uuid s)
          @ CHR ''/'' # ''documents'' @ CHR ''/'' # uuid_text c (document_id_uuid d)
      | PolicyDocument p d \<Rightarrow> ''policies'' @ CHR ''/'' # uuid_text c (policy_uuid p)
          @ CHR ''/'' # ''documents'' @ CHR ''/'' # uuid_text c (document_id_uuid d))"
    by (cases identity) simp_all
  moreover have "CHR ''/'' \<notin> set ''evidence-submissions''" "CHR ''/'' \<notin> set ''policies''"
    "CHR ''/'' \<notin> set ''documents''" by simp_all
  ultimately show ?thesis
    using uuid_text_segment(2) [OF assms]
    by (cases identity) (simp_all only: document_identity.case step split_on_no_sep not_False_eq_True)
qed

declare final_key_prefix.simps [simp del]

lemma uuid_text_inj: "uuid_codec_ok c \<Longrightarrow> uuid_text c u = uuid_text c v \<Longrightarrow> u = v"
  by (metis option.inject uuid_codec_ok_def)

text \<open>A document with a valid filename has a final key, and the key determines the document.\<close>

lemma final_key_exists:
  assumes "uuid_codec_ok c" and "validate_document_filename filename = Valid filename"
  obtains k where "final_document_object_key c w identity filename = Inr k"
proof -
  have "list_all canonical_segment (split_on (CHR ''/'') (final_key_prefix c identity))"
  proof -
    have "canonical_segment ''evidence-submissions''" "canonical_segment ''policies''"
      "canonical_segment ''documents''" by code_simp+
    then show ?thesis
      using uuid_text_segment(1) [OF assms(1)]
      by (cases identity) (simp_all add: final_key_prefix_segments [OF assms(1)])
  qed
  moreover have "split_on (CHR ''/'') filename = [filename]" "canonical_segment filename"
    using valid_filename_canonical [OF assms(2)] by (simp_all add: split_on_no_sep)
  ultimately have "\<exists>k. final_document_object_key c w identity filename = Inr k"
    by (simp add: final_document_object_key_def object_key_new_def validated_path_def canonical_path_iff)
  then show ?thesis using that by blast
qed

lemma final_key_inj:
  assumes "uuid_codec_ok c"
    and "final_document_object_key c w i f = Inr k" and "final_document_object_key c x j g = Inr k"
  shows "w = x \<and> i = j \<and> f = g"
proof -
  have eq: "[''workspaces'', uuid_text c (workspace_uuid w)]
           @ split_on (CHR ''/'') (final_key_prefix c i) @ split_on (CHR ''/'') f
      = [''workspaces'', uuid_text c (workspace_uuid x)]
           @ split_on (CHR ''/'') (final_key_prefix c j) @ split_on (CHR ''/'') g"
    using object_key_new_segments [OF assms(1)] assms(2,3)
    unfolding final_document_object_key_def by metis
  have "length (split_on (CHR ''/'') (final_key_prefix c z)) = 4" for z
    by (cases z) (simp_all add: final_key_prefix_segments [OF assms(1)])
  with eq have prefix: "split_on (CHR ''/'') (final_key_prefix c i) = split_on (CHR ''/'') (final_key_prefix c j)"
    and nm: "split_on (CHR ''/'') f = split_on (CHR ''/'') g"
    and ws: "uuid_text c (workspace_uuid w) = uuid_text c (workspace_uuid x)"
    by simp_all
  from nm have "f = g" by (metis join_split_on)
  moreover have "w = x" using uuid_text_inj [OF assms(1) ws] by (rule workspace_id.expand)
  moreover have "i = j"
    using prefix uuid_text_inj [OF assms(1)]
    by (cases i; cases j)
      (auto simp: final_key_prefix_segments [OF assms(1)]
        intro: evidence_submission_id.expand policy_id.expand document_id.expand)
  ultimately show ?thesis by simp
qed

section \<open>Stores\<close>

definition stream_bytes :: "chunk_stream \<Rightarrow> bytes" where
  "stream_bytes chunks = concat (map (\<lambda>r. case r of Inl e \<Rightarrow> [] | Inr b \<Rightarrow> b) chunks)"

lemma stream_bytes_simps [simp]:
  "stream_bytes [] = []" "stream_bytes (Inr b # cs) = b @ stream_bytes cs"
  "stream_bytes (Inl e # cs) = stream_bytes cs"
  by (simp_all add: stream_bytes_def)

lemma write_object_stream_Ok:
  "write_object_stream written chunks = (Inr u, out) \<Longrightarrow>
     list_all is_ok chunks \<and> out = written @ stream_bytes chunks
     \<and> (length written < 2 ^ 64 \<longrightarrow> length out < 2 ^ 64)"
proof (induction written chunks rule: write_object_stream.induct)
  case (3 written chunk chunks)
  have "\<not> length written + length chunk \<ge> 2 ^ 64"
    using "3.prems" by (cases "length written + length chunk \<ge> 2 ^ 64") simp_all
  with 3 show ?case by auto
qed auto

lemma write_object_stream_total:
  "list_all is_ok chunks \<Longrightarrow> length written + length (stream_bytes chunks) < 2 ^ 64 \<Longrightarrow>
     write_object_stream written chunks = (Inr (), written @ stream_bytes chunks)"
  by (induction written chunks rule: write_object_stream.induct) simp_all

lemma object_chunks_Nil [simp]: "object_chunks [] = []"
  by (simp add: object_chunks.simps)

lemma object_chunks_content: "list_all is_ok (object_chunks b) \<and> stream_bytes (object_chunks b) = b"
proof (induction b rule: object_chunks.induct)
  case (1 b)
  then show ?case by (cases "b = []") (simp_all add: object_chunks.simps [of b])
qed

text \<open>
  What the copy relies on: what was put is what is read, under its own key only, and a deleted
  object is gone. Inside, the copy itself: it succeeds exactly with the source's content.
\<close>

locale object_store =
  fixes get :: "object_key \<Rightarrow> 's \<Rightarrow> storage_error + object_metadata \<times> chunk_stream"
    and put :: "object_key \<Rightarrow> string \<Rightarrow> chunk_stream \<Rightarrow> 's \<Rightarrow> (storage_error + object_metadata) \<times> 's"
    and del :: "object_key \<Rightarrow> 's \<Rightarrow> 's"
    and good :: "object_key \<Rightarrow> bool"
  assumes put_get:
    "put k ct chunks s = (Inr md, s') \<Longrightarrow> good k \<Longrightarrow>
       \<exists>cs. get k s' = Inr (md, cs) \<and> stream_bytes cs = stream_bytes chunks
         \<and> object_metadata_key md = k \<and> object_content_type md = ct"
    and put_other: "k' \<noteq> k \<Longrightarrow> get k' (snd (put k ct chunks s)) = get k' s"
    and del_get: "get k (del k s) = Inl ObjectNotFound"
    and del_other: "k' \<noteq> k \<Longrightarrow> get k' (del k s) = get k' s"
begin

lemma copy_Ok:
  assumes "stream_copy_object get put del source destination s t = (Inr md, t')" and "good destination"
  shows "\<exists>md0 cs cs'. get source s = Inr (md0, cs) \<and> get destination t' = Inr (md, cs')
     \<and> stream_bytes cs' = stream_bytes cs \<and> object_metadata_key md = destination
     \<and> object_content_type md = object_content_type md0
     \<and> object_content_length md = object_content_length md0 \<and> object_sha256 md = object_sha256 md0
     \<and> has_same_workspace source destination"
proof -
  from assms(1) obtain md0 cs where src: "get source s = Inr (md0, cs)"
    and put: "put destination (object_content_type md0) cs t = (Inr md, t')"
    and rest: "has_same_workspace source destination" "object_content_type md = object_content_type md0"
      "object_content_length md = object_content_length md0" "object_sha256 md = object_sha256 md0"
    by (auto simp: stream_copy_object_def split: if_splits sum.splits prod.splits)
  from put_get [OF put assms(2)] src rest show ?thesis by blast
qed

lemma copy_other:
  "k \<noteq> destination \<Longrightarrow>
     get k (snd (stream_copy_object get put del source destination s t)) = get k t"
  using put_other [of k destination] del_other [of k destination]
  by (auto simp: stream_copy_object_def split: sum.splits prod.splits) (metis snd_conv)+

lemma copy_mismatch_removed:
  "stream_copy_object get put del source destination s t = (Inl Integrity, t') \<Longrightarrow>
     get source s \<noteq> Inl Integrity \<Longrightarrow>
     (\<And>ct cs. fst (put destination ct cs t) \<noteq> Inl Integrity) \<Longrightarrow>
     get destination t' = Inl ObjectNotFound"
  by (auto simp: stream_copy_object_def del_get split: if_splits sum.splits prod.splits) (metis fst_conv)+

end

definition parsed_key :: "uuid_codec \<Rightarrow> object_key \<Rightarrow> bool" where
  "parsed_key c k \<longleftrightarrow> object_key_parse c (key_str k) = Inr k"

lemma put_object_Ok:
  assumes "put_object d io k ct chunks s = (Inr md, s')"
  shows "list_all is_ok chunks \<and> length (stream_bytes chunks) < 2 ^ 64
     \<and> md = \<lparr>object_metadata_key = k, object_content_type = ct,
            object_content_length = of_nat (length (stream_bytes chunks)),
            object_sha256 = digest_hex d (sha256 d (stream_bytes chunks))\<rparr>
     \<and> s' = s\<lparr>stored_objects := (stored_objects s)(k \<mapsto> stream_bytes chunks),
              stored_metadata := (stored_metadata s)(k \<mapsto> Some md)\<rparr>"
proof -
  from assms obtain u out where w: "write_object_stream [] chunks = (Inr u, out)"
    by (auto simp: put_object_def Let_def split: if_splits prod.splits sum.splits)
  from write_object_stream_Ok [OF w] have "list_all is_ok chunks" "out = stream_bytes chunks"
    "length out < 2 ^ 64" by auto
  with assms w show ?thesis
    by (auto simp: put_object_def Let_def split: if_splits)
qed

lemma put_object_other:
  "k' \<noteq> k \<Longrightarrow> get_object c k' (snd (put_object d io k ct chunks s)) = get_object c k' s"
  by (auto simp: put_object_def get_object_def head_object_def remove_object_def Let_def
      split: prod.splits sum.splits option.splits if_splits)

interpretation filesystem: object_store "get_object c" "put_object d io" delete_object "parsed_key c"
  for c d io
proof
  fix k ct chunks s md s'
  assume "put_object d io k ct chunks s = (Inr md, s')" and "parsed_key c k"
  with put_object_Ok [of d io k ct chunks s md s'] object_chunks_content
  show "\<exists>cs. get_object c k s' = Inr (md, cs) \<and> stream_bytes cs = stream_bytes chunks
      \<and> object_metadata_key md = k \<and> object_content_type md = ct"
    by (auto simp: get_object_def head_object_def parsed_key_def)
next
  fix k' k :: object_key and ct chunks and s :: filesystem_store
  assume "k' \<noteq> k"
  then show "get_object c k' (snd (put_object d io k ct chunks s)) = get_object c k' s"
    by (rule put_object_other)
qed (simp_all add: delete_object_def get_object_def head_object_def)

section \<open>Properties\<close>

text \<open>
  The key a document is finalized under: a document with a valid filename always has one, the key
  is accepted when it is read back from the database, and it determines the workspace, the document
  and the filename, so that no two documents are ever promoted to the same object.
\<close>

theorem final_keys_separate_documents:
  assumes "uuid_codec_ok c" and "validate_document_filename f = Valid f"
    and "validate_document_filename g = Valid g"
  shows "\<exists>k l. final_document_object_key c w i f = Inr k \<and> final_document_object_key c x j g = Inr l
     \<and> object_key_parse c (key_str k) = Inr k
     \<and> (k = l \<longleftrightarrow> w = x \<and> i = j \<and> f = g)"
proof -
  obtain k where k: "final_document_object_key c w i f = Inr k"
    by (rule final_key_exists [OF assms(1,2)])
  obtain l where l: "final_document_object_key c x j g = Inr l"
    by (rule final_key_exists [OF assms(1,3)])
  have "object_key_parse c (key_str k) = Inr k"
    using object_key_new_parses [OF assms(1)] k by (simp add: final_document_object_key_def)
  with k l final_key_inj [OF assms(1)] show ?thesis by (metis sum.inject(2))
qed

theorem final_keys_separate_documents_witness:
  "\<exists>k l. final_document_object_key simple_uuid_codec (WorkspaceId 1) (PolicyDocument (PolicyId 2) (DocumentId 3)) ''a.pdf'' = Inr k
     \<and> final_document_object_key simple_uuid_codec (WorkspaceId 1) (PolicyDocument (PolicyId 2) (DocumentId 4)) ''a.pdf'' = Inr l
     \<and> k \<noteq> l"
proof -
  have "validate_document_filename ''a.pdf'' = Valid ''a.pdf''" by code_simp
  from final_keys_separate_documents [OF simple_uuid_codec_ok this this, of "WorkspaceId 1"
    "PolicyDocument (PolicyId 2) (DocumentId 3)" "WorkspaceId 1" "PolicyDocument (PolicyId 2) (DocumentId 4)"]
  show ?thesis by auto
qed



end
