(* ===== verification/Outbox.thy ===== *)
theory Outbox
  imports Messaging Persistence "HOL-Library.Product_Lexorder"
begin

text \<open>
  The outbox table (\<^verbatim>\<open>src/persistence/outbox.rs\<close>) and the dequeuer that publishes it
  (\<^verbatim>\<open>src/dequeuer/mod.rs\<close>). A published message carries a JSON value; its text is the business of the
  JSON library on both sides. The publisher is a parameter, a function on its own state that
  answers with a message id or an error. Every statement the dequeuer runs may fail, which ends its
  pass; \<open>db_ok\<close> says for which rows it does not. \<open>outbox_step\<close> is the interleaving of appends,
  any number of dequeuers with rows they listed earlier, and crashes.
\<close>

section \<open>The table\<close>

record outbox_message =
  ob_id :: i64
  ob_topic :: string
  ob_event_type :: string
  ob_aggregate_type :: string
  ob_aggregate_id :: string
  ob_payload :: json
  ob_request_id :: "uuid option"
  ob_message_kind :: integration_message_kind
  ob_message_type :: string
  ob_message_version :: int
  ob_message_id :: uuid
  ob_subject :: string
  ob_correlation_id :: "uuid option"
  ob_causation_id :: "uuid option"
  ob_attempt_count :: int
  ob_next_available_at :: datetime
  ob_created_at :: datetime

record new_outbox_message =
  new_topic :: string
  new_message :: integration_message

record outbox_table =
  outbox_rows :: "outbox_message list"
  outbox_next_id :: i64

fun legacy_event_type :: "integration_message \<Rightarrow> string" where
  "legacy_event_type (ScanDocument md p) = legacy_document_scan_requested"
| "legacy_event_type (FinalizeDocument md p) = legacy_document_finalization_requested"
| "legacy_event_type (SendWorkspaceInvitation md p) = ''SendWorkspaceInvitation''"

definition parse_message_kind :: "string \<Rightarrow> repository_error + integration_message_kind" where
  "parse_message_kind value =
     (if value = ''command'' then Ok CommandKind
      else if value = ''event'' then Ok EventKind
      else Err (InvariantViolation ''persisted outbox message kind must be valid''))"

text \<open>The row of a new message; the id is the next of the sequence, the times are the transaction's.\<close>

definition outbox_row ::
  "uuid_codec \<Rightarrow> i64 \<Rightarrow> datetime \<Rightarrow> new_outbox_message \<Rightarrow> outbox_message" where
  "outbox_row c i now m =
     (let message = new_message m; md = message_metadata message in
      \<lparr>ob_id = i, ob_topic = new_topic m, ob_event_type = legacy_event_type message,
       ob_aggregate_type = payload_aggregate_type (message_payload message),
       ob_aggregate_id = md_subject md, ob_payload = payload_to_json c (message_payload message),
       ob_request_id = md_correlation_id md, ob_message_kind = message_kind message,
       ob_message_type = message_type message, ob_message_version = message_version message,
       ob_message_id = md_message_id md, ob_subject = md_subject md,
       ob_correlation_id = md_correlation_id md, ob_causation_id = md_causation_id md,
       ob_attempt_count = 0, ob_next_available_at = now, ob_created_at = now\<rparr>)"

definition append_outbox_message ::
  "uuid_codec \<Rightarrow> datetime \<Rightarrow> new_outbox_message \<Rightarrow> outbox_table \<Rightarrow> outbox_message \<times> outbox_table" where
  "append_outbox_message c now m t =
     (let row = outbox_row c (outbox_next_id t) now m in
      (row, t\<lparr>outbox_rows := outbox_rows t @ [row], outbox_next_id := outbox_next_id t + 1\<rparr>))"

definition due_order :: "outbox_message \<Rightarrow> datetime \<times> i64" where
  "due_order r = (ob_next_available_at r, ob_id r)"

definition list_due_outbox_messages :: "datetime \<Rightarrow> nat \<Rightarrow> outbox_table \<Rightarrow> outbox_message list" where
  "list_due_outbox_messages now limit t =
     take limit (sort_key due_order (filter (\<lambda>r. ob_next_available_at r \<le> now) (outbox_rows t)))"

definition list_exhausted_outbox_messages :: "int \<Rightarrow> nat \<Rightarrow> outbox_table \<Rightarrow> outbox_message list" where
  "list_exhausted_outbox_messages max_attempts limit t =
     take limit (sort_key due_order (filter (\<lambda>r. ob_attempt_count r \<ge> max_attempts) (outbox_rows t)))"

definition delete_outbox_message :: "i64 \<Rightarrow> outbox_table \<Rightarrow> bool \<times> outbox_table" where
  "delete_outbox_message i t =
     (list_ex (\<lambda>r. ob_id r = i) (outbox_rows t),
      t\<lparr>outbox_rows := delete_rows (\<lambda>r. ob_id r = i) (outbox_rows t)\<rparr>)"

text \<open>The update fails where it would take the count past the range of its column.\<close>

definition record_outbox_publish_failure ::
  "i64 \<Rightarrow> datetime \<Rightarrow> outbox_table \<Rightarrow> repository_error + bool \<times> outbox_table" where
  "record_outbox_publish_failure i next t =
     (if list_ex (\<lambda>r. ob_id r = i \<and> ob_attempt_count r \<ge> 2 ^ 31 - 1) (outbox_rows t)
      then Err (Database (DbError ''22003'' None))
      else Ok (list_ex (\<lambda>r. ob_id r = i) (outbox_rows t),
        t\<lparr>outbox_rows := map (\<lambda>r. if ob_id r = i
            then r\<lparr>ob_attempt_count := ob_attempt_count r + 1, ob_next_available_at := next\<rparr> else r)
          (outbox_rows t)\<rparr>))"

section \<open>The dequeuer\<close>

record dequeuer_config =
  batch_size :: nat
  max_attempts :: int
  initial_retry_delay :: duration
  max_retry_delay :: duration

definition default_dequeuer_config :: dequeuer_config where
  "default_dequeuer_config =
     \<lparr>batch_size = 100, max_attempts = 10, initial_retry_delay = nanos_per_second,
      max_retry_delay = 300 * nanos_per_second\<rparr>"

text \<open>
  The product of a duration and an \<^verbatim>\<open>i32\<close> panics past \<^verbatim>\<open>i64::MAX\<close> milliseconds. The exponent is
  clamped so that the power of two fits an \<^verbatim>\<open>i32\<close>.
\<close>

definition duration_mul :: "duration \<Rightarrow> int \<Rightarrow> duration option" where
  "duration_mul d n = (if \<bar>d * n\<bar> \<le> i64_max * 1000000 then Some (d * n) else None)"

definition retry_delay :: "int \<Rightarrow> duration \<Rightarrow> duration \<Rightarrow> duration option" where
  "retry_delay attempt_count initial maximum =
     map_option (\<lambda>d. min d maximum)
       (duration_mul initial (2 ^ nat (max 0 (min attempt_count 30))))"

definition outbound_message :: "uuid_codec \<Rightarrow> outbox_message \<Rightarrow> json" where
  "outbound_message c row =
     (if ob_message_version row = 0 then
        JObj [(''outbox_message_id'', JStr (show_int (ob_id row))),
              (''event_type'', JStr (ob_event_type row)),
              (''aggregate_type'', JStr (ob_aggregate_type row)),
              (''aggregate_id'', JStr (ob_aggregate_id row)),
              (''request_id'', json_of_opt_uuid c (ob_request_id row)),
              (''payload'', ob_payload row)]
      else
        JObj [(''message_id'', json_of_uuid c (ob_message_id row)),
              (''kind'', JStr (message_kind_as_str (ob_message_kind row))),
              (''type'', JStr (ob_message_type row)),
              (''version'', JInt (ob_message_version row)),
              (''subject'', JStr (ob_subject row)),
              (''correlation_id'', json_of_opt_uuid c (ob_correlation_id row)),
              (''causation_id'', json_of_opt_uuid c (ob_causation_id row)),
              (''payload'', ob_payload row)])"

datatype pubsub_error =
  PublishError string | CredentialsError string | ConnectionError string | ProvisionError string
| EmulatorRequired

fun pubsub_error_text :: "pubsub_error \<Rightarrow> string" where
  "pubsub_error_text (PublishError s) = ''publish failed: '' @ s"
| "pubsub_error_text (CredentialsError s) =
     ''google application default credentials are not available: '' @ s"
| "pubsub_error_text (ConnectionError s) = ''pubsub client connection failed: '' @ s"
| "pubsub_error_text (ProvisionError s) = ''resource provisioning failed: '' @ s"
| "pubsub_error_text EmulatorRequired =
     ''emulator provisioning needs the environment variable PUBSUB_EMULATOR_HOST; Terraform owns the production topics and subscriptions''"

type_synonym 'p publisher = "string \<Rightarrow> json \<Rightarrow> 'p \<Rightarrow> (pubsub_error + string) \<times> 'p"

datatype publish_outcome = Published | PublishFailed string datetime bool

text \<open>An \<^verbatim>\<open>i32\<close> increment wraps.\<close>

definition i32_succ :: "int \<Rightarrow> int" where
  "i32_succ n = (if n = 2 ^ 31 - 1 then - (2 ^ 31) else n + 1)"

text \<open>\<^verbatim>\<open>publish_outbox_row\<close>; the outer option is none where the delay panics.\<close>

definition publish_outbox_row ::
  "uuid_codec \<Rightarrow> 'p publisher \<Rightarrow> dequeuer_config \<Rightarrow> outbox_message \<Rightarrow> datetime \<Rightarrow> 'p
   \<Rightarrow> publish_outcome option \<times> 'p" where
  "publish_outbox_row c publish config row now p =
     (case publish (ob_topic row) (outbound_message c row) p of
        (Inr message_id, p) \<Rightarrow> (Some Published, p)
      | (Inl error, p) \<Rightarrow>
          let exhausted = i32_succ (ob_attempt_count row) \<ge> max_attempts config in
          (if exhausted then Some (PublishFailed (pubsub_error_text error) (now + max_retry_delay config) exhausted)
           else map_option (\<lambda>d. PublishFailed (pubsub_error_text error) (now + d) exhausted)
             (retry_delay (ob_attempt_count row) (initial_retry_delay config)
               (max_retry_delay config)), p))"

datatype dequeuer_error = DequeuerRepository repository_error | DequeuerPanic

definition publish_row ::
  "uuid_codec \<Rightarrow> 'p publisher \<Rightarrow> dequeuer_config \<Rightarrow> (i64 \<Rightarrow> bool) \<Rightarrow> datetime \<Rightarrow> outbox_message
   \<Rightarrow> 'p \<times> outbox_table \<Rightarrow> (dequeuer_error + bool) \<times> 'p \<times> outbox_table" where
  "publish_row c publish config db_ok now row = (\<lambda>(p, t).
     case publish_outbox_row c publish config row now p of
       (None, p) \<Rightarrow> (Err DequeuerPanic, p, t)
     | (Some Published, p) \<Rightarrow>
         if db_ok (ob_id row) then (Ok True, p, snd (delete_outbox_message (ob_id row) t))
         else (Err (DequeuerRepository PoolFailure), p, t)
     | (Some (PublishFailed e next exhausted), p) \<Rightarrow>
         if db_ok (ob_id row) then
           (case record_outbox_publish_failure (ob_id row) next t of
              Inl e \<Rightarrow> (Err (DequeuerRepository e), p, t)
            | Inr (_, t) \<Rightarrow> (Ok False, p, t))
         else (Err (DequeuerRepository PoolFailure), p, t))"

fun publish_rows ::
  "uuid_codec \<Rightarrow> 'p publisher \<Rightarrow> dequeuer_config \<Rightarrow> (i64 \<Rightarrow> bool) \<Rightarrow> datetime \<Rightarrow> outbox_message list
   \<Rightarrow> nat \<Rightarrow> 'p \<times> outbox_table \<Rightarrow> (dequeuer_error + nat) \<times> 'p \<times> outbox_table" where
  "publish_rows c publish config db_ok now [] published s = (Ok published, s)"
| "publish_rows c publish config db_ok now (row # rows) published s =
     (case publish_row c publish config db_ok now row s of
        (Inl e, s) \<Rightarrow> (Err e, s)
      | (Inr ok, s) \<Rightarrow>
          publish_rows c publish config db_ok now rows (if ok then Suc published else published) s)"

definition run_once ::
  "uuid_codec \<Rightarrow> 'p publisher \<Rightarrow> dequeuer_config \<Rightarrow> (i64 \<Rightarrow> bool) \<Rightarrow> datetime \<Rightarrow> 'p \<times> outbox_table
   \<Rightarrow> (dequeuer_error + nat) \<times> 'p \<times> outbox_table" where
  "run_once c publish config db_ok now s =
     publish_rows c publish config db_ok now
       (list_due_outbox_messages now (batch_size config) (snd s)) 0 s"

section \<open>Delays\<close>

lemma retry_delay_eq:
  assumes "0 \<le> initial" and "initial * 2 ^ 30 \<le> i64_max * 1000000"
  shows "retry_delay n initial maximum = Some (min (initial * 2 ^ nat (max 0 (min n 30))) maximum)"
proof -
  let ?e = "nat (max 0 (min n 30))"
  have "(2 :: int) ^ ?e \<le> 2 ^ 30" by (rule power_increasing) simp_all
  then have "initial * 2 ^ ?e \<le> initial * 2 ^ 30" using assms(1) by (rule mult_left_mono)
  with assms show ?thesis by (simp add: retry_delay_def duration_mul_def)
qed

section \<open>Rows\<close>

text \<open>What a row says, apart from the bookkeeping of its attempts.\<close>

definition row_content :: "outbox_message \<Rightarrow> outbox_message" where
  "row_content r = r\<lparr>ob_attempt_count := 0, ob_next_available_at := 0\<rparr>"

lemma outbound_content: "row_content r = row_content s \<Longrightarrow> outbound_message c r = outbound_message c s"
  by (cases r; cases s) (simp add: row_content_def outbound_message_def)

lemma row_content_id: "row_content r = row_content s \<Longrightarrow> ob_id r = ob_id s"
  by (cases r; cases s) (simp add: row_content_def)

lemma row_content_topic: "row_content r = row_content s \<Longrightarrow> ob_topic r = ob_topic s"
  by (cases r; cases s) (simp add: row_content_def)

lemma outbound_of_row:
  "outbound_message c (outbox_row c i now m) = to_envelope c (new_message m)"
  by (simp add: outbound_message_def outbox_row_def to_envelope_def Let_def message_version_def
      current_message_version_def)

lemma failure_rows:
  assumes "record_outbox_publish_failure i next t = Inr (b, t')"
  shows "map row_content (outbox_rows t') = map row_content (outbox_rows t)"
    and "outbox_next_id t' = outbox_next_id t"
  using assms by (auto simp: record_outbox_publish_failure_def row_content_def split: if_splits)

definition wf_outbox :: "outbox_table \<Rightarrow> bool" where
  "wf_outbox t \<longleftrightarrow> distinct (map ob_id (outbox_rows t))
     \<and> (\<forall>r \<in> set (outbox_rows t). ob_id r < outbox_next_id t)"

lemma append_wf:
  "wf_outbox t \<Longrightarrow> wf_outbox (snd (append_outbox_message c now m t))"
  by (auto simp: wf_outbox_def append_outbox_message_def Let_def outbox_row_def)

text \<open>Rows of one id replaced by others, which is what deleting and updating by id do.\<close>

definition replace_id ::
  "i64 \<Rightarrow> (outbox_message \<Rightarrow> outbox_message list) \<Rightarrow> outbox_message list \<Rightarrow> outbox_message list" where
  "replace_id i f rows = concat (map (\<lambda>r. if ob_id r = i then f r else [r]) rows)"

lemma replace_id_simps [simp]:
  "replace_id i f [] = []"
  "replace_id i f (r # rows) = (if ob_id r = i then f r else [r]) @ replace_id i f rows"
  by (simp_all add: replace_id_def)

lemma replace_id_concat:
  "replace_id i f (concat (map g rows)) = concat (map (\<lambda>r. replace_id i f (g r)) rows)"
  by (induction rows) (simp_all add: replace_id_def)

lemma delete_replaces:
  "snd (delete_outbox_message i t) = t\<lparr>outbox_rows := replace_id i (\<lambda>r. []) (outbox_rows t)\<rparr>"
proof -
  have "delete_rows (\<lambda>r. ob_id r = i) rows = replace_id i (\<lambda>r. []) rows" for rows
    by (induction rows) (simp_all add: delete_rows_def)
  then show ?thesis by (simp add: delete_outbox_message_def)
qed

definition retried :: "datetime \<Rightarrow> outbox_message \<Rightarrow> outbox_message" where
  "retried next r = r\<lparr>ob_attempt_count := ob_attempt_count r + 1, ob_next_available_at := next\<rparr>"

lemma failure_replaces:
  assumes "\<forall>r \<in> set (outbox_rows t). ob_id r = i \<longrightarrow> ob_attempt_count r < 2 ^ 31 - 1"
  shows "\<exists>b. record_outbox_publish_failure i next t =
     Inr (b, t\<lparr>outbox_rows := replace_id i (\<lambda>r. [retried next r]) (outbox_rows t)\<rparr>)"
proof -
  have "map (\<lambda>r. if ob_id r = i
        then r\<lparr>ob_attempt_count := ob_attempt_count r + 1, ob_next_available_at := next\<rparr> else r) rows
      = replace_id i (\<lambda>r. [retried next r]) rows" for rows
    by (induction rows) (simp_all add: retried_def)
  moreover have "\<not> list_ex (\<lambda>r. ob_id r = i \<and> ob_attempt_count r \<ge> 2 ^ 31 - 1) (outbox_rows t)"
    using assms by (auto simp: list_ex_iff)
  ultimately show ?thesis by (simp add: record_outbox_publish_failure_def)
qed

section \<open>One pass\<close>

text \<open>A publisher that accepts the messages of a predicate, and keeps what it accepted.\<close>

definition recording :: "(json \<Rightarrow> bool) \<Rightarrow> (string \<times> json) list publisher" where
  "recording P topic message sent =
     (if P message then (Ok ''id'', sent @ [(topic, message)])
      else (Err (PublishError ''refused''), sent))"

text \<open>When a refused row is tried again.\<close>

definition next_attempt_at :: "dequeuer_config \<Rightarrow> datetime \<Rightarrow> outbox_message \<Rightarrow> datetime" where
  "next_attempt_at config now r =
     (if ob_attempt_count r + 1 \<ge> max_attempts config then now + max_retry_delay config
      else now + min (initial_retry_delay config * 2 ^ nat (max 0 (min (ob_attempt_count r) 30)))
                   (max_retry_delay config))"

definition settled ::
  "uuid_codec \<Rightarrow> (json \<Rightarrow> bool) \<Rightarrow> dequeuer_config \<Rightarrow> datetime \<Rightarrow> outbox_message \<Rightarrow> outbox_message list" where
  "settled c P config now r =
     (if P (outbound_message c r) then [] else [retried (next_attempt_at config now r) r])"

definition sane_config :: "dequeuer_config \<Rightarrow> bool" where
  "sane_config config \<longleftrightarrow> 0 \<le> initial_retry_delay config
     \<and> initial_retry_delay config * 2 ^ 30 \<le> i64_max * 1000000"

lemma publish_row_recording:
  assumes "sane_config config"
    and "\<forall>r \<in> set (outbox_rows t). ob_id r = ob_id row \<longrightarrow> ob_attempt_count r < 2 ^ 31 - 1"
    and "row \<in> set (outbox_rows t)"
  shows "publish_row c (recording P) config (\<lambda>_. True) now row (sent, t) =
     (Inr (P (outbound_message c row)),
      if P (outbound_message c row) then sent @ [(ob_topic row, outbound_message c row)] else sent,
      t\<lparr>outbox_rows := replace_id (ob_id row)
          (if P (outbound_message c row) then (\<lambda>r. []) else (\<lambda>r. [retried (next_attempt_at config now row) r]))
          (outbox_rows t)\<rparr>)"
proof (cases "P (outbound_message c row)")
  case True
  then show ?thesis
    by (simp add: publish_row_def publish_outbox_row_def recording_def delete_replaces)
next
  case False
  have succ: "i32_succ (ob_attempt_count row) = ob_attempt_count row + 1"
    using assms(2,3) by (auto simp: i32_succ_def)
  have delay: "retry_delay n (initial_retry_delay config) m
      = Some (min (initial_retry_delay config * 2 ^ nat (max 0 (min n 30))) m)" for n m
    using assms(1) by (intro retry_delay_eq) (simp_all add: sane_config_def)
  from failure_replaces [OF assms(2), of "next_attempt_at config now row"] obtain b where
    "record_outbox_publish_failure (ob_id row) (next_attempt_at config now row) t =
       Inr (b, t\<lparr>outbox_rows := replace_id (ob_id row) (\<lambda>r. [retried (next_attempt_at config now row) r]) (outbox_rows t)\<rparr>)" ..
  moreover have "\<exists>b. publish_outbox_row c (recording P) config row now sent =
      (Some (PublishFailed (pubsub_error_text (PublishError ''refused'')) (next_attempt_at config now row) b), sent)"
    using False by (auto simp: publish_outbox_row_def recording_def succ delay Let_def next_attempt_at_def)
  ultimately show ?thesis using False by (auto simp: publish_row_def)
qed

lemma replace_id_fresh: "i \<notin> ob_id ` set rows \<Longrightarrow> replace_id i f rows = rows"
  by (induction rows) auto

text \<open>The rows of a list settled in a table, each by what the pass does to it.\<close>

definition settle_all ::
  "uuid_codec \<Rightarrow> (json \<Rightarrow> bool) \<Rightarrow> dequeuer_config \<Rightarrow> datetime \<Rightarrow> outbox_message set
   \<Rightarrow> outbox_message list \<Rightarrow> outbox_message list" where
  "settle_all c P config now due rows =
     concat (map (\<lambda>r. if r \<in> due then settled c P config now r else [r]) rows)"

lemma settled_ids: "x \<in> set (settled c P config now r) \<Longrightarrow> ob_id x = ob_id r"
  by (auto simp: settled_def retried_def split: if_splits)

lemma settle_one_more:
  assumes "row \<in> set rows" and "row \<notin> due" and "distinct (map ob_id rows)" and "due \<subseteq> set rows"
  shows "replace_id (ob_id row)
       (if P (outbound_message c row) then (\<lambda>r. []) else (\<lambda>r. [retried (next_attempt_at config now row) r]))
       (settle_all c P config now due rows)
     = settle_all c P config now (insert row due) rows"
    (is "replace_id ?i ?f _ = _")
proof -
  have "replace_id ?i ?f (if r \<in> due then settled c P config now r else [r])
      = (if r \<in> insert row due then settled c P config now r else [r])" if r: "r \<in> set rows" for r
  proof (cases "r = row")
    case True
    with assms(2) show ?thesis by (simp add: settled_def)
  next
    case False
    then have "ob_id r \<noteq> ?i" using r assms(1,3) by (auto simp: distinct_map dest: inj_onD)
    then show ?thesis using False settled_ids [of _ c P config now r]
      by (auto intro!: replace_id_fresh)
  qed
  then show ?thesis
    unfolding settle_all_def replace_id_concat by (intro arg_cong [where f = concat] map_cong refl) simp
qed

lemma publish_rows_recording:
  assumes "sane_config config" and "distinct (map ob_id rows)"
    and "\<forall>r \<in> set rows. ob_attempt_count r < 2 ^ 31 - 1" and "distinct todo"
    and "set todo \<subseteq> set rows" and "past \<subseteq> set rows" and "set todo \<inter> past = {}"
    and "outbox_rows t = settle_all c P config now past rows"
  shows "publish_rows c (recording P) config (\<lambda>_. True) now todo n (sent, t) =
     (Inr (n + length (filter (\<lambda>r. P (outbound_message c r)) todo)),
      sent @ map (\<lambda>r. (ob_topic r, outbound_message c r)) (filter (\<lambda>r. P (outbound_message c r)) todo),
      t\<lparr>outbox_rows := settle_all c P config now (past \<union> set todo) rows\<rparr>)"
  using assms
proof (induction todo arbitrary: past n sent t)
  case Nil
  then show ?case by simp
next
  case (Cons row todo)
  have row: "row \<in> set rows" "row \<notin> past" using Cons.prems by auto
  have mem: "row \<in> set (outbox_rows t)" using row Cons.prems(8) by (auto simp: settle_all_def)
  have less: "\<forall>r \<in> set (outbox_rows t). ob_id r = ob_id row \<longrightarrow> ob_attempt_count r < 2 ^ 31 - 1"
  proof (intro ballI impI)
    fix x
    assume x: "x \<in> set (outbox_rows t)" "ob_id x = ob_id row"
    then obtain r where r: "r \<in> set rows"
      "x \<in> set (if r \<in> past then settled c P config now r else [r])"
      using Cons.prems(8) by (auto simp: settle_all_def)
    then have "ob_id x = ob_id r" using settled_ids by (auto split: if_splits)
    then have "r = row" using x(2) r(1) row(1) Cons.prems(2) by (auto simp: distinct_map dest: inj_onD)
    with r row(2) Cons.prems(3) show "ob_attempt_count x < 2 ^ 31 - 1" by simp
  qed
  let ?t = "t\<lparr>outbox_rows := settle_all c P config now (insert row past) rows\<rparr>"
  have step: "publish_row c (recording P) config (\<lambda>_. True) now row (sent, t) =
     (Inr (P (outbound_message c row)),
      if P (outbound_message c row) then sent @ [(ob_topic row, outbound_message c row)] else sent, ?t)"
    using publish_row_recording [OF Cons.prems(1) less mem]
      settle_one_more [OF row Cons.prems(2,6)] Cons.prems(8) by simp
  show ?case
    using Cons.prems
    by (simp add: step Cons.IH [of "insert row past" ?t] insert_commute)
qed

section \<open>Interleavings\<close>

text \<open>
  The world around the table: what the publisher accepted, the rows that dequeuers listed and have
  not settled yet, and every row that was ever appended. A publisher may report a failure for a
  message it accepted, never the converse.
\<close>

record outbox_world =
  world_table :: outbox_table
  world_sent :: "(string \<times> json) list"
  world_held :: "outbox_message list"
  world_history :: "outbox_message list"

definition answering :: "pubsub_error + string \<Rightarrow> bool \<Rightarrow> (string \<times> json) list publisher" where
  "answering answer accepted topic message sent =
     (answer, if accepted \<or> is_ok answer then sent @ [(topic, message)] else sent)"

inductive outbox_step :: "uuid_codec \<Rightarrow> dequeuer_config \<Rightarrow> outbox_world \<Rightarrow> outbox_world \<Rightarrow> bool"
  for c config where
  append: "append_outbox_message c now m (world_table w) = (row, t) \<Longrightarrow>
     outbox_step c config w
       (w\<lparr>world_table := t, world_history := world_history w @ [row]\<rparr>)"
| poll: "outbox_step c config w
     (w\<lparr>world_held := world_held w
         @ list_due_outbox_messages now (batch_size config) (world_table w)\<rparr>)"
| publish: "row \<in> set (world_held w) \<Longrightarrow>
     publish_row c (answering answer accepted) config db_ok now row (world_sent w, world_table w)
       = (result, sent, t) \<Longrightarrow>
     outbox_step c config w
       (w\<lparr>world_table := t, world_sent := sent, world_held := remove1 row (world_held w)\<rparr>)"
| crash: "set held \<subseteq> set (world_held w) \<Longrightarrow> outbox_step c config w (w\<lparr>world_held := held\<rparr>)"

definition empty_world :: outbox_world where
  "empty_world = \<lparr>world_table = \<lparr>outbox_rows = [], outbox_next_id = 1\<rparr>, world_sent = [],
     world_held = [], world_history = []\<rparr>"

definition outbox_inv :: "uuid_codec \<Rightarrow> outbox_world \<Rightarrow> bool" where
  "outbox_inv c w \<longleftrightarrow>
     distinct (map ob_id (world_history w))
     \<and> (\<forall>h \<in> set (world_history w). ob_id h < outbox_next_id (world_table w))
     \<and> row_content ` set (outbox_rows (world_table w)) \<subseteq> row_content ` set (world_history w)
     \<and> row_content ` set (world_held w) \<subseteq> row_content ` set (world_history w)
     \<and> (\<forall>h \<in> set (world_history w).
          row_content h \<in> row_content ` set (outbox_rows (world_table w))
          \<or> (ob_topic h, outbound_message c h) \<in> set (world_sent w))"

text \<open>What settling a row does to the table and to the accepted messages.\<close>

lemma publish_row_effect:
  assumes "publish_row c (answering answer accepted) config db_ok now row (sent, t) = (result, sent', t')"
  shows "set sent \<subseteq> set sent' \<and> outbox_next_id t' = outbox_next_id t
     \<and> (map row_content (outbox_rows t') = map row_content (outbox_rows t)
        \<or> t' = snd (delete_outbox_message (ob_id row) t)
          \<and> (ob_topic row, outbound_message c row) \<in> set sent')"
proof (cases answer)
  case (Inl e)
  then have "(sent' = sent \<or> sent' = sent @ [(ob_topic row, outbound_message c row)])
     \<and> (t' = t \<or> (\<exists>next b. record_outbox_publish_failure (ob_id row) next t = Inr (b, t')))"
    using assms
    by (auto simp: publish_row_def publish_outbox_row_def answering_def Let_def
        split: if_splits option.splits sum.splits)
  then show ?thesis by (auto dest: failure_rows)
next
  case (Inr i)
  then show ?thesis
    using assms by (auto simp: publish_row_def publish_outbox_row_def answering_def
        delete_outbox_message_def split: if_splits)
qed

lemma image_subset_trans: "A \<subseteq> B \<Longrightarrow> f ` B \<subseteq> C \<Longrightarrow> f ` A \<subseteq> C"
  by blast

lemma outbox_step_inv: "outbox_step c config w w' \<Longrightarrow> outbox_inv c w \<Longrightarrow> outbox_inv c w'"
proof (induction rule: outbox_step.induct)
  case (append now m w row t)
  then have t: "outbox_rows t = outbox_rows (world_table w) @ [row]" "ob_id row = outbox_next_id (world_table w)"
    "outbox_next_id t = outbox_next_id (world_table w) + 1"
    by (auto simp: append_outbox_message_def Let_def outbox_row_def)
  with append.prems show ?case by (auto simp: outbox_inv_def)
next
  case (poll w now)
  have "set (list_due_outbox_messages now (batch_size config) (world_table w)) \<subseteq> set (outbox_rows (world_table w))"
    by (auto simp: list_due_outbox_messages_def dest: in_set_takeD)
  with poll show ?case by (simp add: outbox_inv_def image_Un image_subset_trans)
next
  case (publish row w answer accepted db_ok now result sent t)
  note eff = publish_row_effect [OF publish.hyps(2)]
  obtain h0 where h0: "h0 \<in> set (world_history w)" "row_content row = row_content h0"
    using publish.hyps(1) publish.prems by (auto simp: outbox_inv_def)
  have held: "row_content ` set (remove1 row (world_held w)) \<subseteq> row_content ` set (world_history w)"
    by (rule image_subset_trans [OF set_remove1_subset])
      (use publish.prems in \<open>simp add: outbox_inv_def\<close>)
  show ?case
  proof (cases "map row_content (outbox_rows t) = map row_content (outbox_rows (world_table w))")
    case True
    then have "row_content ` set (outbox_rows t) = row_content ` set (outbox_rows (world_table w))"
      by (metis image_set)
    with publish.prems held eff show ?thesis by (auto simp: outbox_inv_def)
  next
    case False
    with eff have t: "outbox_rows t = delete_rows (\<lambda>r. ob_id r = ob_id row) (outbox_rows (world_table w))"
      and sent: "(ob_topic row, outbound_message c row) \<in> set sent" "set (world_sent w) \<subseteq> set sent"
      "outbox_next_id t = outbox_next_id (world_table w)"
      by (auto simp: delete_outbox_message_def)
    have "row_content h \<in> row_content ` set (outbox_rows t) \<or> (ob_topic h, outbound_message c h) \<in> set sent"
      if h: "h \<in> set (world_history w)" for h
    proof (cases "ob_id h = ob_id row")
      case True
      then have "h = h0"
        using h h0 row_content_id [OF h0(2)] publish.prems by (auto simp: outbox_inv_def distinct_map dest: inj_onD)
      then show ?thesis
        using sent(1) h0(2) outbound_content [OF h0(2)] row_content_topic [OF h0(2)] by simp
    next
      case False
      from h publish.prems consider "(ob_topic h, outbound_message c h) \<in> set (world_sent w)"
        | r where "r \<in> set (outbox_rows (world_table w))" "row_content h = row_content r"
        by (auto simp: outbox_inv_def)
      then show ?thesis
      proof cases
        case 2
        with False row_content_id [OF 2(2)] have "r \<in> set (outbox_rows t)" by (simp add: t)
        with 2(2) show ?thesis by simp
      qed (use sent(2) in blast)
    qed
    moreover have "set (outbox_rows t) \<subseteq> set (outbox_rows (world_table w))" unfolding t by auto
    ultimately show ?thesis
      using publish.prems held sent by (simp add: outbox_inv_def image_subset_trans)
  qed
next
  case (crash held w)
  then show ?case by (simp add: outbox_inv_def image_subset_trans)
qed

lemma reachable_inv: "rtranclp (outbox_step c config) empty_world w \<Longrightarrow> outbox_inv c w"
proof (induction rule: rtranclp_induct)
  case base
  show ?case by (simp add: outbox_inv_def empty_world_def)
next
  case (step w w')
  then show ?case by (blast intro: outbox_step_inv)
qed

section \<open>Properties\<close>

text \<open>
  C19: No message is lost. Whatever the interleaving of appended messages, of dequeuers working from
  rows they listed earlier, of publications that fail or are refused, of failing statements and of
  crashes, every message ever appended is still in the table, unchanged but for its attempts, or has
  been accepted by the publisher under its own topic.
\<close>

theorem outbox_at_least_once:
  assumes "rtranclp (outbox_step c config) empty_world w" and "row \<in> set (world_history w)"
  shows "(\<exists>r \<in> set (outbox_rows (world_table w)). row_content r = row_content row)
     \<or> (ob_topic row, outbound_message c row) \<in> set (world_sent w)"
  using reachable_inv [OF assms(1)] assms(2) by (force simp: outbox_inv_def)

definition sample_message :: integration_message where
  "sample_message = scan_document simple_uuid_codec 1 (PolicyDocument (PolicyId 2) (DocumentId 3)) ''k'' None None"

theorem outbox_at_least_once_witness:
  "\<exists>w row. rtranclp (outbox_step simple_uuid_codec default_dequeuer_config) empty_world w
     \<and> world_history w = [row]
     \<and> ((\<exists>r \<in> set (outbox_rows (world_table w)). row_content r = row_content row)
        \<or> (ob_topic row, outbound_message simple_uuid_codec row) \<in> set (world_sent w))"
proof -
  let ?m = "\<lparr>new_topic = ''t'', new_message = sample_message\<rparr>"
  obtain row t where "append_outbox_message simple_uuid_codec 0 ?m (world_table empty_world) = (row, t)"
    by (cases "append_outbox_message simple_uuid_codec 0 ?m (world_table empty_world)") auto
  then have "rtranclp (outbox_step simple_uuid_codec default_dequeuer_config) empty_world
      (empty_world\<lparr>world_table := t, world_history := world_history empty_world @ [row]\<rparr>)"
    by (intro r_into_rtranclp outbox_step.append)
  from outbox_at_least_once [OF this, of row] this show ?thesis
    by (intro exI [of _ "empty_world\<lparr>world_table := t, world_history := world_history empty_world @ [row]\<rparr>"]
        exI [of _ row]) (auto simp: empty_world_def)
qed

text \<open>
  C31: One pass of the dequeuer over a table, with a publisher that accepts some messages and refuses
  others: the due rows, oldest first and at most a batch of them, are each settled once. An accepted
  row is published in that order and removed, a refused row stays with one more attempt and the time
  of its next one, no other row changes, and the pass reports how many it published.
\<close>

theorem dequeuer_pass_exact:
  assumes "sane_config config" and "wf_outbox t"
    and "\<forall>r \<in> set (outbox_rows t). ob_attempt_count r < 2 ^ 31 - 1"
  shows "let due = list_due_outbox_messages now (batch_size config) t;
             accepted = filter (\<lambda>r. P (outbound_message c r)) due in
     run_once c (recording P) config (\<lambda>_. True) now (sent, t) =
       (Inr (length accepted),
        sent @ map (\<lambda>r. (ob_topic r, outbound_message c r)) accepted,
        t\<lparr>outbox_rows := concat (map (\<lambda>r.
            if r \<in> set due
            then if P (outbound_message c r) then [] else [retried (next_attempt_at config now r) r]
            else [r]) (outbox_rows t))\<rparr>)"
proof -
  let ?due = "list_due_outbox_messages now (batch_size config) t"
  have ids: "distinct (map ob_id (outbox_rows t))" using assms(2) by (simp add: wf_outbox_def)
  have sub: "set ?due \<subseteq> set (outbox_rows t)"
    by (auto simp: list_due_outbox_messages_def dest: in_set_takeD)
  have "distinct ?due"
    using ids by (simp add: list_due_outbox_messages_def distinct_take distinct_map)
  moreover have "outbox_rows t = settle_all c P config now {} (outbox_rows t)"
    by (simp add: settle_all_def)
  ultimately have "publish_rows c (recording P) config (\<lambda>_. True) now ?due 0 (sent, t) =
     (Inr (length (filter (\<lambda>r. P (outbound_message c r)) ?due)),
      sent @ map (\<lambda>r. (ob_topic r, outbound_message c r)) (filter (\<lambda>r. P (outbound_message c r)) ?due),
      t\<lparr>outbox_rows := settle_all c P config now (set ?due) (outbox_rows t)\<rparr>)"
    using publish_rows_recording [OF assms(1) ids assms(3), of ?due "{}" t c P now 0 sent] sub by simp
  then show ?thesis
    unfolding run_once_def Let_def settle_all_def settled_def by simp
qed

theorem dequeuer_pass_exact_witness:
  "let t = snd (append_outbox_message simple_uuid_codec 5 \<lparr>new_topic = ''t'', new_message = sample_message\<rparr>
        \<lparr>outbox_rows = [], outbox_next_id = 1\<rparr>) in
   fst (run_once simple_uuid_codec (recording (\<lambda>_. True)) default_dequeuer_config (\<lambda>_. True) 9 ([], t)) = Inr 1"
proof -
  let ?t = "snd (append_outbox_message simple_uuid_codec 5 \<lparr>new_topic = ''t'', new_message = sample_message\<rparr>
        \<lparr>outbox_rows = [], outbox_next_id = 1\<rparr>)"
  have "sane_config default_dequeuer_config"
    by (simp add: sane_config_def default_dequeuer_config_def i64_max_def)
  moreover have "wf_outbox ?t" by (rule append_wf) (simp add: wf_outbox_def)
  moreover have "\<forall>r \<in> set (outbox_rows ?t). ob_attempt_count r < 2 ^ 31 - 1"
    by (simp add: append_outbox_message_def Let_def outbox_row_def)
  ultimately show ?thesis
    using dequeuer_pass_exact [where config = default_dequeuer_config and t = ?t and P = "\<lambda>_. True"
      and c = simple_uuid_codec and now = 9 and sent = "[]"]
    by (simp add: Let_def list_due_outbox_messages_def append_outbox_message_def outbox_row_def
        default_dequeuer_config_def)
qed

text \<open>
  C38: The delay before a retry never panics for an initial delay that a factor of two to the
  thirtieth keeps in range, doubles with every attempt until it reaches the maximum, is never longer
  than the maximum and, for attempts past the thirtieth, stops growing.
\<close>

theorem retry_delay_bounds:
  assumes "0 \<le> initial" and "initial * 2 ^ 30 \<le> i64_max * 1000000" and "0 \<le> maximum"
  shows "\<exists>d e. retry_delay n initial maximum = Some d \<and> retry_delay (n + 1) initial maximum = Some e
     \<and> 0 \<le> d \<and> d \<le> maximum
     \<and> e = (if 0 \<le> n \<and> n < 30 then min (2 * d) maximum else d)"
proof -
  have "nat (max 0 (min (n + 1) 30)) = (if 0 \<le> n \<and> n < 30 then Suc (nat (max 0 (min n 30))) else nat (max 0 (min n 30)))"
    by auto
  then show ?thesis
    using assms retry_delay_eq [OF assms(1,2)] by (auto simp: min_def)
qed

theorem retry_delay_bounds_witness:
  "retry_delay 3 nanos_per_second (300 * nanos_per_second) = Some (8 * nanos_per_second)
   \<and> (\<exists>e. retry_delay (3 + 1) nanos_per_second (300 * nanos_per_second) = Some e
        \<and> e = min (2 * (8 * nanos_per_second)) (300 * nanos_per_second))"
proof -
  have "retry_delay 3 nanos_per_second (300 * nanos_per_second) = Some (8 * nanos_per_second)"
    by (simp add: retry_delay_def duration_mul_def i64_max_def)
  moreover have "nanos_per_second * 2 ^ 30 \<le> i64_max * 1000000" by (simp add: i64_max_def)
  ultimately show ?thesis
    using retry_delay_bounds [of nanos_per_second "300 * nanos_per_second" 3] by auto
qed

text \<open>
  What a subscriber decodes from the outbox is what was appended: the message published for the
  row of a new integration message decodes to that message, however often and whenever it is retried.
\<close>

theorem outbox_publishes_message:
  assumes "uuid_codec_ok c" and "payload_fits (new_message m)"
    and "row_content r = row_content (fst (append_outbox_message c now m t))"
  shows "from_envelope c (outbound_message c r) = Inr (new_message m)"
proof -
  have "outbound_message c r = to_envelope c (new_message m)"
    using outbound_content [OF assms(3), of c] outbound_of_row
    by (simp add: append_outbox_message_def Let_def)
  with envelope_round_trip [OF assms(1,2)] show ?thesis by simp
qed

theorem outbox_publishes_message_witness:
  "from_envelope simple_uuid_codec (outbound_message simple_uuid_codec
     (retried 99 (fst (append_outbox_message simple_uuid_codec 5 \<lparr>new_topic = ''t'', new_message = sample_message\<rparr>
        \<lparr>outbox_rows = [], outbox_next_id = 1\<rparr>)))) = Inr sample_message"
proof -
  have "payload_fits (new_message \<lparr>new_topic = ''t'', new_message = sample_message\<rparr>)"
    by (simp add: sample_message_def scan_document_def)
  from outbox_publishes_message [OF simple_uuid_codec_ok this, of "retried 99 (fst (append_outbox_message simple_uuid_codec 5 \<lparr>new_topic = ''t'', new_message = sample_message\<rparr>
        \<lparr>outbox_rows = [], outbox_next_id = 1\<rparr>))" 5 "\<lparr>outbox_rows = [], outbox_next_id = 1\<rparr>"]
  show ?thesis by (simp add: retried_def row_content_def)
qed

end
