(* ===== verification/Store.thy ===== *)
theory Store
  imports Workspaces Users Agent_Connections Catalog Documents Upload_Grants Outbox
begin

text \<open>
  The database the commands run on: one field per table, and the repositories of
  \<^verbatim>\<open>src/persistence/aggregates/\<close> and the reads of \<^verbatim>\<open>src/persistence/reads/\<close> that the document commands
  and the worker use. A save is the snapshot statement together with the constraints of
  \<^verbatim>\<open>migrations/V001__breaking_initial_schema.sql\<close> on its table, in the order the server checks them:
  check constraints, unique indexes, foreign keys. A violated constraint is a failed statement and
  ends the unit of work.
\<close>

section \<open>The tables\<close>

record db =
  db_workspaces :: workspace_tables
  db_users :: "user_record list"
  db_connections :: agent_tables
  db_evidence :: "evidence_record list"
  db_policies :: "policy_record list"
  db_submissions :: "submission_record list"
  db_documents :: "document_record list"
  db_evidence_grants :: "agent_evidence_grant_record list"
  db_policy_grants :: "agent_policy_grant_record list"
  db_outbox :: outbox_table

definition row_exists :: "('r \<Rightarrow> 'k) \<Rightarrow> 'k \<Rightarrow> 'r list \<Rightarrow> bool" where
  "row_exists key k rows \<longleftrightarrow> list_ex (\<lambda>r. key r = k) rows"

lemma row_exists_iff: "row_exists key k rows \<longleftrightarrow> k \<in> key ` set rows"
  by (auto simp: row_exists_def list_ex_iff)

lemma row_exists_upsert [simp]:
  "row_exists key k (upsert_row key r rows) \<longleftrightarrow> k = key r \<or> row_exists key k rows"
  by (simp add: row_exists_iff upsert_row_keys)

text \<open>
  A statement with its constraints: what is violated, in the order of the checks, and the upsert
  where nothing is.
\<close>

definition check_violation :: "string \<Rightarrow> db_failure" where
  "check_violation name = DbError ''23514'' (Some name)"

definition foreign_key_violation :: "string \<Rightarrow> db_failure" where
  "foreign_key_violation name = DbError ''23503'' (Some name)"

definition unique_key_violation :: "string \<Rightarrow> db_failure" where
  "unique_key_violation name = DbError unique_violation (Some name)"

definition first_violation :: "(bool \<times> db_failure) list \<Rightarrow> repository_error + unit" where
  "first_violation checks =
     (case find fst checks of Some (_, e) \<Rightarrow> Err (classify_db_error e) | None \<Rightarrow> Ok ())"

definition save_row ::
  "(bool \<times> db_failure) list \<Rightarrow> ('r \<Rightarrow> 'k) \<Rightarrow> 'r \<Rightarrow> 'r list \<Rightarrow> repository_error + 'r list" where
  "save_row checks key r rows =
     and_then (first_violation checks) (\<lambda>_. Ok (upsert_row key r rows))"

lemma first_violation_Ok_iff: "first_violation checks = Inr u \<longleftrightarrow> (\<forall>c \<in> set checks. \<not> fst c)"
proof (cases "find fst checks")
  case None
  then have "\<forall>c \<in> set checks. \<not> fst c" by (auto simp: find_None_iff)
  with None show ?thesis by (simp add: first_violation_def)
next
  case (Some c)
  then have "c \<in> set checks \<and> fst c" by (auto simp: find_Some_iff)
  with Some show ?thesis by (auto simp: first_violation_def split: prod.splits)
qed

lemma save_row_Ok_iff:
  "save_row checks key r rows = Inr rows' \<longleftrightarrow>
     (\<forall>c \<in> set checks. \<not> fst c) \<and> rows' = upsert_row key r rows"
proof -
  have "first_violation checks = Inr () \<longleftrightarrow> (\<forall>c \<in> set checks. \<not> fst c)"
    by (rule first_violation_Ok_iff)
  then show ?thesis by (cases "first_violation checks") (auto simp: save_row_def)
qed

section \<open>Documents\<close>

definition document_row_key :: "document_id \<Rightarrow> document_owner \<Rightarrow> document_record \<Rightarrow> bool" where
  "document_row_key i owner r \<longleftrightarrow>
     rec_id r = document_id_uuid i \<and> rec_owner_type r = owner_type owner
     \<and> rec_owner_id r = owner_uuid owner"

definition load_document ::
  "document_id \<Rightarrow> document_owner \<Rightarrow> document_record option \<Rightarrow> repository_error + document option" where
  "load_document i owner row =
     map_transpose (\<lambda>r. map_err InvalidData (document_into_domain r (document_identity_for i owner))) row"

definition document_get ::
  "document_id \<Rightarrow> document_owner \<Rightarrow> db \<Rightarrow> repository_error + document option" where
  "document_get i owner s =
     load_document i owner (find (document_row_key i owner) (db_documents s))"

definition workspace_document_get ::
  "workspace_id \<Rightarrow> document_id \<Rightarrow> document_owner \<Rightarrow> db \<Rightarrow> repository_error + document option" where
  "workspace_document_get w i owner s =
     load_document i owner
       (find (\<lambda>r. document_row_key i owner r \<and> rec_workspace_id r = workspace_uuid w) (db_documents s))"

definition document_violations :: "db \<Rightarrow> document_record \<Rightarrow> (bool \<times> db_failure) list" where
  "document_violations s r =
     (let others = filter (\<lambda>x. rec_id x \<noteq> rec_id r) (db_documents s) in
      [(rec_owner_type r \<notin> {''evidence_submission'', ''policy''},
         check_violation ''documents_owner_type_check''),
       (rec_content_length r < 0, check_violation ''documents_content_length_check''),
       (rec_upload_status r \<notin> {''pending'', ''finalizing'', ''uploaded'', ''contains_virus'', ''failed''},
         check_violation ''documents_upload_status_check''),
       (list_ex (\<lambda>x. rec_object_key x = rec_object_key r) others,
         unique_key_violation ''documents_object_key_key''),
       (rec_owner_type r = ''policy'' \<and> \<not> rec_archived r
          \<and> list_ex (\<lambda>x. rec_owner_type x = ''policy'' \<and> \<not> rec_archived x
              \<and> rec_owner_id x = rec_owner_id r) others,
         unique_key_violation ''documents_policy_active_key''),
       (rec_owner_type r = ''evidence_submission''
          \<and> list_ex (\<lambda>x. rec_owner_type x = ''evidence_submission''
              \<and> rec_owner_id x = rec_owner_id r) others,
         unique_key_violation ''documents_evidence_submission_key''),
       (\<not> row_exists wsrec_id (rec_workspace_id r) (workspaces_table (db_workspaces s)),
         foreign_key_violation ''documents_workspace_id_fkey''),
       (\<not> row_exists usrrec_id (rec_created_by_user_id r) (db_users s),
         foreign_key_violation ''documents_created_by_user_id_fkey'')])"

definition document_save :: "document \<Rightarrow> db \<Rightarrow> repository_error + db" where
  "document_save d s =
     (let r = document_from_domain d in
      and_then (save_row (document_violations s r) rec_id r (db_documents s))
        (\<lambda>rows. Ok (s\<lparr>db_documents := rows\<rparr>)))"

section \<open>Submissions\<close>

text \<open>The row joins its evidence, in the workspace, and its connection, which gives the user.\<close>

definition submission_get ::
  "workspace_id \<Rightarrow> evidence_submission_id \<Rightarrow> db \<Rightarrow> repository_error + evidence_submission option" where
  "submission_get w i s =
     Ok (case find_row subrec_id (submission_uuid i) (db_submissions s) of
           None \<Rightarrow> None
         | Some r \<Rightarrow>
             (case (find_row evrec_id (subrec_evidence_id r) (db_evidence s),
                    find_row connrec_id (subrec_submitted_by_agent_connection_id r)
                      (connections_table (db_connections s))) of
                (Some e, Some c) \<Rightarrow>
                  if evrec_workspace_id e = workspace_uuid w
                  then Some (submission_into_domain r (connrec_user_id c)) else None
              | _ \<Rightarrow> None))"

definition submission_violations :: "db \<Rightarrow> submission_record \<Rightarrow> (bool \<times> db_failure) list" where
  "submission_violations s r =
     [(subrec_valid_until r < subrec_valid_from r, check_violation ''evidence_submissions_check''),
      (\<not> row_exists evrec_id (subrec_evidence_id r) (db_evidence s),
        foreign_key_violation ''evidence_submissions_evidence_id_fkey''),
      (\<not> row_exists connrec_id (subrec_submitted_by_agent_connection_id r)
          (connections_table (db_connections s)),
        foreign_key_violation ''evidence_submissions_submitted_by_agent_connection_id_fkey'')]"

definition submission_save :: "evidence_submission \<Rightarrow> db \<Rightarrow> repository_error + db" where
  "submission_save x s =
     (let r = submission_from_domain x in
      and_then (save_row (submission_violations s r) subrec_id r (db_submissions s))
        (\<lambda>rows. Ok (s\<lparr>db_submissions := rows\<rparr>)))"

definition submission_exists ::
  "workspace_id \<Rightarrow> evidence_submission_id \<Rightarrow> db \<Rightarrow> repository_error + bool" where
  "submission_exists w i s =
     Ok (case find_row subrec_id (submission_uuid i) (db_submissions s) of
           None \<Rightarrow> False
         | Some r \<Rightarrow>
             (case find_row evrec_id (subrec_evidence_id r) (db_evidence s) of
                None \<Rightarrow> False
              | Some e \<Rightarrow> evrec_workspace_id e = workspace_uuid w))"

section \<open>Evidence and policies\<close>

text \<open>The read model of an evidence is its row with the status parsed.\<close>

definition evidence_read ::
  "workspace_id \<Rightarrow> evidence_id \<Rightarrow> db \<Rightarrow> repository_error + (evidence_record \<times> evidence_status) option" where
  "evidence_read w i s =
     map_transpose (\<lambda>r. map_err InvalidData
         (and_then (evidence_status_from_str (evrec_status r)) (\<lambda>status. Ok (r, status))))
       (find (\<lambda>r. evrec_id r = evidence_uuid i \<and> evrec_workspace_id r = workspace_uuid w) (db_evidence s))"

datatype policy_upload_eligibility = Eligible | CurrentDocument

definition lock_document_upload_eligibility ::
  "workspace_id \<Rightarrow> policy_id \<Rightarrow> db \<Rightarrow> repository_error + policy_upload_eligibility option" where
  "lock_document_upload_eligibility w i s =
     Ok (if \<not> list_ex (\<lambda>p. polrec_id p = policy_uuid i \<and> polrec_workspace_id p = workspace_uuid w
               \<and> polrec_archived_at p = None) (db_policies s) then None
         else Some (if list_ex (\<lambda>d. rec_owner_type d = ''policy'' \<and> rec_owner_id d = policy_uuid i
               \<and> rec_workspace_id d = workspace_uuid w \<and> \<not> rec_archived d) (db_documents s)
           then CurrentDocument else Eligible))"

text \<open>The work a delivery is for: a document in the expected status, not archived, nor is its policy.\<close>

record document_upload_work =
  work_workspace_id :: workspace_id
  work_identity :: document_identity
  work_filename :: string
  work_content_type :: string
  work_content_length :: i64
  work_object_key :: string
  work_checksum_sha256 :: string
  work_upload_status :: document_upload_status

definition load_upload_work ::
  "document_identity \<Rightarrow> string \<Rightarrow> document_upload_status \<Rightarrow> db
   \<Rightarrow> repository_error + document_upload_work option" where
  "load_upload_work identity object_key status s =
     map_transpose (\<lambda>r. map_err InvalidData
         (and_then (upload_status_from_str (rec_upload_status r)) (\<lambda>st.
           Ok \<lparr>work_workspace_id = WorkspaceId (rec_workspace_id r), work_identity = identity,
               work_filename = rec_filename r, work_content_type = rec_content_type r,
               work_content_length = rec_content_length r, work_object_key = rec_object_key r,
               work_checksum_sha256 = rec_checksum_sha256 r, work_upload_status = st\<rparr>)))
       (find (\<lambda>r. document_row_key (identity_document_id identity) (identity_owner identity) r
          \<and> rec_object_key r = object_key \<and> rec_upload_status r = upload_status_as_str status
          \<and> \<not> rec_archived r
          \<and> (rec_owner_type r \<noteq> ''policy'' \<or> list_ex (\<lambda>p. polrec_id p = rec_owner_id r
               \<and> polrec_workspace_id p = rec_workspace_id r \<and> polrec_archived_at p = None)
               (db_policies s)))
        (db_documents s))"

section \<open>Machine upload grants\<close>

definition evidence_grant_get ::
  "upload_codec \<Rightarrow> agent_evidence_upload_grant_id \<Rightarrow> workspace_id \<Rightarrow> db
   \<Rightarrow> repository_error + agent_evidence_grant option" where
  "evidence_grant_get c i w s =
     map_transpose (agent_evidence_grant_into_domain c)
       (find (\<lambda>r. aegrec_id r = agent_evidence_upload_grant_uuid i
          \<and> aegrec_workspace_id r = workspace_uuid w) (db_evidence_grants s))"

definition completion_violated ::
  "datetime \<Rightarrow> datetime \<Rightarrow> datetime option \<Rightarrow> uuid option \<Rightarrow> bool" where
  "completion_violated issued_at expires_at completed_at document =
     (case (completed_at, document) of
        (None, None) \<Rightarrow> False
      | (Some t, Some d) \<Rightarrow> \<not> (issued_at \<le> t \<and> t < expires_at)
      | _ \<Rightarrow> True)"

definition declaration_violations ::
  "string \<Rightarrow> string \<Rightarrow> string \<Rightarrow> i64 \<Rightarrow> bytes option \<Rightarrow> (bool \<times> db_failure) list" where
  "declaration_violations table filename content_type n sha =
     [(filename = [] \<or> 255 < length filename, check_violation (table @ ''_filename'')),
      (content_type = [] \<or> hd content_type = CHR '' '' \<or> last content_type = CHR '' ''
        \<or> 255 < length content_type, check_violation (table @ ''_content_type'')),
      (n < 0, check_violation (table @ ''_content_length'')),
      (\<not> is_none_or (\<lambda>bs. length bs = 32) sha, check_violation (table @ ''_sha256''))]"

definition evidence_grant_violations ::
  "db \<Rightarrow> agent_evidence_grant_record \<Rightarrow> (bool \<times> db_failure) list" where
  "evidence_grant_violations s r =
     (let table = ''agent_evidence_upload_grants'';
          others = filter (\<lambda>x. aegrec_id x \<noteq> aegrec_id r) (db_evidence_grants s) in
      [(aegrec_valid_until r < aegrec_valid_from r, check_violation (table @ ''_coverage_window''))]
      @ declaration_violations table (aegrec_filename r) (aegrec_content_type r)
          (aegrec_expected_content_length r) (aegrec_expected_sha256 r)
      @ [(aegrec_expires_at r \<le> aegrec_issued_at r, check_violation (table @ ''_expiry'')),
         (completion_violated (aegrec_issued_at r) (aegrec_expires_at r) (aegrec_completed_at r)
            (aegrec_document_id r), check_violation (table @ ''_completion'')),
         (row_exists aegrec_submission_id (aegrec_submission_id r) others,
           unique_key_violation (table @ ''_submission_id_key'')),
         (aegrec_document_id r \<noteq> None \<and> row_exists aegrec_document_id (aegrec_document_id r) others,
           unique_key_violation (table @ ''_document_id_key'')),
         (\<not> row_exists wsrec_id (aegrec_workspace_id r) (workspaces_table (db_workspaces s)),
           foreign_key_violation (table @ ''_workspace_id_fkey'')),
         (\<not> row_exists evrec_id (aegrec_evidence_id r) (db_evidence s),
           foreign_key_violation (table @ ''_evidence_id_fkey'')),
         (\<not> row_exists usrrec_id (aegrec_issued_by_user_id r) (db_users s),
           foreign_key_violation (table @ ''_issued_by_user_id_fkey'')),
         (\<not> row_exists connrec_id (aegrec_issued_via_agent_connection_id r)
             (connections_table (db_connections s)),
           foreign_key_violation (table @ ''_issued_via_agent_connection_id_fkey'')),
         (\<not> is_none_or (\<lambda>d. row_exists rec_id d (db_documents s)) (aegrec_document_id r),
           foreign_key_violation (table @ ''_document_id_fkey''))])"

definition evidence_grant_save :: "agent_evidence_grant \<Rightarrow> db \<Rightarrow> repository_error + db" where
  "evidence_grant_save g s =
     and_then (agent_evidence_grant_from_domain g) (\<lambda>r.
     and_then (save_row (evidence_grant_violations s r) aegrec_id r (db_evidence_grants s))
       (\<lambda>rows. Ok (s\<lparr>db_evidence_grants := rows\<rparr>)))"

definition policy_grant_get ::
  "upload_codec \<Rightarrow> agent_policy_document_upload_grant_id \<Rightarrow> workspace_id \<Rightarrow> db
   \<Rightarrow> repository_error + agent_policy_grant option" where
  "policy_grant_get c i w s =
     map_transpose (agent_policy_grant_into_domain c)
       (find (\<lambda>r. apgrec_id r = agent_policy_document_upload_grant_uuid i
          \<and> apgrec_workspace_id r = workspace_uuid w) (db_policy_grants s))"

definition policy_grant_violations ::
  "db \<Rightarrow> agent_policy_grant_record \<Rightarrow> (bool \<times> db_failure) list" where
  "policy_grant_violations s r =
     (let table = ''agent_policy_document_upload_grants'';
          others = filter (\<lambda>x. apgrec_id x \<noteq> apgrec_id r) (db_policy_grants s) in
      declaration_violations table (apgrec_filename r) (apgrec_content_type r)
          (apgrec_expected_content_length r) (apgrec_expected_sha256 r)
      @ [(apgrec_expires_at r \<le> apgrec_issued_at r, check_violation (table @ ''_expiry'')),
         (completion_violated (apgrec_issued_at r) (apgrec_expires_at r) (apgrec_completed_at r)
            (apgrec_document_id r), check_violation (table @ ''_completion'')),
         (apgrec_document_id r \<noteq> None \<and> row_exists apgrec_document_id (apgrec_document_id r) others,
           unique_key_violation (table @ ''_document_id_key'')),
         (\<not> row_exists wsrec_id (apgrec_workspace_id r) (workspaces_table (db_workspaces s)),
           foreign_key_violation (table @ ''_workspace_id_fkey'')),
         (\<not> row_exists polrec_id (apgrec_policy_id r) (db_policies s),
           foreign_key_violation (table @ ''_policy_id_fkey'')),
         (\<not> row_exists usrrec_id (apgrec_issued_by_user_id r) (db_users s),
           foreign_key_violation (table @ ''_issued_by_user_id_fkey'')),
         (\<not> row_exists connrec_id (apgrec_issued_via_agent_connection_id r)
             (connections_table (db_connections s)),
           foreign_key_violation (table @ ''_issued_via_agent_connection_id_fkey'')),
         (\<not> is_none_or (\<lambda>d. row_exists rec_id d (db_documents s)) (apgrec_document_id r),
           foreign_key_violation (table @ ''_document_id_fkey''))])"

definition policy_grant_save :: "agent_policy_grant \<Rightarrow> db \<Rightarrow> repository_error + db" where
  "policy_grant_save g s =
     and_then (agent_policy_grant_from_domain g) (\<lambda>r.
     and_then (save_row (policy_grant_violations s r) apgrec_id r (db_policy_grants s))
       (\<lambda>rows. Ok (s\<lparr>db_policy_grants := rows\<rparr>)))"

section \<open>The outbox\<close>

definition outbox_append ::
  "uuid_codec \<Rightarrow> datetime \<Rightarrow> new_outbox_message \<Rightarrow> db \<Rightarrow> repository_error + db" where
  "outbox_append c now m s = Ok (s\<lparr>db_outbox := snd (append_outbox_message c now m (db_outbox s))\<rparr>)"

section \<open>What a save changes\<close>

text \<open>
  The constraints of the documents table as an invariant: keys, object keys and owners. Every save
  that succeeds keeps it.
\<close>

definition wf_documents :: "document_record list \<Rightarrow> bool" where
  "wf_documents rows \<longleftrightarrow>
     distinct (map rec_id rows)
   \<and> distinct (map rec_object_key rows)
   \<and> distinct (map rec_owner_id (filter (\<lambda>r. rec_owner_type r = ''policy'' \<and> \<not> rec_archived r) rows))
   \<and> distinct (map rec_owner_id (filter (\<lambda>r. rec_owner_type r = ''evidence_submission'') rows))"

lemma map_transpose_Some_iff: "map_transpose f x = Inr (Some y) \<longleftrightarrow> (\<exists>v. x = Some v \<and> f v = Inr y)"
  by (cases x) (auto simp: and_then_Ok_iff)

lemma distinct_upsert_filtered:
  assumes "distinct (map key rows)" and "distinct (map f (filter P rows))"
    and "P r \<Longrightarrow> \<forall>x \<in> set rows. key x \<noteq> key r \<longrightarrow> P x \<longrightarrow> f x \<noteq> f r"
  shows "distinct (map f (filter P (upsert_row key r rows)))"
  using assms
proof (induction rows)
  case (Cons x rows)
  show ?case
  proof (cases "key x = key r")
    case True
    have "f r \<noteq> f y" if "P r" and "y \<in> set rows" and "P y" for y
    proof -
      have "key y \<noteq> key r" using Cons.prems(1) True that(2) by (auto simp: rev_image_eqI)
      with Cons.prems(3) [OF that(1)] that show ?thesis by fastforce
    qed
    with Cons.prems(2) True show ?thesis by (auto split: if_splits)
  next
    case False
    have set_upsert: "set (upsert_row key r rows) \<subseteq> insert r (set rows)"
      by (induction rows) auto
    have IH: "distinct (map f (filter P (upsert_row key r rows)))"
      using Cons by (simp split: if_splits)
    have "f x \<noteq> f y" if "P x" and "y \<in> set (upsert_row key r rows)" and "P y" for y
    proof (cases "y = r")
      case True
      with Cons.prems(3) False that show ?thesis by fastforce
    next
      case neq: False
      with that set_upsert have "y \<in> set rows" by auto
      with Cons.prems(2) that show ?thesis by auto
    qed
    with IH False show ?thesis by auto
  qed
qed simp

lemma distinct_upsert:
  assumes "distinct (map key rows)" and "distinct (map f rows)"
    and "\<forall>x \<in> set rows. key x \<noteq> key r \<longrightarrow> f x \<noteq> f r"
  shows "distinct (map f (upsert_row key r rows))"
  using distinct_upsert_filtered [of key rows f "\<lambda>_. True" r] assms by simp

lemma document_save_Ok_iff:
  "document_save d s = Inr s' \<longleftrightarrow>
     (\<forall>c \<in> set (document_violations s (document_from_domain d)). \<not> fst c)
     \<and> s' = s\<lparr>db_documents := upsert_row rec_id (document_from_domain d) (db_documents s)\<rparr>"
  by (auto simp: document_save_def Let_def and_then_Ok_iff save_row_Ok_iff)

lemma document_save_wf:
  assumes "document_save d s = Inr s'" and "wf_documents (db_documents s)"
  shows "wf_documents (db_documents s')"
proof -
  let ?r = "document_from_domain d" and ?rows = "db_documents s"
  have d: "distinct (map rec_id ?rows)" using assms(2) by (simp add: wf_documents_def)
  have no: "\<forall>x \<in> set ?rows. rec_id x \<noteq> rec_id ?r \<longrightarrow> rec_object_key x \<noteq> rec_object_key ?r"
    "rec_owner_type ?r = ''policy'' \<and> \<not> rec_archived ?r \<Longrightarrow> \<forall>x \<in> set ?rows. rec_id x \<noteq> rec_id ?r \<longrightarrow>
       rec_owner_type x = ''policy'' \<and> \<not> rec_archived x \<longrightarrow> rec_owner_id x \<noteq> rec_owner_id ?r"
    "rec_owner_type ?r = ''evidence_submission'' \<Longrightarrow> \<forall>x \<in> set ?rows. rec_id x \<noteq> rec_id ?r \<longrightarrow>
       rec_owner_type x = ''evidence_submission'' \<longrightarrow> rec_owner_id x \<noteq> rec_owner_id ?r"
    using assms(1) by (auto simp: document_save_Ok_iff document_violations_def Let_def list_ex_iff)
  show ?thesis
    using assms distinct_upsert [OF d d] distinct_upsert [OF d _ no(1)]
      distinct_upsert_filtered [OF d _ no(2)] distinct_upsert_filtered [OF d _ no(3)]
    by (auto simp: wf_documents_def document_save_Ok_iff)
qed

text \<open>A query that fixes the key of a table finds the row just written, or what it found before.\<close>

lemma find_upsert:
  assumes "distinct (map key rows)" and P: "\<And>x. P x \<Longrightarrow> key x = k"
  shows "find P (upsert_row key r rows) =
     (if key r = k then if P r then Some r else None else find P rows)"
  using assms(1)
proof (induction rows)
  case (Cons x rows)
  have "find P rows = None" if "key x = k"
    using Cons.prems that P by (fastforce simp: find_None_iff rev_image_eqI)
  with Cons P [of x] P [of r] show ?case by auto
qed (auto dest: P)

lemma find_document_upsert:
  assumes "distinct (map rec_id rows)"
  shows "find (document_row_key i ow) (upsert_row rec_id r rows) =
     (if rec_id r = document_id_uuid i then if document_row_key i ow r then Some r else None
      else find (document_row_key i ow) rows)"
  by (rule find_upsert [OF assms]) (simp add: document_row_key_def)

lemma document_row_key_from_domain [simp]:
  "document_row_key i ow (document_from_domain d) \<longleftrightarrow> i = document_id_of d \<and> ow = document_owner_of d"
  by (auto simp: document_row_key_def document_from_domain_def intro: owner_determined document_id.expand)

lemma document_get_after_save:
  assumes "document_save d s = Inr s'" and "wf_documents (db_documents s)"
  shows "document_get (document_id_of d) (document_owner_of d) s' = Inr (Some d)"
proof -
  have "rec_id (document_from_domain d) = document_id_uuid (document_id_of d)"
    by (simp add: document_from_domain_def)
  with assms show ?thesis
    by (simp add: document_save_Ok_iff document_get_def find_document_upsert wf_documents_def
        load_document_def document_reload document_id_of_def document_owner_of_def)
qed

lemma document_get_other_save:
  assumes "document_save d s = Inr s'" and "wf_documents (db_documents s)" and "i \<noteq> document_id_of d"
  shows "document_get i ow s' = document_get i ow s"
proof -
  have "rec_id (document_from_domain d) \<noteq> document_id_uuid i"
    using assms(3) by (auto simp: document_from_domain_def intro: document_id.expand)
  with assms show ?thesis
    by (simp add: document_save_Ok_iff document_get_def find_document_upsert wf_documents_def)
qed

lemma document_get_identity:
  "document_get i ow s = Inr (Some d) \<Longrightarrow>
     doc_identity d = document_identity_for i ow \<and> document_id_of d = i \<and> document_owner_of d = ow"
  by (auto simp: document_get_def load_document_def document_into_domain_def map_transpose_Some_iff
      and_then_Ok_iff map_err_Ok_iff document_id_of_def document_owner_of_def)

section \<open>A valid documents table\<close>

text \<open>
  The invariant of the table with its check constraints and foreign keys: in such a table every row
  loads, and storing a document again under its identity and key cannot fail.
\<close>

definition document_row_ok :: "db \<Rightarrow> document_record \<Rightarrow> bool" where
  "document_row_ok s r \<longleftrightarrow>
     rec_owner_type r \<in> {''evidence_submission'', ''policy''} \<and> 0 \<le> rec_content_length r
   \<and> rec_upload_status r \<in> {''pending'', ''finalizing'', ''uploaded'', ''contains_virus'', ''failed''}
   \<and> row_exists wsrec_id (rec_workspace_id r) (workspaces_table (db_workspaces s))
   \<and> row_exists usrrec_id (rec_created_by_user_id r) (db_users s)"

definition document_row_unique :: "document_record list \<Rightarrow> document_record \<Rightarrow> bool" where
  "document_row_unique rows r \<longleftrightarrow>
     (\<forall>x \<in> set rows. rec_id x \<noteq> rec_id r \<longrightarrow>
        rec_object_key x \<noteq> rec_object_key r
      \<and> (rec_owner_type r = ''policy'' \<and> \<not> rec_archived r \<and> rec_owner_type x = ''policy''
           \<and> \<not> rec_archived x \<longrightarrow> rec_owner_id x \<noteq> rec_owner_id r)
      \<and> (rec_owner_type r = ''evidence_submission'' \<and> rec_owner_type x = ''evidence_submission''
           \<longrightarrow> rec_owner_id x \<noteq> rec_owner_id r))"

definition documents_valid :: "db \<Rightarrow> bool" where
  "documents_valid s \<longleftrightarrow>
     wf_documents (db_documents s) \<and> (\<forall>r \<in> set (db_documents s). document_row_ok s r)"

lemma document_violations_none_iff:
  "(\<forall>c \<in> set (document_violations s r). \<not> fst c) \<longleftrightarrow>
     document_row_ok s r \<and> document_row_unique (db_documents s) r"
  by (auto simp: document_violations_def Let_def document_row_ok_def document_row_unique_def list_ex_iff)

lemma document_save_iff:
  "document_save d s = Inr s' \<longleftrightarrow>
     document_row_ok s (document_from_domain d)
   \<and> document_row_unique (db_documents s) (document_from_domain d)
   \<and> s' = s\<lparr>db_documents := upsert_row rec_id (document_from_domain d) (db_documents s)\<rparr>"
  unfolding document_save_Ok_iff document_violations_none_iff by blast

lemma distinct_map_filter_neq:
  "distinct (map f (filter P xs)) \<Longrightarrow> x \<in> set xs \<Longrightarrow> y \<in> set xs \<Longrightarrow> P x \<Longrightarrow> P y \<Longrightarrow> f x = f y \<Longrightarrow> x = y"
  by (auto simp: distinct_map dest: inj_onD)

lemma wf_documents_unique:
  assumes "wf_documents rows" and "r \<in> set rows"
  shows "document_row_unique rows r"
  unfolding document_row_unique_def
proof (intro ballI impI conjI)
  fix x
  assume x: "x \<in> set rows" "rec_id x \<noteq> rec_id r"
  show "rec_object_key x \<noteq> rec_object_key r"
    using distinct_map_filter_neq [of rec_object_key "\<lambda>_. True" rows x r] assms x
    by (auto simp: wf_documents_def)
  show "rec_owner_id x \<noteq> rec_owner_id r" if "rec_owner_type r = ''policy'' \<and> \<not> rec_archived r
      \<and> rec_owner_type x = ''policy'' \<and> \<not> rec_archived x"
    using distinct_map_filter_neq [of rec_owner_id _ rows x r] assms x that
    by (auto simp: wf_documents_def)
  show "rec_owner_id x \<noteq> rec_owner_id r" if "rec_owner_type r = ''evidence_submission''
      \<and> rec_owner_type x = ''evidence_submission''"
    using distinct_map_filter_neq [of rec_owner_id _ rows x r] assms x that
    by (auto simp: wf_documents_def)
qed

lemma document_save_valid:
  assumes "document_save d s = Inr s'" and "documents_valid s"
  shows "documents_valid s'"
proof -
  have "set (upsert_row rec_id (document_from_domain d) (db_documents s))
      \<subseteq> insert (document_from_domain d) (set (db_documents s))"
    using assms(2) by (subst set_upsert_row) (auto simp: documents_valid_def wf_documents_def table_wf_def)
  then show ?thesis
    using assms document_save_wf [OF assms(1)]
    by (auto simp: documents_valid_def document_save_iff document_row_ok_def)
qed

lemma loaded_document_row:
  "document_into_domain r (document_identity_for i ow) = Inr d \<Longrightarrow> document_row_key i ow r \<Longrightarrow>
     document_from_domain d = r"
  by (auto simp: document_into_domain_def document_from_domain_def document_row_key_def and_then_Ok_iff
      document_id_of_def document_owner_of_def dest: upload_status_from_str_Ok)

lemma document_get_row:
  assumes "document_get i ow s = Inr (Some d)"
  shows "document_from_domain d \<in> set (db_documents s)"
proof -
  from assms obtain r where "find (document_row_key i ow) (db_documents s) = Some r"
    "document_into_domain r (document_identity_for i ow) = Inr d"
    by (auto simp: document_get_def load_document_def map_transpose_Some_iff)
  with loaded_document_row [of r i ow d] show ?thesis by (auto simp: find_Some_iff)
qed

lemma document_resave:
  assumes "documents_valid s" and "document_get i ow s = Inr (Some d)"
    and "doc_identity d' = doc_identity d" "doc_workspace_id d' = doc_workspace_id d"
    "doc_created_by_user_id d' = doc_created_by_user_id d"
    "doc_content_length d' = doc_content_length d" "doc_archived d \<longrightarrow> doc_archived d'"
    and "\<forall>x \<in> set (db_documents s).
      rec_id x \<noteq> document_id_uuid (document_id_of d) \<longrightarrow> rec_object_key x \<noteq> doc_object_key d'"
  shows "document_save d' s =
    Inr (s\<lparr>db_documents := upsert_row rec_id (document_from_domain d') (db_documents s)\<rparr>)"
proof -
  let ?r = "document_from_domain d" and ?r' = "document_from_domain d'"
  note row = document_get_row [OF assms(2)]
  have "document_row_ok s ?r" "document_row_unique (db_documents s) ?r"
    using assms(1) row wf_documents_unique by (auto simp: documents_valid_def)
  moreover have "rec_upload_status ?r' \<in> {''pending'', ''finalizing'', ''uploaded'', ''contains_virus'', ''failed''}"
    by (cases "doc_upload_status d'") (simp_all add: document_from_domain_def)
  ultimately have "document_row_ok s ?r'" "document_row_unique (db_documents s) ?r'"
    using assms(3-8) unfolding document_row_ok_def document_row_unique_def
    by (simp_all add: document_from_domain_def document_id_of_def document_owner_of_def) blast+
  then show ?thesis by (simp add: document_save_iff)
qed

lemma document_get_same_key:
  assumes "documents_valid s" and "document_get i ow s = Inr (Some d)"
  shows "\<forall>x \<in> set (db_documents s).
    rec_id x \<noteq> document_id_uuid (document_id_of d) \<longrightarrow> rec_object_key x \<noteq> doc_object_key d"
  using wf_documents_unique [OF _ document_get_row [OF assms(2)]] assms(1)
  by (auto simp: documents_valid_def document_row_unique_def document_from_domain_def)

lemma document_get_valid:
  assumes "documents_valid s"
  shows "\<exists>x. document_get i ow s = Inr x"
proof (cases "find (document_row_key i ow) (db_documents s)")
  case (Some r)
  then have "document_row_ok s r" using assms by (auto simp: documents_valid_def find_Some_iff)
  then have "is_ok (upload_status_from_str (rec_upload_status r))"
    by (auto simp: document_row_ok_def upload_status_from_str_def)
  then obtain st where "upload_status_from_str (rec_upload_status r) = Inr st"
    by (cases "upload_status_from_str (rec_upload_status r)") auto
  with Some show ?thesis by (simp add: document_get_def load_document_def document_into_domain_def)
qed (simp add: document_get_def load_document_def)

end
