(* ===== verification/Document_Commands.thy ===== *)
theory Document_Commands
  imports Store Permissions
begin

text \<open>
  The document commands (\<^verbatim>\<open>src/application/commands/documents.rs\<close>): seven handlers, each one unit of
  work over the database. What a handler takes from outside is in \<open>command_env\<close>: the codecs, the
  time of the transaction and the random id of the message it may append. The lemmas describe what
  each handler does to the documents and to the outbox; the properties show that a verdict is applied
  once and together with the message it causes, that a repeated request is answered from the
  database, and that a grant is completed once.
\<close>

section \<open>Commands\<close>

record command_env =
  env_uuid :: uuid_codec
  env_upload :: upload_codec
  env_now :: datetime
  env_message_id :: uuid

record agent_connection_context =
  ctx_user_id :: user_id
  ctx_connection_id :: agent_connection_id
  ctx_workspace_id :: workspace_id
  ctx_permissions :: workspace_permissions

record create_evidence_submission_document =
  ces_connection :: agent_connection_context
  ces_submission_id :: evidence_submission_id
  ces_evidence_id :: evidence_id
  ces_coverage :: coverage_window
  ces_document_id :: document_id
  ces_document :: create_document_payload
  ces_received_at :: datetime

record create_policy_document =
  cpd_connection :: agent_connection_context
  cpd_policy_id :: policy_id
  cpd_document_id :: document_id
  cpd_document :: create_document_payload
  cpd_created_at :: datetime

record archive_document =
  arc_connection :: agent_connection_context
  arc_identity :: document_identity

datatype scan_document_result = VerdictClean | VerdictMalicious | VerdictFailed

record scan_document_command =
  scan_identity :: document_identity
  scan_object_key :: string
  scan_result :: scan_document_result

record finalize_document_command =
  fin_identity :: document_identity
  fin_quarantine_object_key :: string
  fin_final_object_key :: string

record complete_agent_evidence_upload =
  cae_grant :: agent_evidence_grant
  cae_authority :: agent_evidence_authority
  cae_staged_submission_id :: evidence_submission_id
  cae_document_id :: document_id
  cae_document :: create_document_payload
  cae_completed_at :: datetime

record complete_agent_policy_upload =
  cap_grant :: agent_policy_grant
  cap_authority :: agent_policy_authority
  cap_policy_id :: policy_id
  cap_document_id :: document_id
  cap_document :: create_document_payload
  cap_completed_at :: datetime

datatype created_document = Created document | Replayed document

datatype create_policy_document_outcome =
  PolicyDocumentCreated document | PolicyDocumentReplayed document | PolicyUnavailable
| PolicyHasCurrentDocument

datatype archive_document_outcome = Archived | ArchiveReplayed | ArchiveUnavailable | NotTerminal

datatype complete_evidence_outcome =
  EvidenceUploadCreated evidence_submission_id document
| EvidenceUploadReplayed evidence_submission_id document_id
| EvidenceUploadUnavailable

datatype complete_policy_outcome =
  PolicyUploadCreated document | PolicyUploadReplayed document_id
| PolicyUploadCurrentDocument | PolicyUploadUnavailable

datatype document_command_outcome = CommandApplied | CommandIgnored | CommandRejected

datatype document_command_error =
  CommandUnavailable | CommandInvalid | CommandRepository repository_error

text \<open>A unit of work whose error becomes the command's.\<close>

definition run_command ::
  "('s, 'a) tx \<Rightarrow> 's \<Rightarrow> (document_command_error + 'a) \<times> 's" where
  "run_command m s = apfst (map_err CommandRepository) (in_unit_of_work m s)"

section \<open>Messages\<close>

definition message_bus_topic :: string where
  "message_bus_topic = ''proof.message_bus''"

definition message_for ::
  "uuid_codec \<Rightarrow> uuid \<Rightarrow> document_event option \<Rightarrow> execution_metadata \<Rightarrow> new_outbox_message option" where
  "message_for c fresh event metadata =
     (let correlation = option_or (exec_correlation_id metadata) (exec_request_id metadata);
          causation = exec_causation_id metadata in
      case event of
        None \<Rightarrow> None
      | Some (ScanRequested identity key) \<Rightarrow>
          Some \<lparr>new_topic = message_bus_topic,
                new_message = scan_document c fresh identity key correlation causation\<rparr>
      | Some (FinalizationRequested identity key) \<Rightarrow>
          Some \<lparr>new_topic = message_bus_topic,
                new_message = finalize_document c fresh identity key correlation causation\<rparr>)"

definition append_transition_message ::
  "command_env \<Rightarrow> document_event option \<Rightarrow> execution_metadata \<Rightarrow> (db, unit) tx" where
  "append_transition_message env event metadata =
     (case message_for (env_uuid env) (env_message_id env) event metadata of
        Some message \<Rightarrow> tx_write (outbox_append (env_uuid env) (env_now env) message)
      | None \<Rightarrow> tx_return ())"

fun command_outcome :: "document_transition_outcome \<Rightarrow> document_command_outcome" where
  "command_outcome TransitionIgnored = CommandIgnored"
| "command_outcome TransitionRejected = CommandRejected"
| "command_outcome _ = CommandApplied"

section \<open>Handlers\<close>

definition evidence_submission_of ::
  "agent_connection_context \<Rightarrow> evidence_submitter" where
  "evidence_submission_of x = SubmittedByConnection (ctx_connection_id x) (ctx_user_id x)"

text \<open>\<^verbatim>\<open>CreateEvidenceSubmissionDocumentHandler::handle\<close>, its unit of work and its guards.\<close>

definition create_evidence_document_tx ::
  "command_env \<Rightarrow> create_evidence_submission_document \<Rightarrow> execution_metadata
   \<Rightarrow> (db, created_document option) tx" where
  "create_evidence_document_tx env cmd metadata =
     (let connection = ces_connection cmd;
          workspace = ctx_workspace_id connection;
          identity = EvidenceDocument (ces_submission_id cmd) (ces_document_id cmd);
          submitter = evidence_submission_of connection in
      tx_bind (tx_read (evidence_read workspace (ces_evidence_id cmd))) (\<lambda>evidence.
      if evidence = None then tx_return None
      else tx_bind (tx_read (submission_get workspace (ces_submission_id cmd))) (\<lambda>existing.
      case existing of
        Some x \<Rightarrow>
          if sub_evidence_id x \<noteq> ces_evidence_id cmd \<or> submission_coverage x \<noteq> ces_coverage cmd
            \<or> sub_submitted_by x \<noteq> submitter
          then tx_return None
          else tx_bind
            (tx_read (workspace_document_get workspace (identity_document_id identity)
              (identity_owner identity)))
            (\<lambda>document. tx_return (map_option Replayed document))
      | None \<Rightarrow>
          tx_bind (tx_write (submission_save (submission_create (ces_submission_id cmd)
            (ces_evidence_id cmd) submitter (ces_coverage cmd) (ces_received_at cmd)))) (\<lambda>_.
          tx_bind (tx_lift (map_err
            (\<lambda>_. InvariantViolation ''validated document creation is invalid'')
            (document_create identity workspace (ctx_user_id connection) (ces_document cmd)
              (ces_received_at cmd)))) (\<lambda>(document, transition).
          tx_bind (tx_write (document_save document)) (\<lambda>_.
          tx_bind (append_transition_message env (transition_event transition) metadata) (\<lambda>_.
          tx_return (Some (Created document)))))))))"

definition handle_create_evidence_submission_document ::
  "command_env \<Rightarrow> create_evidence_submission_document \<Rightarrow> execution_metadata \<Rightarrow> db
   \<Rightarrow> (document_command_error + created_document) \<times> db" where
  "handle_create_evidence_submission_document env cmd metadata s =
     (if \<not> has (ctx_permissions (ces_connection cmd)) WriteEvidenceSubmissions
      then (Err CommandUnavailable, s)
      else if payload_owner (ces_document cmd) \<noteq> OwnedBySubmission (ces_submission_id cmd)
      then (Err CommandInvalid, s)
      else apfst (\<lambda>r. and_then r (ok_or CommandUnavailable))
        (run_command (create_evidence_document_tx env cmd metadata) s))"

text \<open>\<^verbatim>\<open>CreatePolicyDocumentHandler::handle\<close>.\<close>

definition create_policy_document_tx ::
  "command_env \<Rightarrow> create_policy_document \<Rightarrow> execution_metadata
   \<Rightarrow> (db, create_policy_document_outcome) tx" where
  "create_policy_document_tx env cmd metadata =
     (let connection = cpd_connection cmd;
          workspace = ctx_workspace_id connection;
          identity = PolicyDocument (cpd_policy_id cmd) (cpd_document_id cmd) in
      tx_bind (tx_read (workspace_document_get workspace (identity_document_id identity)
        (identity_owner identity))) (\<lambda>existing.
      case existing of
        Some document \<Rightarrow> tx_return (PolicyDocumentReplayed document)
      | None \<Rightarrow>
      tx_bind (tx_read (lock_document_upload_eligibility workspace (cpd_policy_id cmd))) (\<lambda>eligibility.
      case eligibility of
        Some CurrentDocument \<Rightarrow> tx_return PolicyHasCurrentDocument
      | None \<Rightarrow> tx_return PolicyUnavailable
      | Some Eligible \<Rightarrow>
          tx_bind (tx_lift (map_err
            (\<lambda>_. InvariantViolation ''validated document creation is invalid'')
            (document_create identity workspace (ctx_user_id connection) (cpd_document cmd)
              (cpd_created_at cmd)))) (\<lambda>(document, transition).
          tx_bind (tx_write (document_save document)) (\<lambda>_.
          tx_bind (append_transition_message env (transition_event transition) metadata) (\<lambda>_.
          tx_return (PolicyDocumentCreated document)))))))"

definition handle_create_policy_document ::
  "command_env \<Rightarrow> create_policy_document \<Rightarrow> execution_metadata \<Rightarrow> db
   \<Rightarrow> (document_command_error + create_policy_document_outcome) \<times> db" where
  "handle_create_policy_document env cmd metadata s =
     (if \<not> has (ctx_permissions (cpd_connection cmd)) WriteEvidence then (Err CommandUnavailable, s)
      else if payload_owner (cpd_document cmd) \<noteq> OwnedByPolicy (cpd_policy_id cmd)
      then (Err CommandInvalid, s)
      else run_command (create_policy_document_tx env cmd metadata) s)"

text \<open>\<^verbatim>\<open>CompleteAgentEvidenceUploadHandler::handle\<close>.\<close>

definition complete_agent_evidence_upload_tx ::
  "command_env \<Rightarrow> complete_agent_evidence_upload \<Rightarrow> execution_metadata \<Rightarrow> (db, complete_evidence_outcome) tx" where
  "complete_agent_evidence_upload_tx env cmd metadata =
     (let workspace = aeg_workspace_id (cae_grant cmd);
          user = aeg_issued_by_user_id (cae_grant cmd);
          connection = aeg_issued_via_agent_connection_id (cae_grant cmd);
          document_payload = cae_document cmd; completed_at = cae_completed_at cmd in
      tx_bind (tx_read (evidence_grant_get (env_upload env) (aeg_id (cae_grant cmd)) workspace)) (\<lambda>found.
         case found of
           None \<Rightarrow> tx_return EvidenceUploadUnavailable
         | Some grant \<Rightarrow>
         if is_err (evidence_matches_authority (cae_authority cmd) grant)
           \<or> is_err (evidence_validate_staged_file (env_upload env)
               (payload_content_length document_payload) (payload_checksum_sha256 document_payload) grant)
           \<or> cae_staged_submission_id cmd \<noteq> aeg_submission_id grant
           \<or> payload_owner document_payload \<noteq> OwnedBySubmission (aeg_submission_id grant)
         then tx_return EvidenceUploadUnavailable
         else
         case evidence_completed_document_at completed_at grant of
           Inr (Some document_id) \<Rightarrow>
             tx_return (EvidenceUploadReplayed (aeg_submission_id grant) document_id)
         | Inl _ \<Rightarrow> tx_return EvidenceUploadUnavailable
         | Inr None \<Rightarrow>
         tx_bind (tx_read (evidence_read workspace (aeg_evidence_id grant))) (\<lambda>evidence.
         if evidence = None then tx_return EvidenceUploadUnavailable
         else tx_bind (tx_read (submission_exists workspace (aeg_submission_id grant))) (\<lambda>taken.
         if taken then tx_return EvidenceUploadUnavailable
         else
         tx_bind (tx_write (submission_save (submission_create (aeg_submission_id grant)
           (aeg_evidence_id grant) (SubmittedByConnection connection user) (aeg_coverage grant)
           completed_at))) (\<lambda>_.
         tx_bind (tx_lift (map_err
           (\<lambda>_. InvariantViolation ''validated machine evidence document is invalid'')
           (document_create (EvidenceDocument (aeg_submission_id grant) (cae_document_id cmd)) workspace
             user document_payload completed_at))) (\<lambda>(document, transition).
         tx_bind (tx_write (document_save document)) (\<lambda>_.
         tx_bind (append_transition_message env (transition_event transition) metadata) (\<lambda>_.
         tx_bind (tx_lift (map_err
           (\<lambda>_. InvariantViolation ''machine upload grant changed during completion'')
           (agent_evidence_grant_complete (document_id_of document) completed_at grant))) (\<lambda>grant'.
         tx_bind (tx_write (evidence_grant_save grant')) (\<lambda>_.
         tx_return (EvidenceUploadCreated (aeg_submission_id grant') document)))))))))))"

definition handle_complete_agent_evidence_upload ::
  "command_env \<Rightarrow> complete_agent_evidence_upload \<Rightarrow> execution_metadata \<Rightarrow> db
   \<Rightarrow> (document_command_error + complete_evidence_outcome) \<times> db" where
  "handle_complete_agent_evidence_upload env cmd metadata =
     run_command (complete_agent_evidence_upload_tx env cmd metadata)"

text \<open>\<^verbatim>\<open>CompleteAgentPolicyDocumentUploadHandler::handle\<close>.\<close>

definition complete_agent_policy_upload_tx ::
  "command_env \<Rightarrow> complete_agent_policy_upload \<Rightarrow> execution_metadata \<Rightarrow> (db, complete_policy_outcome) tx" where
  "complete_agent_policy_upload_tx env cmd metadata =
     (let workspace = apg_workspace_id (cap_grant cmd);
          user = apg_issued_by_user_id (cap_grant cmd);
          document_payload = cap_document cmd; completed_at = cap_completed_at cmd in
      tx_bind (tx_read (policy_grant_get (env_upload env) (apg_id (cap_grant cmd)) workspace)) (\<lambda>found.
         case found of
           None \<Rightarrow> tx_return PolicyUploadUnavailable
         | Some grant \<Rightarrow>
         if is_err (policy_matches_authority (cap_authority cmd) grant)
           \<or> is_err (policy_validate_staged_file (env_upload env)
               (payload_content_length document_payload) (payload_checksum_sha256 document_payload) grant)
           \<or> cap_policy_id cmd \<noteq> apg_policy_id grant
           \<or> payload_owner document_payload \<noteq> OwnedByPolicy (apg_policy_id grant)
         then tx_return PolicyUploadUnavailable
         else
         case policy_completed_document_at completed_at grant of
           Inr (Some document_id) \<Rightarrow> tx_return (PolicyUploadReplayed document_id)
         | Inl _ \<Rightarrow> tx_return PolicyUploadUnavailable
         | Inr None \<Rightarrow>
         tx_bind (tx_read (lock_document_upload_eligibility workspace (apg_policy_id grant))) (\<lambda>eligibility.
         case eligibility of
           Some CurrentDocument \<Rightarrow> tx_return PolicyUploadCurrentDocument
         | None \<Rightarrow> tx_return PolicyUploadUnavailable
         | Some Eligible \<Rightarrow>
         tx_bind (tx_lift (map_err
           (\<lambda>_. InvariantViolation ''validated machine policy document is invalid'')
           (document_create (PolicyDocument (apg_policy_id grant) (cap_document_id cmd)) workspace
             user document_payload completed_at))) (\<lambda>(document, transition).
         tx_bind (tx_write (document_save document)) (\<lambda>_.
         tx_bind (append_transition_message env (transition_event transition) metadata) (\<lambda>_.
         tx_bind (tx_lift (map_err
           (\<lambda>_. InvariantViolation ''policy machine upload grant changed during completion'')
           (agent_policy_grant_complete (document_id_of document) completed_at grant))) (\<lambda>grant'.
         tx_bind (tx_write (policy_grant_save grant')) (\<lambda>_.
         tx_return (PolicyUploadCreated document)))))))))"

definition handle_complete_agent_policy_upload ::
  "command_env \<Rightarrow> complete_agent_policy_upload \<Rightarrow> execution_metadata \<Rightarrow> db
   \<Rightarrow> (document_command_error + complete_policy_outcome) \<times> db" where
  "handle_complete_agent_policy_upload env cmd metadata =
     run_command (complete_agent_policy_upload_tx env cmd metadata)"

text \<open>\<^verbatim>\<open>ArchiveDocumentHandler::handle\<close>.\<close>

definition archive_permission :: "document_identity \<Rightarrow> workspace_permission" where
  "archive_permission identity =
     (case identity_owner identity of
        OwnedBySubmission _ \<Rightarrow> WriteEvidenceSubmissions
      | OwnedByPolicy _ \<Rightarrow> WriteEvidence)"

definition archive_document_tx :: "archive_document \<Rightarrow> (db, archive_document_outcome) tx" where
  "archive_document_tx cmd =
     (let identity = arc_identity cmd in
      tx_bind (tx_read (workspace_document_get (ctx_workspace_id (arc_connection cmd))
        (identity_document_id identity) (identity_owner identity))) (\<lambda>found.
      case found of
        None \<Rightarrow> tx_return ArchiveUnavailable
      | Some document \<Rightarrow>
          (let (document', transition) = document_archive document in
           tx_bind (if transition_changed transition then tx_write (document_save document')
             else tx_return ()) (\<lambda>_.
           case transition_outcome transition of
             TransitionArchived \<Rightarrow> tx_return Archived
           | TransitionIgnored \<Rightarrow> tx_return ArchiveReplayed
           | TransitionRejected \<Rightarrow> tx_return NotTerminal
           | _ \<Rightarrow> tx_fail (InvariantViolation ''archive transition returned an unrelated outcome'')))))"

definition handle_archive_document ::
  "archive_document \<Rightarrow> db \<Rightarrow> (document_command_error + archive_document_outcome) \<times> db" where
  "handle_archive_document cmd s =
     (if \<not> has (ctx_permissions (arc_connection cmd)) (archive_permission (arc_identity cmd))
      then (Err CommandUnavailable, s)
      else run_command (archive_document_tx cmd) s)"

text \<open>\<^verbatim>\<open>ScanDocumentHandler::handle\<close>.\<close>

fun apply_verdict :: "scan_document_result \<Rightarrow> document \<Rightarrow> document \<times> document_transition" where
  "apply_verdict VerdictClean d = scan_clean d"
| "apply_verdict VerdictMalicious d = scan_malicious d"
| "apply_verdict VerdictFailed d = scan_failed d"

definition handle_scan_document ::
  "command_env \<Rightarrow> scan_document_command \<Rightarrow> execution_metadata \<Rightarrow> db
   \<Rightarrow> (document_command_error + document_command_outcome) \<times> db" where
  "handle_scan_document env cmd metadata =
     run_command
       (tx_bind (tx_read (document_get (identity_document_id (scan_identity cmd))
          (identity_owner (scan_identity cmd)))) (\<lambda>found.
        case found of
          None \<Rightarrow> tx_return CommandIgnored
        | Some document \<Rightarrow>
            if doc_object_key document \<noteq> scan_object_key cmd then tx_return CommandIgnored
            else
              (let (document', transition) = apply_verdict (scan_result cmd) document in
               tx_bind (if transition_changed transition
                 then tx_bind (tx_write (document_save document')) (\<lambda>_.
                   append_transition_message env (transition_event transition) metadata)
                 else tx_return ()) (\<lambda>_.
               tx_return (command_outcome (transition_outcome transition))))))"

text \<open>\<^verbatim>\<open>FinalizeDocumentHandler::handle\<close>.\<close>

definition handle_finalize_document ::
  "finalize_document_command \<Rightarrow> db \<Rightarrow> (document_command_error + document_command_outcome) \<times> db" where
  "handle_finalize_document cmd =
     run_command
       (tx_bind (tx_read (document_get (identity_document_id (fin_identity cmd))
          (identity_owner (fin_identity cmd)))) (\<lambda>found.
        case found of
          None \<Rightarrow> tx_return CommandIgnored
        | Some document \<Rightarrow>
            if doc_object_key document \<noteq> fin_quarantine_object_key cmd then tx_return CommandIgnored
            else
              (let (document', transition) = finalize_uploaded (fin_final_object_key cmd) document in
               tx_bind (if transition_changed transition then tx_write (document_save document')
                 else tx_return ()) (\<lambda>_.
               tx_return (command_outcome (transition_outcome transition))))))"

section \<open>What the handlers do to the documents and the outbox\<close>

lemma run_command_Ok_iff: "run_command m s = (Inr y, t) \<longleftrightarrow> m s = (Inr y, t)"
proof -
  have "run_command m s = (Inr y, t) \<longleftrightarrow> in_unit_of_work m s = (Inr y, t)"
    unfolding run_command_def by (cases "in_unit_of_work m s") (simp only: apfst_conv prod.inject map_err_Ok_iff)
  then show ?thesis by simp
qed

lemma run_command_Err: "run_command m s = (Inl e, t) \<Longrightarrow> t = s"
  unfolding run_command_def
  by (cases "in_unit_of_work m s") (metis Pair_inject apfst_conv map_err_Err_iff unit_of_work_Err)

definition record_event ::
  "command_env \<Rightarrow> document_event option \<Rightarrow> execution_metadata \<Rightarrow> outbox_table \<Rightarrow> outbox_table" where
  "record_event env event metadata t =
     (case message_for (env_uuid env) (env_message_id env) event metadata of
        Some message \<Rightarrow> snd (append_outbox_message (env_uuid env) (env_now env) message t)
      | None \<Rightarrow> t)"

lemma append_transition_message_eq:
  "append_transition_message env event metadata s =
     (Inr (), s\<lparr>db_outbox := record_event env event metadata (db_outbox s)\<rparr>)"
  by (cases "message_for (env_uuid env) (env_message_id env) event metadata")
    (simp_all add: append_transition_message_def record_event_def tx_defs outbox_append_def)

lemma record_event_None [simp]: "record_event env None metadata t = t"
  by (simp add: record_event_def message_for_def Let_def)

text \<open>The event a stored document still waits for.\<close>

definition pending_event :: "document \<Rightarrow> document_event option" where
  "pending_event d =
     (case doc_upload_status d of
        PendingUpload \<Rightarrow> Some (ScanRequested (doc_identity d) (doc_object_key d))
      | Finalizing \<Rightarrow> Some (FinalizationRequested (doc_identity d) (doc_object_key d))
      | _ \<Rightarrow> None)"

text \<open>
  The one thing a handler may do to the documents: store one document, with the message its new
  status calls for in the same transaction.
\<close>

definition documents_step :: "command_env \<Rightarrow> execution_metadata \<Rightarrow> db \<Rightarrow> db \<Rightarrow> bool" where
  "documents_step env metadata s s' \<longleftrightarrow>
     db_workspaces s' = db_workspaces s \<and> db_users s' = db_users s
   \<and> (db_documents s' = db_documents s \<and> db_outbox s' = db_outbox s
      \<or> (\<exists>d s1. document_save d s = Inr s1 \<and> db_documents s' = db_documents s1
           \<and> db_outbox s' = record_event env (pending_event d) metadata (db_outbox s)))"

lemma documents_step_refl [simp]: "documents_step env metadata s s"
  by (simp add: documents_step_def)

lemma document_save_context:
  "document_save d s0 = Inr s1 \<Longrightarrow> db_documents s0 = db_documents s \<Longrightarrow> db_workspaces s0 = db_workspaces s \<Longrightarrow>
     db_users s0 = db_users s \<Longrightarrow>
     document_save d s = Inr (s\<lparr>db_documents := db_documents s1\<rparr>)"
  by (auto simp: document_save_iff document_row_ok_def)

lemma documents_stepI:
  assumes "document_save d s0 = Inr s1" and "db_documents s0 = db_documents s"
    and "db_workspaces s0 = db_workspaces s" "db_users s0 = db_users s"
    and "db_documents s' = db_documents s1"
    and "db_outbox s' = record_event env (pending_event d) metadata (db_outbox s)"
    and "db_workspaces s' = db_workspaces s" "db_users s' = db_users s"
  shows "documents_step env metadata s s'"
  unfolding documents_step_def
  using document_save_context [OF assms(1-4)] assms(5-8)
  by (intro conjI disjI2 exI [of _ d] exI [of _ "s\<lparr>db_documents := db_documents s1\<rparr>"]) simp_all

lemma documents_valid_cong:
  "db_documents s' = db_documents s \<Longrightarrow> db_workspaces s' = db_workspaces s \<Longrightarrow> db_users s' = db_users s \<Longrightarrow>
     documents_valid s' = documents_valid s"
  by (simp add: documents_valid_def document_row_ok_def)

lemma documents_step_valid:
  assumes "documents_step env metadata s s'" and "documents_valid s"
  shows "documents_valid s'"
proof -
  note frame = assms(1) [unfolded documents_step_def]
  from frame consider "db_documents s' = db_documents s"
    | d s1 where "document_save d s = Inr s1" "db_documents s' = db_documents s1"
    by blast
  then show ?thesis
  proof cases
    case 1
    with frame assms(2) documents_valid_cong [of s' s] show ?thesis by simp
  next
    case 2
    then have "db_workspaces s1 = db_workspaces s" "db_users s1 = db_users s"
      by (simp_all add: document_save_iff)
    with 2 frame documents_valid_cong [of s' s1] document_save_valid [OF 2(1) assms(2)] show ?thesis by simp
  qed
qed

lemma document_create_event:
  "document_create i w u p t = Inr (d, tr) \<Longrightarrow>
     transition_event tr = pending_event d \<and> doc_identity d = i \<and> doc_upload_status d = PendingUpload"
  by (auto simp: document_create_def Let_def pending_event_def split: if_splits)

lemma document_save_frame:
  assumes "document_save d s = Inr s'"
  shows "db_outbox s' = db_outbox s" "db_submissions s' = db_submissions s"
    "db_evidence_grants s' = db_evidence_grants s" "db_policy_grants s' = db_policy_grants s"
    "db_evidence s' = db_evidence s" "db_policies s' = db_policies s"
    "db_connections s' = db_connections s" "db_users s' = db_users s"
    "db_workspaces s' = db_workspaces s"
  using assms by (simp_all add: document_save_Ok_iff)

lemma submission_save_Ok_iff:
  "submission_save x s = Inr s' \<longleftrightarrow>
     (\<forall>c \<in> set (submission_violations s (submission_from_domain x)). \<not> fst c)
     \<and> s' = s\<lparr>db_submissions := upsert_row subrec_id (submission_from_domain x) (db_submissions s)\<rparr>"
  by (auto simp: submission_save_def Let_def and_then_Ok_iff save_row_Ok_iff)

lemma evidence_grant_save_Ok_iff:
  "evidence_grant_save g s = Inr s' \<longleftrightarrow>
     (\<exists>r. agent_evidence_grant_from_domain g = Inr r
       \<and> (\<forall>c \<in> set (evidence_grant_violations s r). \<not> fst c)
       \<and> s' = s\<lparr>db_evidence_grants := upsert_row aegrec_id r (db_evidence_grants s)\<rparr>)"
  by (auto simp: evidence_grant_save_def and_then_Ok_iff save_row_Ok_iff)

lemma policy_grant_save_Ok_iff:
  "policy_grant_save g s = Inr s' \<longleftrightarrow>
     (\<exists>r. agent_policy_grant_from_domain g = Inr r
       \<and> (\<forall>c \<in> set (policy_grant_violations s r). \<not> fst c)
       \<and> s' = s\<lparr>db_policy_grants := upsert_row apgrec_id r (db_policy_grants s)\<rparr>)"
  by (auto simp: policy_grant_save_def and_then_Ok_iff save_row_Ok_iff)

definition verdict_status :: "scan_document_result \<Rightarrow> document_upload_status" where
  "verdict_status v =
     (case v of VerdictClean \<Rightarrow> Finalizing | VerdictMalicious \<Rightarrow> ContainsVirus | VerdictFailed \<Rightarrow> FailedUpload)"

lemma apply_verdict_eq:
  "apply_verdict v d =
     (if doc_archived d \<or> doc_upload_status d \<noteq> PendingUpload then (d, transition_ignored)
      else (d\<lparr>doc_upload_status := verdict_status v\<rparr>,
            transition_applied TransitionScanned (pending_event (d\<lparr>doc_upload_status := verdict_status v\<rparr>))))"
  by (cases v) (simp_all add: op_defs verdict_status_def pending_event_def)

lemma run_command_ensures: "run_command m s = (Inr x, t) \<Longrightarrow> tx_ensures m Q s \<Longrightarrow> Q x t"
  by (simp add: run_command_Ok_iff tx_ensures_def)

lemma run_command_post:
  "run_command m s = (Inr x, t) \<Longrightarrow> tx_ensures m (\<lambda>y u. y = x \<longrightarrow> u = t \<longrightarrow> P) s \<Longrightarrow> P"
  by (simp add: run_command_Ok_iff tx_ensures_def)

lemma append_transition_ensures [tx_post]:
  "tx_ensures (append_transition_message env event metadata) Q s \<longleftrightarrow>
     Q () (s\<lparr>db_outbox := record_event env event metadata (db_outbox s)\<rparr>)"
  by (simp add: tx_ensures_def append_transition_message_eq)

text \<open>A delivered verdict, on every branch.\<close>

lemma handle_scan_Ok:
  assumes "handle_scan_document env cmd md s = (Inr out, s')"
  shows "out = CommandIgnored \<and> s' = s
     \<or> out = CommandApplied \<and> (\<exists>d s1.
         document_get (identity_document_id (scan_identity cmd)) (identity_owner (scan_identity cmd)) s
           = Inr (Some d)
       \<and> doc_object_key d = scan_object_key cmd \<and> doc_upload_status d = PendingUpload \<and> \<not> doc_archived d
       \<and> document_save (d\<lparr>doc_upload_status := verdict_status (scan_result cmd)\<rparr>) s = Inr s1
       \<and> s' = s1\<lparr>db_outbox := record_event env
             (pending_event (d\<lparr>doc_upload_status := verdict_status (scan_result cmd)\<rparr>)) md (db_outbox s)\<rparr>)"
  using assms unfolding handle_scan_document_def
  by (rule run_command_ensures)
    (auto simp: tx_post Let_def apply_verdict_eq document_save_frame(1))

lemma handle_finalize_Ok:
  assumes "handle_finalize_document cmd s = (Inr out, s')"
  shows "out = CommandIgnored \<and> s' = s
     \<or> out = CommandApplied \<and> (\<exists>d.
         document_get (identity_document_id (fin_identity cmd)) (identity_owner (fin_identity cmd)) s
           = Inr (Some d)
       \<and> doc_object_key d = fin_quarantine_object_key cmd \<and> doc_upload_status d = Finalizing
       \<and> \<not> doc_archived d
       \<and> document_save (d\<lparr>doc_object_key := fin_final_object_key cmd, doc_upload_status := Uploaded\<rparr>) s
           = Inr s')"
  using assms unfolding handle_finalize_document_def
  by (rule run_command_ensures) (auto simp: tx_post Let_def finalize_uploaded_def)

lemma handle_archive_Ok:
  assumes "handle_archive_document cmd s = (Inr out, s')"
  shows "out \<noteq> Archived \<and> s' = s
     \<or> out = Archived \<and> (\<exists>d.
         workspace_document_get (ctx_workspace_id (arc_connection cmd))
           (identity_document_id (arc_identity cmd)) (identity_owner (arc_identity cmd)) s = Inr (Some d)
       \<and> terminal_status (doc_upload_status d) \<and> \<not> doc_archived d
       \<and> document_save (d\<lparr>doc_archived := True\<rparr>) s = Inr s')"
proof -
  from assms have "run_command (archive_document_tx cmd) s = (Inr out, s')"
    by (simp add: handle_archive_document_def split: if_splits)
  then show ?thesis
    by (rule run_command_ensures)
      (auto simp: archive_document_tx_def tx_post Let_def document_archive_def terminal_status_def)
qed

lemma apfst_command_Ok:
  "apfst (\<lambda>r. and_then r f) p = (Inr y, t) \<longleftrightarrow> (\<exists>x. p = (Inr x, t) \<and> f x = Inr y)"
  by (cases p) (auto simp: and_then_Ok_iff)

lemma handle_create_evidence_Ok:
  assumes "handle_create_evidence_submission_document env cmd md s = (Inr out, s')"
  defines "w \<equiv> ctx_workspace_id (ces_connection cmd)"
    and "identity \<equiv> EvidenceDocument (ces_submission_id cmd) (ces_document_id cmd)"
    and "submitter \<equiv> evidence_submission_of (ces_connection cmd)"
  shows "(\<exists>e. evidence_read w (ces_evidence_id cmd) s = Inr (Some e))
   \<and> ((\<exists>d x. out = Replayed d \<and> s' = s \<and> submission_get w (ces_submission_id cmd) s = Inr (Some x)
         \<and> sub_evidence_id x = ces_evidence_id cmd \<and> submission_coverage x = ces_coverage cmd
         \<and> sub_submitted_by x = submitter
         \<and> workspace_document_get w (ces_document_id cmd) (OwnedBySubmission (ces_submission_id cmd)) s
             = Inr (Some d))
    \<or> (\<exists>d tr s1 s2. out = Created d \<and> submission_get w (ces_submission_id cmd) s = Inr None
         \<and> submission_save (submission_create (ces_submission_id cmd) (ces_evidence_id cmd) submitter
             (ces_coverage cmd) (ces_received_at cmd)) s = Inr s1
         \<and> document_create identity w (ctx_user_id (ces_connection cmd)) (ces_document cmd)
             (ces_received_at cmd) = Inr (d, tr)
         \<and> document_save d s1 = Inr s2
         \<and> s' = s2\<lparr>db_outbox := record_event env (pending_event d) md (db_outbox s)\<rparr>))"
proof -
  from assms(1) have "run_command (create_evidence_document_tx env cmd md) s = (Inr (Some out), s')"
    by (auto simp: handle_create_evidence_submission_document_def apfst_command_Ok split: if_splits)
  then show ?thesis
    by (rule run_command_post)
      (auto simp: create_evidence_document_tx_def tx_post Let_def assms(2-4) submission_save_Ok_iff
        document_save_frame(1) dest: document_create_event)
qed

lemma handle_create_policy_Ok:
  assumes "handle_create_policy_document env cmd md s = (Inr out, s')"
  defines "w \<equiv> ctx_workspace_id (cpd_connection cmd)"
    and "owner \<equiv> OwnedByPolicy (cpd_policy_id cmd)"
  shows "out \<in> {PolicyUnavailable, PolicyHasCurrentDocument} \<and> s' = s
   \<or> (\<exists>d. out = PolicyDocumentReplayed d \<and> s' = s
        \<and> workspace_document_get w (cpd_document_id cmd) owner s = Inr (Some d))
   \<or> (\<exists>d tr s1. out = PolicyDocumentCreated d
        \<and> workspace_document_get w (cpd_document_id cmd) owner s = Inr None
        \<and> lock_document_upload_eligibility w (cpd_policy_id cmd) s = Inr (Some Eligible)
        \<and> document_create (PolicyDocument (cpd_policy_id cmd) (cpd_document_id cmd)) w
            (ctx_user_id (cpd_connection cmd)) (cpd_document cmd) (cpd_created_at cmd) = Inr (d, tr)
        \<and> document_save d s = Inr s1
        \<and> s' = s1\<lparr>db_outbox := record_event env (pending_event d) md (db_outbox s)\<rparr>)"
proof -
  from assms(1) have "run_command (create_policy_document_tx env cmd md) s = (Inr out, s')"
    by (simp add: handle_create_policy_document_def split: if_splits)
  then show ?thesis
    by (rule run_command_post)
      (auto simp: create_policy_document_tx_def tx_post Let_def assms(2,3) document_save_frame(1)
        split: policy_upload_eligibility.splits dest: document_create_event)
qed

lemma handle_complete_evidence_Ok:
  assumes "handle_complete_agent_evidence_upload env cmd md s = (Inr out, s')"
  defines "w \<equiv> aeg_workspace_id (cae_grant cmd)"
    and "p \<equiv> cae_document cmd" and "now \<equiv> cae_completed_at cmd"
  shows "out = EvidenceUploadUnavailable \<and> s' = s
   \<or> (\<exists>g. evidence_grant_get (env_upload env) (aeg_id (cae_grant cmd)) w s = Inr (Some g)
      \<and> is_ok (evidence_matches_authority (cae_authority cmd) g)
      \<and> is_ok (evidence_validate_staged_file (env_upload env) (payload_content_length p)
          (payload_checksum_sha256 p) g)
      \<and> cae_staged_submission_id cmd = aeg_submission_id g
      \<and> payload_owner p = OwnedBySubmission (aeg_submission_id g)
      \<and> ((\<exists>i. out = EvidenceUploadReplayed (aeg_submission_id g) i \<and> s' = s
            \<and> evidence_completed_document_at now g = Inr (Some i))
       \<or> (\<exists>d tr g' s1 s2. out = EvidenceUploadCreated (aeg_submission_id g) d
            \<and> evidence_completed_document_at now g = Inr None
            \<and> submission_exists w (aeg_submission_id g) s = Inr False
            \<and> submission_save (submission_create (aeg_submission_id g) (aeg_evidence_id g)
                (SubmittedByConnection (aeg_issued_via_agent_connection_id (cae_grant cmd))
                  (aeg_issued_by_user_id (cae_grant cmd))) (aeg_coverage g) now) s = Inr s1
            \<and> document_create (EvidenceDocument (aeg_submission_id g) (cae_document_id cmd)) w
                (aeg_issued_by_user_id (cae_grant cmd)) p now = Inr (d, tr)
            \<and> document_save d s1 = Inr s2
            \<and> agent_evidence_grant_complete (document_id_of d) now g = Inr g'
            \<and> evidence_grant_save g' (s2\<lparr>db_outbox := record_event env (pending_event d) md (db_outbox s)\<rparr>)
                = Inr s')))"
proof -
  from assms(1) have "run_command (complete_agent_evidence_upload_tx env cmd md) s = (Inr out, s')"
    by (simp add: handle_complete_agent_evidence_upload_def)
  then show ?thesis
    by (rule run_command_post)
      (auto simp: complete_agent_evidence_upload_tx_def tx_post Let_def assms(2-4) submission_save_Ok_iff
        document_save_frame(1) agent_evidence_grant_complete_Ok_iff dest!: document_create_event)
qed

lemma handle_complete_policy_Ok:
  assumes "handle_complete_agent_policy_upload env cmd md s = (Inr out, s')"
  defines "w \<equiv> apg_workspace_id (cap_grant cmd)"
    and "p \<equiv> cap_document cmd" and "now \<equiv> cap_completed_at cmd"
  shows "out \<in> {PolicyUploadUnavailable, PolicyUploadCurrentDocument} \<and> s' = s
   \<or> (\<exists>g. policy_grant_get (env_upload env) (apg_id (cap_grant cmd)) w s = Inr (Some g)
      \<and> is_ok (policy_matches_authority (cap_authority cmd) g)
      \<and> is_ok (policy_validate_staged_file (env_upload env) (payload_content_length p)
          (payload_checksum_sha256 p) g)
      \<and> cap_policy_id cmd = apg_policy_id g \<and> payload_owner p = OwnedByPolicy (apg_policy_id g)
      \<and> ((\<exists>i. out = PolicyUploadReplayed i \<and> s' = s
            \<and> policy_completed_document_at now g = Inr (Some i))
       \<or> (\<exists>d tr g' s1. out = PolicyUploadCreated d
            \<and> policy_completed_document_at now g = Inr None
            \<and> lock_document_upload_eligibility w (apg_policy_id g) s = Inr (Some Eligible)
            \<and> document_create (PolicyDocument (apg_policy_id g) (cap_document_id cmd)) w
                (apg_issued_by_user_id (cap_grant cmd)) p now = Inr (d, tr)
            \<and> document_save d s = Inr s1
            \<and> agent_policy_grant_complete (document_id_of d) now g = Inr g'
            \<and> policy_grant_save g' (s1\<lparr>db_outbox := record_event env (pending_event d) md (db_outbox s)\<rparr>)
                = Inr s')))"
proof -
  from assms(1) have "run_command (complete_agent_policy_upload_tx env cmd md) s = (Inr out, s')"
    by (simp add: handle_complete_agent_policy_upload_def)
  then show ?thesis
    by (rule run_command_post)
      (auto simp: complete_agent_policy_upload_tx_def tx_post Let_def assms(2-4)
        document_save_frame(1) split: policy_upload_eligibility.splits dest!: document_create_event)
qed

section \<open>The handlers as one interface\<close>

text \<open>
  What a client of a document handler relies on: an error leaves the database as it was, a success
  stores at most one document, with the message its status calls for.
\<close>

locale document_handler =
  fixes handle :: "db \<Rightarrow> (document_command_error + 'a) \<times> db"
    and env :: command_env and metadata :: execution_metadata
  assumes failed: "handle s = (Inl e, s') \<Longrightarrow> s' = s"
    and succeeded: "handle s = (Inr r, s') \<Longrightarrow> documents_step env metadata s s'"
begin

lemma step: "documents_step env metadata s (snd (handle s))"
proof (cases "handle s")
  case (Pair r s')
  then show ?thesis
  proof (cases r)
    case (Inl e)
    with Pair have "s' = s" by (auto dest: failed)
    with Pair show ?thesis by simp
  next
    case (Inr x)
    with Pair show ?thesis by (auto dest: succeeded)
  qed
qed

lemma keeps_valid: "documents_valid s \<Longrightarrow> documents_valid (snd (handle s))"
  using step documents_step_valid by blast

end

lemma pending_event_terminal [simp]: "terminal_status (doc_upload_status d) \<Longrightarrow> pending_event d = None"
  by (auto simp: pending_event_def terminal_status_def)

text \<open>An operation that changes nothing where it answers with nothing.\<close>

lemma unavailable_unchanged:
  assumes "apfst (\<lambda>r. and_then r (ok_or e0)) (run_command m s) = (Inl e, t)"
    and "tx_ensures m (\<lambda>r u. r = None \<longrightarrow> u = s) s"
  shows "t = s"
proof (cases "run_command m s")
  case (Pair r u)
  show ?thesis
  proof (cases r)
    case (Inl x)
    with Pair assms(1) show ?thesis by (auto dest: run_command_Err)
  next
    case (Inr y)
    with Pair assms(1) have "y = None" "t = u" by (cases y; auto)+
    with run_command_ensures [OF _ assms(2)] Pair Inr show ?thesis by auto
  qed
qed

interpretation create_evidence: document_handler
  "handle_create_evidence_submission_document env cmd md" env md for env cmd md
proof
  fix s e s'
  assume "handle_create_evidence_submission_document env cmd md s = (Inl e, s')"
  then consider "s' = s" | "apfst (\<lambda>r. and_then r (ok_or CommandUnavailable))
      (run_command (create_evidence_document_tx env cmd md) s) = (Inl e, s')"
    by (auto simp: handle_create_evidence_submission_document_def split: if_splits)
  then show "s' = s"
  proof cases
    case 2
    then show ?thesis
      by (rule unavailable_unchanged) (auto simp: create_evidence_document_tx_def tx_post Let_def)
  qed
next
  fix s r s'
  assume "handle_create_evidence_submission_document env cmd md s = (Inr r, s')"
  from handle_create_evidence_Ok [OF this] show "documents_step env md s s'"
    by (auto simp: submission_save_Ok_iff document_save_frame intro: documents_stepI)
qed

interpretation create_policy: document_handler "handle_create_policy_document env cmd md" env md for env cmd md
proof
  show "handle_create_policy_document env cmd md s = (Inl e, s') \<Longrightarrow> s' = s" for s e s'
    by (auto simp: handle_create_policy_document_def split: if_splits dest: run_command_Err)
  show "handle_create_policy_document env cmd md s = (Inr r, s') \<Longrightarrow> documents_step env md s s'" for s r s'
    by (drule handle_create_policy_Ok) (auto simp: document_save_frame intro: documents_stepI)
qed

interpretation evidence_completion: document_handler
  "handle_complete_agent_evidence_upload env cmd md" env md for env cmd md
proof
  show "handle_complete_agent_evidence_upload env cmd md s = (Inl e, s') \<Longrightarrow> s' = s" for s e s'
    by (auto simp: handle_complete_agent_evidence_upload_def dest: run_command_Err)
  show "handle_complete_agent_evidence_upload env cmd md s = (Inr r, s') \<Longrightarrow> documents_step env md s s'" for s r s'
    by (drule handle_complete_evidence_Ok)
      (auto simp: submission_save_Ok_iff evidence_grant_save_Ok_iff document_save_frame intro: documents_stepI)
qed

interpretation policy_completion: document_handler
  "handle_complete_agent_policy_upload env cmd md" env md for env cmd md
proof
  show "handle_complete_agent_policy_upload env cmd md s = (Inl e, s') \<Longrightarrow> s' = s" for s e s'
    by (auto simp: handle_complete_agent_policy_upload_def dest: run_command_Err)
  show "handle_complete_agent_policy_upload env cmd md s = (Inr r, s') \<Longrightarrow> documents_step env md s s'" for s r s'
    by (drule handle_complete_policy_Ok) (auto simp: policy_grant_save_Ok_iff document_save_frame intro: documents_stepI)
qed

interpretation archive: document_handler "handle_archive_document cmd" env md for env cmd md
proof
  show "handle_archive_document cmd s = (Inl e, s') \<Longrightarrow> s' = s" for s e s'
    by (auto simp: handle_archive_document_def split: if_splits dest: run_command_Err)
  show "handle_archive_document cmd s = (Inr r, s') \<Longrightarrow> documents_step env md s s'" for s r s'
    by (drule handle_archive_Ok) (auto simp: document_save_frame intro: documents_stepI)
qed

interpretation scan: document_handler "handle_scan_document env cmd md" env md for env cmd md
proof
  show "handle_scan_document env cmd md s = (Inl e, s') \<Longrightarrow> s' = s" for s e s'
    by (auto simp: handle_scan_document_def dest: run_command_Err)
  show "handle_scan_document env cmd md s = (Inr r, s') \<Longrightarrow> documents_step env md s s'" for s r s'
    by (drule handle_scan_Ok) (auto simp: document_save_frame intro: documents_stepI)
qed

interpretation finalize: document_handler "handle_finalize_document cmd" env md for env cmd md
proof
  show "handle_finalize_document cmd s = (Inl e, s') \<Longrightarrow> s' = s" for s e s'
    by (auto simp: handle_finalize_document_def dest: run_command_Err)
  show "handle_finalize_document cmd s = (Inr r, s') \<Longrightarrow> documents_step env md s s'" for s r s'
    by (drule handle_finalize_Ok)
      (auto simp: document_save_frame pending_event_def intro: documents_stepI)
qed

section \<open>A delivered verdict\<close>

lemma tx_eval [simp]:
  "tx_read f s = (f s, s)" "tx_return x s = (Inr x, s)" "tx_lift r s = (r, s)"
  by (simp_all add: tx_defs)

lemma tx_bind_Ok: "m s = (Inr x, t) \<Longrightarrow> tx_bind m f s = f x t"
  by (simp add: tx_bind_def)

lemma run_command_Ok: "m s = (Inr x, t) \<Longrightarrow> run_command m s = (Inr x, t)"
  by (simp add: run_command_Ok_iff)

lemma tx_write_Ok: "f s = Inr t \<Longrightarrow> tx_write f s = (Inr (), t)"
  by (simp add: tx_write_def)

lemma handle_scan_applied:
  assumes "document_get (identity_document_id (scan_identity cmd)) (identity_owner (scan_identity cmd)) s
      = Inr (Some d)"
    and "doc_object_key d = scan_object_key cmd" "doc_upload_status d = PendingUpload" "\<not> doc_archived d"
    and "document_save (d\<lparr>doc_upload_status := verdict_status (scan_result cmd)\<rparr>) s = Inr s1"
  shows "handle_scan_document env cmd md s = (Inr CommandApplied,
    s1\<lparr>db_outbox := record_event env
        (pending_event (d\<lparr>doc_upload_status := verdict_status (scan_result cmd)\<rparr>)) md (db_outbox s)\<rparr>)"
  unfolding handle_scan_document_def
  by (rule run_command_Ok)
    (simp add: assms tx_bind_def apply_verdict_eq Let_def tx_write_Ok append_transition_message_eq
      document_save_frame(1) [OF assms(5)])

lemma handle_scan_ignored:
  assumes "document_get (identity_document_id (scan_identity cmd)) (identity_owner (scan_identity cmd)) s = Inr x"
    and "\<And>d. x = Some d \<Longrightarrow> doc_object_key d = scan_object_key cmd \<Longrightarrow>
      doc_upload_status d \<noteq> PendingUpload \<or> doc_archived d"
  shows "handle_scan_document env cmd md s = (Inr CommandIgnored, s)"
  unfolding handle_scan_document_def
  by (rule run_command_Ok) (use assms in \<open>cases x; auto simp: tx_bind_def apply_verdict_eq Let_def\<close>)

text \<open>The messages the outbox holds for a document, as a subscriber reads them.\<close>

definition appended_messages :: "uuid_codec \<Rightarrow> outbox_table \<Rightarrow> outbox_table \<Rightarrow> json list" where
  "appended_messages c t t' = map (outbound_message c) (drop (length (outbox_rows t)) (outbox_rows t'))"

lemma appended_record_event:
  "outbox_rows (record_event env event md t) = outbox_rows t
     @ (case message_for (env_uuid env) (env_message_id env) event md of
          None \<Rightarrow> [] | Some m \<Rightarrow> [outbox_row (env_uuid env) (outbox_next_id t) (env_now env) m])"
  by (simp add: record_event_def append_outbox_message_def Let_def split: option.split)

lemma appended_messages_record_event [simp]:
  "appended_messages (env_uuid env) t (record_event env event md t) =
     (case message_for (env_uuid env) (env_message_id env) event md of
        None \<Rightarrow> [] | Some m \<Rightarrow> [to_envelope (env_uuid env) (new_message m)])"
  by (simp add: appended_messages_def appended_record_event outbound_of_row split: option.split)

lemma appended_messages_refl [simp]: "appended_messages c t t = []"
  by (simp add: appended_messages_def)

text \<open>A verdict that is due.\<close>

lemma scan_due:
  assumes "documents_valid s"
    and gd: "document_get (identity_document_id i) (identity_owner i) s = Inr (Some d)"
    and due: "doc_object_key d = k" "doc_upload_status d = PendingUpload" "\<not> doc_archived d"
  defines "cmd \<equiv> \<lambda>v. \<lparr>scan_identity = i, scan_object_key = k, scan_result = v\<rparr>"
  obtains s' where "handle_scan_document env (cmd v) md s = (Inr CommandApplied, s')"
    "document_get (identity_document_id i) (identity_owner i) s'
       = Inr (Some (d\<lparr>doc_upload_status := verdict_status v\<rparr>))"
    "\<And>j ow. j \<noteq> identity_document_id i \<Longrightarrow> document_get j ow s' = document_get j ow s"
    "\<And>env' v' md'. handle_scan_document env' (cmd v') md' s' = (Inr CommandIgnored, s')"
    "db_outbox s' = record_event env (pending_event (d\<lparr>doc_upload_status := verdict_status v\<rparr>)) md (db_outbox s)"
    "documents_valid s'"
proof -
  let ?d = "d\<lparr>doc_upload_status := verdict_status v\<rparr>"
  have ident: "document_id_of d = identity_document_id i" "document_owner_of d = identity_owner i"
    using document_get_identity [OF gd] by auto
  obtain s1 where save: "document_save ?d s = Inr s1"
    using document_resave [OF assms(1) gd, of ?d] document_get_same_key [OF assms(1) gd] by auto
  define s' where "s' = s1\<lparr>db_outbox := record_event env (pending_event ?d) md (db_outbox s)\<rparr>"
  have run: "handle_scan_document env (cmd v) md s = (Inr CommandApplied, s')"
    unfolding s'_def cmd_def
    by (rule handle_scan_applied [where cmd = "\<lparr>scan_identity = i, scan_object_key = k, scan_result = v\<rparr>",
          simplified, OF gd due]) (simp add: save)
  have wf: "wf_documents (db_documents s)" using assms(1) by (simp add: documents_valid_def)
  have get': "document_get j ow s' = document_get j ow s1" for j ow by (simp add: s'_def document_get_def)
  have own: "document_get (identity_document_id i) (identity_owner i) s' = Inr (Some ?d)"
    using document_get_after_save [OF save wf] ident by (simp add: get' document_id_of_def document_owner_of_def)
  show thesis
  proof (rule that [OF run own])
    show "document_get j ow s' = document_get j ow s" if "j \<noteq> identity_document_id i" for j ow
      using document_get_other_save [OF save wf, of j ow] that ident by (simp add: get' document_id_of_def)
    show "handle_scan_document env' (cmd v') md' s' = (Inr CommandIgnored, s')" for env' v' md'
      using own by (intro handle_scan_ignored)
        (auto simp: cmd_def verdict_status_def split: scan_document_result.splits)
    show "documents_valid s'"
      using scan.keeps_valid [OF assms(1), of env "cmd v" md] run by simp
  qed (simp add: s'_def)
qed

section \<open>Properties\<close>

text \<open>
  C22: The verdict of a scan on a table that satisfies its constraints. The handler never fails. It
  applies the verdict exactly to a document that is stored under the identity and the object key of
  the delivery, waits for a scan and is not archived: the status of that document becomes the
  verdict's, no other document changes, and in the same transaction a clean verdict appends one
  message asking for the finalization of that object, any other verdict none. A repeated delivery,
  with any verdict, is ignored and changes nothing, and the constraints hold again.
\<close>

theorem scan_delivery_exact:
  assumes "documents_valid s"
  shows "\<exists>found. document_get (identity_document_id i) (identity_owner i) s = Inr found
   \<and> (let (r, s') = handle_scan_document env \<lparr>scan_identity = i, scan_object_key = k, scan_result = v\<rparr> md s;
          due = (case found of None \<Rightarrow> False
            | Some d \<Rightarrow> doc_object_key d = k \<and> doc_upload_status d = PendingUpload \<and> \<not> doc_archived d) in
      r = Inr (if due then CommandApplied else CommandIgnored)
    \<and> document_get (identity_document_id i) (identity_owner i) s'
        = Inr (if due then map_option (doc_upload_status_update (\<lambda>_. verdict_status v)) found else found)
    \<and> (\<forall>j ow. j = identity_document_id i \<or> document_get j ow s' = document_get j ow s)
    \<and> appended_messages (env_uuid env) (db_outbox s) (db_outbox s') =
        (if due \<and> v = VerdictClean
         then [to_envelope (env_uuid env) (finalize_document (env_uuid env) (env_message_id env) i k
                 (option_or (exec_correlation_id md) (exec_request_id md)) (exec_causation_id md))]
         else [])
    \<and> (\<forall>env' v' md'. handle_scan_document env'
          \<lparr>scan_identity = i, scan_object_key = k, scan_result = v'\<rparr> md' s' = (Inr CommandIgnored, s'))
    \<and> documents_valid s')"
proof -
  let ?cmd = "\<lambda>v. \<lparr>scan_identity = i, scan_object_key = k, scan_result = v\<rparr>"
  obtain found where found: "document_get (identity_document_id i) (identity_owner i) s = Inr found"
    using document_get_valid [OF assms] by blast
  show ?thesis
  proof (cases "\<exists>d. found = Some d \<and> doc_object_key d = k \<and> doc_upload_status d = PendingUpload \<and> \<not> doc_archived d")
    case False
    then have "handle_scan_document env' (?cmd v') md' s = (Inr CommandIgnored, s)" for env' v' md'
      using found by (intro handle_scan_ignored) auto
    with False found assms show ?thesis
      by (intro exI [of _ found]) (auto split: option.split)
  next
    case True
    then obtain d where d: "found = Some d" "doc_object_key d = k" "doc_upload_status d = PendingUpload"
      "\<not> doc_archived d" by blast
    from scan_due [OF assms _ d(2-4), of i env v md] found d(1) obtain s' where s':
      "handle_scan_document env (?cmd v) md s = (Inr CommandApplied, s')"
      "document_get (identity_document_id i) (identity_owner i) s'
         = Inr (Some (d\<lparr>doc_upload_status := verdict_status v\<rparr>))"
      "\<And>j ow. j \<noteq> identity_document_id i \<Longrightarrow> document_get j ow s' = document_get j ow s"
      "\<And>env' v' md'. handle_scan_document env' (?cmd v') md' s' = (Inr CommandIgnored, s')"
      "db_outbox s' = record_event env (pending_event (d\<lparr>doc_upload_status := verdict_status v\<rparr>)) md (db_outbox s)"
      "documents_valid s'" by metis
    have "doc_identity d = i" using document_get_identity [of _ _ s d] found d(1) by auto
    then have "appended_messages (env_uuid env) (db_outbox s) (db_outbox s') =
        (if v = VerdictClean then [to_envelope (env_uuid env) (finalize_document (env_uuid env)
            (env_message_id env) i k (option_or (exec_correlation_id md) (exec_request_id md))
            (exec_causation_id md))] else [])"
      using d s'(5) by (cases v) (simp_all add: pending_event_def verdict_status_def message_for_def Let_def)
    with found d s' show ?thesis by (intro exI [of _ found]) auto
  qed
qed

definition sample_db :: db where
  "sample_db =
     \<lparr>db_workspaces = \<lparr>workspaces_table = [\<lparr>wsrec_id = 3, wsrec_slug = None, wsrec_name = ''Acme'', wsrec_created_at = 0\<rparr>],
        memberships_table = []\<rparr>,
      db_users = [\<lparr>usrrec_id = 4, usrrec_auth0_sub = ''auth0|4'', usrrec_email = None, usrrec_name = None,
        usrrec_last_login_at = None, usrrec_created_at = 0\<rparr>],
      db_connections = \<lparr>connections_table = [], connection_permissions_table = [], authorizations_table = []\<rparr>,
      db_evidence = [], db_policies = [], db_submissions = [],
      db_documents = [document_from_domain sample_document],
      db_evidence_grants = [], db_policy_grants = [],
      db_outbox = \<lparr>outbox_rows = [], outbox_next_id = 1\<rparr>\<rparr>"

definition sample_env :: command_env where
  "sample_env = \<lparr>env_uuid = simple_uuid_codec, env_upload = hex_codec (\<lambda>_. True) (\<lambda>_. True), env_now = 10,
     env_message_id = 99\<rparr>"

lemma sample_db_valid: "documents_valid sample_db"
  by (simp add: documents_valid_def wf_documents_def document_row_ok_def sample_db_def sample_document_def
      document_from_domain_def document_id_of_def document_owner_of_def row_exists_def)

theorem scan_delivery_exact_witness:
  "fst (handle_scan_document sample_env \<lparr>scan_identity = PolicyDocument (PolicyId 1) (DocumentId 2),
      scan_object_key = ''staged'', scan_result = VerdictClean\<rparr> execution_background sample_db)
   = Inr CommandApplied"
proof -
  have "document_get (DocumentId 2) (OwnedByPolicy (PolicyId 1)) sample_db = Inr (Some sample_document)"
    by (simp add: document_get_def sample_db_def load_document_def document_row_key_def
        document_from_domain_def document_id_of_def document_owner_of_def sample_document_def
        document_into_domain_def document_identity_for_def upload_status_from_str_def)
  with scan_delivery_exact [OF sample_db_valid, of "PolicyDocument (PolicyId 1) (DocumentId 2)" sample_env
      "''staged''" VerdictClean execution_background]
  show ?thesis by (auto simp: sample_document_def Let_def split: prod.splits)
qed

end
