(* ===== verification/Document_Pipeline.thy ===== *)
theory Document_Pipeline
  imports Document_Commands
begin

text \<open>
  The document commands and the dequeuer together: a state is the database with the world around its
  outbox, a step is one document command or one step of a dequeuer. Every stored document that waits
  for a scan or for its finalization has had the message asking for it appended in the transaction that
  gave it its status; with the guarantee of the outbox the message is still stored or was accepted by
  the message bus, in every reachable state.
\<close>

section \<open>Commands and steps\<close>

datatype document_command =
  CreateEvidenceDocumentCommand create_evidence_submission_document
| CreatePolicyDocumentCommand create_policy_document
| CompleteEvidenceUploadCommand complete_agent_evidence_upload
| CompletePolicyUploadCommand complete_agent_policy_upload
| ArchiveDocumentCommand archive_document
| ScanDocumentCommand scan_document_command
| FinalizeDocumentCommand finalize_document_command

fun run_document_command :: "command_env \<Rightarrow> execution_metadata \<Rightarrow> document_command \<Rightarrow> db \<Rightarrow> db" where
  "run_document_command env md (CreateEvidenceDocumentCommand cmd) s =
     snd (handle_create_evidence_submission_document env cmd md s)"
| "run_document_command env md (CreatePolicyDocumentCommand cmd) s =
     snd (handle_create_policy_document env cmd md s)"
| "run_document_command env md (CompleteEvidenceUploadCommand cmd) s =
     snd (handle_complete_agent_evidence_upload env cmd md s)"
| "run_document_command env md (CompletePolicyUploadCommand cmd) s =
     snd (handle_complete_agent_policy_upload env cmd md s)"
| "run_document_command env md (ArchiveDocumentCommand cmd) s = snd (handle_archive_document cmd s)"
| "run_document_command env md (ScanDocumentCommand cmd) s = snd (handle_scan_document env cmd md s)"
| "run_document_command env md (FinalizeDocumentCommand cmd) s = snd (handle_finalize_document cmd s)"

lemma run_document_command_step: "documents_step env md s (run_document_command env md cmd s)"
  by (cases cmd) (auto intro: create_evidence.step create_policy.step evidence_completion.step
      policy_completion.step archive.step scan.step finalize.step)

definition committed :: "outbox_table \<Rightarrow> outbox_world \<Rightarrow> outbox_world" where
  "committed t w = w\<lparr>world_table := t, world_history := world_history w
     @ drop (length (outbox_rows (world_table w))) (outbox_rows t)\<rparr>"

inductive pipeline_step ::
  "uuid_codec \<Rightarrow> dequeuer_config \<Rightarrow> db \<times> outbox_world \<Rightarrow> db \<times> outbox_world \<Rightarrow> bool"
  for c config where
  command: "env_uuid env = c \<Longrightarrow> s' = run_document_command env md cmd s \<Longrightarrow>
     pipeline_step c config (s, w) (s', committed (db_outbox s') w)"
| dequeue: "outbox_step c config w w' \<Longrightarrow> world_history w' = world_history w \<Longrightarrow>
     pipeline_step c config (s, w) (s\<lparr>db_outbox := world_table w'\<rparr>, w')"

section \<open>The message a waiting document needs\<close>

fun asks_for :: "document_event \<Rightarrow> integration_message \<Rightarrow> bool" where
  "asks_for (ScanRequested i k) (ScanDocument md p) \<longleftrightarrow> p = DocumentPayload (document_work_new i k)"
| "asks_for (FinalizationRequested i k) (FinalizeDocument md p) \<longleftrightarrow>
     p = DocumentPayload (document_work_new i k)"
| "asks_for _ _ \<longleftrightarrow> False"

definition requests :: "uuid_codec \<Rightarrow> document_event \<Rightarrow> json \<Rightarrow> bool" where
  "requests c event message \<longleftrightarrow> (case from_envelope c message of Inl e \<Rightarrow> False | Inr m \<Rightarrow> asks_for event m)"

lemma message_for_requests:
  assumes "uuid_codec_ok c" and "message_for c fresh (Some event) md = Some m"
  shows "requests c event (to_envelope c (new_message m))" "new_topic m = message_bus_topic"
proof -
  have "payload_fits (new_message m)" "asks_for event (new_message m)" "new_topic m = message_bus_topic"
    using assms(2)
    by (cases event; auto simp: message_for_def Let_def scan_document_def finalize_document_def)+
  with envelope_round_trip [OF assms(1)] show "requests c event (to_envelope c (new_message m))"
    "new_topic m = message_bus_topic" by (simp_all add: requests_def)
qed

lemma message_for_Some: "\<exists>m. message_for c fresh (Some event) md = Some m"
  by (cases event) (simp_all add: message_for_def Let_def)

definition asked :: "uuid_codec \<Rightarrow> outbox_message set \<Rightarrow> document \<Rightarrow> bool" where
  "asked c rows d \<longleftrightarrow>
     is_none_or (\<lambda>event. \<exists>h \<in> rows. ob_topic h = message_bus_topic \<and> requests c event (outbound_message c h))
       (pending_event d)"

definition pipeline_inv :: "uuid_codec \<Rightarrow> db \<times> outbox_world \<Rightarrow> bool" where
  "pipeline_inv c = (\<lambda>(s, w). documents_valid s \<and> outbox_inv c w \<and> world_table w = db_outbox s
     \<and> (\<forall>i ow d. document_get i ow s = Inr (Some d) \<longrightarrow> asked c (set (world_history w)) d))"

lemma asked_mono: "asked c A d \<Longrightarrow> A \<subseteq> B \<Longrightarrow> asked c B d"
  unfolding asked_def by (cases "pending_event d") auto

lemma committed_step:
  assumes "world_table w = t" and "env_uuid env = c"
  shows "rtranclp (outbox_step c config) w (committed (record_event env event md t) w)"
proof (cases "message_for c (env_message_id env) event md")
  case None
  with assms have "committed (record_event env event md t) w = w"
    by (cases w) (auto simp: record_event_def committed_def)
  then show ?thesis by simp
next
  case (Some m)
  obtain row t' where app: "append_outbox_message c (env_now env) m (world_table w) = (row, t')" by fastforce
  with assms Some have "committed (record_event env event md t) w =
      w\<lparr>world_table := t', world_history := world_history w @ [row]\<rparr>"
    by (auto simp: record_event_def committed_def append_outbox_message_def Let_def)
  with r_into_rtranclp [of "outbox_step c config", OF outbox_step.append [OF app]] show ?thesis by simp
qed

lemma rtranclp_outbox_inv: "rtranclp (outbox_step c config) w w' \<Longrightarrow> outbox_inv c w \<Longrightarrow> outbox_inv c w'"
  by (induction rule: rtranclp_induct) (auto intro: outbox_step_inv)

text \<open>A stored document and its message are committed together.\<close>

lemma saved_document_asked:
  assumes "uuid_codec_ok c" and "env_uuid env = c" and "world_table w = t"
  shows "asked c (set (world_history (committed (record_event env (pending_event d) md t) w))) d"
proof (cases "pending_event d")
  case (Some event)
  obtain m where m: "message_for c (env_message_id env) (Some event) md = Some m"
    using message_for_Some by blast
  have "outbox_row c (outbox_next_id t) (env_now env) m
      \<in> set (world_history (committed (record_event env (pending_event d) md t) w))"
    using m Some assms(2,3) by (simp add: committed_def appended_record_event)
  moreover have "ob_topic (outbox_row c (outbox_next_id t) (env_now env) m) = message_bus_topic"
    "requests c event (outbound_message c (outbox_row c (outbox_next_id t) (env_now env) m))"
    using message_for_requests [OF assms(1) m] by (simp add: outbox_row_def Let_def, simp add: outbound_of_row)
  ultimately show ?thesis unfolding asked_def Some by auto
qed (simp add: asked_def)

lemma document_get_saved_id:
  assumes "document_save d s = Inr s1" and "wf_documents (db_documents s)"
    and "document_get (document_id_of d) ow s1 = Inr (Some x)"
  shows "x = d"
proof -
  from assms(3) obtain r where "find (document_row_key (document_id_of d) ow) (db_documents s1) = Some r"
    by (auto simp: document_get_def load_document_def map_transpose_Some_iff)
  moreover have "rec_id (document_from_domain d) = document_id_uuid (document_id_of d)"
    by (simp add: document_from_domain_def)
  ultimately have "ow = document_owner_of d"
    using assms(1,2) by (auto simp: document_save_iff find_document_upsert wf_documents_def split: if_splits)
  with assms document_get_after_save [OF assms(1,2)] show ?thesis by simp
qed

lemma command_inv:
  assumes "uuid_codec_ok c" and "env_uuid env = c" and "pipeline_inv c (s, w)"
  shows "pipeline_inv c (run_document_command env md cmd s,
    committed (db_outbox (run_document_command env md cmd s)) w)"
proof -
  let ?s = "run_document_command env md cmd s"
  note step = run_document_command_step [of env md s cmd]
  from assms(3) have inv: "documents_valid s" "outbox_inv c w" "world_table w = db_outbox s"
    "\<And>i ow d. document_get i ow s = Inr (Some d) \<Longrightarrow> asked c (set (world_history w)) d"
    by (auto simp: pipeline_inv_def)
  have valid: "documents_valid ?s" using documents_step_valid [OF step inv(1)] .
  from step consider "db_documents ?s = db_documents s" "db_outbox ?s = db_outbox s"
    | d s1 where "document_save d s = Inr s1" "db_documents ?s = db_documents s1"
      "db_outbox ?s = record_event env (pending_event d) md (db_outbox s)"
    unfolding documents_step_def by blast
  then show ?thesis
  proof cases
    case 1
    then have "committed (db_outbox ?s) w = w" by (simp add: committed_def inv(3))
    with 1 valid inv show ?thesis by (auto simp: pipeline_inv_def document_get_def)
  next
    case 2
    let ?w = "committed (db_outbox ?s) w"
    have out: "outbox_inv c ?w"
      using rtranclp_outbox_inv [OF committed_step [OF inv(3) assms(2)] inv(2)] 2(3) by simp
    have grown: "set (world_history w) \<subseteq> set (world_history ?w)" by (simp add: committed_def)
    have "asked c (set (world_history ?w)) x" if "document_get i ow ?s = Inr (Some x)" for i ow x
    proof (cases "i = document_id_of d")
      case True
      have "document_get i ow s1 = Inr (Some x)" using that 2(2) by (simp add: document_get_def)
      with True inv(1) have "x = d"
        using document_get_saved_id [OF 2(1)] by (simp add: documents_valid_def)
      then show ?thesis using saved_document_asked [OF assms(1,2) inv(3)] 2(3) by simp
    next
      case False
      have "document_get i ow s1 = Inr (Some x)" using that 2(2) by (simp add: document_get_def)
      with document_get_other_save [OF 2(1) _ False, of ow] inv(1) have "document_get i ow s = Inr (Some x)"
        by (simp add: documents_valid_def)
      with inv(4) grown show ?thesis by (blast intro: asked_mono)
    qed
    with valid out show ?thesis by (simp add: pipeline_inv_def committed_def)
  qed
qed

lemma pipeline_step_inv:
  assumes "uuid_codec_ok c" and "pipeline_step c config x y" and "pipeline_inv c x"
  shows "pipeline_inv c y"
  using assms(2)
proof cases
  case (command env s' md cmd s w)
  with command_inv [OF assms(1)] assms(3) show ?thesis by blast
next
  case (dequeue w w' s)
  then show ?thesis
    using assms(3) outbox_step_inv [of c config w w']
    by (auto simp: pipeline_inv_def documents_valid_def document_row_ok_def document_get_def)
qed

lemma pipeline_reachable_inv:
  "rtranclp (pipeline_step c config) x y \<Longrightarrow> uuid_codec_ok c \<Longrightarrow> pipeline_inv c x \<Longrightarrow> pipeline_inv c y"
  by (induction rule: rtranclp_induct) (auto intro: pipeline_step_inv)

section \<open>Properties\<close>

text \<open>
  C3: No waiting document is forgotten. From a database without documents and with an empty outbox,
  however the document commands and the dequeuers interleave, and whatever publication or statement
  fails: the documents table keeps its constraints, and for every stored document that waits for a scan,
  or for its finalization, a message that asks for exactly that, for its identity and its current
  object key, is still in the outbox or was accepted by the message bus.
\<close>

theorem no_document_forgotten:
  assumes "uuid_codec_ok c" and "db_documents s0 = []" and "db_outbox s0 = world_table empty_world"
    and "rtranclp (pipeline_step c config) (s0, empty_world) (s, w)"
  shows "documents_valid s
   \<and> (\<forall>i ow d event. document_get i ow s = Inr (Some d) \<longrightarrow> pending_event d = Some event \<longrightarrow>
        (\<exists>r \<in> set (outbox_rows (db_outbox s)). requests c event (outbound_message c r))
      \<or> (\<exists>message. requests c event message \<and> (message_bus_topic, message) \<in> set (world_sent w)))"
proof -
  have "pipeline_inv c (s0, empty_world)"
    using assms(2,3) by (simp add: pipeline_inv_def documents_valid_def wf_documents_def document_get_def
        load_document_def outbox_inv_def empty_world_def)
  from pipeline_reachable_inv [OF assms(4,1) this]
  have inv: "documents_valid s" "outbox_inv c w" "world_table w = db_outbox s"
    "\<And>i ow d. document_get i ow s = Inr (Some d) \<Longrightarrow> asked c (set (world_history w)) d"
    by (auto simp: pipeline_inv_def)
  have "(\<exists>r \<in> set (outbox_rows (db_outbox s)). requests c event (outbound_message c r))
      \<or> (\<exists>message. requests c event message \<and> (message_bus_topic, message) \<in> set (world_sent w))"
    if "document_get i ow s = Inr (Some d)" and "pending_event d = Some event" for i ow d event
  proof -
    from inv(4) [OF that(1)] that(2) obtain h where h: "h \<in> set (world_history w)"
      "ob_topic h = message_bus_topic" "requests c event (outbound_message c h)"
      by (auto simp: asked_def)
    with inv(2,3) consider r where "r \<in> set (outbox_rows (db_outbox s))" "row_content h = row_content r"
      | "(ob_topic h, outbound_message c h) \<in> set (world_sent w)"
      by (auto simp: outbox_inv_def)
    then show ?thesis
    proof cases
      case 1
      with h(3) outbound_content [OF 1(2), of c] show ?thesis by auto
    qed (use h in auto)
  qed
  with inv(1) show ?thesis by blast
qed

definition pipeline_start :: db where
  "pipeline_start = sample_db\<lparr>db_documents := [], db_policies :=
     [\<lparr>polrec_id = 1, polrec_workspace_id = 3, polrec_name = ''Access'', polrec_description = None,
       polrec_created_at = 0, polrec_updated_at = 0, polrec_archived_at = None\<rparr>]\<rparr>"

definition sample_policy_command :: create_policy_document where
  "sample_policy_command =
     \<lparr>cpd_connection = \<lparr>ctx_user_id = UserId 4, ctx_connection_id = AgentConnectionId 5,
        ctx_workspace_id = WorkspaceId 3, ctx_permissions = permissions_all\<rparr>,
      cpd_policy_id = PolicyId 1, cpd_document_id = DocumentId 2, cpd_document = sample_payload,
      cpd_created_at = 0\<rparr>"

lemma sample_policy_command_effect:
  "db_documents (run_document_command sample_env execution_background
     (CreatePolicyDocumentCommand sample_policy_command) pipeline_start) = [document_from_domain sample_document]"
proof -
  have p: "has permissions_all WriteEvidence" by code_simp
  have doc: "document_create (PolicyDocument (PolicyId 1) (DocumentId 2)) (WorkspaceId 3) (UserId 4) sample_payload 0
      = Inr (sample_document, transition_applied TransitionCreated (pending_event sample_document))"
    by (simp add: document_create_def sample_payload_def sample_document_def pending_event_def)
  have save: "document_save sample_document pipeline_start
      = Inr (pipeline_start\<lparr>db_documents := [document_from_domain sample_document]\<rparr>)"
    by (simp add: document_save_iff document_row_ok_def document_row_unique_def pipeline_start_def sample_db_def
        sample_document_def document_from_domain_def document_id_of_def document_owner_of_def row_exists_def)
  have reads: "workspace_document_get (WorkspaceId 3) (DocumentId 2) (OwnedByPolicy (PolicyId 1)) pipeline_start = Inr None"
    "lock_document_upload_eligibility (WorkspaceId 3) (PolicyId 1) pipeline_start = Inr (Some Eligible)"
    by (simp_all add: workspace_document_get_def load_document_def lock_document_upload_eligibility_def
        pipeline_start_def)
  have "payload_owner sample_payload = OwnedByPolicy (PolicyId 1)" by (simp add: sample_payload_def)
  with p doc save reads show ?thesis
    by (simp add: handle_create_policy_document_def sample_policy_command_def run_command_def
        in_unit_of_work_def create_policy_document_tx_def Let_def tx_bind_def tx_write_def
        append_transition_message_eq)
qed

theorem no_document_forgotten_witness:
  "\<exists>s w. rtranclp (pipeline_step simple_uuid_codec default_dequeuer_config) (pipeline_start, empty_world) (s, w)
     \<and> document_get (DocumentId 2) (OwnedByPolicy (PolicyId 1)) s = Inr (Some sample_document)
     \<and> ((\<exists>r \<in> set (outbox_rows (db_outbox s)). requests simple_uuid_codec
            (ScanRequested (PolicyDocument (PolicyId 1) (DocumentId 2)) ''staged'')
            (outbound_message simple_uuid_codec r))
        \<or> (\<exists>message. requests simple_uuid_codec
             (ScanRequested (PolicyDocument (PolicyId 1) (DocumentId 2)) ''staged'') message
             \<and> (message_bus_topic, message) \<in> set (world_sent w)))"
proof -
  let ?s = "run_document_command sample_env execution_background
     (CreatePolicyDocumentCommand sample_policy_command) pipeline_start"
  let ?w = "committed (db_outbox ?s) empty_world"
  have reach: "rtranclp (pipeline_step simple_uuid_codec default_dequeuer_config) (pipeline_start, empty_world) (?s, ?w)"
    by (rule r_into_rtranclp, rule pipeline_step.command [OF _ refl]) (simp add: sample_env_def)
  have start: "db_documents pipeline_start = []" "db_outbox pipeline_start = world_table empty_world"
    by (simp_all add: pipeline_start_def sample_db_def empty_world_def)
  have "document_get (DocumentId 2) (OwnedByPolicy (PolicyId 1)) ?s = Inr (Some sample_document)"
    unfolding document_get_def sample_policy_command_effect
    using document_reload [of sample_document]
    by (simp add: load_document_def document_id_of_def document_owner_of_def sample_document_def
        document_identity_for_def)
  moreover have "pending_event sample_document
      = Some (ScanRequested (PolicyDocument (PolicyId 1) (DocumentId 2)) ''staged'')"
    by (simp add: sample_document_def pending_event_def)
  ultimately show ?thesis
    using no_document_forgotten [OF simple_uuid_codec_ok start reach] reach by blast
qed

end
