(* ===== verification/Document_Replays.thy ===== *)
theory Document_Replays
  imports Document_Commands
begin

text \<open>
  Repeated requests. A client that repeats the creation of an evidence document gets the document that
  the first request stored, and a grant that was completed answers every later completion with its
  document or refuses it; neither stores anything more.
\<close>

section \<open>Submissions and grants after a save\<close>

lemma find_key_row:
  assumes "table_wf key rows" and "find P rows = Some r" and "\<And>x. P x \<Longrightarrow> key x = k"
  shows "find_row key k rows = Some r"
  using assms by (simp add: find_row_iff) (auto simp: find_Some_iff)

lemma evidence_read_row:
  assumes "evidence_read w e s = Inr (Some x)" and "table_wf evrec_id (db_evidence s)"
  shows "\<exists>r. find_row evrec_id (evidence_uuid e) (db_evidence s) = Some r
    \<and> evrec_workspace_id r = workspace_uuid w"
proof -
  let ?P = "\<lambda>r. evrec_id r = evidence_uuid e \<and> evrec_workspace_id r = workspace_uuid w"
  from assms(1) obtain r where r: "find ?P (db_evidence s) = Some r"
    by (auto simp: evidence_read_def map_transpose_Some_iff)
  then have "evrec_workspace_id r = workspace_uuid w" by (auto simp: find_Some_iff)
  with find_key_row [OF assms(2) r] show ?thesis by auto
qed

lemma submission_get_after_save:
  assumes "submission_save x s = Inr s'" and "evidence_read w (sub_evidence_id x) s = Inr (Some e)"
    and "table_wf evrec_id (db_evidence s)" and "sub_submitted_by x = SubmittedByConnection c u"
    and "find_row connrec_id (agent_connection_uuid c) (connections_table (db_connections s)) = Some r"
    and "connrec_user_id r = user_uuid u"
  shows "submission_get w (sub_id x) s' = Inr (Some x)"
proof -
  from evidence_read_row [OF assms(2,3)] obtain ev where
    "find_row evrec_id (evidence_uuid (sub_evidence_id x)) (db_evidence s) = Some ev"
    "evrec_workspace_id ev = workspace_uuid w" by blast
  moreover have "s' = s\<lparr>db_submissions := upsert_row subrec_id (submission_from_domain x) (db_submissions s)\<rparr>"
    using assms(1) by (simp add: submission_save_Ok_iff)
  moreover have "submission_into_domain (submission_from_domain x) (user_uuid u) = x"
    using assms(4) by (cases x) (simp add: submission_into_domain_def submission_from_domain_def)
  moreover have "subrec_id (submission_from_domain x) = submission_uuid (sub_id x)"
    "subrec_evidence_id (submission_from_domain x) = evidence_uuid (sub_evidence_id x)"
    "subrec_submitted_by_agent_connection_id (submission_from_domain x) = agent_connection_uuid c"
    using assms(4) by (simp_all add: submission_from_domain_def)
  ultimately show ?thesis using assms(5,6) by (simp add: submission_get_def)
qed

lemma submission_get_frame:
  "db_submissions s' = db_submissions s \<Longrightarrow> db_evidence s' = db_evidence s \<Longrightarrow>
     db_connections s' = db_connections s \<Longrightarrow> submission_get w i s' = submission_get w i s"
  by (simp only: submission_get_def)

lemma workspace_document_get_after_save:
  assumes "document_save d s = Inr s'" and "wf_documents (db_documents s)"
  shows "workspace_document_get (doc_workspace_id d) (document_id_of d) (document_owner_of d) s' = Inr (Some d)"
proof -
  let ?P = "\<lambda>r. document_row_key (document_id_of d) (document_owner_of d) r
    \<and> rec_workspace_id r = workspace_uuid (doc_workspace_id d)"
  have "find ?P (upsert_row rec_id (document_from_domain d) (db_documents s)) = Some (document_from_domain d)"
    using assms(2) find_upsert [of rec_id "db_documents s" ?P "document_id_uuid (document_id_of d)" "document_from_domain d"]
    by (auto simp: wf_documents_def document_row_key_def) (auto simp: document_from_domain_def)
  then show ?thesis
    using assms(1) document_reload [of d]
    by (simp add: workspace_document_get_def document_save_iff load_document_def document_id_of_def
        document_owner_of_def)
qed

lemma loaded_grant_wf:
  "agent_evidence_grant_into_domain c r = Inr g \<Longrightarrow> wf_agent_evidence_grant c g"
  by (auto simp: agent_evidence_grant_into_domain_def agent_evidence_grant_rehydrate_def
      agent_evidence_grant_issue_def lifecycle_rehydrate_def wf_agent_evidence_grant_def wf_lifecycle_def
      and_then_Ok_iff coverage_window_new_Ok_iff declaration_rehydrate_wf split: if_splits option.splits)

lemma grant_record_keys:
  "agent_evidence_grant_from_domain g = Inr r \<Longrightarrow>
     aegrec_id r = agent_evidence_upload_grant_uuid (aeg_id g)
   \<and> aegrec_workspace_id r = workspace_uuid (aeg_workspace_id g)"
  by (auto simp: agent_evidence_grant_from_domain_def and_then_Ok_iff)

lemma evidence_grant_get_after_save:
  assumes "hex_codec_ok c" and "wf_agent_evidence_grant c g" and "evidence_grant_save g s = Inr s'"
    and "table_wf aegrec_id (db_evidence_grants s)" and "agent_evidence_upload_grant_uuid i = agent_evidence_upload_grant_uuid (aeg_id g)"
  shows "evidence_grant_get c i w s' = Inr (if w = aeg_workspace_id g then Some g else None)"
proof -
  let ?P = "\<lambda>r. aegrec_id r = agent_evidence_upload_grant_uuid i \<and> aegrec_workspace_id r = workspace_uuid w"
  from assms(3) obtain r where r: "agent_evidence_grant_from_domain g = Inr r"
    "db_evidence_grants s' = upsert_row aegrec_id r (db_evidence_grants s)"
    by (auto simp: evidence_grant_save_Ok_iff)
  have "agent_evidence_grant_into_domain c r = Inr g"
    using agent_evidence_grant_reload [OF assms(1,2)] r(1) by simp
  moreover have "find ?P (upsert_row aegrec_id r (db_evidence_grants s))
      = (if w = aeg_workspace_id g then Some r else None)"
    using find_upsert [of aegrec_id "db_evidence_grants s" ?P "agent_evidence_upload_grant_uuid i" r]
      grant_record_keys [OF r(1)] assms(4,5)
    by (auto simp: table_wf_def intro: workspace_id.expand)
  ultimately show ?thesis using r(2) by (simp add: evidence_grant_get_def)
qed

text \<open>A completion whose grant is completed already.\<close>

lemma handle_complete_evidence_completed:
  assumes "evidence_grant_get (env_upload env) (aeg_id (cae_grant cmd)) (aeg_workspace_id (cae_grant cmd)) s
      = Inr (if b then Some g else None)"
    and "aeg_lifecycle g = UploadCompleted i t"
  shows "handle_complete_agent_evidence_upload env cmd md s
    \<in> {(Inr (EvidenceUploadReplayed (aeg_submission_id g) i), s), (Inr EvidenceUploadUnavailable, s)}"
  using assms
  by (cases b) (auto simp: handle_complete_agent_evidence_upload_def run_command_def in_unit_of_work_def
      complete_agent_evidence_upload_tx_def Let_def tx_bind_def evidence_completed_document_at_def)

section \<open>Properties\<close>


definition upload_db :: db where
  "upload_db = sample_db\<lparr>db_documents := [],
     db_users := [\<lparr>usrrec_id = 5, usrrec_auth0_sub = ''auth0|5'', usrrec_email = None, usrrec_name = None,
       usrrec_last_login_at = None, usrrec_created_at = 0\<rparr>],
     db_connections := \<lparr>connections_table = [\<lparr>connrec_id = 6, connrec_user_id = 5, connrec_workspace_id = 3,
         connrec_auth0_subject = ''s'', connrec_auth0_client_id = ''c'', connrec_client_display_name = ''C'',
         connrec_resource = ''r'', connrec_status = ''active'', connrec_pending_expires_at = 1,
         connrec_activated_at = Some 0, connrec_last_used_at = None, connrec_revoked_at = None,
         connrec_created_at = 0\<rparr>], connection_permissions_table = [], authorizations_table = []\<rparr>,
     db_evidence := [\<lparr>evrec_id = 4, evrec_workspace_id = 3, evrec_title = ''Statement'', evrec_description = ''d'',
       evrec_collection_instructions = ''i'', evrec_status = ''active'', evrec_created_at = 0, evrec_updated_at = 0\<rparr>],
     db_evidence_grants := [\<lparr>aegrec_id = 1, aegrec_submission_id = 2, aegrec_workspace_id = 3, aegrec_evidence_id = 4,
       aegrec_valid_from = 0, aegrec_valid_until = 9, aegrec_filename = ''a.pdf'',
       aegrec_content_type = ''application/pdf'', aegrec_expected_content_length = 12,
       aegrec_expected_sha256 = None, aegrec_issued_by_user_id = 5, aegrec_issued_via_agent_connection_id = 6,
       aegrec_issued_at = 0, aegrec_expires_at = 100, aegrec_completed_at = None, aegrec_document_id = None\<rparr>]\<rparr>"

definition upload_payload :: create_document_payload where
  "upload_payload = sample_payload\<lparr>payload_owner := OwnedBySubmission (EvidenceSubmissionId 2)\<rparr>"

definition upload_document :: document where
  "upload_document = sample_document\<lparr>doc_identity := EvidenceDocument (EvidenceSubmissionId 2) (DocumentId 7),
     doc_created_by_user_id := UserId 5, doc_created_at := 5\<rparr>"

definition upload_submission :: evidence_submission where
  "upload_submission = submission_create (EvidenceSubmissionId 2) (EvidenceId 4)
     (SubmittedByConnection (AgentConnectionId 6) (UserId 5)) \<lparr>cov_valid_from = 0, cov_valid_until = 9\<rparr> 5"

definition upload_request :: create_evidence_submission_document where
  "upload_request = \<lparr>ces_connection = \<lparr>ctx_user_id = UserId 5, ctx_connection_id = AgentConnectionId 6,
       ctx_workspace_id = WorkspaceId 3, ctx_permissions = permissions_all\<rparr>,
     ces_submission_id = EvidenceSubmissionId 2, ces_evidence_id = EvidenceId 4,
     ces_coverage = \<lparr>cov_valid_from = 0, cov_valid_until = 9\<rparr>, ces_document_id = DocumentId 7,
     ces_document = upload_payload, ces_received_at = 5\<rparr>"

lemma upload_db_valid: "documents_valid upload_db" "table_wf evrec_id (db_evidence upload_db)"
  "table_wf aegrec_id (db_evidence_grants upload_db)"
  by (simp_all add: documents_valid_def wf_documents_def upload_db_def table_wf_def)

lemma upload_reads:
  "\<exists>e. evidence_read (WorkspaceId 3) (EvidenceId 4) upload_db = Inr (Some e)"
  "submission_get (WorkspaceId 3) (EvidenceSubmissionId 2) upload_db = Inr None"
  "submission_exists (WorkspaceId 3) (EvidenceSubmissionId 2) upload_db = Inr False"
  by (simp_all add: evidence_read_def submission_get_def submission_exists_def upload_db_def sample_db_def
      find_row_def evidence_status_from_str_def)

lemma upload_created:
  "document_create (EvidenceDocument (EvidenceSubmissionId 2) (DocumentId 7)) (WorkspaceId 3) (UserId 5)
     upload_payload 5
   = Inr (upload_document, transition_applied TransitionCreated (pending_event upload_document))"
  by (simp add: document_create_def upload_payload_def upload_document_def sample_payload_def
      sample_document_def pending_event_def)

definition upload_saved :: db where
  "upload_saved = upload_db\<lparr>db_submissions := [submission_from_domain upload_submission]\<rparr>"

lemma upload_saves:
  "submission_save upload_submission upload_db = Inr upload_saved"
  "document_save upload_document upload_saved
     = Inr (upload_saved\<lparr>db_documents := [document_from_domain upload_document]\<rparr>)"
  by (simp_all add: submission_save_Ok_iff submission_violations_def upload_saved_def upload_submission_def
      submission_create_def submission_from_domain_def upload_db_def sample_db_def row_exists_def
      document_save_iff document_row_ok_def document_row_unique_def upload_document_def sample_document_def
      document_from_domain_def document_id_of_def document_owner_of_def)

lemma upload_request_runs:
  "\<exists>s. handle_create_evidence_submission_document sample_env upload_request execution_background upload_db
     = (Inr (Created upload_document), s)"
proof -
  have p: "has permissions_all WriteEvidenceSubmissions" by code_simp
  obtain e where "evidence_read (WorkspaceId 3) (EvidenceId 4) upload_db = Inr (Some e)"
    using upload_reads(1) ..
  with upload_reads(2) upload_created upload_saves have
    "\<exists>s. create_evidence_document_tx sample_env upload_request execution_background upload_db
      = (Inr (Some (Created upload_document)), s)"
    by (simp add: create_evidence_document_tx_def upload_request_def Let_def tx_bind_def tx_write_def
        evidence_submission_of_def append_transition_message_eq flip: upload_submission_def)
  with p show ?thesis
    by (auto simp: handle_create_evidence_submission_document_def run_command_def in_unit_of_work_def
        upload_request_def upload_payload_def)
qed



definition upload_completion :: complete_agent_evidence_upload where
  "upload_completion = \<lparr>cae_grant = sample_grant,
     cae_authority = \<lparr>aea_upload_id = AgentEvidenceUploadGrantId 1, aea_workspace_id = WorkspaceId 3,
       aea_evidence_id = EvidenceId 4, aea_submission_id = EvidenceSubmissionId 2,
       aea_issued_by_user_id = UserId 5, aea_issued_via_agent_connection_id = AgentConnectionId 6,
       aea_expires_at = 100\<rparr>,
     cae_staged_submission_id = EvidenceSubmissionId 2, cae_document_id = DocumentId 7,
     cae_document = upload_payload, cae_completed_at = 5\<rparr>"

lemma sample_grant_loads:
  "evidence_grant_get (env_upload sample_env) (AgentEvidenceUploadGrantId 1) (WorkspaceId 3) upload_db
     = Inr (Some sample_grant)"
proof -
  have "wf_declaration (hex_codec (\<lambda>_. True) (\<lambda>_. True)) sample_declaration" by code_simp
  then have "wf_agent_evidence_grant (hex_codec (\<lambda>_. True) (\<lambda>_. True)) sample_grant"
    by (simp add: wf_agent_evidence_grant_def sample_grant_def wf_coverage_def wf_lifecycle_def)
  moreover have "agent_evidence_grant_from_domain sample_grant = Inr (hd (db_evidence_grants upload_db))"
    by (simp add: agent_evidence_grant_from_domain_def sample_grant_def sample_declaration_def
        i64_try_from_u64_def i64_max_def upload_db_def)
  ultimately have "agent_evidence_grant_into_domain (hex_codec (\<lambda>_. True) (\<lambda>_. True))
      (hd (db_evidence_grants upload_db)) = Inr sample_grant"
    using agent_evidence_grant_reload [OF hex_codec_ok, of "\<lambda>_. True" "\<lambda>_. True" sample_grant] by simp
  then show ?thesis by (simp add: evidence_grant_get_def sample_env_def upload_db_def)
qed

lemma upload_completion_runs:
  "\<exists>s. handle_complete_agent_evidence_upload sample_env upload_completion execution_background upload_db
     = (Inr (EvidenceUploadCreated (EvidenceSubmissionId 2) upload_document), s)"
proof -
  obtain e where e: "evidence_read (WorkspaceId 3) (EvidenceId 4) upload_db = Inr (Some e)"
    using upload_reads(1) ..
  have staged: "is_ok (evidence_validate_staged_file (env_upload sample_env) 12 ''a'' sample_grant)"
    by (simp add: evidence_validate_staged_file_def validate_staged_def u64_try_from_i64_def sample_grant_def
        sample_declaration_def)
  have grant_save: "\<exists>s. evidence_grant_save (sample_grant\<lparr>aeg_lifecycle := UploadCompleted (DocumentId 7) 5\<rparr>)
      (upload_saved\<lparr>db_documents := [document_from_domain upload_document], db_outbox := t\<rparr>) = Inr s" for t
    by (simp add: evidence_grant_save_Ok_iff agent_evidence_grant_from_domain_def sample_grant_def
        sample_declaration_def i64_try_from_u64_def i64_max_def evidence_grant_violations_def Let_def
        declaration_violations_def completion_violated_def upload_saved_def upload_db_def sample_db_def
        row_exists_def upload_document_def sample_document_def document_from_domain_def document_id_of_def)
  have id: "document_id_of upload_document = DocumentId 7"
    by (simp add: upload_document_def document_id_of_def)
  note sub = upload_saves(1) [unfolded upload_submission_def]
  have "\<exists>s. complete_agent_evidence_upload_tx sample_env upload_completion execution_background upload_db
      = (Inr (EvidenceUploadCreated (EvidenceSubmissionId 2) upload_document), s)"
    using sample_grant_loads e staged upload_reads(3) upload_created sub upload_saves(2) id
      grant_save [of "record_event sample_env (pending_event upload_document) execution_background
        (db_outbox upload_saved)"]
    by (auto simp: complete_agent_evidence_upload_tx_def upload_completion_def Let_def tx_bind_def tx_write_def
        sample_grant_def evidence_matches_authority_def upload_payload_def sample_payload_def
        evidence_completed_document_at_def append_transition_message_eq agent_evidence_grant_complete_def
        evidence_ensure_pending_at_def)
  then show ?thesis
    by (auto simp: handle_complete_agent_evidence_upload_def run_command_def in_unit_of_work_def)
qed


end
