(* ===== verification/Scanner.thy ===== *)
theory Scanner
  imports Identifiers Rust_Text "HOL-Library.Sublist"
begin

text \<open>
  The malware scanner client (\<^verbatim>\<open>src/scanner/mod.rs\<close>): the INSTREAM exchange with clamd over one TCP
  connection and the reading of its reply. A connection is the bytes sent so far, the outcomes of the
  writes to come, where a failing write may have sent a part of its bytes, and the segments the
  network will deliver; a read returns at most 1024 bytes of the next segment. The address and the
  two timeouts occur in messages only and are given by their texts.

  The lemmas relate what is sent to the format clamd reads (\<open>instream_request\<close>): an exchange that
  succeeds has sent exactly the object, in frames of at most one mebibyte, and one whose object
  could not be read to the end has sent nothing clamd takes for complete.
\<close>

section \<open>Bytes\<close>

definition u32_to_be_bytes :: "32 word \<Rightarrow> bytes" where
  "u32_to_be_bytes w = [of_nat (unat w div 16777216), of_nat (unat w div 65536), of_nat (unat w div 256),
     of_nat (unat w)]"

text \<open>\<^verbatim>\<open>[T]::chunks\<close>.\<close>

function slice_chunks :: "nat \<Rightarrow> 'a list \<Rightarrow> 'a list list" where
  "slice_chunks n xs = (if n = 0 \<or> xs = [] then [] else take n xs # slice_chunks n (drop n xs))"
  by pat_completeness auto
termination by (relation "measure (\<lambda>(n, xs). length xs)") simp_all

declare slice_chunks.simps [simp del]

text \<open>\<^verbatim>\<open>std::str::from_utf8\<close>: the well-formed byte sequences, shortest forms without surrogates.\<close>

definition utf8_tail :: "8 word \<Rightarrow> bool" where
  "utf8_tail b \<longleftrightarrow> 128 \<le> unat b \<and> unat b \<le> 191"

definition utf8_second :: "8 word \<Rightarrow> 8 word \<Rightarrow> bool" where
  "utf8_second a b \<longleftrightarrow>
     (if unat a = 224 then 160 \<le> unat b \<and> unat b \<le> 191
      else if unat a = 237 then 128 \<le> unat b \<and> unat b \<le> 159
      else if unat a = 240 then 144 \<le> unat b \<and> unat b \<le> 191
      else if unat a = 244 then 128 \<le> unat b \<and> unat b \<le> 143
      else utf8_tail b)"

text \<open>Number of bytes of the character a byte starts, 0 where it starts none.\<close>

definition utf8_width :: "8 word \<Rightarrow> nat" where
  "utf8_width a =
     (if unat a < 128 then 1 else if 194 \<le> unat a \<and> unat a \<le> 223 then 2
      else if 224 \<le> unat a \<and> unat a \<le> 239 then 3 else if 240 \<le> unat a \<and> unat a \<le> 244 then 4 else 0)"

fun utf8_valid :: "bytes \<Rightarrow> bool" where
  "utf8_valid [] = True"
| "utf8_valid [a] = (utf8_width a = 1)"
| "utf8_valid [a, b] =
     (utf8_width a = 1 \<and> utf8_valid [b] \<or> utf8_width a = 2 \<and> utf8_second a b)"
| "utf8_valid [a, b, c] =
     (utf8_width a = 1 \<and> utf8_valid [b, c] \<or> utf8_width a = 2 \<and> utf8_second a b \<and> utf8_valid [c]
    \<or> utf8_width a = 3 \<and> utf8_second a b \<and> utf8_tail c)"
| "utf8_valid (a # b # c # d # s) =
     (utf8_width a = 1 \<and> utf8_valid (b # c # d # s)
    \<or> utf8_width a = 2 \<and> utf8_second a b \<and> utf8_valid (c # d # s)
    \<or> utf8_width a = 3 \<and> utf8_second a b \<and> utf8_tail c \<and> utf8_valid (d # s)
    \<or> utf8_width a = 4 \<and> utf8_second a b \<and> utf8_tail c \<and> utf8_tail d \<and> utf8_valid s)"

definition bytes_of_text :: "string \<Rightarrow> bytes" where
  "bytes_of_text s = map (\<lambda>c. of_nat (byte_of c)) s"

definition text_of_bytes :: "bytes \<Rightarrow> string" where
  "text_of_bytes bs = map (\<lambda>b. char_of (unat b)) bs"

definition from_utf8 :: "bytes \<Rightarrow> string option" where
  "from_utf8 bs = (if utf8_valid bs then Some (text_of_bytes bs) else None)"

text \<open>\<^verbatim>\<open>str::strip_suffix\<close> and \<^verbatim>\<open>str::split_once\<close> at a text.\<close>

definition strip_suffix :: "string \<Rightarrow> string \<Rightarrow> string option" where
  "strip_suffix p s =
     (if length p \<le> length s \<and> drop (length s - length p) s = p
      then Some (take (length s - length p) s) else None)"

fun split_once_at :: "string \<Rightarrow> string \<Rightarrow> (string \<times> string) option" where
  "split_once_at p [] = (if p = [] then Some ([], []) else None)"
| "split_once_at p (x # s) =
     (if take (length p) (x # s) = p then Some ([], drop (length p) (x # s))
      else map_option (\<lambda>(l, r). (x # l, r)) (split_once_at p s))"

section \<open>Results\<close>

datatype malware_scan_outcome = ScanClean | ScanMalicious string | ScanFailed string

record malware_scan_result =
  scanner_name :: string
  scanner_version :: "string option"
  scan_outcome :: malware_scan_outcome

datatype malware_scan_error = ScanUnavailable string | ScanTimeout string | ScanInternal string

definition instream_command :: bytes where
  "instream_command = bytes_of_text ''zINSTREAM'' @ [0]"

definition instream_chunk_size :: nat where
  "instream_chunk_size = 1048576"

definition max_response_bytes :: nat where
  "max_response_bytes = 65536"

definition protocol_error :: "string \<Rightarrow> malware_scan_error" where
  "protocol_error e = ScanUnavailable (''clamd protocol I/O failed: '' @ e)"

section \<open>The connection\<close>

record tcp_stream =
  tcp_sent :: bytes
  tcp_writes :: "(nat \<times> string) option list"
  tcp_incoming :: "(string + bytes) list"

text \<open>\<^verbatim>\<open>write_all\<close> and \<^verbatim>\<open>flush\<close>; the writes after the listed ones succeed.\<close>

definition write_all :: "bytes \<Rightarrow> tcp_stream \<Rightarrow> (malware_scan_error + unit) \<times> tcp_stream" where
  "write_all bs c =
     (case tcp_writes c of
        Some (n, e) # ws \<Rightarrow>
          (Err (protocol_error e), c\<lparr>tcp_sent := tcp_sent c @ take n bs, tcp_writes := ws\<rparr>)
      | _ \<Rightarrow> (Ok (), c\<lparr>tcp_sent := tcp_sent c @ bs, tcp_writes := tl (tcp_writes c)\<rparr>))"

fun send_frames :: "bytes list \<Rightarrow> tcp_stream \<Rightarrow> (malware_scan_error + unit) \<times> tcp_stream" where
  "send_frames [] c = (Ok (), c)"
| "send_frames (f # fs) c =
     (if length f \<ge> 2 ^ 32 then (Err (ScanInternal ''INSTREAM frame length exceeds the protocol limit''), c)
      else case write_all (u32_to_be_bytes (of_nat (length f))) c of
        (Inl e, c) \<Rightarrow> (Err e, c)
      | (Inr u, c) \<Rightarrow>
          (case write_all f c of
             (Inl e, c) \<Rightarrow> (Err e, c)
           | (Inr u, c) \<Rightarrow> send_frames fs c))"

fun send_chunks ::
  "(malware_scan_error + bytes) list \<Rightarrow> tcp_stream \<Rightarrow> (malware_scan_error + unit) \<times> tcp_stream" where
  "send_chunks [] c = (Ok (), c)"
| "send_chunks (Inl e # chunks) c = (Err e, c)"
| "send_chunks (Inr chunk # chunks) c =
     (case send_frames (slice_chunks instream_chunk_size chunk) c of
        (Inl e, c) \<Rightarrow> (Err e, c)
      | (Inr u, c) \<Rightarrow> send_chunks chunks c)"

text \<open>
  The loop that reads the reply: a segment longer than the buffer is taken in several reads, a read of
  no bytes is the end of the stream.
\<close>

definition incoming_size :: "(string + bytes) list \<Rightarrow> nat" where
  "incoming_size xs = sum_list (map (\<lambda>x. case x of Inl e \<Rightarrow> 1 | Inr b \<Rightarrow> Suc (length b)) xs)"

function read_response :: "bytes \<Rightarrow> (string + bytes) list \<Rightarrow> malware_scan_error + bytes" where
  "read_response response incoming =
     (if length response \<ge> max_response_bytes
      then Err (ScanInternal ''clamd response exceeded maximum length'')
      else case incoming of
        [] \<Rightarrow> Ok response
      | Inl e # rest \<Rightarrow> Err (protocol_error e)
      | Inr segment # rest \<Rightarrow>
          if segment = [] then Ok response
          else let response' = response @ take 1024 segment
               in if 0 \<in> set response' then Ok response'
                  else read_response response'
                    (if length segment \<le> 1024 then rest else Inr (drop 1024 segment) # rest))"
  by pat_completeness auto
termination
  by (relation "measure (incoming_size \<circ> snd)") (auto simp: incoming_size_def)

declare read_response.simps [simp del]

definition scan_chunks ::
  "(malware_scan_error + bytes) list \<Rightarrow> tcp_stream \<Rightarrow> (malware_scan_error + bytes) \<times> tcp_stream" where
  "scan_chunks chunks c =
     (case write_all instream_command c of
        (Inl e, c) \<Rightarrow> (Err e, c)
      | (Inr u, c) \<Rightarrow>
     (case send_chunks chunks c of
        (Inl e, c) \<Rightarrow> (Err e, c)
      | (Inr u, c) \<Rightarrow>
     (case write_all (u32_to_be_bytes 0) c of
        (Inl e, c) \<Rightarrow> (Err e, c)
      | (Inr u, c) \<Rightarrow>
     (case write_all [] c of
        (Inl e, c) \<Rightarrow> (Err e, c)
      | (Inr u, c) \<Rightarrow> (read_response [] (tcp_incoming c), c)))))"

definition response_reason :: "string \<Rightarrow> string" where
  "response_reason response =
     (case split_once_at '': '' response of None \<Rightarrow> response | Some (_, reason) \<Rightarrow> reason)"

definition parse_response :: "bytes \<Rightarrow> malware_scan_error + malware_scan_result" where
  "parse_response response =
     (case from_utf8 (takeWhile (\<lambda>b. b \<noteq> 0) response) of
        None \<Rightarrow> Err (ScanInternal ''clamd returned an empty or invalid response'')
      | Some text \<Rightarrow>
          let response = trim text;
              result = \<lambda>v. Ok \<lparr>scanner_name = ''clamav'', scanner_version = None, scan_outcome = v\<rparr>
          in if response = [] then Err (ScanInternal ''clamd returned an empty or invalid response'')
             else if strip_suffix '' OK'' response \<noteq> None then result ScanClean
             else case strip_suffix '' FOUND'' response of
               Some reason \<Rightarrow> result (ScanMalicious (response_reason reason))
             | None \<Rightarrow>
                 (case strip_suffix '' ERROR'' response of
                    Some reason \<Rightarrow> result (ScanFailed (response_reason reason))
                  | None \<Rightarrow> Err (ScanInternal (''unexpected clamd response: '' @ response))))"

record clamav_scanner =
  scanner_address :: string
  connection_timeout :: string
  scan_timeout :: string

text \<open>How the network and the clock answer one scan.\<close>

datatype connect_outcome = ConnectTimedOut | ConnectFailed string | Connected tcp_stream bool

definition clamav_scan ::
  "clamav_scanner \<Rightarrow> connect_outcome \<Rightarrow> (malware_scan_error + bytes) list
   \<Rightarrow> malware_scan_error + malware_scan_result" where
  "clamav_scan v outcome chunks =
     (case outcome of
        ConnectTimedOut \<Rightarrow>
          Err (ScanTimeout (''connection to clamd at '' @ scanner_address v @ '' exceeded '' @ connection_timeout v))
      | ConnectFailed e \<Rightarrow>
          Err (ScanUnavailable (''failed to connect to clamd at '' @ scanner_address v @ '': '' @ e))
      | Connected c timed_out \<Rightarrow>
          if timed_out then Err (ScanTimeout (''clamd scan exceeded '' @ scan_timeout v))
          else and_then (fst (scan_chunks chunks c)) parse_response)"

section \<open>The format clamd reads\<close>

text \<open>
  The request as clamd reads it: the command, frames with their lengths in four bytes, most
  significant first, and a frame of length zero. \<open>None\<close> is a request that is not complete.
\<close>

definition be_value :: "bytes \<Rightarrow> nat" where
  "be_value bs = foldl (\<lambda>n b. n * 256 + unat b) 0 bs"

function instream_frames :: "bytes \<Rightarrow> bytes list option" where
  "instream_frames bs =
     (if length bs < 4 then None
      else let n = be_value (take 4 bs)
           in if n = 0 then (if length bs = 4 then Some [] else None)
              else if length bs < 4 + n then None
              else map_option (\<lambda>fs. take n (drop 4 bs) # fs) (instream_frames (drop (4 + n) bs)))"
  by pat_completeness auto
termination by (relation "measure length") auto

declare instream_frames.simps [simp del]

definition instream_request :: "bytes \<Rightarrow> bytes list option" where
  "instream_request bs =
     (if take (length instream_command) bs = instream_command
      then instream_frames (drop (length instream_command) bs) else None)"

definition encode_frame :: "bytes \<Rightarrow> bytes" where
  "encode_frame f = u32_to_be_bytes (of_nat (length f)) @ f"

definition frame_ok :: "bytes \<Rightarrow> bool" where
  "frame_ok f \<longleftrightarrow> f \<noteq> [] \<and> length f \<le> instream_chunk_size"

lemma length_u32_to_be_bytes [simp]: "length (u32_to_be_bytes w) = 4"
  by (simp add: u32_to_be_bytes_def)

lemma be_value_digits:
  assumes "n < 4294967296"
  shows "be_value [of_nat (n div 16777216), of_nat (n div 65536), of_nat (n div 256), of_nat n] = n"
proof -
  have shifts: "n div 65536 = n div 256 div 256" "n div 16777216 = n div 256 div 256 div 256"
    by (simp_all add: div_mult2_eq [symmetric])
  define x y z where "x = n div 256" and "y = x div 256" and "z = y div 256"
  have "z mod 256 = z" using assms by (simp add: x_def y_def z_def div_mult2_eq [symmetric])
  moreover have "y = 256 * z + y mod 256" "x = 256 * y + x mod 256" "n = 256 * x + n mod 256"
    by (simp_all add: x_def y_def z_def)
  ultimately show ?thesis
    by (simp add: be_value_def unat_of_nat shifts flip: x_def y_def z_def)
qed

lemma be_value_u32: "be_value (u32_to_be_bytes w) = unat w"
  unfolding u32_to_be_bytes_def
  by (rule be_value_digits) (use unsigned_less [of w, where ?'a = nat] in simp)

lemma frame_ok_length: "frame_ok f \<Longrightarrow> unat (of_nat (length f) :: 32 word) = length f"
  by (simp add: frame_ok_def instream_chunk_size_def unat_of_nat)

lemma instream_frames_encode:
  assumes "frame_ok f"
  shows "instream_frames (encode_frame f @ rest) = map_option ((#) f) (instream_frames rest)"
  using assms frame_ok_length [OF assms]
  by (subst instream_frames.simps) (simp add: encode_frame_def be_value_u32 frame_ok_def)

lemma instream_frames_end: "instream_frames (u32_to_be_bytes 0) = Some []"
  by (subst instream_frames.simps) (simp add: be_value_u32)

lemma instream_frames_short:
  assumes "frame_ok f" and "prefix p (encode_frame f)" and "p \<noteq> encode_frame f"
  shows "instream_frames p = None"
proof -
  obtain q where q: "encode_frame f = p @ q" "q \<noteq> []"
    using assms(2,3) by (auto simp: prefix_def)
  have l: "length p + length q = 4 + length f"
    using arg_cong [OF q(1), of length] by (simp add: encode_frame_def)
  show ?thesis
  proof (cases "length p < 4")
    case True
    then show ?thesis by (simp add: instream_frames.simps)
  next
    case False
    have "take 4 p = take 4 (encode_frame f)" using q False by simp
    then have "be_value (take 4 p) = length f"
      by (simp add: encode_frame_def be_value_u32 frame_ok_length [OF assms(1)])
    moreover have "length p < 4 + length f" using l q(2) by (cases q) auto
    ultimately show ?thesis using assms(1) by (subst instream_frames.simps) (auto simp: frame_ok_def)
  qed
qed

lemma instream_frames_all:
  "list_all frame_ok fs \<Longrightarrow>
     instream_frames (concat (map encode_frame fs) @ rest) = map_option ((@) fs) (instream_frames rest)"
  by (induction fs) (cases "instream_frames rest"; simp add: instream_frames_encode)+

text \<open>What lacks the closing frame is not complete, wherever the sending stopped.\<close>

lemma instream_frames_open:
  "list_all frame_ok fs \<Longrightarrow> prefix p (concat (map encode_frame fs)) \<Longrightarrow> instream_frames p = None"
proof (induction fs arbitrary: p)
  case Nil
  then show ?case by (simp add: instream_frames.simps [of "[]"])
next
  case (Cons f fs)
  then consider "prefix p (encode_frame f)" "p \<noteq> encode_frame f" |
    r where "p = encode_frame f @ r" "prefix r (concat (map encode_frame fs))"
    by (cases "p = encode_frame f") (auto simp: prefix_append)
  then show ?case
  proof cases
    case 1
    with Cons.prems show ?thesis by (auto intro: instream_frames_short)
  next
    case 2
    with Cons show ?thesis by (simp add: instream_frames_encode)
  qed
qed

lemma instream_request_open:
  assumes "list_all frame_ok fs" and "prefix p (instream_command @ concat (map encode_frame fs))"
  shows "instream_request p = None"
proof -
  have "instream_frames r = None" if "p = instream_command @ r" for r
    using assms that by (simp add: instream_frames_open)
  then show ?thesis
    by (auto simp: instream_request_def) (metis append_take_drop_id)
qed

section \<open>What an exchange sends\<close>

lemma slice_chunks_concat: "0 < n \<Longrightarrow> concat (slice_chunks n xs) = xs"
  by (induction n xs rule: slice_chunks.induct) (subst slice_chunks.simps, auto)

lemma slice_chunks_ok: "list_all frame_ok (slice_chunks instream_chunk_size xs)"
proof -
  have "list_all (\<lambda>f. f \<noteq> [] \<and> length f \<le> n) (slice_chunks n xs)" for n
    by (induction n xs rule: slice_chunks.induct) (subst slice_chunks.simps, auto)
  then show ?thesis by (simp add: frame_ok_def [abs_def])
qed

lemma write_all_cases:
  obtains (sent) "write_all bs c = (Inr (), c\<lparr>tcp_sent := tcp_sent c @ bs, tcp_writes := tl (tcp_writes c)\<rparr>)"
  | (failed) e p where "write_all bs c
      = (Inl e, c\<lparr>tcp_sent := tcp_sent c @ p, tcp_writes := tl (tcp_writes c)\<rparr>)" "prefix p bs"
proof (cases "\<exists>n e ws. tcp_writes c = Some (n, e) # ws")
  case True
  then show ?thesis using failed by (auto simp: write_all_def take_is_prefix)
next
  case False
  then have "write_all bs c = (Inr (), c\<lparr>tcp_sent := tcp_sent c @ bs, tcp_writes := tl (tcp_writes c)\<rparr>)"
    by (auto simp: write_all_def split: list.split option.split)
  then show ?thesis by (rule sent)
qed

text \<open>
  \<open>sends ys c c'\<close>: between \<open>c\<close> and \<open>c'\<close> a part of \<open>ys\<close> was sent, and nothing was received; without write
  faults the writes leave none behind.
\<close>

definition sends :: "bytes \<Rightarrow> tcp_stream \<Rightarrow> tcp_stream \<Rightarrow> bool" where
  "sends ys c c' \<longleftrightarrow> (\<exists>p. tcp_sent c' = tcp_sent c @ p \<and> prefix p ys) \<and> tcp_incoming c' = tcp_incoming c
     \<and> (tcp_writes c = [] \<longrightarrow> tcp_writes c' = [])"

lemma sends_trans:
  assumes "sends xs c d" and "tcp_sent d = tcp_sent c @ xs" and "sends ys d e"
  shows "sends (xs @ ys) c e"
  using assms by (auto simp: sends_def)

lemma sends_mono: "sends xs c d \<Longrightarrow> prefix xs ys \<Longrightarrow> sends ys c d"
  by (auto simp: sends_def intro: prefix_order.trans)

lemma sends_Nil [simp]: "sends ys c c"
  by (simp add: sends_def)

lemma write_all_sends:
  assumes "write_all bs c = (r, c')"
  shows "sends bs c c'" and "r = Inr () \<Longrightarrow> tcp_sent c' = tcp_sent c @ bs"
    and "tcp_writes c = [] \<Longrightarrow> r = Inr ()"
  using assms by (cases bs c rule: write_all_cases; auto simp: sends_def write_all_def)+

lemma send_frames_sends:
  assumes "list_all frame_ok fs" and "send_frames fs c = (r, c')"
  shows "sends (concat (map encode_frame fs)) c c'
    \<and> (r = Inr () \<longrightarrow> tcp_sent c' = tcp_sent c @ concat (map encode_frame fs))
    \<and> (tcp_writes c = [] \<longrightarrow> r = Inr ())"
  using assms
proof (induction fs arbitrary: c)
  case (Cons f fs)
  let ?len = "u32_to_be_bytes (of_nat (length f))"
  have small: "\<not> length f \<ge> 2 ^ 32" using Cons.prems(1) by (simp add: frame_ok_def instream_chunk_size_def)
  obtain r1 c1 where w1: "write_all ?len c = (r1, c1)" by fastforce
  note s1 = write_all_sends [OF w1]
  show ?case
  proof (cases "r1 = Inr ()")
    case False
    with Cons.prems(2) w1 small have "c' = c1" "r \<noteq> Inr ()" "tcp_writes c \<noteq> []"
      using s1(3) by (cases r1; auto)+
    with s1(1) show ?thesis by (auto simp: encode_frame_def elim: sends_mono)
  next
    case True
    obtain r2 c2 where w2: "write_all f c1 = (r2, c2)" by fastforce
    note s2 = write_all_sends [OF w2]
    have one: "sends (encode_frame f) c c2"
      using sends_trans [OF s1(1) _ s2(1)] s1(2) True by (simp add: encode_frame_def)
    have clean: "tcp_writes c = [] \<Longrightarrow> tcp_writes c1 = []" using s1(1) by (simp add: sends_def)
    show ?thesis
    proof (cases "r2 = Inr ()")
      case False
      with Cons.prems(2) w1 w2 True small have "c' = c2" "r \<noteq> Inr ()" by (cases r2; auto)+
      with one s2(3) False clean show ?thesis by (auto elim: sends_mono)
    next
      case ok: True
      then have sent: "tcp_sent c2 = tcp_sent c @ encode_frame f"
        using s1(2) s2(2) True by (simp add: encode_frame_def)
      have "send_frames fs c2 = (r, c')" using Cons.prems(2) w1 w2 True ok small by simp
      with Cons.IH Cons.prems(1)
      have "sends (concat (map encode_frame fs)) c2 c'
        \<and> (r = Inr () \<longrightarrow> tcp_sent c' = tcp_sent c2 @ concat (map encode_frame fs))
        \<and> (tcp_writes c2 = [] \<longrightarrow> r = Inr ())" by simp
      moreover have "tcp_writes c = [] \<Longrightarrow> tcp_writes c2 = []" using one by (simp add: sends_def)
      ultimately show ?thesis using sends_trans [OF one sent] sent by auto
    qed
  qed
qed simp

lemma send_chunks_sends:
  "send_chunks chunks c = (r, c') \<Longrightarrow> \<exists>fs. list_all frame_ok fs
     \<and> sends (concat (map encode_frame fs)) c c'
     \<and> (r = Inr () \<longrightarrow> (\<exists>data. chunks = map Inr data \<and> concat fs = concat data)
          \<and> tcp_sent c' = tcp_sent c @ concat (map encode_frame fs))
     \<and> (tcp_writes c = [] \<longrightarrow> list_all is_ok chunks \<longrightarrow> r = Inr ())"
proof (induction chunks c rule: send_chunks.induct)
  case (1 c)
  then show ?case by (auto intro: exI [of _ "[]"])
next
  case (2 e chunks c)
  then show ?case by (auto intro: exI [of _ "[]"])
next
  case (3 chunk chunks c)
  let ?fs = "slice_chunks instream_chunk_size chunk"
  obtain r1 c1 where f: "send_frames ?fs c = (r1, c1)" by fastforce
  note s1 = send_frames_sends [OF slice_chunks_ok f]
  show ?case
  proof (cases "r1 = Inr ()")
    case False
    with 3 f have "c' = c1" "r \<noteq> Inr ()" by (cases r1; auto)+
    with s1 False show ?thesis using slice_chunks_ok [of chunk] by blast
  next
    case True
    with 3 f obtain gs where gs: "list_all frame_ok gs" "sends (concat (map encode_frame gs)) c1 c'"
      "r = Inr () \<Longrightarrow> (\<exists>data. chunks = map Inr data \<and> concat gs = concat data)
          \<and> tcp_sent c' = tcp_sent c1 @ concat (map encode_frame gs)"
      "tcp_writes c1 = [] \<Longrightarrow> list_all is_ok chunks \<Longrightarrow> r = Inr ()"
      by auto
    have "concat ?fs = chunk" by (simp add: slice_chunks_concat instream_chunk_size_def)
    moreover have "tcp_writes c = [] \<Longrightarrow> tcp_writes c1 = []" using s1 by (simp add: sends_def)
    moreover have "Inr chunk # chunks = map Inr (chunk # data)" if "chunks = map Inr data" for data
      using that by simp
    ultimately show ?thesis
      using sends_trans [OF conjunct1 [OF s1] _ gs(2)] s1 gs slice_chunks_ok [of chunk] True
      by (intro exI [of _ "?fs @ gs"]) (auto, metis concat.simps(2) list.simps(9))
  qed
qed

lemma scan_chunks_sent:
  assumes "scan_chunks chunks c = (r, c')" and "tcp_sent c = []"
  shows "Inl e \<in> set chunks \<Longrightarrow> is_err r \<and> instream_request (tcp_sent c') = None"
    and "r = Inr response \<Longrightarrow> response_of = read_response [] (tcp_incoming c) \<Longrightarrow>
      response_of = Inr response \<and> (\<exists>data frames. chunks = map Inr data
        \<and> instream_request (tcp_sent c') = Some frames \<and> concat frames = concat data \<and> list_all frame_ok frames)"
    and "tcp_writes c = [] \<Longrightarrow> list_all is_ok chunks \<Longrightarrow> r = read_response [] (tcp_incoming c)"
proof -
  obtain r1 c1 where w1: "write_all instream_command c = (r1, c1)" by fastforce
  note s1 = write_all_sends [OF w1]
  have keep: "tcp_incoming c1 = tcp_incoming c" "tcp_writes c = [] \<Longrightarrow> tcp_writes c1 = []"
    using s1(1) by (auto simp: sends_def)
  have "(Inl e \<in> set chunks \<longrightarrow> is_err r \<and> instream_request (tcp_sent c') = None)
    \<and> (r = Inr response \<longrightarrow> read_response [] (tcp_incoming c) = Inr response \<and> (\<exists>data frames. chunks = map Inr data
        \<and> instream_request (tcp_sent c') = Some frames \<and> concat frames = concat data \<and> list_all frame_ok frames))
    \<and> (tcp_writes c = [] \<longrightarrow> list_all is_ok chunks \<longrightarrow> r = read_response [] (tcp_incoming c))"
  proof (cases r1)
    case (Inl e1)
    with w1 assms have "r = Inl e1" "c' = c1" by (auto simp: scan_chunks_def)
    moreover have "instream_request (tcp_sent c1) = None"
      using s1(1) assms(2) by (intro instream_request_open [of "[]"]) (auto simp: sends_def)
    ultimately show ?thesis using s1(3) Inl by auto
  next
    case (Inr u)
    then have sent1: "tcp_sent c1 = instream_command" using s1(2) assms(2) by simp
    obtain r2 c2 where w2: "send_chunks chunks c1 = (r2, c2)" by fastforce
    from send_chunks_sends [OF w2] obtain fs where fs: "list_all frame_ok fs"
      "sends (concat (map encode_frame fs)) c1 c2"
      "r2 = Inr () \<Longrightarrow> (\<exists>data. chunks = map Inr data \<and> concat fs = concat data)
          \<and> tcp_sent c2 = tcp_sent c1 @ concat (map encode_frame fs)"
      "tcp_writes c1 = [] \<Longrightarrow> list_all is_ok chunks \<Longrightarrow> r2 = Inr ()" by auto
    show ?thesis
    proof (cases r2)
      case e2: (Inl e2)
      with w1 w2 Inr assms have "r = Inl e2" "c' = c2" by (auto simp: scan_chunks_def)
      moreover have "instream_request (tcp_sent c2) = None"
        using fs(1,2) sent1 by (intro instream_request_open [of fs]) (auto simp: sends_def)
      ultimately show ?thesis using fs(4) keep e2 by auto
    next
      case ok: (Inr u2)
      then obtain data where data: "chunks = map Inr data" "concat fs = concat data"
        and sent2: "tcp_sent c2 = instream_command @ concat (map encode_frame fs)"
        using fs(3) sent1 by auto
      obtain r3 c3 where w3: "write_all (u32_to_be_bytes 0) c2 = (r3, c3)" by fastforce
      obtain r4 c4 where w4: "write_all [] c3 = (r4, c4)" by fastforce
      note s3 = write_all_sends [OF w3] and s4 = write_all_sends [OF w4]
      have result: "r = (case r3 of Inl x \<Rightarrow> Inl x | Inr y \<Rightarrow>
          (case r4 of Inl x \<Rightarrow> Inl x | Inr z \<Rightarrow> read_response [] (tcp_incoming c)))"
        and final: "r3 = Inr () \<Longrightarrow> c' = c4"
        using assms(1) w1 w2 w3 w4 Inr ok keep fs(2) s3(1) s4(1)
        by (auto simp: scan_chunks_def sends_def split: sum.splits)
      have "instream_request (tcp_sent c4) = Some fs" if "r3 = Inr ()"
        using s3(2) s4(1) that sent2 instream_frames_all [OF fs(1), of "u32_to_be_bytes 0"]
        by (auto simp: sends_def instream_request_def instream_frames_end)
      moreover have "Inl e \<notin> set chunks" using data by auto
      moreover have "tcp_writes c = [] \<Longrightarrow> r3 = Inr () \<and> r4 = Inr ()"
        using keep fs(2) s3 s4 by (auto simp: sends_def)
      ultimately show ?thesis using result final data fs(1) by (auto split: sum.splits)
    qed
  qed
  then show "Inl e \<in> set chunks \<Longrightarrow> is_err r \<and> instream_request (tcp_sent c') = None"
    and "r = Inr response \<Longrightarrow> response_of = read_response [] (tcp_incoming c) \<Longrightarrow>
      response_of = Inr response \<and> (\<exists>data frames. chunks = map Inr data
        \<and> instream_request (tcp_sent c') = Some frames \<and> concat frames = concat data \<and> list_all frame_ok frames)"
    and "tcp_writes c = [] \<Longrightarrow> list_all is_ok chunks \<Longrightarrow> r = read_response [] (tcp_incoming c)"
    by blast+
qed

section \<open>What the reply is\<close>

text \<open>However the network cuts the reply into segments, what is read agrees with it up to its end mark.\<close>

lemma read_response_reply:
  assumes "response @ concat segments = reply @ 0 # junk" and "0 \<notin> set response" and "0 \<notin> set reply"
    and "[] \<notin> set segments" and "length reply < max_response_bytes"
  shows "\<exists>r. read_response response (map Inr segments @ later) = Inr r \<and> takeWhile (\<lambda>b. b \<noteq> 0) r = reply"
  using assms
proof (induction response "map Inr segments @ later" arbitrary: segments rule: read_response.induct)
  case (1 response)
  from 1(2,3,4) have "length response \<le> length reply"
    by (auto simp: append_eq_append_conv2 append_eq_Cons_conv)
  with 1(6) have short: "\<not> length response \<ge> max_response_bytes" by simp
  have "segments \<noteq> []" using 1(2,3) by auto
  then obtain s rest where seg: "segments = s # rest" "s \<noteq> []"
    using 1(5) by (cases segments) auto
  let ?r = "response @ take 1024 s"
  show ?case
  proof (cases "0 \<in> set ?r")
    case True
    have "prefix ?r (reply @ 0 # junk)"
      using 1(2) seg(1) by (metis append.assoc append_take_drop_id concat.simps(2) prefixI)
    moreover have "\<not> prefix ?r reply" using True 1(4) set_mono_prefix by blast
    ultimately obtain zs where "?r = reply @ 0 # zs" by (auto simp: prefix_append prefix_Cons)
    moreover have "takeWhile (\<lambda>b. b \<noteq> 0) (reply @ 0 # zs) = reply"
      using 1(4) by (subst takeWhile_append2) auto
    ultimately have "takeWhile (\<lambda>b. b \<noteq> 0) ?r = reply" by simp
    with True short seg show ?thesis by (subst read_response.simps) (simp add: Let_def)
  next
    case False
    let ?segs = "if length s \<le> 1024 then rest else drop 1024 s # rest"
    have "?r @ concat ?segs = reply @ 0 # junk"
      using 1(2) seg(1) by (simp, metis append_take_drop_id append.assoc)
    moreover have "[] \<notin> set ?segs" using 1(5) seg(1) by auto
    ultimately have "\<exists>r. read_response ?r (map Inr ?segs @ later) = Inr r \<and> takeWhile (\<lambda>b. b \<noteq> 0) r = reply"
      using 1(1) [of "Inr s" "map Inr rest @ later" s ?r ?segs] short seg False 1(4,6) by (simp split: if_splits)
    then show ?thesis
      using False short seg by (subst read_response.simps) (simp add: Let_def split: if_splits)
  qed
qed

lemma parse_response_cut: "takeWhile (\<lambda>b. b \<noteq> 0) r = takeWhile (\<lambda>b. b \<noteq> 0) s \<Longrightarrow> parse_response r = parse_response s"
  by (simp add: parse_response_def)

section \<open>Properties\<close>

text \<open>What clamd has received when an exchange ends.\<close>

definition clamd_received :: "(malware_scan_error + bytes) list \<Rightarrow> tcp_stream \<Rightarrow> bytes list option" where
  "clamd_received chunks c = instream_request (tcp_sent (snd (scan_chunks chunks c)))"

text \<open>
  C13: A verdict of the scanner is about the whole object: when \<open>clamav_scan\<close> returns a result over a
  fresh connection, every chunk of the object was read without error, and what clamd received is a
  complete request whose frames, none of them empty or over a mebibyte, are together exactly the
  object. When a chunk of the object cannot be read, the scan is an error and the bytes clamd
  received are not a complete request, whatever writes fail and wherever they stop.
\<close>

theorem verdict_covers_object:
  assumes "tcp_sent c = []"
  shows "(clamav_scan v (Connected c timed_out) chunks = Inr result \<longrightarrow>
      (\<exists>data frames. chunks = map Inr data \<and> clamd_received chunks c = Some frames \<and> concat frames = concat data
        \<and> (\<forall>f \<in> set frames. f \<noteq> [] \<and> length f \<le> 1048576)))
    \<and> (Inl e \<in> set chunks \<longrightarrow>
      is_err (clamav_scan v (Connected c timed_out) chunks) \<and> clamd_received chunks c = None)"
proof (intro conjI impI)
  obtain r c' where run: "scan_chunks chunks c = (r, c')" by fastforce
  show "\<exists>data frames. chunks = map Inr data \<and> clamd_received chunks c = Some frames \<and> concat frames = concat data
        \<and> (\<forall>f \<in> set frames. f \<noteq> [] \<and> length f \<le> 1048576)"
    if "clamav_scan v (Connected c timed_out) chunks = Inr result"
  proof -
    from that run obtain response where "r = Inr response"
      by (auto simp: clamav_scan_def and_then_Ok_iff split: if_splits)
    with scan_chunks_sent(2) [OF run assms(1)] run show ?thesis
      by (auto simp: clamd_received_def list_all_iff frame_ok_def instream_chunk_size_def)
  qed
  show "is_err (clamav_scan v (Connected c timed_out) chunks)" "clamd_received chunks c = None"
    if "Inl e \<in> set chunks"
    using scan_chunks_sent(1) [OF run assms(1) that] run
    by (cases r; auto simp: clamav_scan_def clamd_received_def)+
qed

text \<open>
  C21: An exchange that nothing disturbs ends with clamd's verdict: for every object, given as chunks of
  any sizes, and every reply shorter than 64 KiB that ends with a zero byte, however the network cuts
  the reply into segments and whatever follows it, the scan returns what \<open>parse_response\<close> makes of
  the reply, and clamd has received exactly the object.
\<close>

theorem scan_exchange_exact:
  assumes "tcp_sent c = []" and "tcp_writes c = []"
    and "tcp_incoming c = map Inr segments" and "[] \<notin> set segments"
    and "concat segments = reply @ 0 # junk" and "0 \<notin> set reply" and "length reply < 65536"
  shows "clamav_scan v (Connected c False) (map Inr chunks) = parse_response reply
    \<and> map_option concat (clamd_received (map Inr chunks) c) = Some (concat chunks)"
proof -
  let ?chunks = "map Inr chunks :: (malware_scan_error + bytes) list"
  obtain r c' where run: "scan_chunks ?chunks c = (r, c')" by fastforce
  obtain response where response: "read_response [] (tcp_incoming c) = Inr response"
    "takeWhile (\<lambda>b. b \<noteq> 0) response = reply"
    using read_response_reply [of "[]" segments reply junk "[]"] assms(3-7) by (auto simp: max_response_bytes_def)
  have r: "r = Inr response"
    using scan_chunks_sent(3) [OF run assms(1,2)] response(1) by (simp add: list_all_iff)
  have "takeWhile (\<lambda>b. b \<noteq> 0) reply = reply" using assms(6) by (auto simp: takeWhile_eq_all_conv)
  then have "parse_response response = parse_response reply"
    using response(2) by (intro parse_response_cut) (simp only:)
  moreover obtain data frames where "?chunks = map Inr data" "concat frames = concat data"
    "instream_request (tcp_sent c') = Some frames"
    using scan_chunks_sent(2) [OF run assms(1) r refl] by blast
  ultimately show ?thesis using run r by (auto simp: clamav_scan_def clamd_received_def inj_map_eq_map)
qed

definition sample_scanner :: clamav_scanner where
  "sample_scanner = \<lparr>scanner_address = ''127.0.0.1:3310'', connection_timeout = ''5s'', scan_timeout = ''30s''\<rparr>"

definition sample_stream :: tcp_stream where
  "sample_stream = \<lparr>tcp_sent = [], tcp_writes = [],
     tcp_incoming = [Inr (bytes_of_text ''stre''), Inr (bytes_of_text ''am: OK'' @ [0])]\<rparr>"

theorem verdict_covers_object_witness:
  "is_err (clamav_scan sample_scanner (Connected sample_stream False) [Inr [1, 2], Inl (ScanInternal ''lost'')])
     \<and> clamd_received [Inr [1, 2], Inl (ScanInternal ''lost'')] sample_stream = None"
  using verdict_covers_object [of sample_stream sample_scanner False "[Inr [1, 2], Inl (ScanInternal ''lost'')]"]
  by (simp add: sample_stream_def)

theorem scan_exchange_exact_witness:
  "clamav_scan sample_scanner (Connected sample_stream False) (map Inr [[1, 2], [], [3]])
     = parse_response (bytes_of_text ''stream: OK'')
   \<and> map_option concat (clamd_received (map Inr [[1, 2], [], [3]]) sample_stream) = Some (concat [[1, 2], [], [3]])"
  by (rule scan_exchange_exact [of _ "[bytes_of_text ''stre'', bytes_of_text ''am: OK'' @ [0]]" _ "[]"])
     (simp_all add: sample_stream_def bytes_of_text_def)

end
