(* ===== verification/Worker_Messages.thy ===== *)
theory Worker_Messages
  imports Object_Storage
begin

text \<open>
  What the worker receives (\<^verbatim>\<open>src/worker.rs\<close>, the payloads of \<^verbatim>\<open>src/handlers/document_scan.rs\<close> and
  \<^verbatim>\<open>src/handlers/document_finalization.rs\<close>): the Pub/Sub push envelope, its data in the typed or in the
  legacy form, and the document a message asks work for. The text of JSON and base64 are read by
  third-party crates, parameters of the definitions; the decoders derived for the structures are
  written over JSON values, where a structure ignores the fields it does not name.
\<close>

section \<open>Decoding\<close>

record worker_message =
  wm_message_id :: string
  wm_event_type :: string
  wm_aggregate_type :: string
  wm_aggregate_id :: string
  wm_request_id :: "uuid option"
  wm_payload :: json
  wm_delivery_attempt :: "nat option"

datatype worker_message_data_validation_error = MissingMessageField string | InvalidRequestId

datatype worker_message_decode_error =
    EnvelopeJson | MissingMessage | InvalidBase64 | PayloadJson
  | TypedMessage integration_message_decode_error
  | DataValidation "worker_message_data_validation_error list"

record transport_codec =
  push_json :: "bytes \<Rightarrow> json option"
  value_json :: "bytes \<Rightarrow> json option"
  base64_decode :: "string \<Rightarrow> bytes option"

text \<open>The values of the named fields of a structure that ignores other fields.\<close>

fun open_fields :: "string list \<Rightarrow> json \<Rightarrow> json option list option" where
  "open_fields names (JObj entries) = Some (map (map_of entries) names)"
| "open_fields names (JArr values) =
     (if length values = length names then Some (map Some values) else None)"
| "open_fields names _ = None"

definition json_u32 :: "json \<Rightarrow> nat option" where
  "json_u32 v = map_option nat (json_int_in 0 (2 ^ 32 - 1) v)"

record push_envelope_message =
  push_message_id :: string
  push_data :: string

record push_envelope =
  push_message :: "push_envelope_message option"
  push_delivery_attempt :: "nat option"

definition push_message_from_json :: "json \<Rightarrow> push_envelope_message option" where
  "push_message_from_json v =
     (case open_fields [''messageId'', ''data''] v of
        Some [message_id, data] \<Rightarrow>
          Option.bind (required_field json_as_str message_id) (\<lambda>message_id.
          map_option (\<lambda>data. \<lparr>push_message_id = message_id, push_data = data\<rparr>)
            (required_field json_as_str data))
      | _ \<Rightarrow> None)"

definition push_envelope_from_json :: "json \<Rightarrow> push_envelope option" where
  "push_envelope_from_json v =
     (case open_fields [''message'', ''deliveryAttempt''] v of
        Some [message, attempt] \<Rightarrow>
          Option.bind (json_opt push_message_from_json message) (\<lambda>message.
          map_option (\<lambda>attempt. \<lparr>push_message = message, push_delivery_attempt = attempt\<rparr>)
            (json_opt json_u32 attempt))
      | _ \<Rightarrow> None)"

definition is_typed_envelope :: "json \<Rightarrow> bool" where
  "is_typed_envelope data =
     (case data of
        JObj entries \<Rightarrow>
          list_ex (\<lambda>field. map_of entries field \<noteq> None)
            [''message_id'', ''kind'', ''type'', ''version'', ''subject'', ''correlation_id'', ''causation_id'']
      | _ \<Rightarrow> False)"

fun message_event_type :: "integration_message \<Rightarrow> string" where
  "message_event_type (ScanDocument md p) = legacy_document_scan_requested"
| "message_event_type (FinalizeDocument md p) = legacy_document_finalization_requested"
| "message_event_type (SendWorkspaceInvitation md p) = send_workspace_invitation_type"

definition decode_typed_worker_message ::
  "uuid_codec \<Rightarrow> json \<Rightarrow> nat option \<Rightarrow> worker_message_decode_error + worker_message" where
  "decode_typed_worker_message c data attempt =
     and_then (map_err TypedMessage (from_envelope c data)) (\<lambda>m.
       Ok \<lparr>wm_message_id = uuid_text c (md_message_id (message_metadata m)),
           wm_event_type = message_event_type m,
           wm_aggregate_type = payload_aggregate_type (message_payload m),
           wm_aggregate_id = md_subject (message_metadata m),
           wm_request_id = md_correlation_id (message_metadata m),
           wm_payload = payload_to_json c (message_payload m),
           wm_delivery_attempt = attempt\<rparr>)"

definition required_message_string ::
  "string \<Rightarrow> string option \<Rightarrow> (string, worker_message_data_validation_error) validation" where
  "required_message_string field v =
     (case v of
        Some s \<Rightarrow> if trim s \<noteq> [] then Valid s else Invalid [MissingMessageField field]
      | None \<Rightarrow> Invalid [MissingMessageField field])"

definition required_message_value ::
  "string \<Rightarrow> json option \<Rightarrow> (json, worker_message_data_validation_error) validation" where
  "required_message_value field v =
     (case v of Some x \<Rightarrow> Valid x | None \<Rightarrow> Invalid [MissingMessageField field])"

definition optional_request_id ::
  "uuid_codec \<Rightarrow> string option \<Rightarrow> (uuid option, worker_message_data_validation_error) validation" where
  "optional_request_id c v =
     (case v of
        Some s \<Rightarrow> (case uuid_parse c s of Some u \<Rightarrow> Valid (Some u) | None \<Rightarrow> Invalid [InvalidRequestId])
      | None \<Rightarrow> Valid None)"

record worker_message_dto =
  dto_event_type :: "string option"
  dto_aggregate_type :: "string option"
  dto_aggregate_id :: "string option"
  dto_request_id :: "string option"
  dto_payload :: "json option"

definition worker_dto_from_json :: "json \<Rightarrow> worker_message_dto option" where
  "worker_dto_from_json v =
     (case open_fields [''event_type'', ''aggregate_type'', ''aggregate_id'', ''request_id'', ''payload''] v of
        Some [event_type, aggregate_type, aggregate_id, request_id, payload] \<Rightarrow>
          Option.bind (json_opt json_as_str event_type) (\<lambda>event_type.
          Option.bind (json_opt json_as_str aggregate_type) (\<lambda>aggregate_type.
          Option.bind (json_opt json_as_str aggregate_id) (\<lambda>aggregate_id.
          Option.bind (json_opt json_as_str request_id) (\<lambda>request_id.
          map_option (\<lambda>payload.
              \<lparr>dto_event_type = event_type, dto_aggregate_type = aggregate_type,
               dto_aggregate_id = aggregate_id, dto_request_id = request_id, dto_payload = payload\<rparr>)
            (json_opt Some payload)))))
      | _ \<Rightarrow> None)"

record worker_message_data =
  data_event_type :: string
  data_aggregate_type :: string
  data_aggregate_id :: string
  data_request_id :: "uuid option"
  data_payload :: json

text \<open>The macro at five bindings, as two applications of it: the errors come in the order of the bindings.\<close>

definition into_message_data ::
  "uuid_codec \<Rightarrow> worker_message_dto
   \<Rightarrow> (worker_message_data, worker_message_data_validation_error) validation" where
  "into_message_data c dto =
     validate3
       (validate3 (required_message_string ''event_type'' (dto_event_type dto))
          (required_message_string ''aggregate_type'' (dto_aggregate_type dto))
          (required_message_string ''aggregate_id'' (dto_aggregate_id dto)) (\<lambda>e t i. (e, t, i)))
       (optional_request_id c (dto_request_id dto))
       (required_message_value ''payload'' (dto_payload dto))
       (\<lambda>(e, t, i) r p. \<lparr>data_event_type = e, data_aggregate_type = t, data_aggregate_id = i,
          data_request_id = r, data_payload = p\<rparr>)"

definition decode_legacy_worker_message ::
  "uuid_codec \<Rightarrow> json \<Rightarrow> string \<Rightarrow> nat option \<Rightarrow> worker_message_decode_error + worker_message" where
  "decode_legacy_worker_message c data message_id attempt =
     and_then (ok_or PayloadJson (worker_dto_from_json data)) (\<lambda>dto.
     and_then (map_err DataValidation (into_result (into_message_data c dto))) (\<lambda>d.
       Ok \<lparr>wm_message_id = message_id, wm_event_type = data_event_type d,
           wm_aggregate_type = data_aggregate_type d, wm_aggregate_id = data_aggregate_id d,
           wm_request_id = data_request_id d, wm_payload = data_payload d,
           wm_delivery_attempt = attempt\<rparr>))"

definition decode_worker_message ::
  "uuid_codec \<Rightarrow> transport_codec \<Rightarrow> bytes \<Rightarrow> worker_message_decode_error + worker_message" where
  "decode_worker_message c t body =
     and_then (ok_or EnvelopeJson (Option.bind (push_json t body) push_envelope_from_json)) (\<lambda>envelope.
     and_then (ok_or MissingMessage (push_message envelope)) (\<lambda>message.
     and_then (ok_or InvalidBase64 (base64_decode t (push_data message))) (\<lambda>data.
     and_then (ok_or PayloadJson (value_json t data)) (\<lambda>data.
       if is_typed_envelope data
       then decode_typed_worker_message c data (push_delivery_attempt envelope)
       else decode_legacy_worker_message c data (push_message_id message)
              (push_delivery_attempt envelope)))))"

definition worker_metadata :: "uuid_codec \<Rightarrow> worker_message \<Rightarrow> execution_metadata" where
  "worker_metadata c m =
     (let md = execution_background;
          md = (case wm_request_id m of Some r \<Rightarrow> with_correlation_id r md | None \<Rightarrow> md)
      in case uuid_parse c (wm_message_id m) of Some i \<Rightarrow> with_causation_id i md | None \<Rightarrow> md)"

section \<open>The document a message is about\<close>

datatype permanent_scan_message_error =
  PermanentAggregateType | PermanentPayload | PermanentOwnerId | PermanentAggregateId | PermanentKey

record requested_payload =
  requested_identity :: document_identity
  requested_key :: object_key

definition payload_uuid :: "uuid_codec \<Rightarrow> json \<Rightarrow> string \<Rightarrow> uuid option" where
  "payload_uuid c payload field =
     Option.bind (Option.bind (json_get field payload) json_as_str) (uuid_parse c)"

definition scan_requested_payload ::
  "uuid_codec \<Rightarrow> worker_message \<Rightarrow> permanent_scan_message_error + requested_payload" where
  "scan_requested_payload c m =
     and_then (ok_or PermanentAggregateId (uuid_parse c (wm_aggregate_id m))) (\<lambda>document.
     and_then (ok_or PermanentPayload (Option.bind (json_get ''object_key'' (wm_payload m)) json_as_str)) (\<lambda>key.
     and_then (map_err (\<lambda>_. PermanentKey) (object_key_parse c key)) (\<lambda>key.
     and_then
       (if wm_aggregate_type m = ''evidence_document'' then
          and_then (ok_or PermanentOwnerId (payload_uuid c (wm_payload m) ''evidence_submission_id''))
            (\<lambda>owner. Ok (EvidenceDocument (EvidenceSubmissionId owner) (DocumentId document)))
        else if wm_aggregate_type m = ''policy_document'' then
          and_then (ok_or PermanentOwnerId (payload_uuid c (wm_payload m) ''policy_id''))
            (\<lambda>owner. Ok (PolicyDocument (PolicyId owner) (DocumentId document)))
        else Err PermanentAggregateType) (\<lambda>identity.
       Ok \<lparr>requested_identity = identity, requested_key = key\<rparr>))))"

definition finalization_requested_payload :: "uuid_codec \<Rightarrow> worker_message \<Rightarrow> requested_payload option" where
  "finalization_requested_payload c m =
     Option.bind (uuid_parse c (wm_aggregate_id m)) (\<lambda>document.
     Option.bind (Option.bind (json_get ''object_key'' (wm_payload m)) json_as_str) (\<lambda>key.
     case object_key_parse c key of
       Inl _ \<Rightarrow> None
     | Inr key \<Rightarrow>
         map_option (\<lambda>identity. \<lparr>requested_identity = identity, requested_key = key\<rparr>)
           (if wm_aggregate_type m = ''evidence_document'' then
              map_option (\<lambda>owner. EvidenceDocument (EvidenceSubmissionId owner) (DocumentId document))
                (payload_uuid c (wm_payload m) ''evidence_submission_id'')
            else if wm_aggregate_type m = ''policy_document'' then
              map_option (\<lambda>owner. PolicyDocument (PolicyId owner) (DocumentId document))
                (payload_uuid c (wm_payload m) ''policy_id'')
            else None)))"

section \<open>What is read\<close>

text \<open>The two handlers accept the same messages and read the same document from them.\<close>

lemma requested_payload_agree:
  "finalization_requested_payload c m = Some p \<longleftrightarrow> scan_requested_payload c m = Inr p"
proof (cases "uuid_parse c (wm_aggregate_id m)")
  case (Some d)
  show ?thesis
  proof (cases "Option.bind (json_get ''object_key'' (wm_payload m)) json_as_str")
    case key: (Some k)
    with Some show ?thesis
      by (cases "object_key_parse c k")
        (auto simp: finalization_requested_payload_def scan_requested_payload_def and_then_Ok_iff)
  qed (simp add: finalization_requested_payload_def scan_requested_payload_def Some)
qed (simp add: finalization_requested_payload_def scan_requested_payload_def)

lemma to_envelope_typed: "is_typed_envelope (to_envelope c m)"
  by (simp add: is_typed_envelope_def to_envelope_def Let_def)

lemma typed_message_decoded:
  assumes "uuid_codec_ok c" and "payload_fits m"
  shows "decode_typed_worker_message c (to_envelope c m) attempt =
    Inr \<lparr>wm_message_id = uuid_text c (md_message_id (message_metadata m)),
         wm_event_type = message_event_type m,
         wm_aggregate_type = payload_aggregate_type (message_payload m),
         wm_aggregate_id = md_subject (message_metadata m),
         wm_request_id = md_correlation_id (message_metadata m),
         wm_payload = payload_to_json c (message_payload m), wm_delivery_attempt = attempt\<rparr>"
  by (simp add: decode_typed_worker_message_def envelope_round_trip [OF assms])

lemma document_message_payload:
  assumes "uuid_codec_ok c" and "object_key_parse c key = Inr k"
    and "wm_aggregate_id m = uuid_text c (document_uuid identity)"
    and "wm_aggregate_type m = document_work_aggregate_type (document_work_new identity key)"
    and "wm_payload m = document_work_to_json c (document_work_new identity key)"
  shows "scan_requested_payload c m = Inr \<lparr>requested_identity = identity, requested_key = k\<rparr>"
  using assms
  by (cases identity)
    (auto simp: scan_requested_payload_def payload_uuid_def json_get_def json_of_uuid_def uuid_codec_ok_def)

section \<open>Properties\<close>

text \<open>
  C20: The worker understands what the commands ask: when the data of a push message is the envelope of
  a scan or finalization request for a document and an object key, the worker decodes it to the event
  type of that request, with the delivery attempt Pub/Sub gives; both handlers read from it
  exactly that document and that key; and the work it causes carries the correlation of the request
  and the request's message as its cause.
\<close>

theorem worker_understands_request:
  assumes "uuid_codec_ok c" and "object_key_parse c key = Inr k"
    and "push_json t body = Some (JObj ((''message'', JObj [(''data'', JStr text), (''messageId'', JStr i)])
           # (''deliveryAttempt'', JInt (int n)) # extra))"
    and "base64_decode t text = Some data" and "n < 2 ^ 32"
    and "value_json t data = Some (to_envelope c m)"
    and "m = scan_document c fresh identity key correlation causation
       \<or> m = finalize_document c fresh identity key correlation causation"
  shows "\<exists>w. decode_worker_message c t body = Inr w
    \<and> wm_event_type w = (if m = scan_document c fresh identity key correlation causation
        then ''document.scan_requested'' else ''document.finalization_requested'')
    \<and> wm_delivery_attempt w = Some n
    \<and> scan_requested_payload c w = Inr \<lparr>requested_identity = identity, requested_key = k\<rparr>
    \<and> finalization_requested_payload c w = Some \<lparr>requested_identity = identity, requested_key = k\<rparr>
    \<and> worker_metadata c w
        = \<lparr>exec_request_id = None, exec_correlation_id = correlation, exec_causation_id = Some fresh\<rparr>"
proof -
  have fits: "payload_fits m" using assms(7) by (auto simp: scan_document_def finalize_document_def)
  let ?w = "\<lparr>wm_message_id = uuid_text c fresh, wm_event_type = message_event_type m,
         wm_aggregate_type = document_work_aggregate_type (document_work_new identity key),
         wm_aggregate_id = uuid_text c (document_uuid identity), wm_request_id = correlation,
         wm_payload = document_work_to_json c (document_work_new identity key), wm_delivery_attempt = Some n\<rparr>"
  have push: "push_envelope_from_json (JObj ((''message'', JObj [(''data'', JStr text), (''messageId'', JStr i)])
           # (''deliveryAttempt'', JInt (int n)) # extra))
      = Some \<lparr>push_message = Some \<lparr>push_message_id = i, push_data = text\<rparr>, push_delivery_attempt = Some n\<rparr>"
    using assms(5) by (simp add: push_envelope_from_json_def push_message_from_json_def json_opt_def json_u32_def)
  have "decode_typed_worker_message c (to_envelope c m) (Some n) = Inr ?w"
    using assms(7) by (auto simp: typed_message_decoded [OF assms(1) fits] scan_document_def finalize_document_def
        message_metadata_new_def)
  then have "decode_worker_message c t body = Inr ?w"
    by (simp add: decode_worker_message_def assms(3,4,6) push to_envelope_typed)
  moreover have "scan_requested_payload c ?w = Inr \<lparr>requested_identity = identity, requested_key = k\<rparr>"
    by (rule document_message_payload [OF assms(1,2)]) simp_all
  moreover have "message_event_type m = (if m = scan_document c fresh identity key correlation causation
      then ''document.scan_requested'' else ''document.finalization_requested'')"
    using assms(7) by (auto simp: scan_document_def finalize_document_def message_names)
  moreover have "worker_metadata c ?w
      = \<lparr>exec_request_id = None, exec_correlation_id = correlation, exec_causation_id = Some fresh\<rparr>"
    using assms(1)
    by (simp add: worker_metadata_def Let_def execution_background_def with_correlation_id_def
        with_causation_id_def uuid_codec_ok_def split: option.split)
  ultimately show ?thesis by (auto simp: requested_payload_agree)
qed

definition sample_object_key :: string where
  "sample_object_key =
     join_with (CHR ''/'') [''workspaces'', uuid_text simple_uuid_codec 9, ''policies'', ''manual.txt'']"

definition sample_request :: integration_message where
  "sample_request =
     scan_document simple_uuid_codec 1 (PolicyDocument (PolicyId 2) (DocumentId 3)) sample_object_key (Some 5) None"

definition sample_transport :: transport_codec where
  "sample_transport =
     \<lparr>push_json = (\<lambda>_. Some (JObj [(''message'', JObj [(''data'', JStr ''e30=''), (''messageId'', JStr ''7'')]),
          (''deliveryAttempt'', JInt 2)])),
      value_json = (\<lambda>_. Some (to_envelope simple_uuid_codec sample_request)),
      base64_decode = (\<lambda>_. Some [])\<rparr>"

lemma sample_object_key_parses: "object_key_parse simple_uuid_codec sample_object_key = Inr (ObjectKey sample_object_key)"
proof -
  have "validated_path ''policies'' = Inr [''policies'']" "validated_path ''manual.txt'' = Inr [''manual.txt'']"
    by code_simp+
  then have "object_key_new simple_uuid_codec (WorkspaceId 9) ''policies'' ''manual.txt''
      = Inr (ObjectKey sample_object_key)"
    by (simp add: object_key_new_def sample_object_key_def del: join_with.simps)
  from object_key_new_parses [OF simple_uuid_codec_ok this] show ?thesis by simp
qed

theorem worker_understands_request_witness:
  "\<exists>w. decode_worker_message simple_uuid_codec sample_transport [] = Inr w
     \<and> scan_requested_payload simple_uuid_codec w
         = Inr \<lparr>requested_identity = PolicyDocument (PolicyId 2) (DocumentId 3),
                requested_key = ObjectKey sample_object_key\<rparr>"
  using worker_understands_request [OF simple_uuid_codec_ok sample_object_key_parses, of sample_transport "[]"
      "''e30=''" "''7''" 2 "[]" "[]" sample_request 1 "PolicyDocument (PolicyId 2) (DocumentId 3)" "Some 5" None]
  by (auto simp: sample_transport_def sample_request_def)

end
