(* ===== verification/Worker.thy ===== *)
theory Worker
  imports Worker_Messages Scanner Document_Commands
begin

text \<open>
  The worker's document handlers (\<^verbatim>\<open>src/handlers/document_scan.rs\<close>,
  \<^verbatim>\<open>src/handlers/document_finalization.rs\<close>, the dispatch of \<^verbatim>\<open>src/worker.rs\<close>). A delivery runs over the
  database, the two object stores and the audit log; what may go wrong outside the code during one
  delivery is in \<open>worker_env\<close>: the database connection, the reads of the quarantined object, the
  writes of the promoted one, deletions, and the exchange with the scanner. A retryable error is its
  cause, of which the code keeps the text.
\<close>

section \<open>State and environment\<close>

record audit_entry =
  audit_event_name :: string
  audit_success :: bool
  audit_operation :: string
  audit_workspace :: workspace_id
  audit_identity :: document_identity
  audit_status :: string
  audit_request_id :: "uuid option"

record worker_world =
  ww_db :: db
  ww_quarantine :: filesystem_store
  ww_evidence :: filesystem_store
  ww_audit :: "audit_entry list"

record worker_env =
  we_command :: command_env
  we_digest :: digest_codec
  we_max_delivery_attempts :: nat
  we_reads_fault :: "repository_error option"
  we_commit_fault :: "repository_error option"
  we_get_fault :: "storage_error option"
  we_stream_fault :: "(nat \<times> storage_error) option"
  we_put_faults :: put_faults
  we_delete_fails :: bool
  we_scanner :: clamav_scanner
  we_connect :: connect_outcome

datatype retryable_worker_error =
    RetryRepository repository_error | RetryCommand document_command_error
  | RetryStorage storage_error | RetryScan malware_scan_error | RetryNegativeLength

abbreviation we_uuid :: "worker_env \<Rightarrow> uuid_codec" where
  "we_uuid env \<equiv> env_uuid (we_command env)"

definition storage_error_text :: "storage_error \<Rightarrow> string" where
  "storage_error_text e =
     (case e of
        InvalidKey \<Rightarrow> ''invalid object key''
      | ObjectNotFound \<Rightarrow> ''object not found''
      | FilesystemError \<Rightarrow> ''filesystem storage error''
      | MetadataPersistence \<Rightarrow> ''metadata persistence error''
      | StreamRead message _ \<Rightarrow> ''object stream read error: '' @ message
      | Integrity \<Rightarrow> ''object storage integrity check failed''
      | StorageAuthentication _ \<Rightarrow> ''object storage authentication or permission error''
      | StorageUnavailable _ \<Rightarrow> ''object storage is temporarily unavailable''
      | StorageProvider _ \<Rightarrow> ''object storage provider error'')"

text \<open>The quarantine store's reads, and the deletions of either store.\<close>

definition quarantine_get ::
  "worker_env \<Rightarrow> object_key \<Rightarrow> filesystem_store \<Rightarrow> storage_error + object_metadata \<times> chunk_stream" where
  "quarantine_get env key s =
     (case we_get_fault env of
        Some e \<Rightarrow> Err e
      | None \<Rightarrow>
          and_then (get_object (we_uuid env) key s) (\<lambda>(md, chunks).
            Ok (md, case we_stream_fault env of
                      None \<Rightarrow> chunks
                    | Some (n, e) \<Rightarrow> take n chunks @ [Inl e])))"

definition store_delete :: "worker_env \<Rightarrow> object_key \<Rightarrow> filesystem_store \<Rightarrow> filesystem_store" where
  "store_delete env key s = (if we_delete_fails env then s else delete_object key s)"

text \<open>A unit of work whose connection may be lost, which leaves the database as it was.\<close>

definition committing ::
  "worker_env \<Rightarrow> (db \<Rightarrow> (document_command_error + 'a) \<times> db) \<Rightarrow> db \<Rightarrow> (document_command_error + 'a) \<times> db" where
  "committing env f s =
     (case we_commit_fault env of Some e \<Rightarrow> (Err (CommandRepository e), s) | None \<Rightarrow> f s)"

definition worker_load ::
  "worker_env \<Rightarrow> document_identity \<Rightarrow> string \<Rightarrow> document_upload_status \<Rightarrow> db
   \<Rightarrow> repository_error + document_upload_work option" where
  "worker_load env identity key status s =
     (case we_reads_fault env of Some e \<Rightarrow> Err e | None \<Rightarrow> load_upload_work identity key status s)"

section \<open>The scan handler\<close>

definition final_delivery :: "worker_env \<Rightarrow> worker_message \<Rightarrow> bool" where
  "final_delivery env m = is_some_and (\<lambda>attempt. attempt \<ge> we_max_delivery_attempts env) (wm_delivery_attempt m)"

definition scan_event_name :: "document_identity \<Rightarrow> string" where
  "scan_event_name identity =
     (case identity of EvidenceDocument _ _ \<Rightarrow> ''evidence_document_scan.completed''
      | PolicyDocument _ _ \<Rightarrow> ''policy_document_scan.completed'')"

definition emit_worker_document_audit ::
  "bool \<Rightarrow> document_upload_work \<Rightarrow> uuid option \<Rightarrow> string \<Rightarrow> worker_world \<Rightarrow> worker_world" where
  "emit_worker_document_audit success work request_id status w =
     w\<lparr>ww_audit := ww_audit w @
         [\<lparr>audit_event_name = scan_event_name (work_identity work), audit_success = success,
           audit_operation = ''handle_document_scan'', audit_workspace = work_workspace_id work,
           audit_identity = work_identity work, audit_status = status, audit_request_id = request_id\<rparr>]\<rparr>"

definition apply_result ::
  "worker_env \<Rightarrow> document_upload_work \<Rightarrow> scan_document_result \<Rightarrow> worker_message \<Rightarrow> worker_world
   \<Rightarrow> (retryable_worker_error + bool) \<times> worker_world" where
  "apply_result env work result m w =
     (let cmd = \<lparr>scan_identity = work_identity work, scan_object_key = work_object_key work,
                 scan_result = result\<rparr>;
          (r, s) = committing env
            (handle_scan_document (we_command env) cmd (worker_metadata (we_uuid env) m)) (ww_db w)
      in (and_then (map_err RetryCommand r) (\<lambda>out. Ok (out = CommandApplied)), w\<lparr>ww_db := s\<rparr>))"

fun verdict_audit :: "scan_document_result \<Rightarrow> bool \<times> string" where
  "verdict_audit VerdictClean = (True, ''finalizing'')"
| "verdict_audit VerdictMalicious = (False, ''contains_virus'')"
| "verdict_audit VerdictFailed = (False, ''failed_upload'')"

text \<open>A verdict applied, and its audit event where the document changed.\<close>

definition settle ::
  "worker_env \<Rightarrow> document_upload_work \<Rightarrow> scan_document_result \<Rightarrow> worker_message \<Rightarrow> worker_world
   \<Rightarrow> (retryable_worker_error + unit) \<times> worker_world" where
  "settle env work verdict m w =
     (case apply_result env work verdict m w of
        (Inl e, w) \<Rightarrow> (Err e, w)
      | (Inr updated, w) \<Rightarrow>
          (Ok (), if updated
             then emit_worker_document_audit (fst (verdict_audit verdict)) work (wm_request_id m)
                    (snd (verdict_audit verdict)) w
             else w))"

fun scan_outcome_verdict :: "malware_scan_outcome \<Rightarrow> scan_document_result" where
  "scan_outcome_verdict ScanClean = VerdictClean"
| "scan_outcome_verdict (ScanMalicious reason) = VerdictMalicious"
| "scan_outcome_verdict (ScanFailed reason) = VerdictFailed"

definition apply_scan_result ::
  "worker_env \<Rightarrow> document_upload_work \<Rightarrow> malware_scan_result \<Rightarrow> worker_message \<Rightarrow> worker_world
   \<Rightarrow> (retryable_worker_error + unit) \<times> worker_world" where
  "apply_scan_result env work result m w = settle env work (scan_outcome_verdict (scan_outcome result)) m w"

definition scan_stream :: "chunk_stream \<Rightarrow> (malware_scan_error + bytes) list" where
  "scan_stream chunks =
     map (map_err (\<lambda>e. ScanInternal (''failed to read object from storage: '' @ storage_error_text e))) chunks"

definition object_matches :: "object_metadata \<Rightarrow> document_upload_work \<Rightarrow> bool" where
  "object_matches md work \<longleftrightarrow>
     object_content_type md = work_content_type work
   \<and> object_content_length md = of_int (work_content_length work)
   \<and> object_sha256 md = work_checksum_sha256 work"

definition handle_scan_requested ::
  "worker_env \<Rightarrow> worker_message \<Rightarrow> worker_world \<Rightarrow> (retryable_worker_error + unit) \<times> worker_world" where
  "handle_scan_requested env m w =
     (let failed = \<lambda>work e. if final_delivery env m then settle env work VerdictFailed m w else (Err e, w) in
      case scan_requested_payload (we_uuid env) m of
        Inl _ \<Rightarrow> (Ok (), w)
      | Inr payload \<Rightarrow>
     (case worker_load env (requested_identity payload) (key_str (requested_key payload)) PendingUpload
             (ww_db w) of
        Inl e \<Rightarrow> (Err (RetryRepository e), w)
      | Inr None \<Rightarrow> (Ok (), w)
      | Inr (Some work) \<Rightarrow>
     (case object_key_parse (we_uuid env) (work_object_key work) of
        Inl e \<Rightarrow> (Err (RetryStorage e), w)
      | Inr quarantine_key \<Rightarrow>
     (case quarantine_get env quarantine_key (ww_quarantine w) of
        Inl e \<Rightarrow>
          if e = ObjectNotFound then settle env work VerdictFailed m w else failed work (RetryStorage e)
      | Inr (md, chunks) \<Rightarrow>
          if work_content_length work < 0 then (Err RetryNegativeLength, w)
          else if \<not> object_matches md work then
            failed work (RetryScan (ScanInternal ''stored object metadata does not match document metadata''))
          else case clamav_scan (we_scanner env) (we_connect env) (scan_stream chunks) of
            Inl e \<Rightarrow> failed work (RetryScan e)
          | Inr result \<Rightarrow> apply_scan_result env work result m w))))"

section \<open>The finalization handler\<close>

definition emit_worker_finalization_audit ::
  "document_upload_work \<Rightarrow> uuid option \<Rightarrow> worker_world \<Rightarrow> worker_world" where
  "emit_worker_finalization_audit work request_id w =
     w\<lparr>ww_audit := ww_audit w @
         [\<lparr>audit_event_name =
             (case work_identity work of EvidenceDocument _ _ \<Rightarrow> ''evidence_document_finalization.completed''
              | PolicyDocument _ _ \<Rightarrow> ''policy_document_finalization.completed''),
           audit_success = True, audit_operation = ''handle_document_finalization'',
           audit_workspace = work_workspace_id work, audit_identity = work_identity work,
           audit_status = ''uploaded'', audit_request_id = request_id\<rparr>]\<rparr>"

text \<open>\<^verbatim>\<open>QuarantineObjectStore::promote\<close> between filesystem stores.\<close>

definition promote ::
  "worker_env \<Rightarrow> object_key \<Rightarrow> object_key \<Rightarrow> filesystem_store \<Rightarrow> filesystem_store
   \<Rightarrow> (storage_error + object_metadata) \<times> filesystem_store" where
  "promote env = stream_copy_object (quarantine_get env) (put_object (we_digest env) (we_put_faults env))
     (store_delete env)"

definition handle_finalization_requested ::
  "worker_env \<Rightarrow> worker_message \<Rightarrow> worker_world \<Rightarrow> (retryable_worker_error + unit) \<times> worker_world" where
  "handle_finalization_requested env m w =
     (case finalization_requested_payload (we_uuid env) m of
        None \<Rightarrow> (Ok (), w)
      | Some payload \<Rightarrow>
     (case worker_load env (requested_identity payload) (key_str (requested_key payload)) Finalizing
             (ww_db w) of
        Inl e \<Rightarrow> (Err (RetryRepository e), w)
      | Inr None \<Rightarrow> (Ok (), w)
      | Inr (Some work) \<Rightarrow>
     (case final_document_object_key (we_uuid env) (work_workspace_id work) (work_identity work)
             (work_filename work) of
        Inl e \<Rightarrow> (Err (RetryStorage e), w)
      | Inr final_key \<Rightarrow>
     (case promote env (requested_key payload) final_key (ww_quarantine w) (ww_evidence w) of
        (Inl e, t) \<Rightarrow> (Err (RetryStorage e), w\<lparr>ww_evidence := t\<rparr>)
      | (Inr copied, t) \<Rightarrow>
          if object_metadata_key copied \<noteq> final_key \<or> \<not> object_matches copied work then
            (Err (RetryStorage Integrity), w\<lparr>ww_evidence := store_delete env final_key t\<rparr>)
          else
            (let cmd = \<lparr>fin_identity = work_identity work, fin_quarantine_object_key = work_object_key work,
                        fin_final_object_key = key_str final_key\<rparr>;
                 w = w\<lparr>ww_evidence := t\<rparr>
             in case committing env (handle_finalize_document cmd) (ww_db w) of
                  (Inl e, s) \<Rightarrow> (Err (RetryCommand e), w\<lparr>ww_db := s\<rparr>)
                | (Inr out, s) \<Rightarrow>
                    let w = w\<lparr>ww_db := s\<rparr> in
                    (Ok (), if out = CommandApplied
                       then (emit_worker_finalization_audit work (wm_request_id m) w)
                              \<lparr>ww_quarantine := store_delete env (requested_key payload) (ww_quarantine w)\<rparr>
                       else w))))))"

section \<open>Dispatch\<close>

text \<open>
  The answer to a push, 204 to acknowledge it and 500 to have it delivered again. The delivery of
  invitations works on other tables and is an argument.
\<close>

definition acknowledge :: "(retryable_worker_error + unit) \<times> worker_world \<Rightarrow> nat \<times> worker_world" where
  "acknowledge r = (case fst r of Inr _ \<Rightarrow> 204 | Inl _ \<Rightarrow> 500, snd r)"

definition dispatch ::
  "(worker_message \<Rightarrow> worker_world \<Rightarrow> (retryable_worker_error + unit) \<times> worker_world)
   \<Rightarrow> worker_env \<Rightarrow> worker_message \<Rightarrow> worker_world \<Rightarrow> nat \<times> worker_world" where
  "dispatch deliver_invitation env m w =
     (if wm_event_type m = legacy_document_scan_requested then acknowledge (handle_scan_requested env m w)
      else if wm_event_type m = legacy_document_finalization_requested
        then acknowledge (handle_finalization_requested env m w)
      else if wm_event_type m = send_workspace_invitation_type
        then acknowledge (deliver_invitation m w)
      else (204, w))"

definition pubsub_message ::
  "(worker_message \<Rightarrow> worker_world \<Rightarrow> (retryable_worker_error + unit) \<times> worker_world)
   \<Rightarrow> transport_codec \<Rightarrow> worker_env \<Rightarrow> bytes \<Rightarrow> worker_world \<Rightarrow> nat \<times> worker_world" where
  "pubsub_message deliver_invitation t env body w =
     (case decode_worker_message (we_uuid env) t body of
        Inl _ \<Rightarrow> (204, w)
      | Inr m \<Rightarrow> dispatch deliver_invitation env m w)"

section \<open>The work a delivery finds\<close>

definition work_of :: "document \<Rightarrow> document_upload_work" where
  "work_of d = \<lparr>work_workspace_id = doc_workspace_id d, work_identity = doc_identity d,
     work_filename = doc_filename d, work_content_type = doc_content_type d,
     work_content_length = doc_content_length d, work_object_key = doc_object_key d,
     work_checksum_sha256 = doc_checksum_sha256 d, work_upload_status = doc_upload_status d\<rparr>"

definition owner_active :: "document \<Rightarrow> db \<Rightarrow> bool" where
  "owner_active d s \<longleftrightarrow> (\<forall>p. document_owner_of d = OwnedByPolicy p \<longrightarrow>
     list_ex (\<lambda>x. polrec_id x = policy_uuid p \<and> polrec_workspace_id x = workspace_uuid (doc_workspace_id d)
       \<and> polrec_archived_at x = None) (db_policies s))"

lemma find_SomeD: "find P xs = Some x \<Longrightarrow> x \<in> set xs \<and> P x"
  by (auto simp: find_Some_iff)

lemma find_by_key:
  assumes "distinct (map f xs)" and "x \<in> set xs" and "P x" and "\<And>y. P y \<Longrightarrow> f y = f x"
  shows "find P xs = Some x"
proof -
  obtain y where y: "find P xs = Some y" using assms(2,3) by (fastforce simp: find_None_iff)
  then have "P y" "y \<in> set xs" by (auto simp: find_Some_iff)
  with assms have "y = x" by (metis distinct_map inj_onD)
  with y show ?thesis by simp
qed

text \<open>Work is loaded exactly for a stored document in the expected state.\<close>

lemma load_upload_work_row:
  assumes "load_upload_work i k st s = Inr (Some work)" and "documents_valid s"
  obtains d where "document_get (identity_document_id i) (identity_owner i) s = Inr (Some d)"
    "doc_object_key d = k" "doc_upload_status d = st" "\<not> doc_archived d" "owner_active d s" "work = work_of d"
proof -
  let ?key = "document_row_key (identity_document_id i) (identity_owner i)"
  from assms(1) obtain r where r: "r \<in> set (db_documents s)" "?key r" "document_record.rec_object_key r = k"
    "rec_upload_status r = upload_status_as_str st" "\<not> rec_archived r"
    and policy: "rec_owner_type r \<noteq> ''policy'' \<or> list_ex (\<lambda>p. polrec_id p = rec_owner_id r
         \<and> polrec_workspace_id p = document_record.rec_workspace_id r \<and> polrec_archived_at p = None) (db_policies s)"
    and work: "map_err InvalidData (and_then (upload_status_from_str (rec_upload_status r)) (\<lambda>st.
           Ok \<lparr>work_workspace_id = WorkspaceId (document_record.rec_workspace_id r), work_identity = i,
               work_filename = rec_filename r, work_content_type = rec_content_type r,
               work_content_length = rec_content_length r, work_object_key = document_record.rec_object_key r,
               work_checksum_sha256 = rec_checksum_sha256 r, work_upload_status = st\<rparr>)) = Inr work"
    by (auto simp del: map_err_Ok_iff simp: load_upload_work_def map_transpose_Some_iff dest!: find_SomeD)
  have "find ?key (db_documents s) = Some r"
    using assms(2) r(1,2) by (intro find_by_key [of rec_id])
      (auto simp: documents_valid_def wf_documents_def document_row_key_def)
  then obtain d where d: "document_get (identity_document_id i) (identity_owner i) s = Inr (Some d)"
    "document_into_domain r i = Inr d"
    using r(4) by (simp add: document_get_def load_document_def document_into_domain_def)
  have "document_from_domain d = r"
    using loaded_document_row [of r "identity_document_id i" "identity_owner i" d] d(2) r(2) by simp
  then have "owner_active d s"
    using policy by (auto simp: owner_active_def document_from_domain_def)
  moreover have "work = work_of d" "doc_upload_status d = st" "doc_object_key d = k" "\<not> doc_archived d"
    using d(2) r work by (auto simp: document_into_domain_def work_of_def)
  ultimately show thesis using that d(1) by blast
qed

lemma load_upload_work_document:
  assumes "documents_valid s" and gd: "document_get (identity_document_id i) (identity_owner i) s = Inr (Some d)"
    and "\<not> doc_archived d" "owner_active d s"
  shows "load_upload_work i (doc_object_key d) (doc_upload_status d) s = Inr (Some (work_of d))"
proof -
  let ?r = "document_from_domain d"
  have ident: "doc_identity d = i" "document_owner_of d = identity_owner i"
    using document_get_identity [OF gd] by auto
  have "find (\<lambda>r. document_row_key (identity_document_id i) (identity_owner i) r
          \<and> document_record.rec_object_key r = doc_object_key d \<and> rec_upload_status r = upload_status_as_str (doc_upload_status d)
          \<and> \<not> rec_archived r
          \<and> (rec_owner_type r \<noteq> ''policy'' \<or> list_ex (\<lambda>p. polrec_id p = rec_owner_id r
               \<and> polrec_workspace_id p = document_record.rec_workspace_id r \<and> polrec_archived_at p = None)
               (db_policies s))) (db_documents s) = Some ?r"
    using assms(1,3,4) document_get_row [OF gd] ident
    by (intro find_by_key [of rec_id])
      (auto simp: documents_valid_def wf_documents_def document_row_key_def document_from_domain_def
        owner_active_def document_id_of_def, cases "identity_owner (doc_identity d)", auto)
  then show ?thesis
    by (simp add: load_upload_work_def work_of_def document_from_domain_def ident)
qed

lemma map_transpose_total: "(\<And>r. x = Some r \<Longrightarrow> is_ok (f r)) \<Longrightarrow> \<exists>y. map_transpose f x = Inr y"
  by (cases x; cases "f (the x)") auto

lemma load_upload_work_total: "\<exists>x. load_upload_work i k st s = Inr x"
  unfolding load_upload_work_def by (rule map_transpose_total) (auto simp: find_Some_iff)

section \<open>What a scan delivery does\<close>

text \<open>A verdict on work that was loaded settles it.\<close>

lemma settle_due:
  assumes "documents_valid (ww_db w)" and "we_commit_fault env = None"
    and "load_upload_work i k PendingUpload (ww_db w) = Inr (Some work)"
  obtains w' d where "settle env work v m w = (Inr (), w')"
    "document_get (identity_document_id i) (identity_owner i) (ww_db w) = Inr (Some d)"
    "document_get (identity_document_id i) (identity_owner i) (ww_db w')
       = Inr (Some (d\<lparr>doc_upload_status := verdict_status v\<rparr>))"
    "\<And>j ow. j \<noteq> identity_document_id i \<Longrightarrow> document_get j ow (ww_db w') = document_get j ow (ww_db w)"
    "documents_valid (ww_db w')" "ww_quarantine w' = ww_quarantine w" "ww_evidence w' = ww_evidence w"
    "db_outbox (ww_db w') = record_event (we_command env)
       (pending_event (d\<lparr>doc_upload_status := verdict_status v\<rparr>)) (worker_metadata (we_uuid env) m)
       (db_outbox (ww_db w))"
    "db_policies (ww_db w') = db_policies (ww_db w)"
proof -
  from load_upload_work_row [OF assms(3,1)] obtain d where
    d: "document_get (identity_document_id i) (identity_owner i) (ww_db w) = Inr (Some d)"
    "doc_object_key d = k" "doc_upload_status d = PendingUpload" "\<not> doc_archived d" and work: "work = work_of d"
    by metis
  have ident: "doc_identity d = i" using document_get_identity [OF d(1)] by simp
  show thesis
  proof (rule scan_due [OF assms(1) d, of "we_command env" v "worker_metadata (we_uuid env) m"])
    fix s'
    assume run: "handle_scan_document (we_command env) \<lparr>scan_identity = i, scan_object_key = k, scan_result = v\<rparr>
        (worker_metadata (we_uuid env) m) (ww_db w) = (Inr CommandApplied, s')"
      and facts: "document_get (identity_document_id i) (identity_owner i) s'
          = Inr (Some (d\<lparr>doc_upload_status := verdict_status v\<rparr>))"
        "\<And>j ow. j \<noteq> identity_document_id i \<Longrightarrow> document_get j ow s' = document_get j ow (ww_db w)"
        "db_outbox s' = record_event (we_command env) (pending_event (d\<lparr>doc_upload_status := verdict_status v\<rparr>))
           (worker_metadata (we_uuid env) m) (db_outbox (ww_db w))"
        "documents_valid s'"
    have policies: "db_policies s' = db_policies (ww_db w)"
      using handle_scan_Ok [OF run] document_save_frame by auto
    let ?w = "emit_worker_document_audit (fst (verdict_audit v)) work (wm_request_id m)
        (snd (verdict_audit v)) (w\<lparr>ww_db := s'\<rparr>)"
    have "settle env work v m w = (Inr (), ?w)"
      using run by (simp add: settle_def apply_result_def committing_def assms(2) work work_of_def ident d(2))
    then show thesis
      by (rule that [OF _ d(1)]) (use facts policies in \<open>simp_all add: emit_worker_document_audit_def\<close>)
  qed
qed

lemma object_key_parse_Ok: "object_key_parse c v = Inr k \<Longrightarrow> key_str k = v"
  by (auto simp: object_key_parse_def and_then_Ok_iff split: if_splits option.splits)

lemma requested_key_parses:
  "scan_requested_payload c m = Inr p \<Longrightarrow> object_key_parse c (key_str (requested_key p)) = Inr (requested_key p)"
  by (auto simp: scan_requested_payload_def and_then_Ok_iff object_key_parse_Ok)

text \<open>A scan delivery leaves everything as it is, or applies one verdict to the work it found.\<close>

lemma scan_delivery_cases:
  assumes "handle_scan_requested env m w = (r, w')"
  obtains (unchanged) "w' = w"
    "r = Inr () \<Longrightarrow> scan_requested_payload (we_uuid env) m = Inr p \<Longrightarrow>
       worker_load env (requested_identity p) (key_str (requested_key p)) PendingUpload (ww_db w) = Inr None"
  | (verdict) q work v where "scan_requested_payload (we_uuid env) m = Inr q"
    "load_upload_work (requested_identity q) (key_str (requested_key q)) PendingUpload (ww_db w) = Inr (Some work)"
    "settle env work v m w = (r, w')"
    "v = VerdictClean \<Longrightarrow> \<exists>md chunks result. quarantine_get env (requested_key q) (ww_quarantine w) = Inr (md, chunks)
       \<and> object_matches md work \<and> scan_outcome result = ScanClean
       \<and> clamav_scan (we_scanner env) (we_connect env) (scan_stream chunks) = Inr result"
proof (cases "scan_requested_payload (we_uuid env) m")
  case (Inl e)
  with assms unchanged show thesis by (simp add: handle_scan_requested_def)
next
  case q: (Inr q)
  let ?load = "worker_load env (requested_identity q) (key_str (requested_key q)) PendingUpload (ww_db w)"
  show thesis
  proof (cases ?load)
    case (Inl e)
    with assms q unchanged show thesis by (auto simp: handle_scan_requested_def)
  next
    case load: (Inr found)
    show thesis
    proof (cases found)
      case None
      with assms q load unchanged show thesis by (auto simp: handle_scan_requested_def)
    next
      case (Some work)
      have loaded: "load_upload_work (requested_identity q) (key_str (requested_key q)) PendingUpload (ww_db w)
          = Inr (Some work)"
        using load Some by (simp add: worker_load_def split: option.splits)
      then have key: "work_object_key work = key_str (requested_key q)"
        by (auto simp: load_upload_work_def map_transpose_Some_iff and_then_Ok_iff dest: find_SomeD)
      note step = assms [unfolded handle_scan_requested_def q sum.case load Some option.case key
          requested_key_parses [OF q] Let_def]
      show thesis
      proof (cases "quarantine_get env (requested_key q) (ww_quarantine w)")
        case (Inl e)
        with step unchanged verdict [OF q loaded, of VerdictFailed] show thesis
          by (auto split: if_splits)
      next
        case (Inr got)
        obtain md chunks where got: "got = (md, chunks)" by fastforce
        show thesis
        proof (cases "clamav_scan (we_scanner env) (we_connect env) (scan_stream chunks)")
          case (Inl e)
          with step Inr got unchanged verdict [OF q loaded, of VerdictFailed] show thesis
            by (auto split: if_splits)
        next
          case scan: (Inr result)
          show thesis
          proof (cases "0 \<le> work_content_length work \<and> object_matches md work")
            case True
            with step Inr got scan
            have "settle env work (scan_outcome_verdict (scan_outcome result)) m w = (r, w')"
              by (simp add: apply_scan_result_def)
            then show thesis
              using verdict [OF q loaded] True Inr got scan
              by (cases "scan_outcome result") auto
          next
            case False
            with step Inr got unchanged verdict [OF q loaded, of VerdictFailed] show thesis
              by (auto split: if_splits)
          qed
        qed
      qed
    qed
  qed
qed

lemma pending_work_settled:
  assumes "documents_valid s" and "document_get (identity_document_id i) (identity_owner i) s = Inr (Some d)"
    and "doc_upload_status d \<noteq> st"
  shows "load_upload_work i k st s = Inr None"
proof -
  obtain x where x: "load_upload_work i k st s = Inr x" using load_upload_work_total by blast
  have "x = None"
  proof (rule ccontr)
    assume "x \<noteq> None"
    with x obtain work where "load_upload_work i k st s = Inr (Some work)" by auto
    from load_upload_work_row [OF this assms(1)] show False using assms(2,3) by auto
  qed
  with x show ?thesis by simp
qed

section \<open>Properties\<close>

text \<open>
  C12: The last delivery of a scan request settles it. On a database that satisfies its constraints and
  can be reached, a scan delivery whose attempt has reached the configured maximum is acknowledged,
  whatever the object store and the scanner do, and afterwards no work is left for the request: the
  document it names, if it was waiting, has a verdict. A later delivery of the same request changes
  nothing. The stores are not touched and the constraints still hold.
\<close>

theorem final_delivery_settles:
  assumes "documents_valid (ww_db w)" and "we_reads_fault env = None" and "we_commit_fault env = None"
    and "final_delivery env m" and "scan_requested_payload (we_uuid env) m = Inr p"
    and "handle_scan_requested env m w = (r, w')"
  shows "r = Inr () \<and> documents_valid (ww_db w')
    \<and> load_upload_work (requested_identity p) (key_str (requested_key p)) PendingUpload (ww_db w') = Inr None
    \<and> handle_scan_requested env m w' = (Inr (), w')
    \<and> ww_quarantine w' = ww_quarantine w \<and> ww_evidence w' = ww_evidence w"
proof -
  let ?i = "requested_identity p" and ?k = "key_str (requested_key p)"
  have "r = Inr () \<and> documents_valid (ww_db w') \<and> load_upload_work ?i ?k PendingUpload (ww_db w') = Inr None
    \<and> ww_quarantine w' = ww_quarantine w \<and> ww_evidence w' = ww_evidence w"
    using assms(6)
  proof (cases rule: scan_delivery_cases [where p = p])
    case unchanged
    have "r = Inr ()"
    proof (rule ccontr)
      assume err: "r \<noteq> Inr ()"
      obtain x where x: "load_upload_work ?i ?k PendingUpload (ww_db w) = Inr x"
        using load_upload_work_total by blast
      with err assms(2,5,6) obtain work where work: "x = Some work"
        by (cases x) (auto simp: handle_scan_requested_def worker_load_def)
      with x load_upload_work_row [OF _ assms(1)] obtain d where
        d: "document_get (identity_document_id ?i) (identity_owner ?i) (ww_db w) = Inr (Some d)" "work = work_of d"
          "doc_object_key d = ?k" by metis
      have len: "0 \<le> work_content_length work"
        using assms(1) document_get_row [OF d(1)] d(2)
        by (auto simp: documents_valid_def document_row_ok_def document_from_domain_def work_of_def)
      have settled: "fst (settle env work v m w) = Inr ()" for v
        using settle_due [OF assms(1,3)] x work by (metis fst_conv)
      have "work_object_key work = ?k" using d(2,3) by (simp add: work_of_def)
      then have "fst (handle_scan_requested env m w) = Inr ()"
        using x work len settled assms(2,4,5) requested_key_parses [OF assms(5)]
        by (auto simp: handle_scan_requested_def worker_load_def apply_scan_result_def split: sum.split)
      with assms(6) err show False by simp
    qed
    with unchanged assms(1,2,5) show ?thesis by (simp add: worker_load_def)
  next
    case (verdict q work v)
    with assms(5) have q: "q = p" by simp
    from settle_due [OF assms(1,3) verdict(2)] obtain w1 d where
      s: "settle env work v m w = (Inr (), w1)" "documents_valid (ww_db w1)"
        "document_get (identity_document_id ?i) (identity_owner ?i) (ww_db w1)
           = Inr (Some (d\<lparr>doc_upload_status := verdict_status v\<rparr>))"
        "ww_quarantine w1 = ww_quarantine w" "ww_evidence w1 = ww_evidence w"
      unfolding q by metis
    have "load_upload_work ?i ?k PendingUpload (ww_db w1) = Inr None"
      by (rule pending_work_settled [OF s(2,3)]) (cases v; simp add: verdict_status_def)
    with s verdict(3) show ?thesis by simp
  qed
  then show ?thesis using assms(2,5) by (simp add: handle_scan_requested_def worker_load_def)
qed

section \<open>A sample delivery\<close>

definition custody_document :: document where
  "custody_document = sample_document\<lparr>doc_workspace_id := WorkspaceId 9, doc_object_key := sample_object_key,
     doc_filename := ''manual.txt'', doc_content_type := ''text/plain'', doc_content_length := 2,
     doc_checksum_sha256 := hex_text [1, 2]\<rparr>"

definition custody_db :: db where
  "custody_db = sample_db\<lparr>
     db_workspaces := \<lparr>workspaces_table = [\<lparr>wsrec_id = 9, wsrec_slug = None, wsrec_name = ''Acme'', wsrec_created_at = 0\<rparr>],
       memberships_table = []\<rparr>,
     db_documents := [document_from_domain custody_document],
     db_policies := [\<lparr>polrec_id = 1, polrec_workspace_id = 9, polrec_name = ''Access'', polrec_description = None,
       polrec_created_at = 0, polrec_updated_at = 0, polrec_archived_at = None\<rparr>]\<rparr>"

definition custody_world :: worker_world where
  "custody_world = \<lparr>ww_db = custody_db,
     ww_quarantine = \<lparr>stored_objects = [ObjectKey sample_object_key \<mapsto> [1, 2]],
       stored_metadata = [ObjectKey sample_object_key \<mapsto> Some
         \<lparr>object_metadata_key = ObjectKey sample_object_key, object_content_type = ''text/plain'',
          object_content_length = 2, object_sha256 = hex_text [1, 2]\<rparr>]\<rparr>,
     ww_evidence = empty_store, ww_audit = []\<rparr>"

definition custody_env :: "connect_outcome \<Rightarrow> worker_env" where
  "custody_env connect = \<lparr>we_command = sample_env, we_digest = \<lparr>sha256 = id, digest_hex = hex_text\<rparr>,
     we_max_delivery_attempts = 5, we_reads_fault = None, we_commit_fault = None, we_get_fault = None,
     we_stream_fault = None, we_put_faults = no_faults, we_delete_fails = False,
     we_scanner = sample_scanner, we_connect = connect\<rparr>"

definition custody_message :: "string \<Rightarrow> nat \<Rightarrow> worker_message" where
  "custody_message event attempt = \<lparr>wm_message_id = ''7'', wm_event_type = event,
     wm_aggregate_type = ''policy_document'', wm_aggregate_id = uuid_text simple_uuid_codec 2,
     wm_request_id = None,
     wm_payload = document_work_to_json simple_uuid_codec (PolicyWork 1 sample_object_key),
     wm_delivery_attempt = Some attempt\<rparr>"

lemma custody_db_valid: "documents_valid custody_db"
  by (simp add: documents_valid_def wf_documents_def document_row_ok_def custody_db_def custody_document_def
      sample_db_def sample_document_def document_from_domain_def document_id_of_def document_owner_of_def
      row_exists_def del: hex_text.simps)

lemma custody_payload:
  "scan_requested_payload simple_uuid_codec (custody_message event attempt)
    = Inr \<lparr>requested_identity = PolicyDocument (PolicyId 1) (DocumentId 2), requested_key = ObjectKey sample_object_key\<rparr>"
  by (rule document_message_payload [OF simple_uuid_codec_ok sample_object_key_parses])
    (simp_all add: custody_message_def)

theorem final_delivery_settles_witness:
  "fst (handle_scan_requested (custody_env ConnectTimedOut) (custody_message ''document.scan_requested'' 5) custody_world)
     = Inr ()
   \<and> load_upload_work (PolicyDocument (PolicyId 1) (DocumentId 2)) sample_object_key PendingUpload
       (ww_db (snd (handle_scan_requested (custody_env ConnectTimedOut) (custody_message ''document.scan_requested'' 5)
         custody_world))) = Inr None"
proof -
  let ?env = "custody_env ConnectTimedOut" and ?m = "custody_message ''document.scan_requested'' 5"
  obtain r w' where run: "handle_scan_requested ?env ?m custody_world = (r, w')" by fastforce
  have "documents_valid (ww_db custody_world)" by (simp add: custody_world_def custody_db_valid)
  from final_delivery_settles [OF this _ _ _ _ run] custody_payload [of "''document.scan_requested''" 5] run
  show ?thesis by (simp add: custody_env_def sample_env_def custody_message_def final_delivery_def)
qed

end
