(* ===== verification/Evidence_Custody.thy ===== *)
theory Evidence_Custody
  imports Worker Document_Pipeline
begin

text \<open>
  Who puts bytes into the evidence store: a state is the database with the two object stores, a step
  is one document command of a client, a change of the quarantine store by an upload, or one
  delivery of a scan or finalization request under whatever faults. In every reachable state each
  uploaded document is held by the evidence store under the document's own key, with the bytes its
  checksum was declared for.
\<close>

section \<open>Steps\<close>

text \<open>The commands that come from clients; verdicts and finalizations come from deliveries only.\<close>

fun client_command :: "document_command \<Rightarrow> bool" where
  "client_command (ScanDocumentCommand cmd) = False"
| "client_command (FinalizeDocumentCommand cmd) = False"
| "client_command _ = True"

inductive custody_step :: "uuid_codec \<Rightarrow> digest_codec \<Rightarrow> worker_world \<Rightarrow> worker_world \<Rightarrow> bool"
  for c dg where
  client: "client_command cmd \<Longrightarrow> env_uuid env = c \<Longrightarrow>
     custody_step c dg w (w\<lparr>ww_db := run_document_command env md cmd (ww_db w)\<rparr>)"
| upload: "custody_step c dg w (w\<lparr>ww_quarantine := q\<rparr>)"
| scan: "we_uuid env = c \<Longrightarrow> custody_step c dg w (snd (handle_scan_requested env m w))"
| finalization: "we_uuid env = c \<Longrightarrow> we_digest env = dg \<Longrightarrow>
     custody_step c dg w (snd (handle_finalization_requested env m w))"

section \<open>What the evidence store holds\<close>

definition held :: "uuid_codec \<Rightarrow> digest_codec \<Rightarrow> filesystem_store \<Rightarrow> document \<Rightarrow> bool" where
  "held c dg t d \<longleftrightarrow> (\<exists>k md cs.
     final_document_object_key c (doc_workspace_id d) (doc_identity d) (doc_filename d) = Inr k
   \<and> doc_object_key d = key_str k \<and> get_object c k t = Inr (md, cs)
   \<and> object_content_type md = doc_content_type d
   \<and> of_nat (length (stream_bytes cs)) = (of_int (doc_content_length d) :: u64)
   \<and> digest_hex dg (sha256 dg (stream_bytes cs)) = doc_checksum_sha256 d)"

definition custody_inv :: "uuid_codec \<Rightarrow> digest_codec \<Rightarrow> worker_world \<Rightarrow> bool" where
  "custody_inv c dg w \<longleftrightarrow> documents_valid (ww_db w)
     \<and> (\<forall>i ow d. document_get i ow (ww_db w) = Inr (Some d) \<longrightarrow> doc_upload_status d = Uploaded \<longrightarrow>
          held c dg (ww_evidence w) d)"

text \<open>What \<open>held\<close> looks at.\<close>

definition same_content :: "document \<Rightarrow> document \<Rightarrow> bool" where
  "same_content d e \<longleftrightarrow> doc_workspace_id d = doc_workspace_id e \<and> doc_identity d = doc_identity e
     \<and> doc_filename d = doc_filename e \<and> doc_object_key d = doc_object_key e
     \<and> doc_content_type d = doc_content_type e \<and> doc_content_length d = doc_content_length e
     \<and> doc_checksum_sha256 d = doc_checksum_sha256 e"

lemma held_cong: "same_content d e \<Longrightarrow> held c dg t d = held c dg t e"
  by (simp add: same_content_def held_def)

text \<open>A change of the documents that makes none uploaded.\<close>

definition harmless :: "db \<Rightarrow> db \<Rightarrow> bool" where
  "harmless s s' \<longleftrightarrow> db_documents s' = db_documents s
     \<or> (\<exists>d s1. document_save d s = Inr s1 \<and> db_documents s' = db_documents s1
          \<and> (doc_upload_status d = Uploaded \<longrightarrow> (\<exists>e. document_from_domain e \<in> set (db_documents s)
               \<and> doc_upload_status e = Uploaded \<and> same_content d e)))"

lemma harmless_refl [simp]: "harmless s s"
  by (simp add: harmless_def)

lemma harmless_saved:
  assumes "document_save d s = Inr s1" and "db_documents s' = db_documents s1"
    and "doc_upload_status d \<noteq> Uploaded
      \<or> document_from_domain e \<in> set (db_documents s) \<and> doc_upload_status e = Uploaded \<and> same_content d e"
  shows "harmless s s'"
  using assms unfolding harmless_def by blast

lemma row_of_document:
  assumes "document_row_ok s r"
  shows "\<exists>d. document_from_domain d = r"
proof -
  have "owner_type (OwnedBySubmission (EvidenceSubmissionId u)) = ''evidence_submission''"
    "owner_type (OwnedByPolicy (PolicyId u)) = ''policy''"
    "owner_uuid (OwnedBySubmission (EvidenceSubmissionId u)) = u" "owner_uuid (OwnedByPolicy (PolicyId u)) = u" for u
    by simp_all
  moreover have "rec_owner_type r = ''evidence_submission'' \<or> rec_owner_type r = ''policy''"
    using assms by (simp add: document_row_ok_def)
  ultimately obtain ow where ow: "owner_type ow = rec_owner_type r" "owner_uuid ow = rec_owner_id r" by metis
  from assms obtain st where "upload_status_from_str (rec_upload_status r) = Inr st"
    unfolding document_row_ok_def upload_status_from_str_def by fastforce
  then obtain d where "document_into_domain r (document_identity_for (DocumentId (rec_id r)) ow) = Inr d"
    by (simp add: document_into_domain_def)
  from loaded_document_row [OF this] ow show ?thesis by (auto simp: document_row_key_def)
qed

lemma document_get_of_row:
  assumes "documents_valid s" and "document_from_domain e \<in> set (db_documents s)"
  shows "document_get (document_id_of e) (document_owner_of e) s = Inr (Some e)"
proof -
  have "find (document_row_key (document_id_of e) (document_owner_of e)) (db_documents s)
      = Some (document_from_domain e)"
    using assms by (intro find_by_key [of rec_id])
      (auto simp: documents_valid_def wf_documents_def document_row_key_def document_from_domain_def)
  then show ?thesis
    by (simp add: document_get_def load_document_def document_reload document_id_of_def document_owner_of_def)
qed

lemma harmless_inv:
  assumes "harmless (ww_db w) (ww_db w')" and "documents_valid (ww_db w')" and "custody_inv c dg w"
    and "ww_evidence w' = ww_evidence w"
  shows "custody_inv c dg w'"
proof -
  have wf: "wf_documents (db_documents (ww_db w))" using assms(3) by (simp add: custody_inv_def documents_valid_def)
  have "held c dg (ww_evidence w) x"
    if get: "document_get i ow (ww_db w') = Inr (Some x)" and up: "doc_upload_status x = Uploaded" for i ow x
    using assms(1) unfolding harmless_def
  proof (elim disjE exE conjE)
    assume "db_documents (ww_db w') = db_documents (ww_db w)"
    with get up assms(3) show ?thesis by (auto simp: custody_inv_def document_get_def)
  next
    fix d s1
    assume save: "document_save d (ww_db w) = Inr s1" "db_documents (ww_db w') = db_documents s1"
      and old: "doc_upload_status d = Uploaded \<longrightarrow> (\<exists>e. document_from_domain e \<in> set (db_documents (ww_db w))
          \<and> doc_upload_status e = Uploaded \<and> same_content d e)"
    have get1: "document_get i ow s1 = Inr (Some x)" using get save(2) by (simp add: document_get_def)
    show ?thesis
    proof (cases "i = document_id_of d")
      case True
      with document_get_saved_id [OF save(1) wf, of ow x] get1 have "x = d" by simp
      with old up assms(3) held_cong document_get_of_row show ?thesis unfolding custody_inv_def by metis
    next
      case False
      with document_get_other_save [OF save(1) wf] get1 have "document_get i ow (ww_db w) = Inr (Some x)" by simp
      with up assms(3) show ?thesis by (auto simp: custody_inv_def)
    qed
  qed
  with assms(2,4) show ?thesis by (simp add: custody_inv_def)
qed

section \<open>Client commands and scans\<close>

lemma created_pending: "document_create i w u p t = Inr (d, tr) \<Longrightarrow> doc_upload_status d = PendingUpload"
  by (auto simp: document_create_def Let_def split: if_splits)

lemma harmless_created:
  assumes "document_create i w u p t = Inr (d, tr)" and "document_save d s1 = Inr s2"
    and "db_documents s1 = db_documents s" "db_workspaces s1 = db_workspaces s" "db_users s1 = db_users s"
    and "db_documents s' = db_documents s2"
  shows "harmless s s'"
proof -
  obtain s3 where "document_save d s = Inr s3" "db_documents s3 = db_documents s2"
    using assms(2-5) by (simp add: document_save_iff document_row_ok_def)
  with assms(6) created_pending [OF assms(1)] show ?thesis by (intro harmless_saved [of d s s3]) simp_all
qed

text \<open>A command that failed, or that stored a document in a status other than uploaded.\<close>

lemma handler_harmless:
  assumes "\<And>e t. handle s = (Inl e, t) \<Longrightarrow> t = s" and "\<And>r t. handle s = (Inr r, t) \<Longrightarrow> harmless s t"
  shows "harmless s (snd (handle s))"
  using assms by (cases "handle s"; cases "fst (handle s)") auto

lemma create_evidence_harmless: "harmless s (snd (handle_create_evidence_submission_document env cmd md s))"
proof (rule handler_harmless)
  show "t = s" if "handle_create_evidence_submission_document env cmd md s = (Inl e, t)" for e t
    using create_evidence.failed [OF that] .
  show "harmless s t" if "handle_create_evidence_submission_document env cmd md s = (Inr r, t)" for r t
    using handle_create_evidence_Ok [OF that]
  proof (elim conjE disjE exE)
    fix d tr s1 s2
    assume sub: "submission_save (submission_create (ces_submission_id cmd) (ces_evidence_id cmd)
        (evidence_submission_of (ces_connection cmd)) (ces_coverage cmd) (ces_received_at cmd)) s = Inr s1"
      and cr: "document_create (EvidenceDocument (ces_submission_id cmd) (ces_document_id cmd))
        (ctx_workspace_id (ces_connection cmd)) (ctx_user_id (ces_connection cmd)) (ces_document cmd)
        (ces_received_at cmd) = Inr (d, tr)"
      and save: "document_save d s1 = Inr s2"
      and t: "t = s2\<lparr>db_outbox := record_event env (pending_event d) md (db_outbox s)\<rparr>"
    show ?thesis
      by (rule harmless_created [OF cr save]) (use sub t in \<open>simp_all add: submission_save_Ok_iff\<close>)
  qed simp
qed

lemma create_policy_harmless: "harmless s (snd (handle_create_policy_document env cmd md s))"
proof (rule handler_harmless)
  show "t = s" if "handle_create_policy_document env cmd md s = (Inl e, t)" for e t
    using create_policy.failed [OF that] .
  show "harmless s t" if "handle_create_policy_document env cmd md s = (Inr r, t)" for r t
    using handle_create_policy_Ok [OF that] by (elim conjE disjE exE) (simp_all add: harmless_created)
qed

lemma complete_evidence_harmless: "harmless s (snd (handle_complete_agent_evidence_upload env cmd md s))"
proof (rule handler_harmless)
  show "t = s" if "handle_complete_agent_evidence_upload env cmd md s = (Inl e, t)" for e t
    using evidence_completion.failed [OF that] .
  show "harmless s t" if "handle_complete_agent_evidence_upload env cmd md s = (Inr r, t)" for r t
    using handle_complete_evidence_Ok [OF that]
  proof (elim conjE disjE exE)
    fix g d tr g' s1 s2
    assume sub: "submission_save (submission_create (aeg_submission_id g) (aeg_evidence_id g)
                (SubmittedByConnection (aeg_issued_via_agent_connection_id (cae_grant cmd))
                  (aeg_issued_by_user_id (cae_grant cmd))) (aeg_coverage g) (cae_completed_at cmd)) s = Inr s1"
      and cr: "document_create (EvidenceDocument (aeg_submission_id g) (cae_document_id cmd))
        (aeg_workspace_id (cae_grant cmd)) (aeg_issued_by_user_id (cae_grant cmd)) (cae_document cmd)
        (cae_completed_at cmd) = Inr (d, tr)"
      and save: "document_save d s1 = Inr s2"
      and grant: "evidence_grant_save g' (s2\<lparr>db_outbox := record_event env (pending_event d) md (db_outbox s)\<rparr>) = Inr t"
    have "db_documents t = db_documents s2" using grant by (auto simp: evidence_grant_save_Ok_iff)
    then show ?thesis
      by (rule harmless_created [OF cr save, rotated -1]) (use sub in \<open>simp_all add: submission_save_Ok_iff\<close>)
  qed simp_all
qed

lemma complete_policy_harmless: "harmless s (snd (handle_complete_agent_policy_upload env cmd md s))"
proof (rule handler_harmless)
  show "t = s" if "handle_complete_agent_policy_upload env cmd md s = (Inl e, t)" for e t
    using policy_completion.failed [OF that] .
  show "harmless s t" if "handle_complete_agent_policy_upload env cmd md s = (Inr r, t)" for r t
    using handle_complete_policy_Ok [OF that]
  proof (elim conjE disjE exE)
    fix g d tr g' s1
    assume cr: "document_create (PolicyDocument (apg_policy_id g) (cap_document_id cmd))
        (apg_workspace_id (cap_grant cmd)) (apg_issued_by_user_id (cap_grant cmd)) (cap_document cmd)
        (cap_completed_at cmd) = Inr (d, tr)"
      and save: "document_save d s = Inr s1"
      and grant: "policy_grant_save g' (s1\<lparr>db_outbox := record_event env (pending_event d) md (db_outbox s)\<rparr>) = Inr t"
    have "db_documents t = db_documents s1" using grant by (auto simp: policy_grant_save_Ok_iff)
    then show ?thesis by (rule harmless_created [OF cr save refl refl refl])
  qed simp_all
qed

lemma workspace_document_get_row:
  assumes "workspace_document_get w i ow s = Inr (Some d)"
  shows "document_from_domain d \<in> set (db_documents s)"
proof -
  from assms obtain r where "r \<in> set (db_documents s)" "document_row_key i ow r"
    "document_into_domain r (document_identity_for i ow) = Inr d"
    by (auto simp: workspace_document_get_def load_document_def map_transpose_Some_iff dest: find_SomeD)
  with loaded_document_row [of r i ow d] show ?thesis by simp
qed

lemma archive_harmless: "harmless s (snd (handle_archive_document cmd s))"
proof (rule handler_harmless)
  show "t = s" if "handle_archive_document cmd s = (Inl e, t)" for e t
    using archive.failed [OF that] .
  show "harmless s t" if "handle_archive_document cmd s = (Inr r, t)" for r t
    using handle_archive_Ok [OF that]
  proof (elim disjE exE conjE)
    fix d
    assume "workspace_document_get (ctx_workspace_id (arc_connection cmd))
        (identity_document_id (arc_identity cmd)) (identity_owner (arc_identity cmd)) s = Inr (Some d)"
      and "document_save (d\<lparr>doc_archived := True\<rparr>) s = Inr t"
    then show ?thesis
      using workspace_document_get_row
      by (cases "doc_upload_status d = Uploaded") (auto intro!: harmless_saved [where e = d] simp: same_content_def)
  qed simp
qed

lemma client_harmless: "client_command cmd \<Longrightarrow> harmless s (run_document_command env md cmd s)"
  by (cases cmd) (simp_all add: create_evidence_harmless create_policy_harmless complete_evidence_harmless
      complete_policy_harmless archive_harmless)

lemma scan_document_harmless: "harmless s (snd (handle_scan_document env cmd md s))"
proof (rule handler_harmless)
  show "t = s" if "handle_scan_document env cmd md s = (Inl e, t)" for e t
    using scan.failed [OF that] .
  show "harmless s t" if "handle_scan_document env cmd md s = (Inr r, t)" for r t
    using handle_scan_Ok [OF that]
  proof (elim disjE exE conjE)
    fix d :: document and s1
    let ?d = "d\<lparr>doc_upload_status := verdict_status (scan_result cmd)\<rparr>"
    assume "document_save ?d s = Inr s1"
      and "t = s1\<lparr>db_outbox := record_event env (pending_event ?d) md (db_outbox s)\<rparr>"
    moreover have "doc_upload_status ?d \<noteq> Uploaded"
      by (cases "scan_result cmd") (simp_all add: verdict_status_def)
    ultimately show ?thesis
      by (intro harmless_saved [of ?d]) simp_all
  qed simp
qed

lemma settle_effect:
  "ww_evidence (snd (settle env work v m w)) = ww_evidence w
   \<and> ww_quarantine (snd (settle env work v m w)) = ww_quarantine w
   \<and> (ww_db (snd (settle env work v m w)) = ww_db w
      \<or> (\<exists>cmd. ww_db (snd (settle env work v m w)) = snd (handle_scan_document (we_command env) cmd
           (worker_metadata (we_uuid env) m) (ww_db w))))"
  by (auto simp: settle_def apply_result_def committing_def emit_worker_document_audit_def Let_def
      split: prod.splits sum.splits option.splits) (metis snd_conv)+

lemma scan_delivery_effect:
  "ww_evidence (snd (handle_scan_requested env m w)) = ww_evidence w
   \<and> (ww_db (snd (handle_scan_requested env m w)) = ww_db w
      \<or> (\<exists>cmd. ww_db (snd (handle_scan_requested env m w)) = snd (handle_scan_document (we_command env) cmd
           (worker_metadata (we_uuid env) m) (ww_db w))))"
proof -
  obtain r w' where "handle_scan_requested env m w = (r, w')" by fastforce
  then show ?thesis
  proof (cases rule: scan_delivery_cases [where p = undefined])
    case unchanged
    with \<open>handle_scan_requested env m w = (r, w')\<close> show ?thesis by simp
  next
    case (verdict q work v)
    with settle_effect [of env work v m w] \<open>handle_scan_requested env m w = (r, w')\<close> show ?thesis by simp
  qed
qed

section \<open>Finalizations\<close>

lemma store_delete_other: "k' \<noteq> k \<Longrightarrow> get_object c k' (store_delete env k t) = get_object c k' t"
  using filesystem.del_other by (simp add: store_delete_def)

lemma promote_other:
  assumes "promote env source destination q t = (r, t')" and "k \<noteq> destination"
  shows "get_object c k t' = get_object c k t"
proof -
  have put: "get_object c k (snd (put_object dg io destination ct cs t)) = get_object c k t" for dg io ct cs
    using put_object_other [OF assms(2)] .
  from assms(1) show ?thesis
    unfolding promote_def stream_copy_object_def
    using put store_delete_other [OF assms(2)]
    by (auto split: if_splits sum.splits prod.splits) (metis snd_conv)+
qed

lemma promote_Ok:
  assumes "promote env source destination q t = (Inr md, t')" and "parsed_key (we_uuid env) destination"
  obtains md0 chunks cs where "quarantine_get env source q = Inr (md0, chunks)" "list_all is_ok chunks"
    "get_object (we_uuid env) destination t' = Inr (md, cs)" "stream_bytes cs = stream_bytes chunks"
    "object_sha256 md = digest_hex (we_digest env) (sha256 (we_digest env) (stream_bytes cs))"
    "object_content_length md = of_nat (length (stream_bytes cs))"
proof -
  from assms(1) obtain md0 chunks where src: "quarantine_get env source q = Inr (md0, chunks)"
    and put: "put_object (we_digest env) (we_put_faults env) destination (object_content_type md0) chunks t
      = (Inr md, t')"
    by (auto simp: promote_def stream_copy_object_def split: if_splits sum.splits prod.splits)
  from filesystem.put_get [OF put assms(2)] obtain cs where
    cs: "get_object (we_uuid env) destination t' = Inr (md, cs)" "stream_bytes cs = stream_bytes chunks" by blast
  from put_object_Ok [OF put] have "list_all is_ok chunks"
    "object_sha256 md = digest_hex (we_digest env) (sha256 (we_digest env) (stream_bytes chunks))"
    "object_content_length md = of_nat (length (stream_bytes chunks))" by auto
  with src cs that show thesis by simp
qed

lemma finalization_delivery_cases:
  assumes "handle_finalization_requested env m w = (r, w')"
  obtains (same) "w' = w"
  | (failed) q :: requested_payload and work k where "load_upload_work (requested_identity q) (key_str (requested_key q)) Finalizing (ww_db w)
        = Inr (Some work)"
      "final_document_object_key (we_uuid env) (work_workspace_id work) (work_identity work) (work_filename work) = Inr k"
      "ww_db w' = ww_db w" "\<And>k'. k' \<noteq> k \<Longrightarrow> get_object (we_uuid env) k' (ww_evidence w') = get_object (we_uuid env) k' (ww_evidence w)"
  | (promoted) q work k copied out where "finalization_requested_payload (we_uuid env) m = Some q"
      "load_upload_work (requested_identity q) (key_str (requested_key q)) Finalizing (ww_db w) = Inr (Some work)"
      "final_document_object_key (we_uuid env) (work_workspace_id work) (work_identity work) (work_filename work) = Inr k"
      "promote env (requested_key q) k (ww_quarantine w) (ww_evidence w) = (Inr copied, ww_evidence w')"
      "object_matches copied work"
      "handle_finalize_document \<lparr>fin_identity = work_identity work, fin_quarantine_object_key = work_object_key work,
         fin_final_object_key = key_str k\<rparr> (ww_db w) = (Inr out, ww_db w')"
proof (cases "finalization_requested_payload (we_uuid env) m")
  case None
  with assms same show thesis by (simp add: handle_finalization_requested_def)
next
  case q: (Some q)
  note step = assms [unfolded handle_finalization_requested_def q option.case]
  show thesis
  proof (cases "worker_load env (requested_identity q) (key_str (requested_key q)) Finalizing (ww_db w)")
    case (Inl e)
    with step same show thesis by simp
  next
    case load: (Inr found)
    show thesis
    proof (cases found)
      case None
      with step load same show thesis by simp
    next
      case (Some work)
      have loaded: "load_upload_work (requested_identity q) (key_str (requested_key q)) Finalizing (ww_db w)
          = Inr (Some work)"
        using load Some by (simp add: worker_load_def split: option.splits)
      show thesis
      proof (cases "final_document_object_key (we_uuid env) (work_workspace_id work) (work_identity work) (work_filename work)")
        case (Inl e)
        with step load Some same show thesis by simp
      next
        case key: (Inr k)
        obtain pr t where pr: "promote env (requested_key q) k (ww_quarantine w) (ww_evidence w) = (pr, t)" by fastforce
        have other: "get_object (we_uuid env) k' t = get_object (we_uuid env) k' (ww_evidence w)" if "k' \<noteq> k" for k'
          using promote_other [OF pr that] .
        show thesis
        proof (cases pr)
          case (Inl e)
          with step load Some key pr other show thesis by (intro failed [OF loaded key]) auto
        next
          case copied: (Inr md)
          show thesis
          proof (cases "object_metadata_key md \<noteq> k \<or> \<not> object_matches md work")
            case True
            with step load Some key pr other copied store_delete_other [of _ k _ env] show thesis
              by (intro failed [OF loaded key]) auto
          next
            case False
            let ?cmd = "\<lparr>fin_identity = work_identity work, fin_quarantine_object_key = work_object_key work,
               fin_final_object_key = key_str k\<rparr>"
            obtain out s where run: "committing env (handle_finalize_document ?cmd) (ww_db w) = (out, s)" by fastforce
            have ev: "ww_evidence w' = t" and db: "ww_db w' = s"
              using step load Some key pr copied False run
              by (auto simp: Let_def emit_worker_finalization_audit_def split: sum.splits if_splits)
            show thesis
            proof (cases out)
              case (Inl e)
              then have "s = ww_db w"
                using run finalize.failed [of ?cmd] by (auto simp: committing_def split: option.splits)
              with ev db other show thesis by (intro failed [OF loaded key]) auto
            next
              case (Inr x)
              then have "handle_finalize_document ?cmd (ww_db w) = (Inr x, s)"
                using run by (auto simp: committing_def split: option.splits)
              with ev db pr copied False show thesis by (intro promoted [OF q loaded key]) auto
            qed
          qed
        qed
      qed
    qed
  qed
qed

lemma custody_other:
  assumes "custody_inv c dg w" and "uuid_codec_ok c"
    and load: "load_upload_work i key Finalizing (ww_db w) = Inr (Some work)"
    and k: "final_document_object_key c (work_workspace_id work) (work_identity work) (work_filename work) = Inr k"
    and others: "\<And>k'. k' \<noteq> k \<Longrightarrow> get_object c k' t = get_object c k' (ww_evidence w)"
    and x: "document_get j ow (ww_db w) = Inr (Some x)" "doc_upload_status x = Uploaded"
  shows "held c dg t x"
proof -
  from assms(1) have "documents_valid (ww_db w)" by (simp add: custody_inv_def)
  with load obtain d where d: "document_get (identity_document_id i) (identity_owner i) (ww_db w) = Inr (Some d)"
    "doc_upload_status d = Finalizing" "work = work_of d"
    by (rule load_upload_work_row) metis
  from assms(1) x have "held c dg (ww_evidence w) x" by (auto simp: custody_inv_def)
  then obtain kx md cs where kx: "final_document_object_key c (doc_workspace_id x) (doc_identity x) (doc_filename x) = Inr kx"
    and get: "get_object c kx (ww_evidence w) = Inr (md, cs)"
    and rest: "doc_object_key x = key_str kx" "object_content_type md = doc_content_type x"
      "of_nat (length (stream_bytes cs)) = (of_int (doc_content_length x) :: u64)"
      "digest_hex dg (sha256 dg (stream_bytes cs)) = doc_checksum_sha256 x"
    unfolding held_def by blast
  have "kx \<noteq> k"
  proof
    assume "kx = k"
    with final_key_inj [OF assms(2) kx] k d(3) have "doc_identity x = doc_identity d" by (simp add: work_of_def)
    with document_get_identity [OF x(1)] document_get_identity [OF d(1)] x d(1,2)
    have "x = d" by (auto simp: document_id_of_def document_owner_of_def)
    with x(2) d(2) show False by simp
  qed
  with others get have "get_object c kx t = Inr (md, cs)" by simp
  with kx rest show ?thesis unfolding held_def by blast
qed

lemma finalization_inv:
  assumes inv: "custody_inv c dg w" and c: "uuid_codec_ok c" "we_uuid env = c" "we_digest env = dg"
  shows "custody_inv c dg (snd (handle_finalization_requested env m w))"
proof -
  have valid: "documents_valid (ww_db w)" using inv by (simp add: custody_inv_def)
  obtain r w' where run: "handle_finalization_requested env m w = (r, w')" by fastforce
  then have "custody_inv c dg w'"
  proof (cases rule: finalization_delivery_cases)
    case same
    with inv show ?thesis by simp
  next
    case (failed q work k)
    then show ?thesis
      using custody_other [OF inv c(1) failed(1)] inv c(2) by (simp add: custody_inv_def)
  next
    case (promoted q work k copied out)
    note p = promoted [unfolded c(2)]
    have others: "get_object c k' (ww_evidence w') = get_object c k' (ww_evidence w)" if "k' \<noteq> k" for k'
      using promote_other [OF p(4) that] .
    note old = custody_other [OF inv c(1) p(2,3) others]
    have parsed: "parsed_key c k"
      using object_key_new_parses [OF c(1)] p(3) by (simp add: parsed_key_def final_document_object_key_def)
    from promote_Ok [OF p(4)] parsed c(2,3) obtain cs where
      got: "get_object c k (ww_evidence w') = Inr (copied, cs)"
        "object_sha256 copied = digest_hex dg (sha256 dg (stream_bytes cs))"
        "object_content_length copied = of_nat (length (stream_bytes cs))" by metis
    from handle_finalize_Ok [OF p(6), simplified] show ?thesis
    proof (elim disjE exE conjE)
      assume "ww_db w' = ww_db w"
      with old inv show ?thesis by (simp add: custody_inv_def)
    next
      fix d :: document
      let ?d = "d\<lparr>doc_object_key := key_str k, doc_upload_status := Uploaded\<rparr>"
      assume d: "document_get (identity_document_id (work_identity work)) (identity_owner (work_identity work)) (ww_db w)
           = Inr (Some d)" and save: "document_save ?d (ww_db w) = Inr (ww_db w')"
      from p(2) valid obtain e where e: "document_get (identity_document_id (requested_identity q))
          (identity_owner (requested_identity q)) (ww_db w) = Inr (Some e)" "work = work_of e"
        by (rule load_upload_work_row) metis
      have "d = e" using d e document_get_identity [OF e(1)] by (simp add: work_of_def)
      then have "held c dg (ww_evidence w') ?d"
        using got p(3,5) e(2) by (auto simp: held_def object_matches_def work_of_def)
      moreover have "documents_valid (ww_db w')" using document_save_valid [OF save valid] .
      moreover have wf: "wf_documents (db_documents (ww_db w))" using valid by (simp add: documents_valid_def)
      have "x = ?d \<or> document_get j ow (ww_db w) = Inr (Some x)"
        if "document_get j ow (ww_db w') = Inr (Some x)" for j ow x
        using document_get_saved_id [OF save wf] document_get_other_save [OF save wf, of j ow] that
        by (cases "j = document_id_of ?d") auto
      ultimately show ?thesis using old unfolding custody_inv_def by blast
    qed
  qed
  with run show ?thesis by simp
qed

lemma custody_step_inv:
  assumes "uuid_codec_ok c" and "custody_step c dg w w'" and "custody_inv c dg w"
  shows "custody_inv c dg w'"
  using assms(2,3)
proof cases
  case (client cmd env md)
  have "documents_valid (run_document_command env md cmd (ww_db w))"
    using documents_step_valid [OF run_document_command_step] assms(3) by (simp add: custody_inv_def)
  with client show ?thesis
    using harmless_inv [OF _ _ assms(3), of w'] client_harmless by simp
next
  case (upload q)
  with assms(3) show ?thesis by (simp add: custody_inv_def)
next
  case (scan env m)
  have "documents_valid (snd (handle_scan_document (we_command env) cmd md (ww_db w)))" for cmd md
    using scan.keeps_valid assms(3) by (simp add: custody_inv_def)
  then have "documents_valid (ww_db w') \<and> harmless (ww_db w) (ww_db w')"
    using scan(1) scan_delivery_effect [of env m w] assms(3) scan_document_harmless
    by (metis custody_inv_def harmless_refl)
  with scan(1) scan_delivery_effect [of env m w] show ?thesis
    using harmless_inv [OF _ _ assms(3), of w'] by simp
next
  case (finalization env m)
  with finalization_inv [OF assms(3,1)] show ?thesis by simp
qed

section \<open>Properties\<close>

text \<open>
  C2: No document is uploaded without its bytes. From any state without uploaded documents, whatever
  sequence of client commands, uploads into quarantine, scan deliveries and finalization deliveries
  runs, with whatever faults of the stores, the scanner and the database in each, every document
  whose status is uploaded names its own final object key, and the evidence store holds under that
  key an object with the length and the checksum the document declares.
\<close>

theorem uploaded_documents_held:
  assumes "uuid_codec_ok c" and "rtranclp (custody_step c dg) w0 w" and "documents_valid (ww_db w0)"
    and "\<forall>i ow d. document_get i ow (ww_db w0) = Inr (Some d) \<longrightarrow> doc_upload_status d \<noteq> Uploaded"
    and "document_get i ow (ww_db w) = Inr (Some d)" and "doc_upload_status d = Uploaded"
  shows "\<exists>k b. final_document_object_key c (doc_workspace_id d) (doc_identity d) (doc_filename d) = Inr k
    \<and> doc_object_key d = key_str k \<and> stored_objects (ww_evidence w) k = Some b
    \<and> of_nat (length b) = (of_int (doc_content_length d) :: u64)
    \<and> digest_hex dg (sha256 dg b) = doc_checksum_sha256 d"
proof -
  have "custody_inv c dg w0" using assms(3,4) by (auto simp: custody_inv_def)
  with assms(2) have "custody_inv c dg w"
    by (induction rule: rtranclp_induct) (auto intro: custody_step_inv [OF assms(1)])
  with assms(5,6) have "held c dg (ww_evidence w) d" by (auto simp: custody_inv_def)
  then show ?thesis
    using object_chunks_content
    by (auto simp: held_def get_object_def and_then_Ok_iff split: option.splits)
qed

section \<open>An undisturbed upload\<close>

definition undisturbed :: "worker_env \<Rightarrow> bool" where
  "undisturbed env \<longleftrightarrow> we_reads_fault env = None \<and> we_commit_fault env = None \<and> we_get_fault env = None
     \<and> we_stream_fault env = None \<and> we_put_faults env = no_faults \<and> \<not> we_delete_fails env"

lemma put_object_no_faults:
  assumes "length b < 2 ^ 64"
  shows "put_object dg no_faults k ct (object_chunks b) t =
    (let md = \<lparr>object_metadata_key = k, object_content_type = ct, object_content_length = of_nat (length b),
               object_sha256 = digest_hex dg (sha256 dg b)\<rparr>
     in (Inr md, t\<lparr>stored_objects := (stored_objects t)(k \<mapsto> b), stored_metadata := (stored_metadata t)(k \<mapsto> Some md)\<rparr>))"
  using assms object_chunks_content [of b] write_object_stream_total [of "object_chunks b" "[]"]
  by (simp add: put_object_def no_faults_def Let_def)

lemma handle_finalize_applied:
  assumes "document_get (identity_document_id (fin_identity cmd)) (identity_owner (fin_identity cmd)) s = Inr (Some d)"
    and "doc_object_key d = fin_quarantine_object_key cmd" "doc_upload_status d = Finalizing" "\<not> doc_archived d"
    and "document_save (d\<lparr>doc_object_key := fin_final_object_key cmd, doc_upload_status := Uploaded\<rparr>) s = Inr s'"
  shows "handle_finalize_document cmd s = (Inr CommandApplied, s')"
  unfolding handle_finalize_document_def
  by (rule run_command_Ok) (simp add: assms tx_bind_def finalize_uploaded_def Let_def tx_write_Ok)

text \<open>An object in quarantine that is what its document declares.\<close>

definition staged :: "uuid_codec \<Rightarrow> digest_codec \<Rightarrow> worker_world \<Rightarrow> document \<Rightarrow> object_key \<Rightarrow> bytes \<Rightarrow> bool" where
  "staged c dg w d key b \<longleftrightarrow> doc_object_key d = key_str key \<and> parsed_key c key
     \<and> stored_objects (ww_quarantine w) key = Some b
     \<and> stored_metadata (ww_quarantine w) key
         = Some (Some \<lparr>object_metadata_key = key, object_content_type = doc_content_type d,
             object_content_length = of_int (doc_content_length d), object_sha256 = doc_checksum_sha256 d\<rparr>)
     \<and> int (length b) = doc_content_length d \<and> length b < 2 ^ 64
     \<and> doc_checksum_sha256 d = digest_hex dg (sha256 dg b)"

lemma staged_get:
  assumes "staged c dg w d key b" and "undisturbed env" and "we_uuid env = c"
  shows "quarantine_get env key (ww_quarantine w)
    = Inr (\<lparr>object_metadata_key = key, object_content_type = doc_content_type d,
             object_content_length = of_int (doc_content_length d), object_sha256 = doc_checksum_sha256 d\<rparr>,
        object_chunks b)"
  using assms
  by (simp add: staged_def undisturbed_def quarantine_get_def get_object_def head_object_def parsed_key_def)

lemma clean_scan_runs:
  assumes "undisturbed env" and "we_uuid env = c" and valid: "documents_valid (ww_db w)"
    and d: "document_get (identity_document_id i) (identity_owner i) (ww_db w) = Inr (Some d)"
    and due: "doc_upload_status d = PendingUpload" "\<not> doc_archived d" "owner_active d (ww_db w)"
    and staged: "staged c dg w d key b"
    and scan: "clamav_scan (we_scanner env) (we_connect env) (scan_stream (object_chunks b)) = Inr result"
      "scan_outcome result = ScanClean"
    and payload: "scan_requested_payload c m = Inr \<lparr>requested_identity = i, requested_key = key\<rparr>"
  obtains w' where "handle_scan_requested env m w = (Inr (), w')" "documents_valid (ww_db w')"
    "document_get (identity_document_id i) (identity_owner i) (ww_db w') = Inr (Some (d\<lparr>doc_upload_status := Finalizing\<rparr>))"
    "\<And>j ow. j \<noteq> identity_document_id i \<Longrightarrow> document_get j ow (ww_db w') = document_get j ow (ww_db w)"
    "ww_quarantine w' = ww_quarantine w" "ww_evidence w' = ww_evidence w"
    "db_policies (ww_db w') = db_policies (ww_db w)"
proof -
  have load: "load_upload_work i (key_str key) PendingUpload (ww_db w) = Inr (Some (work_of d))"
    using load_upload_work_document [OF valid d due(2,3)] due(1) staged by (simp add: staged_def)
  have "we_commit_fault env = None" using assms(1) by (simp add: undisturbed_def)
  from settle_due [OF valid this load, of VerdictClean m]
  obtain w' d0 where w': "settle env (work_of d) VerdictClean m w = (Inr (), w')"
    and d0: "document_get (identity_document_id i) (identity_owner i) (ww_db w) = Inr (Some d0)"
    and facts: "document_get (identity_document_id i) (identity_owner i) (ww_db w')
        = Inr (Some (d0\<lparr>doc_upload_status := verdict_status VerdictClean\<rparr>))"
      "\<And>j ow. j \<noteq> identity_document_id i \<Longrightarrow> document_get j ow (ww_db w') = document_get j ow (ww_db w)"
      "documents_valid (ww_db w')" "ww_quarantine w' = ww_quarantine w" "ww_evidence w' = ww_evidence w"
      "db_policies (ww_db w') = db_policies (ww_db w)" by metis
  have "object_matches \<lparr>object_metadata_key = key, object_content_type = doc_content_type d,
             object_content_length = of_int (doc_content_length d), object_sha256 = doc_checksum_sha256 d\<rparr> (work_of d)"
    by (simp add: object_matches_def work_of_def)
  moreover have "0 \<le> work_content_length (work_of d)" using staged by (simp add: staged_def work_of_def)
  moreover have "work_object_key (work_of d) = key_str key" using staged by (simp add: staged_def work_of_def)
  moreover have "object_key_parse c (key_str key) = Inr key" using staged by (simp add: staged_def parsed_key_def)
  ultimately have "handle_scan_requested env m w = (Inr (), w')"
    using staged_get [OF staged assms(1,2)] scan payload load w' assms(1,2)
    by (simp add: handle_scan_requested_def worker_load_def undisturbed_def apply_scan_result_def)
  with that facts d d0 show thesis by (simp add: verdict_status_def)
qed

lemma promote_staged:
  assumes "staged c dg w d key b" and "undisturbed env" and "we_uuid env = c" and "we_digest env = dg"
    and "has_same_workspace key k"
  shows "\<exists>t. promote env key k (ww_quarantine w) (ww_evidence w)
      = (Inr \<lparr>object_metadata_key = k, object_content_type = doc_content_type d,
             object_content_length = of_int (doc_content_length d), object_sha256 = doc_checksum_sha256 d\<rparr>, t)
    \<and> stored_objects t k = Some b"
proof -
  have "of_nat (length b) = (of_int (doc_content_length d) :: u64)" "doc_checksum_sha256 d = digest_hex dg (sha256 dg b)"
    "length b < 2 ^ 64"
    using assms(1) by (auto simp: staged_def) (metis of_int_of_nat_eq)
  with staged_get [OF assms(1-3)] assms(2,4,5) show ?thesis
    by (simp add: promote_def stream_copy_object_def put_object_no_faults undisturbed_def Let_def)
qed

lemma finalization_runs:
  assumes env: "undisturbed env" "we_uuid env = c" "we_digest env = dg" and valid: "documents_valid (ww_db w)"
    and d: "document_get (identity_document_id i) (identity_owner i) (ww_db w) = Inr (Some d)"
    and due: "doc_upload_status d = Finalizing" "\<not> doc_archived d" "owner_active d (ww_db w)"
    and staged: "staged c dg w d key b"
    and k: "final_document_object_key c (doc_workspace_id d) i (doc_filename d) = Inr k" "has_same_workspace key k"
      "\<forall>j ow x. document_get j ow (ww_db w) = Inr (Some x) \<longrightarrow> j \<noteq> identity_document_id i \<longrightarrow> doc_object_key x \<noteq> key_str k"
    and payload: "finalization_requested_payload c m = Some \<lparr>requested_identity = i, requested_key = key\<rparr>"
  obtains w' where "handle_finalization_requested env m w = (Inr (), w')"
    "document_get (identity_document_id i) (identity_owner i) (ww_db w')
       = Inr (Some (d\<lparr>doc_object_key := key_str k, doc_upload_status := Uploaded\<rparr>))"
    "stored_objects (ww_evidence w') k = Some b" "stored_objects (ww_quarantine w') key = None"
proof -
  let ?d = "d\<lparr>doc_object_key := key_str k, doc_upload_status := Uploaded\<rparr>"
  have ident: "doc_identity d = i" "document_id_of d = identity_document_id i" "document_owner_of d = identity_owner i"
    using document_get_identity [OF d] by auto
  have load: "load_upload_work i (key_str key) Finalizing (ww_db w) = Inr (Some (work_of d))"
    using load_upload_work_document [OF valid d due(2,3)] due(1) staged by (simp add: staged_def)
  obtain t where t: "promote env key k (ww_quarantine w) (ww_evidence w)
      = (Inr \<lparr>object_metadata_key = k, object_content_type = doc_content_type d,
             object_content_length = of_int (doc_content_length d), object_sha256 = doc_checksum_sha256 d\<rparr>, t)"
    "stored_objects t k = Some b"
    using promote_staged [OF staged env k(2)] by blast
  have unused: "document_record.rec_object_key x \<noteq> doc_object_key ?d"
    if x: "x \<in> set (db_documents (ww_db w))" "rec_id x \<noteq> document_id_uuid (document_id_of d)" for x
  proof -
    from valid x(1) have "document_row_ok (ww_db w) x" by (simp add: documents_valid_def)
    then obtain e where e: "document_from_domain e = x" using row_of_document by blast
    with document_get_of_row [OF valid] x(1) have "document_get (document_id_of e) (document_owner_of e) (ww_db w) = Inr (Some e)"
      by simp
    moreover have "document_id_of e \<noteq> identity_document_id i"
      using e x(2) ident(2) by (auto simp: document_from_domain_def)
    ultimately show ?thesis using k(3) e by (auto simp: document_from_domain_def)
  qed
  obtain s where save: "document_save ?d (ww_db w) = Inr s"
    using document_resave [OF valid d, of ?d] unused by simp
  have "handle_finalize_document \<lparr>fin_identity = i, fin_quarantine_object_key = key_str key,
      fin_final_object_key = key_str k\<rparr> (ww_db w) = (Inr CommandApplied, s)"
    using d due staged save by (intro handle_finalize_applied) (simp_all add: staged_def)
  then have run: "handle_finalization_requested env m w = (Inr (),
      (emit_worker_finalization_audit (work_of d) (wm_request_id m) (w\<lparr>ww_evidence := t, ww_db := s\<rparr>))
        \<lparr>ww_quarantine := store_delete env key (ww_quarantine w)\<rparr>)"
    using payload load t(1) k(1) env staged ident(1)
    by (simp add: handle_finalization_requested_def worker_load_def undisturbed_def committing_def object_matches_def
        work_of_def staged_def Let_def)
  have "document_get (identity_document_id i) (identity_owner i) s = Inr (Some ?d)"
    using document_get_after_save [OF save] valid ident
    by (simp add: documents_valid_def document_id_of_def document_owner_of_def)
  with t(2) env(1) show thesis
    by (intro that [OF run]) (simp_all add: emit_worker_finalization_audit_def store_delete_def delete_object_def undisturbed_def)
qed

text \<open>
  C4: A clean upload gets through. A document that waits for its scan, whose object is in quarantine as
  declared, is uploaded by the delivery of its scan request and then of its finalization request,
  when the scanner finds it clean and nothing fails meanwhile: both deliveries are acknowledged, the
  document is uploaded under its final key, the evidence store holds exactly the uploaded bytes
  there, and the quarantined object is gone.
\<close>

theorem clean_upload_completes:
  assumes "uuid_codec_ok c" and env1: "undisturbed env1" "we_uuid env1 = c"
    and env2: "undisturbed env2" "we_uuid env2 = c" "we_digest env2 = dg"
    and "documents_valid (ww_db w)"
    and "document_get (identity_document_id i) (identity_owner i) (ww_db w) = Inr (Some d)"
    and "doc_upload_status d = PendingUpload" "\<not> doc_archived d" "owner_active d (ww_db w)"
    and "staged c dg w d key b"
    and "clamav_scan (we_scanner env1) (we_connect env1) (scan_stream (object_chunks b)) = Inr result"
      "scan_outcome result = ScanClean"
    and "scan_requested_payload c m1 = Inr \<lparr>requested_identity = i, requested_key = key\<rparr>"
    and "finalization_requested_payload c m2 = Some \<lparr>requested_identity = i, requested_key = key\<rparr>"
    and "final_document_object_key c (doc_workspace_id d) i (doc_filename d) = Inr k" "has_same_workspace key k"
    and "\<forall>j ow x. document_get j ow (ww_db w) = Inr (Some x) \<longrightarrow> j \<noteq> identity_document_id i \<longrightarrow> doc_object_key x \<noteq> key_str k"
  shows "\<exists>w1 w2. handle_scan_requested env1 m1 w = (Inr (), w1)
    \<and> handle_finalization_requested env2 m2 w1 = (Inr (), w2)
    \<and> document_get (identity_document_id i) (identity_owner i) (ww_db w2)
        = Inr (Some (d\<lparr>doc_object_key := key_str k, doc_upload_status := Uploaded\<rparr>))
    \<and> stored_objects (ww_evidence w2) k = Some b \<and> stored_objects (ww_quarantine w2) key = None"
proof -
  let ?d = "d\<lparr>doc_upload_status := Finalizing\<rparr>"
  from clean_scan_runs [OF env1 assms(7-15)] obtain w1 where
    w1: "handle_scan_requested env1 m1 w = (Inr (), w1)" "documents_valid (ww_db w1)"
      "document_get (identity_document_id i) (identity_owner i) (ww_db w1) = Inr (Some ?d)"
      "\<And>j ow. j \<noteq> identity_document_id i \<Longrightarrow> document_get j ow (ww_db w1) = document_get j ow (ww_db w)"
      "ww_quarantine w1 = ww_quarantine w" "db_policies (ww_db w1) = db_policies (ww_db w)" by metis
  have due: "doc_upload_status ?d = Finalizing" "\<not> doc_archived ?d" "owner_active ?d (ww_db w1)"
    using assms(10,11) w1(6) by (simp_all add: owner_active_def document_owner_of_def)
  have staged: "staged c dg w1 ?d key b" using assms(12) w1(5) by (simp add: staged_def)
  have key: "final_document_object_key c (doc_workspace_id ?d) i (doc_filename ?d) = Inr k" using assms(17) by simp
  have "\<forall>j ow x. document_get j ow (ww_db w1) = Inr (Some x) \<longrightarrow> j \<noteq> identity_document_id i \<longrightarrow>
      doc_object_key x \<noteq> key_str k"
    using assms(19) w1(4) by metis
  from finalization_runs [OF env2 w1(2,3) due staged key assms(18) this assms(16)]
  obtain w2 where "handle_finalization_requested env2 m2 w1 = (Inr (), w2)"
    "document_get (identity_document_id i) (identity_owner i) (ww_db w2)
        = Inr (Some (?d\<lparr>doc_object_key := key_str k, doc_upload_status := Uploaded\<rparr>))"
    "stored_objects (ww_evidence w2) k = Some b" "stored_objects (ww_quarantine w2) key = None" by metis
  with w1(1) show ?thesis by simp
qed

section \<open>A sample upload\<close>

lemma sample_scan_clean:
  "\<exists>result. clamav_scan sample_scanner (Connected sample_stream False) [Inr [1, 2]] = Inr result
     \<and> scan_outcome result = ScanClean"
proof -
  obtain r c' where run: "scan_chunks [Inr [1, 2]] sample_stream = (r, c')" by fastforce
  have "read_response [] (tcp_incoming sample_stream) = Inr (bytes_of_text ''stream: OK'' @ [0])"
    by (simp add: sample_stream_def read_response.simps max_response_bytes_def bytes_of_text_def Let_def)
  then have "r = Inr (bytes_of_text ''stream: OK'' @ [0])"
    using scan_chunks_sent(3) [OF run] by (simp add: sample_stream_def)
  moreover have "parse_response (bytes_of_text ''stream: OK'' @ [0])
      = Inr \<lparr>scanner_name = ''clamav'', scanner_version = None, scan_outcome = ScanClean\<rparr>" by code_simp
  ultimately show ?thesis using run by (simp add: clamav_scan_def)
qed

lemma custody_get: "document_get j ow custody_db = Inr (Some x) \<longleftrightarrow>
    j = DocumentId 2 \<and> ow = OwnedByPolicy (PolicyId 1) \<and> x = custody_document"
proof -
  have row: "document_row_key j ow (document_from_domain custody_document) \<longleftrightarrow> j = DocumentId 2 \<and> ow = OwnedByPolicy (PolicyId 1)"
    by (auto simp: document_id_of_def document_owner_of_def custody_document_def sample_document_def)
  have "document_into_domain (document_from_domain custody_document) (PolicyDocument (PolicyId 1) (DocumentId 2))
      = Inr custody_document"
    using document_reload [of custody_document] by (simp add: custody_document_def sample_document_def)
  with row show ?thesis
    by (auto simp: document_get_def custody_db_def load_document_def document_identity_for_def)
qed

lemma custody_key:
  obtains k where "final_document_object_key simple_uuid_codec (WorkspaceId 9) (PolicyDocument (PolicyId 1) (DocumentId 2))
      ''manual.txt'' = Inr k" "has_same_workspace (ObjectKey sample_object_key) k"
proof -
  have "validate_document_filename ''manual.txt'' = Valid ''manual.txt''" by code_simp
  from final_key_exists [OF simple_uuid_codec_ok this] obtain k where
    k: "final_document_object_key simple_uuid_codec (WorkspaceId 9) (PolicyDocument (PolicyId 1) (DocumentId 2))
      ''manual.txt'' = Inr k" by blast
  have "validated_path ''policies'' = Inr [''policies'']" "validated_path ''manual.txt'' = Inr [''manual.txt'']"
    by code_simp+
  then have "object_key_new simple_uuid_codec (WorkspaceId 9) ''policies'' ''manual.txt'' = Inr (ObjectKey sample_object_key)"
    by (simp add: object_key_new_def sample_object_key_def del: join_with.simps)
  then have "has_same_workspace (ObjectKey sample_object_key) k"
    using object_key_new_segments [OF simple_uuid_codec_ok] k
    by (simp add: has_same_workspace_def final_document_object_key_def)
  with k that show thesis by blast
qed

lemma custody_staged:
  "staged simple_uuid_codec \<lparr>sha256 = id, digest_hex = hex_text\<rparr> custody_world custody_document
     (ObjectKey sample_object_key) [1, 2]"
  using sample_object_key_parses
  by (simp add: staged_def custody_world_def custody_document_def parsed_key_def del: hex_text.simps)

lemma custody_env_sample:
  "undisturbed (custody_env connect)" "we_uuid (custody_env connect) = simple_uuid_codec"
  "we_digest (custody_env connect) = \<lparr>sha256 = id, digest_hex = hex_text\<rparr>"
  by (simp_all add: undisturbed_def custody_env_def sample_env_def)

lemma custody_document_sample:
  "documents_valid (ww_db custody_world)"
  "document_get (identity_document_id (PolicyDocument (PolicyId 1) (DocumentId 2)))
     (identity_owner (PolicyDocument (PolicyId 1) (DocumentId 2))) (ww_db custody_world) = Inr (Some custody_document)"
  "doc_upload_status custody_document = PendingUpload" "\<not> doc_archived custody_document"
  "owner_active custody_document (ww_db custody_world)"
proof -
  show "documents_valid (ww_db custody_world)"
    "document_get (identity_document_id (PolicyDocument (PolicyId 1) (DocumentId 2)))
     (identity_owner (PolicyDocument (PolicyId 1) (DocumentId 2))) (ww_db custody_world) = Inr (Some custody_document)"
    by (simp_all add: custody_world_def custody_db_valid custody_get)
qed (simp_all add: custody_world_def owner_active_def custody_document_def sample_document_def custody_db_def
    document_owner_of_def)

theorem clean_upload_completes_witness:
  "\<exists>w1 w2 k. handle_scan_requested (custody_env (Connected sample_stream False))
        (custody_message ''document.scan_requested'' 1) custody_world = (Inr (), w1)
    \<and> handle_finalization_requested (custody_env ConnectTimedOut)
        (custody_message ''document.finalization_requested'' 1) w1 = (Inr (), w2)
    \<and> stored_objects (ww_evidence w2) k = Some [1, 2]"
proof -
  let ?i = "PolicyDocument (PolicyId 1) (DocumentId 2)"
  obtain k where k: "final_document_object_key simple_uuid_codec (WorkspaceId 9) ?i ''manual.txt'' = Inr k"
    "has_same_workspace (ObjectKey sample_object_key) k" by (rule custody_key)
  obtain result where scan: "clamav_scan sample_scanner (Connected sample_stream False) [Inr [1, 2]] = Inr result"
    "scan_outcome result = ScanClean" using sample_scan_clean by blast
  have stream: "scan_stream (object_chunks [1, 2]) = [Inr [1, 2]]" by (simp add: object_chunks.simps scan_stream_def)
  have final: "finalization_requested_payload simple_uuid_codec (custody_message ''document.finalization_requested'' 1)
      = Some \<lparr>requested_identity = ?i, requested_key = ObjectKey sample_object_key\<rparr>"
    by (simp add: requested_payload_agree custody_payload)
  have "\<exists>w1 w2. handle_scan_requested (custody_env (Connected sample_stream False))
        (custody_message ''document.scan_requested'' 1) custody_world = (Inr (), w1)
    \<and> handle_finalization_requested (custody_env ConnectTimedOut)
        (custody_message ''document.finalization_requested'' 1) w1 = (Inr (), w2)
    \<and> document_get (identity_document_id ?i) (identity_owner ?i) (ww_db w2)
        = Inr (Some (custody_document\<lparr>doc_object_key := key_str k, doc_upload_status := Uploaded\<rparr>))
    \<and> stored_objects (ww_evidence w2) k = Some [1, 2]
    \<and> stored_objects (ww_quarantine w2) (ObjectKey sample_object_key) = None"
    by (rule clean_upload_completes [OF simple_uuid_codec_ok custody_env_sample(1,2) custody_env_sample custody_document_sample custody_staged
          _ scan(2) custody_payload final])
      (use k scan(1) stream in \<open>simp_all add: custody_env_def custody_world_def custody_get custody_document_def\<close>)
  then show ?thesis by blast
qed

theorem uploaded_documents_held_witness:
  "\<exists>w d k b. rtranclp (custody_step simple_uuid_codec \<lparr>sha256 = id, digest_hex = hex_text\<rparr>) custody_world w
     \<and> document_get (DocumentId 2) (OwnedByPolicy (PolicyId 1)) (ww_db w) = Inr (Some d)
     \<and> doc_upload_status d = Uploaded \<and> doc_object_key d = key_str k
     \<and> stored_objects (ww_evidence w) k = Some b \<and> hex_text b = doc_checksum_sha256 d"
proof -
  let ?i = "PolicyDocument (PolicyId 1) (DocumentId 2)" and ?dg = "\<lparr>sha256 = id, digest_hex = hex_text\<rparr>"
  let ?env1 = "custody_env (Connected sample_stream False)" and ?env2 = "custody_env ConnectTimedOut"
  let ?m = "custody_message ''document.scan_requested'' 1"
  obtain k where k: "final_document_object_key simple_uuid_codec (WorkspaceId 9) ?i ''manual.txt'' = Inr k"
    "has_same_workspace (ObjectKey sample_object_key) k" by (rule custody_key)
  obtain result where scan: "clamav_scan (we_scanner ?env1) (we_connect ?env1) (scan_stream (object_chunks [1, 2])) = Inr result"
    "scan_outcome result = ScanClean"
    using sample_scan_clean by (auto simp: custody_env_def object_chunks.simps scan_stream_def)
  obtain w1 where w1: "handle_scan_requested ?env1 ?m custody_world = (Inr (), w1)" "documents_valid (ww_db w1)"
    "document_get (identity_document_id ?i) (identity_owner ?i) (ww_db w1)
       = Inr (Some (custody_document\<lparr>doc_upload_status := Finalizing\<rparr>))"
    "\<And>j ow. j \<noteq> identity_document_id ?i \<Longrightarrow> document_get j ow (ww_db w1) = document_get j ow (ww_db custody_world)"
    "ww_quarantine w1 = ww_quarantine custody_world" "ww_evidence w1 = ww_evidence custody_world"
    "db_policies (ww_db w1) = db_policies (ww_db custody_world)"
    by (rule clean_scan_runs [OF custody_env_sample(1,2) custody_document_sample custody_staged scan
          custody_payload [of "''document.scan_requested''" 1]], rule that)
  let ?d = "custody_document\<lparr>doc_upload_status := Finalizing\<rparr>"
  have due: "doc_upload_status ?d = Finalizing" "\<not> doc_archived ?d" "owner_active ?d (ww_db w1)"
    using custody_document_sample(4,5) w1(7) by (simp_all add: owner_active_def document_owner_of_def)
  have staged: "staged simple_uuid_codec ?dg w1 ?d (ObjectKey sample_object_key) [1, 2]"
    using custody_staged w1(5) by (simp add: staged_def del: hex_text.simps)
  have key: "final_document_object_key simple_uuid_codec (doc_workspace_id ?d) ?i (doc_filename ?d) = Inr k"
    using k(1) by (simp add: custody_document_def)
  have none: "\<forall>j ow x. document_get j ow (ww_db w1) = Inr (Some x) \<longrightarrow> j \<noteq> identity_document_id ?i \<longrightarrow>
      doc_object_key x \<noteq> key_str k"
    using w1(4) by (auto simp: custody_world_def custody_get)
  have final: "finalization_requested_payload simple_uuid_codec ?m
      = Some \<lparr>requested_identity = ?i, requested_key = ObjectKey sample_object_key\<rparr>"
    by (simp add: requested_payload_agree custody_payload)
  obtain w2 where w2: "handle_finalization_requested ?env2 ?m w1 = (Inr (), w2)"
    "document_get (identity_document_id ?i) (identity_owner ?i) (ww_db w2)
       = Inr (Some (?d\<lparr>doc_object_key := key_str k, doc_upload_status := Uploaded\<rparr>))"
    "stored_objects (ww_evidence w2) k = Some [1, 2]" "stored_objects (ww_quarantine w2) (ObjectKey sample_object_key) = None"
    by (rule finalization_runs [OF custody_env_sample w1(2,3) due staged key k(2) none final], rule that)
  have "custody_step simple_uuid_codec ?dg custody_world w1"
    using custody_step.scan [of ?env1 simple_uuid_codec ?dg custody_world ?m] w1(1) custody_env_sample by simp
  moreover have "custody_step simple_uuid_codec ?dg w1 w2"
    using custody_step.finalization [of ?env2 simple_uuid_codec ?dg w1 ?m] w2(1) custody_env_sample by simp
  ultimately have reach: "rtranclp (custody_step simple_uuid_codec ?dg) custody_world w2" by simp
  have start: "\<forall>i ow d. document_get i ow (ww_db custody_world) = Inr (Some d) \<longrightarrow> doc_upload_status d \<noteq> Uploaded"
    using custody_document_sample(3) by (auto simp: custody_world_def custody_get)
  from uploaded_documents_held [OF simple_uuid_codec_ok reach custody_document_sample(1) start w2(2)]
  obtain kb b where "key_str k = key_str kb" "stored_objects (ww_evidence w2) kb = Some b"
    "hex_text b = doc_checksum_sha256 custody_document" by auto
  with reach w2(2) show ?thesis
    by (intro exI [of _ w2] exI [of _ "?d\<lparr>doc_object_key := key_str k, doc_upload_status := Uploaded\<rparr>"]
        exI [of _ kb] exI [of _ b]) (simp del: hex_text.simps)
qed

end
