(* ===== verification/Invitation_Authority.thy ===== *)
theory Invitation_Authority
  imports Invitations Messaging "HOL-Library.Countable"
begin

text \<open>
  The authority behind an invitation link (\<^verbatim>\<open>src/services/workspace_invitation_authority.rs\<close>): a token
  that names an invitation, its generation and its expiry, encrypted under the active key and found
  again by the key id in its footer. PASETO, the text of JSON, RFC 3339 times and URLs are third-party
  code and parameters of the definitions (\<open>token_env\<close>); \<open>token_env_ok\<close> says what is relied on: a token
  decrypts to what was encrypted, JSON reads back, and a time printed with whole seconds reads back
  without its fraction. The lemmas show what verifying an issued token gives: the invitation, its
  generation, and its expiry cut to whole seconds.
\<close>

section \<open>Parameters\<close>

record token_env =
  tok_uuid :: uuid_codec
  tok_key :: "string \<Rightarrow> bytes option"
  tok_encrypt :: "bytes \<Rightarrow> bytes \<Rightarrow> bytes \<Rightarrow> bytes \<Rightarrow> bytes \<Rightarrow> string option"
  tok_footer :: "string \<Rightarrow> bytes option"
  tok_decrypt :: "bytes \<Rightarrow> string \<Rightarrow> bytes \<Rightarrow> bytes \<Rightarrow> bytes option"
  tok_json_text :: "json \<Rightarrow> bytes"
  tok_json_parse :: "bytes \<Rightarrow> json option"
  tok_time_text :: "datetime \<Rightarrow> string"
  tok_time_parse :: "string \<Rightarrow> datetime option"
  tok_set_path :: "string \<Rightarrow> string \<Rightarrow> string"
  tok_set_query :: "string \<Rightarrow> string option \<Rightarrow> string"
  tok_set_fragment :: "string \<Rightarrow> string option \<Rightarrow> string"

text \<open>The times RFC 3339 can write, years 0 to 9999.\<close>

definition rfc3339_time :: "datetime \<Rightarrow> bool" where
  "rfc3339_time t \<longleftrightarrow>
     - 62167219200 * nanos_per_second \<le> t \<and> t < 253402300800 * nanos_per_second"

definition whole_seconds :: "datetime \<Rightarrow> datetime" where
  "whole_seconds t = t - t mod nanos_per_second"

definition token_env_ok :: "token_env \<Rightarrow> bool" where
  "token_env_ok c \<longleftrightarrow>
     uuid_codec_ok (tok_uuid c)
     \<and> (\<forall>nonce key payload footer implicit token.
          tok_encrypt c nonce key payload footer implicit = Some token \<longrightarrow>
          tok_footer c token = Some footer \<and> tok_decrypt c key token footer implicit = Some payload)
     \<and> (\<forall>v. tok_json_parse c (tok_json_text c v) = Some v)
     \<and> (\<forall>t. rfc3339_time t \<longrightarrow> tok_time_parse c (tok_time_text c t) = Some (whole_seconds t))"

section \<open>The authority\<close>

record invitation_paseto_key =
  ipk_id :: string
  ipk_secret :: string

record workspace_invitations_config =
  wic_base_url :: string
  wic_active_key_id :: string
  wic_keys :: "invitation_paseto_key list"

record invitation_authority =
  ia_base_url :: string
  ia_active_key_id :: string
  ia_active_key :: bytes
  ia_keys :: "string \<rightharpoonup> bytes"

record verified_invitation =
  vi_invitation_id :: workspace_invitation_id
  vi_generation :: i64
  vi_issued_at :: datetime
  vi_expires_at :: datetime

record authority_source =
  as_invitation_id :: workspace_invitation_id
  as_generation :: i64
  as_expires_at :: datetime

definition authority_source_of :: "workspace_invitation \<Rightarrow> authority_source" where
  "authority_source_of v =
     \<lparr>as_invitation_id = inv_id v, as_generation = inv_generation v, as_expires_at = inv_expires_at v\<rparr>"

datatype authority_error = AuthorityConfiguration | AuthorityIssue | AuthorityUnavailable

record invitation_claims =
  clm_invitation_id :: string
  clm_generation :: i64
  clm_purpose :: string
  clm_iat :: string
  clm_exp :: string

definition invitation_purpose :: string where
  "invitation_purpose = ''workspace-invitation''"

definition implicit_assertion :: bytes where
  "implicit_assertion = map of_char ''proofplane:workspace-invitation:v1''"

definition claims_to_json :: "invitation_claims \<Rightarrow> json" where
  "claims_to_json x =
     JObj [(''invitation_id'', JStr (clm_invitation_id x)), (''generation'', JInt (clm_generation x)),
           (''purpose'', JStr (clm_purpose x)), (''iat'', JStr (clm_iat x)), (''exp'', JStr (clm_exp x))]"

definition claims_from_json :: "json \<Rightarrow> invitation_claims option" where
  "claims_from_json v =
     (case struct_fields [''invitation_id'', ''generation'', ''purpose'', ''iat'', ''exp''] v of
        Some [i, g, p, iat, ex] \<Rightarrow>
          Option.bind (required_field json_as_str i) (\<lambda>i.
          Option.bind (required_field json_i64 g) (\<lambda>g.
          Option.bind (required_field json_as_str p) (\<lambda>p.
          Option.bind (required_field json_as_str iat) (\<lambda>iat.
          map_option (\<lambda>ex. \<lparr>clm_invitation_id = i, clm_generation = g, clm_purpose = p,
              clm_iat = iat, clm_exp = ex\<rparr>)
            (required_field json_as_str ex)))))
      | _ \<Rightarrow> None)"

definition footer_to_json :: "string \<Rightarrow> json" where
  "footer_to_json kid = JObj [(''kid'', JStr kid)]"

text \<open>The fields of a structure that ignores other fields and refuses one that comes twice.\<close>

definition open_fields :: "string list \<Rightarrow> (string \<times> json) list \<Rightarrow> json option list option" where
  "open_fields names entries =
     (if list_all (\<lambda>n. length (filter (\<lambda>e. fst e = n) entries) \<le> 1) names then Some (map (map_of entries) names)
      else None)"

definition footer_from_json :: "json \<Rightarrow> string option" where
  "footer_from_json v =
     (case v of
        JObj entries \<Rightarrow>
          (case open_fields [''kid''] entries of Some [kid] \<Rightarrow> required_field json_as_str kid | _ \<Rightarrow> None)
      | JArr [x] \<Rightarrow> json_as_str x
      | _ \<Rightarrow> None)"

text \<open>The keys are collected into a hash map, where a later one of the same id replaces an earlier.\<close>

definition authority_from_config ::
  "token_env \<Rightarrow> workspace_invitations_config \<Rightarrow> authority_error + invitation_authority" where
  "authority_from_config c config =
     and_then (ok_or AuthorityConfiguration
         (find (\<lambda>k. ipk_id k = wic_active_key_id config) (wic_keys config))) (\<lambda>active.
     and_then (ok_or AuthorityConfiguration (tok_key c (ipk_secret active))) (\<lambda>active_key.
     and_then (collect_results (map (\<lambda>k. ok_or AuthorityConfiguration
         (map_option (Pair (ipk_id k)) (tok_key c (ipk_secret k)))) (wic_keys config))) (\<lambda>keys.
       Ok \<lparr>ia_base_url = wic_base_url config, ia_active_key_id = ipk_id active,
           ia_active_key = active_key, ia_keys = map_of (rev keys)\<rparr>)))"

text \<open>\<^verbatim>\<open>issue_at\<close>, first its token; the nonce is what the encryption draws.\<close>

definition issue_token ::
  "token_env \<Rightarrow> bytes \<Rightarrow> invitation_authority \<Rightarrow> authority_source \<Rightarrow> datetime \<Rightarrow> authority_error + string" where
  "issue_token c nonce a source issued_at =
     (if issued_at \<ge> as_expires_at source then Err AuthorityUnavailable
      else
        let claims =
              \<lparr>clm_invitation_id = uuid_text (tok_uuid c) (invitation_uuid (as_invitation_id source)),
               clm_generation = as_generation source, clm_purpose = invitation_purpose,
               clm_iat = tok_time_text c issued_at, clm_exp = tok_time_text c (as_expires_at source)\<rparr>
        in ok_or AuthorityIssue
             (tok_encrypt c nonce (ia_active_key a) (tok_json_text c (claims_to_json claims))
               (tok_json_text c (footer_to_json (ia_active_key_id a))) implicit_assertion))"

definition issue_at ::
  "token_env \<Rightarrow> bytes \<Rightarrow> invitation_authority \<Rightarrow> authority_source \<Rightarrow> datetime \<Rightarrow> authority_error + string" where
  "issue_at c nonce a source issued_at =
     and_then (issue_token c nonce a source issued_at) (\<lambda>token.
       Ok (tok_set_fragment c (tok_set_query c (tok_set_path c (ia_base_url a) ''/join'') None)
             (Some (''token='' @ token))))"

definition verify_at ::
  "token_env \<Rightarrow> invitation_authority \<Rightarrow> string \<Rightarrow> datetime \<Rightarrow> authority_error + verified_invitation" where
  "verify_at c a token now =
     and_then (ok_or AuthorityUnavailable (tok_footer c token)) (\<lambda>raw_footer.
     and_then (ok_or AuthorityUnavailable
         (Option.bind (tok_json_parse c raw_footer) footer_from_json)) (\<lambda>kid.
     and_then (ok_or AuthorityUnavailable (ia_keys a kid)) (\<lambda>key.
     and_then (ok_or AuthorityUnavailable (tok_decrypt c key token raw_footer implicit_assertion))
       (\<lambda>payload.
     and_then (ok_or AuthorityUnavailable
         (Option.bind (tok_json_parse c payload) claims_from_json)) (\<lambda>claims.
     and_then (ok_or AuthorityUnavailable (uuid_parse (tok_uuid c) (clm_invitation_id claims))) (\<lambda>i.
     and_then (ok_or AuthorityUnavailable (tok_time_parse c (clm_iat claims))) (\<lambda>issued_at.
     and_then (ok_or AuthorityUnavailable (tok_time_parse c (clm_exp claims))) (\<lambda>expires_at.
       if clm_purpose claims \<noteq> invitation_purpose \<or> clm_generation claims \<le> 0 \<or> issued_at > now
          \<or> expires_at \<le> now \<or> issued_at \<ge> expires_at
       then Err AuthorityUnavailable
       else Ok \<lparr>vi_invitation_id = WorkspaceInvitationId i, vi_generation = clm_generation claims,
                vi_issued_at = issued_at, vi_expires_at = expires_at\<rparr>))))))))"

section \<open>Issued tokens\<close>

lemma claims_reload [simp]:
  "in_i64 (clm_generation x) \<Longrightarrow> claims_from_json (claims_to_json x) = Some x"
  by (cases x) (simp add: claims_from_json_def claims_to_json_def required_field_def json_as_str_def
      json_int_in_def in_i64_def)

lemma footer_reload [simp]: "footer_from_json (footer_to_json kid) = Some kid"
  by (simp add: footer_from_json_def footer_to_json_def open_fields_def required_field_def json_as_str_def)

text \<open>The active key is the one the map of keys holds under its id.\<close>

definition wf_authority :: "invitation_authority \<Rightarrow> bool" where
  "wf_authority a \<longleftrightarrow> ia_keys a (ia_active_key_id a) = Some (ia_active_key a)"

lemma keyring_lookup:
  assumes "collect_results (map (\<lambda>k. ok_or e (map_option (Pair (key_id k)) (key k))) ks) = Inr keys"
    and "distinct (map key_id ks)" and "k \<in> set ks" and "key k = Some v"
  shows "map_of (rev keys) (key_id k) = Some v"
proof -
  let ?f = "\<lambda>k. ok_or e (map_option (Pair (key_id k)) (key k))"
  have all2: "list_all2 (\<lambda>k y. ?f k = Inr y) ks keys" using collect_results_all2 [OF assms(1)] .
  then have "map fst keys = map key_id ks" by (induction rule: list_all2_induct) auto
  then have "distinct (map fst (rev keys))" using assms(2) by (simp flip: rev_map)
  moreover from assms(3) obtain n where "n < length ks" "ks ! n = k" by (auto simp: in_set_conv_nth)
  with all2 have "n < length keys" "?f k = Inr (keys ! n)" by (auto simp: list_all2_conv_all_nth)
  with assms(4) have "(key_id k, v) \<in> set (rev keys)" by (auto simp: in_set_conv_nth)
  ultimately show ?thesis by simp
qed

lemma authority_from_config_wf:
  assumes "authority_from_config c config = Inr a" and "distinct (map ipk_id (wic_keys config))"
  shows "wf_authority a"
proof -
  from assms(1) obtain active key keys where
    active: "find (\<lambda>k. ipk_id k = wic_active_key_id config) (wic_keys config) = Some active"
    and key: "tok_key c (ipk_secret active) = Some key"
    and keys: "collect_results (map (\<lambda>k. ok_or AuthorityConfiguration
        (map_option (Pair (ipk_id k)) (tok_key c (ipk_secret k)))) (wic_keys config)) = Inr keys"
    and a: "a = \<lparr>ia_base_url = wic_base_url config, ia_active_key_id = ipk_id active,
           ia_active_key = key, ia_keys = map_of (rev keys)\<rparr>"
    by (auto simp: authority_from_config_def and_then_Ok_iff)
  have "active \<in> set (wic_keys config)" using active by (auto simp: find_Some_iff)
  from keyring_lookup [OF keys assms(2) this key] a show ?thesis by (simp add: wf_authority_def)
qed

text \<open>Verifying an issued token, at any time: exactly what the token says, or nothing.\<close>

lemma verify_issued:
  assumes "token_env_ok c" and "wf_authority a" and "issue_token c nonce a source issued_at = Inr token"
    and "in_i64 (as_generation source)"
    and "rfc3339_time issued_at" and "rfc3339_time (as_expires_at source)"
  shows "verify_at c a token now =
     (if as_generation source \<le> 0 \<or> whole_seconds issued_at > now
         \<or> whole_seconds (as_expires_at source) \<le> now
         \<or> whole_seconds issued_at \<ge> whole_seconds (as_expires_at source)
      then Inl AuthorityUnavailable
      else Inr \<lparr>vi_invitation_id = as_invitation_id source, vi_generation = as_generation source,
                vi_issued_at = whole_seconds issued_at,
                vi_expires_at = whole_seconds (as_expires_at source)\<rparr>)"
proof -
  let ?claims = "\<lparr>clm_invitation_id = uuid_text (tok_uuid c) (invitation_uuid (as_invitation_id source)),
               clm_generation = as_generation source, clm_purpose = invitation_purpose,
               clm_iat = tok_time_text c issued_at, clm_exp = tok_time_text c (as_expires_at source)\<rparr>"
  let ?footer = "tok_json_text c (footer_to_json (ia_active_key_id a))"
  from assms(3) have enc: "tok_encrypt c nonce (ia_active_key a) (tok_json_text c (claims_to_json ?claims))
      ?footer implicit_assertion = Some token"
    by (auto simp: issue_token_def Let_def split: if_splits)
  have dec: "tok_footer c token = Some ?footer"
    "tok_decrypt c (ia_active_key a) token ?footer implicit_assertion
       = Some (tok_json_text c (claims_to_json ?claims))"
    using assms(1) enc unfolding token_env_ok_def by blast+
  have json: "tok_json_parse c (tok_json_text c v) = Some v" for v
    using assms(1) unfolding token_env_ok_def by blast
  have times: "tok_time_parse c (tok_time_text c issued_at) = Some (whole_seconds issued_at)"
    "tok_time_parse c (tok_time_text c (as_expires_at source)) = Some (whole_seconds (as_expires_at source))"
    using assms(1,5,6) unfolding token_env_ok_def by blast+
  have uuid: "uuid_parse (tok_uuid c) (uuid_text (tok_uuid c) u) = Some u" for u
    using assms(1) unfolding token_env_ok_def uuid_codec_ok_def by blast
  show ?thesis
    using assms(2,4) by (simp add: verify_at_def dec json times uuid wf_authority_def)
qed

lemma whole_seconds_le: "whole_seconds t \<le> t"
  by (simp add: whole_seconds_def)

lemma whole_seconds_eq_iff: "whole_seconds t = t \<longleftrightarrow> t mod nanos_per_second = 0"
  by (simp add: whole_seconds_def)

section \<open>An instance of the parameters\<close>

text \<open>Texts that count: every value of a countable type is written as that many dots.\<close>

instance json :: countable
  by countable_datatype

definition dotted :: "'a :: countable \<Rightarrow> string" where
  "dotted x = replicate (to_nat x) CHR ''.''"

definition undotted :: "string \<Rightarrow> 'a :: countable" where
  "undotted t = from_nat (length t)"

lemma undotted_dotted [simp]: "undotted (dotted x) = x"
  by (simp add: undotted_def dotted_def)

definition dotted_token_env :: token_env where
  "dotted_token_env =
     \<lparr>tok_uuid = simple_uuid_codec, tok_key = (\<lambda>secret. Some (map of_char secret)),
      tok_encrypt = (\<lambda>nonce key payload footer implicit. Some (dotted (key, payload, footer, implicit))),
      tok_footer = (\<lambda>t. case (undotted t :: bytes \<times> bytes \<times> bytes \<times> bytes) of (k, p, f, i) \<Rightarrow> Some f),
      tok_decrypt = (\<lambda>key t footer implicit. case undotted t of (k, p, f, i) \<Rightarrow>
         if k = key \<and> f = footer \<and> i = implicit then Some p else None),
      tok_json_text = (\<lambda>v. replicate (to_nat v) 0), tok_json_parse = (\<lambda>bs. Some (from_nat (length bs))),
      tok_time_text = dotted, tok_time_parse = (\<lambda>t. Some (whole_seconds (undotted t))),
      tok_set_path = (\<lambda>url path. url @ path), tok_set_query = (\<lambda>url query. url),
      tok_set_fragment = (\<lambda>url fragment. case fragment of None \<Rightarrow> url | Some f \<Rightarrow> url @ ''#'' @ f)\<rparr>"

lemma dotted_token_env_ok: "token_env_ok dotted_token_env"
  by (simp add: token_env_ok_def dotted_token_env_def simple_uuid_codec_ok)

end
