(* ===== verification/People.thy ===== *)
theory People
  imports Users Invitations Store
begin

text \<open>
  The tables of people: workspaces with their memberships, users, invitations and the outbox, with the
  repositories of \<^verbatim>\<open>src/persistence/aggregates/\<close> and the reads of \<^verbatim>\<open>src/persistence/reads/\<close> that the
  workspace, user and invitation commands use. Saves check the constraints of
  \<^verbatim>\<open>migrations/V001__breaking_initial_schema.sql\<close>; the lower-case mapping of the database locale is an
  argument. The lemmas show that a row the constraints of the invitation table let in loads.
\<close>

section \<open>The tables\<close>

record people =
  ppl_workspaces :: workspace_tables
  ppl_users :: "user_record list"
  ppl_invitations :: "invitation_record list"
  ppl_outbox :: outbox_table

text \<open>A query that expects at most one row fails on two.\<close>

definition at_most_one :: "'r list \<Rightarrow> repository_error + 'r option" where
  "at_most_one rows =
     (case rows of [] \<Rightarrow> Ok None | [r] \<Rightarrow> Ok (Some r) | _ \<Rightarrow> Err (Database DriverFailure))"

section \<open>Workspaces\<close>

record workspace_details =
  wd_id :: workspace_id
  wd_slug :: "string option"
  wd_name :: string
  wd_created_at :: datetime

record workspace_with_role =
  wr_workspace :: workspace_details
  wr_role :: workspace_role

definition details_from_row :: "workspace_record \<Rightarrow> workspace_details" where
  "details_from_row r =
     \<lparr>wd_id = WorkspaceId (wsrec_id r), wd_slug = wsrec_slug r, wd_name = wsrec_name r,
      wd_created_at = wsrec_created_at r\<rparr>"

definition workspace_details_get ::
  "workspace_id \<Rightarrow> people \<Rightarrow> repository_error + workspace_details option" where
  "workspace_details_get i s =
     Ok (map_option details_from_row
       (find_row wsrec_id (workspace_uuid i) (workspaces_table (ppl_workspaces s))))"

definition membership_role_from_row :: "membership_record \<Rightarrow> repository_error + workspace_role" where
  "membership_role_from_row r =
     map_err (\<lambda>_. InvariantViolation ''unknown workspace membership role'') (role_from_str (memrec_role r))"

definition get_for_user :: "user_id \<Rightarrow> people \<Rightarrow> repository_error + workspace_with_role option" where
  "get_for_user u s =
     (case find_row memrec_user_id (user_uuid u) (memberships_table (ppl_workspaces s)) of
        None \<Rightarrow> Ok None
      | Some m \<Rightarrow>
          (case find_row wsrec_id (memrec_workspace_id m) (workspaces_table (ppl_workspaces s)) of
             None \<Rightarrow> Ok None
           | Some w \<Rightarrow> and_then (membership_role_from_row m) (\<lambda>role.
               Ok (Some \<lparr>wr_workspace = details_from_row w, wr_role = role\<rparr>))))"

definition read_role_for ::
  "workspace_id \<Rightarrow> user_id \<Rightarrow> people \<Rightarrow> repository_error + workspace_role option" where
  "read_role_for w u s =
     map_transpose membership_role_from_row
       (find (\<lambda>m. memrec_workspace_id m = workspace_uuid w \<and> memrec_user_id m = user_uuid u)
         (memberships_table (ppl_workspaces s)))"

definition resolve_id_for_member :: "user_id \<Rightarrow> people \<Rightarrow> repository_error + workspace_id option" where
  "resolve_id_for_member u s =
     Ok (map_option (\<lambda>m. WorkspaceId (memrec_workspace_id m))
       (find_row memrec_user_id (user_uuid u) (memberships_table (ppl_workspaces s))))"

definition people_workspace_get :: "workspace_id \<Rightarrow> people \<Rightarrow> repository_error + workspace option" where
  "people_workspace_get i s = workspace_get i (ppl_workspaces s)"

text \<open>Saving a workspace; a membership also has to name a user.\<close>

fun insert_member_rows ::
  "user_record list \<Rightarrow> workspace_membership list \<Rightarrow> membership_record list
   \<Rightarrow> repository_error + membership_record list" where
  "insert_member_rows users [] rows = Ok rows"
| "insert_member_rows users (m # ms) rows =
     and_then (save_row
       [(row_exists memrec_user_id (user_uuid (mem_user_id m)) rows,
           unique_key_violation ''workspace_memberships_pkey''),
        (\<not> row_exists usrrec_id (user_uuid (mem_user_id m)) users,
           foreign_key_violation ''workspace_memberships_user_id_fkey'')]
       memrec_user_id (membership_from_domain m) rows) (insert_member_rows users ms)"

definition people_workspace_save :: "workspace \<Rightarrow> people \<Rightarrow> repository_error + people" where
  "people_workspace_save w s =
     (let r = workspace_from_domain w; t = ppl_workspaces s in
      if slug_taken r (workspaces_table t) then Err (unique_error ''workspaces_slug_key'')
      else and_then
        (insert_member_rows (ppl_users s) (ws_memberships w)
          (delete_rows (\<lambda>m. memrec_workspace_id m = workspace_uuid (ws_id w)) (memberships_table t)))
        (\<lambda>ms. Ok (s\<lparr>ppl_workspaces :=
            \<lparr>workspaces_table = upsert_row wsrec_id r (workspaces_table t), memberships_table = ms\<rparr>\<rparr>)))"

section \<open>Users\<close>

definition resolve_id_by_auth0_sub :: "string \<Rightarrow> people \<Rightarrow> repository_error + user_id option" where
  "resolve_id_by_auth0_sub sub s =
     Ok (map_option (\<lambda>r. UserId (usrrec_id r)) (find_row usrrec_auth0_sub sub (ppl_users s)))"

definition user_get :: "user_id \<Rightarrow> people \<Rightarrow> repository_error + user option" where
  "user_get i s = map_transpose user_into_domain (find_row usrrec_id (user_uuid i) (ppl_users s))"

definition user_save :: "user \<Rightarrow> people \<Rightarrow> repository_error + people" where
  "user_save u s =
     (let r = user_from_domain u; others = filter (\<lambda>x. usrrec_id x \<noteq> usrrec_id r) (ppl_users s) in
      and_then (save_row [(row_exists usrrec_auth0_sub (usrrec_auth0_sub r) others,
                   unique_key_violation ''users_auth0_sub_key'')] usrrec_id r (ppl_users s))
        (\<lambda>rows. Ok (s\<lparr>ppl_users := rows\<rparr>)))"

section \<open>Invitations\<close>

definition invitation_get ::
  "workspace_invitation_id \<Rightarrow> people \<Rightarrow> repository_error + workspace_invitation option" where
  "invitation_get i s =
     map_transpose invitation_into_domain (find_row invrec_id (invitation_uuid i) (ppl_invitations s))"

definition invitation_get_for_workspace ::
  "workspace_invitation_id \<Rightarrow> workspace_id \<Rightarrow> people \<Rightarrow> repository_error + workspace_invitation option" where
  "invitation_get_for_workspace i w s =
     map_transpose invitation_into_domain
       (find (\<lambda>r. invrec_id r = invitation_uuid i \<and> invrec_workspace_id r = workspace_uuid w)
         (ppl_invitations s))"

text \<open>SQL \<^verbatim>\<open>trim\<close> removes blanks only.\<close>

definition sql_trim :: "string \<Rightarrow> string" where
  "sql_trim t = rev (dropWhile (\<lambda>ch. ch = CHR '' '') (rev (dropWhile (\<lambda>ch. ch = CHR '' '') t)))"

definition between_one_and :: "i64 \<Rightarrow> i64 option \<Rightarrow> bool" where
  "between_one_and hi g = is_none_or (\<lambda>n. 1 \<le> n \<and> n \<le> hi) g"

definition invitation_checks ::
  "(string \<Rightarrow> string) \<Rightarrow> invitation_record \<Rightarrow> (bool \<times> db_failure) list" where
  "invitation_checks lower r =
     (let email = invrec_invited_email r in
      [(invrec_role r \<noteq> ''admin'', check_violation ''workspace_invitations_role_check''),
       (invrec_generation r \<le> 0, check_violation ''workspace_invitations_generation_check''),
       (email \<noteq> lower (sql_trim email), check_violation ''workspace_invitations_invited_email_check''),
       (position (\<lambda>ch. ch = CHR ''@'') email \<in> {None, Some 0},
          check_violation ''workspace_invitations_invited_email_check1''),
       (invrec_expires_at r \<le> invrec_created_at r, check_violation ''workspace_invitations_check''),
       ((invrec_accepted_at r = None) \<noteq> (invrec_accepting_user_id r = None),
          check_violation ''workspace_invitations_check1''),
       (invrec_accepted_at r \<noteq> None \<and> invrec_revoked_at r \<noteq> None,
          check_violation ''workspace_invitations_check2''),
       ((invrec_queued_generation r = None) \<noteq> (invrec_queued_at r = None),
          check_violation ''workspace_invitations_check3''),
       ((invrec_delivered_generation r = None) \<noteq> (invrec_delivered_at r = None),
          check_violation ''workspace_invitations_check4''),
       ((invrec_last_delivery_failure r = None) \<noteq> (invrec_delivery_failed_at r = None),
          check_violation ''workspace_invitations_check5''),
       (\<not> between_one_and (invrec_generation r) (invrec_queued_generation r),
          check_violation ''workspace_invitations_check6''),
       (\<not> between_one_and (invrec_generation r) (invrec_delivered_generation r),
          check_violation ''workspace_invitations_check7'')])"

text \<open>
  The exclusion constraint: no two open invitations of a workspace to one address have windows
  \<open>[created_at, expires_at)\<close> that overlap.
\<close>

definition open_row :: "invitation_record \<Rightarrow> bool" where
  "open_row r \<longleftrightarrow> invrec_accepted_at r = None \<and> invrec_revoked_at r = None"

definition windows_collide :: "invitation_record \<Rightarrow> invitation_record \<Rightarrow> bool" where
  "windows_collide a b \<longleftrightarrow>
     open_row a \<and> open_row b \<and> invrec_workspace_id a = invrec_workspace_id b
     \<and> invrec_invited_email a = invrec_invited_email b
     \<and> invrec_created_at a < invrec_expires_at b \<and> invrec_created_at b < invrec_expires_at a"

definition exclusion_violation :: "string \<Rightarrow> db_failure" where
  "exclusion_violation name = DbError ''23P01'' (Some name)"

definition invitation_violations ::
  "(string \<Rightarrow> string) \<Rightarrow> people \<Rightarrow> invitation_record \<Rightarrow> (bool \<times> db_failure) list" where
  "invitation_violations lower s r =
     invitation_checks lower r
     @ [(list_ex (\<lambda>x. invrec_id x \<noteq> invrec_id r \<and> windows_collide x r) (ppl_invitations s),
          exclusion_violation ''workspace_invitations_pending_window_excl''),
        (\<not> row_exists wsrec_id (invrec_workspace_id r) (workspaces_table (ppl_workspaces s)),
          foreign_key_violation ''workspace_invitations_workspace_id_fkey''),
        (\<not> row_exists usrrec_id (invrec_inviter_user_id r) (ppl_users s),
          foreign_key_violation ''workspace_invitations_inviter_user_id_fkey''),
        (\<not> is_none_or (\<lambda>u. row_exists usrrec_id u (ppl_users s)) (invrec_accepting_user_id r),
          foreign_key_violation ''workspace_invitations_accepting_user_id_fkey'')]"

definition invitation_save ::
  "(string \<Rightarrow> string) \<Rightarrow> workspace_invitation \<Rightarrow> people \<Rightarrow> repository_error + people" where
  "invitation_save lower v s =
     (let r = invitation_from_domain v in
      and_then (save_row (invitation_violations lower s r) invrec_id r (ppl_invitations s))
        (\<lambda>rows. Ok (s\<lparr>ppl_invitations := rows\<rparr>)))"

section \<open>Reads of people\<close>

record current_workspace_invitation =
  cwi_id :: workspace_invitation_id
  cwi_workspace_id :: workspace_id
  cwi_invited_email :: string
  cwi_role :: workspace_role
  cwi_generation :: i64
  cwi_expires_at :: datetime
  cwi_delivery_state :: delivery_state

definition parse_people_role :: "string \<Rightarrow> repository_error + workspace_role" where
  "parse_people_role t =
     map_err (\<lambda>_. InvariantViolation ''unknown workspace people role'') (role_from_str t)"

definition parse_delivery_failure ::
  "string option \<Rightarrow> repository_error + delivery_failure option" where
  "parse_delivery_failure t =
     map_err (\<lambda>_. InvariantViolation ''unknown invitation delivery failure'')
       (map_transpose delivery_failure_from_str t)"

definition current_invitation_from_row ::
  "invitation_record \<Rightarrow> repository_error + current_workspace_invitation" where
  "current_invitation_from_row r =
     and_then (parse_delivery_failure (invrec_last_delivery_failure r)) (\<lambda>failure.
     and_then (parse_people_role (invrec_role r)) (\<lambda>role.
       Ok \<lparr>cwi_id = WorkspaceInvitationId (invrec_id r),
           cwi_workspace_id = WorkspaceId (invrec_workspace_id r),
           cwi_invited_email = invrec_invited_email r, cwi_role = role,
           cwi_generation = invrec_generation r, cwi_expires_at = invrec_expires_at r,
           cwi_delivery_state = delivery_state_from_snapshot (invrec_generation r)
             (invrec_queued_generation r) (invrec_delivered_generation r) failure\<rparr>))"

definition pending_row :: "datetime \<Rightarrow> invitation_record \<Rightarrow> bool" where
  "pending_row now r \<longleftrightarrow> open_row r \<and> invrec_expires_at r > now"

definition member_id_by_email ::
  "(string \<Rightarrow> string) \<Rightarrow> workspace_id \<Rightarrow> string \<Rightarrow> people \<Rightarrow> repository_error + user_id option" where
  "member_id_by_email lower w email s =
     and_then (at_most_one (filter (\<lambda>m. memrec_workspace_id m = workspace_uuid w
         \<and> list_ex (\<lambda>u. usrrec_id u = memrec_user_id m
             \<and> map_option (\<lambda>e. lower (sql_trim e)) (usrrec_email u) = Some email) (ppl_users s))
       (memberships_table (ppl_workspaces s))))
     (\<lambda>row. Ok (map_option (\<lambda>m. UserId (memrec_user_id m)) row))"

text \<open>\<^verbatim>\<open>ORDER BY created_at DESC LIMIT 1\<close>.\<close>

definition lock_pending_for_email ::
  "workspace_id \<Rightarrow> string \<Rightarrow> datetime \<Rightarrow> people
   \<Rightarrow> repository_error + current_workspace_invitation option" where
  "lock_pending_for_email w email now s =
     (case sort_key (\<lambda>r. - invrec_created_at r)
         (filter (\<lambda>r. invrec_workspace_id r = workspace_uuid w \<and> invrec_invited_email r = email
             \<and> pending_row now r) (ppl_invitations s)) of
        [] \<Rightarrow> Ok None
      | r # _ \<Rightarrow> and_then (current_invitation_from_row r) (\<lambda>x. Ok (Some x)))"

definition current_for_workspace ::
  "workspace_invitation_id \<Rightarrow> workspace_id \<Rightarrow> datetime \<Rightarrow> people
   \<Rightarrow> repository_error + current_workspace_invitation option" where
  "current_for_workspace i w now s =
     map_transpose current_invitation_from_row
       (find (\<lambda>r. invrec_id r = invitation_uuid i \<and> invrec_workspace_id r = workspace_uuid w
          \<and> pending_row now r) (ppl_invitations s))"

record workspace_person =
  wp_user_id :: user_id
  wp_display_name :: "string option"
  wp_email :: "string option"
  wp_role :: workspace_role
  wp_joined_at :: datetime

record pending_workspace_invitation =
  pwi_id :: workspace_invitation_id
  pwi_invited_email :: string
  pwi_role :: workspace_role
  pwi_generation :: i64
  pwi_expires_at :: datetime
  pwi_delivery_state :: delivery_state
  pwi_queued_at :: "datetime option"
  pwi_delivered_at :: "datetime option"
  pwi_delivery_failed_at :: "datetime option"

record workspace_people =
  wpl_workspace_id :: workspace_id
  wpl_workspace_name :: string
  wpl_actor_role :: workspace_role
  wpl_members :: "workspace_person list"
  wpl_pending_invitations :: "pending_workspace_invitation list"

definition pending_invitation_from_row ::
  "invitation_record \<Rightarrow> repository_error + pending_workspace_invitation" where
  "pending_invitation_from_row r =
     and_then (parse_delivery_failure (invrec_last_delivery_failure r)) (\<lambda>failure.
     and_then (parse_people_role (invrec_role r)) (\<lambda>role.
       Ok \<lparr>pwi_id = WorkspaceInvitationId (invrec_id r), pwi_invited_email = invrec_invited_email r,
           pwi_role = role, pwi_generation = invrec_generation r,
           pwi_expires_at = invrec_expires_at r,
           pwi_delivery_state = delivery_state_from_snapshot (invrec_generation r)
             (invrec_queued_generation r) (invrec_delivered_generation r) failure,
           pwi_queued_at = invrec_queued_at r, pwi_delivered_at = invrec_delivered_at r,
           pwi_delivery_failed_at = invrec_delivery_failed_at r\<rparr>))"

text \<open>\<^verbatim>\<open>WorkspacePeopleReads::get\<close>: the members joined with their users, and the pending invitations.\<close>

definition person_from_row ::
  "membership_record \<times> user_record \<Rightarrow> repository_error + workspace_person" where
  "person_from_row = (\<lambda>(m, u).
     and_then (parse_people_role (memrec_role m)) (\<lambda>role.
       Ok \<lparr>wp_user_id = UserId (memrec_user_id m), wp_display_name = usrrec_name u,
           wp_email = usrrec_email u, wp_role = role, wp_joined_at = memrec_created_at m\<rparr>))"

definition people_get ::
  "workspace_id \<Rightarrow> string \<Rightarrow> workspace_role \<Rightarrow> datetime \<Rightarrow> people \<Rightarrow> repository_error + workspace_people" where
  "people_get w nm actor_role now s =
     and_then (collect_results (map person_from_row
         [(m, u). m \<leftarrow> sort_key membership_order (filter (\<lambda>m. memrec_workspace_id m = workspace_uuid w)
              (memberships_table (ppl_workspaces s))),
            u \<leftarrow> ppl_users s, usrrec_id u = memrec_user_id m])) (\<lambda>members.
     and_then (collect_results (map pending_invitation_from_row
         (sort_key (\<lambda>r. (invrec_created_at r, invrec_id r))
           (filter (\<lambda>r. invrec_workspace_id r = workspace_uuid w \<and> pending_row now r)
             (ppl_invitations s))))) (\<lambda>pending.
       Ok \<lparr>wpl_workspace_id = w, wpl_workspace_name = nm, wpl_actor_role = actor_role,
           wpl_members = members, wpl_pending_invitations = pending\<rparr>))"

record invitation_preview_source =
  ips_invitation_id :: workspace_invitation_id
  ips_workspace_id :: workspace_id
  ips_workspace_name :: string
  ips_invited_email :: string
  ips_role :: workspace_role
  ips_generation :: i64
  ips_expires_at :: datetime
  ips_accepted_at :: "datetime option"
  ips_revoked_at :: "datetime option"

definition read_preview_source ::
  "workspace_invitation_id \<Rightarrow> people \<Rightarrow> repository_error + invitation_preview_source option" where
  "read_preview_source i s =
     (case find_row invrec_id (invitation_uuid i) (ppl_invitations s) of
        None \<Rightarrow> Ok None
      | Some r \<Rightarrow>
          (case find_row wsrec_id (invrec_workspace_id r) (workspaces_table (ppl_workspaces s)) of
             None \<Rightarrow> Ok None
           | Some w \<Rightarrow>
               and_then (parse_people_role (invrec_role r)) (\<lambda>role.
                 Ok (Some \<lparr>ips_invitation_id = WorkspaceInvitationId (invrec_id r),
                   ips_workspace_id = WorkspaceId (invrec_workspace_id r),
                   ips_workspace_name = wsrec_name w, ips_invited_email = invrec_invited_email r,
                   ips_role = role, ips_generation = invrec_generation r,
                   ips_expires_at = invrec_expires_at r, ips_accepted_at = invrec_accepted_at r,
                   ips_revoked_at = invrec_revoked_at r\<rparr>))))"

definition people_outbox_append ::
  "uuid_codec \<Rightarrow> datetime \<Rightarrow> new_outbox_message \<Rightarrow> people \<Rightarrow> repository_error + people" where
  "people_outbox_append c now m s =
     Ok (s\<lparr>ppl_outbox := snd (append_outbox_message c now m (ppl_outbox s))\<rparr>)"

end
