(* ===== verification/People_Commands.thy ===== *)
theory People_Commands
  imports People Invitation_Authority Document_Commands
begin

text \<open>
  The commands on workspaces, users and invitations (\<^verbatim>\<open>create_owned_workspace.rs\<close>,
  \<^verbatim>\<open>remove_workspace_member.rs\<close>, \<^verbatim>\<open>provision_user.rs\<close>, \<^verbatim>\<open>record_user_login.rs\<close> and
  \<^verbatim>\<open>workspace_invitations.rs\<close> of \<^verbatim>\<open>src/application/commands/\<close>) and the invitation queries
  (\<^verbatim>\<open>src/application/queries/workspace_invitations.rs\<close>), each one unit of work over the tables of
  people. What a handler takes from outside is in \<open>people_env\<close>: the codecs, the validity of an e-mail
  address and the lower-case mapping of the database, the clock, and what is drawn at random.
\<close>

section \<open>Environment\<close>

record people_env =
  pe_uuid :: uuid_codec
  pe_token :: token_env
  pe_email_valid :: "string \<Rightarrow> bool"
  pe_lower :: "string \<Rightarrow> string"
  pe_authority :: invitation_authority
  pe_now :: datetime
  pe_message_id :: uuid
  pe_user_id :: uuid
  pe_nonce :: bytes

text \<open>\<^verbatim>\<open>to_ascii_lowercase\<close> and \<^verbatim>\<open>normalize_email\<close> of \<^verbatim>\<open>src/authentication/mod.rs\<close>.\<close>

definition to_ascii_lowercase :: "string \<Rightarrow> string" where
  "to_ascii_lowercase t = map (\<lambda>ch. if is_ascii_uppercase ch then char_of (byte_of ch + 32) else ch) t"

definition normalize_email :: "(string \<Rightarrow> bool) \<Rightarrow> string \<Rightarrow> string option" where
  "normalize_email valid t =
     (let email = to_ascii_lowercase (trim t) in if valid email then Some email else None)"

definition invitation_lifetime :: duration where
  "invitation_lifetime = 7 * 86400 * nanos_per_second"

section \<open>Workspaces\<close>

record create_owned_workspace =
  cow_workspace_id :: workspace_id
  cow_actor_user_id :: user_id
  cow_slug :: "string option"
  cow_name :: string
  cow_created_at :: datetime

datatype create_owned_workspace_error =
  SlugTaken | UserAlreadyHasWorkspace | CreateWorkspaceRepository repository_error

fun create_workspace_error :: "repository_error \<Rightarrow> create_owned_workspace_error" where
  "create_workspace_error (Conflict WorkspaceSlugTaken) = SlugTaken"
| "create_workspace_error (Conflict WorkspaceMembershipExists) = UserAlreadyHasWorkspace"
| "create_workspace_error e = CreateWorkspaceRepository e"

definition workspace_for_replayed_command ::
  "workspace_details \<Rightarrow> workspace_role option \<Rightarrow> create_owned_workspace
   \<Rightarrow> repository_error + workspace_with_role" where
  "workspace_for_replayed_command existing role cmd =
     (if wd_slug existing = cow_slug cmd \<and> wd_name existing = cow_name cmd
        \<and> wd_created_at existing = cow_created_at cmd \<and> role = Some Owner
      then Ok \<lparr>wr_workspace = existing, wr_role = Owner\<rparr>
      else Err (InvariantViolation ''workspace command replay changed its intent''))"

definition details_of :: "workspace \<Rightarrow> workspace_details" where
  "details_of w = \<lparr>wd_id = ws_id w, wd_slug = ws_slug w, wd_name = ws_name w, wd_created_at = ws_created_at w\<rparr>"

definition create_owned_workspace_tx :: "create_owned_workspace \<Rightarrow> (people, workspace_with_role) tx" where
  "create_owned_workspace_tx cmd =
     tx_bind (tx_read (resolve_id_for_member (cow_actor_user_id cmd))) (\<lambda>existing_id.
     case existing_id of
       Some i \<Rightarrow>
         tx_bind (tx_read (workspace_details_get i)) (\<lambda>found.
         tx_bind (tx_lift (ok_or (InvariantViolation
           ''workspace membership must reference an existing workspace'') found)) (\<lambda>existing.
         if wd_id existing \<noteq> cow_workspace_id cmd then tx_fail (Conflict WorkspaceMembershipExists)
         else tx_bind (tx_read (read_role_for (wd_id existing) (cow_actor_user_id cmd))) (\<lambda>role.
           tx_lift (workspace_for_replayed_command existing role cmd))))
     | None \<Rightarrow>
         tx_bind (tx_read (workspace_details_get (cow_workspace_id cmd))) (\<lambda>found.
         case found of
           Some existing \<Rightarrow>
             tx_bind (tx_read (read_role_for (wd_id existing) (cow_actor_user_id cmd))) (\<lambda>role.
               tx_lift (workspace_for_replayed_command existing role cmd))
         | None \<Rightarrow>
             (let w = create_owned (cow_workspace_id cmd) (cow_slug cmd) (cow_name cmd)
                  (cow_created_at cmd) (cow_actor_user_id cmd) in
              tx_bind (tx_write (people_workspace_save w)) (\<lambda>_.
              tx_return \<lparr>wr_workspace = details_of w, wr_role = Owner\<rparr>))))"

definition handle_create_owned_workspace ::
  "create_owned_workspace \<Rightarrow> people \<Rightarrow> (create_owned_workspace_error + workspace_with_role) \<times> people" where
  "handle_create_owned_workspace cmd s =
     apfst (map_err create_workspace_error) (in_unit_of_work (create_owned_workspace_tx cmd) s)"

record remove_workspace_member =
  rwm_actor_user_id :: user_id
  rwm_target_user_id :: user_id

datatype remove_outcome =
  Removed workspace_id | RemoveUnavailable | RemoveNotFound | RemoveLastOwner | RemoveSelf

datatype remove_member_failure =
  RemovalUnavailable | RemovalNotFound | RemovalLastOwner | RemovalSelf
| RemovalRepository repository_error

fun member_error_outcome :: "workspace_member_error \<Rightarrow> remove_outcome" where
  "member_error_outcome MemberUnavailable = RemoveUnavailable"
| "member_error_outcome MemberNotFound = RemoveNotFound"
| "member_error_outcome LastOwner = RemoveLastOwner"
| "member_error_outcome SelfRemoval = RemoveSelf"

definition remove_workspace_member_tx :: "remove_workspace_member \<Rightarrow> (people, remove_outcome) tx" where
  "remove_workspace_member_tx cmd =
     tx_bind (tx_read (resolve_id_for_member (rwm_actor_user_id cmd))) (\<lambda>workspace.
     case workspace of
       None \<Rightarrow> tx_return RemoveUnavailable
     | Some i \<Rightarrow>
         tx_bind (tx_read (people_workspace_get i)) (\<lambda>found.
         case found of
           None \<Rightarrow> tx_return RemoveUnavailable
         | Some w \<Rightarrow>
             (case remove_member (rwm_actor_user_id cmd) (rwm_target_user_id cmd) w of
                Inr w' \<Rightarrow> tx_bind (tx_write (people_workspace_save w')) (\<lambda>_. tx_return (Removed (ws_id w)))
              | Inl e \<Rightarrow> tx_return (member_error_outcome e))))"

fun remove_outcome_result :: "remove_outcome \<Rightarrow> remove_member_failure + workspace_id" where
  "remove_outcome_result (Removed i) = Ok i"
| "remove_outcome_result RemoveUnavailable = Err RemovalUnavailable"
| "remove_outcome_result RemoveNotFound = Err RemovalNotFound"
| "remove_outcome_result RemoveLastOwner = Err RemovalLastOwner"
| "remove_outcome_result RemoveSelf = Err RemovalSelf"

definition handle_remove_workspace_member ::
  "remove_workspace_member \<Rightarrow> people \<Rightarrow> (remove_member_failure + workspace_id) \<times> people" where
  "handle_remove_workspace_member cmd s =
     apfst (\<lambda>r. and_then (map_err RemovalRepository r) remove_outcome_result)
       (in_unit_of_work (remove_workspace_member_tx cmd) s)"

section \<open>Users\<close>

record provision_user =
  pu_auth0_sub :: string
  pu_email :: "string option"
  pu_name :: "string option"

definition provision_user_tx :: "people_env \<Rightarrow> provision_user \<Rightarrow> (people, user) tx" where
  "provision_user_tx env cmd =
     tx_bind (tx_read (resolve_id_by_auth0_sub (pu_auth0_sub cmd))) (\<lambda>existing.
     tx_bind (case existing of
         Some i \<Rightarrow>
           tx_bind (tx_read (user_get i)) (\<lambda>found.
           tx_bind (tx_lift (ok_or (InvariantViolation ''resolved user must exist'') found)) (\<lambda>u.
           tx_return (fst (provision_profile (pu_email cmd) (pu_name cmd) u))))
       | None \<Rightarrow>
           tx_return (user_provision (UserId (pe_user_id env)) (pu_auth0_sub cmd) (pu_email cmd)
             (pu_name cmd) (pe_now env))) (\<lambda>u.
     tx_bind (tx_write (user_save u)) (\<lambda>_. tx_return u)))"

definition handle_provision_user ::
  "people_env \<Rightarrow> provision_user \<Rightarrow> people \<Rightarrow> (repository_error + user) \<times> people" where
  "handle_provision_user env cmd s = in_unit_of_work (provision_user_tx env cmd) s"

record record_user_login =
  rul_user_id :: user_id
  rul_logged_in_at :: datetime

datatype record_login_error = LoginUnavailable | LoginRepository repository_error

definition record_user_login_tx :: "record_user_login \<Rightarrow> (people, user option) tx" where
  "record_user_login_tx cmd =
     tx_bind (tx_read (user_get (rul_user_id cmd))) (\<lambda>found.
     case found of
       None \<Rightarrow> tx_return None
     | Some u \<Rightarrow>
         tx_bind (tx_lift (map_err (\<lambda>_. InvariantViolation ''login timestamp predates user provisioning'')
           (record_login (rul_logged_in_at cmd) u))) (\<lambda>(u, transition).
         tx_bind (if transition = UserApplied then tx_write (user_save u) else tx_return ()) (\<lambda>_.
         tx_return (Some u))))"

definition handle_record_user_login ::
  "record_user_login \<Rightarrow> people \<Rightarrow> (record_login_error + user) \<times> people" where
  "handle_record_user_login cmd s =
     apfst (\<lambda>r. and_then (map_err LoginRepository r) (ok_or LoginUnavailable))
       (in_unit_of_work (record_user_login_tx cmd) s)"

section \<open>Invitations\<close>

record invitation_metadata =
  im_id :: workspace_invitation_id
  im_invited_email :: string
  im_role :: workspace_role
  im_generation :: i64
  im_expires_at :: datetime
  im_delivery_state :: delivery_state

definition metadata_of :: "workspace_invitation \<Rightarrow> invitation_metadata" where
  "metadata_of v =
     \<lparr>im_id = inv_id v, im_invited_email = inv_invited_email v, im_role = inv_role v,
      im_generation = inv_generation v, im_expires_at = inv_expires_at v,
      im_delivery_state = delivery_state_of v\<rparr>"

definition metadata_of_current :: "current_workspace_invitation \<Rightarrow> invitation_metadata" where
  "metadata_of_current x =
     \<lparr>im_id = cwi_id x, im_invited_email = cwi_invited_email x, im_role = cwi_role x,
      im_generation = cwi_generation x, im_expires_at = cwi_expires_at x,
      im_delivery_state = cwi_delivery_state x\<rparr>"

record invitation_with_link =
  iwl_invitation :: invitation_metadata
  iwl_url :: string
  iwl_workspace_id :: workspace_id

definition append_delivery_command ::
  "people_env \<Rightarrow> workspace_invitation_id \<Rightarrow> i64 \<Rightarrow> execution_metadata \<Rightarrow> (people, unit) tx" where
  "append_delivery_command env i generation metadata =
     tx_write (people_outbox_append (pe_uuid env) (pe_now env)
       \<lparr>new_topic = message_bus_topic,
        new_message = send_workspace_invitation (pe_uuid env) (pe_message_id env) (invitation_uuid i)
          generation (option_or (exec_correlation_id metadata) (exec_request_id metadata))
          (exec_causation_id metadata)\<rparr>)"

definition issue_link ::
  "people_env \<Rightarrow> workspace_invitation \<Rightarrow> authority_error + invitation_with_link" where
  "issue_link env v =
     and_then (issue_at (pe_token env) (pe_nonce env) (pe_authority env) (authority_source_of v) (pe_now env))
       (\<lambda>url. Ok \<lparr>iwl_invitation = metadata_of v, iwl_url = url, iwl_workspace_id = inv_workspace_id v\<rparr>)"

record create_workspace_invitation =
  cwn_invitation_id :: workspace_invitation_id
  cwn_actor_user_id :: user_id
  cwn_email :: string
  cwn_created_at :: datetime

datatype create_invitation_outcome =
  InvitationCreated workspace_invitation | CreateUnavailable | ExistingMember
| DuplicateInvitation invitation_metadata

datatype create_invitation_error =
  InvalidEmail | CreateInvitationUnavailable | InvitedExistingMember | InvitationDuplicate invitation_metadata
| CreateInvitationRepository repository_error | CreateInvitationAuthority authority_error

definition create_workspace_invitation_tx ::
  "people_env \<Rightarrow> create_workspace_invitation \<Rightarrow> string \<Rightarrow> execution_metadata
   \<Rightarrow> (people, create_invitation_outcome) tx" where
  "create_workspace_invitation_tx env cmd email metadata =
     tx_bind (tx_read (resolve_id_for_member (cwn_actor_user_id cmd))) (\<lambda>workspace.
     case workspace of
       None \<Rightarrow> tx_return CreateUnavailable
     | Some i \<Rightarrow>
     tx_bind (tx_read (people_workspace_get i)) (\<lambda>found.
     case found of
       None \<Rightarrow> tx_return CreateUnavailable
     | Some w \<Rightarrow>
     if role_for (cwn_actor_user_id cmd) w \<notin> {Some Owner, Some Admin} then tx_return CreateUnavailable
     else tx_bind (tx_read (member_id_by_email (pe_lower env) i email)) (\<lambda>member.
     if member \<noteq> None then tx_return ExistingMember
     else tx_bind (tx_read (lock_pending_for_email i email (cwn_created_at cmd))) (\<lambda>existing.
     case existing of
       Some x \<Rightarrow> tx_return (DuplicateInvitation (metadata_of_current x))
     | None \<Rightarrow>
     tx_bind (tx_lift (map_err (\<lambda>_. InvariantViolation ''new workspace invitation must be valid'')
       (invitation_create (cwn_invitation_id cmd) i (cwn_actor_user_id cmd) email (cwn_created_at cmd)
         (cwn_created_at cmd + invitation_lifetime)))) (\<lambda>v.
     tx_bind (tx_lift (map_err (\<lambda>_. InvariantViolation ''new invitation delivery must queue'')
       (queue_delivery (inv_generation v) (cwn_created_at cmd) v))) (\<lambda>v.
     tx_bind (tx_write (invitation_save (pe_lower env) v)) (\<lambda>_.
     tx_bind (append_delivery_command env (inv_id v) (inv_generation v) metadata) (\<lambda>_.
     tx_return (InvitationCreated v)))))))))"

definition create_invitation_result ::
  "people_env \<Rightarrow> create_invitation_outcome \<Rightarrow> create_invitation_error + invitation_with_link" where
  "create_invitation_result env out =
     (case out of
        InvitationCreated v \<Rightarrow> map_err CreateInvitationAuthority (issue_link env v)
      | CreateUnavailable \<Rightarrow> Err CreateInvitationUnavailable
      | ExistingMember \<Rightarrow> Err InvitedExistingMember
      | DuplicateInvitation x \<Rightarrow> Err (InvitationDuplicate x))"

definition handle_create_workspace_invitation ::
  "people_env \<Rightarrow> create_workspace_invitation \<Rightarrow> execution_metadata \<Rightarrow> people
   \<Rightarrow> (create_invitation_error + invitation_with_link) \<times> people" where
  "handle_create_workspace_invitation env cmd metadata s =
     (case normalize_email (pe_email_valid env) (cwn_email cmd) of
        None \<Rightarrow> (Err InvalidEmail, s)
      | Some email \<Rightarrow>
          apfst (\<lambda>r. and_then (map_err CreateInvitationRepository r) (create_invitation_result env))
            (in_unit_of_work (create_workspace_invitation_tx env cmd email metadata) s))"

record resend_workspace_invitation =
  rsw_invitation_id :: workspace_invitation_id
  rsw_actor_user_id :: user_id
  rsw_expected_generation :: i64
  rsw_sent_at :: datetime

datatype resend_outcome = Resent workspace_invitation | ResendStale | ResendUnavailable

datatype resend_invitation_error =
  ResendInvitationUnavailable | ResendStaleGeneration
| ResendRepository repository_error | ResendAuthority authority_error

text \<open>The invitation an owner or administrator of the actor's workspace may manage.\<close>

definition managed_invitation ::
  "user_id \<Rightarrow> workspace_invitation_id \<Rightarrow> (people, (workspace_id \<times> workspace_invitation) option) tx" where
  "managed_invitation actor i =
     tx_bind (tx_read (resolve_id_for_member actor)) (\<lambda>workspace.
     case workspace of
       None \<Rightarrow> tx_return None
     | Some w \<Rightarrow>
         tx_bind (tx_read (read_role_for w actor)) (\<lambda>role.
         if role \<notin> {Some Owner, Some Admin} then tx_return None
         else tx_bind (tx_read (invitation_get_for_workspace i w)) (\<lambda>found.
           tx_return (map_option (Pair w) found))))"

definition resend_workspace_invitation_tx ::
  "people_env \<Rightarrow> resend_workspace_invitation \<Rightarrow> execution_metadata \<Rightarrow> (people, resend_outcome) tx" where
  "resend_workspace_invitation_tx env cmd metadata =
     tx_bind (managed_invitation (rsw_actor_user_id cmd) (rsw_invitation_id cmd)) (\<lambda>found.
     case found of
       None \<Rightarrow> tx_return ResendUnavailable
     | Some (w, v) \<Rightarrow>
         (case resend (rsw_expected_generation cmd) (rsw_sent_at cmd)
             (rsw_sent_at cmd + invitation_lifetime) v of
            Inl e \<Rightarrow> tx_return (if e = StaleGeneration then ResendStale else ResendUnavailable)
          | Inr v \<Rightarrow>
              tx_bind (tx_write (invitation_save (pe_lower env) v)) (\<lambda>_.
              tx_bind (append_delivery_command env (inv_id v) (inv_generation v) metadata) (\<lambda>_.
              tx_return (Resent v)))))"

definition resend_result ::
  "people_env \<Rightarrow> resend_outcome \<Rightarrow> resend_invitation_error + invitation_with_link" where
  "resend_result env out =
     (case out of
        Resent v \<Rightarrow> map_err ResendAuthority (issue_link env v)
      | ResendStale \<Rightarrow> Err ResendStaleGeneration
      | ResendUnavailable \<Rightarrow> Err ResendInvitationUnavailable)"

definition handle_resend_workspace_invitation ::
  "people_env \<Rightarrow> resend_workspace_invitation \<Rightarrow> execution_metadata \<Rightarrow> people
   \<Rightarrow> (resend_invitation_error + invitation_with_link) \<times> people" where
  "handle_resend_workspace_invitation env cmd metadata s =
     apfst (\<lambda>r. and_then (map_err ResendRepository r) (resend_result env))
       (in_unit_of_work (resend_workspace_invitation_tx env cmd metadata) s)"

record revoke_workspace_invitation =
  rvw_invitation_id :: workspace_invitation_id
  rvw_actor_user_id :: user_id
  rvw_expected_generation :: i64
  rvw_revoked_at :: datetime

datatype revoke_outcome = InvitationRevoked workspace_id | RevokeStale | RevokeUnavailable

datatype revoke_invitation_error =
  RevokeInvitationUnavailable | RevokeStaleGeneration | RevokeRepository repository_error

definition revoke_workspace_invitation_tx ::
  "people_env \<Rightarrow> revoke_workspace_invitation \<Rightarrow> (people, revoke_outcome) tx" where
  "revoke_workspace_invitation_tx env cmd =
     tx_bind (managed_invitation (rvw_actor_user_id cmd) (rvw_invitation_id cmd)) (\<lambda>found.
     case found of
       None \<Rightarrow> tx_return RevokeUnavailable
     | Some (w, v) \<Rightarrow>
         (case invitation_revoke (rvw_expected_generation cmd) (rvw_revoked_at cmd) v of
            Inl e \<Rightarrow> tx_return (if e = StaleGeneration then RevokeStale else RevokeUnavailable)
          | Inr v \<Rightarrow>
              tx_bind (tx_write (invitation_save (pe_lower env) v)) (\<lambda>_.
              tx_return (InvitationRevoked w))))"

definition revoke_result ::
  "revoke_workspace_invitation \<Rightarrow> revoke_outcome
   \<Rightarrow> revoke_invitation_error + workspace_invitation_id \<times> workspace_id" where
  "revoke_result cmd out =
     (case out of
        InvitationRevoked w \<Rightarrow> Ok (rvw_invitation_id cmd, w)
      | RevokeStale \<Rightarrow> Err RevokeStaleGeneration
      | RevokeUnavailable \<Rightarrow> Err RevokeInvitationUnavailable)"

definition handle_revoke_workspace_invitation ::
  "people_env \<Rightarrow> revoke_workspace_invitation \<Rightarrow> people
   \<Rightarrow> (revoke_invitation_error + workspace_invitation_id \<times> workspace_id) \<times> people" where
  "handle_revoke_workspace_invitation env cmd s =
     apfst (\<lambda>r. and_then (map_err RevokeRepository r) (revoke_result cmd))
       (in_unit_of_work (revoke_workspace_invitation_tx env cmd) s)"

record accept_workspace_invitation =
  awi_token :: string
  awi_user_id :: user_id
  awi_verified_email :: string
  awi_accepted_at :: datetime

datatype accept_outcome =
  Accepted workspace_with_role invitation_acceptance
| AcceptUnavailable | AcceptEmailMismatch | AcceptExistingWorkspace

datatype accept_invitation_error =
  AcceptInvitationUnavailable | EmailMismatch | ExistingWorkspace | AcceptRepository repository_error

record accepted_invitation =
  acc_workspace :: workspace_with_role
  acc_invitation_id :: workspace_invitation_id
  acc_acceptance :: invitation_acceptance

text \<open>An invitation the user has accepted before is answered from the database.\<close>

definition replay_acceptance ::
  "accept_workspace_invitation \<Rightarrow> workspace_invitation \<Rightarrow> (people, accept_outcome) tx" where
  "replay_acceptance cmd v =
     tx_bind (tx_read (resolve_id_for_member (awi_user_id cmd))) (\<lambda>workspace.
     if workspace \<noteq> Some (inv_workspace_id v) then tx_return AcceptUnavailable
     else tx_bind (tx_read (workspace_details_get (inv_workspace_id v))) (\<lambda>details.
     tx_bind (tx_read (read_role_for (inv_workspace_id v) (awi_user_id cmd))) (\<lambda>role.
     tx_return (case (details, role) of
         (Some d, Some r) \<Rightarrow> Accepted \<lparr>wr_workspace = d, wr_role = r\<rparr> AcceptanceReplay
       | _ \<Rightarrow> AcceptUnavailable))))"

text \<open>The member joins, where the user is not one yet.\<close>

definition join_workspace ::
  "accept_workspace_invitation \<Rightarrow> workspace \<Rightarrow> (people, workspace option) tx" where
  "join_workspace cmd w =
     (if role_for (awi_user_id cmd) w = None then
        (case add_member (awi_user_id cmd) Admin (awi_accepted_at cmd) w of
           Inl _ \<Rightarrow> tx_return None
         | Inr w' \<Rightarrow> tx_bind (tx_write (people_workspace_save w')) (\<lambda>_. tx_return (Some w')))
      else tx_return (Some w))"

definition accept_workspace_invitation_tx ::
  "people_env \<Rightarrow> accept_workspace_invitation \<Rightarrow> verified_invitation \<Rightarrow> string
   \<Rightarrow> (people, accept_outcome) tx" where
  "accept_workspace_invitation_tx env cmd claims email =
     tx_bind (tx_read (invitation_get (vi_invitation_id claims))) (\<lambda>found.
     case found of
       None \<Rightarrow> tx_return AcceptUnavailable
     | Some v \<Rightarrow>
     if inv_generation v \<noteq> vi_generation claims \<or> inv_expires_at v \<noteq> vi_expires_at claims
     then tx_return AcceptUnavailable
     else if inv_accepting_user_id v = Some (awi_user_id cmd) \<and> inv_accepted_at v \<noteq> None
     then replay_acceptance cmd v
     else if is_err (ensure_current (vi_generation claims) (vi_expires_at claims) (awi_accepted_at cmd) v)
     then tx_return AcceptUnavailable
     else if inv_invited_email v \<noteq> email then tx_return AcceptEmailMismatch
     else tx_bind (tx_read (resolve_id_for_member (awi_user_id cmd))) (\<lambda>existing.
     if is_some_and (\<lambda>i. i \<noteq> inv_workspace_id v) existing then tx_return AcceptExistingWorkspace
     else tx_bind (tx_read (people_workspace_get (inv_workspace_id v))) (\<lambda>workspace.
     case workspace of
       None \<Rightarrow> tx_return AcceptUnavailable
     | Some w \<Rightarrow>
     tx_bind (join_workspace cmd w) (\<lambda>joined.
     case joined of
       None \<Rightarrow> tx_return AcceptUnavailable
     | Some w \<Rightarrow>
     (case invitation_accept (awi_user_id cmd) (awi_accepted_at cmd) v of
        Inl _ \<Rightarrow> tx_return AcceptUnavailable
      | Inr (v, acceptance) \<Rightarrow>
          tx_bind (tx_write (invitation_save (pe_lower env) v)) (\<lambda>_.
          tx_return (case role_for (awi_user_id cmd) w of
             None \<Rightarrow> AcceptUnavailable
           | Some role \<Rightarrow> Accepted \<lparr>wr_workspace = details_of w, wr_role = role\<rparr> acceptance)))))))"

definition accept_result ::
  "verified_invitation \<Rightarrow> accept_outcome \<Rightarrow> accept_invitation_error + accepted_invitation" where
  "accept_result claims out =
     (case out of
        Accepted w acceptance \<Rightarrow>
          Ok \<lparr>acc_workspace = w, acc_invitation_id = vi_invitation_id claims, acc_acceptance = acceptance\<rparr>
      | AcceptUnavailable \<Rightarrow> Err AcceptInvitationUnavailable
      | AcceptEmailMismatch \<Rightarrow> Err EmailMismatch
      | AcceptExistingWorkspace \<Rightarrow> Err ExistingWorkspace)"

definition handle_accept_workspace_invitation ::
  "people_env \<Rightarrow> accept_workspace_invitation \<Rightarrow> people
   \<Rightarrow> (accept_invitation_error + accepted_invitation) \<times> people" where
  "handle_accept_workspace_invitation env cmd s =
     (case verify_at (pe_token env) (pe_authority env) (awi_token cmd) (pe_now env) of
        Inl _ \<Rightarrow> (Err AcceptInvitationUnavailable, s)
      | Inr claims \<Rightarrow>
     (case normalize_email (pe_email_valid env) (awi_verified_email cmd) of
        None \<Rightarrow> (Err EmailMismatch, s)
      | Some email \<Rightarrow>
          apfst (\<lambda>r. and_then (map_err AcceptRepository r) (accept_result claims))
            (in_unit_of_work (accept_workspace_invitation_tx env cmd claims email) s)))"

section \<open>Queries\<close>

definition handle_get_workspace_people ::
  "user_id \<Rightarrow> datetime \<Rightarrow> people \<Rightarrow> repository_error + workspace_people option" where
  "handle_get_workspace_people actor now s =
     and_then (get_for_user actor s) (\<lambda>scope.
     case scope of
       None \<Rightarrow> Ok None
     | Some x \<Rightarrow>
         and_then (people_get (wd_id (wr_workspace x)) (wd_name (wr_workspace x)) (wr_role x) now s)
           (\<lambda>p. Ok (Some p)))"

datatype current_link_error =
  LinkUnavailable | LinkRepository repository_error | LinkAuthority authority_error

definition handle_get_current_invitation_link ::
  "people_env \<Rightarrow> user_id \<Rightarrow> workspace_invitation_id \<Rightarrow> datetime \<Rightarrow> people
   \<Rightarrow> current_link_error + invitation_with_link" where
  "handle_get_current_invitation_link env actor i now s =
     and_then (map_err LinkRepository (get_for_user actor s)) (\<lambda>scope.
     case scope of
       None \<Rightarrow> Err LinkUnavailable
     | Some x \<Rightarrow>
     if wr_role x \<notin> {Owner, Admin} then Err LinkUnavailable
     else and_then (map_err LinkRepository (current_for_workspace i (wd_id (wr_workspace x)) now s)) (\<lambda>found.
     and_then (ok_or LinkUnavailable found) (\<lambda>v.
     and_then (map_err LinkAuthority (issue_at (pe_token env) (pe_nonce env) (pe_authority env)
         \<lparr>as_invitation_id = cwi_id v, as_generation = cwi_generation v,
          as_expires_at = cwi_expires_at v\<rparr> (pe_now env))) (\<lambda>url.
       Ok \<lparr>iwl_invitation = metadata_of_current v, iwl_url = url,
           iwl_workspace_id = cwi_workspace_id v\<rparr>))))"

record invitation_preview =
  ipv_workspace_name :: string
  ipv_invited_email :: string
  ipv_role :: workspace_role
  ipv_expires_at :: datetime

datatype preview_error = PreviewUnavailable | PreviewRepository repository_error

definition preview_status :: "invitation_preview_source \<Rightarrow> datetime \<Rightarrow> invitation_status" where
  "preview_status x now =
     (if ips_accepted_at x \<noteq> None then InvAccepted
      else if ips_revoked_at x \<noteq> None then InvRevoked
      else if now \<ge> ips_expires_at x then InvExpired
      else InvPending)"

definition handle_preview_workspace_invitation ::
  "people_env \<Rightarrow> string \<Rightarrow> datetime \<Rightarrow> people \<Rightarrow> preview_error + invitation_preview" where
  "handle_preview_workspace_invitation env token now s =
     and_then (map_err (\<lambda>_. PreviewUnavailable)
         (verify_at (pe_token env) (pe_authority env) token (pe_now env))) (\<lambda>claims.
     and_then (map_err PreviewRepository (read_preview_source (vi_invitation_id claims) s)) (\<lambda>found.
     and_then (ok_or PreviewUnavailable found) (\<lambda>x.
       if ips_invitation_id x \<noteq> vi_invitation_id claims \<or> ips_generation x \<noteq> vi_generation claims
         \<or> ips_expires_at x \<noteq> vi_expires_at claims \<or> preview_status x now \<noteq> InvPending
       then Err PreviewUnavailable
       else Ok \<lparr>ipv_workspace_name = ips_workspace_name x, ipv_invited_email = ips_invited_email x,
                ipv_role = ips_role x, ipv_expires_at = ips_expires_at x\<rparr>)))"

end
