(* ===== verification/People_Tables.thy ===== *)
theory People_Tables
  imports People_Commands
begin

text \<open>
  The invariant of the tables of people and that every save keeps it: keys are unique, rows name rows
  that exist, every workspace loads (and so has an owner), every user and every invitation loads, and
  no two open invitations to one address overlap. For invitations the constraints of the table carry
  the argument: a row of an invitation that they let in satisfies what \<^verbatim>\<open>rehydrate\<close> checks.
\<close>

section \<open>The invariant\<close>

definition slugs_unique :: "workspace_record list \<Rightarrow> bool" where
  "slugs_unique rows \<longleftrightarrow>
     (\<forall>a \<in> set rows. \<forall>b \<in> set rows. wsrec_slug a \<noteq> None \<and> wsrec_slug a = wsrec_slug b \<longrightarrow> wsrec_id a = wsrec_id b)"

definition wf_users :: "user_record list \<Rightarrow> bool" where
  "wf_users rows \<longleftrightarrow>
     table_wf usrrec_id rows \<and> table_wf usrrec_auth0_sub rows
     \<and> (\<forall>r \<in> set rows. is_ok (user_into_domain r))"

definition wf_memberships :: "people \<Rightarrow> bool" where
  "wf_memberships s \<longleftrightarrow>
     (\<forall>m \<in> set (memberships_table (ppl_workspaces s)).
        row_exists usrrec_id (memrec_user_id m) (ppl_users s)
        \<and> row_exists wsrec_id (memrec_workspace_id m) (workspaces_table (ppl_workspaces s)))"

definition invitation_row_ok :: "people \<Rightarrow> invitation_record \<Rightarrow> bool" where
  "invitation_row_ok s r \<longleftrightarrow>
     is_ok (invitation_into_domain r)
     \<and> row_exists wsrec_id (invrec_workspace_id r) (workspaces_table (ppl_workspaces s))
     \<and> row_exists usrrec_id (invrec_inviter_user_id r) (ppl_users s)
     \<and> is_none_or (\<lambda>u. row_exists usrrec_id u (ppl_users s)) (invrec_accepting_user_id r)"

definition wf_invitations :: "people \<Rightarrow> bool" where
  "wf_invitations s \<longleftrightarrow>
     table_wf invrec_id (ppl_invitations s)
     \<and> (\<forall>r \<in> set (ppl_invitations s). invitation_row_ok s r)
     \<and> (\<forall>a \<in> set (ppl_invitations s). \<forall>b \<in> set (ppl_invitations s).
          invrec_id a \<noteq> invrec_id b \<longrightarrow> \<not> windows_collide a b)"

definition wf_people :: "people \<Rightarrow> bool" where
  "wf_people s \<longleftrightarrow>
     wf_workspace_tables (ppl_workspaces s) \<and> slugs_unique (workspaces_table (ppl_workspaces s))
     \<and> wf_users (ppl_users s) \<and> wf_memberships s \<and> wf_invitations s \<and> wf_outbox (ppl_outbox s)"

definition no_people :: people where
  "no_people = \<lparr>ppl_workspaces = \<lparr>workspaces_table = [], memberships_table = []\<rparr>, ppl_users = [],
     ppl_invitations = [], ppl_outbox = \<lparr>outbox_rows = [], outbox_next_id = 1\<rparr>\<rparr>"

lemma no_people_wf: "wf_people no_people"
  by (simp add: no_people_def wf_people_def wf_workspace_tables_def slugs_unique_def wf_users_def
      wf_memberships_def wf_invitations_def wf_outbox_def table_wf_def)

section \<open>Saving a workspace\<close>

lemma insert_member_rows_Ok:
  assumes "insert_member_rows users ms rows = Inr rows'"
  shows "insert_memberships ms rows = Inr rows'
     \<and> (\<forall>m \<in> set ms. row_exists usrrec_id (user_uuid (mem_user_id m)) users)"
  using assms
proof (induction ms arbitrary: rows)
  case (Cons m ms)
  let ?k = "user_uuid (mem_user_id m)"
  have new: "\<not> row_exists memrec_user_id ?k rows" and user: "row_exists usrrec_id ?k users"
    and rest: "insert_member_rows users ms (upsert_row memrec_user_id (membership_from_domain m) rows) = Inr rows'"
    using Cons.prems by (auto simp: and_then_Ok_iff save_row_Ok_iff)
  have "upsert_row memrec_user_id (membership_from_domain m) rows = rows @ [membership_from_domain m]"
    using new by (induction rows) (auto simp: row_exists_def)
  with Cons.IH [OF rest] new user show ?case by (simp add: row_exists_iff)
qed simp

lemma insert_member_rows_total:
  assumes "distinct (map mem_user_id ms)"
    and "\<forall>m \<in> set ms. \<not> row_exists memrec_user_id (user_uuid (mem_user_id m)) rows"
    and "\<forall>m \<in> set ms. row_exists usrrec_id (user_uuid (mem_user_id m)) users"
  shows "\<exists>rows'. insert_member_rows users ms rows = Inr rows'"
  using assms
proof (induction ms arbitrary: rows)
  case (Cons m ms)
  let ?rows = "upsert_row memrec_user_id (membership_from_domain m) rows"
  have ne: "user_uuid (mem_user_id x) \<noteq> user_uuid (mem_user_id m)" if "x \<in> set ms" for x
    using Cons.prems(1) that user_id.expand [of "mem_user_id x" "mem_user_id m"] by (auto simp: image_iff)
  have "\<exists>rows'. insert_member_rows users ms ?rows = Inr rows'"
    using Cons.prems ne by (intro Cons.IH) auto
  with Cons.prems show ?case by (simp add: save_row_def first_violation_def)
qed simp

lemma people_workspace_save_Ok:
  assumes "people_workspace_save w s = Inr s'"
  shows "\<exists>t. workspace_save w (ppl_workspaces s) = Inr t \<and> s' = s\<lparr>ppl_workspaces := t\<rparr>
     \<and> (\<forall>m \<in> set (ws_memberships w). row_exists usrrec_id (user_uuid (mem_user_id m)) (ppl_users s))"
  using assms
  by (auto simp: people_workspace_save_def workspace_save_def Let_def and_then_Ok_iff split: if_splits
      dest!: insert_member_rows_Ok)

lemma slugs_unique_upsert:
  assumes "slugs_unique rows" and "\<not> slug_taken r rows" and "table_wf wsrec_id rows"
  shows "slugs_unique (upsert_row wsrec_id r rows)"
  using assms unfolding slugs_unique_def set_upsert_row [OF assms(3)] slug_taken_def list_ex_iff
  by (smt (verit, ccfv_SIG) insert_iff mem_Collect_eq)

lemma people_workspace_save_wf:
  assumes "people_workspace_save w s = Inr s'" and "wf_workspace w" and "wf_people s"
  shows "wf_people s'"
proof -
  from people_workspace_save_Ok [OF assms(1)] obtain t where
    t: "workspace_save w (ppl_workspaces s) = Inr t" and s': "s' = s\<lparr>ppl_workspaces := t\<rparr>"
    and users: "\<forall>m \<in> set (ws_memberships w). row_exists usrrec_id (user_uuid (mem_user_id m)) (ppl_users s)"
    by blast
  note save = workspace_save_Ok [OF t]
  have wf: "wf_workspace_tables (ppl_workspaces s)" "slugs_unique (workspaces_table (ppl_workspaces s))"
    "wf_memberships s" "wf_invitations s" "wf_users (ppl_users s)" "wf_outbox (ppl_outbox s)"
    using assms(3) by (simp_all add: wf_people_def)
  have "wf_workspace_tables t" using workspace_save_wf_tables [OF t assms(2) wf(1)] .
  moreover have "slugs_unique (workspaces_table t)"
    using slugs_unique_upsert [OF wf(2) save(4)] wf(1) by (simp add: save(1) wf_workspace_tables_def)
  moreover have "wf_memberships s'"
    using wf(3) users assms(2)
    by (auto simp: wf_memberships_def s' save(1,2) wf_workspace_def)
  moreover have "wf_invitations s'"
    using wf(4) by (auto simp: wf_invitations_def invitation_row_ok_def s' save(1))
  ultimately show ?thesis using wf(5,6) by (simp add: wf_people_def s')
qed

section \<open>Saving a user\<close>

lemma user_save_Ok:
  assumes "user_save u s = Inr s'"
  shows "s' = s\<lparr>ppl_users := upsert_row usrrec_id (user_from_domain u) (ppl_users s)\<rparr>"
    and "\<forall>x \<in> set (ppl_users s). usrrec_id x \<noteq> user_uuid (usr_id u) \<longrightarrow> usrrec_auth0_sub x \<noteq> usr_auth0_sub u"
  using assms
  by (auto simp: user_save_def Let_def and_then_Ok_iff save_row_Ok_iff row_exists_def list_ex_iff
      user_from_domain_def)

lemma table_wf_upsert_other:
  assumes "table_wf key rows" and "table_wf other rows"
    and "\<forall>x \<in> set rows. key x \<noteq> key r \<longrightarrow> other x \<noteq> other r"
  shows "table_wf other (upsert_row key r rows)"
  using assms
proof (induction rows)
  case (Cons x rows)
  have set: "set (upsert_row key r rows) = insert r {y \<in> set rows. key y \<noteq> key r}"
    using Cons.prems(1) by (intro set_upsert_row) (simp add: table_wf_def)
  show ?case
  proof (cases "key x = key r")
    case True
    then have "\<forall>y \<in> set rows. key y \<noteq> key r"
      using Cons.prems(1) by (auto simp: table_wf_def image_iff)
    with True Cons.prems(2,3) show ?thesis by (auto simp: table_wf_def)
  next
    case False
    with Cons.prems have "other x \<notin> other ` set (upsert_row key r rows)"
      by (auto simp: set table_wf_def)
    with False Cons show ?thesis by (auto simp: table_wf_def)
  qed
qed (simp add: table_wf_def)

lemma is_none_or_mono: "is_none_or P x \<Longrightarrow> (\<And>y. P y \<Longrightarrow> Q y) \<Longrightarrow> is_none_or Q x"
  by (cases x) simp_all

lemma user_save_wf:
  assumes "user_save u s = Inr s'" and "wf_user u" and "wf_people s"
  shows "wf_people s'"
proof -
  let ?r = "user_from_domain u"
  note s' = user_save_Ok(1) [OF assms(1)]
  have users: "table_wf usrrec_id (ppl_users s)" "table_wf usrrec_auth0_sub (ppl_users s)"
    "\<forall>r \<in> set (ppl_users s). is_ok (user_into_domain r)"
    using assms(3) by (simp_all add: wf_people_def wf_users_def)
  have "table_wf usrrec_auth0_sub (upsert_row usrrec_id ?r (ppl_users s))"
    using user_save_Ok(2) [OF assms(1)] users
    by (intro table_wf_upsert_other) (auto simp: user_from_domain_def)
  then have "wf_users (ppl_users s')"
    using users user_reload [OF assms(2)]
    by (auto simp: wf_users_def s' upsert_row_wf set_upsert_row)
  moreover have "wf_memberships s'" "wf_invitations s'"
    using assms(3)
    by (auto simp: wf_people_def wf_memberships_def wf_invitations_def invitation_row_ok_def s'
        elim!: is_none_or_mono)
  ultimately show ?thesis using assms(3) by (simp add: wf_people_def s')
qed

section \<open>Saving an invitation\<close>

text \<open>Trimming keeps every printable ASCII character.\<close>

lemma ws_front_take: "ch \<in> set (take (ws_front t) t) \<Longrightarrow> byte_of ch \<le> 32 \<or> 128 \<le> byte_of ch"
  by (induction t rule: ws_front.induct) (auto simp: ascii_ws_def ws2_def ws3_def split: if_splits)

lemma ws_back_take: "ch \<in> set (take (ws_back t) t) \<Longrightarrow> byte_of ch \<le> 32 \<or> 128 \<le> byte_of ch"
  by (induction t rule: ws_back.induct) (auto simp: ascii_ws_def ws2_def ws3_def split: if_splits)

lemma printable_drop:
  assumes "ch \<in> set t" and "ch \<notin> set (take n t)"
  shows "ch \<in> set (drop n t)"
  using assms by (metis Un_iff append_take_drop_id set_append)

lemma printable_trim_start:
  "ch \<in> set t \<Longrightarrow> 32 < byte_of ch \<Longrightarrow> byte_of ch < 128 \<Longrightarrow> ch \<in> set (trim_start t)"
proof (induction t rule: trim_start.induct)
  case (1 t)
  have "ch \<in> set (drop (ws_front t) t)"
    using 1(2-) ws_front_take [of ch t] by (intro printable_drop) auto
  with 1 show ?case by (cases "ws_front t = 0") (simp_all add: trim_start.simps [of t])
qed

lemma printable_trim_back:
  "ch \<in> set t \<Longrightarrow> 32 < byte_of ch \<Longrightarrow> byte_of ch < 128 \<Longrightarrow> ch \<in> set (trim_back t)"
proof (induction t rule: trim_back.induct)
  case (1 t)
  have "ch \<in> set (drop (ws_back t) t)"
    using 1(2-) ws_back_take [of ch t] by (intro printable_drop) auto
  with 1 show ?case by (cases "ws_back t = 0") (simp_all add: trim_back.simps [of t])
qed

lemma printable_trim:
  "ch \<in> set t \<Longrightarrow> 32 < byte_of ch \<Longrightarrow> byte_of ch < 128 \<Longrightarrow> ch \<in> set (trim t)"
  by (simp add: trim_def trim_end_def printable_trim_start printable_trim_back)

lemma at_sign_not_blank: "position (\<lambda>ch. ch = CHR ''@'') t \<noteq> None \<Longrightarrow> trim t \<noteq> []"
  using printable_trim [of "CHR ''@''" t] by (auto simp: position_None_iff)

text \<open>The constraints of the table imply what rebuilding an invitation checks.\<close>

lemma role_admin: "role_as_str r = ''admin'' \<longleftrightarrow> r = Admin"
  by (cases r) simp_all

lemma terminal_valid_iff:
  "terminal_valid a r u \<longleftrightarrow> (a = None) = (u = None) \<and> (a = None \<or> r = None)"
  by (cases a; cases r; cases u) simp_all

lemma invitation_checks_wf:
  assumes "\<forall>c \<in> set (invitation_checks lower (invitation_from_domain v)). \<not> fst c"
  shows "wf_invitation v"
  using assms at_sign_not_blank [of "inv_invited_email v"]
  by (simp add: invitation_checks_def Let_def invitation_from_domain_def wf_invitation_iff role_admin
      terminal_valid_iff delivery_valid_def between_one_and_def int_one_le_iff_zero_less) auto

lemma invitation_save_Ok:
  assumes "invitation_save lower v s = Inr s'"
  shows "s' = s\<lparr>ppl_invitations := upsert_row invrec_id (invitation_from_domain v) (ppl_invitations s)\<rparr>"
    and "\<forall>c \<in> set (invitation_violations lower s (invitation_from_domain v)). \<not> fst c"
    and "wf_invitation v"
proof -
  show "s' = s\<lparr>ppl_invitations := upsert_row invrec_id (invitation_from_domain v) (ppl_invitations s)\<rparr>"
    and viol: "\<forall>c \<in> set (invitation_violations lower s (invitation_from_domain v)). \<not> fst c"
    using assms by (simp_all add: invitation_save_def Let_def and_then_Ok_iff save_row_Ok_iff)
  show "wf_invitation v"
    using viol by (intro invitation_checks_wf [of lower]) (simp add: invitation_violations_def)
qed

lemma windows_collide_sym: "windows_collide a b \<longleftrightarrow> windows_collide b a"
  by (auto simp: windows_collide_def)

lemma invitation_save_wf:
  assumes "invitation_save lower v s = Inr s'" and "wf_people s"
  shows "wf_people s'"
proof -
  let ?r = "invitation_from_domain v"
  note s' = invitation_save_Ok(1) [OF assms(1)] and viol = invitation_save_Ok(2) [OF assms(1)]
  have old: "table_wf invrec_id (ppl_invitations s)" "\<forall>r \<in> set (ppl_invitations s). invitation_row_ok s r"
    "\<forall>a \<in> set (ppl_invitations s). \<forall>b \<in> set (ppl_invitations s).
          invrec_id a \<noteq> invrec_id b \<longrightarrow> \<not> windows_collide a b"
    using assms(2) by (simp_all add: wf_people_def wf_invitations_def)
  have rows: "set (ppl_invitations s') = insert ?r {x \<in> set (ppl_invitations s). invrec_id x \<noteq> invrec_id ?r}"
    using set_upsert_row [OF old(1)] by (simp add: s')
  have "is_ok (invitation_into_domain ?r)"
    using invitation_reload [OF invitation_save_Ok(3) [OF assms(1)]] by simp
  then have "invitation_row_ok s ?r"
    using viol by (simp add: invitation_row_ok_def invitation_violations_def)
  then have "\<forall>r \<in> set (ppl_invitations s'). invitation_row_ok s' r"
    using old(2) rows by (simp add: invitation_row_ok_def s')
  moreover have "\<forall>x \<in> set (ppl_invitations s). invrec_id x \<noteq> invrec_id ?r \<longrightarrow> \<not> windows_collide x ?r"
    using viol by (simp add: invitation_violations_def list_ex_iff) blast
  then have "\<forall>a \<in> set (ppl_invitations s'). \<forall>b \<in> set (ppl_invitations s').
      invrec_id a \<noteq> invrec_id b \<longrightarrow> \<not> windows_collide a b"
    using old(3) unfolding rows by (metis (no_types, lifting) insert_iff mem_Collect_eq windows_collide_sym)
  moreover have "table_wf invrec_id (ppl_invitations s')"
    using upsert_row_wf [OF old(1)] by (simp add: s')
  ultimately have "wf_invitations s'" by (simp add: wf_invitations_def)
  then show ?thesis using assms(2) by (simp add: wf_people_def wf_memberships_def s')
qed

lemma outbox_append_wf_people:
  "people_outbox_append c now m s = Inr s' \<Longrightarrow> wf_people s \<Longrightarrow> wf_people s'"
  by (auto simp: people_outbox_append_def wf_people_def wf_memberships_def wf_invitations_def
      invitation_row_ok_def intro: append_wf)

lemmas people_saves_wf =
  people_workspace_save_wf user_save_wf invitation_save_wf outbox_append_wf_people

end
