(* ===== verification/Invitation_Delivery.thy ===== *)
theory Invitation_Delivery
  imports People_Tables Worker_Messages
begin

text \<open>
  The worker's delivery of invitations (\<^verbatim>\<open>src/handlers/workspace_invitation_delivery.rs\<close>) and the mail
  adapter (\<^verbatim>\<open>src/mail.rs\<close>). A delivery runs in one unit of work over the tables of people; what it has
  handed to the mail provider stays with the provider when the unit of work is rolled back. The answer
  of the provider is an argument: a response status, or none where the request failed on the network.
\<close>

section \<open>Mail\<close>

record mail_message =
  mail_to :: string
  mail_subject :: string
  mail_text :: string
  mail_html :: string
  mail_idempotency_key :: string

datatype mail_failure_class = MailRetryable | MailPermanent

record mail_error =
  mail_error_class :: mail_failure_class
  mail_status_class :: string

definition classify_status :: "nat \<Rightarrow> mail_failure_class" where
  "classify_status status =
     (if status = 408 \<or> status = 429 \<or> (500 \<le> status \<and> status < 600) then MailRetryable else MailPermanent)"

definition status_class :: "nat \<Rightarrow> string" where
  "status_class status =
     (if 400 \<le> status \<and> status < 500 then ''4xx''
      else if 500 \<le> status \<and> status < 600 then ''5xx'' else ''other'')"

definition mail_send :: "nat option \<Rightarrow> mail_error + unit" where
  "mail_send response =
     (case response of
        None \<Rightarrow> Err \<lparr>mail_error_class = MailRetryable, mail_status_class = ''network''\<rparr>
      | Some status \<Rightarrow>
          if 200 \<le> status \<and> status < 300 then Ok ()
          else Err \<lparr>mail_error_class = classify_status status, mail_status_class = status_class status\<rparr>)"

fun replace_char :: "char \<Rightarrow> string \<Rightarrow> string \<Rightarrow> string" where
  "replace_char ch t [] = []"
| "replace_char ch t (x # xs) = (if x = ch then t else [x]) @ replace_char ch t xs"

definition escape_html :: "string \<Rightarrow> string" where
  "escape_html t =
     replace_char CHR 0x27 ''&#39;'' (replace_char CHR 0x22 ''&quot;'' (replace_char CHR ''>'' ''&gt;''
       (replace_char CHR ''<'' ''&lt;'' (replace_char CHR ''&'' ''&amp;'' t))))"

definition invitation_mail :: "workspace_invitation \<Rightarrow> string \<Rightarrow> string \<Rightarrow> string \<Rightarrow> mail_message" where
  "invitation_mail v workspace_name url key =
     \<lparr>mail_to = inv_invited_email v,
      mail_subject = ''Join '' @ workspace_name @ '' on Proofplane'',
      mail_text = ''You have been invited to join '' @ workspace_name @ '' as an administrator.''
        @ [CHR 0x0A, CHR 0x0A] @ ''Open this invitation: '' @ url
        @ [CHR 0x0A, CHR 0x0A] @ ''This link expires in seven days.'',
      mail_html = ''<p>You have been invited to join '' @ escape_html workspace_name
        @ '' as an administrator.</p><p><a href='' @ [CHR 0x22] @ escape_html url @ [CHR 0x22]
        @ ''>Open invitation</a></p><p>This link expires in seven days.</p>'',
      mail_idempotency_key = key\<rparr>"

section \<open>The handler\<close>

record delivery_env =
  de_people :: people_env
  de_max_delivery_attempts :: nat
  de_response :: "nat option"
  de_sent_at :: datetime

datatype delivery_outcome =
  DeliveryAcknowledged | DeliveryDone | DeliveryRefused mail_failure_class string | DeliveryRetry string

datatype delivery_error = DeliveryRepository repository_error | DeliveryMail

type_synonym delivery_world = "people \<times> mail_message list"

text \<open>The unit of work rolls the tables back on an error, and not the mail.\<close>

definition in_delivery_unit :: "(delivery_world, 'a) tx \<Rightarrow> (delivery_world, 'a) tx" where
  "in_delivery_unit m w =
     (case m w of (Inl e, w') \<Rightarrow> (Inl e, (fst w, snd w')) | (Inr x, w') \<Rightarrow> (Inr x, w'))"

definition on_people_read :: "(people \<Rightarrow> repository_error + 'a) \<Rightarrow> (delivery_world, 'a) tx" where
  "on_people_read f = tx_read (\<lambda>w. f (fst w))"

definition on_people_write :: "(people \<Rightarrow> repository_error + people) \<Rightarrow> (delivery_world, unit) tx" where
  "on_people_write f = tx_write (\<lambda>w. and_then (f (fst w)) (\<lambda>s. Ok (s, snd w)))"

definition hand_over :: "mail_message \<Rightarrow> (delivery_world, unit) tx" where
  "hand_over m = tx_write (\<lambda>w. Ok (fst w, snd w @ [m]))"

definition is_final_delivery :: "delivery_env \<Rightarrow> worker_message \<Rightarrow> bool" where
  "is_final_delivery env m =
     is_some_and (\<lambda>attempt. attempt \<ge> de_max_delivery_attempts env) (wm_delivery_attempt m)"

definition idempotency_key :: "uuid_codec \<Rightarrow> invitation_delivery_work \<Rightarrow> string" where
  "idempotency_key c work =
     ''workspace-invitation/'' @ uuid_text c (work_invitation_id work) @ ''/'' @ show_int (work_generation work)"

definition delivery_failure_of :: "bool \<Rightarrow> mail_error \<Rightarrow> delivery_failure" where
  "delivery_failure_of is_final e =
     (if is_final then Exhausted else if mail_error_class e = MailPermanent then Permanent else Retryable)"

text \<open>What the answer of the provider leaves in the invitation.\<close>

definition record_delivery ::
  "delivery_env \<Rightarrow> bool \<Rightarrow> i64 \<Rightarrow> workspace_invitation \<Rightarrow> (delivery_world, delivery_outcome) tx" where
  "record_delivery env is_final generation v =
     (let save = \<lambda>v. on_people_write (invitation_save (pe_lower (de_people env)) v) in
      case mail_send (de_response env) of
        Inr _ \<Rightarrow>
          (case record_delivery_success generation (de_sent_at env) v of
             (v, DeliveryApplied) \<Rightarrow> tx_bind (save v) (\<lambda>_. tx_return DeliveryDone)
           | (v, DeliveryIgnored) \<Rightarrow> tx_return DeliveryAcknowledged)
      | Inl e \<Rightarrow>
          (case record_delivery_failure generation (delivery_failure_of is_final e) (de_sent_at env) v of
             (v, DeliveryApplied) \<Rightarrow> tx_bind (save v) (\<lambda>_. tx_return
               (if mail_error_class e = MailRetryable \<and> \<not> is_final then DeliveryRetry (mail_status_class e)
                else DeliveryRefused (mail_error_class e) (mail_status_class e)))
           | (v, DeliveryIgnored) \<Rightarrow> tx_return DeliveryAcknowledged))"

definition deliver_tx ::
  "delivery_env \<Rightarrow> worker_message \<Rightarrow> invitation_delivery_work \<Rightarrow> (delivery_world, delivery_outcome) tx" where
  "deliver_tx env m work =
     (let pe = de_people env in
      tx_bind (on_people_read (invitation_get (WorkspaceInvitationId (work_invitation_id work)))) (\<lambda>found.
      case found of
        None \<Rightarrow> tx_return DeliveryAcknowledged
      | Some v \<Rightarrow>
      if inv_generation v \<noteq> work_generation work \<or> invitation_status_at (pe_now pe) v \<noteq> InvPending
        \<or> inv_delivered_generation v = Some (work_generation work)
      then tx_return DeliveryAcknowledged
      else tx_bind (on_people_read (workspace_details_get (inv_workspace_id v))) (\<lambda>workspace.
      case workspace of
        None \<Rightarrow> tx_return DeliveryAcknowledged
      | Some w \<Rightarrow>
      tx_bind (tx_lift (map_err (\<lambda>_. InvariantViolation ''current invitation authority must issue'')
        (issue_at (pe_token pe) (pe_nonce pe) (pe_authority pe) (authority_source_of v) (pe_now pe)))) (\<lambda>url.
      tx_bind (hand_over (invitation_mail v (wd_name w) url (idempotency_key (pe_uuid pe) work))) (\<lambda>_.
      record_delivery env (is_final_delivery env m) (work_generation work) v)))))"

definition handle_invitation_delivery ::
  "delivery_env \<Rightarrow> worker_message \<Rightarrow> delivery_world \<Rightarrow> (delivery_error + unit) \<times> delivery_world" where
  "handle_invitation_delivery env m w =
     (case invitation_work_from_json (pe_uuid (de_people env)) (wm_payload m) of
        None \<Rightarrow> (Ok (), w)
      | Some work \<Rightarrow>
          if work_generation work \<le> 0 then (Ok (), w)
          else if wm_aggregate_id m \<noteq> uuid_text (pe_uuid (de_people env)) (work_invitation_id work)
          then (Ok (), w)
          else apfst (\<lambda>r. and_then (map_err DeliveryRepository r) (\<lambda>out.
                 case out of DeliveryRetry _ \<Rightarrow> Err DeliveryMail | _ \<Rightarrow> Ok ()))
              (in_delivery_unit (deliver_tx env m work) w))"

end
