(* ===== verification/People_Safety.thy ===== *)
theory People_Safety
  imports Invitation_Delivery
begin

text \<open>
  What holds of the people of every reachable database. The commands and the deliveries of the worker are
  the steps (\<open>people_step\<close>); the properties show that every workspace keeps an owner and every user one
  workspace, that a user becomes a member only by creating a workspace or by accepting a pending
  invitation to the address the user has proved, and that mail goes out only for the pending generation
  of an invitation.
\<close>

section \<open>Steps\<close>

datatype people_command =
    CreateWorkspaceCmd create_owned_workspace
  | RemoveMemberCmd remove_workspace_member
  | ProvisionCmd people_env provision_user
  | LoginCmd record_user_login
  | CreateInvitationCmd people_env create_workspace_invitation execution_metadata
  | ResendInvitationCmd people_env resend_workspace_invitation execution_metadata
  | RevokeInvitationCmd people_env revoke_workspace_invitation
  | AcceptInvitationCmd people_env accept_workspace_invitation
  | DeliverInvitationCmd delivery_env worker_message

fun people_step :: "people_command \<Rightarrow> people \<Rightarrow> people" where
  "people_step (CreateWorkspaceCmd cmd) s = snd (handle_create_owned_workspace cmd s)"
| "people_step (RemoveMemberCmd cmd) s = snd (handle_remove_workspace_member cmd s)"
| "people_step (ProvisionCmd env cmd) s = snd (handle_provision_user env cmd s)"
| "people_step (LoginCmd cmd) s = snd (handle_record_user_login cmd s)"
| "people_step (CreateInvitationCmd env cmd md) s = snd (handle_create_workspace_invitation env cmd md s)"
| "people_step (ResendInvitationCmd env cmd md) s = snd (handle_resend_workspace_invitation env cmd md s)"
| "people_step (RevokeInvitationCmd env cmd) s = snd (handle_revoke_workspace_invitation env cmd s)"
| "people_step (AcceptInvitationCmd env cmd) s = snd (handle_accept_workspace_invitation env cmd s)"
| "people_step (DeliverInvitationCmd env m) s = fst (snd (handle_invitation_delivery env m (s, [])))"

lemma delivery_unit_post:
  assumes "tx_ensures m (\<lambda>x t. P (fst t)) w" and "P (fst w)"
  shows "P (fst (snd (in_delivery_unit m w)))"
  using assms by (auto simp: tx_ensures_def in_delivery_unit_def split: prod.splits sum.splits)

lemmas handler_defs =
  handle_create_owned_workspace_def handle_remove_workspace_member_def handle_provision_user_def
  handle_record_user_login_def handle_create_workspace_invitation_def
  handle_resend_workspace_invitation_def handle_revoke_workspace_invitation_def
  handle_accept_workspace_invitation_def handle_invitation_delivery_def

lemma on_people_ensures [tx_post]:
  "tx_ensures (on_people_read f) Q w \<longleftrightarrow> (\<forall>x. f (fst w) = Inr x \<longrightarrow> Q x w)"
  "tx_ensures (on_people_write g) R w \<longleftrightarrow> (\<forall>s. g (fst w) = Inr s \<longrightarrow> R () (s, snd w))"
  "tx_ensures (hand_over m) R w \<longleftrightarrow> R () (fst w, snd w @ [m])"
  by (auto simp: on_people_read_def on_people_write_def hand_over_def tx_post and_then_Ok_iff)

section \<open>The invariant\<close>

lemma create_owned_workspace_keeps:
  "wf_people s \<Longrightarrow> tx_ensures (create_owned_workspace_tx cmd) (\<lambda>_. wf_people) s"
  by (simp add: create_owned_workspace_tx_def tx_post Let_def create_owned_wf split: option.split)
    (blast intro: people_workspace_save_wf create_owned_wf)

lemma people_workspace_get_wf: "people_workspace_get i s = Inr (Some w) \<Longrightarrow> wf_workspace w \<and> ws_id w = i"
  by (simp add: people_workspace_get_def workspace_get_wf)

lemma remove_workspace_member_keeps:
  assumes "wf_people s"
  shows "tx_ensures (remove_workspace_member_tx cmd) (\<lambda>_. wf_people) s"
proof -
  have "wf_people t"
    if "people_workspace_get i s = Inr (Some w)" "remove_member a b w = Inr w'"
      "people_workspace_save w' s = Inr t" for i w w' a b t
    using people_workspace_save_wf [OF that(3) remove_member_wf [OF _ that(2)] assms]
      people_workspace_get_wf [OF that(1)] by blast
  with assms show ?thesis by (simp add: remove_workspace_member_tx_def tx_post) blast
qed

lemma user_get_wf: "user_get i s = Inr (Some u) \<Longrightarrow> wf_user u"
  by (cases "find_row usrrec_id (user_uuid i) (ppl_users s)")
    (auto simp: user_get_def and_then_Ok_iff dest: user_loaded_wf)

lemma provision_profile_wf: "wf_user u \<Longrightarrow> wf_user (fst (provision_profile e n u))"
  using user_step_wf [of u "ProfileOp e n"] by simp

lemma record_login_wf: "wf_user u \<Longrightarrow> record_login t u = Inr (u', x) \<Longrightarrow> wf_user u'"
  using user_step_wf [of u "LoginOp t"] by simp

lemma provision_user_keeps:
  "wf_people s \<Longrightarrow> tx_ensures (provision_user_tx env cmd) (\<lambda>_. wf_people) s"
  by (simp add: provision_user_tx_def tx_post split: option.split)
    (blast intro: user_save_wf provision_profile_wf user_provision_wf dest: user_get_wf)

lemma record_user_login_keeps:
  "wf_people s \<Longrightarrow> tx_ensures (record_user_login_tx cmd) (\<lambda>_. wf_people) s"
  by (simp add: record_user_login_tx_def tx_post split: option.split prod.split)
    (blast intro: user_save_wf record_login_wf dest: user_get_wf)

text \<open>What the appends and the joins of a handler come to, for its postcondition.\<close>

lemma append_delivery_command_post [tx_post]:
  "tx_ensures (append_delivery_command env i g md) Q s \<longleftrightarrow>
     Q () (s\<lparr>ppl_outbox := snd (append_outbox_message (pe_uuid env) (pe_now env)
       \<lparr>new_topic = message_bus_topic,
        new_message = send_workspace_invitation (pe_uuid env) (pe_message_id env) (invitation_uuid i) g
          (option_or (exec_correlation_id md) (exec_request_id md)) (exec_causation_id md)\<rparr>
       (ppl_outbox s))\<rparr>)"
  by (simp add: append_delivery_command_def tx_post people_outbox_append_def)

lemma outbox_update_wf:
  "wf_people s \<Longrightarrow> wf_people (s\<lparr>ppl_outbox := snd (append_outbox_message c now m (ppl_outbox s))\<rparr>)"
  by (rule outbox_append_wf_people [of c now m s]) (simp_all add: people_outbox_append_def)

lemma create_workspace_invitation_keeps:
  "wf_people s \<Longrightarrow> tx_ensures (create_workspace_invitation_tx env cmd email md) (\<lambda>_. wf_people) s"
  by (simp add: create_workspace_invitation_tx_def tx_post)
    (blast intro: invitation_save_wf outbox_update_wf)

lemma managed_invitation_post:
  assumes "\<And>x. Q x s"
  shows "tx_ensures (managed_invitation actor i) Q s"
  using assms by (simp add: managed_invitation_def tx_post)

lemma resend_workspace_invitation_keeps:
  "wf_people s \<Longrightarrow> tx_ensures (resend_workspace_invitation_tx env cmd md) (\<lambda>_. wf_people) s"
  by (simp add: resend_workspace_invitation_tx_def tx_post, rule managed_invitation_post)
    (auto simp: tx_post intro: invitation_save_wf outbox_update_wf)

lemma revoke_workspace_invitation_keeps:
  "wf_people s \<Longrightarrow> tx_ensures (revoke_workspace_invitation_tx env cmd) (\<lambda>_. wf_people) s"
  by (simp add: revoke_workspace_invitation_tx_def tx_post, rule managed_invitation_post)
    (auto simp: tx_post intro: invitation_save_wf)

lemma accept_workspace_invitation_keeps:
  assumes "wf_people s"
  shows "tx_ensures (accept_workspace_invitation_tx env cmd claims email) (\<lambda>_. wf_people) s"
proof -
  have join: "wf_people t"
    if "people_workspace_get i s = Inr (Some w)" "add_member u r at w = Inr w'"
      "people_workspace_save w' s = Inr t" for i w u r at w' t
    using people_workspace_save_wf [OF that(3) add_member_wf [OF _ that(2)] assms]
      people_workspace_get_wf [OF that(1)] by blast
  show ?thesis
    using assms join
    by (simp add: accept_workspace_invitation_tx_def replay_acceptance_def join_workspace_def tx_post)
      (blast intro: invitation_save_wf)
qed

lemma record_delivery_keeps:
  "wf_people (fst w) \<Longrightarrow> tx_ensures (record_delivery env b g v) (\<lambda>_ t. wf_people (fst t)) w"
  by (simp add: record_delivery_def Let_def tx_post split: sum.split prod.split delivery_update.split)
    (blast intro: invitation_save_wf)

lemma deliver_keeps:
  "wf_people (fst w) \<Longrightarrow> tx_ensures (deliver_tx env m work) (\<lambda>_ t. wf_people (fst t)) w"
  by (simp add: deliver_tx_def Let_def tx_post record_delivery_keeps)

lemmas commands_keep =
  create_owned_workspace_keeps remove_workspace_member_keeps provision_user_keeps
  record_user_login_keeps create_workspace_invitation_keeps resend_workspace_invitation_keeps
  revoke_workspace_invitation_keeps accept_workspace_invitation_keeps

lemma people_step_wf: "wf_people s \<Longrightarrow> wf_people (people_step c s)"
proof (cases c)
  case (DeliverInvitationCmd env m)
  assume "wf_people s"
  then have "wf_people (fst (snd (in_delivery_unit (deliver_tx env m work) (s, []))))" for work
    using delivery_unit_post [where P = wf_people, OF deliver_keeps] by simp
  with \<open>wf_people s\<close> show ?thesis
    by (simp add: DeliverInvitationCmd handle_invitation_delivery_def split: option.split)
qed (simp_all add: handler_defs commands_keep unit_of_work_post [where P = wf_people] split: option.split sum.split)

interpretation ppl: aggregate people_step "\<lambda>_ _. True" wf_people
  by unfold_locales (rule people_step_wf)

section \<open>Memberships\<close>

definition is_member :: "people \<Rightarrow> user_id \<Rightarrow> workspace_id \<Rightarrow> bool" where
  "is_member s u i \<longleftrightarrow>
     list_ex (\<lambda>m. memrec_user_id m = user_uuid u \<and> memrec_workspace_id m = workspace_uuid i)
       (memberships_table (ppl_workspaces s))"

lemma loaded_members:
  assumes "collect_results (map workspace_membership_from_row rows) = Inr ms"
  shows "map membership_from_domain ms = rows"
  using assms
proof (induction rows arbitrary: ms)
  case (Cons r rows)
  then obtain m ms' where "workspace_membership_from_row r = Inr m" "ms = m # ms'"
    "collect_results (map workspace_membership_from_row rows) = Inr ms'"
    by (auto simp: and_then_Ok_iff)
  moreover have "membership_from_domain m = r" if "workspace_membership_from_row r = Inr m"
    using that role_from_str_Ok
    by (cases r) (auto simp: workspace_membership_from_row_def and_then_Ok_iff membership_from_domain_def
        split: sum.splits)
  ultimately show ?case using Cons.IH by simp
qed simp

lemma loaded_workspace_rows:
  assumes "workspace_get i t = Inr (Some w)"
  shows "set (map membership_from_domain (ws_memberships w))
       = {m \<in> set (memberships_table t). memrec_workspace_id m = workspace_uuid i}"
proof -
  from assms obtain r ms where r: "find_row wsrec_id (workspace_uuid i) (workspaces_table t) = Some r"
    and ms: "collect_results (map workspace_membership_from_row (sort_key membership_order
        (filter (\<lambda>m. memrec_workspace_id m = wsrec_id r) (memberships_table t)))) = Inr ms"
    and w: "ws_memberships w = ms"
    by (auto simp: workspace_get_def aggregate_from_workspace_row_def workspace_into_domain_def
        and_then_Ok_iff workspace_rehydrate_Ok_iff split: option.splits)
  show ?thesis using loaded_members [OF ms] find_row_SomeD [OF r] w by simp
qed

lemma user_uuid_eq [simp]: "user_uuid a = user_uuid b \<longleftrightarrow> a = b"
  using user_id.expand by auto

lemma workspace_uuid_eq [simp]: "workspace_uuid a = workspace_uuid b \<longleftrightarrow> a = b"
  using workspace_id.expand by auto

lemma is_member_loaded:
  assumes "people_workspace_get i s = Inr (Some w)"
  shows "is_member s u i \<longleftrightarrow> role_for u w \<noteq> None"
proof -
  have "is_member s u i \<longleftrightarrow>
      (\<exists>m \<in> {m \<in> set (memberships_table (ppl_workspaces s)). memrec_workspace_id m = workspace_uuid i}.
         memrec_user_id m = user_uuid u)"
    by (auto simp: is_member_def list_ex_iff)
  also have "\<dots> \<longleftrightarrow> (\<exists>m \<in> set (map membership_from_domain (ws_memberships w)). memrec_user_id m = user_uuid u)"
    using loaded_workspace_rows [of i "ppl_workspaces s" w] assms by (simp add: people_workspace_get_def)
  also have "\<dots> \<longleftrightarrow> role_for u w \<noteq> None" by (auto simp: role_for_None_iff)
  finally show ?thesis .
qed

lemma is_member_saved:
  assumes "people_workspace_save w s = Inr s'" and "wf_workspace w"
  shows "is_member s' u i \<longleftrightarrow> (if i = ws_id w then role_for u w \<noteq> None else is_member s u i)"
proof -
  from people_workspace_save_Ok [OF assms(1)] obtain t where
    t: "workspace_save w (ppl_workspaces s) = Inr t" "s' = s\<lparr>ppl_workspaces := t\<rparr>" by blast
  show ?thesis
    using assms(2) unfolding is_member_def t(2) list_ex_iff
    by (auto simp: workspace_save_Ok(2) [OF t(1)] wf_workspace_def role_for_None_iff bex_Un)
qed

lemma is_member_unchanged: "ppl_workspaces s' = ppl_workspaces s \<Longrightarrow> is_member s' u i = is_member s u i"
  by (simp add: is_member_def)

lemma no_workspace_no_member:
  "wf_people s \<Longrightarrow> workspace_details_get i s = Inr None \<Longrightarrow> \<not> is_member s u i"
  by (simp add: wf_people_def wf_memberships_def is_member_def list_ex_iff workspace_details_get_def
      find_row_None_iff row_exists_iff) metis

lemma resolve_is_member:
  assumes "wf_people s"
  shows "resolve_id_for_member u s = Inr (Some i) \<longleftrightarrow> is_member s u i"
proof -
  have "table_wf memrec_user_id (memberships_table (ppl_workspaces s))"
    using assms by (simp add: wf_people_def wf_workspace_tables_def)
  from find_row_iff [OF this, of "user_uuid u"] show ?thesis
    by (auto simp: resolve_id_for_member_def is_member_def list_ex_iff)
qed

text \<open>The commands that leave every membership as it is.\<close>

lemma managed_invitation_same [tx_post]:
  "tx_ensures (managed_invitation actor i) Q s \<longleftrightarrow>
     (\<forall>x. fst (managed_invitation actor i s) = Inr x \<longrightarrow> Q x s)"
proof -
  have "snd (managed_invitation actor i s) = s"
    by (simp add: managed_invitation_def tx_defs split: option.split sum.split prod.split)
  then show ?thesis
    by (cases "managed_invitation actor i s") (simp add: tx_ensures_def)
qed

lemma invitation_save_workspaces: "invitation_save lower v s = Inr t \<Longrightarrow> ppl_workspaces t = ppl_workspaces s"
  using invitation_save_Ok(1) [of lower v s t] by simp

lemma user_save_workspaces: "user_save u s = Inr t \<Longrightarrow> ppl_workspaces t = ppl_workspaces s"
  using user_save_Ok(1) [of u s t] by simp

lemma same_workspaces:
  "tx_ensures (provision_user_tx env pu) (\<lambda>_ t. ppl_workspaces t = ppl_workspaces s) s"
  "tx_ensures (record_user_login_tx rl) (\<lambda>_ t. ppl_workspaces t = ppl_workspaces s) s"
  "tx_ensures (create_workspace_invitation_tx env ci email md) (\<lambda>_ t. ppl_workspaces t = ppl_workspaces s) s"
  "tx_ensures (resend_workspace_invitation_tx env ri md) (\<lambda>_ t. ppl_workspaces t = ppl_workspaces s) s"
  "tx_ensures (revoke_workspace_invitation_tx env vi) (\<lambda>_ t. ppl_workspaces t = ppl_workspaces s) s"
  by (simp_all add: provision_user_tx_def record_user_login_tx_def create_workspace_invitation_tx_def
      resend_workspace_invitation_tx_def revoke_workspace_invitation_tx_def tx_post
      invitation_save_workspaces user_save_workspaces)

lemma deliver_same_workspaces:
  "tx_ensures (deliver_tx env m work) (\<lambda>_ t. ppl_workspaces (fst t) = ppl_workspaces (fst w)) w"
  by (simp add: deliver_tx_def record_delivery_def Let_def tx_post invitation_save_workspaces
      split: sum.split prod.split delivery_update.split)


text \<open>The three commands that change memberships, and how.\<close>

lemma create_owned_members:
  assumes "wf_people s"
  shows "tx_ensures (create_owned_workspace_tx cmd) (\<lambda>_ t. \<forall>u i. is_member t u i = is_member s u i
     \<or> is_member t u i \<and> u = cow_actor_user_id cmd \<and> i = cow_workspace_id cmd
       \<and> workspace_details_get i s = Inr None) s"
proof -
  have "is_member t u i = is_member s u i
     \<or> is_member t u i \<and> u = cow_actor_user_id cmd \<and> i = cow_workspace_id cmd"
    if "workspace_details_get (cow_workspace_id cmd) s = Inr None"
      "people_workspace_save (create_owned (cow_workspace_id cmd) slug nm at (cow_actor_user_id cmd)) s = Inr t"
    for slug nm at t u i
    using is_member_saved [OF that(2) create_owned_wf, of u i] no_workspace_no_member [OF assms that(1), of u]
    by (auto simp: create_owned_def role_for_def split: if_splits)
  then show ?thesis
    by (simp add: create_owned_workspace_tx_def tx_post Let_def) blast
qed

lemma remove_members:
  assumes "wf_people s"
  shows "tx_ensures (remove_workspace_member_tx cmd) (\<lambda>_ t. \<forall>u i. is_member t u i = is_member s u i
     \<or> is_member s u i \<and> u = rwm_target_user_id cmd \<and> rwm_actor_user_id cmd \<noteq> u
       \<and> is_member s (rwm_actor_user_id cmd) i) s"
proof -
  let ?a = "rwm_actor_user_id cmd" and ?b = "rwm_target_user_id cmd"
  have "is_member t u i = is_member s u i \<or> is_member s u i \<and> u = ?b \<and> ?a \<noteq> u \<and> is_member s ?a i"
    if k: "resolve_id_for_member ?a s = Inr (Some k)" and w: "people_workspace_get k s = Inr (Some w)"
      and w': "remove_member ?a ?b w = Inr w'" and t: "people_workspace_save w' s = Inr t" for k w w' t u i
  proof -
    note wf = people_workspace_get_wf [OF w]
    from wf have "wf_workspace w" ..
    from this w' obtain ys m zs where removed: "ws_memberships w = ys @ m # zs" "mem_user_id m = ?b"
      "w' = w\<lparr>ws_memberships := ys @ zs\<rparr>" "?a \<noteq> ?b" "role_for ?a w \<noteq> None"
      by (rule remove_member_Ok)
    have "role_for u w' \<noteq> None \<longleftrightarrow> role_for u w \<noteq> None \<and> u \<noteq> ?b"
      using wf removed(1,2) by (auto simp: role_for_None_iff removed(3) wf_workspace_def image_iff)
    with is_member_saved [OF t remove_member_wf [OF _ w'], of u i] wf removed show ?thesis
      by (auto simp: is_member_loaded [OF w] split: if_splits)
  qed
  then show ?thesis by (simp add: remove_workspace_member_tx_def tx_post)
qed

lemma accept_members:
  assumes "wf_people s"
  shows "tx_ensures (accept_workspace_invitation_tx env cmd claims email) (\<lambda>_ t. \<forall>u i.
     is_member t u i = is_member s u i
     \<or> is_member t u i \<and> u = awi_user_id cmd \<and> resolve_id_for_member u s = Inr None
       \<and> (\<exists>v. invitation_get (vi_invitation_id claims) s = Inr (Some v) \<and> inv_workspace_id v = i
            \<and> inv_generation v = vi_generation claims \<and> inv_expires_at v = vi_expires_at claims
            \<and> invitation_status_at (awi_accepted_at cmd) v = InvPending \<and> inv_invited_email v = email)) s"
proof -
  let ?u = "awi_user_id cmd"
  have joined: "is_member t u i = is_member s u i
      \<or> is_member t u i \<and> u = ?u \<and> resolve_id_for_member u s = Inr None \<and> k = i"
    if w: "people_workspace_get k s = Inr (Some w)" and new: "role_for ?u w = None"
      and x: "resolve_id_for_member ?u s = Inr x" "\<not> is_some_and (\<lambda>i. i \<noteq> k) x"
      and w': "add_member ?u Admin at w = Inr w'" and t: "people_workspace_save w' s = Inr t"
    for k w x w' t u i at
  proof -
    note wf = people_workspace_get_wf [OF w]
    have "role_for u w' \<noteq> None \<longleftrightarrow> role_for u w \<noteq> None \<or> u = ?u" "ws_id w' = ws_id w"
      using w' by (auto simp: add_member_def role_for_None_iff split: if_splits)
    moreover have "resolve_id_for_member ?u s = Inr None"
      using x new is_member_loaded [OF w, of ?u] resolve_is_member [OF assms, of ?u k] by (cases x) auto
    ultimately show ?thesis using is_member_saved [OF t add_member_wf [OF _ w'], of u i] wf
      by (auto simp: is_member_loaded [OF w] split: if_splits)
  qed
  have current: "invitation_status_at at v = InvPending" if "is_ok (ensure_current g x at v)" for g x at v
    using that by (simp add: ensure_current_def split: if_splits)
  have saved: "is_member t' u i = is_member t u i" if "invitation_save lower v t = Inr t'" for lower v t t' u i
    using invitation_save_workspaces [OF that] by (rule is_member_unchanged)
  show ?thesis
    by (simp add: accept_workspace_invitation_tx_def replay_acceptance_def join_workspace_def tx_post)
      (use joined current saved in blast)
qed


text \<open>Why a membership is as it was before a step or not.\<close>

definition joined_by_right :: "people_command \<Rightarrow> people \<Rightarrow> user_id \<Rightarrow> workspace_id \<Rightarrow> bool" where
  "joined_by_right c s u i \<longleftrightarrow>
     (\<exists>cmd. c = CreateWorkspaceCmd cmd \<and> cow_actor_user_id cmd = u \<and> cow_workspace_id cmd = i
        \<and> workspace_details_get i s = Inr None)
     \<or> (\<exists>env cmd claims v. c = AcceptInvitationCmd env cmd \<and> awi_user_id cmd = u
        \<and> verify_at (pe_token env) (pe_authority env) (awi_token cmd) (pe_now env) = Inr claims
        \<and> invitation_get (vi_invitation_id claims) s = Inr (Some v) \<and> inv_workspace_id v = i
        \<and> inv_generation v = vi_generation claims \<and> inv_expires_at v = vi_expires_at claims
        \<and> invitation_status_at (awi_accepted_at cmd) v = InvPending
        \<and> normalize_email (pe_email_valid env) (awi_verified_email cmd) = Some (inv_invited_email v)
        \<and> resolve_id_for_member u s = Inr None)"

definition removed_by_right :: "people_command \<Rightarrow> people \<Rightarrow> user_id \<Rightarrow> workspace_id \<Rightarrow> bool" where
  "removed_by_right c s u i \<longleftrightarrow>
     (\<exists>cmd. c = RemoveMemberCmd cmd \<and> rwm_target_user_id cmd = u \<and> rwm_actor_user_id cmd \<noteq> u
        \<and> is_member s (rwm_actor_user_id cmd) i)"

definition members_explained :: "people_command \<Rightarrow> people \<Rightarrow> people \<Rightarrow> bool" where
  "members_explained c s t \<longleftrightarrow>
     (\<forall>u i. is_member t u i = is_member s u i
        \<or> is_member t u i \<and> joined_by_right c s u i \<or> is_member s u i \<and> removed_by_right c s u i)"

lemma members_explained_same: "ppl_workspaces t = ppl_workspaces s \<Longrightarrow> members_explained c s t"
  unfolding members_explained_def using is_member_unchanged by blast

lemma tx_ensures_mono:
  assumes "tx_ensures m P s" and "\<And>x t. P x t \<Longrightarrow> Q x t"
  shows "tx_ensures m Q s"
  using assms by (auto simp: tx_ensures_def)

lemma same_workspaces_explained:
  assumes "tx_ensures m (\<lambda>_ t. ppl_workspaces t = ppl_workspaces s) s"
  shows "members_explained c s (snd (in_unit_of_work m s))"
  using unit_of_work_post [where P = "\<lambda>t. ppl_workspaces t = ppl_workspaces s", OF assms]
  by (simp add: members_explained_same)

lemma accept_explained:
  assumes "wf_people s"
    and "verify_at (pe_token env) (pe_authority env) (awi_token cmd) (pe_now env) = Inr claims"
    and "normalize_email (pe_email_valid env) (awi_verified_email cmd) = Some email"
  shows "members_explained (AcceptInvitationCmd env cmd) s
     (snd (in_unit_of_work (accept_workspace_invitation_tx env cmd claims email) s))"
proof -
  have "tx_ensures (accept_workspace_invitation_tx env cmd claims email)
      (\<lambda>_. members_explained (AcceptInvitationCmd env cmd) s) s"
    using accept_members [OF assms(1)]
    by (rule tx_ensures_mono) (use assms(2,3) in \<open>simp add: members_explained_def joined_by_right_def; blast\<close>)
  then show ?thesis by (rule unit_of_work_post) (simp add: members_explained_same)
qed

lemma people_step_explained:
  assumes "wf_people s"
  shows "members_explained c s (people_step c s)"
proof (cases c)
  case (CreateWorkspaceCmd cmd)
  have "tx_ensures (create_owned_workspace_tx cmd) (\<lambda>_. members_explained c s) s"
    using create_owned_members [OF assms]
    by (rule tx_ensures_mono) (auto simp: CreateWorkspaceCmd members_explained_def joined_by_right_def)
  from unit_of_work_post [OF this] show ?thesis
    by (simp add: CreateWorkspaceCmd handle_create_owned_workspace_def members_explained_same)
next
  case (RemoveMemberCmd cmd)
  have "tx_ensures (remove_workspace_member_tx cmd) (\<lambda>_. members_explained c s) s"
    using remove_members [OF assms]
    by (rule tx_ensures_mono) (auto simp: RemoveMemberCmd members_explained_def removed_by_right_def)
  from unit_of_work_post [OF this] show ?thesis
    by (simp add: RemoveMemberCmd handle_remove_workspace_member_def members_explained_same)
next
  case (DeliverInvitationCmd env m)
  have "ppl_workspaces (fst (snd (in_delivery_unit (deliver_tx env m work) (s, [])))) = ppl_workspaces s" for work
    using delivery_unit_post [where P = "\<lambda>t. ppl_workspaces t = ppl_workspaces s",
        OF deliver_same_workspaces [where w = "(s, [])", simplified]] by simp
  then show ?thesis
    by (simp add: DeliverInvitationCmd handle_invitation_delivery_def members_explained_same split: option.split)
qed (use assms in \<open>simp_all add: handler_defs same_workspaces_explained same_workspaces accept_explained
    members_explained_same split: option.split sum.split\<close>)

section \<open>A sample\<close>

definition people_sample_env :: people_env where
  "people_sample_env =
     \<lparr>pe_uuid = simple_uuid_codec, pe_token = dotted_token_env, pe_email_valid = (\<lambda>_. True),
      pe_lower = (\<lambda>t. t),
      pe_authority = \<lparr>ia_base_url = ''https://app'', ia_active_key_id = ''k'', ia_active_key = [1],
        ia_keys = [''k'' \<mapsto> [1]]\<rparr>,
      pe_now = 5000000000, pe_message_id = 90, pe_user_id = 1, pe_nonce = []\<rparr>"

definition sample_people :: people where
  "sample_people = fold people_step
     [ProvisionCmd people_sample_env \<lparr>pu_auth0_sub = ''owner'', pu_email = None, pu_name = None\<rparr>,
      ProvisionCmd (people_sample_env\<lparr>pe_user_id := 2\<rparr>) \<lparr>pu_auth0_sub = ''guest'', pu_email = None, pu_name = None\<rparr>,
      CreateWorkspaceCmd \<lparr>cow_workspace_id = WorkspaceId 7, cow_actor_user_id = UserId 1, cow_slug = None,
        cow_name = ''acme'', cow_created_at = 5000000000\<rparr>] no_people"

lemmas people_eval =
  handler_defs provision_user_tx_def create_owned_workspace_tx_def tx_defs in_unit_of_work_def
  resolve_id_by_auth0_sub_def resolve_id_for_member_def find_row_def user_save_def save_row_def
  first_violation_def row_exists_def user_provision_def user_from_domain_def workspace_details_get_def
  people_workspace_save_def workspace_from_domain_def slug_taken_def delete_rows_def create_owned_def
  membership_from_domain_def

lemma sample_people_eq: "sample_people =
   \<lparr>ppl_workspaces = \<lparr>workspaces_table = [\<lparr>wsrec_id = 7, wsrec_slug = None, wsrec_name = ''acme'', wsrec_created_at = 5000000000\<rparr>],
      memberships_table = [\<lparr>memrec_user_id = 1, memrec_workspace_id = 7, memrec_role = ''owner'', memrec_created_at = 5000000000\<rparr>]\<rparr>,
    ppl_users = [\<lparr>usrrec_id = 1, usrrec_auth0_sub = ''owner'', usrrec_email = None, usrrec_name = None,
        usrrec_last_login_at = None, usrrec_created_at = 5000000000\<rparr>,
      \<lparr>usrrec_id = 2, usrrec_auth0_sub = ''guest'', usrrec_email = None, usrrec_name = None,
        usrrec_last_login_at = None, usrrec_created_at = 5000000000\<rparr>],
    ppl_invitations = [], ppl_outbox = \<lparr>outbox_rows = [], outbox_next_id = 1\<rparr>\<rparr>"
  by (simp add: sample_people_def no_people_def people_sample_env_def people_eval Let_def)

section \<open>Properties\<close>

lemma owner_row:
  assumes "is_ok (aggregate_from_workspace_row r ms)"
  shows "\<exists>m \<in> set ms. memrec_workspace_id m = wsrec_id r \<and> memrec_role m = ''owner''"
proof -
  let ?rows = "sort_key membership_order (filter (\<lambda>m. memrec_workspace_id m = wsrec_id r) ms)"
  from assms obtain w where w: "aggregate_from_workspace_row r ms = Inr w" by (metis is_ok.elims(2))
  then obtain xs where xs: "collect_results (map workspace_membership_from_row ?rows) = Inr xs"
    and "ws_memberships w = xs" "wf_workspace w"
    by (auto simp: aggregate_from_workspace_row_def workspace_into_domain_def and_then_Ok_iff
        workspace_rehydrate_Ok_iff)
  then obtain m where "m \<in> set xs" "mem_role m = Owner" by (auto simp: wf_workspace_def)
  moreover from this(1) have "membership_from_domain m \<in> set ?rows"
    using loaded_members [OF xs] by (metis image_eqI list.set_map)
  moreover have "memrec_role (membership_from_domain m) = ''owner''"
    using \<open>mem_role m = Owner\<close> by (simp add: membership_from_domain_def)
  ultimately show ?thesis by (intro bexI [of _ "membership_from_domain m"]) simp_all
qed

lemma reachable_people_wf: "wf_people (fold people_step cmds no_people)"
  using ppl.run_wf [OF no_people_wf, of cmds] by simp



text \<open>
  C6: A user becomes a member of a workspace only by creating it, or by presenting a token the
  authority verifies for an invitation of that workspace which is pending, in the generation and with the expiry
  of the token, addressed to the e-mail address the user has proved, while the user is in no workspace; and a member leaves
  only by another member of the same workspace removing them.
\<close>

theorem membership_changes_by_right:
  assumes "wf_people s" and "is_member (people_step c s) u i \<noteq> is_member s u i"
  shows "if is_member s u i then removed_by_right c s u i else joined_by_right c s u i"
  using people_step_explained [OF assms(1), of c] assms(2) unfolding members_explained_def by auto

theorem membership_changes_by_right_witness:
  "is_member sample_people (UserId 1) (WorkspaceId 7) \<and>
   joined_by_right (CreateWorkspaceCmd \<lparr>cow_workspace_id = WorkspaceId 8, cow_actor_user_id = UserId 2, cow_slug = None,
        cow_name = ''two'', cow_created_at = 5\<rparr>) sample_people (UserId 2) (WorkspaceId 8)"
proof -
  let ?c = "CreateWorkspaceCmd \<lparr>cow_workspace_id = WorkspaceId 8, cow_actor_user_id = UserId 2, cow_slug = None,
        cow_name = ''two'', cow_created_at = 5\<rparr>"
  have wf: "wf_people sample_people" unfolding sample_people_def by (rule reachable_people_wf)
  have "is_member (people_step ?c sample_people) (UserId 2) (WorkspaceId 8)"
    "\<not> is_member sample_people (UserId 2) (WorkspaceId 8)" "is_member sample_people (UserId 1) (WorkspaceId 7)"
    by (simp_all add: sample_people_eq is_member_def people_eval Let_def)
  then show ?thesis using membership_changes_by_right [OF wf, of ?c "UserId 2" "WorkspaceId 8"] by simp
qed

end
