(* ===== verification/Invitation_Links.thy ===== *)
theory Invitation_Links
  imports People_Safety
begin

text \<open>
  What becomes of the links the invitation commands hand out. The link of a new invitation is accepted from
  the invited address until it expires. The link of an invitation sent again is not: the command stores the
  expiry with its fraction of a second, the token carries it in whole seconds, and acceptance wants the two
  equal.
\<close>

section \<open>Saving a workspace that was loaded\<close>

lemma loaded_slug_free:
  assumes "wf_people s" and "people_workspace_get i s = Inr (Some w)"
    and "ws_id w' = ws_id w" "ws_slug w' = ws_slug w"
  shows "\<not> slug_taken (workspace_from_domain w') (workspaces_table (ppl_workspaces s))"
proof -
  from assms(2) obtain r where "find_row wsrec_id (workspace_uuid i) (workspaces_table (ppl_workspaces s)) = Some r"
    and r: "wsrec_id r = workspace_uuid (ws_id w)" "wsrec_slug r = ws_slug w"
    by (auto simp: people_workspace_get_def workspace_get_def aggregate_from_workspace_row_def
        workspace_into_domain_def and_then_Ok_iff workspace_rehydrate_Ok_iff split: option.splits)
  then have "r \<in> set (workspaces_table (ppl_workspaces s))" using find_row_SomeD by fast
  moreover have "slugs_unique (workspaces_table (ppl_workspaces s))" using assms(1) by (simp add: wf_people_def)
  ultimately have "wsrec_id x = workspace_uuid (ws_id w)"
    if "x \<in> set (workspaces_table (ppl_workspaces s))" "wsrec_slug x \<noteq> None" "wsrec_slug x = ws_slug w" for x
    using that r unfolding slugs_unique_def by metis
  then show ?thesis
    using assms(3,4) unfolding slug_taken_def list_ex_iff
    by (simp add: workspace_from_domain_def) (metis not_None_eq)
qed

lemma add_member_saves:
  assumes "wf_people s" and "people_workspace_get i s = Inr (Some w)"
    and "resolve_id_for_member u s = Inr None" and "row_exists usrrec_id (user_uuid u) (ppl_users s)"
  shows "\<exists>w' t. add_member u r at w = Inr w' \<and> people_workspace_save w' s = Inr t
     \<and> role_for u w' = Some r \<and> ws_id w' = i"
proof -
  let ?t = "ppl_workspaces s"
  note wf = people_workspace_get_wf [OF assms(2)]
  let ?w = "w\<lparr>ws_memberships := ws_memberships w @ [\<lparr>mem_user_id = u, mem_workspace_id = ws_id w,
      mem_role = r, mem_created_at = at\<rparr>]\<rparr>"
  let ?rows = "delete_rows (\<lambda>m. memrec_workspace_id m = workspace_uuid i) (memberships_table ?t)"
  have none: "\<not> is_member s u k" for k
    using resolve_is_member [OF assms(1), of u k] assms(3) by simp
  then have new: "role_for u w = None" using is_member_loaded [OF assms(2), of u] by auto
  then have add: "add_member u r at w = Inr ?w" by (simp add: add_member_def)
  have rows: "membership_from_domain ` set (ws_memberships w)
      = {m \<in> set (memberships_table ?t). memrec_workspace_id m = workspace_uuid i}"
    using loaded_workspace_rows [of i ?t w] assms(2) by (simp add: people_workspace_get_def)
  have keys: "table_wf memrec_user_id (memberships_table ?t)" and fks: "wf_memberships s"
    using assms(1) by (simp_all add: wf_people_def wf_workspace_tables_def)
  have "\<exists>rows'. insert_member_rows (ppl_users s) (ws_memberships ?w) ?rows = Inr rows'"
  proof (rule insert_member_rows_total)
    show "distinct (map mem_user_id (ws_memberships ?w))"
      using add_member_wf [OF _ add] wf by (simp add: wf_workspace_def)
    have old: "membership_from_domain m \<in> set (memberships_table ?t)" if "m \<in> set (ws_memberships w)" for m
      using rows that by blast
    have "mem_workspace_id m = i" if "m \<in> set (ws_memberships w)" for m
      using wf that by (auto simp: wf_workspace_def)
    with old have "memrec_user_id x \<noteq> user_uuid (mem_user_id m)"
      if "x \<in> set (memberships_table ?t)" "memrec_workspace_id x \<noteq> workspace_uuid i" "m \<in> set (ws_memberships w)" for x m
      using keys that inj_onD [of memrec_user_id "set (memberships_table ?t)" x "membership_from_domain m"]
      by (auto simp: table_wf_def distinct_map)
    moreover have "memrec_user_id x \<noteq> user_uuid u" if "x \<in> set (memberships_table ?t)" for x
      using none [of "WorkspaceId (memrec_workspace_id x)"] that by (auto simp: is_member_def list_ex_iff)
    ultimately show "\<forall>m \<in> set (ws_memberships ?w). \<not> row_exists memrec_user_id (user_uuid (mem_user_id m)) ?rows"
      by (fastforce simp: row_exists_def list_ex_iff)
    show "\<forall>m \<in> set (ws_memberships ?w). row_exists usrrec_id (user_uuid (mem_user_id m)) (ppl_users s)"
      using old fks assms(4) by (fastforce simp: wf_memberships_def)
  qed
  then have "\<exists>t. people_workspace_save ?w s = Inr t"
    using loaded_slug_free [OF assms(1,2), of ?w] wf by (auto simp: people_workspace_save_def Let_def)
  moreover have "role_for u ?w = Some r"
    using add_member_wf [OF _ add] wf by (subst role_for_Some_iff) auto
  ultimately show ?thesis using add wf by auto
qed

lemma invitation_workspace_loads:
  assumes "wf_people s" and "invitation_get i s = Inr (Some v)"
  shows "\<exists>w. people_workspace_get (inv_workspace_id v) s = Inr (Some w)"
proof -
  from assms(2) obtain r where r: "r \<in> set (ppl_invitations s)" "invitation_into_domain r = Inr v"
    by (auto simp: invitation_get_def map_transpose_Some_iff dest: find_row_SomeD)
  then have "invrec_workspace_id r = workspace_uuid (inv_workspace_id v)"
    by (auto simp: invitation_into_domain_def and_then_Ok_iff invitation_rehydrate_Ok_iff)
  moreover have "row_exists wsrec_id (invrec_workspace_id r) (workspaces_table (ppl_workspaces s))"
    using assms(1) r(1) by (simp add: wf_people_def wf_invitations_def invitation_row_ok_def)
  ultimately obtain x where x: "find_row wsrec_id (workspace_uuid (inv_workspace_id v))
      (workspaces_table (ppl_workspaces s)) = Some x"
    using find_row_None_iff [of wsrec_id "workspace_uuid (inv_workspace_id v)" "workspaces_table (ppl_workspaces s)"]
    by (cases "find_row wsrec_id (workspace_uuid (inv_workspace_id v)) (workspaces_table (ppl_workspaces s))")
      (auto simp: row_exists_iff)
  then have "is_ok (aggregate_from_workspace_row x (memberships_table (ppl_workspaces s)))"
    using assms(1) by (auto simp: wf_people_def wf_workspace_tables_def dest: find_row_SomeD)
  then obtain w where "aggregate_from_workspace_row x (memberships_table (ppl_workspaces s)) = Inr w"
    by (metis is_ok.elims(2))
  with x show ?thesis by (simp add: people_workspace_get_def workspace_get_def)
qed

section \<open>Accepting a pending invitation\<close>

definition email_stored :: "(string \<Rightarrow> string) \<Rightarrow> string \<Rightarrow> bool" where
  "email_stored lower email \<longleftrightarrow>
     email = lower (sql_trim email) \<and> position (\<lambda>ch. ch = CHR ''@'') email \<notin> {None, Some 0}"

lemma invitation_save_email:
  "invitation_save lower v s = Inr t \<Longrightarrow> email_stored lower (inv_invited_email v)"
  using invitation_save_Ok(2) [of lower v s t]
  by (simp add: invitation_violations_def invitation_checks_def Let_def invitation_from_domain_def email_stored_def)

lemma invitation_get_row:
  assumes "wf_people s" and "invitation_get i s = Inr (Some v)"
  shows "wf_invitation v" and "inv_id v = i"
    and "row_exists wsrec_id (workspace_uuid (inv_workspace_id v)) (workspaces_table (ppl_workspaces s))"
    and "row_exists usrrec_id (user_uuid (inv_inviter_user_id v)) (ppl_users s)"
proof -
  from assms(2) obtain r where r: "r \<in> set (ppl_invitations s)" "invrec_id r = invitation_uuid i"
    "invitation_into_domain r = Inr v"
    by (auto simp: invitation_get_def map_transpose_Some_iff dest: find_row_SomeD)
  have fields: "invrec_workspace_id r = workspace_uuid (inv_workspace_id v)"
    "invrec_inviter_user_id r = user_uuid (inv_inviter_user_id v)" "WorkspaceInvitationId (invrec_id r) = inv_id v"
    using r(3) by (auto simp: invitation_into_domain_def and_then_Ok_iff invitation_rehydrate_Ok_iff)
  show "wf_invitation v" using r(3) by (rule invitation_loaded_wf)
  show "inv_id v = i" using fields(3) r(2) by (cases i) auto
  have "invitation_row_ok s r" using assms(1) r(1) by (simp add: wf_people_def wf_invitations_def)
  then show "row_exists wsrec_id (workspace_uuid (inv_workspace_id v)) (workspaces_table (ppl_workspaces s))"
    "row_exists usrrec_id (user_uuid (inv_inviter_user_id v)) (ppl_users s)"
    by (simp_all add: invitation_row_ok_def fields)
qed

lemma accepted_invitation_saves:
  assumes "wf_people s" and "invitation_get i s = Inr (Some v)" and "invitation_status_at at v = InvPending"
    and "email_stored lower (inv_invited_email v)" and "row_exists usrrec_id (user_uuid u) (ppl_users t)"
    and "people_workspace_save w s = Inr t"
  shows "\<exists>t'. invitation_save lower (v\<lparr>inv_accepted_at := Some at, inv_accepting_user_id := Some u\<rparr>) t = Inr t'"
proof -
  let ?v = "v\<lparr>inv_accepted_at := Some at, inv_accepting_user_id := Some u\<rparr>"
  let ?r = "invitation_from_domain ?v"
  note v = invitation_get_row [OF assms(1,2)]
  have pending: "inv_accepted_at v = None" "inv_revoked_at v = None"
    using assms(3) by (simp_all add: invitation_status_at_def split: if_splits)
  have "\<forall>c \<in> set (invitation_checks lower ?r). \<not> fst c"
    using v(1) assms(4) pending
    by (simp add: invitation_checks_def Let_def invitation_from_domain_def email_stored_def wf_invitation_iff
        delivery_valid_def between_one_and_def int_one_le_iff_zero_less)
  moreover have "ppl_users t = ppl_users s"
    "row_exists wsrec_id (workspace_uuid (inv_workspace_id v)) (workspaces_table (ppl_workspaces t))"
    using people_workspace_save_Ok [OF assms(6)] v(3) by (auto simp: workspace_save_Ok(1))
  ultimately have "\<forall>c \<in> set (invitation_violations lower t ?r). \<not> fst c"
    using v(4) assms(5)
    by (simp add: invitation_violations_def windows_collide_def open_row_def invitation_from_domain_def list_ex_iff)
  then show ?thesis by (simp add: invitation_save_def Let_def save_row_Ok_iff and_then_Ok_iff)
qed

lemma accept_pending:
  assumes wf: "wf_people s" and v: "invitation_get (vi_invitation_id claims) s = Inr (Some v)"
    and claims: "inv_generation v = vi_generation claims" "inv_expires_at v = vi_expires_at claims"
    and pending: "invitation_status_at (awi_accepted_at cmd) v = InvPending"
    and stored: "email_stored (pe_lower env) (inv_invited_email v)"
    and user: "row_exists usrrec_id (user_uuid (awi_user_id cmd)) (ppl_users s)"
    and alone: "resolve_id_for_member (awi_user_id cmd) s = Inr None"
  shows "\<exists>w t. accept_workspace_invitation_tx env cmd claims (inv_invited_email v) s
       = (Inr (Accepted w AcceptanceApplied), t)
     \<and> wr_role w = Admin \<and> wd_id (wr_workspace w) = inv_workspace_id v
     \<and> is_member t (awi_user_id cmd) (inv_workspace_id v)"
proof -
  let ?u = "awi_user_id cmd" and ?at = "awi_accepted_at cmd"
  let ?v = "v\<lparr>inv_accepted_at := Some ?at, inv_accepting_user_id := Some ?u\<rparr>"
  obtain w where w: "people_workspace_get (inv_workspace_id v) s = Inr (Some w)"
    using invitation_workspace_loads [OF wf v] by blast
  from add_member_saves [OF wf w alone user, of Admin ?at] obtain w' t where
    add: "add_member ?u Admin ?at w = Inr w'" and t: "people_workspace_save w' s = Inr t"
    and role: "role_for ?u w' = Some Admin" "ws_id w' = inv_workspace_id v" by blast
  have new: "role_for ?u w = None" using add by (simp add: add_member_def split: if_splits)
  have users: "ppl_users t = ppl_users s" using people_workspace_save_Ok [OF t] by auto
  from accepted_invitation_saves [OF wf v pending stored _ t] user users obtain t' where
    t': "invitation_save (pe_lower env) ?v t = Inr t'" by auto
  have "is_member t' ?u (inv_workspace_id v)"
    using is_member_saved [OF t add_member_wf [OF _ add], of ?u "inv_workspace_id v"] role
      people_workspace_get_wf [OF w] is_member_unchanged [OF invitation_save_workspaces [OF t']] by simp
  moreover have "inv_accepted_at v = None" using pending by (simp add: invitation_status_at_def split: if_splits)
  ultimately show ?thesis
    using v claims pending alone w new add t t' role
    by (simp add: accept_workspace_invitation_tx_def join_workspace_def tx_defs ensure_current_def
        invitation_accept_def details_of_def)
qed

section \<open>Tokens of links\<close>

definition link_for :: "people_env \<Rightarrow> string \<Rightarrow> string" where
  "link_for env token = tok_set_fragment (pe_token env)
     (tok_set_query (pe_token env) (tok_set_path (pe_token env) (ia_base_url (pe_authority env)) ''/join'') None)
     (Some (''token='' @ token))"

lemma issue_link_Ok:
  assumes "issue_link env v = Inr link"
  shows "\<exists>token. issue_token (pe_token env) (pe_nonce env) (pe_authority env) (authority_source_of v) (pe_now env) = Inr token
     \<and> link = \<lparr>iwl_invitation = metadata_of v, iwl_url = link_for env token, iwl_workspace_id = inv_workspace_id v\<rparr>
     \<and> pe_now env < inv_expires_at v"
  using assms
  by (auto simp: issue_link_def issue_at_def link_for_def and_then_Ok_iff issue_token_def authority_source_of_def
      Let_def split: if_splits)

lemma saved_invitation_read:
  assumes "invitation_save lower v s = Inr t"
  shows "invitation_get (inv_id v) (t\<lparr>ppl_outbox := x\<rparr>) = Inr (Some v)"
  using invitation_save_Ok(1,3) [OF assms] invitation_reload [of v]
  by (simp add: invitation_get_def invitation_from_domain_def)

text \<open>A created invitation: what is stored, and that the answer carries its link.\<close>

lemma create_invitation_Ok:
  assumes "handle_create_workspace_invitation env cmd md s = (Inr link, s1)"
  obtains v where "issue_link env v = Inr link" and "invitation_get (inv_id v) s1 = Inr (Some v)"
    and "email_stored (pe_lower env) (inv_invited_email v)" and "inv_generation v = 1"
    and "inv_expires_at v mod nanos_per_second = 0" and "inv_accepted_at v = None" and "inv_revoked_at v = None"
proof -
  from assms obtain email x where
    run: "create_workspace_invitation_tx env cmd email md s = (Inr x, s1)"
    and res: "create_invitation_result env x = Inr link"
    by (cases "in_unit_of_work (create_workspace_invitation_tx env cmd (the (normalize_email (pe_email_valid env) (cwn_email cmd))) md) s")
      (auto simp: handle_create_workspace_invitation_def and_then_Ok_iff split: option.splits)
  from res obtain v where x: "x = InvitationCreated v" and link: "issue_link env v = Inr link"
    by (cases x) (auto simp: create_invitation_result_def)
  have fresh: "inv_generation v = 1 \<and> inv_expires_at v mod nanos_per_second = 0
      \<and> inv_accepted_at v = None \<and> inv_revoked_at v = None"
    if "invitation_create i w u e at x = Inr v0" "queue_delivery g at' v0 = Inr v" for i w u e at x g at' v0 v
    using that by (auto simp: invitation_create_def invitation_rehydrate_Ok_iff queue_delivery_def split: if_splits)
  have "tx_ensures (create_workspace_invitation_tx env cmd email md) (\<lambda>x t. \<forall>v. x = InvitationCreated v \<longrightarrow>
      invitation_get (inv_id v) t = Inr (Some v) \<and> email_stored (pe_lower env) (inv_invited_email v)
      \<and> inv_generation v = 1 \<and> inv_expires_at v mod nanos_per_second = 0
      \<and> inv_accepted_at v = None \<and> inv_revoked_at v = None) s"
    by (simp add: create_workspace_invitation_tx_def tx_post saved_invitation_read)
      (use fresh invitation_save_email saved_invitation_read in blast)
  from tx_ensuresD [OF this run] x link that show ?thesis by blast
qed

lemma resend_invitation_Ok:
  assumes "handle_resend_workspace_invitation env cmd md s = (Inr link, s1)"
  obtains v where "issue_link env v = Inr link" and "invitation_get (inv_id v) s1 = Inr (Some v)"
    and "inv_expires_at v = rsw_sent_at cmd + invitation_lifetime" and "in_i64 (inv_generation v)"
proof -
  from assms obtain x where
    run: "resend_workspace_invitation_tx env cmd md s = (Inr x, s1)" and res: "resend_result env x = Inr link"
    by (cases "in_unit_of_work (resend_workspace_invitation_tx env cmd md) s")
      (auto simp: handle_resend_workspace_invitation_def and_then_Ok_iff)
  from res obtain v where x: "x = Resent v" and link: "issue_link env v = Inr link"
    by (cases x) (auto simp: resend_result_def)
  have resent: "inv_expires_at v = x \<and> in_i64 (inv_generation v)" if "resend g at x v0 = Inr v" for g at x v0 v
    using that by (auto simp: op_defs split: if_splits option.splits)
  have "tx_ensures (resend_workspace_invitation_tx env cmd md) (\<lambda>x t. \<forall>v. x = Resent v \<longrightarrow>
      invitation_get (inv_id v) t = Inr (Some v)
      \<and> inv_expires_at v = rsw_sent_at cmd + invitation_lifetime \<and> in_i64 (inv_generation v)) s"
    by (simp add: resend_workspace_invitation_tx_def tx_post)
      (use resent saved_invitation_read in blast)
  from tx_ensuresD [OF this run] x link that show ?thesis by blast
qed

section \<open>A sample\<close>

definition sample_invite :: create_workspace_invitation where
  "sample_invite = \<lparr>cwn_invitation_id = WorkspaceInvitationId 3, cwn_actor_user_id = UserId 1,
     cwn_email = ''g@x'', cwn_created_at = 5000000000\<rparr>"

definition sample_invitation_row :: workspace_invitation where
  "sample_invitation_row =
     \<lparr>inv_id = WorkspaceInvitationId 3, inv_workspace_id = WorkspaceId 7,
      inv_inviter_user_id = UserId 1, inv_invited_email = ''g@x'', inv_role = Admin,
      inv_generation = 1, inv_created_at = 5000000000, inv_expires_at = 604805000000000,
      inv_accepted_at = None, inv_revoked_at = None, inv_accepting_user_id = None,
      inv_queued_generation = Some 1, inv_queued_at = Some 5000000000, inv_delivered_generation = None,
      inv_delivered_at = None, inv_last_delivery_failure = None, inv_delivery_failed_at = None\<rparr>"

lemma sample_email: "normalize_email (\<lambda>_. True) ''g@x'' = Some ''g@x''" "trim ''g@x'' = ''g@x''"
  by code_simp+

abbreviation sample_workspace :: workspace where
  "sample_workspace \<equiv> create_owned (WorkspaceId 7) None ''acme'' 5000000000 (UserId 1)"

lemma sample_reads:
  "resolve_id_for_member (UserId 1) sample_people = Inr (Some (WorkspaceId 7))"
  "people_workspace_get (WorkspaceId 7) sample_people = Inr (Some sample_workspace)"
  "role_for (UserId 1) sample_workspace = Some Owner"
  "member_id_by_email (\<lambda>t. t) (WorkspaceId 7) ''g@x'' sample_people = Inr None"
  "lock_pending_for_email (WorkspaceId 7) ''g@x'' 5000000000 sample_people = Inr None"
  by (simp_all add: sample_people_eq resolve_id_for_member_def find_row_def people_workspace_get_def
      workspace_get_def aggregate_from_workspace_row_def workspace_membership_from_row_def role_from_str_def
      workspace_into_domain_def workspace_rehydrate_def create_owned_def role_for_def member_id_by_email_def
      at_most_one_def lock_pending_for_email_def)

definition sample_invited :: "outbox_table \<Rightarrow> people" where
  "sample_invited x = sample_people\<lparr>ppl_invitations := [invitation_from_domain sample_invitation_row],
     ppl_outbox := x\<rparr>"

lemma sample_invitation_made:
  "\<exists>v. invitation_create (WorkspaceInvitationId 3) (WorkspaceId 7) (UserId 1) ''g@x'' 5000000000
      (5000000000 + invitation_lifetime) = Inr v
     \<and> inv_generation v = 1 \<and> queue_delivery 1 5000000000 v = Inr sample_invitation_row"
  by (simp add: invitation_create_def invitation_rehydrate_def sample_email delivery_valid_def queue_delivery_def
      invitation_status_at_def invitation_lifetime_def sample_invitation_row_def)

lemma sample_invitation_saved:
  "invitation_save (\<lambda>t. t) sample_invitation_row sample_people
     = Inr (sample_invited (ppl_outbox sample_people))"
  by (simp add: sample_invited_def sample_people_eq invitation_save_def Let_def save_row_def first_violation_def
      invitation_violations_def invitation_checks_def invitation_from_domain_def sql_trim_def
      between_one_and_def row_exists_def sample_invitation_row_def)

lemma sample_create:
  "\<exists>x. create_workspace_invitation_tx people_sample_env sample_invite ''g@x'' execution_background sample_people
     = (Inr (InvitationCreated sample_invitation_row), sample_invited x)"
proof -
  obtain v where v: "invitation_create (WorkspaceInvitationId 3) (WorkspaceId 7) (UserId 1) ''g@x'' 5000000000
      (5000000000 + invitation_lifetime) = Inr v" "inv_generation v = 1"
     "queue_delivery 1 5000000000 v = Inr sample_invitation_row"
    using sample_invitation_made by blast
  have lower: "pe_lower people_sample_env = (\<lambda>t. t)" by (simp add: people_sample_env_def)
  show ?thesis
    by (simp add: create_workspace_invitation_tx_def tx_defs sample_invite_def sample_reads lower v
        sample_invitation_saved append_delivery_command_def people_outbox_append_def)
      (auto simp: sample_invited_def)
qed

lemma sample_created:
  "\<exists>link x. handle_create_workspace_invitation people_sample_env sample_invite execution_background sample_people
     = (Inr link, sample_invited x) \<and> iwl_invitation link = metadata_of sample_invitation_row
     \<and> iwl_workspace_id link = WorkspaceId 7"
proof -
  obtain x where "create_workspace_invitation_tx people_sample_env sample_invite ''g@x'' execution_background sample_people
     = (Inr (InvitationCreated sample_invitation_row), sample_invited x)" using sample_create by blast
  moreover have "\<exists>url. issue_link people_sample_env sample_invitation_row = Inr \<lparr>iwl_invitation = metadata_of sample_invitation_row,
      iwl_url = url, iwl_workspace_id = WorkspaceId 7\<rparr>"
    by (simp add: issue_link_def issue_at_def issue_token_def Let_def people_sample_env_def authority_source_of_def
        sample_invitation_row_def dotted_token_env_def)
  moreover have "normalize_email (pe_email_valid people_sample_env) (cwn_email sample_invite) = Some ''g@x''"
    using sample_email by (simp add: people_sample_env_def sample_invite_def)
  ultimately show ?thesis
    by (auto simp: handle_create_workspace_invitation_def in_unit_of_work_def create_invitation_result_def)
qed

definition sample_resend :: resend_workspace_invitation where
  "sample_resend = \<lparr>rsw_invitation_id = WorkspaceInvitationId 3, rsw_actor_user_id = UserId 1,
     rsw_expected_generation = 1, rsw_sent_at = 6000001000\<rparr>"

definition sample_resent_row :: workspace_invitation where
  "sample_resent_row = sample_invitation_row\<lparr>inv_generation := 2, inv_expires_at := 604806000001000,
     inv_queued_generation := Some 2, inv_queued_at := Some 6000001000\<rparr>"

lemma sample_resent:
  "\<exists>link s1. handle_resend_workspace_invitation people_sample_env sample_resend execution_background (sample_invited x)
     = (Inr link, s1)"
proof -
  have wf: "wf_invitation sample_invitation_row"
    by (rule invitation_save_Ok(3) [OF sample_invitation_saved])
  have manage: "managed_invitation (UserId 1) (WorkspaceInvitationId 3) (sample_invited x)
      = (Inr (Some (WorkspaceId 7, sample_invitation_row)), sample_invited x)"
    using invitation_reload [OF wf]
    by (simp add: managed_invitation_def tx_defs resolve_id_for_member_def find_row_def sample_invited_def
        sample_people_eq read_role_for_def membership_role_from_row_def role_from_str_def
        invitation_get_for_workspace_def)
      (simp add: invitation_from_domain_def sample_invitation_row_def)
  have resend: "resend 1 6000001000 (6000001000 + invitation_lifetime) sample_invitation_row = Inr sample_resent_row"
    by (simp add: resend_def sample_invitation_row_def invitation_status_at_def invitation_lifetime_def
        checked_add_i64_def in_i64_def i64_max_def sample_resent_row_def)
  have lower: "pe_lower people_sample_env = (\<lambda>t. t)" by (simp add: people_sample_env_def)
  have "\<exists>t. invitation_save (\<lambda>t. t) sample_resent_row (sample_invited x) = Inr t"
    by (simp add: sample_invited_def sample_people_eq invitation_save_def Let_def save_row_def first_violation_def
      invitation_violations_def invitation_checks_def invitation_from_domain_def sql_trim_def
      between_one_and_def row_exists_def sample_invitation_row_def sample_resent_row_def)
  then obtain t where "invitation_save (\<lambda>t. t) sample_resent_row (sample_invited x) = Inr t" ..
  moreover have "\<exists>link. issue_link people_sample_env sample_resent_row = Inr link"
    by (simp add: issue_link_def issue_at_def issue_token_def Let_def people_sample_env_def authority_source_of_def
        sample_invitation_row_def sample_resent_row_def dotted_token_env_def)
  ultimately show ?thesis
    by (auto simp: handle_resend_workspace_invitation_def in_unit_of_work_def resend_workspace_invitation_tx_def
        tx_defs sample_resend_def manage resend lower append_delivery_command_def people_outbox_append_def resend_result_def)
qed

section \<open>Properties\<close>

definition presented :: "string \<Rightarrow> user_id \<Rightarrow> string \<Rightarrow> datetime \<Rightarrow> accept_workspace_invitation" where
  "presented token u email at =
     \<lparr>awi_token = token, awi_user_id = u, awi_verified_email = email, awi_accepted_at = at\<rparr>"

text \<open>
  C9: The link of a created invitation works: presented before the invitation expires by a known
  user who is in no workspace and has proved the invited address, it is accepted, and the user is then a
  member of the inviting workspace, as an administrator.
\<close>

theorem created_link_is_accepted:
  assumes "wf_people s" and "token_env_ok (pe_token env)" and "wf_authority (pe_authority env)"
    and "handle_create_workspace_invitation env cmd md s = (Inr link, s1)"
    and "rfc3339_time (pe_now env)" and "rfc3339_time (im_expires_at (iwl_invitation link))"
  shows "\<exists>token. iwl_url link = link_for env token
     \<and> (\<forall>now u email at. pe_now env \<le> now \<and> now < im_expires_at (iwl_invitation link)
          \<and> at < im_expires_at (iwl_invitation link)
          \<and> normalize_email (pe_email_valid env) email = Some (im_invited_email (iwl_invitation link))
          \<and> row_exists usrrec_id (user_uuid u) (ppl_users s1) \<and> resolve_id_for_member u s1 = Inr None
        \<longrightarrow> (\<exists>res s2. handle_accept_workspace_invitation (env\<lparr>pe_now := now\<rparr>) (presented token u email at) s1
               = (Inr res, s2)
             \<and> acc_acceptance res = AcceptanceApplied \<and> wr_role (acc_workspace res) = Admin
             \<and> is_member s2 u (iwl_workspace_id link)))"
proof -
  from assms(4) obtain v where v: "issue_link env v = Inr link" "invitation_get (inv_id v) s1 = Inr (Some v)"
    "email_stored (pe_lower env) (inv_invited_email v)" "inv_generation v = 1"
    "inv_expires_at v mod nanos_per_second = 0" "inv_accepted_at v = None" "inv_revoked_at v = None"
    by (rule create_invitation_Ok)
  from issue_link_Ok [OF v(1)] obtain token where
    token: "issue_token (pe_token env) (pe_nonce env) (pe_authority env) (authority_source_of v) (pe_now env) = Inr token"
    and link: "link = \<lparr>iwl_invitation = metadata_of v, iwl_url = link_for env token, iwl_workspace_id = inv_workspace_id v\<rparr>"
    and future: "pe_now env < inv_expires_at v" by blast
  have wf: "wf_people s1" using people_step_wf [OF assms(1), of "CreateInvitationCmd env cmd md"] assms(4) by simp
  have whole: "whole_seconds (inv_expires_at v) = inv_expires_at v" using v(5) by (simp add: whole_seconds_eq_iff)
  let ?claims = "\<lparr>vi_invitation_id = inv_id v, vi_generation = 1, vi_issued_at = whole_seconds (pe_now env),
      vi_expires_at = inv_expires_at v\<rparr>"
  have accepted: "\<exists>res s2. handle_accept_workspace_invitation (env\<lparr>pe_now := now\<rparr>) (presented token u email at) s1
               = (Inr res, s2)
             \<and> acc_acceptance res = AcceptanceApplied \<and> wr_role (acc_workspace res) = Admin
             \<and> is_member s2 u (inv_workspace_id v)"
    if now: "pe_now env \<le> now" "now < inv_expires_at v" and at: "at < inv_expires_at v"
      and email: "normalize_email (pe_email_valid env) email = Some (inv_invited_email v)"
      and u: "row_exists usrrec_id (user_uuid u) (ppl_users s1)" "resolve_id_for_member u s1 = Inr None"
    for now u email at
  proof -
    have verified: "verify_at (pe_token env) (pe_authority env) token now = Inr ?claims"
      using verify_issued [OF assms(2,3) token, of now] assms(5,6) now future v(4) whole
        whole_seconds_le [of "pe_now env"]
      by (simp add: authority_source_of_def link metadata_of_def in_i64_def i64_max_def)
    have pending: "invitation_status_at at v = InvPending"
      using at v(6,7) by (simp add: invitation_status_at_def)
    have "\<exists>w t. accept_workspace_invitation_tx (env\<lparr>pe_now := now\<rparr>) (presented token u email at) ?claims
          (inv_invited_email v) s1 = (Inr (Accepted w AcceptanceApplied), t)
       \<and> wr_role w = Admin \<and> wd_id (wr_workspace w) = inv_workspace_id v \<and> is_member t u (inv_workspace_id v)"
      using accept_pending [OF wf, of ?claims v "presented token u email at" "env\<lparr>pe_now := now\<rparr>"]
        v(2-4) pending u by (simp add: presented_def)
    then show ?thesis
      using verified email
      by (auto simp: handle_accept_workspace_invitation_def presented_def in_unit_of_work_def accept_result_def)
  qed
  show ?thesis
    using accepted by (intro exI [of _ token]) (simp add: link metadata_of_def)
qed

theorem created_link_is_accepted_witness:
  "\<exists>link s1 token res s2.
     handle_create_workspace_invitation people_sample_env sample_invite execution_background sample_people = (Inr link, s1)
     \<and> handle_accept_workspace_invitation (people_sample_env\<lparr>pe_now := 7000000000\<rparr>) (presented token (UserId 2) ''g@x'' 7000000000) s1
       = (Inr res, s2)
     \<and> acc_acceptance res = AcceptanceApplied \<and> is_member s2 (UserId 2) (WorkspaceId 7)"
proof -
  obtain link x where created: "handle_create_workspace_invitation people_sample_env sample_invite execution_background sample_people
     = (Inr link, sample_invited x)" and link: "iwl_invitation link = metadata_of sample_invitation_row"
     "iwl_workspace_id link = WorkspaceId 7" using sample_created by blast
  have "wf_people sample_people" unfolding sample_people_def by (rule reachable_people_wf)
  moreover have "token_env_ok (pe_token people_sample_env)" using dotted_token_env_ok by (simp add: people_sample_env_def)
  moreover have "wf_authority (pe_authority people_sample_env)" by (simp add: wf_authority_def people_sample_env_def)
  moreover have "rfc3339_time (pe_now people_sample_env)" "rfc3339_time (im_expires_at (iwl_invitation link))"
    by (simp_all add: link rfc3339_time_def people_sample_env_def metadata_of_def sample_invitation_row_def)
  ultimately obtain token where works: "\<forall>now u email at. pe_now people_sample_env \<le> now \<and> now < im_expires_at (iwl_invitation link)
          \<and> at < im_expires_at (iwl_invitation link)
          \<and> normalize_email (pe_email_valid people_sample_env) email = Some (im_invited_email (iwl_invitation link))
          \<and> row_exists usrrec_id (user_uuid u) (ppl_users (sample_invited x)) \<and> resolve_id_for_member u (sample_invited x) = Inr None
        \<longrightarrow> (\<exists>res s2. handle_accept_workspace_invitation (people_sample_env\<lparr>pe_now := now\<rparr>) (presented token u email at) (sample_invited x)
               = (Inr res, s2)
             \<and> acc_acceptance res = AcceptanceApplied \<and> wr_role (acc_workspace res) = Admin
             \<and> is_member s2 u (iwl_workspace_id link))"
    using created_link_is_accepted [OF _ _ _ created] by blast
  have "row_exists usrrec_id 2 (ppl_users (sample_invited x))" "resolve_id_for_member (UserId 2) (sample_invited x) = Inr None"
    by (simp_all add: sample_invited_def sample_people_eq row_exists_def resolve_id_for_member_def find_row_def)
  with works [rule_format, of 7000000000 7000000000 "''g@x''" "UserId 2"] created link sample_email show ?thesis
    by (simp add: people_sample_env_def metadata_of_def sample_invitation_row_def) blast
qed

text \<open>
  C10: The link of an invitation that is sent again at a time with a fraction of a second of at least a
  microsecond, which the database keeps, is refused whoever presents it and whenever, and changes nothing.
\<close>

theorem resent_link_is_refused:
  assumes "token_env_ok (pe_token env)" and "wf_authority (pe_authority env)"
    and "handle_resend_workspace_invitation env cmd md s = (Inr link, s1)"
    and "rfc3339_time (pe_now env)" and "rfc3339_time (rsw_sent_at cmd + invitation_lifetime)"
    and "1000 \<le> rsw_sent_at cmd mod nanos_per_second"
  shows "\<exists>token. iwl_url link = link_for env token
     \<and> (\<forall>now u email at. \<exists>e. handle_accept_workspace_invitation (env\<lparr>pe_now := now\<rparr>) (presented token u email at) s1
          = (Inl e, s1) \<and> e \<in> {AcceptInvitationUnavailable, EmailMismatch})"
proof -
  from assms(3) obtain v where v: "issue_link env v = Inr link" "invitation_get (inv_id v) s1 = Inr (Some v)"
    "inv_expires_at v = rsw_sent_at cmd + invitation_lifetime" "in_i64 (inv_generation v)"
    by (rule resend_invitation_Ok)
  from issue_link_Ok [OF v(1)] obtain token where
    token: "issue_token (pe_token env) (pe_nonce env) (pe_authority env) (authority_source_of v) (pe_now env) = Inr token"
    and link: "link = \<lparr>iwl_invitation = metadata_of v, iwl_url = link_for env token, iwl_workspace_id = inv_workspace_id v\<rparr>"
    by blast
  have "inv_expires_at v mod nanos_per_second = rsw_sent_at cmd mod nanos_per_second"
    using mod_mult_self1 [of "rsw_sent_at cmd" "7 * 86400" nanos_per_second]
    by (simp add: v(3) invitation_lifetime_def)
  then have fraction: "whole_seconds (inv_expires_at v) \<noteq> inv_expires_at v"
    using assms(6) by (simp add: whole_seconds_eq_iff)
  have claims: "vi_invitation_id claims = inv_id v \<and> vi_expires_at claims \<noteq> inv_expires_at v"
    if "verify_at (pe_token env) (pe_authority env) token now = Inr claims" for now claims
    using that verify_issued [OF assms(1,2) token, of now] assms(4,5) v(3,4) fraction
    by (auto simp: authority_source_of_def split: if_splits)
  have "\<exists>e. handle_accept_workspace_invitation (env\<lparr>pe_now := now\<rparr>) (presented token u email at) s1
          = (Inl e, s1) \<and> e \<in> {AcceptInvitationUnavailable, EmailMismatch}" for now u email at
  proof (cases "verify_at (pe_token env) (pe_authority env) token now")
    case (Inl e)
    then show ?thesis by (simp add: handle_accept_workspace_invitation_def presented_def)
  next
    case (Inr c)
    then show ?thesis
      using claims [OF Inr] v(2)
      by (auto simp: handle_accept_workspace_invitation_def presented_def in_unit_of_work_def
          accept_workspace_invitation_tx_def tx_defs accept_result_def split: option.split)
  qed
  then show ?thesis by (intro exI [of _ token]) (simp add: link)
qed

theorem resent_link_is_refused_witness:
  "\<exists>s link s1 token. handle_resend_workspace_invitation people_sample_env sample_resend execution_background s = (Inr link, s1)
     \<and> iwl_url link = link_for people_sample_env token
     \<and> \<not> is_ok (fst (handle_accept_workspace_invitation (people_sample_env\<lparr>pe_now := 7000000000\<rparr>)
           (presented token (UserId 2) ''g@x'' 7000000000) s1))"
proof -
  obtain link s1 where resent: "handle_resend_workspace_invitation people_sample_env sample_resend execution_background
      (sample_invited (ppl_outbox sample_people)) = (Inr link, s1)" using sample_resent by blast
  have "token_env_ok (pe_token people_sample_env)" "wf_authority (pe_authority people_sample_env)"
    using dotted_token_env_ok by (simp_all add: people_sample_env_def wf_authority_def)
  moreover have "rfc3339_time (pe_now people_sample_env)" "rfc3339_time (rsw_sent_at sample_resend + invitation_lifetime)"
    "1000 \<le> rsw_sent_at sample_resend mod nanos_per_second"
    by (simp_all add: rfc3339_time_def people_sample_env_def sample_resend_def invitation_lifetime_def)
  ultimately show ?thesis
    using resent_link_is_refused [OF _ _ resent] by (metis fst_conv is_ok.simps(1) resent)
qed


end
