(* ===== verification/Invitation_Mail.thy ===== *)
theory Invitation_Mail
  imports Invitation_Links
begin

text \<open>
  What the worker's delivery of invitations sends. Mail is handed to the provider only for the pending
  generation of an invitation; a generation whose delivery is recorded is never mailed again, whatever
  happens to the invitation and however often its message comes back; the last attempt never asks for
  another; and the text of a mail escapes what is shown in its HTML form.
\<close>

section \<open>Escaping\<close>

definition escape_char :: "char \<Rightarrow> string" where
  "escape_char ch =
     (if ch = CHR ''&'' then ''&amp;'' else if ch = CHR ''<'' then ''&lt;''
      else if ch = CHR ''>'' then ''&gt;'' else if ch = CHR 0x22 then ''&quot;''
      else if ch = CHR 0x27 then ''&#39;'' else [ch])"

lemma replace_char_append [simp]: "replace_char ch t (xs @ ys) = replace_char ch t xs @ replace_char ch t ys"
  by (induction xs) simp_all

lemma replace_char_concat:
  "replace_char ch t (concat (map f xs)) = concat (map (\<lambda>x. replace_char ch t (f x)) xs)"
  by (induction xs) simp_all

lemma replace_char_map: "replace_char ch t xs = concat (map (\<lambda>x. if x = ch then t else [x]) xs)"
  by (induction xs) simp_all

lemma escape_html_eq: "escape_html t = concat (map escape_char t)"
proof -
  have "escape_html [ch] = escape_char ch" for ch
    by (simp add: escape_html_def escape_char_def)
  moreover have "escape_html (xs @ ys) = escape_html xs @ escape_html ys" for xs ys
    by (simp add: escape_html_def)
  moreover have "escape_html [] = []" by (simp add: escape_html_def)
  ultimately show ?thesis
    by (induction t) (simp_all, metis append_Cons append_Nil)
qed

section \<open>Deliveries\<close>

text \<open>What a delivery hands over, in every outcome.\<close>

definition handed_over ::
  "delivery_env \<Rightarrow> invitation_delivery_work \<Rightarrow> people \<Rightarrow> mail_message list \<Rightarrow> bool" where
  "handed_over env work s sent \<longleftrightarrow>
     sent = [] \<or>
     (\<exists>v w url. invitation_get (WorkspaceInvitationId (work_invitation_id work)) s = Inr (Some v)
        \<and> inv_generation v = work_generation work
        \<and> invitation_status_at (pe_now (de_people env)) v = InvPending
        \<and> inv_delivered_generation v \<noteq> Some (work_generation work)
        \<and> workspace_details_get (inv_workspace_id v) s = Inr (Some w)
        \<and> issue_at (pe_token (de_people env)) (pe_nonce (de_people env)) (pe_authority (de_people env))
            (authority_source_of v) (pe_now (de_people env)) = Inr url
        \<and> sent = [invitation_mail v (wd_name w) url (idempotency_key (pe_uuid (de_people env)) work)])"

lemma write_then_return_mails: "snd (snd (tx_bind (on_people_write f) (\<lambda>_. tx_return x) w)) = snd w"
  by (cases "f (fst w)") (simp_all add: on_people_write_def tx_defs)

lemma record_delivery_mails: "snd (snd (record_delivery env b g v w)) = snd w"
  by (simp add: record_delivery_def Let_def write_then_return_mails tx_return_def
      split: sum.split prod.split delivery_update.split)

lemma deliver_mails:
  "\<exists>sent. snd (snd (deliver_tx env m work w)) = snd w @ sent \<and> handed_over env work (fst w) sent"
  by (simp add: deliver_tx_def Let_def on_people_read_def hand_over_def tx_defs handed_over_def
      record_delivery_mails split: sum.split option.split)

lemma delivery_mails:
  assumes "invitation_work_from_json (pe_uuid (de_people env)) (wm_payload m) = Some work"
  shows "\<exists>sent. snd (snd (handle_invitation_delivery env m w)) = snd w @ sent \<and> handed_over env work (fst w) sent"
proof -
  have "snd (snd (in_delivery_unit (deliver_tx env m work) w)) = snd (snd (deliver_tx env m work w))"
    by (simp add: in_delivery_unit_def split: prod.split sum.split)
  with deliver_mails [of env m work w] assms show ?thesis
    by (auto simp: handle_invitation_delivery_def handed_over_def)
qed

lemma delivery_wf: "wf_people (fst w) \<Longrightarrow> wf_people (fst (snd (handle_invitation_delivery env m w)))"
  using delivery_unit_post [where P = wf_people, OF deliver_keeps]
  by (simp add: handle_invitation_delivery_def split: option.split)

section \<open>Generations that are settled\<close>

definition settled_generation :: "workspace_invitation_id \<Rightarrow> i64 \<Rightarrow> people \<Rightarrow> bool" where
  "settled_generation i g s \<longleftrightarrow>
     (\<exists>v. invitation_get i s = Inr (Some v)
        \<and> (g < inv_generation v \<or> inv_generation v = g \<and> inv_delivered_generation v = Some g))"

definition new_id :: "people_command \<Rightarrow> people \<Rightarrow> bool" where
  "new_id c s \<longleftrightarrow>
     (case c of CreateInvitationCmd env cmd md \<Rightarrow>
        \<not> row_exists invrec_id (invitation_uuid (cwn_invitation_id cmd)) (ppl_invitations s)
      | _ \<Rightarrow> True)"

lemma invitation_get_saved:
  assumes "invitation_save lower v s = Inr t"
  shows "invitation_get i t = (if i = inv_id v then Inr (Some v) else invitation_get i s)"
proof -
  have "invitation_uuid i = invitation_uuid (inv_id v) \<longleftrightarrow> i = inv_id v"
    using workspace_invitation_id.expand by auto
  with invitation_save_Ok(1,3) [OF assms] invitation_reload [of v] show ?thesis
    by (simp add: invitation_get_def invitation_from_domain_def)
qed

lemma invitation_get_unchanged:
  "ppl_invitations t = ppl_invitations s \<Longrightarrow> invitation_get i t = invitation_get i s"
  by (simp add: invitation_get_def)

lemma settled_unchanged:
  "settled_generation i g s \<Longrightarrow> ppl_invitations t = ppl_invitations s \<Longrightarrow> settled_generation i g t"
  using invitation_get_unchanged [of t s i] by (simp add: settled_generation_def)

text \<open>A save keeps a generation settled where what it stores has moved on from what was loaded.\<close>

definition moves_on :: "workspace_invitation \<Rightarrow> workspace_invitation \<Rightarrow> bool" where
  "moves_on v v' \<longleftrightarrow> inv_id v' = inv_id v
     \<and> (inv_generation v < inv_generation v'
        \<or> inv_generation v' = inv_generation v
          \<and> (inv_delivered_generation v' = inv_delivered_generation v
             \<or> inv_delivered_generation v' = Some (inv_generation v)))"

lemma settled_saved:
  assumes "settled_generation i g s" and "invitation_get (inv_id v) s = Inr (Some v)" and "moves_on v v'"
    and "invitation_save lower v' s' = Inr t" and "ppl_invitations s' = ppl_invitations s"
  shows "settled_generation i g t"
  using assms(1-3) invitation_get_saved [OF assms(4), of i] invitation_get_unchanged [OF assms(5), of i]
  unfolding settled_generation_def moves_on_def by (cases "i = inv_id v") auto

lemma operations_move_on:
  "invitation_accept u at v = Inr (v', x) \<Longrightarrow> moves_on v v'"
  "resend g at ex v = Inr v' \<Longrightarrow> moves_on v v'"
  "invitation_revoke g at v = Inr v' \<Longrightarrow> moves_on v v'"
  "moves_on v (fst (record_delivery_success g at v))"
  "moves_on v (fst (record_delivery_failure g f at v))"
  by (auto simp: op_defs moves_on_def split: if_splits)

lemma invitation_get_id: "invitation_get i s = Inr (Some v) \<Longrightarrow> inv_id v = i"
  by (cases i) (auto simp: invitation_get_def map_transpose_Some_iff invitation_into_domain_def and_then_Ok_iff
      invitation_rehydrate_Ok_iff dest!: find_row_SomeD)

lemma managed_invitation_get:
  assumes "wf_people s" and "fst (managed_invitation actor i s) = Inr (Some (w, v))"
  shows "invitation_get (inv_id v) s = Inr (Some v)"
proof -
  from assms(2) have "invitation_get_for_workspace i w s = Inr (Some v)"
    by (auto simp: managed_invitation_def tx_defs resolve_id_for_member_def split: option.splits sum.splits if_splits)
  then obtain r where r: "find (\<lambda>r. invrec_id r = invitation_uuid i \<and> invrec_workspace_id r = workspace_uuid w)
      (ppl_invitations s) = Some r" "invitation_into_domain r = Inr v"
    by (auto simp: invitation_get_for_workspace_def map_transpose_Some_iff)
  then have "r \<in> set (ppl_invitations s)" "invrec_id r = invitation_uuid i" by (auto simp: find_Some_iff)
  moreover have "table_wf invrec_id (ppl_invitations s)"
    using assms(1) by (simp add: wf_people_def wf_invitations_def)
  ultimately have "invitation_get i s = Inr (Some v)"
    using r(2) by (simp add: invitation_get_def find_row_iff map_transpose_Some_iff) blast
  with invitation_get_id show ?thesis by metis
qed

text \<open>Every command keeps a settled generation settled.\<close>

lemma other_tables_keep_settled:
  assumes "settled_generation i g s"
  shows "tx_ensures (create_owned_workspace_tx cw) (\<lambda>_. settled_generation i g) s"
    and "tx_ensures (remove_workspace_member_tx rm) (\<lambda>_. settled_generation i g) s"
    and "tx_ensures (provision_user_tx env pu) (\<lambda>_. settled_generation i g) s"
    and "tx_ensures (record_user_login_tx rl) (\<lambda>_. settled_generation i g) s"
proof -
  have ws: "settled_generation i g t" if "people_workspace_save w s = Inr t" for w t
    using people_workspace_save_Ok [OF that] assms by (auto intro: settled_unchanged)
  have us: "settled_generation i g t" if "user_save u s = Inr t" for u t
    using user_save_Ok(1) [OF that] assms by (auto intro: settled_unchanged)
  show "tx_ensures (create_owned_workspace_tx cw) (\<lambda>_. settled_generation i g) s"
    "tx_ensures (remove_workspace_member_tx rm) (\<lambda>_. settled_generation i g) s"
    using assms by (simp_all add: create_owned_workspace_tx_def remove_workspace_member_tx_def Let_def tx_post ws)
  show "tx_ensures (provision_user_tx env pu) (\<lambda>_. settled_generation i g) s"
    "tx_ensures (record_user_login_tx rl) (\<lambda>_. settled_generation i g) s"
    using assms by (simp_all add: provision_user_tx_def record_user_login_tx_def tx_post us)
qed

lemma settled_outbox: "settled_generation i g s \<Longrightarrow> settled_generation i g (s\<lparr>ppl_outbox := x\<rparr>)"
  by (rule settled_unchanged) simp_all

lemma managed_keep_settled:
  assumes "wf_people s" and "settled_generation i g s"
  shows "tx_ensures (resend_workspace_invitation_tx env rs md) (\<lambda>_. settled_generation i g) s"
    and "tx_ensures (revoke_workspace_invitation_tx env rv) (\<lambda>_. settled_generation i g) s"
proof -
  note saved = settled_saved [OF assms(2) managed_invitation_get [OF assms(1)] _ _ refl]
  show "tx_ensures (resend_workspace_invitation_tx env rs md) (\<lambda>_. settled_generation i g) s"
    by (simp add: resend_workspace_invitation_tx_def tx_post assms(2))
      (blast intro: settled_outbox saved operations_move_on)
  show "tx_ensures (revoke_workspace_invitation_tx env rv) (\<lambda>_. settled_generation i g) s"
    by (simp add: revoke_workspace_invitation_tx_def tx_post assms(2))
      (blast intro: saved operations_move_on)
qed

lemma create_keeps_settled:
  assumes "settled_generation i g s" and "new_id (CreateInvitationCmd env cmd md) s"
  shows "tx_ensures (create_workspace_invitation_tx env cmd email md) (\<lambda>_. settled_generation i g) s"
proof -
  have "settled_generation i g t"
    if "invitation_create (cwn_invitation_id cmd) w u e at x = Inr v0" "queue_delivery k at' v0 = Inr v"
      "invitation_save lower v s = Inr t" for w u e at x v0 k at' v lower t
  proof -
    have v: "inv_id v = cwn_invitation_id cmd"
      using that(1,2) by (auto simp: invitation_create_def invitation_rehydrate_Ok_iff queue_delivery_def split: if_splits)
    have "i \<noteq> cwn_invitation_id cmd"
      using assms by (auto simp: settled_generation_def new_id_def invitation_get_def row_exists_def list_ex_iff
          map_transpose_Some_iff dest!: find_row_SomeD)
    with assms(1) invitation_get_saved [OF that(3), of i] v show ?thesis by (simp add: settled_generation_def)
  qed
  with assms(1) show ?thesis
    by (simp add: create_workspace_invitation_tx_def tx_post) (blast intro: settled_outbox)
qed

lemma accept_keeps_settled:
  assumes "settled_generation i g s"
  shows "tx_ensures (accept_workspace_invitation_tx env cmd claims email) (\<lambda>_. settled_generation i g) s"
proof -
  have ws: "ppl_invitations t = ppl_invitations s" if "people_workspace_save w s = Inr t" for w t
    using people_workspace_save_Ok [OF that] by auto
  have join: "settled_generation i g t" if "people_workspace_save w s = Inr t" for w t
    using settled_unchanged [OF assms ws [OF that]] .
  have saved: "settled_generation i g t'"
    if "invitation_get k s = Inr (Some v)" "invitation_accept u at v = Inr (v', x)"
      "invitation_save lower v' t = Inr t'" "t = s \<or> people_workspace_save w s = Inr t" for k v u at v' x lower t t' w
    using settled_saved [OF assms _ operations_move_on(1) [OF that(2)] that(3)] that(1,4) ws
      invitation_get_id [OF that(1)] by metis
  show ?thesis
    by (simp add: accept_workspace_invitation_tx_def replay_acceptance_def join_workspace_def tx_post assms)
      (use join saved in blast)
qed

lemma deliver_keeps_settled:
  assumes "settled_generation i g (fst w)"
  shows "tx_ensures (deliver_tx env m work) (\<lambda>_ t. settled_generation i g (fst t)) w"
proof -
  have "tx_ensures (record_delivery env b k v) (\<lambda>_ t. settled_generation i g (fst t)) (fst w, mails)"
    if get: "invitation_get j (fst w) = Inr (Some v)" for b k v j mails
  proof -
    have "settled_generation i g t" if "moves_on v v'" "invitation_save lower v' (fst w) = Inr t" for v' lower t
      using settled_saved [OF assms _ that refl] invitation_get_id [OF get] get by simp
    note keeps = this [OF operations_move_on(4)] this [OF operations_move_on(5)]
    show ?thesis
      by (simp add: record_delivery_def Let_def tx_post assms
          split: sum.split prod.split delivery_update.split) (use keeps in blast)
  qed
  with assms show ?thesis by (simp add: deliver_tx_def Let_def tx_post) blast
qed

lemmas commands_keep_settled =
  other_tables_keep_settled managed_keep_settled create_keeps_settled accept_keeps_settled

lemma people_step_settled:
  assumes "wf_people s" and "settled_generation i g s" and "new_id c s"
  shows "settled_generation i g (people_step c s)"
proof (cases c)
  case (DeliverInvitationCmd env m)
  have "settled_generation i g (fst (snd (in_delivery_unit (deliver_tx env m work) (s, []))))" for work
    using delivery_unit_post [where P = "settled_generation i g", OF deliver_keeps_settled] assms(2) by simp
  with assms(2) show ?thesis
    by (simp add: DeliverInvitationCmd handle_invitation_delivery_def split: option.split)
qed (use assms in \<open>simp_all add: handler_defs commands_keep_settled
    unit_of_work_post [where P = "settled_generation i g"] split: option.split sum.split\<close>)

interpretation settling: aggregate people_step new_id "\<lambda>s. wf_people s \<and> settled_generation i g s"
  by unfold_locales (auto intro: people_step_wf people_step_settled)


lemma delivery_settles:
  assumes "handle_invitation_delivery env m (s, mails) = (Inr (), s1, mails1)" and "mails1 \<noteq> mails"
    and "invitation_work_from_json (pe_uuid (de_people env)) (wm_payload m) = Some work"
    and "mail_send (de_response env) = Inr ()"
    and "\<forall>v. invitation_get (WorkspaceInvitationId (work_invitation_id work)) s = Inr (Some v) \<longrightarrow>
           de_sent_at env < inv_expires_at v"
  shows "settled_generation (WorkspaceInvitationId (work_invitation_id work)) (work_generation work) s1"
proof -
  let ?i = "WorkspaceInvitationId (work_invitation_id work)" and ?g = "work_generation work"
  have "\<exists>out. deliver_tx env m work (s, mails) = (Inr out, s1, mails1)"
    using assms(1-3)
    by (cases "in_delivery_unit (deliver_tx env m work) (s, mails)")
      (auto simp: handle_invitation_delivery_def and_then_Ok_iff in_delivery_unit_def
        split: if_splits prod.splits sum.splits)
  then obtain out where run: "deliver_tx env m work (s, mails) = (Inr out, s1, mails1)" ..
  have "inv_generation v' = ?g \<and> inv_delivered_generation v' = Some ?g \<and> inv_id v' = inv_id v"
    if "inv_generation v = ?g" "record_delivery_success ?g at v = (v', DeliveryApplied)" for v v' at
    using that by (auto simp: record_delivery_success_def split: if_splits)
  then have saved: "settled_generation ?i ?g t"
    if "invitation_get ?i s = Inr (Some v)" "inv_generation v = ?g"
      "snd (record_delivery_success ?g at v) = DeliveryApplied"
      "invitation_save lower (fst (record_delivery_success ?g at v)) s = Inr t" for v at lower t
    using that invitation_get_saved [OF that(4), of ?i] invitation_get_id [OF that(1)]
    by (cases "record_delivery_success ?g at v") (auto simp: settled_generation_def)
  have recorded: "snd (record_delivery_success ?g at v) = DeliveryApplied"
    if "inv_generation v = ?g" "invitation_status_at now v = InvPending" "at < inv_expires_at v" for v now at
    using that by (auto simp: record_delivery_success_def invitation_status_at_def split: if_splits)
  have key: "tx_ensures (record_delivery env b ?g v) (\<lambda>_ t. snd t \<noteq> mails \<longrightarrow> settled_generation ?i ?g (fst t)) (s, ms)"
    if v: "invitation_get ?i s = Inr (Some v)" "inv_generation v = ?g"
      "invitation_status_at (pe_now (de_people env)) v = InvPending" for b v ms
  proof -
    have applied: "snd (record_delivery_success ?g (de_sent_at env) v) = DeliveryApplied"
      using recorded [OF v(2,3)] assms(5) v(1) by blast
    then obtain v' where v': "record_delivery_success ?g (de_sent_at env) v = (v', DeliveryApplied)"
      by (metis prod.collapse)
    have "settled_generation ?i ?g t" if "invitation_save lower v' s = Inr t" for lower t
      using saved [OF v(1,2) applied, of lower t] that by (simp add: v')
    then show ?thesis by (simp add: record_delivery_def assms(4) Let_def v' tx_post)
  qed
  have "tx_ensures (deliver_tx env m work) (\<lambda>_ t. snd t \<noteq> mails \<longrightarrow> settled_generation ?i ?g (fst t)) (s, mails)"
    by (simp add: deliver_tx_def Let_def tx_post) (use key in blast)
  from tx_ensuresD [OF this run] assms(2) show ?thesis by simp
qed

section \<open>Properties\<close>

text \<open>
  C11: Once the mail provider has accepted the mail of an invitation's generation within the life of
  the invitation and the delivery has been acknowledged, no later delivery for that generation hands any
  mail over, however often and with whatever answers it comes, and whatever is done in between to
  workspaces, users and invitations, as long as new invitations get new ids.
\<close>

theorem generation_is_mailed_once:
  assumes "wf_people s" and "handle_invitation_delivery env m (s, mails) = (Inr (), s1, mails1)" and "mails1 \<noteq> mails"
    and "invitation_work_from_json (pe_uuid (de_people env)) (wm_payload m) = Some work"
    and "mail_send (de_response env) = Inr ()"
    and "\<forall>v. invitation_get (WorkspaceInvitationId (work_invitation_id work)) s = Inr (Some v) \<longrightarrow>
           de_sent_at env < inv_expires_at v"
    and "allowed_run people_step new_id cmds s1"
    and "invitation_work_from_json (pe_uuid (de_people env')) (wm_payload m') = Some work"
  shows "snd (snd (handle_invitation_delivery env' m' (fold people_step cmds s1, mails'))) = mails'"
proof -
  let ?s = "fold people_step cmds s1"
  have "wf_people s1"
    using delivery_wf [of "(s, mails)" env m] assms(1,2) by simp
  then have "settled_generation (WorkspaceInvitationId (work_invitation_id work)) (work_generation work) ?s"
    using settling.run_wf [OF _ assms(7)] delivery_settles [OF assms(2-6)] by blast
  moreover obtain sent where "snd (snd (handle_invitation_delivery env' m' (?s, mails'))) = mails' @ sent"
    "handed_over env' work ?s sent"
    using delivery_mails [OF assms(8), of "(?s, mails')"] by auto
  ultimately show ?thesis by (auto simp: handed_over_def settled_generation_def)
qed

definition sample_work :: invitation_delivery_work where
  "sample_work = \<lparr>work_invitation_id = 3, work_generation = 1\<rparr>"

definition sample_delivery :: worker_message where
  "sample_delivery = \<lparr>wm_message_id = ''m'', wm_event_type = send_workspace_invitation_type,
     wm_aggregate_type = ''workspace_invitation'', wm_aggregate_id = uuid_text simple_uuid_codec 3,
     wm_request_id = None, wm_payload = payload_to_json simple_uuid_codec (InvitationPayload sample_work),
     wm_delivery_attempt = Some 1\<rparr>"

definition sample_delivery_env :: "nat option \<Rightarrow> delivery_env" where
  "sample_delivery_env response = \<lparr>de_people = people_sample_env, de_max_delivery_attempts = 5,
     de_response = response, de_sent_at = 6000000000\<rparr>"

lemma sample_work_read:
  "invitation_work_from_json (pe_uuid (de_people (sample_delivery_env r))) (wm_payload sample_delivery) = Some sample_work"
  using json_uuid_of [OF simple_uuid_codec_ok, of 3]
  by (simp add: invitation_work_from_json_def sample_delivery_def sample_delivery_env_def people_sample_env_def
      sample_work_def required_field_def json_int_in_def i64_max_def)

lemma sample_invited_get:
  "invitation_get (WorkspaceInvitationId 3) (sample_invited x) = Inr (Some sample_invitation_row)"
  using invitation_reload [OF invitation_save_Ok(3) [OF sample_invitation_saved]]
  by (simp add: invitation_get_def sample_invited_def find_row_def)
    (simp add: invitation_from_domain_def sample_invitation_row_def)

lemma sample_delivered:
  "\<exists>s1 sent. handle_invitation_delivery (sample_delivery_env (Some 200)) sample_delivery
     (sample_invited (ppl_outbox sample_people), []) = (Inr (), s1, [sent])"
proof -
  let ?s = "sample_invited (ppl_outbox sample_people)" and ?env = "sample_delivery_env (Some 200)"
  let ?v = "sample_invitation_row\<lparr>inv_delivered_generation := Some 1, inv_delivered_at := Some 6000000000\<rparr>"
  have details: "\<exists>w. workspace_details_get (inv_workspace_id sample_invitation_row) ?s = Inr (Some w)"
    by (simp add: workspace_details_get_def sample_invited_def sample_people_eq find_row_def sample_invitation_row_def)
  have issue: "\<exists>url. issue_at dotted_token_env [] (pe_authority people_sample_env)
      (authority_source_of sample_invitation_row) 5000000000 = Inr url"
    by (simp add: issue_at_def issue_token_def Let_def authority_source_of_def sample_invitation_row_def
        dotted_token_env_def)
  have saved: "\<exists>t. invitation_save (\<lambda>t. t) ?v ?s = Inr t"
    by (simp add: sample_invited_def sample_people_eq invitation_save_def Let_def save_row_def first_violation_def
      invitation_violations_def invitation_checks_def invitation_from_domain_def sql_trim_def
      between_one_and_def row_exists_def sample_invitation_row_def)
  have recorded: "record_delivery_success 1 6000000000 sample_invitation_row = (?v, DeliveryApplied)"
    by (simp add: record_delivery_success_def sample_invitation_row_def invitation_status_at_def)
  have current: "inv_generation sample_invitation_row = 1" "inv_delivered_generation sample_invitation_row = None"
    "invitation_status_at 5000000000 sample_invitation_row = InvPending"
    by (simp_all add: sample_invitation_row_def invitation_status_at_def)
  have env: "pe_lower people_sample_env = (\<lambda>t. t)" "pe_now people_sample_env = 5000000000"
    "pe_token people_sample_env = dotted_token_env" "pe_nonce people_sample_env = []"
    by (simp_all add: people_sample_env_def)
  obtain w url t where facts: "workspace_details_get (inv_workspace_id sample_invitation_row) ?s = Inr (Some w)"
    "issue_at dotted_token_env [] (pe_authority people_sample_env)
      (authority_source_of sample_invitation_row) 5000000000 = Inr url"
    "invitation_save (\<lambda>t. t) ?v ?s = Inr t" using details issue saved by blast
  have "\<exists>s1 sent. deliver_tx ?env sample_delivery sample_work (?s, []) = (Inr DeliveryDone, s1, [sent])"
    by (simp add: deliver_tx_def sample_work_def sample_delivery_env_def Let_def on_people_read_def hand_over_def
        record_delivery_def mail_send_def on_people_write_def tx_defs sample_invited_get current env facts recorded)
  then show ?thesis
    using sample_work_read [of "Some 200"]
    by (auto simp: handle_invitation_delivery_def in_delivery_unit_def)
      (auto simp: sample_work_def sample_delivery_def sample_delivery_env_def people_sample_env_def)
qed

theorem generation_is_mailed_once_witness:
  "\<exists>s1 sent. handle_invitation_delivery (sample_delivery_env (Some 200)) sample_delivery
     (sample_invited (ppl_outbox sample_people), []) = (Inr (), s1, [sent])
   \<and> snd (snd (handle_invitation_delivery (sample_delivery_env None) sample_delivery (s1, [sent]))) = [sent]"
proof -
  let ?s = "sample_invited (ppl_outbox sample_people)"
  obtain s1 sent where first: "handle_invitation_delivery (sample_delivery_env (Some 200)) sample_delivery
     (?s, []) = (Inr (), s1, [sent])" using sample_delivered by blast
  have "wf_people sample_people" unfolding sample_people_def by (rule reachable_people_wf)
  then have "wf_people ?s" using invitation_save_wf [OF sample_invitation_saved] by simp
  from generation_is_mailed_once [OF this first _ sample_work_read _ _ _ sample_work_read, of "[]"] first
  show ?thesis
    using sample_invited_get [of "ppl_outbox sample_people"]
    by (auto simp: sample_delivery_env_def mail_send_def sample_work_def sample_invitation_row_def)
qed

text \<open>
  C39: Escaping for HTML replaces the five special characters of a text one by one in a single reading,
  although the code replaces them in five passes of which later ones read what earlier ones wrote, and
  leaves no character that could open a tag or end an attribute.
\<close>

theorem html_is_escaped:
  "escape_html t = concat (map escape_char t)
   \<and> set (escape_html t) \<inter> {CHR ''<'', CHR ''>'', CHR 0x22, CHR 0x27} = {}"
proof -
  have "set (escape_char ch) \<inter> {CHR ''<'', CHR ''>'', CHR 0x22, CHR 0x27} = {}" for ch
    by (simp add: escape_char_def)
  then show ?thesis unfolding escape_html_eq by auto
qed

text \<open>
  The last attempt to deliver an invitation never asks for another, whatever the mail provider answers.
\<close>

theorem last_mail_attempt_settles:
  assumes "is_final_delivery env m"
  shows "fst (handle_invitation_delivery env m w) \<noteq> Inl DeliveryMail"
proof -
  have "tx_ensures (deliver_tx env m work) (\<lambda>out _. \<forall>x. out \<noteq> DeliveryRetry x) w" for work
    using assms by (simp add: deliver_tx_def record_delivery_def Let_def tx_post
        split: sum.split prod.split delivery_update.split)
  then have "fst (in_delivery_unit (deliver_tx env m work) w) \<noteq> Inr (DeliveryRetry x)" for work x
    by (auto simp: tx_ensures_def in_delivery_unit_def split: prod.splits sum.splits)
  moreover have "and_then (map_err DeliveryRepository r)
      (\<lambda>out. case out of DeliveryRetry _ \<Rightarrow> Err DeliveryMail | _ \<Rightarrow> Ok ()) \<noteq> (Inl DeliveryMail :: delivery_error + unit)"
    if "\<forall>x. r \<noteq> Inr (DeliveryRetry x)" for r
    using that by (cases r) (auto split: delivery_outcome.splits)
  ultimately show ?thesis by (simp add: handle_invitation_delivery_def split: option.split)
qed

end
