(* ===== verification/Catalogue_Store.thy ===== *)
theory Catalogue_Store
  imports People "HOL-Library.Product_Lexorder" "HOL-Library.List_Lexorder"
begin

text \<open>
  The tables of the compliance catalogue and the repositories over them
  (\<^verbatim>\<open>src/persistence/aggregates/{evidence,controls,policies}.rs\<close>), with the constraints of the
  migration, and the reads the catalogue commands use
  (\<^verbatim>\<open>src/persistence/reads/{controls,frameworks,evidence,policies}.rs\<close>). A save of an aggregate writes its
  row and replaces its mapping rows; a mapping row that violates a constraint fails the statement.
\<close>

section \<open>Tables\<close>

datatype framework_id = FrameworkId (framework_uuid: uuid)

record framework_record =
  fwrec_id :: uuid
  fwrec_code :: string
  fwrec_name :: string
  fwrec_description :: string

record framework_requirement_record =
  frrec_id :: uuid
  frrec_framework_id :: uuid
  frrec_code :: string
  frrec_title :: string
  frrec_description :: string

record catalogue =
  cat_db :: db
  cat_frameworks :: "framework_record list"
  cat_requirements :: "framework_requirement_record list"
  cat_controls :: "control_record list"
  cat_control_requirements :: "(uuid \<times> uuid) list"
  cat_evidence_mappings :: "evidence_mapping_record list"
  cat_policy_mappings :: "policy_mapping_record list"

text \<open>
  What the handlers take from outside: the successive readings of the clock, a new id, and the
  lower-case mapping and the collation of the database, which gives a text the sort key it is compared by.
\<close>

record catalogue_env =
  ce_clock :: "nat \<Rightarrow> datetime"
  ce_new_id :: uuid
  ce_lower :: "string \<Rightarrow> string"
  ce_collate :: "string \<Rightarrow> nat list"

text \<open>An \<^verbatim>\<open>INSERT\<close> with its constraints, whose failure is not classified.\<close>

definition insert_checked :: "(bool \<times> db_failure) list \<Rightarrow> 'r list \<Rightarrow> 'r list \<Rightarrow> repository_error + 'r list" where
  "insert_checked checks new rows =
     (case find fst checks of Some (_, e) \<Rightarrow> Err (Database e) | None \<Rightarrow> Ok (rows @ new))"

fun insert_each ::
  "('r \<Rightarrow> 'r list \<Rightarrow> (bool \<times> db_failure) list) \<Rightarrow> 'r list \<Rightarrow> 'r list \<Rightarrow> repository_error + 'r list" where
  "insert_each checks [] rows = Ok rows"
| "insert_each checks (r # rs) rows =
     and_then (insert_checked (checks r rows) [r] rows) (insert_each checks rs)"

section \<open>Evidence\<close>

definition evidence_get ::
  "workspace_id \<Rightarrow> evidence_id \<Rightarrow> catalogue \<Rightarrow> repository_error + evidence option" where
  "evidence_get w i s =
     (case find (\<lambda>r. evrec_id r = evidence_uuid i \<and> evrec_workspace_id r = workspace_uuid w)
         (db_evidence (cat_db s)) of
        None \<Rightarrow> Ok None
      | Some r \<Rightarrow>
          and_then (collect_results (map evidence_mapping_from_row (sort_key ecmrec_control_id
            (filter (\<lambda>m. ecmrec_evidence_id m = evidence_uuid i) (cat_evidence_mappings s))))) (\<lambda>ms.
          and_then (evidence_into_domain r ms) (\<lambda>e. Ok (Some e))))"

definition evidence_violations :: "catalogue \<Rightarrow> evidence_record \<Rightarrow> (bool \<times> db_failure) list" where
  "evidence_violations s r =
     [(evrec_status r \<notin> {''active'', ''paused'', ''retired''}, check_violation ''evidence_status_check''),
      (\<not> row_exists wsrec_id (evrec_workspace_id r) (workspaces_table (db_workspaces (cat_db s))),
        foreign_key_violation ''evidence_workspace_id_fkey'')]"

definition evidence_mapping_violations ::
  "evidence_record list \<Rightarrow> control_record list \<Rightarrow> evidence_mapping_record \<Rightarrow> evidence_mapping_record list
   \<Rightarrow> (bool \<times> db_failure) list" where
  "evidence_mapping_violations evidence controls m rows =
     [(list_ex (\<lambda>x. ecmrec_evidence_id x = ecmrec_evidence_id m
          \<and> ecmrec_control_id x = ecmrec_control_id m) rows,
        unique_key_violation ''evidence_control_mappings_pkey''),
      (\<not> row_exists evrec_id (ecmrec_evidence_id m) evidence,
        foreign_key_violation ''evidence_control_mappings_evidence_id_fkey''),
      (\<not> row_exists ctlrec_id (ecmrec_control_id m) controls,
        foreign_key_violation ''evidence_control_mappings_control_id_fkey'')]"

definition evidence_save :: "evidence \<Rightarrow> catalogue \<Rightarrow> repository_error + catalogue" where
  "evidence_save e s =
     (let r = evidence_from_domain e in
      and_then (save_row (evidence_violations s r) evrec_id r (db_evidence (cat_db s))) (\<lambda>rows.
      and_then (insert_each (evidence_mapping_violations rows (cat_controls s))
          (map (evidence_mapping_from_domain (evrec_id r)) (ev_mappings e))
          (delete_rows (\<lambda>m. ecmrec_evidence_id m = evrec_id r) (cat_evidence_mappings s))) (\<lambda>ms.
        Ok (s\<lparr>cat_db := (cat_db s)\<lparr>db_evidence := rows\<rparr>, cat_evidence_mappings := ms\<rparr>))))"

record evidence_detail =
  evdt_id :: evidence_id
  evdt_workspace_id :: workspace_id
  evdt_title :: string
  evdt_description :: string
  evdt_collection_instructions :: string
  evdt_status :: evidence_status
  evdt_created_at :: datetime
  evdt_updated_at :: datetime

definition evidence_detail_from_row :: "evidence_record \<Rightarrow> repository_error + evidence_detail" where
  "evidence_detail_from_row r =
     and_then (map_err InvalidData (evidence_status_from_str (evrec_status r))) (\<lambda>status.
       Ok \<lparr>evdt_id = EvidenceId (evrec_id r), evdt_workspace_id = WorkspaceId (evrec_workspace_id r),
           evdt_title = evrec_title r, evdt_description = evrec_description r,
           evdt_collection_instructions = evrec_collection_instructions r, evdt_status = status,
           evdt_created_at = evrec_created_at r, evdt_updated_at = evrec_updated_at r\<rparr>)"

definition evidence_detail_get ::
  "workspace_id \<Rightarrow> evidence_id \<Rightarrow> catalogue \<Rightarrow> repository_error + evidence_detail option" where
  "evidence_detail_get w i s =
     map_transpose evidence_detail_from_row
       (find (\<lambda>r. evrec_id r = evidence_uuid i \<and> evrec_workspace_id r = workspace_uuid w)
         (db_evidence (cat_db s)))"

definition evidence_list ::
  "catalogue_env \<Rightarrow> workspace_id \<Rightarrow> catalogue \<Rightarrow> repository_error + evidence_detail list" where
  "evidence_list env w s =
     collect_results (map evidence_detail_from_row
       (sort_key (\<lambda>r. ce_collate env (evrec_title r))
         (filter (\<lambda>r. evrec_workspace_id r = workspace_uuid w) (db_evidence (cat_db s)))))"

section \<open>Controls\<close>

definition requirements_of :: "uuid \<Rightarrow> (uuid \<times> uuid) list \<Rightarrow> uuid list" where
  "requirements_of control rows = map snd (filter (\<lambda>m. fst m = control) rows)"

definition control_get ::
  "workspace_id \<Rightarrow> control_id \<Rightarrow> catalogue \<Rightarrow> repository_error + control option" where
  "control_get w i s =
     map_transpose (\<lambda>r. control_into_domain r
         (map FrameworkRequirementId (sort (requirements_of (control_uuid i) (cat_control_requirements s)))))
       (find (\<lambda>r. ctlrec_id r = control_uuid i \<and> ctlrec_workspace_id r = workspace_uuid w) (cat_controls s))"

definition control_violations :: "catalogue \<Rightarrow> control_record \<Rightarrow> (bool \<times> db_failure) list" where
  "control_violations s r =
     [(list_ex (\<lambda>x. ctlrec_id x \<noteq> ctlrec_id r \<and> ctlrec_workspace_id x = ctlrec_workspace_id r
          \<and> ctlrec_code x = ctlrec_code r) (cat_controls s),
        unique_key_violation ''controls_workspace_id_code_key''),
      (\<not> row_exists wsrec_id (ctlrec_workspace_id r) (workspaces_table (db_workspaces (cat_db s))),
        foreign_key_violation ''controls_workspace_id_fkey'')]"

text \<open>One statement inserts every requirement of a control.\<close>

definition requirement_mapping_violations ::
  "control_record list \<Rightarrow> framework_requirement_record list \<Rightarrow> uuid \<Rightarrow> uuid list \<Rightarrow> (uuid \<times> uuid) list
   \<Rightarrow> (bool \<times> db_failure) list" where
  "requirement_mapping_violations controls requirements control ids rows =
     [(\<not> distinct ids \<or> list_ex (\<lambda>m. fst m = control \<and> snd m \<in> set ids) rows,
        unique_key_violation ''control_framework_requirement_mappings_pkey''),
      (ids \<noteq> [] \<and> \<not> row_exists ctlrec_id control controls,
        foreign_key_violation ''control_framework_requirement_mappings_control_id_fkey''),
      (\<not> list_all (\<lambda>i. row_exists frrec_id i requirements) ids,
        foreign_key_violation ''control_framework_requirement_map_framework_requirement_id_fkey'')]"

definition control_save :: "control \<Rightarrow> catalogue \<Rightarrow> repository_error + catalogue" where
  "control_save c s =
     (let r = control_from_domain c;
          ids = map framework_requirement_uuid (ctl_framework_requirement_ids c);
          kept = delete_rows (\<lambda>m. fst m = ctlrec_id r) (cat_control_requirements s) in
      and_then (save_row (control_violations s r) ctlrec_id r (cat_controls s)) (\<lambda>rows.
      and_then (insert_checked
          (requirement_mapping_violations rows (cat_requirements s) (ctlrec_id r) ids kept)
          (map (Pair (ctlrec_id r)) ids) kept) (\<lambda>ms.
        Ok (s\<lparr>cat_controls := rows, cat_control_requirements := ms\<rparr>))))"

definition existing_ids ::
  "workspace_id \<Rightarrow> control_id list \<Rightarrow> catalogue \<Rightarrow> repository_error + control_id set" where
  "existing_ids w ids s =
     Ok (set (filter (\<lambda>i. i \<in> set ids)
       (map (\<lambda>r. ControlId (ctlrec_id r))
         (filter (\<lambda>r. ctlrec_workspace_id r = workspace_uuid w) (cat_controls s)))))"

definition ids_exist :: "workspace_id \<Rightarrow> control_id list \<Rightarrow> catalogue \<Rightarrow> repository_error + bool" where
  "ids_exist w ids s =
     and_then (existing_ids w ids s) (\<lambda>found. Ok (card found = card (set ids)))"

definition requirements_exist ::
  "framework_requirement_id list \<Rightarrow> catalogue \<Rightarrow> repository_error + bool" where
  "requirements_exist ids s =
     Ok (ids = [] \<or> card (set (filter (\<lambda>i. i \<in> framework_requirement_uuid ` set ids)
           (map frrec_id (cat_requirements s)))) = card (framework_requirement_uuid ` set ids))"

record framework_detail =
  fwdt_id :: framework_id
  fwdt_code :: string
  fwdt_name :: string
  fwdt_description :: string

record framework_requirement_detail =
  frdt_id :: framework_requirement_id
  frdt_framework_id :: framework_id
  frdt_framework_code :: string
  frdt_framework_name :: string
  frdt_code :: string
  frdt_title :: string
  frdt_description :: string

record control_detail =
  ctdt_id :: control_id
  ctdt_workspace_id :: workspace_id
  ctdt_code :: string
  ctdt_title :: string
  ctdt_description :: string
  ctdt_framework_requirements :: "framework_requirement_detail list"
  ctdt_created_at :: datetime
  ctdt_updated_at :: datetime

definition framework_list :: "catalogue_env \<Rightarrow> catalogue \<Rightarrow> framework_detail list" where
  "framework_list env s =
     map (\<lambda>r. \<lparr>fwdt_id = FrameworkId (fwrec_id r), fwdt_code = fwrec_code r, fwdt_name = fwrec_name r,
               fwdt_description = fwrec_description r\<rparr>)
       (sort_key (\<lambda>r. ce_collate env (fwrec_code r)) (cat_frameworks s))"

definition requirement_detail ::
  "framework_requirement_record \<Rightarrow> framework_record \<Rightarrow> framework_requirement_detail" where
  "requirement_detail r f =
     \<lparr>frdt_id = FrameworkRequirementId (frrec_id r), frdt_framework_id = FrameworkId (frrec_framework_id r),
      frdt_framework_code = fwrec_code f, frdt_framework_name = fwrec_name f, frdt_code = frrec_code r,
      frdt_title = frrec_title r, frdt_description = frrec_description r\<rparr>"

definition framework_requirement_list ::
  "catalogue_env \<Rightarrow> framework_id \<Rightarrow> catalogue \<Rightarrow> framework_requirement_detail list" where
  "framework_requirement_list env i s =
     map (\<lambda>(r, f). requirement_detail r f)
       (sort_key (\<lambda>(r, f). ce_collate env (frrec_code r))
         [(r, f). r \<leftarrow> cat_requirements s, frrec_framework_id r = framework_uuid i,
            f \<leftarrow> cat_frameworks s, fwrec_id f = frrec_framework_id r])"

text \<open>
  The rows of the left joins of a control: one without a requirement where nothing is mapped. A row
  whose framework is missing has a null the row decoder rejects.
\<close>

type_synonym control_row = "control_record \<times> (framework_requirement_record \<times> framework_record option) option"

definition control_rows :: "catalogue \<Rightarrow> control_record \<Rightarrow> control_row list" where
  "control_rows s c =
     (let joined = [(r, find (\<lambda>f. fwrec_id f = frrec_framework_id r) (cat_frameworks s)).
            i \<leftarrow> requirements_of (ctlrec_id c) (cat_control_requirements s),
            r \<leftarrow> cat_requirements s, frrec_id r = i] in
      if joined = [] then [(c, None)] else map (\<lambda>x. (c, Some x)) joined)"

definition requirement_order :: "catalogue_env \<Rightarrow> control_row \<Rightarrow> bool \<times> nat list" where
  "requirement_order env = (\<lambda>(c, x).
     case x of None \<Rightarrow> (True, []) | Some (r, f) \<Rightarrow> (False, ce_collate env (frrec_code r)))"

definition control_detail_from_row :: "control_record \<Rightarrow> control_detail" where
  "control_detail_from_row r =
     \<lparr>ctdt_id = ControlId (ctlrec_id r), ctdt_workspace_id = WorkspaceId (ctlrec_workspace_id r),
      ctdt_code = ctlrec_code r, ctdt_title = ctlrec_title r, ctdt_description = ctlrec_description r,
      ctdt_framework_requirements = [], ctdt_created_at = ctlrec_created_at r,
      ctdt_updated_at = ctlrec_updated_at r\<rparr>"

definition push_requirement :: "control_row \<Rightarrow> control_detail \<Rightarrow> repository_error + control_detail" where
  "push_requirement row c =
     (case snd row of
        None \<Rightarrow> Ok c
      | Some (r, None) \<Rightarrow> Err (Database DriverFailure)
      | Some (r, Some f) \<Rightarrow>
          Ok (c\<lparr>ctdt_framework_requirements := ctdt_framework_requirements c @ [requirement_detail r f]\<rparr>))"

text \<open>
  \<^verbatim>\<open>controls_from_joined_rows\<close>: the controls so far, the id of the current one, and the next row. The
  index of the code is the last position.
\<close>

fun push_to_last :: "control_row \<Rightarrow> control_detail list \<Rightarrow> repository_error + control_detail list" where
  "push_to_last row [] = Ok []"
| "push_to_last row [c] = and_then (push_requirement row c) (\<lambda>c. Ok [c])"
| "push_to_last row (c # cs) = and_then (push_to_last row cs) (\<lambda>cs. Ok (c # cs))"

fun controls_from_joined_rows ::
  "control_row list \<Rightarrow> uuid option \<Rightarrow> control_detail list \<Rightarrow> repository_error + control_detail list" where
  "controls_from_joined_rows [] current controls = Ok controls"
| "controls_from_joined_rows (row # rows) current controls =
     (let i = ctlrec_id (fst row);
          controls = (if current \<noteq> Some i then controls @ [control_detail_from_row (fst row)] else controls) in
      and_then (push_to_last row controls) (controls_from_joined_rows rows (Some i)))"

definition control_detail_get ::
  "catalogue_env \<Rightarrow> workspace_id \<Rightarrow> control_id \<Rightarrow> catalogue \<Rightarrow> repository_error + control_detail option" where
  "control_detail_get env w i s =
     (let rows = sort_key (requirement_order env) (concat (map (control_rows s)
          (filter (\<lambda>r. ctlrec_id r = control_uuid i \<and> ctlrec_workspace_id r = workspace_uuid w)
            (cat_controls s)))) in
      and_then (controls_from_joined_rows rows None []) (\<lambda>cs.
        Ok (case cs of [] \<Rightarrow> None | c # _ \<Rightarrow> Some c)))"

definition control_list ::
  "catalogue_env \<Rightarrow> workspace_id \<Rightarrow> catalogue \<Rightarrow> repository_error + control_detail list" where
  "control_list env w s =
     controls_from_joined_rows
       (sort_key (\<lambda>row. (ce_collate env (ctlrec_code (fst row)), requirement_order env row))
         (concat (map (control_rows s)
           (filter (\<lambda>r. ctlrec_workspace_id r = workspace_uuid w) (cat_controls s))))) None []"

record control_summary =
  cs_id :: control_id
  cs_code :: string
  cs_title :: string
  cs_description :: string

definition control_summary_of :: "control_record \<Rightarrow> control_summary" where
  "control_summary_of r =
     \<lparr>cs_id = ControlId (ctlrec_id r), cs_code = ctlrec_code r, cs_title = ctlrec_title r,
      cs_description = ctlrec_description r\<rparr>"

record evidence_mapping_detail =
  emd_evidence_id :: evidence_id
  emd_control :: control_summary
  emd_rationale :: string
  emd_created_at :: datetime

definition evidence_mapping_detail_of ::
  "evidence_mapping_record \<Rightarrow> control_record \<Rightarrow> evidence_mapping_detail" where
  "evidence_mapping_detail_of m c =
     \<lparr>emd_evidence_id = EvidenceId (ecmrec_evidence_id m), emd_control = control_summary_of c,
      emd_rationale = ecmrec_rationale m, emd_created_at = ecmrec_created_at m\<rparr>"

definition get_evidence_mapping ::
  "workspace_id \<Rightarrow> evidence_id \<Rightarrow> control_id \<Rightarrow> catalogue
   \<Rightarrow> repository_error + evidence_mapping_detail option" where
  "get_evidence_mapping w e c s =
     and_then (at_most_one
       [(m, ctl). m \<leftarrow> cat_evidence_mappings s, ecmrec_evidence_id m = evidence_uuid e,
          ecmrec_control_id m = control_uuid c,
          ev \<leftarrow> db_evidence (cat_db s), evrec_id ev = ecmrec_evidence_id m,
          evrec_workspace_id ev = workspace_uuid w,
          ctl \<leftarrow> cat_controls s, ctlrec_id ctl = ecmrec_control_id m,
          ctlrec_workspace_id ctl = workspace_uuid w])
     (\<lambda>row. Ok (map_option (\<lambda>(m, ctl). evidence_mapping_detail_of m ctl) row))"

section \<open>Policies\<close>

definition policy_get ::
  "workspace_id \<Rightarrow> policy_id \<Rightarrow> catalogue \<Rightarrow> repository_error + policy option" where
  "policy_get w i s =
     map_transpose (\<lambda>r. policy_into_domain r (map policy_mapping_from_row (sort_key pcmrec_control_id
         (filter (\<lambda>m. pcmrec_policy_id m = policy_uuid i) (cat_policy_mappings s)))))
       (find (\<lambda>r. polrec_id r = policy_uuid i \<and> polrec_workspace_id r = workspace_uuid w)
         (db_policies (cat_db s)))"

definition active_policy_row :: "policy_record \<Rightarrow> bool" where
  "active_policy_row r \<longleftrightarrow> polrec_archived_at r = None"

definition policy_violations ::
  "(string \<Rightarrow> string) \<Rightarrow> catalogue \<Rightarrow> policy_record \<Rightarrow> (bool \<times> db_failure) list" where
  "policy_violations lower s r =
     [(polrec_name r \<noteq> sql_trim (polrec_name r), check_violation ''policies_name_trimmed''),
      (\<not> (1 \<le> chars_count (polrec_name r) \<and> chars_count (polrec_name r) \<le> 200),
        check_violation ''policies_name_length''),
      (\<not> is_none_or (\<lambda>d. d = sql_trim d \<and> 1 \<le> chars_count d \<and> chars_count d \<le> 4000)
          (polrec_description r), check_violation ''policies_description_valid''),
      (active_policy_row r \<and> list_ex (\<lambda>x. polrec_id x \<noteq> polrec_id r \<and> active_policy_row x
          \<and> polrec_workspace_id x = polrec_workspace_id r
          \<and> lower (polrec_name x) = lower (polrec_name r)) (db_policies (cat_db s)),
        unique_key_violation ''policies_workspace_lower_name_active_key''),
      (\<not> row_exists wsrec_id (polrec_workspace_id r) (workspaces_table (db_workspaces (cat_db s))),
        foreign_key_violation ''policies_workspace_id_fkey'')]"

definition policy_mapping_violations ::
  "policy_record list \<Rightarrow> control_record list \<Rightarrow> policy_mapping_record \<Rightarrow> policy_mapping_record list
   \<Rightarrow> (bool \<times> db_failure) list" where
  "policy_mapping_violations policies controls m rows =
     [(list_ex (\<lambda>x. pcmrec_policy_id x = pcmrec_policy_id m \<and> pcmrec_control_id x = pcmrec_control_id m) rows,
        unique_key_violation ''policy_control_mappings_pkey''),
      (\<not> row_exists polrec_id (pcmrec_policy_id m) policies,
        foreign_key_violation ''policy_control_mappings_policy_id_fkey''),
      (\<not> row_exists ctlrec_id (pcmrec_control_id m) controls,
        foreign_key_violation ''policy_control_mappings_control_id_fkey'')]"

definition policy_save :: "(string \<Rightarrow> string) \<Rightarrow> policy \<Rightarrow> catalogue \<Rightarrow> repository_error + catalogue" where
  "policy_save lower p s =
     (let r = policy_from_domain p in
      and_then (save_row (policy_violations lower s r) polrec_id r (db_policies (cat_db s))) (\<lambda>rows.
      and_then (insert_each (policy_mapping_violations rows (cat_controls s))
          (map (policy_mapping_from_domain (polrec_id r)) (pol_mappings p))
          (delete_rows (\<lambda>m. pcmrec_policy_id m = polrec_id r) (cat_policy_mappings s))) (\<lambda>ms.
        Ok (s\<lparr>cat_db := (cat_db s)\<lparr>db_policies := rows\<rparr>, cat_policy_mappings := ms\<rparr>))))"

definition document_in_progress ::
  "workspace_id \<Rightarrow> policy_id \<Rightarrow> catalogue \<Rightarrow> repository_error + bool" where
  "document_in_progress w i s =
     Ok (list_ex (\<lambda>d. rec_owner_type d = ''policy'' \<and> rec_owner_id d = policy_uuid i
       \<and> rec_workspace_id d = workspace_uuid w \<and> \<not> rec_archived d
       \<and> rec_upload_status d \<in> {''pending'', ''finalizing''}) (db_documents (cat_db s)))"

record policy_mapping_detail =
  pmd_policy_id :: policy_id
  pmd_control :: control_summary
  pmd_created_at :: datetime

definition policy_mapping_detail_of :: "policy_mapping_record \<Rightarrow> control_record \<Rightarrow> policy_mapping_detail" where
  "policy_mapping_detail_of m c =
     \<lparr>pmd_policy_id = PolicyId (pcmrec_policy_id m), pmd_control = control_summary_of c,
      pmd_created_at = pcmrec_created_at m\<rparr>"

definition get_control_mapping ::
  "workspace_id \<Rightarrow> policy_id \<Rightarrow> control_id \<Rightarrow> catalogue \<Rightarrow> repository_error + policy_mapping_detail option" where
  "get_control_mapping w p c s =
     and_then (at_most_one
       [(m, ctl). m \<leftarrow> cat_policy_mappings s, pcmrec_policy_id m = policy_uuid p,
          pcmrec_control_id m = control_uuid c,
          pol \<leftarrow> db_policies (cat_db s), polrec_id pol = pcmrec_policy_id m,
          polrec_workspace_id pol = workspace_uuid w, active_policy_row pol,
          ctl \<leftarrow> cat_controls s, ctlrec_id ctl = pcmrec_control_id m,
          ctlrec_workspace_id ctl = workspace_uuid w])
     (\<lambda>row. Ok (map_option (\<lambda>(m, ctl). policy_mapping_detail_of m ctl) row))"

record policy_document_detail =
  pdd_id :: document_id
  pdd_created_by_user_id :: user_id
  pdd_filename :: string
  pdd_content_type :: string
  pdd_content_length :: i64
  pdd_checksum_sha256 :: string
  pdd_checksum_crc32c :: string
  pdd_upload_status :: document_upload_status
  pdd_created_at :: datetime

record policy_detail =
  pdt_id :: policy_id
  pdt_workspace_id :: workspace_id
  pdt_name :: string
  pdt_description :: "string option"
  pdt_control_mappings :: "policy_mapping_detail list"
  pdt_created_at :: datetime
  pdt_updated_at :: datetime
  pdt_archived_at :: "datetime option"
  pdt_document :: "policy_document_detail option"

definition policy_document_detail_of :: "document_record \<Rightarrow> repository_error + policy_document_detail" where
  "policy_document_detail_of r =
     and_then (map_err InvalidData (upload_status_from_str (rec_upload_status r))) (\<lambda>status.
       Ok \<lparr>pdd_id = DocumentId (rec_id r), pdd_created_by_user_id = UserId (rec_created_by_user_id r),
           pdd_filename = rec_filename r, pdd_content_type = rec_content_type r,
           pdd_content_length = rec_content_length r, pdd_checksum_sha256 = rec_checksum_sha256 r,
           pdd_checksum_crc32c = rec_checksum_crc32c r, pdd_upload_status = status,
           pdd_created_at = rec_created_at r\<rparr>)"

text \<open>
  The left joins of a policy with its active document, its mappings and their controls of the same
  workspace: where one side has no row it gives a null.
\<close>

type_synonym policy_row = "document_record option \<times> (policy_mapping_record \<times> control_record option) option"

definition or_null :: "'a list \<Rightarrow> 'a option list" where
  "or_null xs = (if xs = [] then [None] else map Some xs)"

definition policy_rows :: "catalogue \<Rightarrow> policy_record \<Rightarrow> policy_row list" where
  "policy_rows s p =
     [(d, m). d \<leftarrow> or_null (filter (\<lambda>d. rec_owner_id d = polrec_id p \<and> rec_owner_type d = ''policy''
            \<and> rec_workspace_id d = polrec_workspace_id p \<and> \<not> rec_archived d) (db_documents (cat_db s))),
        m \<leftarrow> or_null (map (\<lambda>m. (m, find (\<lambda>c. ctlrec_id c = pcmrec_control_id m
            \<and> ctlrec_workspace_id c = polrec_workspace_id p) (cat_controls s)))
          (filter (\<lambda>m. pcmrec_policy_id m = polrec_id p) (cat_policy_mappings s)))]"

definition policy_row_order :: "catalogue_env \<Rightarrow> policy_row \<Rightarrow> bool \<times> nat list \<times> uuid" where
  "policy_row_order env row =
     (case snd row of Some (m, Some c) \<Rightarrow> (False, ce_collate env (ce_lower env (ctlrec_code c)), ctlrec_id c)
      | _ \<Rightarrow> (True, [], 0))"

definition mapping_of_policy_row :: "policy_row \<Rightarrow> policy_mapping_detail option" where
  "mapping_of_policy_row row =
     (case snd row of Some (m, Some c) \<Rightarrow> Some (policy_mapping_detail_of m c) | _ \<Rightarrow> None)"

definition policy_detail_get ::
  "catalogue_env \<Rightarrow> workspace_id \<Rightarrow> policy_id \<Rightarrow> catalogue \<Rightarrow> repository_error + policy_detail option" where
  "policy_detail_get env w i s =
     (case find (\<lambda>p. polrec_id p = policy_uuid i \<and> polrec_workspace_id p = workspace_uuid w
         \<and> active_policy_row p) (db_policies (cat_db s)) of
        None \<Rightarrow> Ok None
      | Some p \<Rightarrow>
          (let rows = sort_key (policy_row_order env) (policy_rows s p) in
           and_then (map_transpose policy_document_detail_of (fst (hd rows))) (\<lambda>document.
             Ok (Some \<lparr>pdt_id = PolicyId (polrec_id p), pdt_workspace_id = WorkspaceId (polrec_workspace_id p),
               pdt_name = polrec_name p, pdt_description = polrec_description p,
               pdt_control_mappings = List.map_filter mapping_of_policy_row rows,
               pdt_created_at = polrec_created_at p, pdt_updated_at = polrec_updated_at p,
               pdt_archived_at = polrec_archived_at p, pdt_document = document\<rparr>))))"

end
