(* ===== verification/Catalogue_Commands.thy ===== *)
theory Catalogue_Commands
  imports Catalogue_Store Document_Commands
begin

text \<open>
  The commands on evidence and controls (\<^verbatim>\<open>src/application/commands/{create,replace}_{control,evidence}.rs\<close>,
  \<^verbatim>\<open>map_*.rs\<close> and \<^verbatim>\<open>unmap_*.rs\<close>): each handler checks the permission of the connection, validates, and runs
  one unit of work in the workspace of the connection. Execution metadata is not used by these handlers.
\<close>

section \<open>Creating and replacing\<close>

record create_control =
  cc_connection :: agent_connection_context
  cc_code :: string
  cc_title :: string
  cc_description :: string
  cc_framework_requirement_ids :: "framework_requirement_id list"

datatype control_outcome =
  ControlStored control_detail | ControlMissing | ControlReferencesInvalid

datatype control_command_error =
  ControlUnavailable | InvalidControlDefinition "domain_error list"
| InvalidFrameworkRequirementReferences | CodeTaken | ControlRepository repository_error

fun control_command_error_of :: "repository_error \<Rightarrow> control_command_error" where
  "control_command_error_of (Conflict ControlCodeTaken) = CodeTaken"
| "control_command_error_of e = ControlRepository e"

definition control_outcome_result :: "control_outcome \<Rightarrow> control_command_error + control_detail" where
  "control_outcome_result out =
     (case out of ControlStored d \<Rightarrow> Ok d | ControlMissing \<Rightarrow> Err ControlUnavailable
      | ControlReferencesInvalid \<Rightarrow> Err InvalidFrameworkRequirementReferences)"

definition create_control_tx ::
  "catalogue_env \<Rightarrow> workspace_id \<Rightarrow> control \<Rightarrow> (catalogue, control_outcome) tx" where
  "create_control_tx env w control =
     tx_bind (tx_read (requirements_exist (ctl_framework_requirement_ids control))) (\<lambda>known.
     if \<not> known then tx_return ControlReferencesInvalid
     else tx_bind (tx_write (control_save control)) (\<lambda>_.
     tx_bind (tx_read (control_detail_get env w (ctl_id control))) (\<lambda>found.
     tx_bind (tx_lift (ok_or
       (InvariantViolation ''created control must be readable in its transaction'') found)) (\<lambda>d.
     tx_return (ControlStored d)))))"

definition handle_create_control ::
  "catalogue_env \<Rightarrow> create_control \<Rightarrow> catalogue \<Rightarrow> (control_command_error + control_detail) \<times> catalogue" where
  "handle_create_control env cmd s =
     (if \<not> has (ctx_permissions (cc_connection cmd)) WriteControls then (Err ControlUnavailable, s)
      else case into_result (control_definition_new (cc_code cmd) (cc_title cmd) (cc_description cmd)) of
        Inl errors \<Rightarrow> (Err (InvalidControlDefinition errors), s)
      | Inr def \<Rightarrow>
          (case control_define (ControlId (ce_new_id env)) (ctx_workspace_id (cc_connection cmd)) def
              (cc_framework_requirement_ids cmd) (ce_clock env 0) of
             Inl _ \<Rightarrow> (Err InvalidFrameworkRequirementReferences, s)
           | Inr control \<Rightarrow>
               apfst (\<lambda>r. and_then (map_err control_command_error_of r) control_outcome_result)
                 (in_unit_of_work (create_control_tx env (ctx_workspace_id (cc_connection cmd)) control) s)))"

record replace_control =
  rc_connection :: agent_connection_context
  rc_control_id :: control_id
  rc_code :: string
  rc_title :: string
  rc_description :: string
  rc_framework_requirement_ids :: "framework_requirement_id list"

definition replace_control_tx ::
  "catalogue_env \<Rightarrow> replace_control \<Rightarrow> control_definition \<Rightarrow> (catalogue, control_outcome) tx" where
  "replace_control_tx env cmd def =
     (let w = ctx_workspace_id (rc_connection cmd); ids = rc_framework_requirement_ids cmd in
      tx_bind (tx_read (requirements_exist ids)) (\<lambda>known.
      if \<not> known then tx_return ControlReferencesInvalid
      else tx_bind (tx_read (control_get w (rc_control_id cmd))) (\<lambda>found.
      case found of
        None \<Rightarrow> tx_return ControlMissing
      | Some control \<Rightarrow>
          (case control_replace def ids (ce_clock env 0) control of
             Inl (DuplicateFrameworkRequirementReference _) \<Rightarrow> tx_return ControlReferencesInvalid
           | Inl _ \<Rightarrow> tx_fail (InvariantViolation ''replacement control snapshot is invalid'')
           | Inr control \<Rightarrow>
               tx_bind (tx_write (control_save control)) (\<lambda>_.
               tx_bind (tx_read (control_detail_get env w (rc_control_id cmd))) (\<lambda>found.
               tx_bind (tx_lift (ok_or
                 (InvariantViolation ''replaced control must be readable in its transaction'') found)) (\<lambda>d.
               tx_return (ControlStored d))))))))"

definition handle_replace_control ::
  "catalogue_env \<Rightarrow> replace_control \<Rightarrow> catalogue \<Rightarrow> (control_command_error + control_detail) \<times> catalogue" where
  "handle_replace_control env cmd s =
     (if \<not> has (ctx_permissions (rc_connection cmd)) WriteControls then (Err ControlUnavailable, s)
      else case into_result (control_definition_new (rc_code cmd) (rc_title cmd) (rc_description cmd)) of
        Inl errors \<Rightarrow> (Err (InvalidControlDefinition errors), s)
      | Inr def \<Rightarrow>
          apfst (\<lambda>r. and_then (map_err control_command_error_of r) control_outcome_result)
            (in_unit_of_work (replace_control_tx env cmd def) s))"

record create_evidence =
  crev_connection :: agent_connection_context
  crev_title :: string
  crev_description :: string
  crev_collection_instructions :: string
  crev_status :: evidence_status

datatype evidence_command_error =
  EvidenceUnavailable | InvalidEvidenceDefinition "domain_error list" | EvidenceRepository repository_error

definition create_evidence_tx ::
  "workspace_id \<Rightarrow> evidence \<Rightarrow> (catalogue, evidence_detail) tx" where
  "create_evidence_tx w e =
     tx_bind (tx_write (evidence_save e)) (\<lambda>_.
     tx_bind (tx_read (evidence_detail_get w (ev_id e))) (\<lambda>found.
     tx_lift (ok_or (InvariantViolation ''created evidence must be readable in its transaction'') found)))"

definition handle_create_evidence ::
  "catalogue_env \<Rightarrow> create_evidence \<Rightarrow> catalogue \<Rightarrow> (evidence_command_error + evidence_detail) \<times> catalogue" where
  "handle_create_evidence env cmd s =
     (if \<not> has (ctx_permissions (crev_connection cmd)) WriteEvidence then (Err EvidenceUnavailable, s)
      else case into_result (evidence_definition_new (crev_title cmd) (crev_description cmd)
          (crev_collection_instructions cmd)) of
        Inl errors \<Rightarrow> (Err (InvalidEvidenceDefinition errors), s)
      | Inr def \<Rightarrow>
          apfst (map_err EvidenceRepository)
            (in_unit_of_work (create_evidence_tx (ctx_workspace_id (crev_connection cmd))
              (evidence_define (EvidenceId (ce_new_id env)) (ctx_workspace_id (crev_connection cmd)) def
                (crev_status cmd) (ce_clock env 0))) s))"

record replace_evidence =
  re_connection :: agent_connection_context
  re_evidence_id :: evidence_id
  re_title :: string
  re_description :: string
  re_collection_instructions :: string
  re_status :: evidence_status

fun evidence_replacement_error :: "evidence_error \<Rightarrow> repository_error" where
  "evidence_replacement_error (DuplicateControlMapping _) = InvariantViolation ''evidence mappings are invalid''"
| "evidence_replacement_error _ = InvariantViolation ''evidence snapshot is invalid''"

definition replace_evidence_tx ::
  "catalogue_env \<Rightarrow> replace_evidence \<Rightarrow> evidence_definition \<Rightarrow> (catalogue, evidence_detail option) tx" where
  "replace_evidence_tx env cmd def =
     (let w = ctx_workspace_id (re_connection cmd) in
      tx_bind (tx_read (evidence_get w (re_evidence_id cmd))) (\<lambda>found.
      case found of
        None \<Rightarrow> tx_return None
      | Some e \<Rightarrow>
          tx_bind (tx_lift (map_err evidence_replacement_error
            (evidence_replace def (re_status cmd) (ce_clock env 0) e))) (\<lambda>e.
          tx_bind (tx_write (evidence_save e)) (\<lambda>_.
          tx_read (evidence_detail_get w (re_evidence_id cmd))))))"

definition handle_replace_evidence ::
  "catalogue_env \<Rightarrow> replace_evidence \<Rightarrow> catalogue \<Rightarrow> (evidence_command_error + evidence_detail) \<times> catalogue" where
  "handle_replace_evidence env cmd s =
     (if \<not> has (ctx_permissions (re_connection cmd)) WriteEvidence then (Err EvidenceUnavailable, s)
      else case into_result (evidence_definition_new (re_title cmd) (re_description cmd)
          (re_collection_instructions cmd)) of
        Inl errors \<Rightarrow> (Err (InvalidEvidenceDefinition errors), s)
      | Inr def \<Rightarrow>
          apfst (\<lambda>r. and_then (map_err EvidenceRepository r) (ok_or EvidenceUnavailable))
            (in_unit_of_work (replace_evidence_tx env cmd def) s))"

section \<open>Mapping a control to evidence\<close>

text \<open>The loop that loads what exists of the requested ids, in the order of the locks.\<close>

fun load_each :: "('i \<Rightarrow> ('s, 'a option) tx) \<Rightarrow> 'i list \<Rightarrow> ('s, 'a list) tx" where
  "load_each get [] = tx_return []"
| "load_each get (i # ids) =
     tx_bind (get i) (\<lambda>x. tx_bind (load_each get ids) (\<lambda>xs.
       tx_return (case x of None \<Rightarrow> xs | Some a \<Rightarrow> a # xs)))"

definition maps_control :: "control_id \<Rightarrow> evidence \<Rightarrow> bool" where
  "maps_control c e = list_ex (\<lambda>m. ecm_control_id m = c) (ev_mappings e)"

record map_control_to_evidence =
  mce_connection :: agent_connection_context
  mce_control_id :: control_id
  mce_mappings :: "(evidence_id \<times> string) list"

datatype map_control_outcome =
  ControlMapped "evidence_id list" | MapControlNotFound
| MapControlRejected "evidence_id list" "evidence_id list"

datatype map_control_error =
  MapControlUnavailable | MapControlMissing
| MapControlInvalid "evidence_id list" "evidence_id list" | MapControlRepository repository_error

fun add_control ::
  "catalogue_env \<Rightarrow> control_id \<Rightarrow> (evidence_id \<rightharpoonup> string) \<Rightarrow> nat \<Rightarrow> evidence list \<Rightarrow> (catalogue, unit) tx" where
  "add_control env c rationales n [] = tx_return ()"
| "add_control env c rationales n (item # items) =
     tx_bind (tx_lift (ok_or (InvariantViolation ''evidence mapping rationale must be present'')
       (rationales (ev_id item)))) (\<lambda>rationale.
     tx_bind (tx_lift (map_err (\<lambda>_. InvariantViolation ''evidence mapping is invalid'')
       (into_result (evidence_control_mapping_new c rationale (ce_clock env n))))) (\<lambda>m.
     tx_bind (tx_lift (map_err (\<lambda>_. InvariantViolation ''evidence mappings are invalid'')
       (evidence_replace_mappings (ev_mappings item @ [m]) item))) (\<lambda>item.
     tx_bind (tx_write (evidence_save item)) (\<lambda>_. add_control env c rationales (Suc n) items))))"

definition map_control_to_evidence_tx ::
  "catalogue_env \<Rightarrow> map_control_to_evidence \<Rightarrow> (catalogue, map_control_outcome) tx" where
  "map_control_to_evidence_tx env cmd =
     (let w = ctx_workspace_id (mce_connection cmd); c = mce_control_id cmd;
          requested = map fst (mce_mappings cmd) in
      tx_bind (tx_read (ids_exist w [c])) (\<lambda>known.
      if \<not> known then tx_return MapControlNotFound
      else tx_bind (load_each (\<lambda>i. tx_read (evidence_get w i)) (sort_key evidence_uuid requested)) (\<lambda>evidence.
        let unknown = filter (\<lambda>i. \<not> list_ex (\<lambda>item. ev_id item = i) evidence) requested;
            already = filter (\<lambda>i. list_ex (\<lambda>item. ev_id item = i \<and> maps_control c item) evidence) requested in
        if unknown \<noteq> [] \<or> already \<noteq> [] then tx_return (MapControlRejected unknown already)
        else tx_bind (add_control env c (map_of (rev (mce_mappings cmd))) 0 evidence) (\<lambda>_.
          tx_return (ControlMapped requested)))))"

definition handle_map_control_to_evidence ::
  "catalogue_env \<Rightarrow> map_control_to_evidence \<Rightarrow> catalogue
   \<Rightarrow> (map_control_error + evidence_id list) \<times> catalogue" where
  "handle_map_control_to_evidence env cmd s =
     (if \<not> has (ctx_permissions (mce_connection cmd)) WriteControls then (Err MapControlUnavailable, s)
      else apfst (\<lambda>r. and_then (map_err MapControlRepository r) (\<lambda>out. case out of
             ControlMapped ids \<Rightarrow> Ok ids | MapControlNotFound \<Rightarrow> Err MapControlMissing
           | MapControlRejected unknown already \<Rightarrow> Err (MapControlInvalid unknown already)))
         (in_unit_of_work (map_control_to_evidence_tx env cmd) s))"

record unmap_control_from_evidence =
  uce_connection :: agent_connection_context
  uce_control_id :: control_id
  uce_evidence_ids :: "evidence_id list"

fun remove_control :: "control_id \<Rightarrow> evidence list \<Rightarrow> (catalogue, unit) tx" where
  "remove_control c [] = tx_return ()"
| "remove_control c (item # items) =
     tx_bind (tx_lift (map_err (\<lambda>_. InvariantViolation ''evidence mappings are invalid'')
       (evidence_replace_mappings (filter (\<lambda>m. ecm_control_id m \<noteq> c) (ev_mappings item)) item))) (\<lambda>item.
     tx_bind (tx_write (evidence_save item)) (\<lambda>_. remove_control c items))"

definition unmap_control_from_evidence_tx ::
  "unmap_control_from_evidence \<Rightarrow> (catalogue, map_control_outcome) tx" where
  "unmap_control_from_evidence_tx cmd =
     (let w = ctx_workspace_id (uce_connection cmd); c = uce_control_id cmd;
          requested = uce_evidence_ids cmd in
      tx_bind (tx_read (ids_exist w [c])) (\<lambda>known.
      if \<not> known then tx_return MapControlNotFound
      else tx_bind (load_each (\<lambda>i. tx_read (evidence_get w i)) (sort_key evidence_uuid requested)) (\<lambda>evidence.
        let unknown = filter (\<lambda>i. \<not> list_ex (\<lambda>item. ev_id item = i) evidence) requested;
            not_mapped = filter (\<lambda>i. list_ex (\<lambda>item. ev_id item = i) evidence
              \<and> \<not> list_ex (\<lambda>item. ev_id item = i \<and> maps_control c item) evidence) requested in
        if unknown \<noteq> [] \<or> not_mapped \<noteq> [] then tx_return (MapControlRejected unknown not_mapped)
        else tx_bind (remove_control c evidence) (\<lambda>_. tx_return (ControlMapped requested)))))"

definition handle_unmap_control_from_evidence ::
  "unmap_control_from_evidence \<Rightarrow> catalogue \<Rightarrow> (map_control_error + evidence_id list) \<times> catalogue" where
  "handle_unmap_control_from_evidence cmd s =
     (if \<not> has (ctx_permissions (uce_connection cmd)) WriteControls then (Err MapControlUnavailable, s)
      else apfst (\<lambda>r. and_then (map_err MapControlRepository r) (\<lambda>out. case out of
             ControlMapped ids \<Rightarrow> Ok ids | MapControlNotFound \<Rightarrow> Err MapControlMissing
           | MapControlRejected unknown not_mapped \<Rightarrow> Err (MapControlInvalid unknown not_mapped)))
         (in_unit_of_work (unmap_control_from_evidence_tx cmd) s))"

section \<open>Mapping evidence to controls\<close>

record map_evidence_to_controls =
  mec_connection :: agent_connection_context
  mec_evidence_id :: evidence_id
  mec_mappings :: "(control_id \<times> string) list"

datatype map_evidence_outcome =
  EvidenceMapped "control_id list" "evidence_mapping_detail list" | MapEvidenceNotFound
| MapEvidenceRejected "control_id list" "control_id list"

datatype map_evidence_error =
  MapEvidenceUnavailable | MapEvidenceMissing
| MapEvidenceInvalid "control_id list" "control_id list" | MapEvidenceRepository repository_error

definition new_evidence_mappings ::
  "catalogue_env \<Rightarrow> (control_id \<times> string) list \<Rightarrow> repository_error + evidence_control_mapping list" where
  "new_evidence_mappings env requested =
     collect_results (map (\<lambda>(n, c, rationale).
       map_err (\<lambda>_. InvariantViolation ''evidence mapping is invalid'')
         (into_result (evidence_control_mapping_new c rationale (ce_clock env n))))
       (enumerate 0 requested))"

fun evidence_mapping_error :: "evidence_error \<Rightarrow> repository_error" where
  "evidence_mapping_error (DuplicateControlMapping _) = InvariantViolation ''duplicate evidence control mapping''"
| "evidence_mapping_error _ = InvariantViolation ''evidence snapshot is invalid''"

fun read_each :: "repository_error \<Rightarrow> ('i \<Rightarrow> ('s, 'a option) tx) \<Rightarrow> 'i list \<Rightarrow> ('s, 'a list) tx" where
  "read_each missing get [] = tx_return []"
| "read_each missing get (i # ids) =
     tx_bind (get i) (\<lambda>found. tx_bind (tx_lift (ok_or missing found)) (\<lambda>x.
     tx_bind (read_each missing get ids) (\<lambda>xs. tx_return (x # xs))))"

definition map_evidence_to_controls_tx ::
  "catalogue_env \<Rightarrow> map_evidence_to_controls \<Rightarrow> (catalogue, map_evidence_outcome) tx" where
  "map_evidence_to_controls_tx env cmd =
     (let w = ctx_workspace_id (mec_connection cmd); requested = map fst (mec_mappings cmd) in
      tx_bind (tx_read (evidence_get w (mec_evidence_id cmd))) (\<lambda>found.
      case found of
        None \<Rightarrow> tx_return MapEvidenceNotFound
      | Some e \<Rightarrow>
          tx_bind (tx_read (existing_ids w requested)) (\<lambda>existing.
            let unknown = filter (\<lambda>i. i \<notin> existing) requested;
                already = filter (\<lambda>i. maps_control i e) requested in
            if unknown \<noteq> [] \<or> already \<noteq> [] then tx_return (MapEvidenceRejected unknown already)
            else
              tx_bind (tx_lift (new_evidence_mappings env (mec_mappings cmd))) (\<lambda>ms.
              tx_bind (tx_lift (map_err evidence_mapping_error
                (evidence_replace_mappings (ev_mappings e @ ms) e))) (\<lambda>e.
              tx_bind (tx_write (evidence_save e)) (\<lambda>_.
              tx_bind (read_each (InvariantViolation ''saved evidence mapping must be readable'')
                (\<lambda>c. tx_read (get_evidence_mapping w (mec_evidence_id cmd) c)) requested) (\<lambda>saved.
              tx_return (EvidenceMapped requested saved))))))))"

definition handle_map_evidence_to_controls ::
  "catalogue_env \<Rightarrow> map_evidence_to_controls \<Rightarrow> catalogue
   \<Rightarrow> (map_evidence_error + control_id list \<times> evidence_mapping_detail list) \<times> catalogue" where
  "handle_map_evidence_to_controls env cmd s =
     (if \<not> has (ctx_permissions (mec_connection cmd)) WriteControls then (Err MapEvidenceUnavailable, s)
      else apfst (\<lambda>r. and_then (map_err MapEvidenceRepository r) (\<lambda>out. case out of
             EvidenceMapped ids saved \<Rightarrow> Ok (ids, saved) | MapEvidenceNotFound \<Rightarrow> Err MapEvidenceMissing
           | MapEvidenceRejected unknown already \<Rightarrow> Err (MapEvidenceInvalid unknown already)))
         (in_unit_of_work (map_evidence_to_controls_tx env cmd) s))"

record unmap_evidence_from_controls =
  uec_connection :: agent_connection_context
  uec_evidence_id :: evidence_id
  uec_control_ids :: "control_id list"

datatype unmap_evidence_outcome =
  EvidenceUnmapped "control_id list" | UnmapEvidenceNotFound
| UnmapEvidenceRejected "control_id list" "control_id list"

definition unmap_evidence_from_controls_tx ::
  "unmap_evidence_from_controls \<Rightarrow> (catalogue, unmap_evidence_outcome) tx" where
  "unmap_evidence_from_controls_tx cmd =
     (let w = ctx_workspace_id (uec_connection cmd); requested = uec_control_ids cmd in
      tx_bind (tx_read (evidence_get w (uec_evidence_id cmd))) (\<lambda>found.
      case found of
        None \<Rightarrow> tx_return UnmapEvidenceNotFound
      | Some e \<Rightarrow>
          tx_bind (tx_read (existing_ids w requested)) (\<lambda>existing.
            let unknown = filter (\<lambda>i. i \<notin> existing) requested;
                not_mapped = filter (\<lambda>i. \<not> maps_control i e) (filter (\<lambda>i. i \<in> existing) requested) in
            if unknown \<noteq> [] \<or> not_mapped \<noteq> [] then tx_return (UnmapEvidenceRejected unknown not_mapped)
            else
              tx_bind (tx_lift (map_err (\<lambda>_. InvariantViolation ''evidence mappings are invalid'')
                (evidence_replace_mappings
                  (filter (\<lambda>m. ecm_control_id m \<notin> set requested) (ev_mappings e)) e))) (\<lambda>e.
              tx_bind (tx_write (evidence_save e)) (\<lambda>_. tx_return (EvidenceUnmapped requested))))))"

definition handle_unmap_evidence_from_controls ::
  "unmap_evidence_from_controls \<Rightarrow> catalogue \<Rightarrow> (map_evidence_error + control_id list) \<times> catalogue" where
  "handle_unmap_evidence_from_controls cmd s =
     (if \<not> has (ctx_permissions (uec_connection cmd)) WriteControls then (Err MapEvidenceUnavailable, s)
      else apfst (\<lambda>r. and_then (map_err MapEvidenceRepository r) (\<lambda>out. case out of
             EvidenceUnmapped ids \<Rightarrow> Ok ids | UnmapEvidenceNotFound \<Rightarrow> Err MapEvidenceMissing
           | UnmapEvidenceRejected unknown not_mapped \<Rightarrow> Err (MapEvidenceInvalid unknown not_mapped)))
         (in_unit_of_work (unmap_evidence_from_controls_tx cmd) s))"

end
