(* ===== verification/Policy_Commands.thy ===== *)
theory Policy_Commands
  imports Catalogue_Commands
begin

text \<open>
  The commands on policies (\<^verbatim>\<open>src/application/commands/policies.rs\<close>): creation with the controls the policy
  covers, replacement, archiving, and attaching and detaching controls from either side.
\<close>

section \<open>Shared\<close>

datatype policy_command_error =
  PolicyCommandUnavailable | InvalidPolicyDefinition "domain_error list"
| PolicyRejected "control_id list" "control_id list" | NameTaken | PolicyRepository repository_error

fun policy_command_error_of :: "repository_error \<Rightarrow> policy_command_error" where
  "policy_command_error_of (Conflict PolicyNameTaken) = NameTaken"
| "policy_command_error_of e = PolicyRepository e"

definition authorize :: "agent_connection_context \<Rightarrow> policy_command_error + unit" where
  "authorize connection =
     (if has (ctx_permissions connection) WriteControls then Ok () else Err PolicyCommandUnavailable)"

fun policy_invariant :: "policy_error \<Rightarrow> repository_error" where
  "policy_invariant PolicyArchived = InvariantViolation ''archived policy cannot be mutated''"
| "policy_invariant _ = InvariantViolation ''policy snapshot is invalid''"

definition has_duplicates :: "'a list \<Rightarrow> bool" where
  "has_duplicates ids \<longleftrightarrow> first_repeated {} ids \<noteq> None"

definition policy_maps :: "control_id \<Rightarrow> policy \<Rightarrow> bool" where
  "policy_maps c p = list_ex (\<lambda>m. pcm_control_id m = c) (pol_mappings p)"

definition new_policy_mappings :: "(nat \<Rightarrow> datetime) \<Rightarrow> control_id list \<Rightarrow> policy_control_mapping list" where
  "new_policy_mappings clock ids =
     map (\<lambda>(n, c). \<lparr>pcm_control_id = c, pcm_created_at = clock n\<rparr>) (enumerate 0 ids)"

section \<open>Creating, replacing, archiving\<close>

record create_policy =
  cp_connection :: agent_connection_context
  cp_name :: string
  cp_description :: "string option"
  cp_control_ids :: "control_id list"

datatype create_policy_outcome = PolicyCreated policy_detail | PolicyControlsUnknown "control_id list"

definition create_policy_tx ::
  "catalogue_env \<Rightarrow> create_policy \<Rightarrow> policy_definition \<Rightarrow> (catalogue, create_policy_outcome) tx" where
  "create_policy_tx env cmd def =
     (let w = ctx_workspace_id (cp_connection cmd); requested = cp_control_ids cmd;
          i = PolicyId (ce_new_id env) in
      tx_bind (tx_read (existing_ids w requested)) (\<lambda>present.
        let unknown = filter (\<lambda>c. c \<notin> present) requested in
        if unknown \<noteq> [] then tx_return (PolicyControlsUnknown unknown)
        else
          tx_bind (tx_lift (map_err policy_invariant (policy_replace_mappings
            (new_policy_mappings (\<lambda>n. ce_clock env (Suc n)) requested)
            (policy_define i w def (ce_clock env 0))))) (\<lambda>policy.
          tx_bind (tx_write (policy_save (ce_lower env) policy)) (\<lambda>_.
          tx_bind (tx_read (policy_detail_get env w i)) (\<lambda>found.
          tx_bind (tx_lift (ok_or
            (InvariantViolation ''created policy must be readable in its transaction'') found)) (\<lambda>d.
          tx_return (PolicyCreated d)))))))"

definition policy_definition_errors :: "create_policy \<Rightarrow> domain_error list" where
  "policy_definition_errors cmd =
     (case into_result (policy_definition_new (cp_name cmd) (cp_description cmd)) of
        Inl errors \<Rightarrow> errors | Inr _ \<Rightarrow> [])
     @ (if has_duplicates (cp_control_ids cmd) then [DuplicatePolicyControlId] else [])"

definition handle_create_policy ::
  "catalogue_env \<Rightarrow> create_policy \<Rightarrow> catalogue \<Rightarrow> (policy_command_error + policy_detail) \<times> catalogue" where
  "handle_create_policy env cmd s =
     (case authorize (cp_connection cmd) of
        Inl e \<Rightarrow> (Err e, s)
      | Inr _ \<Rightarrow>
          if policy_definition_errors cmd \<noteq> [] then (Err (InvalidPolicyDefinition (policy_definition_errors cmd)), s)
          else (case into_result (policy_definition_new (cp_name cmd) (cp_description cmd)) of
            Inl _ \<Rightarrow> (Err (PolicyRepository
              (InvariantViolation ''validated policy definition must be present'')), s)
          | Inr def \<Rightarrow>
              apfst (\<lambda>r. and_then (map_err policy_command_error_of r) (\<lambda>out. case out of
                  PolicyCreated d \<Rightarrow> Ok d
                | PolicyControlsUnknown unknown \<Rightarrow> Err (PolicyRejected unknown [])))
                (in_unit_of_work (create_policy_tx env cmd def) s)))"

record replace_policy =
  rp_connection :: agent_connection_context
  rp_policy_id :: policy_id
  rp_name :: string
  rp_description :: "string option"

definition replace_policy_tx ::
  "catalogue_env \<Rightarrow> replace_policy \<Rightarrow> policy_definition \<Rightarrow> (catalogue, policy_detail option) tx" where
  "replace_policy_tx env cmd def =
     (let w = ctx_workspace_id (rp_connection cmd) in
      tx_bind (tx_read (policy_get w (rp_policy_id cmd))) (\<lambda>found.
      case found of
        None \<Rightarrow> tx_return None
      | Some policy \<Rightarrow>
          if pol_archived_at policy \<noteq> None then tx_return None
          else
            tx_bind (tx_lift (map_err policy_invariant (policy_replace def (ce_clock env 0) policy))) (\<lambda>policy.
            tx_bind (tx_write (policy_save (ce_lower env) policy)) (\<lambda>_.
            tx_read (policy_detail_get env w (rp_policy_id cmd))))))"

definition handle_replace_policy ::
  "catalogue_env \<Rightarrow> replace_policy \<Rightarrow> catalogue \<Rightarrow> (policy_command_error + policy_detail) \<times> catalogue" where
  "handle_replace_policy env cmd s =
     (case authorize (rp_connection cmd) of
        Inl e \<Rightarrow> (Err e, s)
      | Inr _ \<Rightarrow>
          (case into_result (policy_definition_new (rp_name cmd) (rp_description cmd)) of
             Inl errors \<Rightarrow> (Err (InvalidPolicyDefinition errors), s)
           | Inr def \<Rightarrow>
               apfst (\<lambda>r. and_then (map_err policy_command_error_of r) (ok_or PolicyCommandUnavailable))
                 (in_unit_of_work (replace_policy_tx env cmd def) s)))"

record archive_policy =
  ap_connection :: agent_connection_context
  ap_policy_id :: policy_id

datatype archive_policy_error =
  ArchivePolicyUnavailable | DocumentInProgress | ArchivePolicyRepository repository_error

datatype archive_policy_outcome = PolicyMissing | PolicyDocumentWaits | PolicyArchivedAt datetime

definition archive_policy_tx ::
  "catalogue_env \<Rightarrow> archive_policy \<Rightarrow> (catalogue, archive_policy_outcome) tx" where
  "archive_policy_tx env cmd =
     (let w = ctx_workspace_id (ap_connection cmd); i = ap_policy_id cmd in
      tx_bind (tx_read (policy_get w i)) (\<lambda>found.
      case found of
        None \<Rightarrow> tx_return PolicyMissing
      | Some policy \<Rightarrow>
          if pol_archived_at policy \<noteq> None then tx_return PolicyMissing
          else tx_bind (tx_read (document_in_progress w i)) (\<lambda>waits.
            if waits then tx_return PolicyDocumentWaits
            else
              tx_bind (tx_lift (map_err policy_invariant (policy_archive (ce_clock env 0) policy))) (\<lambda>policy.
              tx_bind (tx_lift (ok_or (InvariantViolation ''archived policy needs timestamp'')
                (pol_archived_at policy))) (\<lambda>archived_at.
              tx_bind (tx_write (policy_save (ce_lower env) policy)) (\<lambda>_.
              tx_return (PolicyArchivedAt archived_at)))))))"

definition handle_archive_policy ::
  "catalogue_env \<Rightarrow> archive_policy \<Rightarrow> catalogue
   \<Rightarrow> (archive_policy_error + policy_id \<times> datetime) \<times> catalogue" where
  "handle_archive_policy env cmd s =
     (case authorize (ap_connection cmd) of
        Inl _ \<Rightarrow> (Err ArchivePolicyUnavailable, s)
      | Inr _ \<Rightarrow>
          apfst (\<lambda>r. and_then (map_err ArchivePolicyRepository r) (\<lambda>out. case out of
              PolicyArchivedAt t \<Rightarrow> Ok (ap_policy_id cmd, t)
            | PolicyDocumentWaits \<Rightarrow> Err DocumentInProgress
            | PolicyMissing \<Rightarrow> Err ArchivePolicyUnavailable))
            (in_unit_of_work (archive_policy_tx env cmd) s))"

section \<open>Attaching and detaching controls\<close>

record change_policy_controls =
  cpc_connection :: agent_connection_context
  cpc_policy_id :: policy_id
  cpc_control_ids :: "control_id list"

datatype change_mappings_outcome =
  ChangePolicyMissing | ChangeRejected "control_id list" "control_id list"
| MappingsChanged "policy_mapping_detail list"

definition changed_mappings ::
  "catalogue_env \<Rightarrow> bool \<Rightarrow> control_id list \<Rightarrow> policy \<Rightarrow> policy_control_mapping list" where
  "changed_mappings env attach requested p =
     (if attach then pol_mappings p @ new_policy_mappings (ce_clock env) requested
      else filter (\<lambda>m. pcm_control_id m \<notin> set requested) (pol_mappings p))"

definition change_mappings_tx ::
  "catalogue_env \<Rightarrow> change_policy_controls \<Rightarrow> bool \<Rightarrow> (catalogue, change_mappings_outcome) tx" where
  "change_mappings_tx env cmd attach =
     (let w = ctx_workspace_id (cpc_connection cmd); i = cpc_policy_id cmd;
          requested = cpc_control_ids cmd in
      tx_bind (tx_read (policy_get w i)) (\<lambda>found.
      case found of
        None \<Rightarrow> tx_return ChangePolicyMissing
      | Some policy \<Rightarrow>
          if pol_archived_at policy \<noteq> None then tx_return ChangePolicyMissing
          else tx_bind (tx_read (existing_ids w requested)) (\<lambda>existing.
            let unknown = filter (\<lambda>c. c \<notin> existing) requested;
                invalid = filter (\<lambda>c. c \<in> existing
                  \<and> (if attach then policy_maps c policy else \<not> policy_maps c policy)) requested in
            if unknown \<noteq> [] \<or> invalid \<noteq> [] \<or> has_duplicates requested
            then tx_return (ChangeRejected unknown invalid)
            else
              tx_bind (tx_lift (map_err policy_invariant
                (policy_replace_mappings (changed_mappings env attach requested policy) policy))) (\<lambda>policy.
              tx_bind (tx_write (policy_save (ce_lower env) policy)) (\<lambda>_.
              tx_bind (if attach then
                  read_each (InvariantViolation ''saved policy mapping must be readable'')
                    (\<lambda>c. tx_read (get_control_mapping w i c)) requested
                else tx_return []) (\<lambda>mappings.
              tx_return (MappingsChanged mappings)))))))"

definition change_mappings ::
  "catalogue_env \<Rightarrow> change_policy_controls \<Rightarrow> bool \<Rightarrow> catalogue
   \<Rightarrow> (policy_command_error + control_id list \<times> policy_mapping_detail list) \<times> catalogue" where
  "change_mappings env cmd attach s =
     (case authorize (cpc_connection cmd) of
        Inl e \<Rightarrow> (Err e, s)
      | Inr _ \<Rightarrow>
          apfst (\<lambda>r. and_then (map_err policy_command_error_of r) (\<lambda>out. case out of
              ChangePolicyMissing \<Rightarrow> Err PolicyCommandUnavailable
            | MappingsChanged mappings \<Rightarrow> Ok (cpc_control_ids cmd, mappings)
            | ChangeRejected unknown invalid \<Rightarrow> Err (PolicyRejected unknown invalid)))
            (in_unit_of_work (change_mappings_tx env cmd attach) s))"

definition handle_attach_policy_to_controls ::
  "catalogue_env \<Rightarrow> change_policy_controls \<Rightarrow> catalogue
   \<Rightarrow> (policy_command_error + control_id list \<times> policy_mapping_detail list) \<times> catalogue" where
  "handle_attach_policy_to_controls env cmd = change_mappings env cmd True"

definition handle_detach_policy_from_controls ::
  "catalogue_env \<Rightarrow> change_policy_controls \<Rightarrow> catalogue
   \<Rightarrow> (policy_command_error + control_id list \<times> policy_mapping_detail list) \<times> catalogue" where
  "handle_detach_policy_from_controls env cmd = change_mappings env cmd False"

record change_control_policies =
  ccp_connection :: agent_connection_context
  ccp_control_id :: control_id
  ccp_policy_ids :: "policy_id list"

datatype control_policy_outcome =
  PoliciesChanged | ControlPolicyUnavailable
| ControlPolicyRejected "policy_id list" "policy_id list" "policy_id list"

datatype control_policy_error =
  ControlPoliciesUnavailable | ControlPoliciesInvalid "policy_id list" "policy_id list" "policy_id list"
| ControlPoliciesRepository repository_error

text \<open>The loop over the locked policies: those to change, and the unknown, archived and invalid ids.\<close>

fun sort_out_policies ::
  "workspace_id \<Rightarrow> control_id \<Rightarrow> bool \<Rightarrow> policy_id list
   \<Rightarrow> (catalogue, policy list \<times> policy_id list \<times> policy_id list \<times> policy_id list) tx" where
  "sort_out_policies w c attach [] = tx_return ([], [], [], [])"
| "sort_out_policies w c attach (i # ids) =
     tx_bind (tx_read (policy_get w i)) (\<lambda>found.
     tx_bind (sort_out_policies w c attach ids) (\<lambda>(policies, unknown, archived, invalid).
       tx_return (case found of
         None \<Rightarrow> (policies, i # unknown, archived, invalid)
       | Some p \<Rightarrow>
           if pol_archived_at p \<noteq> None then (policies, unknown, i # archived, invalid)
           else (p # policies, unknown, archived, if attach = policy_maps c p then i # invalid else invalid))))"

fun change_each ::
  "catalogue_env \<Rightarrow> control_id \<Rightarrow> bool \<Rightarrow> nat \<Rightarrow> policy list \<Rightarrow> (catalogue, unit) tx" where
  "change_each env c attach n [] = tx_return ()"
| "change_each env c attach n (p # policies) =
     tx_bind (tx_lift (map_err policy_invariant (policy_replace_mappings
       (if attach then pol_mappings p @ [\<lparr>pcm_control_id = c, pcm_created_at = ce_clock env n\<rparr>]
        else filter (\<lambda>m. pcm_control_id m \<noteq> c) (pol_mappings p)) p))) (\<lambda>p.
     tx_bind (tx_write (policy_save (ce_lower env) p)) (\<lambda>_. change_each env c attach (Suc n) policies))"

definition change_control_policies_tx ::
  "catalogue_env \<Rightarrow> change_control_policies \<Rightarrow> bool \<Rightarrow> (catalogue, control_policy_outcome) tx" where
  "change_control_policies_tx env cmd attach =
     (let w = ctx_workspace_id (ccp_connection cmd); c = ccp_control_id cmd; requested = ccp_policy_ids cmd in
      tx_bind (tx_read (existing_ids w [c])) (\<lambda>existing.
      if c \<notin> existing then tx_return ControlPolicyUnavailable
      else tx_bind (sort_out_policies w c attach (sort_key policy_uuid requested))
        (\<lambda>(policies, unknown, archived, invalid).
          if unknown \<noteq> [] \<or> archived \<noteq> [] \<or> invalid \<noteq> [] \<or> has_duplicates requested
          then tx_return (ControlPolicyRejected unknown archived invalid)
          else tx_bind (change_each env c attach 0 policies) (\<lambda>_. tx_return PoliciesChanged))))"

definition change_control_policies_result ::
  "change_control_policies \<Rightarrow> control_policy_outcome \<Rightarrow> control_policy_error + policy_id list" where
  "change_control_policies_result cmd out =
     (case out of
        PoliciesChanged \<Rightarrow> Ok (ccp_policy_ids cmd)
      | ControlPolicyUnavailable \<Rightarrow> Err ControlPoliciesUnavailable
      | ControlPolicyRejected unknown archived invalid \<Rightarrow> Err (ControlPoliciesInvalid unknown archived invalid))"

definition handle_change_control_policies ::
  "catalogue_env \<Rightarrow> change_control_policies \<Rightarrow> bool \<Rightarrow> catalogue
   \<Rightarrow> (control_policy_error + policy_id list) \<times> catalogue" where
  "handle_change_control_policies env cmd attach s =
     (case authorize (ccp_connection cmd) of
        Inl _ \<Rightarrow> (Err ControlPoliciesUnavailable, s)
      | Inr _ \<Rightarrow>
          apfst (\<lambda>r. and_then (map_err ControlPoliciesRepository r) (change_control_policies_result cmd))
            (in_unit_of_work (change_control_policies_tx env cmd attach) s))"

definition handle_attach_control_to_policies ::
  "catalogue_env \<Rightarrow> change_control_policies \<Rightarrow> catalogue
   \<Rightarrow> (control_policy_error + policy_id list) \<times> catalogue" where
  "handle_attach_control_to_policies env cmd = handle_change_control_policies env cmd True"

definition handle_detach_control_from_policies ::
  "catalogue_env \<Rightarrow> change_control_policies \<Rightarrow> catalogue
   \<Rightarrow> (control_policy_error + policy_id list) \<times> catalogue" where
  "handle_detach_control_from_policies env cmd = handle_change_control_policies env cmd False"

end
