(* ===== verification/Catalogue_Tables.thy ===== *)
theory Catalogue_Tables
  imports Policy_Commands
begin

text \<open>
  The invariant of the catalogue tables and that every save keeps it: keys are unique, every row loads,
  no two controls of a workspace share a code and no two active policies of a workspace a name, and a
  mapping joins rows of one workspace. The statement that inserts mapping rows one by one is described
  once, by the interface \<open>mapping_table\<close>, for the mappings of evidence and of policies.
\<close>

section \<open>Mapping rows\<close>

locale mapping_table =
  fixes key :: "'r \<Rightarrow> 'k"
    and checks :: "'r \<Rightarrow> 'r list \<Rightarrow> (bool \<times> db_failure) list"
    and known :: "'r \<Rightarrow> bool"
  assumes checks_iff: "(\<forall>c \<in> set (checks r rows). \<not> fst c) \<longleftrightarrow> key r \<notin> key ` set rows \<and> known r"
begin

lemma insert_one: "insert_checked (checks r rows) [r] rows = Inr rows' \<longleftrightarrow>
    rows' = rows @ [r] \<and> key r \<notin> key ` set rows \<and> known r"
proof (cases "find fst (checks r rows)")
  case None
  then have "\<forall>c \<in> set (checks r rows). \<not> fst c" by (auto simp: find_None_iff)
  with None checks_iff show ?thesis by (auto simp: insert_checked_def)
next
  case (Some c)
  then have "\<not> (\<forall>c \<in> set (checks r rows). \<not> fst c)" by (auto simp: find_Some_iff)
  with Some checks_iff show ?thesis by (auto simp: insert_checked_def split: prod.splits)
qed

lemma insert_each_iff: "insert_each checks rs rows = Inr rows' \<longleftrightarrow>
    rows' = rows @ rs \<and> distinct (map key rs) \<and> key ` set rs \<inter> key ` set rows = {} \<and> (\<forall>r \<in> set rs. known r)"
  by (induction rs arbitrary: rows) (auto simp: and_then_Ok_iff insert_one)

end

definition ecm_pair :: "evidence_mapping_record \<Rightarrow> uuid \<times> uuid" where
  "ecm_pair m = (ecmrec_evidence_id m, ecmrec_control_id m)"

definition pcm_pair :: "policy_mapping_record \<Rightarrow> uuid \<times> uuid" where
  "pcm_pair m = (pcmrec_policy_id m, pcmrec_control_id m)"

interpretation evm: mapping_table ecm_pair "evidence_mapping_violations evidence controls"
  "\<lambda>m. row_exists evrec_id (ecmrec_evidence_id m) evidence \<and> row_exists ctlrec_id (ecmrec_control_id m) controls"
  for evidence controls
  by unfold_locales (auto simp: evidence_mapping_violations_def ecm_pair_def list_ex_iff image_iff)

interpretation pom: mapping_table pcm_pair "policy_mapping_violations policies controls"
  "\<lambda>m. row_exists polrec_id (pcmrec_policy_id m) policies \<and> row_exists ctlrec_id (pcmrec_control_id m) controls"
  for policies controls
  by unfold_locales (auto simp: policy_mapping_violations_def pcm_pair_def list_ex_iff image_iff)

lemma insert_checked_Ok_iff:
  "insert_checked checks new rows = Inr rows' \<longleftrightarrow> rows' = rows @ new \<and> (\<forall>c \<in> set checks. \<not> fst c)"
proof (cases "find fst checks")
  case None
  then have "\<forall>c \<in> set checks. \<not> fst c" by (auto simp: find_None_iff)
  with None show ?thesis by (auto simp: insert_checked_def)
next
  case (Some c)
  then have "\<not> (\<forall>c \<in> set checks. \<not> fst c)" by (auto simp: find_Some_iff)
  with Some show ?thesis by (auto simp: insert_checked_def split: prod.splits)
qed

section \<open>The invariant\<close>

definition evidence_row_ok :: "catalogue \<Rightarrow> evidence_record \<Rightarrow> bool" where
  "evidence_row_ok s r \<longleftrightarrow>
     \<not> is_blank (evrec_title r) \<and> \<not> is_blank (evrec_description r)
     \<and> \<not> is_blank (evrec_collection_instructions r) \<and> is_ok (evidence_status_from_str (evrec_status r))
     \<and> evrec_created_at r \<le> evrec_updated_at r
     \<and> row_exists wsrec_id (evrec_workspace_id r) (workspaces_table (db_workspaces (cat_db s)))"

definition control_row_ok :: "catalogue \<Rightarrow> control_record \<Rightarrow> bool" where
  "control_row_ok s r \<longleftrightarrow>
     \<not> is_blank (ctlrec_code r) \<and> \<not> is_blank (ctlrec_title r) \<and> \<not> is_blank (ctlrec_description r)
     \<and> ctlrec_created_at r \<le> ctlrec_updated_at r
     \<and> row_exists wsrec_id (ctlrec_workspace_id r) (workspaces_table (db_workspaces (cat_db s)))"

definition policy_row_ok :: "catalogue \<Rightarrow> policy_record \<Rightarrow> bool" where
  "policy_row_ok s r \<longleftrightarrow>
     policy_definition_new (polrec_name r) (polrec_description r)
       = Valid \<lparr>pd_name = polrec_name r, pd_description = polrec_description r\<rparr>
     \<and> polrec_created_at r \<le> polrec_updated_at r
     \<and> is_none_or (\<lambda>t. polrec_created_at r \<le> t) (polrec_archived_at r)
     \<and> row_exists wsrec_id (polrec_workspace_id r) (workspaces_table (db_workspaces (cat_db s)))"

definition wf_rows :: "catalogue \<Rightarrow> bool" where
  "wf_rows s \<longleftrightarrow>
     table_wf evrec_id (db_evidence (cat_db s)) \<and> (\<forall>r \<in> set (db_evidence (cat_db s)). evidence_row_ok s r)
     \<and> table_wf ctlrec_id (cat_controls s) \<and> (\<forall>r \<in> set (cat_controls s). control_row_ok s r)
     \<and> table_wf polrec_id (db_policies (cat_db s)) \<and> (\<forall>r \<in> set (db_policies (cat_db s)). policy_row_ok s r)"

definition codes_unique :: "catalogue \<Rightarrow> bool" where
  "codes_unique s \<longleftrightarrow>
     (\<forall>a \<in> set (cat_controls s). \<forall>b \<in> set (cat_controls s).
        ctlrec_workspace_id a = ctlrec_workspace_id b \<and> ctlrec_code a = ctlrec_code b \<longrightarrow> ctlrec_id a = ctlrec_id b)"

definition names_unique :: "(string \<Rightarrow> string) \<Rightarrow> catalogue \<Rightarrow> bool" where
  "names_unique lower s \<longleftrightarrow>
     (\<forall>a \<in> set (db_policies (cat_db s)). \<forall>b \<in> set (db_policies (cat_db s)).
        active_policy_row a \<and> active_policy_row b \<and> polrec_workspace_id a = polrec_workspace_id b
        \<and> lower (polrec_name a) = lower (polrec_name b) \<longrightarrow> polrec_id a = polrec_id b)"

text \<open>A mapping joins rows of one workspace.\<close>

definition control_in :: "catalogue \<Rightarrow> uuid \<Rightarrow> uuid \<Rightarrow> bool" where
  "control_in s w c \<longleftrightarrow> (\<exists>r \<in> set (cat_controls s). ctlrec_id r = c \<and> ctlrec_workspace_id r = w)"

definition wf_evidence_mappings :: "catalogue \<Rightarrow> bool" where
  "wf_evidence_mappings s \<longleftrightarrow>
     distinct (map ecm_pair (cat_evidence_mappings s))
     \<and> (\<forall>m \<in> set (cat_evidence_mappings s). \<not> is_blank (ecmrec_rationale m)
          \<and> (\<exists>e \<in> set (db_evidence (cat_db s)). evrec_id e = ecmrec_evidence_id m
              \<and> control_in s (evrec_workspace_id e) (ecmrec_control_id m)))"

definition wf_policy_mappings :: "catalogue \<Rightarrow> bool" where
  "wf_policy_mappings s \<longleftrightarrow>
     distinct (map pcm_pair (cat_policy_mappings s))
     \<and> (\<forall>m \<in> set (cat_policy_mappings s).
          \<exists>p \<in> set (db_policies (cat_db s)). polrec_id p = pcmrec_policy_id m
              \<and> control_in s (polrec_workspace_id p) (pcmrec_control_id m))"

definition wf_requirement_mappings :: "catalogue \<Rightarrow> bool" where
  "wf_requirement_mappings s \<longleftrightarrow>
     distinct (cat_control_requirements s)
     \<and> (\<forall>m \<in> set (cat_control_requirements s). row_exists ctlrec_id (fst m) (cat_controls s)
          \<and> row_exists frrec_id (snd m) (cat_requirements s))"

definition wf_catalogue :: "(string \<Rightarrow> string) \<Rightarrow> catalogue \<Rightarrow> bool" where
  "wf_catalogue lower s \<longleftrightarrow>
     wf_rows s \<and> codes_unique s \<and> names_unique lower s
     \<and> wf_evidence_mappings s \<and> wf_policy_mappings s \<and> wf_requirement_mappings s"

section \<open>Loading\<close>

text \<open>The aggregates the rows stand for.\<close>

definition row_mapping :: "evidence_mapping_record \<Rightarrow> evidence_control_mapping" where
  "row_mapping m = \<lparr>ecm_control_id = ControlId (ecmrec_control_id m), ecm_rationale = ecmrec_rationale m,
     ecm_created_at = ecmrec_created_at m\<rparr>"

definition row_evidence :: "catalogue \<Rightarrow> evidence_record \<Rightarrow> evidence" where
  "row_evidence s r =
     \<lparr>ev_id = EvidenceId (evrec_id r), ev_workspace_id = WorkspaceId (evrec_workspace_id r),
      ev_definition = \<lparr>evd_title = evrec_title r, evd_description = evrec_description r,
        evd_collection_instructions = evrec_collection_instructions r\<rparr>,
      ev_status = projr (evidence_status_from_str (evrec_status r)),
      ev_mappings = map row_mapping (sort_key ecmrec_control_id
        (filter (\<lambda>m. ecmrec_evidence_id m = evrec_id r) (cat_evidence_mappings s))),
      ev_created_at = evrec_created_at r, ev_updated_at = evrec_updated_at r\<rparr>"

definition row_control :: "catalogue \<Rightarrow> control_record \<Rightarrow> control" where
  "row_control s r =
     \<lparr>ctl_id = ControlId (ctlrec_id r), ctl_workspace_id = WorkspaceId (ctlrec_workspace_id r),
      ctl_definition = \<lparr>cd_code = ctlrec_code r, cd_title = ctlrec_title r, cd_description = ctlrec_description r\<rparr>,
      ctl_framework_requirement_ids = map FrameworkRequirementId
        (sort (requirements_of (ctlrec_id r) (cat_control_requirements s))),
      ctl_created_at = ctlrec_created_at r, ctl_updated_at = ctlrec_updated_at r\<rparr>"

definition row_policy :: "catalogue \<Rightarrow> policy_record \<Rightarrow> policy" where
  "row_policy s r =
     \<lparr>pol_id = PolicyId (polrec_id r), pol_workspace_id = WorkspaceId (polrec_workspace_id r),
      pol_definition = \<lparr>pd_name = polrec_name r, pd_description = polrec_description r\<rparr>,
      pol_mappings = map policy_mapping_from_row (sort_key pcmrec_control_id
        (filter (\<lambda>m. pcmrec_policy_id m = polrec_id r) (cat_policy_mappings s))),
      pol_created_at = polrec_created_at r, pol_updated_at = polrec_updated_at r,
      pol_archived_at = polrec_archived_at r\<rparr>"

lemma distinct_second:
  "distinct (map (\<lambda>m. (f m, g m)) ms) \<Longrightarrow> distinct (map g (filter (\<lambda>m. f m = k) ms))"
  by (induction ms) (auto simp: image_iff)

lemma status_parsed: "evidence_status_from_str x = Inr st \<Longrightarrow> evidence_status_as_str st = x"
  by (auto simp: evidence_status_from_str_def split: if_splits)

lemma row_evidence_wf:
  assumes "evidence_row_ok s r" and "wf_evidence_mappings s"
  shows "wf_evidence (row_evidence s r)"
proof -
  let ?ms = "filter (\<lambda>m. ecmrec_evidence_id m = evrec_id r) (cat_evidence_mappings s)"
  have key: "ecm_key \<circ> row_mapping = ecmrec_control_id" by (auto simp: ecm_key_def row_mapping_def)
  have "distinct (map ecmrec_control_id ?ms)"
    using assms(2) unfolding wf_evidence_mappings_def ecm_pair_def by (blast intro: distinct_second)
  then have "distinct (map ecmrec_control_id (sort_key ecmrec_control_id ?ms))"
    by (simp add: distinct_map_sort_key)
  moreover have "\<forall>m \<in> set ?ms. \<not> is_blank (ecm_rationale (row_mapping m))"
    using assms(2) by (simp add: wf_evidence_mappings_def row_mapping_def)
  ultimately show ?thesis
    using assms(1) by (simp add: wf_evidence_def row_evidence_def evidence_row_ok_def key)
qed

lemma row_control_wf:
  assumes "control_row_ok s r" and "wf_requirement_mappings s"
  shows "wf_control (row_control s r)"
proof -
  have "distinct (map snd (filter (\<lambda>m. fst m = ctlrec_id r) (cat_control_requirements s)))"
    using assms(2) by (intro distinct_second) (simp add: wf_requirement_mappings_def)
  then have "distinct (map FrameworkRequirementId (sort (requirements_of (ctlrec_id r) (cat_control_requirements s))))"
    by (simp add: requirements_of_def distinct_map inj_on_def)
  then show ?thesis
    using assms(1) by (simp add: wf_control_def row_control_def control_row_ok_def comp_def)
qed

lemma row_policy_wf:
  assumes "policy_row_ok s r" and "wf_policy_mappings s"
  shows "wf_policy (row_policy s r)"
proof -
  let ?ms = "filter (\<lambda>m. pcmrec_policy_id m = polrec_id r) (cat_policy_mappings s)"
  have key: "pcm_key \<circ> policy_mapping_from_row = pcmrec_control_id"
    by (auto simp: pcm_key_def policy_mapping_from_row_def)
  have "distinct (map pcmrec_control_id ?ms)"
    using assms(2) unfolding wf_policy_mappings_def pcm_pair_def by (blast intro: distinct_second)
  then show ?thesis
    using assms(1) by (simp add: wf_policy_def row_policy_def policy_row_ok_def key distinct_map_sort_key)
qed

text \<open>What a load gives is the aggregate of the row, and its row is the one that was read.\<close>

lemma row_evidence_mappings:
  "collect_results (map evidence_mapping_from_row ms) = Inr (map row_mapping ms)"
  if "\<forall>m \<in> set ms. \<not> is_blank (ecmrec_rationale m)"
  using that
  by (intro collect_results_map)
    (simp add: evidence_mapping_from_row_def evidence_control_mapping_new_def required_text_Valid_iff [THEN iffD2]
      row_mapping_def)

lemma row_evidence_record:
  "evidence_row_ok s r \<Longrightarrow> evidence_from_domain (row_evidence s r) = r"
  by (cases "evidence_status_from_str (evrec_status r)")
    (auto simp: evidence_row_ok_def evidence_from_domain_def row_evidence_def dest: status_parsed)

lemma row_control_record: "control_from_domain (row_control s r) = r"
  by (simp add: control_from_domain_def row_control_def)

lemma row_policy_record: "policy_from_domain (row_policy s r) = r"
  by (simp add: policy_from_domain_def row_policy_def)

lemma evidence_get_eq:
  assumes "wf_rows s" and "wf_evidence_mappings s"
  shows "evidence_get w i s = Inr (map_option (row_evidence s)
     (find (\<lambda>r. evrec_id r = evidence_uuid i \<and> evrec_workspace_id r = workspace_uuid w) (db_evidence (cat_db s))))"
proof (cases "find (\<lambda>r. evrec_id r = evidence_uuid i \<and> evrec_workspace_id r = workspace_uuid w) (db_evidence (cat_db s))")
  case (Some r)
  then have r: "r \<in> set (db_evidence (cat_db s))" "evrec_id r = evidence_uuid i" by (auto simp: find_Some_iff)
  then have ok: "evidence_row_ok s r" using assms(1) by (simp add: wf_rows_def)
  let ?ms = "sort_key ecmrec_control_id (filter (\<lambda>m. ecmrec_evidence_id m = evidence_uuid i) (cat_evidence_mappings s))"
  have "collect_results (map evidence_mapping_from_row ?ms) = Inr (map row_mapping ?ms)"
    using assms(2) by (intro row_evidence_mappings) (simp add: wf_evidence_mappings_def)
  moreover have "evidence_into_domain r (map row_mapping ?ms) = Inr (row_evidence s r)"
    using evidence_reload [OF row_evidence_wf [OF ok assms(2)]] row_evidence_record [OF ok]
    by (simp add: r(2) row_evidence_def)
  ultimately show ?thesis using Some by (simp add: evidence_get_def)
qed (simp add: evidence_get_def)

lemma control_get_eq:
  assumes "wf_rows s" and "wf_requirement_mappings s"
  shows "control_get w i s = Inr (map_option (row_control s)
     (find (\<lambda>r. ctlrec_id r = control_uuid i \<and> ctlrec_workspace_id r = workspace_uuid w) (cat_controls s)))"
proof (cases "find (\<lambda>r. ctlrec_id r = control_uuid i \<and> ctlrec_workspace_id r = workspace_uuid w) (cat_controls s)")
  case (Some r)
  then have r: "r \<in> set (cat_controls s)" "ctlrec_id r = control_uuid i" by (auto simp: find_Some_iff)
  then have ok: "control_row_ok s r" using assms(1) by (simp add: wf_rows_def)
  show ?thesis
    using control_reload [OF row_control_wf [OF ok assms(2)]] Some
    by (simp add: control_get_def row_control_record r(2)) (simp add: row_control_def r(2))
qed (simp add: control_get_def)

lemma policy_get_eq:
  assumes "wf_rows s" and "wf_policy_mappings s"
  shows "policy_get w i s = Inr (map_option (row_policy s)
     (find (\<lambda>r. polrec_id r = policy_uuid i \<and> polrec_workspace_id r = workspace_uuid w) (db_policies (cat_db s))))"
proof (cases "find (\<lambda>r. polrec_id r = policy_uuid i \<and> polrec_workspace_id r = workspace_uuid w) (db_policies (cat_db s))")
  case (Some r)
  then have r: "r \<in> set (db_policies (cat_db s))" "polrec_id r = policy_uuid i" by (auto simp: find_Some_iff)
  then have ok: "policy_row_ok s r" using assms(1) by (simp add: wf_rows_def)
  show ?thesis
    using policy_reload [OF row_policy_wf [OF ok assms(2)]] Some
    by (simp add: policy_get_def row_policy_record r(2)) (simp add: row_policy_def r(2))
qed (simp add: policy_get_def)

section \<open>Saving\<close>

definition stored_evidence :: "evidence \<Rightarrow> catalogue \<Rightarrow> catalogue" where
  "stored_evidence e s =
     s\<lparr>cat_db := (cat_db s)\<lparr>db_evidence := upsert_row evrec_id (evidence_from_domain e) (db_evidence (cat_db s))\<rparr>,
       cat_evidence_mappings := delete_rows (\<lambda>m. ecmrec_evidence_id m = evidence_uuid (ev_id e)) (cat_evidence_mappings s)
         @ map (evidence_mapping_from_domain (evidence_uuid (ev_id e))) (ev_mappings e)\<rparr>"

definition stored_control :: "control \<Rightarrow> catalogue \<Rightarrow> catalogue" where
  "stored_control c s =
     s\<lparr>cat_controls := upsert_row ctlrec_id (control_from_domain c) (cat_controls s),
       cat_control_requirements := delete_rows (\<lambda>m. fst m = control_uuid (ctl_id c)) (cat_control_requirements s)
         @ map (\<lambda>i. (control_uuid (ctl_id c), framework_requirement_uuid i)) (ctl_framework_requirement_ids c)\<rparr>"

definition stored_policy :: "policy \<Rightarrow> catalogue \<Rightarrow> catalogue" where
  "stored_policy p s =
     s\<lparr>cat_db := (cat_db s)\<lparr>db_policies := upsert_row polrec_id (policy_from_domain p) (db_policies (cat_db s))\<rparr>,
       cat_policy_mappings := delete_rows (\<lambda>m. pcmrec_policy_id m = policy_uuid (pol_id p)) (cat_policy_mappings s)
         @ map (policy_mapping_from_domain (policy_uuid (pol_id p))) (pol_mappings p)\<rparr>"

lemma evidence_record_simps [simp]:
  "evrec_id (evidence_from_domain e) = evidence_uuid (ev_id e)"
  "evrec_workspace_id (evidence_from_domain e) = workspace_uuid (ev_workspace_id e)"
  by (simp_all add: evidence_from_domain_def)

lemma control_record_simps [simp]:
  "ctlrec_id (control_from_domain c) = control_uuid (ctl_id c)"
  "ctlrec_workspace_id (control_from_domain c) = workspace_uuid (ctl_workspace_id c)"
  by (simp_all add: control_from_domain_def)

lemma policy_record_simps [simp]:
  "polrec_id (policy_from_domain p) = policy_uuid (pol_id p)"
  "polrec_workspace_id (policy_from_domain p) = workspace_uuid (pol_workspace_id p)"
  "polrec_archived_at (policy_from_domain p) = pol_archived_at p"
  by (simp_all add: policy_from_domain_def)

lemma uuid_inj:
  "control_uuid a = control_uuid b \<longleftrightarrow> a = b" "evidence_uuid c = evidence_uuid d \<longleftrightarrow> c = d"
  "policy_uuid e = policy_uuid f \<longleftrightarrow> e = f" "workspace_uuid g = workspace_uuid h \<longleftrightarrow> g = h"
  "framework_requirement_uuid k = framework_requirement_uuid l \<longleftrightarrow> k = l"
  by (auto intro: control_id.expand evidence_id.expand policy_id.expand workspace_id.expand
      framework_requirement_id.expand)

lemma distinct_control_ids: "distinct (map (\<lambda>m. control_uuid (f m)) ms) \<longleftrightarrow> distinct (map f ms)"
  by (induction ms) (auto simp: uuid_inj image_iff)

lemma status_written: "evrec_status (evidence_from_domain e) \<in> {''active'', ''paused'', ''retired''}"
  by (cases "ev_status e") (simp_all add: evidence_from_domain_def)

lemma evidence_save_iff:
  "evidence_save e s = Inr s' \<longleftrightarrow>
     s' = stored_evidence e s
     \<and> row_exists wsrec_id (workspace_uuid (ev_workspace_id e)) (workspaces_table (db_workspaces (cat_db s)))
     \<and> distinct (map ecm_control_id (ev_mappings e))
     \<and> (\<forall>m \<in> set (ev_mappings e). row_exists ctlrec_id (control_uuid (ecm_control_id m)) (cat_controls s))"
proof -
  let ?i = "evidence_uuid (ev_id e)"
  have pairs: "map ecm_pair (map (evidence_mapping_from_domain ?i) (ev_mappings e))
      = map (\<lambda>m. (?i, control_uuid (ecm_control_id m))) (ev_mappings e)"
    by (simp add: ecm_pair_def evidence_mapping_from_domain_def)
  have "distinct (map ecm_pair (map (evidence_mapping_from_domain ?i) (ev_mappings e)))
      \<longleftrightarrow> distinct (map ecm_control_id (ev_mappings e))"
    unfolding pairs distinct_control_ids [symmetric] by (induction "ev_mappings e") (auto simp: distinct_map inj_on_def)
  moreover have "ecm_pair ` set (map (evidence_mapping_from_domain ?i) (ev_mappings e))
      \<inter> ecm_pair ` set (delete_rows (\<lambda>m. ecmrec_evidence_id m = ?i) (cat_evidence_mappings s)) = {}"
    by (auto simp: ecm_pair_def evidence_mapping_from_domain_def)
  ultimately show ?thesis
    using status_written [of e]
    by (auto simp: evidence_save_def Let_def and_then_Ok_iff save_row_Ok_iff evm.insert_each_iff
        evidence_violations_def stored_evidence_def evidence_mapping_from_domain_def)
qed

lemma control_save_iff:
  "control_save c s = Inr s' \<longleftrightarrow>
     s' = stored_control c s
     \<and> row_exists wsrec_id (workspace_uuid (ctl_workspace_id c)) (workspaces_table (db_workspaces (cat_db s)))
     \<and> (\<forall>x \<in> set (cat_controls s). ctlrec_id x \<noteq> control_uuid (ctl_id c)
          \<and> ctlrec_workspace_id x = workspace_uuid (ctl_workspace_id c) \<longrightarrow> ctlrec_code x \<noteq> cd_code (ctl_definition c))
     \<and> distinct (ctl_framework_requirement_ids c)
     \<and> (\<forall>i \<in> set (ctl_framework_requirement_ids c). row_exists frrec_id (framework_requirement_uuid i) (cat_requirements s))"
proof -
  have "distinct (map framework_requirement_uuid ids) \<longleftrightarrow> distinct ids" for ids
    by (induction ids) (auto simp: uuid_inj image_iff)
  then show ?thesis
    by (auto simp: control_save_def Let_def and_then_Ok_iff save_row_Ok_iff insert_checked_Ok_iff
        control_violations_def requirement_mapping_violations_def stored_control_def list_ex_iff list_all_iff
        comp_def control_from_domain_def)
qed

lemma policy_save_Ok:
  assumes "policy_save lower p s = Inr s'"
  shows "s' = stored_policy p s"
    and "row_exists wsrec_id (workspace_uuid (pol_workspace_id p)) (workspaces_table (db_workspaces (cat_db s)))"
    and "pol_archived_at p = None \<longrightarrow> (\<forall>x \<in> set (db_policies (cat_db s)). polrec_id x \<noteq> policy_uuid (pol_id p)
       \<and> active_policy_row x \<and> polrec_workspace_id x = workspace_uuid (pol_workspace_id p)
       \<longrightarrow> lower (polrec_name x) \<noteq> lower (pd_name (pol_definition p)))"
  using assms
  by (auto simp: policy_save_def Let_def and_then_Ok_iff save_row_Ok_iff pom.insert_each_iff
      policy_violations_def stored_policy_def policy_mapping_from_domain_def list_ex_iff active_policy_row_def
      policy_from_domain_def)

section \<open>Saves keep the invariant\<close>

lemma wf_catalogueD:
  assumes "wf_catalogue lower s"
  shows "wf_rows s" "codes_unique s" "names_unique lower s" "wf_evidence_mappings s" "wf_policy_mappings s"
    "wf_requirement_mappings s" "table_wf evrec_id (db_evidence (cat_db s))" "table_wf ctlrec_id (cat_controls s)"
    "table_wf polrec_id (db_policies (cat_db s))"
  using assms by (simp_all add: wf_catalogue_def wf_rows_def)

lemmas row_ok_defs = evidence_row_ok_def control_row_ok_def policy_row_ok_def

lemma evidence_row_ok_of:
  "wf_evidence e \<Longrightarrow>
   row_exists wsrec_id (workspace_uuid (ev_workspace_id e)) (workspaces_table (db_workspaces (cat_db s))) \<Longrightarrow>
   evidence_row_ok s (evidence_from_domain e)"
  by (simp add: evidence_row_ok_def wf_evidence_def evidence_from_domain_def)

lemma control_row_ok_of:
  "wf_control c \<Longrightarrow>
   row_exists wsrec_id (workspace_uuid (ctl_workspace_id c)) (workspaces_table (db_workspaces (cat_db s))) \<Longrightarrow>
   control_row_ok s (control_from_domain c)"
  by (simp add: control_row_ok_def wf_control_def control_from_domain_def)

lemma policy_row_ok_of:
  "wf_policy p \<Longrightarrow>
   row_exists wsrec_id (workspace_uuid (pol_workspace_id p)) (workspaces_table (db_workspaces (cat_db s))) \<Longrightarrow>
   policy_row_ok s (policy_from_domain p)"
  by (simp add: policy_row_ok_def wf_policy_def policy_from_domain_def)

lemma unique_upsert:
  assumes "key r = k" and "\<forall>a \<in> A. \<forall>b \<in> A. R a b \<longrightarrow> key a = key b"
    and "\<forall>x \<in> A. key x \<noteq> k \<longrightarrow> \<not> R x r \<and> \<not> R r x"
  shows "\<forall>a \<in> insert r {x \<in> A. key x \<noteq> k}. \<forall>b \<in> insert r {x \<in> A. key x \<noteq> k}. R a b \<longrightarrow> key a = key b"
  using assms by blast

lemma evidence_save_wf:
  assumes "evidence_save e s = Inr s'" and "wf_evidence e" and "wf_catalogue lower s"
    and "\<And>m. m \<in> set (ev_mappings e) \<Longrightarrow>
       control_in s (workspace_uuid (ev_workspace_id e)) (control_uuid (ecm_control_id m))"
  shows "wf_catalogue lower s'"
proof -
  from assms(1) have s': "s' = stored_evidence e s"
    and ws: "row_exists wsrec_id (workspace_uuid (ev_workspace_id e)) (workspaces_table (db_workspaces (cat_db s)))"
    and d: "distinct (map ecm_control_id (ev_mappings e))" by (simp_all add: evidence_save_iff)
  note wf = wf_catalogueD [OF assms(3)]
  let ?i = "evidence_uuid (ev_id e)" and ?r = "evidence_from_domain e"
  have rows: "set (db_evidence (cat_db s')) = insert ?r {x \<in> set (db_evidence (cat_db s)). evrec_id x \<noteq> ?i}"
    by (simp add: s' stored_evidence_def set_upsert_row [OF wf(7)])
  have same: "cat_controls s' = cat_controls s" "db_policies (cat_db s') = db_policies (cat_db s)"
    "db_workspaces (cat_db s') = db_workspaces (cat_db s)" "cat_policy_mappings s' = cat_policy_mappings s"
    "cat_control_requirements s' = cat_control_requirements s" "cat_requirements s' = cat_requirements s"
    "table_wf evrec_id (db_evidence (cat_db s'))"
    by (simp_all add: s' stored_evidence_def upsert_row_wf [OF wf(7)])
  have "wf_rows s'"
    using wf(1) evidence_row_ok_of [OF assms(2) ws] unfolding wf_rows_def rows same row_ok_defs using same(7) by auto
  moreover have "wf_evidence_mappings s'"
  proof -
    have ms: "cat_evidence_mappings s' = delete_rows (\<lambda>m. ecmrec_evidence_id m = ?i) (cat_evidence_mappings s)
        @ map (evidence_mapping_from_domain ?i) (ev_mappings e)" by (simp add: s' stored_evidence_def)
    have "distinct (map ecm_pair (map (evidence_mapping_from_domain ?i) (ev_mappings e)))"
      using d distinct_control_ids [of ecm_control_id "ev_mappings e"]
      by (auto simp: ecm_pair_def evidence_mapping_from_domain_def distinct_map inj_on_def comp_def)
    moreover have "distinct (map ecm_pair (delete_rows (\<lambda>m. ecmrec_evidence_id m = ?i) (cat_evidence_mappings s)))"
      using wf(4) delete_rows_wf unfolding wf_evidence_mappings_def table_wf_def by blast
    ultimately have "distinct (map ecm_pair (cat_evidence_mappings s'))"
      unfolding ms by (auto simp: ecm_pair_def evidence_mapping_from_domain_def)
    moreover have "\<forall>m \<in> set (cat_evidence_mappings s'). \<not> is_blank (ecmrec_rationale m)
        \<and> (\<exists>x \<in> set (db_evidence (cat_db s')). evrec_id x = ecmrec_evidence_id m
          \<and> control_in s' (evrec_workspace_id x) (ecmrec_control_id m))"
    proof
      fix m assume "m \<in> set (cat_evidence_mappings s')"
      then consider "m \<in> set (cat_evidence_mappings s)" "ecmrec_evidence_id m \<noteq> ?i"
        | x where "x \<in> set (ev_mappings e)" "m = evidence_mapping_from_domain ?i x" unfolding ms by auto
      then show "\<not> is_blank (ecmrec_rationale m) \<and> (\<exists>x \<in> set (db_evidence (cat_db s')). evrec_id x = ecmrec_evidence_id m
          \<and> control_in s' (evrec_workspace_id x) (ecmrec_control_id m))"
      proof cases
        case 1
        with wf(4) obtain x where "x \<in> set (db_evidence (cat_db s))" "evrec_id x = ecmrec_evidence_id m"
          "control_in s (evrec_workspace_id x) (ecmrec_control_id m)" "\<not> is_blank (ecmrec_rationale m)"
          unfolding wf_evidence_mappings_def by blast
        with 1(2) show ?thesis unfolding rows control_in_def same by (auto intro!: bexI [of _ x])
      next
        case 2
        then show ?thesis
          using assms(2) assms(4) [OF 2(1)] unfolding rows control_in_def same
          by (simp add: evidence_mapping_from_domain_def wf_evidence_def)
      qed
    qed
    ultimately show ?thesis unfolding wf_evidence_mappings_def by blast
  qed
  ultimately show ?thesis
    using wf unfolding wf_catalogue_def codes_unique_def names_unique_def wf_policy_mappings_def
      wf_requirement_mappings_def control_in_def same by blast
qed

lemma control_save_wf:
  assumes "control_save c s = Inr s'" and "wf_control c" and "wf_catalogue lower s"
    and "\<And>x. x \<in> set (cat_controls s) \<Longrightarrow> ctlrec_id x = control_uuid (ctl_id c) \<Longrightarrow>
       ctlrec_workspace_id x = workspace_uuid (ctl_workspace_id c)"
  shows "wf_catalogue lower s'"
proof -
  from assms(1) have s': "s' = stored_control c s"
    and ws: "row_exists wsrec_id (workspace_uuid (ctl_workspace_id c)) (workspaces_table (db_workspaces (cat_db s)))"
    and code: "\<forall>x \<in> set (cat_controls s). ctlrec_id x \<noteq> control_uuid (ctl_id c)
          \<and> ctlrec_workspace_id x = workspace_uuid (ctl_workspace_id c) \<longrightarrow> ctlrec_code x \<noteq> cd_code (ctl_definition c)"
    and ids: "distinct (ctl_framework_requirement_ids c)"
      "\<forall>i \<in> set (ctl_framework_requirement_ids c). row_exists frrec_id (framework_requirement_uuid i) (cat_requirements s)"
    by (simp_all add: control_save_iff)
  note wf = wf_catalogueD [OF assms(3)]
  let ?i = "control_uuid (ctl_id c)" and ?r = "control_from_domain c"
  have rows: "set (cat_controls s') = insert ?r {x \<in> set (cat_controls s). ctlrec_id x \<noteq> ?i}"
    by (simp add: s' stored_control_def set_upsert_row [OF wf(8)])
  have same: "cat_db s' = cat_db s" "cat_evidence_mappings s' = cat_evidence_mappings s"
    "cat_policy_mappings s' = cat_policy_mappings s" "cat_requirements s' = cat_requirements s"
    "table_wf ctlrec_id (cat_controls s')"
    by (simp_all add: s' stored_control_def upsert_row_wf [OF wf(8)])
  have "wf_rows s'"
    using wf(1) control_row_ok_of [OF assms(2) ws] unfolding wf_rows_def rows same row_ok_defs using same(5) by auto
  moreover have "codes_unique s'"
    unfolding codes_unique_def rows
  proof (rule unique_upsert [where key = ctlrec_id], goal_cases)
    case 2
    show ?case using wf(2) unfolding codes_unique_def .
  next
    case 3
    show ?case using code by (simp add: control_from_domain_def) metis
  qed simp
  moreover have "control_in s' w k" if "control_in s w k" for w k
    using that assms(4) unfolding control_in_def rows by fastforce
  moreover have "wf_requirement_mappings s'"
  proof -
    have "distinct (map (\<lambda>i. (?i, framework_requirement_uuid i)) (ctl_framework_requirement_ids c))"
      using ids(1) by (simp add: distinct_map inj_on_def uuid_inj)
    moreover have "row_exists ctlrec_id k (cat_controls s')" if "row_exists ctlrec_id k (cat_controls s)" for k
      using that by (simp add: s' stored_control_def)
    moreover have "row_exists ctlrec_id ?i (cat_controls s')" by (simp add: s' stored_control_def)
    ultimately show ?thesis
      using wf(6) ids(2) unfolding wf_requirement_mappings_def same
      by (auto simp: s' stored_control_def delete_rows_def)
  qed
  ultimately show ?thesis
    using wf unfolding wf_catalogue_def names_unique_def wf_policy_mappings_def wf_evidence_mappings_def same by blast
qed

lemma policy_save_wf:
  assumes "policy_save lower p s = Inr s'" and "wf_policy p" and "wf_catalogue lower s"
    and "\<And>m. m \<in> set (pol_mappings p) \<Longrightarrow>
       control_in s (workspace_uuid (pol_workspace_id p)) (control_uuid (pcm_control_id m))"
  shows "wf_catalogue lower s'"
proof -
  note save = policy_save_Ok [OF assms(1)]
  note s' = save(1) and ws = save(2)
  note wf = wf_catalogueD [OF assms(3)]
  let ?i = "policy_uuid (pol_id p)" and ?r = "policy_from_domain p"
  have rows: "set (db_policies (cat_db s')) = insert ?r {x \<in> set (db_policies (cat_db s)). polrec_id x \<noteq> ?i}"
    by (simp add: s' stored_policy_def set_upsert_row [OF wf(9)])
  have same: "cat_controls s' = cat_controls s" "db_evidence (cat_db s') = db_evidence (cat_db s)"
    "db_workspaces (cat_db s') = db_workspaces (cat_db s)" "cat_evidence_mappings s' = cat_evidence_mappings s"
    "cat_control_requirements s' = cat_control_requirements s" "cat_requirements s' = cat_requirements s"
    "table_wf polrec_id (db_policies (cat_db s'))"
    by (simp_all add: s' stored_policy_def upsert_row_wf [OF wf(9)])
  have "wf_rows s'"
    using wf(1) policy_row_ok_of [OF assms(2) ws] unfolding wf_rows_def rows same row_ok_defs using same(7) by auto
  moreover have "names_unique lower s'"
    unfolding names_unique_def rows
  proof (rule unique_upsert [where key = polrec_id], goal_cases)
    case 2
    show ?case using wf(3) unfolding names_unique_def .
  next
    case 3
    show ?case using save(3) by (auto simp: policy_from_domain_def active_policy_row_def)
  qed simp
  moreover have "wf_policy_mappings s'"
  proof -
    have ms: "cat_policy_mappings s' = delete_rows (\<lambda>m. pcmrec_policy_id m = ?i) (cat_policy_mappings s)
        @ map (policy_mapping_from_domain ?i) (pol_mappings p)" by (simp add: s' stored_policy_def)
    have "distinct (map (\<lambda>m. control_uuid (pcm_control_id m)) (pol_mappings p))"
      using assms(2) unfolding wf_policy_def pcm_key_def by simp
    then have "distinct (map pcm_pair (map (policy_mapping_from_domain ?i) (pol_mappings p)))"
      by (auto simp: pcm_pair_def policy_mapping_from_domain_def distinct_map inj_on_def comp_def)
    moreover have "distinct (map pcm_pair (delete_rows (\<lambda>m. pcmrec_policy_id m = ?i) (cat_policy_mappings s)))"
      using wf(5) delete_rows_wf unfolding wf_policy_mappings_def table_wf_def by blast
    ultimately have "distinct (map pcm_pair (cat_policy_mappings s'))"
      unfolding ms by (auto simp: pcm_pair_def policy_mapping_from_domain_def)
    moreover have "\<exists>x \<in> set (db_policies (cat_db s')). polrec_id x = pcmrec_policy_id m
          \<and> control_in s' (polrec_workspace_id x) (pcmrec_control_id m)" if "m \<in> set (cat_policy_mappings s')" for m
    proof -
      from that consider "m \<in> set (cat_policy_mappings s)" "pcmrec_policy_id m \<noteq> ?i"
        | x where "x \<in> set (pol_mappings p)" "m = policy_mapping_from_domain ?i x" unfolding ms by auto
      then show ?thesis
      proof cases
        case 1
        with wf(5) obtain x where "x \<in> set (db_policies (cat_db s))" "polrec_id x = pcmrec_policy_id m"
          "control_in s (polrec_workspace_id x) (pcmrec_control_id m)"
          unfolding wf_policy_mappings_def by blast
        with 1(2) show ?thesis unfolding rows control_in_def same by (auto intro!: bexI [of _ x])
      next
        case 2
        then show ?thesis
          using assms(4) [OF 2(1)] unfolding rows control_in_def same by (simp add: policy_mapping_from_domain_def)
      qed
    qed
    ultimately show ?thesis unfolding wf_policy_mappings_def by blast
  qed
  ultimately show ?thesis
    using wf unfolding wf_catalogue_def codes_unique_def wf_evidence_mappings_def
      wf_requirement_mappings_def control_in_def same by blast
qed

end
