(* ===== verification/Catalogue_Scope.thy ===== *)
theory Catalogue_Scope
  imports Catalogue_Tables
begin

text \<open>
  What a save changes and what it leaves alone: a saved aggregate loads as it was saved, and a save in one
  workspace changes nothing another workspace can load. \<open>evidence_savable\<close>, \<open>control_savable\<close> and
  \<open>policy_savable\<close> collect what a handler has established of an aggregate when it saves it.
\<close>

section \<open>Views of a workspace\<close>

definition workspace_view ::
  "workspace_id \<Rightarrow> catalogue \<Rightarrow> (evidence_id \<Rightarrow> repository_error + evidence option)
   \<times> (control_id \<Rightarrow> repository_error + control option) \<times> (policy_id \<Rightarrow> repository_error + policy option)" where
  "workspace_view w s = (\<lambda>i. evidence_get w i s, \<lambda>i. control_get w i s, \<lambda>i. policy_get w i s)"

definition foreign_rows ::
  "workspace_id \<Rightarrow> catalogue \<Rightarrow> evidence_record set \<times> control_record set \<times> policy_record set" where
  "foreign_rows w s =
     ({r \<in> set (db_evidence (cat_db s)). evrec_workspace_id r \<noteq> workspace_uuid w},
      {r \<in> set (cat_controls s). ctlrec_workspace_id r \<noteq> workspace_uuid w},
      {r \<in> set (db_policies (cat_db s)). polrec_workspace_id r \<noteq> workspace_uuid w})"

definition only_workspace :: "workspace_id \<Rightarrow> catalogue \<Rightarrow> catalogue \<Rightarrow> bool" where
  "only_workspace w s t \<longleftrightarrow>
     foreign_rows w t = foreign_rows w s \<and> (\<forall>x. x \<noteq> w \<longrightarrow> workspace_view x t = workspace_view x s)"

lemma only_workspace_refl [simp]: "only_workspace w s s"
  by (simp add: only_workspace_def)

lemma only_workspace_trans: "only_workspace w s t \<Longrightarrow> only_workspace w t u \<Longrightarrow> only_workspace w s u"
  by (simp add: only_workspace_def)

lemma table_wf_unique:
  "table_wf key rows \<Longrightarrow> x \<in> set rows \<Longrightarrow> y \<in> set rows \<Longrightarrow> key x = key y \<Longrightarrow> x = y"
  by (auto simp: table_wf_def distinct_map inj_on_def)

lemma evidence_get_cong:
  "db_evidence (cat_db t) = db_evidence (cat_db s) \<Longrightarrow> cat_evidence_mappings t = cat_evidence_mappings s \<Longrightarrow>
     evidence_get w i t = evidence_get w i s"
  by (simp only: evidence_get_def)

section \<open>Evidence\<close>

definition evidence_savable :: "workspace_id \<Rightarrow> catalogue \<Rightarrow> evidence \<Rightarrow> bool" where
  "evidence_savable w s e \<longleftrightarrow>
     wf_evidence e \<and> ev_workspace_id e = w
     \<and> (\<forall>m \<in> set (ev_mappings e). control_in s (workspace_uuid w) (control_uuid (ecm_control_id m)))
     \<and> (\<forall>r \<in> set (db_evidence (cat_db s)). evrec_id r = evidence_uuid (ev_id e) \<longrightarrow> evrec_workspace_id r = workspace_uuid w)"

lemma evidence_get_other:
  assumes "table_wf evrec_id (db_evidence (cat_db s))" and "i \<noteq> ev_id e"
  shows "evidence_get w i (stored_evidence e s) = evidence_get w i s"
proof -
  have ne: "evidence_uuid (ev_id e) \<noteq> evidence_uuid i" using assms(2) by (simp add: uuid_inj)
  have "find (\<lambda>r. evrec_id r = evidence_uuid i \<and> evrec_workspace_id r = workspace_uuid w)
      (upsert_row evrec_id (evidence_from_domain e) (db_evidence (cat_db s)))
    = find (\<lambda>r. evrec_id r = evidence_uuid i \<and> evrec_workspace_id r = workspace_uuid w) (db_evidence (cat_db s))"
    using ne assms(1) by (subst find_upsert [where k = "evidence_uuid i"]) (auto simp: table_wf_def)
  moreover have "filter (\<lambda>m. ecmrec_evidence_id m = evidence_uuid i) (cat_evidence_mappings (stored_evidence e s))
      = filter (\<lambda>m. ecmrec_evidence_id m = evidence_uuid i) (cat_evidence_mappings s)"
    using ne by (auto simp: stored_evidence_def delete_rows_def evidence_mapping_from_domain_def filter_map comp_def
        intro: filter_cong)
  moreover have "db_evidence (cat_db (stored_evidence e s)) = upsert_row evrec_id (evidence_from_domain e) (db_evidence (cat_db s))"
    by (simp add: stored_evidence_def)
  ultimately show ?thesis unfolding evidence_get_def by (simp only:)
qed

lemma evidence_get_foreign:
  assumes "table_wf evrec_id (db_evidence (cat_db s))" and "ev_workspace_id e \<noteq> w"
    and "\<forall>r \<in> set (db_evidence (cat_db s)). evrec_id r = evidence_uuid (ev_id e) \<longrightarrow>
       evrec_workspace_id r = workspace_uuid (ev_workspace_id e)"
  shows "evidence_get w i (stored_evidence e s) = evidence_get w i s"
proof (cases "i = ev_id e")
  case True
  have "find (\<lambda>r. evrec_id r = evidence_uuid i \<and> evrec_workspace_id r = workspace_uuid w)
      (upsert_row evrec_id (evidence_from_domain e) (db_evidence (cat_db s))) = None"
    using assms(1,2) True by (subst find_upsert [where k = "evidence_uuid i"]) (auto simp: table_wf_def uuid_inj)
  moreover have "find (\<lambda>r. evrec_id r = evidence_uuid i \<and> evrec_workspace_id r = workspace_uuid w) (db_evidence (cat_db s)) = None"
    using assms(2,3) True by (auto simp: find_None_iff uuid_inj)
  ultimately show ?thesis by (simp add: evidence_get_def stored_evidence_def)
qed (simp add: evidence_get_other [OF assms(1)])

lemma evidence_save_only:
  assumes "evidence_save e s = Inr t" and "evidence_savable w s e" and "wf_catalogue lower s"
  shows "only_workspace w s t" "wf_catalogue lower t" "cat_controls t = cat_controls s"
proof -
  have t: "t = stored_evidence e s" using assms(1) by (simp add: evidence_save_iff)
  have sav: "wf_evidence e" "ev_workspace_id e = w"
    "\<And>m. m \<in> set (ev_mappings e) \<Longrightarrow> control_in s (workspace_uuid w) (control_uuid (ecm_control_id m))"
    "\<forall>r \<in> set (db_evidence (cat_db s)). evrec_id r = evidence_uuid (ev_id e) \<longrightarrow> evrec_workspace_id r = workspace_uuid w"
    using assms(2) by (auto simp: evidence_savable_def)
  note keys = wf_catalogueD(7) [OF assms(3)]
  have "evidence_get x i t = evidence_get x i s" if "x \<noteq> w" for x i
    unfolding t by (rule evidence_get_foreign [OF keys]) (use that sav in auto)
  moreover have "control_get x i t = control_get x i s" "policy_get y k t = policy_get y k s" for x i y k
    by (simp_all add: t control_get_def policy_get_def stored_evidence_def)
  moreover have "foreign_rows w t = foreign_rows w s"
    using sav(2,4) by (auto simp: foreign_rows_def t stored_evidence_def set_upsert_row [OF keys])
  ultimately show "only_workspace w s t" by (simp add: only_workspace_def workspace_view_def)
  show "wf_catalogue lower t" using evidence_save_wf [OF assms(1) sav(1) assms(3)] sav(2,3) by blast
  show "cat_controls t = cat_controls s" by (simp add: t stored_evidence_def)
qed

lemma evidence_loaded:
  assumes "evidence_get w i s = Inr (Some e)" and "wf_catalogue lower s"
  shows "evidence_savable w s e" "ev_id e = i"
proof -
  note wf = wf_catalogueD [OF assms(2)]
  from assms(1) evidence_get_eq [OF wf(1,4), of w i] obtain r where
    r: "find (\<lambda>r. evrec_id r = evidence_uuid i \<and> evrec_workspace_id r = workspace_uuid w) (db_evidence (cat_db s)) = Some r"
    and e: "e = row_evidence s r" by auto
  then have row: "r \<in> set (db_evidence (cat_db s))" "evrec_id r = evidence_uuid i" "evrec_workspace_id r = workspace_uuid w"
    by (auto simp: find_Some_iff)
  have unique: "x = r" if "x \<in> set (db_evidence (cat_db s))" "evrec_id x = evidence_uuid i" for x
    using table_wf_unique [OF wf(7) that(1) row(1)] that(2) row(2) by simp
  have "control_in s (workspace_uuid w) (control_uuid (ecm_control_id m))" if "m \<in> set (ev_mappings e)" for m
  proof -
    from that obtain q where "q \<in> set (cat_evidence_mappings s)" "ecmrec_evidence_id q = evrec_id r" "m = row_mapping q"
      by (auto simp: e row_evidence_def)
    with wf(4) unique row(2,3) show ?thesis by (fastforce simp: wf_evidence_mappings_def row_mapping_def)
  qed
  moreover have "wf_evidence e"
    using row_evidence_wf [OF _ wf(4)] wf(1) row(1) by (simp add: e wf_rows_def)
  moreover show "ev_id e = i" by (simp add: e row_evidence_def row(2))
  moreover have "ev_workspace_id e = w" by (simp add: e row_evidence_def row(3))
  ultimately show "evidence_savable w s e" using unique row(3) by (simp add: evidence_savable_def) blast
qed

lemma evidence_mappings_savable:
  assumes "evidence_savable w s e" and "evidence_replace_mappings ms e = Inr e'"
    and "\<And>m. m \<in> set ms \<Longrightarrow> \<not> is_blank (ecm_rationale m) \<and> control_in s (workspace_uuid w) (control_uuid (ecm_control_id m))"
  shows "evidence_savable w s e'"
proof -
  from assms(2) have "e' = e\<lparr>ev_mappings := sort_key ecm_key ms\<rparr>" "distinct (map ecm_key ms)"
    by (auto simp: evidence_replace_mappings_def and_then_Ok_iff normalize_mappings_Ok_iff)
  with assms(1,3) show ?thesis
    by (simp add: evidence_savable_def wf_evidence_def distinct_map_sort_key)
qed

lemma evidence_savable_mappings:
  "evidence_savable w s e \<Longrightarrow> m \<in> set (ev_mappings e) \<Longrightarrow>
     \<not> is_blank (ecm_rationale m) \<and> control_in s (workspace_uuid w) (control_uuid (ecm_control_id m))"
  by (simp add: evidence_savable_def wf_evidence_def)

lemma evidence_savable_after:
  assumes "evidence_savable w s e" and "only_workspace w s t" and "cat_controls t = cat_controls s"
  shows "evidence_savable w t e"
proof -
  have "{r \<in> set (db_evidence (cat_db t)). evrec_workspace_id r \<noteq> workspace_uuid w}
      = {r \<in> set (db_evidence (cat_db s)). evrec_workspace_id r \<noteq> workspace_uuid w}"
    using assms(2) by (simp add: only_workspace_def foreign_rows_def)
  then have "r \<in> set (db_evidence (cat_db s))"
    if "r \<in> set (db_evidence (cat_db t))" "evrec_workspace_id r \<noteq> workspace_uuid w" for r
    using that by blast
  with assms(1) show ?thesis unfolding evidence_savable_def control_in_def assms(3) by blast
qed

lemma row_mapping_of_domain [simp]: "row_mapping (evidence_mapping_from_domain i m) = m"
  by (cases m) (simp add: row_mapping_def evidence_mapping_from_domain_def)

text \<open>A saved evidence loads as it was saved.\<close>

lemma evidence_get_saved:
  assumes "evidence_save e s = Inr t" and "evidence_savable w s e" and "wf_catalogue lower s"
  shows "evidence_get w (ev_id e) t = Inr (Some e)"
proof -
  have t: "t = stored_evidence e s" using assms(1) by (simp add: evidence_save_iff)
  have wf: "wf_evidence e" "ev_workspace_id e = w" using assms(2) by (simp_all add: evidence_savable_def)
  let ?i = "evidence_uuid (ev_id e)"
  have found: "find (\<lambda>r. evrec_id r = ?i \<and> evrec_workspace_id r = workspace_uuid w) (db_evidence (cat_db t))
      = Some (evidence_from_domain e)"
    using wf_catalogueD(7) [OF assms(3)] wf(2)
    by (simp add: t stored_evidence_def) (subst find_upsert [where k = ?i], auto simp: table_wf_def)
  have mine: "filter (\<lambda>m. ecmrec_evidence_id m = ?i) (cat_evidence_mappings t)
      = map (evidence_mapping_from_domain ?i) (ev_mappings e)"
    by (simp add: t stored_evidence_def delete_rows_def filter_map comp_def evidence_mapping_from_domain_def
        filter_empty_conv)
  have "sort_key ecmrec_control_id (map (evidence_mapping_from_domain ?i) (ev_mappings e))
      = map (evidence_mapping_from_domain ?i) (ev_mappings e)"
    using wf(1) by (intro sort_key_id_if_sorted)
      (simp add: wf_evidence_def comp_def evidence_mapping_from_domain_def ecm_key_def [symmetric])
  moreover have "collect_results (map evidence_mapping_from_row (map (evidence_mapping_from_domain ?i) (ev_mappings e)))
      = Inr (ev_mappings e)"
    using wf(1) by (subst row_evidence_mappings)
      (simp_all add: wf_evidence_def comp_def, simp_all add: evidence_mapping_from_domain_def)
  ultimately show ?thesis
    by (simp add: evidence_get_def found mine evidence_reload [OF wf(1)])
qed

section \<open>Controls\<close>

definition control_savable :: "workspace_id \<Rightarrow> catalogue \<Rightarrow> control \<Rightarrow> bool" where
  "control_savable w s c \<longleftrightarrow>
     wf_control c \<and> ctl_workspace_id c = w
     \<and> (\<forall>r \<in> set (cat_controls s). ctlrec_id r = control_uuid (ctl_id c) \<longrightarrow> ctlrec_workspace_id r = workspace_uuid w)"

lemma control_get_foreign:
  assumes "table_wf ctlrec_id (cat_controls s)" and "ctl_workspace_id c \<noteq> w"
    and "\<forall>r \<in> set (cat_controls s). ctlrec_id r = control_uuid (ctl_id c) \<longrightarrow>
       ctlrec_workspace_id r = workspace_uuid (ctl_workspace_id c)"
  shows "control_get w i (stored_control c s) = control_get w i s"
proof -
  let ?P = "\<lambda>r. ctlrec_id r = control_uuid i \<and> ctlrec_workspace_id r = workspace_uuid w"
  have "find ?P (upsert_row ctlrec_id (control_from_domain c) (cat_controls s)) =
      (if control_uuid (ctl_id c) = control_uuid i then None else find ?P (cat_controls s))"
    using assms(1,2) by (subst find_upsert [where k = "control_uuid i"]) (auto simp: table_wf_def uuid_inj)
  moreover have "find ?P (cat_controls s) = None" if "ctl_id c = i"
    using assms(2,3) that by (auto simp: find_None_iff uuid_inj)
  ultimately have "find ?P (cat_controls (stored_control c s)) = find ?P (cat_controls s)"
    by (simp add: stored_control_def uuid_inj)
  moreover have "requirements_of (control_uuid i) (cat_control_requirements (stored_control c s))
      = requirements_of (control_uuid i) (cat_control_requirements s)" if "ctl_id c \<noteq> i"
    using that by (auto simp: requirements_of_def stored_control_def delete_rows_def filter_map comp_def uuid_inj
        intro!: arg_cong [where f = "map snd"] filter_cong)
  ultimately show ?thesis
    using \<open>ctl_id c = i \<Longrightarrow> find ?P (cat_controls s) = None\<close>
    by (cases "ctl_id c = i") (simp_all add: control_get_def)
qed

lemma control_save_only:
  assumes "control_save c s = Inr t" and "control_savable w s c" and "wf_catalogue lower s"
  shows "only_workspace w s t" "wf_catalogue lower t"
proof -
  have t: "t = stored_control c s" using assms(1) by (simp add: control_save_iff)
  have sav: "wf_control c" "ctl_workspace_id c = w"
    "\<forall>r \<in> set (cat_controls s). ctlrec_id r = control_uuid (ctl_id c) \<longrightarrow> ctlrec_workspace_id r = workspace_uuid w"
    using assms(2) by (auto simp: control_savable_def)
  note keys = wf_catalogueD(8) [OF assms(3)]
  have "control_get x i t = control_get x i s" if "x \<noteq> w" for x i
    unfolding t by (rule control_get_foreign [OF keys]) (use that sav in auto)
  moreover have "evidence_get x i t = evidence_get x i s" "policy_get y k t = policy_get y k s" for x i y k
    by (rule evidence_get_cong) (simp_all add: t policy_get_def stored_control_def)
  moreover have "foreign_rows w t = foreign_rows w s"
    using sav(2,3) by (auto simp: foreign_rows_def t stored_control_def set_upsert_row [OF keys])
  ultimately show "only_workspace w s t" by (simp add: only_workspace_def workspace_view_def)
  show "wf_catalogue lower t" using control_save_wf [OF assms(1) sav(1) assms(3)] sav(2,3) by blast
qed

lemma control_loaded:
  assumes "control_get w i s = Inr (Some c)" and "wf_catalogue lower s"
  shows "control_savable w s c" "ctl_id c = i"
proof -
  note wf = wf_catalogueD [OF assms(2)]
  from assms(1) control_get_eq [OF wf(1,6), of w i] obtain r where
    r: "find (\<lambda>r. ctlrec_id r = control_uuid i \<and> ctlrec_workspace_id r = workspace_uuid w) (cat_controls s) = Some r"
    and c: "c = row_control s r" by auto
  then have row: "r \<in> set (cat_controls s)" "ctlrec_id r = control_uuid i" "ctlrec_workspace_id r = workspace_uuid w"
    by (auto simp: find_Some_iff)
  have unique: "x = r" if "x \<in> set (cat_controls s)" "ctlrec_id x = control_uuid i" for x
    using table_wf_unique [OF wf(8) that(1) row(1)] that(2) row(2) by simp
  have "wf_control c" using row_control_wf [OF _ wf(6)] wf(1) row(1) by (simp add: c wf_rows_def)
  moreover show "ctl_id c = i" by (simp add: c row_control_def row(2))
  moreover have "ctl_workspace_id c = w" by (simp add: c row_control_def row(3))
  ultimately show "control_savable w s c" using unique row(3) by (simp add: control_savable_def) blast
qed

section \<open>Policies\<close>

definition policy_savable :: "workspace_id \<Rightarrow> catalogue \<Rightarrow> policy \<Rightarrow> bool" where
  "policy_savable w s p \<longleftrightarrow>
     wf_policy p \<and> pol_workspace_id p = w
     \<and> (\<forall>m \<in> set (pol_mappings p). control_in s (workspace_uuid w) (control_uuid (pcm_control_id m)))
     \<and> (\<forall>r \<in> set (db_policies (cat_db s)). polrec_id r = policy_uuid (pol_id p) \<longrightarrow> polrec_workspace_id r = workspace_uuid w)"

lemma policy_get_foreign:
  assumes "table_wf polrec_id (db_policies (cat_db s))" and "pol_workspace_id p \<noteq> w"
    and "\<forall>r \<in> set (db_policies (cat_db s)). polrec_id r = policy_uuid (pol_id p) \<longrightarrow>
       polrec_workspace_id r = workspace_uuid (pol_workspace_id p)"
  shows "policy_get w i (stored_policy p s) = policy_get w i s"
proof -
  let ?P = "\<lambda>r. polrec_id r = policy_uuid i \<and> polrec_workspace_id r = workspace_uuid w"
  have "find ?P (upsert_row polrec_id (policy_from_domain p) (db_policies (cat_db s))) =
      (if policy_uuid (pol_id p) = policy_uuid i then None else find ?P (db_policies (cat_db s)))"
    using assms(1,2) by (subst find_upsert [where k = "policy_uuid i"]) (auto simp: table_wf_def uuid_inj)
  moreover have none: "find ?P (db_policies (cat_db s)) = None" if "pol_id p = i"
    using assms(2,3) that by (auto simp: find_None_iff uuid_inj)
  ultimately have "find ?P (db_policies (cat_db (stored_policy p s))) = find ?P (db_policies (cat_db s))"
    by (simp add: stored_policy_def uuid_inj)
  moreover have "filter (\<lambda>m. pcmrec_policy_id m = policy_uuid i) (cat_policy_mappings (stored_policy p s))
      = filter (\<lambda>m. pcmrec_policy_id m = policy_uuid i) (cat_policy_mappings s)" if "pol_id p \<noteq> i"
    using that by (auto simp: stored_policy_def delete_rows_def policy_mapping_from_domain_def filter_map comp_def
        uuid_inj intro!: filter_cong)
  ultimately show ?thesis using none by (cases "pol_id p = i") (simp_all add: policy_get_def)
qed

lemma policy_save_only:
  assumes "policy_save lower p s = Inr t" and "policy_savable w s p" and "wf_catalogue lower s"
  shows "only_workspace w s t" "wf_catalogue lower t" "cat_controls t = cat_controls s"
proof -
  have t: "t = stored_policy p s" using policy_save_Ok(1) [OF assms(1)] .
  have sav: "wf_policy p" "pol_workspace_id p = w"
    "\<And>m. m \<in> set (pol_mappings p) \<Longrightarrow> control_in s (workspace_uuid w) (control_uuid (pcm_control_id m))"
    "\<forall>r \<in> set (db_policies (cat_db s)). polrec_id r = policy_uuid (pol_id p) \<longrightarrow> polrec_workspace_id r = workspace_uuid w"
    using assms(2) by (auto simp: policy_savable_def)
  note keys = wf_catalogueD(9) [OF assms(3)]
  have "policy_get x i t = policy_get x i s" if "x \<noteq> w" for x i
    unfolding t by (rule policy_get_foreign [OF keys]) (use that sav in auto)
  moreover have "evidence_get x i t = evidence_get x i s" "control_get y k t = control_get y k s" for x i y k
    by (rule evidence_get_cong) (simp_all add: t control_get_def stored_policy_def)
  moreover have "foreign_rows w t = foreign_rows w s"
    using sav(2,4) by (auto simp: foreign_rows_def t stored_policy_def set_upsert_row [OF keys])
  ultimately show "only_workspace w s t" by (simp add: only_workspace_def workspace_view_def)
  show "wf_catalogue lower t" using policy_save_wf [OF assms(1) sav(1) assms(3)] sav(2,3) by blast
  show "cat_controls t = cat_controls s" by (simp add: t stored_policy_def)
qed

lemma policy_loaded:
  assumes "policy_get w i s = Inr (Some p)" and "wf_catalogue lower s"
  shows "policy_savable w s p" "pol_id p = i"
proof -
  note wf = wf_catalogueD [OF assms(2)]
  from assms(1) policy_get_eq [OF wf(1,5), of w i] obtain r where
    r: "find (\<lambda>r. polrec_id r = policy_uuid i \<and> polrec_workspace_id r = workspace_uuid w) (db_policies (cat_db s)) = Some r"
    and p: "p = row_policy s r" by auto
  then have row: "r \<in> set (db_policies (cat_db s))" "polrec_id r = policy_uuid i" "polrec_workspace_id r = workspace_uuid w"
    by (auto simp: find_Some_iff)
  have unique: "x = r" if "x \<in> set (db_policies (cat_db s))" "polrec_id x = policy_uuid i" for x
    using table_wf_unique [OF wf(9) that(1) row(1)] that(2) row(2) by simp
  have "control_in s (workspace_uuid w) (control_uuid (pcm_control_id m))" if "m \<in> set (pol_mappings p)" for m
  proof -
    from that obtain q where q: "q \<in> set (cat_policy_mappings s)" "pcmrec_policy_id q = polrec_id r"
      "m = policy_mapping_from_row q"
      by (auto simp: p row_policy_def)
    with wf(5) obtain x where x: "x \<in> set (db_policies (cat_db s))" "polrec_id x = pcmrec_policy_id q"
      "control_in s (polrec_workspace_id x) (pcmrec_control_id q)"
      unfolding wf_policy_mappings_def by blast
    have "x = r" using unique [OF x(1)] x(2) q(2) row(2) by simp
    with x(3) row(3) q(3) show ?thesis by (simp add: policy_mapping_from_row_def)
  qed
  moreover have "wf_policy p" using row_policy_wf [OF _ wf(5)] wf(1) row(1) by (simp add: p wf_rows_def)
  moreover show "pol_id p = i" by (simp add: p row_policy_def row(2))
  moreover have "pol_workspace_id p = w" by (simp add: p row_policy_def row(3))
  ultimately show "policy_savable w s p" using unique row(3) by (simp add: policy_savable_def) blast
qed

lemma policy_mappings_savable:
  assumes "policy_savable w s p" and "policy_replace_mappings ms p = Inr p'"
    and "\<And>m. m \<in> set ms \<Longrightarrow> control_in s (workspace_uuid w) (control_uuid (pcm_control_id m))"
  shows "policy_savable w s p'"
proof -
  from assms(2) have "p' = p\<lparr>pol_mappings := sort_key pcm_key ms\<rparr>" "distinct (map pcm_key ms)"
    by (auto simp: policy_replace_mappings_def and_then_Ok_iff Let_def adjacent_duplicate_sorted split: if_splits)
  with assms(1,3) show ?thesis by (simp add: policy_savable_def wf_policy_def distinct_map_sort_key)
qed

lemma policy_savable_mappings:
  "policy_savable w s p \<Longrightarrow> m \<in> set (pol_mappings p) \<Longrightarrow> control_in s (workspace_uuid w) (control_uuid (pcm_control_id m))"
  by (simp add: policy_savable_def)

lemma policy_savable_after:
  assumes "policy_savable w s p" and "only_workspace w s t" and "cat_controls t = cat_controls s"
  shows "policy_savable w t p"
proof -
  have "{r \<in> set (db_policies (cat_db t)). polrec_workspace_id r \<noteq> workspace_uuid w}
      = {r \<in> set (db_policies (cat_db s)). polrec_workspace_id r \<noteq> workspace_uuid w}"
    using assms(2) by (simp add: only_workspace_def foreign_rows_def)
  then have "r \<in> set (db_policies (cat_db s))"
    if "r \<in> set (db_policies (cat_db t))" "polrec_workspace_id r \<noteq> workspace_uuid w" for r
    using that by blast
  with assms(1) show ?thesis unfolding policy_savable_def control_in_def assms(3) by blast
qed

end
