(* ===== verification/Catalogue_Safety.thy ===== *)
theory Catalogue_Safety
  imports Catalogue_Scope
begin

text \<open>
  The catalogue commands in any order: the tables stay consistent, and a command acts only in the workspace of
  the connection it came with.
\<close>

section \<open>Steps\<close>

datatype catalogue_command =
    CreateControlCmd create_control
  | ReplaceControlCmd replace_control
  | CreateEvidenceCmd create_evidence
  | ReplaceEvidenceCmd replace_evidence
  | MapControlCmd map_control_to_evidence
  | UnmapControlCmd unmap_control_from_evidence
  | MapEvidenceCmd map_evidence_to_controls
  | UnmapEvidenceCmd unmap_evidence_from_controls
  | CreatePolicyCmd create_policy
  | ReplacePolicyCmd replace_policy
  | ArchivePolicyCmd archive_policy
  | AttachPolicyCmd change_policy_controls
  | DetachPolicyCmd change_policy_controls
  | AttachControlCmd change_control_policies
  | DetachControlCmd change_control_policies

fun run_catalogue_command :: "catalogue_env \<Rightarrow> catalogue_command \<Rightarrow> catalogue \<Rightarrow> catalogue" where
  "run_catalogue_command env (CreateControlCmd cmd) s = snd (handle_create_control env cmd s)"
| "run_catalogue_command env (ReplaceControlCmd cmd) s = snd (handle_replace_control env cmd s)"
| "run_catalogue_command env (CreateEvidenceCmd cmd) s = snd (handle_create_evidence env cmd s)"
| "run_catalogue_command env (ReplaceEvidenceCmd cmd) s = snd (handle_replace_evidence env cmd s)"
| "run_catalogue_command env (MapControlCmd cmd) s = snd (handle_map_control_to_evidence env cmd s)"
| "run_catalogue_command env (UnmapControlCmd cmd) s = snd (handle_unmap_control_from_evidence cmd s)"
| "run_catalogue_command env (MapEvidenceCmd cmd) s = snd (handle_map_evidence_to_controls env cmd s)"
| "run_catalogue_command env (UnmapEvidenceCmd cmd) s = snd (handle_unmap_evidence_from_controls cmd s)"
| "run_catalogue_command env (CreatePolicyCmd cmd) s = snd (handle_create_policy env cmd s)"
| "run_catalogue_command env (ReplacePolicyCmd cmd) s = snd (handle_replace_policy env cmd s)"
| "run_catalogue_command env (ArchivePolicyCmd cmd) s = snd (handle_archive_policy env cmd s)"
| "run_catalogue_command env (AttachPolicyCmd cmd) s = snd (handle_attach_policy_to_controls env cmd s)"
| "run_catalogue_command env (DetachPolicyCmd cmd) s = snd (handle_detach_policy_from_controls env cmd s)"
| "run_catalogue_command env (AttachControlCmd cmd) s = snd (handle_attach_control_to_policies env cmd s)"
| "run_catalogue_command env (DetachControlCmd cmd) s = snd (handle_detach_control_from_policies env cmd s)"

fun command_connection :: "catalogue_command \<Rightarrow> agent_connection_context" where
  "command_connection (CreateControlCmd cmd) = cc_connection cmd"
| "command_connection (ReplaceControlCmd cmd) = rc_connection cmd"
| "command_connection (CreateEvidenceCmd cmd) = crev_connection cmd"
| "command_connection (ReplaceEvidenceCmd cmd) = re_connection cmd"
| "command_connection (MapControlCmd cmd) = mce_connection cmd"
| "command_connection (UnmapControlCmd cmd) = uce_connection cmd"
| "command_connection (MapEvidenceCmd cmd) = mec_connection cmd"
| "command_connection (UnmapEvidenceCmd cmd) = uec_connection cmd"
| "command_connection (CreatePolicyCmd cmd) = cp_connection cmd"
| "command_connection (ReplacePolicyCmd cmd) = rp_connection cmd"
| "command_connection (ArchivePolicyCmd cmd) = ap_connection cmd"
| "command_connection (AttachPolicyCmd cmd) = cpc_connection cmd"
| "command_connection (DetachPolicyCmd cmd) = cpc_connection cmd"
| "command_connection (AttachControlCmd cmd) = ccp_connection cmd"
| "command_connection (DetachControlCmd cmd) = ccp_connection cmd"

abbreviation command_workspace :: "catalogue_command \<Rightarrow> workspace_id" where
  "command_workspace c \<equiv> ctx_workspace_id (command_connection c)"

text \<open>The permission a command needs.\<close>

fun command_permission :: "catalogue_command \<Rightarrow> workspace_permission" where
  "command_permission (CreateEvidenceCmd _) = WriteEvidence"
| "command_permission (ReplaceEvidenceCmd _) = WriteEvidence"
| "command_permission _ = WriteControls"

text \<open>A new id is one no row has.\<close>

definition fresh_id :: "uuid \<Rightarrow> catalogue \<Rightarrow> bool" where
  "fresh_id i s \<longleftrightarrow>
     \<not> row_exists evrec_id i (db_evidence (cat_db s)) \<and> \<not> row_exists ctlrec_id i (cat_controls s)
     \<and> \<not> row_exists polrec_id i (db_policies (cat_db s))"

section \<open>What a handler keeps\<close>

declare tx_eval [simp del]

lemma tx_ensures_return_fun [tx_post]: "tx_ensures (tx_return x) Q = Q x"
  by (rule ext) (simp add: tx_post)

definition kept :: "(string \<Rightarrow> string) \<Rightarrow> workspace_id \<Rightarrow> catalogue \<Rightarrow> catalogue \<Rightarrow> bool" where
  "kept lower w s t \<longleftrightarrow> wf_catalogue lower t \<and> only_workspace w s t"

lemma kept_refl: "wf_catalogue lower s \<Longrightarrow> kept lower w s s"
  by (simp add: kept_def)

lemma existing_ids_in:
  "existing_ids w ids s = Inr found \<Longrightarrow> c \<in> found \<Longrightarrow> control_in s (workspace_uuid w) (control_uuid c)"
  by (auto simp: existing_ids_def control_in_def)

lemma ids_exist_in:
  assumes "ids_exist w [c] s = Inr True"
  shows "control_in s (workspace_uuid w) (control_uuid c)"
proof -
  obtain found where found: "existing_ids w [c] s = Inr found" "card found = 1"
    using assms by (auto simp: ids_exist_def and_then_Ok_iff)
  then have "found \<subseteq> {c}" by (auto simp: existing_ids_def)
  with found(2) have "c \<in> found" by (cases "found = {}") auto
  with existing_ids_in [OF found(1)] show ?thesis .
qed

lemma evidence_save_kept:
  "evidence_save e s = Inr t \<Longrightarrow> evidence_savable w s e \<Longrightarrow> wf_catalogue lower s \<Longrightarrow> kept lower w s t"
  using evidence_save_only by (simp add: kept_def)

lemma control_save_kept:
  "control_save c s = Inr t \<Longrightarrow> control_savable w s c \<Longrightarrow> wf_catalogue lower s \<Longrightarrow> kept lower w s t"
  using control_save_only by (simp add: kept_def)

lemma policy_save_kept:
  "policy_save lower p s = Inr t \<Longrightarrow> policy_savable w s p \<Longrightarrow> wf_catalogue lower s \<Longrightarrow> kept lower w s t"
  using policy_save_only by (simp add: kept_def)

section \<open>Evidence and controls\<close>

lemma create_control_kept:
  assumes "wf_catalogue lower s" and "control_savable w s c"
  shows "tx_ensures (create_control_tx env w c) (\<lambda>_. kept lower w s) s"
  using kept_refl [OF assms(1)] control_save_kept [OF _ assms(2,1)]
  by (simp add: create_control_tx_def tx_post)

lemma defined_control_savable:
  assumes "control_definition_new code title description = Valid def"
    and "control_define i w def ids at = Inr c" and "\<not> row_exists ctlrec_id (control_uuid i) (cat_controls s)"
  shows "control_savable w s c"
  using assms
  by (auto simp: control_define_def and_then_Ok_iff normalize_requirement_ids_Ok_iff control_savable_def
      wf_control_def control_definition_new_Valid_iff row_exists_def list_ex_iff)

lemma replace_control_kept:
  assumes "wf_catalogue lower s" and "control_definition_new code title description = Valid def"
  shows "tx_ensures (replace_control_tx env cmd def) (\<lambda>_. kept lower (ctx_workspace_id (rc_connection cmd)) s) s"
proof -
  have "control_savable w s c'" if "control_get w i s = Inr (Some c)" "control_replace def ids at c = Inr c'" for w i c c' ids at
    using control_loaded(1) [OF that(1) assms(1)] that(2) assms(2)
    by (auto simp: control_replace_def and_then_Ok_iff normalize_requirement_ids_Ok_iff control_savable_def
        wf_control_def control_definition_new_Valid_iff split: if_splits)
  then have "kept lower w s t"
    if "control_get w i s = Inr (Some c)" "control_replace def ids at c = Inr c'" "control_save c' s = Inr t" for w i c c' ids at t
    using control_save_kept [OF that(3) _ assms(1)] that(1,2) by blast
  then show ?thesis
    using kept_refl [OF assms(1)]
    by (simp add: replace_control_tx_def tx_post Let_def split: control_error.split sum.split) blast
qed

lemma create_evidence_kept:
  assumes "wf_catalogue lower s" and "evidence_savable w s e"
  shows "tx_ensures (create_evidence_tx w e) (\<lambda>_. kept lower w s) s"
  using evidence_save_kept [OF _ assms(2,1)] by (simp add: create_evidence_tx_def tx_post)

lemma defined_evidence_savable:
  assumes "evidence_definition_new title description instructions = Valid def"
    and "\<not> row_exists evrec_id (evidence_uuid i) (db_evidence (cat_db s))"
  shows "evidence_savable w s (evidence_define i w def status at)"
  using assms
  by (auto simp: evidence_define_def evidence_savable_def wf_evidence_def evidence_definition_new_Valid_iff
      row_exists_def list_ex_iff)

lemma replace_evidence_kept:
  assumes "wf_catalogue lower s" and "evidence_definition_new title description instructions = Valid def"
  shows "tx_ensures (replace_evidence_tx env cmd def) (\<lambda>_. kept lower (ctx_workspace_id (re_connection cmd)) s) s"
proof -
  have "evidence_savable w s e'" if "evidence_get w i s = Inr (Some e)" "evidence_replace def st at e = Inr e'" for w i e e' st at
    using evidence_loaded(1) [OF that(1) assms(1)] that(2) assms(2)
    by (auto simp: evidence_replace_def evidence_savable_def wf_evidence_def evidence_definition_new_Valid_iff split: if_splits)
  then have "kept lower w s t"
    if "evidence_get w i s = Inr (Some e)" "evidence_replace def st at e = Inr e'" "evidence_save e' s = Inr t" for w i e e' st at t
    using evidence_save_kept [OF that(3) _ assms(1)] that(1,2) by blast
  then show ?thesis
    using kept_refl [OF assms(1)] by (simp add: replace_evidence_tx_def tx_post Let_def map_err_Ok_iff) blast
qed

section \<open>Mappings of evidence\<close>

lemma load_each_ensures:
  assumes "\<And>xs. \<forall>x \<in> set xs. \<exists>i. get i s = Inr (Some x) \<Longrightarrow> Q xs s"
  shows "tx_ensures (load_each (\<lambda>i. tx_read (get i)) ids) Q s"
  using assms
proof (induction ids arbitrary: Q)
  case (Cons i ids)
  have "tx_ensures (load_each (\<lambda>i. tx_read (get i)) ids) (\<lambda>xs t. Q (case x of None \<Rightarrow> xs | Some a \<Rightarrow> a # xs) t) s"
    if "get i s = Inr x" for x
  proof (rule Cons.IH)
    fix xs assume "\<forall>x \<in> set xs. \<exists>i. get i s = Inr (Some x)"
    with that show "Q (case x of None \<Rightarrow> xs | Some a \<Rightarrow> a # xs) s" by (cases x) (auto intro!: Cons.prems)
  qed
  then show ?case by (simp add: tx_post)
qed (simp add: tx_post)

lemma add_control_kept:
  assumes "wf_catalogue lower t" and "\<forall>item \<in> set items. evidence_savable w t item"
    and "control_in t (workspace_uuid w) (control_uuid c)" and "only_workspace w s t"
  shows "tx_ensures (add_control env c rs n items) (\<lambda>_. kept lower w s) t"
  using assms
proof (induction items arbitrary: t n)
  case (Cons item items)
  have "tx_ensures (add_control env c rs (Suc n) items) (\<lambda>_. kept lower w s) u"
    if m: "evidence_control_mapping_new c r at = Valid m"
      and e: "evidence_replace_mappings (ev_mappings item @ [m]) item = Inr e" and u: "evidence_save e t = Inr u" for r at m e u
  proof -
    have item: "evidence_savable w t item" using Cons.prems(2) by simp
    have new: "\<not> is_blank (ecm_rationale m)" "ecm_control_id m = c"
      using evidence_control_mapping_new_Valid [OF m] m
      by (auto simp: evidence_control_mapping_new_def split: validation.splits elim!: validation_map.elims)
    have "evidence_savable w t e"
      by (rule evidence_mappings_savable [OF item e])
        (use evidence_savable_mappings [OF item] new Cons.prems(3) in auto)
    note save = evidence_save_only [OF u this Cons.prems(1)]
    show ?thesis
    proof (rule Cons.IH [OF save(2)])
      show "\<forall>item \<in> set items. evidence_savable w u item"
        using Cons.prems(2) evidence_savable_after [OF _ save(1,3)] by simp
      show "control_in u (workspace_uuid w) (control_uuid c)" using Cons.prems(3) by (simp add: control_in_def save(3))
      show "only_workspace w s u" using only_workspace_trans [OF Cons.prems(4) save(1)] .
    qed
  qed
  then show ?case by (simp add: tx_post map_err_Ok_iff)
qed (simp add: tx_post kept_def)

lemma remove_control_kept:
  assumes "wf_catalogue lower t" and "\<forall>item \<in> set items. evidence_savable w t item" and "only_workspace w s t"
  shows "tx_ensures (remove_control c items) (\<lambda>_. kept lower w s) t"
  using assms
proof (induction items arbitrary: t)
  case (Cons item items)
  have "tx_ensures (remove_control c items) (\<lambda>_. kept lower w s) u"
    if e: "evidence_replace_mappings (filter (\<lambda>m. ecm_control_id m \<noteq> c) (ev_mappings item)) item = Inr e"
      and u: "evidence_save e t = Inr u" for e u
  proof -
    have item: "evidence_savable w t item" using Cons.prems(2) by simp
    have "evidence_savable w t e"
      by (rule evidence_mappings_savable [OF item e]) (use evidence_savable_mappings [OF item] in auto)
    note save = evidence_save_only [OF u this Cons.prems(1)]
    show ?thesis
    proof (rule Cons.IH [OF save(2)])
      show "\<forall>item \<in> set items. evidence_savable w u item"
        using Cons.prems(2) evidence_savable_after [OF _ save(1,3)] by simp
      show "only_workspace w s u" using only_workspace_trans [OF Cons.prems(3) save(1)] .
    qed
  qed
  then show ?case by (simp add: tx_post map_err_Ok_iff)
qed (simp add: tx_post kept_def)

lemma map_control_kept:
  assumes "wf_catalogue lower s"
  shows "tx_ensures (map_control_to_evidence_tx env cmd) (\<lambda>_. kept lower (ctx_workspace_id (mce_connection cmd)) s) s"
proof -
  let ?w = "ctx_workspace_id (mce_connection cmd)" and ?c = "mce_control_id cmd"
  have "tx_ensures (add_control env ?c rs 0 xs) (\<lambda>_. kept lower ?w s) s"
    if "ids_exist ?w [?c] s = Inr True" "\<forall>x \<in> set xs. \<exists>i. evidence_get ?w i s = Inr (Some x)" for rs xs
    by (rule add_control_kept [OF assms _ ids_exist_in [OF that(1)]])
      (use that(2) evidence_loaded(1) [OF _ assms] in auto)
  then show ?thesis
    using kept_refl [OF assms]
    by (simp add: map_control_to_evidence_tx_def tx_post Let_def) (auto intro!: load_each_ensures simp: tx_post)
qed

lemma unmap_control_kept:
  assumes "wf_catalogue lower s"
  shows "tx_ensures (unmap_control_from_evidence_tx cmd) (\<lambda>_. kept lower (ctx_workspace_id (uce_connection cmd)) s) s"
proof -
  let ?w = "ctx_workspace_id (uce_connection cmd)" and ?c = "uce_control_id cmd"
  have "tx_ensures (remove_control ?c xs) (\<lambda>_. kept lower ?w s) s"
    if "\<forall>x \<in> set xs. \<exists>i. evidence_get ?w i s = Inr (Some x)" for xs
    by (rule remove_control_kept [OF assms]) (use that evidence_loaded(1) [OF _ assms] in auto)
  then show ?thesis
    using kept_refl [OF assms]
    by (simp add: unmap_control_from_evidence_tx_def tx_post Let_def) (auto intro!: load_each_ensures simp: tx_post)
qed

lemma read_each_ensures:
  "(\<And>xs. Q xs s) \<Longrightarrow> tx_ensures (read_each missing (\<lambda>i. tx_read (get i)) ids) Q s"
  by (induction ids arbitrary: Q) (simp_all add: tx_post)

lemma new_evidence_mappings_Ok:
  assumes "new_evidence_mappings env requested = Inr ms" and "m \<in> set ms"
  shows "\<not> is_blank (ecm_rationale m) \<and> ecm_control_id m \<in> fst ` set requested"
proof -
  have all2: "list_all2 (\<lambda>x m. evidence_control_mapping_new (fst (snd x)) (snd (snd x)) (ce_clock env (fst x)) = Valid m)
      (enumerate 0 requested) ms"
    using collect_results_all2 [OF assms(1) [unfolded new_evidence_mappings_def]]
    by (rule list_all2_mono) (auto simp: map_err_Ok_iff)
  from assms(2) obtain j where j: "j < length ms" "m = ms ! j" by (auto simp: in_set_conv_nth)
  have len: "j < length requested" using list_all2_lengthD [OF all2] j(1) by simp
  have m: "evidence_control_mapping_new (fst (requested ! j)) (snd (requested ! j)) (ce_clock env j) = Valid m"
    using list_all2_nthD2 [OF all2 j(1)] len j(2) by (simp add: nth_enumerate_eq)
  then have "ecm_control_id m = fst (requested ! j)" by (auto simp: evidence_control_mapping_new_def)
  with evidence_control_mapping_new_Valid [OF m] len show ?thesis by auto
qed

lemma map_evidence_kept:
  assumes "wf_catalogue lower s"
  shows "tx_ensures (map_evidence_to_controls_tx env cmd) (\<lambda>_. kept lower (ctx_workspace_id (mec_connection cmd)) s) s"
proof -
  let ?w = "ctx_workspace_id (mec_connection cmd)"
  have "kept lower ?w s t"
    if get: "evidence_get ?w i s = Inr (Some e)" and found: "existing_ids ?w (map fst (mec_mappings cmd)) s = Inr found"
      and known: "\<forall>x \<in> set (mec_mappings cmd). fst x \<in> found"
      and ms: "new_evidence_mappings env (mec_mappings cmd) = Inr ms"
      and e': "evidence_replace_mappings (ev_mappings e @ ms) e = Inr e'" and save: "evidence_save e' s = Inr t" for i e found ms e' t
  proof (rule evidence_save_kept [OF save _ assms])
    have sav: "evidence_savable ?w s e" using evidence_loaded(1) [OF get assms] .
    show "evidence_savable ?w s e'"
    proof (rule evidence_mappings_savable [OF sav e'])
      fix m assume "m \<in> set (ev_mappings e @ ms)"
      then show "\<not> is_blank (ecm_rationale m) \<and> control_in s (workspace_uuid ?w) (control_uuid (ecm_control_id m))"
        using evidence_savable_mappings [OF sav] new_evidence_mappings_Ok [OF ms] existing_ids_in [OF found] known by fastforce
    qed
  qed
  then show ?thesis
    using kept_refl [OF assms]
    by (simp add: map_evidence_to_controls_tx_def tx_post Let_def map_err_Ok_iff)
      (auto intro!: read_each_ensures simp: filter_empty_conv tx_post)
qed

lemma unmap_evidence_kept:
  assumes "wf_catalogue lower s"
  shows "tx_ensures (unmap_evidence_from_controls_tx cmd) (\<lambda>_. kept lower (ctx_workspace_id (uec_connection cmd)) s) s"
proof -
  let ?w = "ctx_workspace_id (uec_connection cmd)"
  have "kept lower ?w s t"
    if get: "evidence_get ?w i s = Inr (Some e)"
      and e': "evidence_replace_mappings (filter P (ev_mappings e)) e = Inr e'" and save: "evidence_save e' s = Inr t" for i e P e' t
  proof (rule evidence_save_kept [OF save _ assms])
    have sav: "evidence_savable ?w s e" using evidence_loaded(1) [OF get assms] .
    show "evidence_savable ?w s e'"
      by (rule evidence_mappings_savable [OF sav e']) (use evidence_savable_mappings [OF sav] in auto)
  qed
  then show ?thesis
    using kept_refl [OF assms]
    by (simp add: unmap_evidence_from_controls_tx_def tx_post Let_def map_err_Ok_iff) blast
qed

section \<open>Policies\<close>

lemma new_policy_mappings_ids: "m \<in> set (new_policy_mappings clock ids) \<Longrightarrow> pcm_control_id m \<in> set ids"
  by (auto simp: new_policy_mappings_def in_set_enumerate_eq)

lemma create_policy_kept:
  assumes "wf_catalogue (ce_lower env) s" and "policy_definition_new nm description = Valid def"
    and "\<not> row_exists polrec_id (ce_new_id env) (db_policies (cat_db s))"
  shows "tx_ensures (create_policy_tx env cmd def) (\<lambda>_. kept (ce_lower env) (ctx_workspace_id (cp_connection cmd)) s) s"
proof -
  let ?w = "ctx_workspace_id (cp_connection cmd)"
  have "kept (ce_lower env) ?w s t"
    if found: "existing_ids ?w (cp_control_ids cmd) s = Inr found" and known: "\<forall>c \<in> set (cp_control_ids cmd). c \<in> found"
      and p: "policy_replace_mappings (new_policy_mappings clock (cp_control_ids cmd))
        (policy_define (PolicyId (ce_new_id env)) ?w def at) = Inr p"
      and save: "policy_save (ce_lower env) p s = Inr t" for found clock at p t
  proof (rule policy_save_kept [OF save _ assms(1)])
    have "policy_savable ?w s (policy_define (PolicyId (ce_new_id env)) ?w def at)"
      using policy_definition_new_stable [OF assms(2)] assms(3)
      by (auto simp: policy_savable_def wf_policy_def policy_define_def row_exists_def list_ex_iff)
    from policy_mappings_savable [OF this p] show "policy_savable ?w s p"
      using existing_ids_in [OF found] known by (auto dest!: new_policy_mappings_ids)
  qed
  then show ?thesis
    using kept_refl [OF assms(1)]
    by (simp add: create_policy_tx_def tx_post Let_def map_err_Ok_iff) (auto simp: filter_empty_conv)
qed

lemma replace_policy_kept:
  assumes "wf_catalogue (ce_lower env) s" and "policy_definition_new nm description = Valid def"
  shows "tx_ensures (replace_policy_tx env cmd def) (\<lambda>_. kept (ce_lower env) (ctx_workspace_id (rp_connection cmd)) s) s"
proof -
  have "policy_savable w s p'" if "policy_get w i s = Inr (Some p)" "policy_replace def at p = Inr p'" for w i p p' at
    using policy_loaded(1) [OF that(1) assms(1)] that(2) policy_definition_new_stable [OF assms(2)]
    by (auto simp: policy_replace_def and_then_Ok_iff policy_savable_def wf_policy_def split: if_splits)
  then have "kept (ce_lower env) w s t"
    if "policy_get w i s = Inr (Some p)" "policy_replace def at p = Inr p'" "policy_save (ce_lower env) p' s = Inr t" for w i p p' at t
    using policy_save_kept [OF that(3) _ assms(1)] that(1,2) by blast
  then show ?thesis
    using kept_refl [OF assms(1)] by (simp add: replace_policy_tx_def tx_post Let_def map_err_Ok_iff) blast
qed

lemma archive_policy_kept:
  assumes "wf_catalogue (ce_lower env) s"
  shows "tx_ensures (archive_policy_tx env cmd) (\<lambda>_. kept (ce_lower env) (ctx_workspace_id (ap_connection cmd)) s) s"
proof -
  have "policy_savable w s p'" if "policy_get w i s = Inr (Some p)" "policy_archive at p = Inr p'" for w i p p' at
    using policy_loaded(1) [OF that(1) assms(1)] that(2)
    by (auto simp: policy_archive_def and_then_Ok_iff policy_savable_def wf_policy_def split: if_splits)
  then have "kept (ce_lower env) w s t"
    if "policy_get w i s = Inr (Some p)" "policy_archive at p = Inr p'" "policy_save (ce_lower env) p' s = Inr t" for w i p p' at t
    using policy_save_kept [OF that(3) _ assms(1)] that(1,2) by blast
  then show ?thesis
    using kept_refl [OF assms(1)] by (simp add: archive_policy_tx_def tx_post Let_def map_err_Ok_iff) blast
qed

lemma change_mappings_kept:
  assumes "wf_catalogue (ce_lower env) s"
  shows "tx_ensures (change_mappings_tx env cmd attach)
    (\<lambda>_. kept (ce_lower env) (ctx_workspace_id (cpc_connection cmd)) s) s"
proof -
  let ?w = "ctx_workspace_id (cpc_connection cmd)"
  have "kept (ce_lower env) ?w s t"
    if get: "policy_get ?w i s = Inr (Some p)" and found: "existing_ids ?w (cpc_control_ids cmd) s = Inr found"
      and known: "\<forall>c \<in> set (cpc_control_ids cmd). c \<in> found"
      and p': "policy_replace_mappings (changed_mappings env attach (cpc_control_ids cmd) p) p = Inr p'"
      and save: "policy_save (ce_lower env) p' s = Inr t" for i p found p' t
  proof (rule policy_save_kept [OF save _ assms])
    have sav: "policy_savable ?w s p" using policy_loaded(1) [OF get assms] .
    show "policy_savable ?w s p'"
      by (rule policy_mappings_savable [OF sav p'])
        (use policy_savable_mappings [OF sav] existing_ids_in [OF found] known in
          \<open>auto simp: changed_mappings_def split: if_splits dest: new_policy_mappings_ids\<close>)
  qed
  then show ?thesis
    using kept_refl [OF assms]
    by (simp add: change_mappings_tx_def tx_post Let_def map_err_Ok_iff)
      (auto intro!: read_each_ensures simp: tx_post filter_empty_conv)
qed

lemma sort_out_policies_ensures:
  assumes "\<And>x. \<forall>p \<in> set (fst x). \<exists>i. policy_get w i s = Inr (Some p) \<Longrightarrow> Q x s"
  shows "tx_ensures (sort_out_policies w c attach ids) Q s"
  using assms
proof (induction ids arbitrary: Q)
  case (Cons i ids)
  have "tx_ensures (sort_out_policies w c attach ids) (\<lambda>x. Q (case found of
         None \<Rightarrow> (fst x, i # fst (snd x), fst (snd (snd x)), snd (snd (snd x)))
       | Some p \<Rightarrow>
           if pol_archived_at p \<noteq> None then (fst x, fst (snd x), i # fst (snd (snd x)), snd (snd (snd x)))
           else (p # fst x, fst (snd x), fst (snd (snd x)),
             if attach = policy_maps c p then i # snd (snd (snd x)) else snd (snd (snd x))))) s"
    if "policy_get w i s = Inr found" for found
  proof (rule Cons.IH)
    fix x :: "policy list \<times> policy_id list \<times> policy_id list \<times> policy_id list"
    assume "\<forall>p \<in> set (fst x). \<exists>i. policy_get w i s = Inr (Some p)"
    with that show "Q (case found of
         None \<Rightarrow> (fst x, i # fst (snd x), fst (snd (snd x)), snd (snd (snd x)))
       | Some p \<Rightarrow>
           if pol_archived_at p \<noteq> None then (fst x, fst (snd x), i # fst (snd (snd x)), snd (snd (snd x)))
           else (p # fst x, fst (snd x), fst (snd (snd x)),
             if attach = policy_maps c p then i # snd (snd (snd x)) else snd (snd (snd x)))) s"
      by (cases found) (auto intro!: Cons.prems)
  qed
  then show ?case by (simp add: tx_post case_prod_beta)
qed (simp add: tx_post)

lemma change_each_kept:
  assumes "wf_catalogue (ce_lower env) t" and "\<forall>p \<in> set ps. policy_savable w t p"
    and "control_in t (workspace_uuid w) (control_uuid c)" and "only_workspace w s t"
  shows "tx_ensures (change_each env c attach n ps) (\<lambda>_. kept (ce_lower env) w s) t"
  using assms
proof (induction ps arbitrary: t n)
  case (Cons p ps)
  have "tx_ensures (change_each env c attach (Suc n) ps) (\<lambda>_. kept (ce_lower env) w s) u"
    if p': "policy_replace_mappings (if attach then pol_mappings p @ [\<lparr>pcm_control_id = c, pcm_created_at = at\<rparr>]
        else filter (\<lambda>m. pcm_control_id m \<noteq> c) (pol_mappings p)) p = Inr p'"
      and u: "policy_save (ce_lower env) p' t = Inr u" for at p' u
  proof -
    have p: "policy_savable w t p" using Cons.prems(2) by simp
    have "policy_savable w t p'"
      by (rule policy_mappings_savable [OF p p'])
        (use policy_savable_mappings [OF p] Cons.prems(3) in \<open>auto split: if_splits\<close>)
    note save = policy_save_only [OF u this Cons.prems(1)]
    show ?thesis
    proof (rule Cons.IH [OF save(2)])
      show "\<forall>p \<in> set ps. policy_savable w u p"
        using Cons.prems(2) policy_savable_after [OF _ save(1,3)] by simp
      show "control_in u (workspace_uuid w) (control_uuid c)" using Cons.prems(3) by (simp add: control_in_def save(3))
      show "only_workspace w s u" using only_workspace_trans [OF Cons.prems(4) save(1)] .
    qed
  qed
  then show ?case by (simp add: tx_post map_err_Ok_iff)
qed (simp add: tx_post kept_def)

lemma change_control_policies_kept:
  assumes "wf_catalogue (ce_lower env) s"
  shows "tx_ensures (change_control_policies_tx env cmd attach)
    (\<lambda>_. kept (ce_lower env) (ctx_workspace_id (ccp_connection cmd)) s) s"
proof -
  let ?w = "ctx_workspace_id (ccp_connection cmd)" and ?c = "ccp_control_id cmd"
  have "tx_ensures (change_each env ?c attach 0 ps) (\<lambda>_. kept (ce_lower env) ?w s) s"
    if "existing_ids ?w [?c] s = Inr found" "?c \<in> found" "\<forall>p \<in> set ps. \<exists>i. policy_get ?w i s = Inr (Some p)" for found ps
    by (rule change_each_kept [OF assms _ existing_ids_in [OF that(1,2)]])
      (use that(3) policy_loaded(1) [OF _ assms] in auto)
  then show ?thesis
    using kept_refl [OF assms]
    by (simp add: change_control_policies_tx_def tx_post Let_def)
      (auto intro!: sort_out_policies_ensures simp: tx_post case_prod_beta)
qed

section \<open>Every command\<close>

lemmas catalogue_handler_defs =
  handle_create_control_def handle_replace_control_def handle_create_evidence_def handle_replace_evidence_def
  handle_map_control_to_evidence_def handle_unmap_control_from_evidence_def handle_map_evidence_to_controls_def
  handle_unmap_evidence_from_controls_def handle_create_policy_def handle_replace_policy_def handle_archive_policy_def
  handle_attach_policy_to_controls_def handle_detach_policy_from_controls_def change_mappings_def
  handle_attach_control_to_policies_def handle_detach_control_from_policies_def handle_change_control_policies_def

lemma run_catalogue_kept:
  assumes wf: "wf_catalogue (ce_lower env) s" and fresh: "fresh_id (ce_new_id env) s"
  shows "kept (ce_lower env) (command_workspace c) s (run_catalogue_command env c s)"
proof (cases c)
  case (CreateControlCmd cmd)
  show ?thesis
    using kept_refl [OF wf] fresh unfolding CreateControlCmd
    by (auto simp: handle_create_control_def fresh_id_def split: sum.split
        intro!: unit_of_work_post [where P = "kept _ _ s"] create_control_kept [OF wf] defined_control_savable)
next
  case (CreateEvidenceCmd cmd)
  show ?thesis
    using kept_refl [OF wf] fresh unfolding CreateEvidenceCmd
    by (auto simp: handle_create_evidence_def fresh_id_def split: sum.split
        intro!: unit_of_work_post [where P = "kept _ _ s"] create_evidence_kept [OF wf] defined_evidence_savable)
next
  case (CreatePolicyCmd cmd)
  show ?thesis
    using kept_refl [OF wf] fresh unfolding CreatePolicyCmd
    by (auto simp: handle_create_policy_def fresh_id_def split: sum.split
        intro!: unit_of_work_post [where P = "kept _ _ s"] create_policy_kept [OF wf])
qed (auto simp: catalogue_handler_defs kept_refl [OF wf] split: sum.split
    intro!: unit_of_work_post [where P = "kept _ _ s"] replace_control_kept [OF wf] replace_evidence_kept [OF wf]
      map_control_kept [OF wf] unmap_control_kept [OF wf] map_evidence_kept [OF wf] unmap_evidence_kept [OF wf]
      replace_policy_kept [OF wf] archive_policy_kept [OF wf] change_mappings_kept [OF wf]
      change_control_policies_kept [OF wf])

lemma run_catalogue_unpermitted:
  "\<not> has (ctx_permissions (command_connection c)) (command_permission c) \<Longrightarrow> run_catalogue_command env c s = s"
  by (cases c) (auto simp: catalogue_handler_defs authorize_def)

text \<open>Steps with their environment; the lower-case mapping of the database is fixed.\<close>

definition catalogue_step :: "catalogue_env \<times> catalogue_command \<Rightarrow> catalogue \<Rightarrow> catalogue" where
  "catalogue_step = (\<lambda>(env, c). run_catalogue_command env c)"

definition catalogue_allowed :: "(string \<Rightarrow> string) \<Rightarrow> catalogue_env \<times> catalogue_command \<Rightarrow> catalogue \<Rightarrow> bool" where
  "catalogue_allowed lower = (\<lambda>(env, c) s. ce_lower env = lower \<and> fresh_id (ce_new_id env) s)"

interpretation cat: aggregate catalogue_step "catalogue_allowed lower" "wf_catalogue lower" for lower
  by unfold_locales (auto simp: catalogue_step_def catalogue_allowed_def kept_def dest: run_catalogue_kept)

definition catalogue_empty :: "catalogue \<Rightarrow> bool" where
  "catalogue_empty s \<longleftrightarrow> db_evidence (cat_db s) = [] \<and> db_policies (cat_db s) = [] \<and> cat_controls s = []
     \<and> cat_control_requirements s = [] \<and> cat_evidence_mappings s = [] \<and> cat_policy_mappings s = []"

lemma catalogue_empty_wf: "catalogue_empty s \<Longrightarrow> wf_catalogue lower s"
  by (simp add: catalogue_empty_def wf_catalogue_def wf_rows_def codes_unique_def names_unique_def
      wf_evidence_mappings_def wf_policy_mappings_def wf_requirement_mappings_def table_wf_def)

end
