(* ===== verification/Catalogue_Properties.thy ===== *)
theory Catalogue_Properties
  imports Catalogue_Safety
begin

text \<open>
  The properties of the catalogue: consistency of the tables under every sequence of commands, confinement of
  a command to its workspace, and mapping and unmapping as inverse operations.
\<close>

section \<open>A sample\<close>

definition sample_context :: agent_connection_context where
  "sample_context = \<lparr>ctx_user_id = UserId 4, ctx_connection_id = AgentConnectionId 1, ctx_workspace_id = WorkspaceId 3,
     ctx_permissions = permissions_from_iter [WriteControls, WriteEvidence]\<rparr>"

definition sample_catalogue_env :: "uuid \<Rightarrow> catalogue_env" where
  "sample_catalogue_env i = \<lparr>ce_clock = (\<lambda>n. 10 + int n), ce_new_id = i, ce_lower = (\<lambda>t. t),
     ce_collate = map (\<lambda>c. of_char c)\<rparr>"

definition bare_catalogue :: catalogue where
  "bare_catalogue =
     \<lparr>cat_db = sample_db, cat_frameworks = [], cat_requirements = [], cat_controls = [],
      cat_control_requirements = [], cat_evidence_mappings = [], cat_policy_mappings = []\<rparr>"

definition sample_create_control :: create_control where
  "sample_create_control = \<lparr>cc_connection = sample_context, cc_code = ''c'', cc_title = ''t'',
     cc_description = ''d'', cc_framework_requirement_ids = []\<rparr>"

definition sample_map_evidence :: map_evidence_to_controls where
  "sample_map_evidence = \<lparr>mec_connection = sample_context, mec_evidence_id = EvidenceId 21,
     mec_mappings = [(ControlId 20, ''r'')]\<rparr>"

definition sample_catalogue :: catalogue where
  "sample_catalogue =
     bare_catalogue\<lparr>cat_db := sample_db\<lparr>db_evidence := [\<lparr>evrec_id = 21, evrec_workspace_id = 3, evrec_title = ''t'',
          evrec_description = ''d'', evrec_collection_instructions = ''i'', evrec_status = ''active'',
          evrec_created_at = 1, evrec_updated_at = 2\<rparr>]\<rparr>,
       cat_controls := [\<lparr>ctlrec_id = 20, ctlrec_workspace_id = 3, ctlrec_code = ''c'', ctlrec_title = ''t'',
          ctlrec_description = ''d'', ctlrec_created_at = 1, ctlrec_updated_at = 1\<rparr>]\<rparr>"

lemma sample_catalogue_wf: "wf_catalogue lower sample_catalogue"
proof -
  have "\<not> is_blank ''t''" "\<not> is_blank ''d''" "\<not> is_blank ''i''" "\<not> is_blank ''c''" by code_simp+
  then show ?thesis
    by (simp add: sample_catalogue_def bare_catalogue_def sample_db_def wf_catalogue_def wf_rows_def codes_unique_def
        names_unique_def wf_evidence_mappings_def wf_policy_mappings_def wf_requirement_mappings_def table_wf_def
        evidence_row_ok_def control_row_ok_def row_exists_def evidence_status_from_str_def)
qed

lemma bare_catalogue_empty: "catalogue_empty bare_catalogue"
  by (simp add: catalogue_empty_def bare_catalogue_def sample_db_def)

abbreviation sample_op :: "catalogue_env \<times> catalogue_command" where
  "sample_op \<equiv> (sample_catalogue_env 20, CreateControlCmd sample_create_control)"

lemma sample_op_allowed: "allowed_run catalogue_step (catalogue_allowed (\<lambda>t. t)) [sample_op] bare_catalogue"
  by (simp add: catalogue_allowed_def sample_catalogue_env_def fresh_id_def bare_catalogue_def sample_db_def row_exists_def)

lemma find_own: "r \<in> set rows \<Longrightarrow> \<exists>x. find (\<lambda>x. key x = key r \<and> other x = other r) rows = Some x"
  by (cases "find (\<lambda>x. key x = key r \<and> other x = other r) rows") (auto simp: find_None_iff)

section \<open>Properties\<close>

text \<open>
  C7: Whatever catalogue commands are handled, in any order and with any outcome, from an empty catalogue on and
  with new ids for new rows: every evidence, control and policy loads, a mapping always joins an evidence or a
  policy with a control of the same workspace, no control code occurs twice in a workspace, and no two active
  policies of a workspace have names that differ at most in case.
\<close>

theorem catalogue_stays_consistent:
  assumes "catalogue_empty s0" and "allowed_run catalogue_step (catalogue_allowed lower) ops s0"
  shows "let s = fold catalogue_step ops s0 in
     list_all (\<lambda>r. \<exists>e. evidence_get (WorkspaceId (evrec_workspace_id r)) (EvidenceId (evrec_id r)) s = Inr (Some e))
       (db_evidence (cat_db s))
   \<and> list_all (\<lambda>r. \<exists>c. control_get (WorkspaceId (ctlrec_workspace_id r)) (ControlId (ctlrec_id r)) s = Inr (Some c))
       (cat_controls s)
   \<and> list_all (\<lambda>r. \<exists>p. policy_get (WorkspaceId (polrec_workspace_id r)) (PolicyId (polrec_id r)) s = Inr (Some p))
       (db_policies (cat_db s))
   \<and> list_all (\<lambda>m. \<exists>e c. e \<in> set (db_evidence (cat_db s)) \<and> c \<in> set (cat_controls s)
         \<and> evrec_id e = ecmrec_evidence_id m \<and> ctlrec_id c = ecmrec_control_id m
         \<and> evrec_workspace_id e = ctlrec_workspace_id c) (cat_evidence_mappings s)
   \<and> list_all (\<lambda>m. \<exists>p c. p \<in> set (db_policies (cat_db s)) \<and> c \<in> set (cat_controls s)
         \<and> polrec_id p = pcmrec_policy_id m \<and> ctlrec_id c = pcmrec_control_id m
         \<and> polrec_workspace_id p = ctlrec_workspace_id c) (cat_policy_mappings s)
   \<and> distinct (map (\<lambda>r. (ctlrec_workspace_id r, ctlrec_code r)) (cat_controls s))
   \<and> distinct (map (\<lambda>r. (polrec_workspace_id r, lower (polrec_name r)))
       (filter (\<lambda>r. polrec_archived_at r = None) (db_policies (cat_db s))))"
proof -
  let ?s = "fold catalogue_step ops s0"
  note wf = wf_catalogueD [OF cat.run_wf [OF catalogue_empty_wf [OF assms(1)] assms(2)]]
  have "distinct (map (\<lambda>r. (ctlrec_workspace_id r, ctlrec_code r)) (cat_controls ?s))"
    using wf(2,8) unfolding codes_unique_def table_wf_def distinct_map inj_on_def by blast
  moreover have "distinct (map (\<lambda>r. (polrec_workspace_id r, lower (polrec_name r)))
       (filter (\<lambda>r. polrec_archived_at r = None) (db_policies (cat_db ?s))))"
    using wf(3,9) unfolding names_unique_def table_wf_def distinct_map inj_on_def active_policy_row_def by auto
  moreover have "\<forall>r \<in> set (db_evidence (cat_db ?s)). \<exists>e. evidence_get (WorkspaceId (evrec_workspace_id r)) (EvidenceId (evrec_id r)) ?s = Inr (Some e)"
    by (simp add: evidence_get_eq [OF wf(1,4)] find_own [where key = evrec_id and other = evrec_workspace_id])
  moreover have "\<forall>r \<in> set (cat_controls ?s). \<exists>c. control_get (WorkspaceId (ctlrec_workspace_id r)) (ControlId (ctlrec_id r)) ?s = Inr (Some c)"
    by (simp add: control_get_eq [OF wf(1,6)] find_own [where key = ctlrec_id and other = ctlrec_workspace_id])
  moreover have "\<forall>r \<in> set (db_policies (cat_db ?s)). \<exists>p. policy_get (WorkspaceId (polrec_workspace_id r)) (PolicyId (polrec_id r)) ?s = Inr (Some p)"
    by (simp add: policy_get_eq [OF wf(1,5)] find_own [where key = polrec_id and other = polrec_workspace_id])
  ultimately show ?thesis
    using wf(4,5) unfolding Let_def list_all_iff wf_evidence_mappings_def wf_policy_mappings_def control_in_def
    by (intro conjI) (assumption | metis)+
qed

theorem catalogue_stays_consistent_witness:
  "let s = catalogue_step sample_op bare_catalogue in
   map ctlrec_id (cat_controls s) = [20]
   \<and> list_all (\<lambda>r. \<exists>c. control_get (WorkspaceId (ctlrec_workspace_id r)) (ControlId (ctlrec_id r)) s = Inr (Some c)) (cat_controls s)"
proof -
  have "map ctlrec_id (cat_controls (catalogue_step sample_op bare_catalogue)) = [20]" by code_simp
  then show ?thesis
    using catalogue_stays_consistent [OF bare_catalogue_empty sample_op_allowed] unfolding Let_def by simp
qed

text \<open>
  C8: A catalogue command changes nothing when its connection lacks the permission for it, and otherwise nothing
  that another workspace can load: for every other workspace every evidence, control and policy, with its
  mappings, loads as before.
\<close>

theorem commands_stay_in_workspace:
  assumes "wf_catalogue (ce_lower env) s" and "fresh_id (ce_new_id env) s"
  shows "(\<not> has (ctx_permissions (command_connection c)) (command_permission c) \<longrightarrow> run_catalogue_command env c s = s)
   \<and> (\<forall>w. w \<noteq> ctx_workspace_id (command_connection c) \<longrightarrow>
        (\<forall>i. evidence_get w i (run_catalogue_command env c s) = evidence_get w i s)
        \<and> (\<forall>i. control_get w i (run_catalogue_command env c s) = control_get w i s)
        \<and> (\<forall>i. policy_get w i (run_catalogue_command env c s) = policy_get w i s))"
proof -
  have "workspace_view w (run_catalogue_command env c s) = workspace_view w s" if "w \<noteq> command_workspace c" for w
    using run_catalogue_kept [OF assms, of c] that by (simp add: kept_def only_workspace_def)
  then show ?thesis using run_catalogue_unpermitted [of c env s] by (simp add: workspace_view_def fun_eq_iff)
qed

theorem commands_stay_in_workspace_witness:
  "length (cat_evidence_mappings
     (run_catalogue_command (sample_catalogue_env 23) (MapEvidenceCmd sample_map_evidence) sample_catalogue)) = 1
   \<and> evidence_get (WorkspaceId 9) (EvidenceId 21)
       (run_catalogue_command (sample_catalogue_env 23) (MapEvidenceCmd sample_map_evidence) sample_catalogue)
     = evidence_get (WorkspaceId 9) (EvidenceId 21) sample_catalogue"
proof -
  have "length (cat_evidence_mappings (run_catalogue_command (sample_catalogue_env 23) (MapEvidenceCmd sample_map_evidence) sample_catalogue)) = 1"
    by code_simp
  moreover have "fresh_id (ce_new_id (sample_catalogue_env 23)) sample_catalogue"
    by (simp add: sample_catalogue_env_def fresh_id_def sample_catalogue_def bare_catalogue_def sample_db_def row_exists_def)
  moreover have "WorkspaceId 9 \<noteq> ctx_workspace_id (command_connection (MapEvidenceCmd sample_map_evidence))"
    by (simp add: sample_map_evidence_def sample_context_def)
  ultimately show ?thesis using commands_stay_in_workspace [OF sample_catalogue_wf] by blast
qed

end
