(* ===== verification/Access_Commands.thy ===== *)
theory Access_Commands
  imports People OAuth_Flows Document_Commands
begin

text \<open>
  How an agent gets access: the handlers of \<^verbatim>\<open>src/application/commands/agent_connections.rs\<close> and
  \<^verbatim>\<open>oauth_authorization_flows.rs\<close>, with the queries of \<^verbatim>\<open>src/persistence/reads/agent_connections.rs\<close>,
  \<^verbatim>\<open>oauth_authorization_flows.rs\<close> and \<^verbatim>\<open>src/application/queries/\<close> of the same names. They run over the
  tables of people, of agent connections and of OAuth flows; a save checks the constraints of
  \<^verbatim>\<open>migrations/V001__breaking_initial_schema.sql\<close> on its tables.
\<close>

section \<open>The tables\<close>

record access =
  acc_people :: people
  acc_agents :: agent_tables
  acc_oauth :: oauth_tables

text \<open>What the handlers take from outside: the successive readings of the clock, SHA-256 and new ids.\<close>

record access_env =
  ae_clock :: "nat \<Rightarrow> datetime"
  ae_sha256 :: "bytes \<Rightarrow> bytes"
  ae_connection_id :: uuid
  ae_transaction_id :: uuid

definition access_digest :: "access_env \<Rightarrow> string \<Rightarrow> sha256_digest" where
  "access_digest env value = sha256_digest_of (ae_sha256 env) (map of_char value)"

definition users_auth0_sub :: "user_id \<Rightarrow> people \<Rightarrow> repository_error + string option" where
  "users_auth0_sub u s = Ok (map_option usrrec_auth0_sub (find_row usrrec_id (user_uuid u) (ppl_users s)))"

definition get_membership_role ::
  "workspace_id \<Rightarrow> user_id \<Rightarrow> people \<Rightarrow> repository_error + workspace_role option" where
  "get_membership_role w u s =
     map_transpose membership_role_from_row
       (find (\<lambda>m. memrec_workspace_id m = workspace_uuid w \<and> memrec_user_id m = user_uuid u)
         (memberships_table (ppl_workspaces s)))"

definition connection_violations :: "people \<Rightarrow> connection_record \<Rightarrow> (bool \<times> db_failure) list" where
  "connection_violations s r =
     [(connrec_status r \<notin> {''pending'', ''authorized'', ''active'', ''revoked''},
        check_violation ''agent_connections_status_check''),
      (\<not> (connrec_status r \<in> {''pending'', ''authorized''}
            \<and> connrec_activated_at r = None \<and> connrec_revoked_at r = None
          \<or> connrec_status r = ''active'' \<and> connrec_activated_at r \<noteq> None \<and> connrec_revoked_at r = None
          \<or> connrec_status r = ''revoked'' \<and> connrec_revoked_at r \<noteq> None),
        check_violation ''agent_connections_lifecycle''),
      (connrec_pending_expires_at r \<le> connrec_created_at r, check_violation ''agent_connections_check''),
      (is_some_and (\<lambda>t. t < connrec_created_at r) (connrec_activated_at r),
        check_violation ''agent_connections_check1''),
      (is_some_and (\<lambda>t. t < connrec_created_at r) (connrec_last_used_at r),
        check_violation ''agent_connections_check2''),
      (is_some_and (\<lambda>t. t < connrec_created_at r) (connrec_revoked_at r),
        check_violation ''agent_connections_check3''),
      (\<not> row_exists usrrec_id (connrec_user_id r) (ppl_users s),
        foreign_key_violation ''agent_connections_user_id_fkey''),
      (\<not> row_exists wsrec_id (connrec_workspace_id r) (workspaces_table (ppl_workspaces s)),
        foreign_key_violation ''agent_connections_workspace_id_fkey'')]"

definition authorization_violations :: "authorization_record \<Rightarrow> (bool \<times> db_failure) list" where
  "authorization_violations a =
     [(length (authrec_continuation_digest a) \<noteq> 32,
        check_violation ''agent_authorization_transactions_continuation_digest_check''),
      (length (authrec_nonce_digest a) \<noteq> 32,
        check_violation ''agent_authorization_transactions_nonce_digest_check''),
      (is_some_and (\<lambda>t. t < authrec_created_at a) (authrec_consumed_at a),
        check_violation ''agent_authorization_transactions_check'')]"

definition access_connection_get ::
  "agent_connection_id \<Rightarrow> access \<Rightarrow> repository_error + agent_connection option" where
  "access_connection_get i s = connection_get i (acc_agents s)"

definition access_connection_save :: "agent_connection \<Rightarrow> access \<Rightarrow> repository_error + access" where
  "access_connection_save c s =
     and_then (first_violation (connection_violations (acc_people s) (connection_from_domain c))) (\<lambda>_.
     and_then (first_violation (authorization_violations (authorization_from_domain c))) (\<lambda>_.
     and_then (connection_save c (acc_agents s)) (\<lambda>t. Ok (s\<lparr>acc_agents := t\<rparr>))))"

definition flow_violations :: "access \<Rightarrow> flow_record \<Rightarrow> (bool \<times> db_failure) list" where
  "flow_violations s r =
     [(flowrec_scopes r = [], check_violation ''oauth_authorization_requests_scopes_check''),
      (length (flowrec_csrf_token_digest r) \<noteq> 32,
        check_violation ''oauth_authorization_requests_csrf_token_digest_check''),
      (flowrec_expires_at r \<le> flowrec_created_at r, check_violation ''oauth_authorization_requests_check''),
      (list_ex (\<lambda>x. flowrec_id x \<noteq> flowrec_id r \<and> flowrec_csrf_token_digest x = flowrec_csrf_token_digest r)
          (flows_table (acc_oauth s)),
        unique_key_violation ''oauth_authorization_requests_csrf_token_digest_key''),
      (\<not> is_none_or (\<lambda>u. row_exists usrrec_id u (ppl_users (acc_people s))) (flowrec_user_id r),
        foreign_key_violation ''oauth_authorization_requests_user_id_fkey'')]"

definition code_violations :: "access \<Rightarrow> code_record \<Rightarrow> (bool \<times> db_failure) list" where
  "code_violations s r =
     [(length (coderec_code_digest r) \<noteq> 32, check_violation ''oauth_authorization_codes_code_digest_check''),
      (coderec_scopes r = [], check_violation ''oauth_authorization_codes_scopes_check''),
      (coderec_expires_at r \<le> coderec_created_at r, check_violation ''oauth_authorization_codes_check''),
      (list_ex (\<lambda>x. coderec_request_id x \<noteq> coderec_request_id r \<and> coderec_code_digest x = coderec_code_digest r)
          (codes_table (acc_oauth s)), unique_key_violation ''oauth_authorization_codes_pkey''),
      (\<not> row_exists connrec_id (coderec_agent_connection_id r) (connections_table (acc_agents s)),
        foreign_key_violation ''oauth_authorization_codes_agent_connection_id_fkey''),
      (\<not> row_exists wsrec_id (coderec_workspace_id r) (workspaces_table (ppl_workspaces (acc_people s))),
        foreign_key_violation ''oauth_authorization_codes_workspace_id_fkey'')]"

definition access_flow_get ::
  "oauth_authorization_request_id \<Rightarrow> access \<Rightarrow> repository_error + oauth_flow option" where
  "access_flow_get i s = flow_get i (acc_oauth s)"

definition access_flow_save :: "oauth_flow \<Rightarrow> access \<Rightarrow> repository_error + access" where
  "access_flow_save f s =
     and_then (first_violation (flow_violations s (flow_from_domain f))) (\<lambda>_.
     and_then (case code_from_domain f of
         None \<Rightarrow> Ok ()
       | Some code \<Rightarrow> first_violation (code_violations s code)) (\<lambda>_.
     Ok (s\<lparr>acc_oauth := flow_save f (acc_oauth s)\<rparr>)))"

section \<open>Agent connections\<close>

record request_agent_connection =
  rac_user_id :: user_id
  rac_workspace_id :: workspace_id
  rac_auth0_subject :: string
  rac_auth0_client_id :: string
  rac_client_display_name :: string
  rac_resource :: string
  rac_permissions :: "workspace_permission list"
  rac_expires_at :: datetime
  rac_continuation_token :: string
  rac_nonce :: string

record consume_agent_connection =
  cac_continuation_token :: string
  cac_nonce :: string

record authorize_agent_connection =
  aac_connection_id :: agent_connection_id
  aac_workspace_id :: workspace_id
  aac_auth0_subject :: string
  aac_auth0_client_id :: string
  aac_resource :: string
  aac_permissions :: "workspace_permission list"

record revoke_agent_connection =
  rvc_connection_id :: agent_connection_id
  rvc_user_id :: "user_id option"

datatype consume_connection_outcome = ConsumeApproved agent_connection | ConsumeInvalid
datatype activate_connection_outcome = ConnectionActivated agent_connection | ActivateRejected

datatype connection_command_error =
  RequestDenied | ConnectionAlreadyExists | ConnectionUnavailable | RequestInvalid
  | ConnectionRepository repository_error

fun map_connection_conflict :: "repository_error \<Rightarrow> connection_command_error" where
  "map_connection_conflict (Conflict AgentConnectionExists) = ConnectionAlreadyExists"
| "map_connection_conflict e = ConnectionRepository e"

definition request_error :: "repository_error \<Rightarrow> connection_command_error" where
  "request_error e =
     (if e \<in> {InvariantViolation ''agent connection requester must exist'',
               InvariantViolation ''agent connection requester is ineligible''}
      then RequestDenied else map_connection_conflict e)"

definition request_connection_tx :: "agent_connection \<Rightarrow> (access, agent_connection) tx" where
  "request_connection_tx c =
     tx_bind (tx_read (\<lambda>s. users_auth0_sub (conn_user_id c) (acc_people s))) (\<lambda>found.
     tx_bind (tx_lift (ok_or (InvariantViolation ''agent connection requester must exist'') found)) (\<lambda>sub.
     if sub \<noteq> conn_auth0_subject c
     then tx_fail (InvariantViolation ''agent connection requester is ineligible'')
     else
       tx_bind (tx_read (\<lambda>s. get_membership_role (conn_workspace_id c) (conn_user_id c) (acc_people s))) (\<lambda>role.
       if role = None then tx_fail (InvariantViolation ''agent connection requester is ineligible'')
       else
         tx_bind (tx_write (access_connection_save c)) (\<lambda>_. tx_return c))))"

definition handle_request_agent_connection ::
  "access_env \<Rightarrow> request_agent_connection \<Rightarrow> access \<Rightarrow> (connection_command_error + agent_connection) \<times> access" where
  "handle_request_agent_connection env cmd s =
     (case canonical_permissions (rac_permissions cmd) of
        Inl _ \<Rightarrow> (Err RequestInvalid, s)
      | Inr permissions \<Rightarrow>
          if permissions = [] then (Err RequestInvalid, s)
          else (case connection_request (AgentConnectionId (ae_connection_id env))
              (AgentAuthorizationTransactionId (ae_transaction_id env)) (rac_user_id cmd) (rac_workspace_id cmd)
              (rac_auth0_subject cmd) (rac_auth0_client_id cmd) (rac_client_display_name cmd) (rac_resource cmd)
              permissions (rac_expires_at cmd) (access_digest env (rac_continuation_token cmd))
              (access_digest env (rac_nonce cmd)) (ae_clock env 0) of
            Inl _ \<Rightarrow> (Err RequestInvalid, s)
          | Inr c \<Rightarrow> apfst (map_err request_error) (in_unit_of_work (request_connection_tx c) s)))"

text \<open>The connection of a continuation is looked up before the unit of work.\<close>

definition continuation_connection ::
  "sha256_digest \<Rightarrow> sha256_digest option \<Rightarrow> access \<Rightarrow> repository_error + agent_connection_id option" where
  "continuation_connection continuation nonce s =
     and_then (at_most_one (filter (\<lambda>a. authrec_continuation_digest a = as_bytes continuation
         \<and> is_none_or (\<lambda>n. authrec_nonce_digest a = as_bytes n) nonce) (authorizations_table (acc_agents s))))
       (\<lambda>row. Ok (map_option (\<lambda>a. AgentConnectionId (authrec_connection_id a)) row))"

definition deny_connection_tx :: "access_env \<Rightarrow> agent_connection_id \<Rightarrow> (access, bool) tx" where
  "deny_connection_tx env i =
     tx_bind (tx_read (access_connection_get i)) (\<lambda>found.
     case found of
       None \<Rightarrow> tx_return False
     | Some c \<Rightarrow>
         if conn_status c \<noteq> ConnPending then tx_return False
         else
           tx_bind (tx_lift (map_err (\<lambda>_. InvariantViolation ''agent connection denial must be valid'')
             (connection_revoke (ae_clock env 0) c))) (\<lambda>(c, _).
           tx_bind (tx_write (access_connection_save c)) (\<lambda>_. tx_return True)))"

definition handle_deny_agent_connection ::
  "access_env \<Rightarrow> string \<Rightarrow> access \<Rightarrow> (connection_command_error + bool) \<times> access" where
  "handle_deny_agent_connection env continuation_token s =
     (case continuation_connection (access_digest env continuation_token) None s of
        Inl e \<Rightarrow> (Err (ConnectionRepository e), s)
      | Inr None \<Rightarrow> (Ok False, s)
      | Inr (Some i) \<Rightarrow> apfst (map_err ConnectionRepository) (in_unit_of_work (deny_connection_tx env i) s))"

text \<open>The holder of a connection still has the subject it was requested for, and is still a member.\<close>

definition user_is_eligible :: "agent_connection \<Rightarrow> (access, bool) tx" where
  "user_is_eligible c =
     tx_bind (tx_read (\<lambda>s. users_auth0_sub (conn_user_id c) (acc_people s))) (\<lambda>sub.
     if is_some_and (\<lambda>x. x = conn_auth0_subject c) sub
     then tx_bind (tx_read (\<lambda>s. get_membership_role (conn_workspace_id c) (conn_user_id c) (acc_people s)))
       (\<lambda>role. tx_return (role \<noteq> None))
     else tx_return False)"

definition consume_connection_tx ::
  "access_env \<Rightarrow> consume_agent_connection \<Rightarrow> agent_connection_id \<Rightarrow> (access, consume_connection_outcome) tx" where
  "consume_connection_tx env cmd i =
     tx_bind (tx_read (access_connection_get i)) (\<lambda>found.
     case found of
       None \<Rightarrow> tx_return ConsumeInvalid
     | Some c \<Rightarrow>
         tx_bind (user_is_eligible c) (\<lambda>eligible.
         if \<not> eligible then tx_return ConsumeInvalid
         else
           (case consume_continuation (access_digest env (cac_continuation_token cmd))
               (access_digest env (cac_nonce cmd)) (ae_clock env 0) c of
              (c, ConsumptionUnavailable) \<Rightarrow> tx_return ConsumeInvalid
            | (c, ConsumptionAuthorized) \<Rightarrow>
                tx_bind (tx_write (access_connection_save c)) (\<lambda>_. tx_return (ConsumeApproved c)))))"

definition handle_consume_agent_connection ::
  "access_env \<Rightarrow> consume_agent_connection \<Rightarrow> access
   \<Rightarrow> (connection_command_error + consume_connection_outcome) \<times> access" where
  "handle_consume_agent_connection env cmd s =
     (case continuation_connection (access_digest env (cac_continuation_token cmd))
         (Some (access_digest env (cac_nonce cmd))) s of
        Inl e \<Rightarrow> (Err (ConnectionRepository e), s)
      | Inr None \<Rightarrow> (Ok ConsumeInvalid, s)
      | Inr (Some i) \<Rightarrow> apfst (map_err ConnectionRepository) (in_unit_of_work (consume_connection_tx env cmd i) s))"

definition activate_connection_tx ::
  "access_env \<Rightarrow> agent_connection_id \<Rightarrow> (access, activate_connection_outcome) tx" where
  "activate_connection_tx env i =
     tx_bind (tx_read (access_connection_get i)) (\<lambda>found.
     case found of
       None \<Rightarrow> tx_return ActivateRejected
     | Some c \<Rightarrow>
         tx_bind (tx_read (\<lambda>s. get_membership_role (conn_workspace_id c) (conn_user_id c) (acc_people s))) (\<lambda>role.
         if role = None then tx_return ActivateRejected
         else
           (case connection_activate (ae_clock env 0) c of
              (c, Activated) \<Rightarrow>
                tx_bind (tx_write (access_connection_save c)) (\<lambda>_. tx_return (ConnectionActivated c))
            | (c, _) \<Rightarrow> tx_return ActivateRejected)))"

definition handle_activate_agent_connection ::
  "access_env \<Rightarrow> agent_connection_id \<Rightarrow> access
   \<Rightarrow> (connection_command_error + activate_connection_outcome) \<times> access" where
  "handle_activate_agent_connection env i s =
     apfst (map_err ConnectionRepository) (in_unit_of_work (activate_connection_tx env i) s)"

definition connection_context :: "agent_connection \<Rightarrow> agent_connection_context" where
  "connection_context c =
     \<lparr>ctx_user_id = conn_user_id c, ctx_connection_id = conn_id c, ctx_workspace_id = conn_workspace_id c,
      ctx_permissions = permissions_from_iter (conn_permissions c)\<rparr>"

definition authorize_connection_tx ::
  "access_env \<Rightarrow> authorize_agent_connection \<Rightarrow> workspace_permission list
   \<Rightarrow> (access, agent_connection_context option) tx" where
  "authorize_connection_tx env cmd expected =
     tx_bind (tx_read (access_connection_get (aac_connection_id cmd))) (\<lambda>found.
     case found of
       None \<Rightarrow> tx_return None
     | Some c \<Rightarrow>
         if conn_workspace_id c \<noteq> aac_workspace_id cmd
          \<or> conn_auth0_subject c \<noteq> aac_auth0_subject cmd
          \<or> conn_auth0_client_id c \<noteq> aac_auth0_client_id cmd
          \<or> conn_resource c \<noteq> aac_resource cmd
          \<or> conn_permissions c \<noteq> expected
         then tx_return None
         else
           tx_bind (user_is_eligible c) (\<lambda>eligible.
           if \<not> eligible then tx_return None
           else
             (case connection_activate (ae_clock env 0) c of
                (c, ActivationUnavailable) \<Rightarrow> tx_return None
              | (c, _) \<Rightarrow>
                  (case use_at (ae_clock env 1) c of
                     (c, UseUnavailable) \<Rightarrow> tx_return None
                   | (c, ConnectionUsed) \<Rightarrow>
                       tx_bind (tx_write (access_connection_save c)) (\<lambda>_.
                       tx_return (Some (connection_context c)))))))"

definition handle_authorize_agent_connection ::
  "access_env \<Rightarrow> authorize_agent_connection \<Rightarrow> access
   \<Rightarrow> (connection_command_error + agent_connection_context option) \<times> access" where
  "handle_authorize_agent_connection env cmd s =
     (case canonical_permissions (aac_permissions cmd) of
        Inl _ \<Rightarrow> (Err RequestInvalid, s)
      | Inr expected \<Rightarrow>
          apfst (map_err ConnectionRepository) (in_unit_of_work (authorize_connection_tx env cmd expected) s))"

definition use_connection_tx :: "access_env \<Rightarrow> agent_connection_id \<Rightarrow> (access, bool) tx" where
  "use_connection_tx env i =
     tx_bind (tx_read (access_connection_get i)) (\<lambda>found.
     case found of
       None \<Rightarrow> tx_return False
     | Some c \<Rightarrow>
         (case use_at (ae_clock env 0) c of
            (c, UseUnavailable) \<Rightarrow> tx_return False
          | (c, ConnectionUsed) \<Rightarrow> tx_bind (tx_write (access_connection_save c)) (\<lambda>_. tx_return True)))"

definition handle_use_agent_connection ::
  "access_env \<Rightarrow> agent_connection_id \<Rightarrow> access \<Rightarrow> (connection_command_error + bool) \<times> access" where
  "handle_use_agent_connection env i s =
     apfst (map_err ConnectionRepository) (in_unit_of_work (use_connection_tx env i) s)"

definition revoke_connection_tx :: "access_env \<Rightarrow> revoke_agent_connection \<Rightarrow> (access, bool) tx" where
  "revoke_connection_tx env cmd =
     tx_bind (tx_read (access_connection_get (rvc_connection_id cmd))) (\<lambda>found.
     case found of
       None \<Rightarrow> tx_return False
     | Some c \<Rightarrow>
         if is_some_and (\<lambda>u. u \<noteq> conn_user_id c) (rvc_user_id cmd)
          \<or> rvc_user_id cmd \<noteq> None \<and> conn_status c \<notin> {ConnAuthorized, ConnActive}
         then tx_return False
         else
           tx_bind (tx_lift (map_err (\<lambda>_. InvariantViolation ''agent connection revocation must be valid'')
             (connection_revoke (ae_clock env 0) c))) (\<lambda>(c, outcome).
           case outcome of
             ConnectionRevoked \<Rightarrow> tx_bind (tx_write (access_connection_save c)) (\<lambda>_. tx_return True)
           | AlreadyRevoked \<Rightarrow> tx_return False))"

definition handle_revoke_agent_connection ::
  "access_env \<Rightarrow> revoke_agent_connection \<Rightarrow> access \<Rightarrow> (connection_command_error + bool) \<times> access" where
  "handle_revoke_agent_connection env cmd s =
     apfst (map_err ConnectionRepository) (in_unit_of_work (revoke_connection_tx env cmd) s)"

section \<open>Reading connections\<close>

record reusable_agent_connection =
  reu_id :: agent_connection_id
  reu_user_id :: user_id
  reu_workspace_id :: workspace_id
  reu_permissions :: "workspace_permission list"

definition parse_connection_permissions :: "string list \<Rightarrow> repository_error + workspace_permission list" where
  "parse_connection_permissions values =
     collect_results (map (\<lambda>v. map_err (\<lambda>_. InvariantViolation ''unknown agent connection permission'')
       (permission_from_str v)) values)"

text \<open>A row of a connection joined with its user under the same subject and a membership.\<close>

definition held_by_member :: "access \<Rightarrow> connection_record \<Rightarrow> bool" where
  "held_by_member s c \<longleftrightarrow>
     list_ex (\<lambda>u. usrrec_id u = connrec_user_id c \<and> usrrec_auth0_sub u = connrec_auth0_subject c)
       (ppl_users (acc_people s))
     \<and> list_ex (\<lambda>m. memrec_user_id m = connrec_user_id c \<and> memrec_workspace_id m = connrec_workspace_id c)
       (memberships_table (ppl_workspaces (acc_people s)))"

definition find_reusable ::
  "string \<Rightarrow> string \<Rightarrow> string \<Rightarrow> workspace_permission list \<Rightarrow> access
   \<Rightarrow> repository_error + reusable_agent_connection option" where
  "find_reusable subject client resource requested s =
     and_then (map_err (\<lambda>_. InvariantViolation ''invalid requested agent connection permissions'')
         (canonical_permissions requested)) (\<lambda>expected.
     and_then (at_most_one (filter (\<lambda>c. connrec_auth0_subject c = subject \<and> connrec_auth0_client_id c = client
         \<and> connrec_resource c = resource \<and> connrec_status c \<in> {''authorized'', ''active''}
         \<and> held_by_member s c) (connections_table (acc_agents s)))) (\<lambda>row.
     case row of
       None \<Rightarrow> Ok None
     | Some c \<Rightarrow>
         and_then (parse_connection_permissions (connection_permission_names (connrec_id c) (acc_agents s))) (\<lambda>ps.
         if ps \<noteq> expected then Ok None
         else Ok (Some \<lparr>reu_id = AgentConnectionId (connrec_id c), reu_user_id = UserId (connrec_user_id c),
                        reu_workspace_id = WorkspaceId (connrec_workspace_id c), reu_permissions = ps\<rparr>))))"

record agent_connection_authority =
  aca_context :: agent_connection_context
  aca_auth0_subject :: string
  aca_auth0_client_id :: string
  aca_resource :: string

definition resolve_authority ::
  "agent_connection_id \<Rightarrow> access \<Rightarrow> repository_error + agent_connection_authority option" where
  "resolve_authority i s =
     and_then (at_most_one (filter (\<lambda>c. connrec_id c = agent_connection_uuid i \<and> connrec_status c = ''active''
         \<and> held_by_member s c) (connections_table (acc_agents s)))) (map_transpose (\<lambda>c.
       and_then (parse_connection_permissions (connection_permission_names (connrec_id c) (acc_agents s))) (\<lambda>ps.
       Ok \<lparr>aca_context = \<lparr>ctx_user_id = UserId (connrec_user_id c), ctx_connection_id = i,
              ctx_workspace_id = WorkspaceId (connrec_workspace_id c), ctx_permissions = permissions_from_iter ps\<rparr>,
           aca_auth0_subject = connrec_auth0_subject c, aca_auth0_client_id = connrec_auth0_client_id c,
           aca_resource = connrec_resource c\<rparr>)))"

record user_agent_connection_summary =
  uac_id :: agent_connection_id
  uac_client_name :: string
  uac_status :: connection_status
  uac_authorized_at :: datetime
  uac_last_used_at :: "datetime option"

definition connection_summary ::
  "connection_record \<times> datetime \<Rightarrow> repository_error + user_agent_connection_summary" where
  "connection_summary row =
     and_then (map_err (\<lambda>_. InvariantViolation ''unknown agent connection status'')
         (connection_status_from_str (connrec_status (fst row)))) (\<lambda>status.
       Ok \<lparr>uac_id = AgentConnectionId (connrec_id (fst row)), uac_client_name = connrec_client_display_name (fst row),
           uac_status = status, uac_authorized_at = snd row, uac_last_used_at = connrec_last_used_at (fst row)\<rparr>)"

definition list_for_user ::
  "user_id \<Rightarrow> access \<Rightarrow> repository_error + user_agent_connection_summary list" where
  "list_for_user u s =
     collect_results (map connection_summary (rev (sort_key (\<lambda>row. (snd row, connrec_id (fst row)))
       [(c, the (authrec_consumed_at a)). c \<leftarrow> connections_table (acc_agents s),
          connrec_user_id c = user_uuid u, connrec_status c \<in> {''authorized'', ''active''},
          a \<leftarrow> authorizations_table (acc_agents s), authrec_connection_id a = connrec_id c,
          authrec_consumed_at a \<noteq> None])))"

section \<open>OAuth authorization flows\<close>

record request_oauth_authorization =
  roa_request_id :: oauth_authorization_request_id
  roa_client_id :: string
  roa_client_name :: string
  roa_redirect_uri :: string
  roa_code_challenge :: string
  roa_state :: string
  roa_resource :: string
  roa_scopes :: "workspace_permission list"
  roa_csrf_token :: string
  roa_created_at :: datetime
  roa_expires_at :: datetime

record attach_oauth_subject =
  aos_csrf_token :: string
  aos_auth0_subject :: string
  aos_user_id :: user_id
  aos_attached_at :: datetime

record cancel_oauth_authorization =
  coa_request_id :: oauth_authorization_request_id
  coa_cancelled_at :: datetime

record approve_oauth_authorization =
  apo_request_id :: oauth_authorization_request_id
  apo_code :: string
  apo_agent_connection_id :: agent_connection_id
  apo_workspace_id :: workspace_id
  apo_approved_at :: datetime
  apo_code_expires_at :: datetime

record consume_oauth_code =
  coc_code :: string
  coc_client_id :: string
  coc_redirect_uri :: string
  coc_consumed_at :: datetime

record oauth_code_grant =
  ocg_request_id :: oauth_authorization_request_id
  ocg_agent_connection_id :: agent_connection_id
  ocg_workspace_id :: workspace_id
  ocg_client_id :: string
  ocg_redirect_uri :: string
  ocg_code_challenge :: string
  ocg_resource :: string
  ocg_scopes :: "workspace_permission list"
  ocg_auth0_subject :: string
  ocg_user_id :: user_id
  ocg_expires_at :: datetime

datatype oauth_command_error = OAuthUnavailable | OAuthInvalid | OAuthRepository repository_error

definition or_unavailable :: "repository_error + 'a option \<Rightarrow> oauth_command_error + 'a" where
  "or_unavailable r = and_then (map_err OAuthRepository r) (ok_or OAuthUnavailable)"

definition request_flow_tx :: "oauth_flow \<Rightarrow> (access, oauth_flow) tx" where
  "request_flow_tx flow =
     tx_bind (tx_read (access_flow_get (flow_id flow))) (\<lambda>found.
     case found of
       Some existing \<Rightarrow>
         if existing = flow then tx_return existing
         else tx_fail (InvariantViolation ''OAuth authorization request replay changed its intent'')
     | None \<Rightarrow> tx_bind (tx_write (access_flow_save flow)) (\<lambda>_. tx_return flow))"

definition handle_request_oauth_authorization ::
  "access_env \<Rightarrow> request_oauth_authorization \<Rightarrow> access \<Rightarrow> (oauth_command_error + oauth_flow) \<times> access" where
  "handle_request_oauth_authorization env cmd s =
     (case canonical_permissions (roa_scopes cmd) of
        Inl _ \<Rightarrow> (Err OAuthInvalid, s)
      | Inr scopes \<Rightarrow>
          (case flow_request (roa_request_id cmd) (roa_client_id cmd) (roa_client_name cmd) (roa_redirect_uri cmd)
              (roa_code_challenge cmd) (roa_state cmd) (roa_resource cmd) scopes
              (access_digest env (roa_csrf_token cmd)) (roa_created_at cmd) (roa_expires_at cmd) of
             Inl _ \<Rightarrow> (Err OAuthInvalid, s)
           | Inr flow \<Rightarrow> apfst (map_err OAuthRepository) (in_unit_of_work (request_flow_tx flow) s)))"

definition resolve_id_by_csrf_digest ::
  "sha256_digest \<Rightarrow> access \<Rightarrow> repository_error + oauth_authorization_request_id option" where
  "resolve_id_by_csrf_digest digest s =
     and_then (at_most_one (filter (\<lambda>r. flowrec_csrf_token_digest r = as_bytes digest) (flows_table (acc_oauth s))))
       (\<lambda>row. Ok (map_option (\<lambda>r. OAuthAuthorizationRequestId (flowrec_id r)) row))"

definition resolve_id_by_code_digest ::
  "sha256_digest \<Rightarrow> access \<Rightarrow> repository_error + oauth_authorization_request_id option" where
  "resolve_id_by_code_digest digest s =
     and_then (at_most_one (filter (\<lambda>r. coderec_code_digest r = as_bytes digest) (codes_table (acc_oauth s))))
       (\<lambda>row. Ok (map_option (\<lambda>r. OAuthAuthorizationRequestId (coderec_request_id r)) row))"

text \<open>Loading a flow, changing it and saving it; a refused change gives nothing.\<close>

definition change_flow_tx ::
  "oauth_authorization_request_id \<Rightarrow> (oauth_flow \<Rightarrow> oauth_flow_error + oauth_flow) \<Rightarrow> (access, oauth_flow option) tx" where
  "change_flow_tx i change =
     tx_bind (tx_read (access_flow_get i)) (\<lambda>found.
     case found of
       None \<Rightarrow> tx_return None
     | Some flow \<Rightarrow>
         (case change flow of
            Inl _ \<Rightarrow> tx_return None
          | Inr flow \<Rightarrow> tx_bind (tx_write (access_flow_save flow)) (\<lambda>_. tx_return (Some flow))))"

definition attach_subject_tx ::
  "access_env \<Rightarrow> attach_oauth_subject \<Rightarrow> (access, oauth_flow option) tx" where
  "attach_subject_tx env cmd =
     tx_bind (tx_read (resolve_id_by_csrf_digest (access_digest env (aos_csrf_token cmd)))) (\<lambda>found.
     case found of
       None \<Rightarrow> tx_return None
     | Some i \<Rightarrow> change_flow_tx i (attach_subject (aos_auth0_subject cmd) (aos_user_id cmd) (aos_attached_at cmd)))"

definition handle_attach_oauth_subject ::
  "access_env \<Rightarrow> attach_oauth_subject \<Rightarrow> access \<Rightarrow> (oauth_command_error + oauth_flow) \<times> access" where
  "handle_attach_oauth_subject env cmd s = apfst or_unavailable (in_unit_of_work (attach_subject_tx env cmd) s)"

definition handle_cancel_oauth_authorization ::
  "cancel_oauth_authorization \<Rightarrow> access \<Rightarrow> (oauth_command_error + oauth_flow) \<times> access" where
  "handle_cancel_oauth_authorization cmd s =
     apfst or_unavailable (in_unit_of_work
       (change_flow_tx (coa_request_id cmd) (flow_cancel (coa_cancelled_at cmd))) s)"

definition handle_approve_oauth_authorization ::
  "access_env \<Rightarrow> approve_oauth_authorization \<Rightarrow> access \<Rightarrow> (oauth_command_error + oauth_flow) \<times> access" where
  "handle_approve_oauth_authorization env cmd s =
     apfst or_unavailable (in_unit_of_work
       (change_flow_tx (apo_request_id cmd)
         (approve_and_issue_code (access_digest env (apo_code cmd)) (apo_agent_connection_id cmd)
           (apo_workspace_id cmd) (apo_approved_at cmd) (apo_code_expires_at cmd))) s)"

definition code_grant :: "oauth_flow \<Rightarrow> repository_error + oauth_code_grant" where
  "code_grant flow =
     and_then (ok_or (InvariantViolation ''consumed OAuth flow must contain a code'')
         (flow_authorization_code flow)) (\<lambda>code.
     and_then (ok_or (InvariantViolation ''OAuth code missing subject'') (flow_auth0_subject flow)) (\<lambda>subject.
     and_then (ok_or (InvariantViolation ''OAuth code missing user'') (flow_user_id flow)) (\<lambda>user.
       Ok \<lparr>ocg_request_id = flow_id flow, ocg_agent_connection_id = code_agent_connection_id code,
           ocg_workspace_id = code_workspace_id code, ocg_client_id = flow_client_id flow,
           ocg_redirect_uri = flow_redirect_uri flow, ocg_code_challenge = flow_code_challenge flow,
           ocg_resource = flow_resource flow, ocg_scopes = flow_scopes flow, ocg_auth0_subject = subject,
           ocg_user_id = user, ocg_expires_at = code_expires_at code\<rparr>)))"

definition consume_code_tx ::
  "access_env \<Rightarrow> consume_oauth_code \<Rightarrow> (access, oauth_code_grant option) tx" where
  "consume_code_tx env cmd =
     tx_bind (tx_read (resolve_id_by_code_digest (access_digest env (coc_code cmd)))) (\<lambda>found.
     case found of
       None \<Rightarrow> tx_return None
     | Some i \<Rightarrow>
         tx_bind (tx_read (access_flow_get i)) (\<lambda>found.
         case found of
           None \<Rightarrow> tx_return None
         | Some flow \<Rightarrow>
             (case consume_code (coc_client_id cmd) (coc_redirect_uri cmd) (coc_consumed_at cmd) flow of
                Inl _ \<Rightarrow> tx_return None
              | Inr flow \<Rightarrow>
                  tx_bind (tx_lift (code_grant flow)) (\<lambda>grant.
                  tx_bind (tx_write (access_flow_save flow)) (\<lambda>_. tx_return (Some grant))))))"

definition handle_consume_oauth_code ::
  "access_env \<Rightarrow> consume_oauth_code \<Rightarrow> access \<Rightarrow> (oauth_command_error + oauth_code_grant) \<times> access" where
  "handle_consume_oauth_code env cmd s = apfst or_unavailable (in_unit_of_work (consume_code_tx env cmd) s)"

section \<open>Reading flows\<close>

record oauth_consent_context =
  occ_request_id :: oauth_authorization_request_id
  occ_client_name :: string
  occ_client_id :: string
  occ_redirect_uri :: string
  occ_state :: string
  occ_resource :: string
  occ_scopes :: "workspace_permission list"
  occ_auth0_subject :: string
  occ_user_id :: user_id
  occ_workspace_id :: workspace_id
  occ_expires_at :: datetime

definition consent_context_from_row ::
  "flow_record \<times> membership_record \<Rightarrow> repository_error + oauth_consent_context" where
  "consent_context_from_row row =
     (case row of (r, m) \<Rightarrow>
        and_then (parse_permissions (flowrec_scopes r)) (\<lambda>scopes.
        and_then (ok_or (Database DriverFailure) (flowrec_auth0_subject r)) (\<lambda>subject.
        and_then (ok_or (Database DriverFailure) (flowrec_user_id r)) (\<lambda>user.
          Ok \<lparr>occ_request_id = OAuthAuthorizationRequestId (flowrec_id r), occ_client_name = flowrec_client_name r,
              occ_client_id = flowrec_client_id r, occ_redirect_uri = flowrec_redirect_uri r,
              occ_state = flowrec_state r, occ_resource = flowrec_resource r, occ_scopes = scopes,
              occ_auth0_subject = subject, occ_user_id = UserId user,
              occ_workspace_id = WorkspaceId (memrec_workspace_id m), occ_expires_at = flowrec_expires_at r\<rparr>))))"

definition read_oauth_consent_context ::
  "oauth_authorization_request_id \<Rightarrow> datetime \<Rightarrow> access \<Rightarrow> repository_error + oauth_consent_context option" where
  "read_oauth_consent_context i now s =
     and_then (at_most_one
       [(r, m). r \<leftarrow> flows_table (acc_oauth s), flowrec_id r = oauth_authorization_request_uuid i,
          flowrec_consumed_at r = None, flowrec_expires_at r > now, flowrec_auth0_subject r \<noteq> None,
          m \<leftarrow> memberships_table (ppl_workspaces (acc_people s)), flowrec_user_id r = Some (memrec_user_id m)])
       (map_transpose consent_context_from_row)"

record oauth_grant_view =
  ogv_client_id :: string
  ogv_redirect_uri :: string
  ogv_code_challenge :: string
  ogv_resource :: string
  ogv_scopes :: "workspace_permission list"
  ogv_auth0_subject :: string
  ogv_user_id :: user_id
  ogv_agent_connection_id :: agent_connection_id
  ogv_workspace_id :: workspace_id

definition grant_view_from_row :: "flow_record \<times> code_record \<Rightarrow> repository_error + oauth_grant_view" where
  "grant_view_from_row row =
     (case row of (r, c) \<Rightarrow>
        and_then (parse_permissions (flowrec_scopes r)) (\<lambda>scopes.
        and_then (ok_or (Database DriverFailure) (flowrec_auth0_subject r)) (\<lambda>subject.
        and_then (ok_or (Database DriverFailure) (flowrec_user_id r)) (\<lambda>user.
          Ok \<lparr>ogv_client_id = flowrec_client_id r, ogv_redirect_uri = flowrec_redirect_uri r,
              ogv_code_challenge = flowrec_code_challenge r, ogv_resource = flowrec_resource r,
              ogv_scopes = scopes, ogv_auth0_subject = subject, ogv_user_id = UserId user,
              ogv_agent_connection_id = AgentConnectionId (coderec_agent_connection_id c),
              ogv_workspace_id = WorkspaceId (coderec_workspace_id c)\<rparr>))))"

definition read_oauth_authorization_grant ::
  "oauth_authorization_request_id \<Rightarrow> access \<Rightarrow> repository_error + oauth_grant_view option" where
  "read_oauth_authorization_grant i s =
     and_then (at_most_one
       [(r, c). r \<leftarrow> flows_table (acc_oauth s), flowrec_id r = oauth_authorization_request_uuid i,
          c \<leftarrow> codes_table (acc_oauth s), coderec_request_id c = flowrec_id r])
       (map_transpose grant_view_from_row)"

end
