(* ===== verification/Access_Safety.thy ===== *)
theory Access_Safety
  imports Access_Commands People_Safety
begin

text \<open>
  The connection commands, the OAuth commands and the commands on people in any order. Every stored
  connection runs through the operations of the aggregate: \<open>connection_evolves\<close> says which, so the laws of
  the aggregate (both secrets for activation, revocation is final) hold of the stored connections.
\<close>

section \<open>Loading and saving\<close>

definition loaded_connection :: "agent_connection_id \<Rightarrow> access \<Rightarrow> agent_connection option" where
  "loaded_connection i s = (case access_connection_get i s of Inl _ \<Rightarrow> None | Inr found \<Rightarrow> found)"

lemma access_get_iff:
  "access_connection_get i s = Inr (Some c) \<longleftrightarrow> loaded_connection i s = Some c"
  by (simp add: loaded_connection_def split: sum.split)

lemma loaded_permissions_sorted:
  assumes "collect_results (map (\<lambda>p. map_err (\<lambda>_. e) (permission_from_str p)) names) = Inr ps"
    and "sorted (map permission_position names)"
  shows "sorted (map permission_index ps)"
proof -
  have "list_all2 (\<lambda>n p. permission_as_str p = n) names ps"
    using collect_results_all2 [OF assms(1)]
    by (rule list_all2_mono) (auto simp: map_err_Ok_iff intro: permission_from_str_Ok)
  then have "map permission_position names = map permission_index ps"
    by (induction rule: list_all2_induct) auto
  with assms(2) show ?thesis by simp
qed

lemma connection_get_wf:
  assumes "connection_get i t = Inr (Some c)"
  shows "wf_connection c \<and> canonical_connection c \<and> conn_id c = i"
proof -
  from assms obtain r a where r: "find_row connrec_id (agent_connection_uuid i) (connections_table t) = Some r"
    and c: "connection_into_domain r (connection_permission_names (agent_connection_uuid i) t) a = Inr c"
    by (auto simp: connection_get_def Let_def and_then_Ok_iff split: option.splits)
  from find_row_SomeD [OF r] have i: "AgentConnectionId (connrec_id r) = i" by simp
  have "sorted (map permission_position (connection_permission_names (agent_connection_uuid i) t))"
    by (simp add: connection_permission_names_def)
  with c i show ?thesis
    by (auto simp: connection_into_domain_def and_then_Ok_iff map_err_Ok_iff connection_rehydrate_Ok_iff
        canonical_connection_def digest_from_bytes_def split: if_splits intro: loaded_permissions_sorted)
qed

lemma loaded_wf:
  assumes "loaded_connection i s = Some c"
  shows "wf_connection c" "canonical_connection c" "conn_id c = i"
  using connection_get_wf [of i "acc_agents s" c] assms
  by (simp_all add: access_get_iff [symmetric] access_connection_get_def)

lemma access_connection_save_Ok:
  assumes "access_connection_save c s = Inr t"
  shows "acc_people t = acc_people s" "acc_oauth t = acc_oauth s"
    "connection_save c (acc_agents s) = Inr (acc_agents t)"
    "conn_created_at c < conn_pending_expires_at c"
    "is_none_or (\<lambda>x. conn_created_at c \<le> x) (conn_activated_at c)"
    "is_none_or (\<lambda>x. conn_created_at c \<le> x) (conn_last_used_at c)"
    "is_none_or (\<lambda>x. conn_created_at c \<le> x) (conn_revoked_at c)"
    "is_none_or (\<lambda>x. conn_created_at c \<le> x) (auth_consumed_at (conn_authorization c))"
    "length (as_bytes (auth_continuation_digest (conn_authorization c))) = 32"
    "length (as_bytes (auth_nonce_digest (conn_authorization c))) = 32"
proof -
  have none: "is_none_or (\<lambda>x. a \<le> x) o' \<longleftrightarrow> \<not> is_some_and (\<lambda>x. x < a) o'" for a :: int and o'
    by (cases o') auto
  from assms obtain u v where
    v: "first_violation (connection_violations (acc_people s) (connection_from_domain c)) = Inr u"
       "first_violation (authorization_violations (authorization_from_domain c)) = Inr v"
    and t: "connection_save c (acc_agents s) = Inr (acc_agents t)" "acc_people t = acc_people s" "acc_oauth t = acc_oauth s"
    by (auto simp: access_connection_save_def and_then_Ok_iff)
  from t show "acc_people t = acc_people s" "acc_oauth t = acc_oauth s"
    "connection_save c (acc_agents s) = Inr (acc_agents t)" by simp_all
  from v [unfolded first_violation_Ok_iff connection_violations_def authorization_violations_def]
  show "conn_created_at c < conn_pending_expires_at c"
    "is_none_or (\<lambda>x. conn_created_at c \<le> x) (conn_activated_at c)"
    "is_none_or (\<lambda>x. conn_created_at c \<le> x) (conn_last_used_at c)"
    "is_none_or (\<lambda>x. conn_created_at c \<le> x) (conn_revoked_at c)"
    "is_none_or (\<lambda>x. conn_created_at c \<le> x) (auth_consumed_at (conn_authorization c))"
    "length (as_bytes (auth_continuation_digest (conn_authorization c))) = 32"
    "length (as_bytes (auth_nonce_digest (conn_authorization c))) = 32"
    by (simp_all add: connection_from_domain_def authorization_from_domain_def none)
qed

text \<open>What no operation of a connection changes, whatever the clock says.\<close>

lemma connection_step_kept [simp]:
  "conn_auth0_subject (connection_step op c) = conn_auth0_subject c"
  "conn_auth0_client_id (connection_step op c) = conn_auth0_client_id c"
  "conn_client_display_name (connection_step op c) = conn_client_display_name c"
  "conn_resource (connection_step op c) = conn_resource c"
  "conn_created_at (connection_step op c) = conn_created_at c"
  by (cases op; auto simp: op_defs)+

definition fields_valid :: "agent_connection \<Rightarrow> bool" where
  "fields_valid c \<longleftrightarrow> status_fields_valid (conn_status c) (conn_activated_at c) (conn_revoked_at c)
     (auth_consumed_at (conn_authorization c))"

lemma connection_step_fields: "fields_valid c \<Longrightarrow> fields_valid (connection_step op c)"
  by (cases op; cases "conn_status c") (auto simp: fields_valid_def op_defs)

text \<open>
  A connection that was loaded, changed by operations and saved: the constraints of the tables reject
  the times before its creation that the operations accept, so it loads again.
\<close>

lemma saved_connection_wf:
  assumes c: "wf_connection c" "canonical_connection c" and "access_connection_save (fold connection_step ops c) s = Inr t"
  shows "wf_connection (fold connection_step ops c) \<and> canonical_connection (fold connection_step ops c)"
proof -
  let ?d = "fold connection_step ops c"
  have "fields_valid c" using c(1) by (simp add: wf_connection_iff fields_valid_def)
  then have "fields_valid ?d" by (induction ops arbitrary: c) (simp_all add: connection_step_fields)
  moreover have "conn_permissions ?d = conn_permissions c" "conn_auth0_subject ?d = conn_auth0_subject c"
    "conn_auth0_client_id ?d = conn_auth0_client_id c" "conn_client_display_name ?d = conn_client_display_name c"
    "conn_resource ?d = conn_resource c"
    by (simp_all add: fold_keeps)
  ultimately show ?thesis
    using c access_connection_save_Ok [OF assms(3)]
    by (simp add: wf_connection_iff canonical_connection_def fields_valid_def)
qed

lemma loaded_after_save:
  assumes "wf_connection c" and "canonical_connection c" and "access_connection_save c s = Inr t"
  shows "loaded_connection i t = (if i = conn_id c then Some c else loaded_connection i s)"
  using connection_save_get [OF access_connection_save_Ok(3) [OF assms(3)] assms(1,2)]
    connection_save_get_other [OF access_connection_save_Ok(3) [OF assms(3)]]
  by (simp add: loaded_connection_def access_connection_get_def)

section \<open>What a command does to a connection\<close>

text \<open>
  \<open>changes_by ops s i t\<close>: from \<open>s\<close> to \<open>t\<close> the connection \<open>i\<close> goes through \<open>ops\<close> and every other one, and
  everything else in the tables, stays.
\<close>

definition changes_by :: "connection_op list \<Rightarrow> access \<Rightarrow> agent_connection_id \<Rightarrow> access \<Rightarrow> bool" where
  "changes_by ops s i t \<longleftrightarrow> acc_people t = acc_people s
     \<and> (\<forall>j. loaded_connection j t =
           (if j = i then map_option (fold connection_step ops) (loaded_connection j s) else loaded_connection j s))"

lemma changes_by_nothing [simp]: "changes_by [] s i s"
  by (simp add: changes_by_def option.map_id0 option.map_ident)

lemma saved_changes_by:
  assumes "loaded_connection i s = Some c" and "d = fold connection_step ops c"
    and "access_connection_save d s = Inr t"
  shows "changes_by ops s i t"
proof -
  have "conn_id d = i" using loaded_wf(3) [OF assms(1)] by (simp add: assms(2) fold_keeps)
  moreover have "wf_connection d \<and> canonical_connection d"
    using saved_connection_wf [OF loaded_wf(1,2) [OF assms(1)]] assms(2,3) by simp
  ultimately show ?thesis
    using loaded_after_save [of d s t] access_connection_save_Ok(1) [OF assms(3)] assms
    by (simp add: changes_by_def)
qed

lemma role_is_member:
  assumes "get_membership_role w u s = Inr (Some role)" shows "is_member s u w"
  using assms
  by (cases "find (\<lambda>m. memrec_workspace_id m = workspace_uuid w \<and> memrec_user_id m = user_uuid u)
      (memberships_table (ppl_workspaces s))")
    (auto simp: get_membership_role_def is_member_def list_ex_iff find_Some_iff and_then_Ok_iff intro: nth_mem)

lemma user_is_eligible_post [tx_post]:
  "tx_ensures (user_is_eligible c) Q s \<longleftrightarrow>
     (\<forall>x. fst (user_is_eligible c s) = Inr x \<longrightarrow> Q x s)"
proof -
  have "snd (user_is_eligible c s) = s"
    by (simp add: user_is_eligible_def tx_defs split: sum.split prod.split)
  then show ?thesis by (cases "user_is_eligible c s") (auto simp: tx_ensures_def)
qed

lemma eligible_is_member:
  "fst (user_is_eligible c s) = Inr True \<Longrightarrow> is_member (acc_people s) (conn_user_id c) (conn_workspace_id c)"
  by (auto simp: user_is_eligible_def tx_defs users_auth0_sub_def intro: role_is_member
      split: sum.splits if_splits option.splits)


lemma request_connection_post:
  "tx_ensures (request_connection_tx c) (\<lambda>x t. x = c \<and> access_connection_save c s = Inr t
     \<and> is_member (acc_people s) (conn_user_id c) (conn_workspace_id c)) s"
  by (auto simp: request_connection_tx_def tx_post intro: role_is_member)

lemma deny_connection_post:
  "tx_ensures (deny_connection_tx env i) (\<lambda>x t. t = s \<or> changes_by [RevokeConnOp (ae_clock env 0)] s i t) s"
  by (auto simp: deny_connection_tx_def tx_post access_get_iff map_err_Ok_iff intro!: saved_changes_by)

lemma consume_connection_post:
  "tx_ensures (consume_connection_tx env cmd i) (\<lambda>x t. t = s
     \<or> changes_by [ConsumeOp (access_digest env (cac_continuation_token cmd)) (access_digest env (cac_nonce cmd))
         (ae_clock env 0)] s i t) s"
  by (auto simp: consume_connection_tx_def tx_post access_get_iff split: connection_consumption.split prod.split
      intro!: saved_changes_by)

lemma activate_connection_post:
  "tx_ensures (activate_connection_tx env i) (\<lambda>x t. t = s \<or> changes_by [ActivateOp (ae_clock env 0)] s i t) s"
  by (auto simp: activate_connection_tx_def tx_post access_get_iff split: connection_activation.split prod.split
      intro!: saved_changes_by)

lemma use_connection_post:
  "tx_ensures (use_connection_tx env i) (\<lambda>x t. t = s \<or> changes_by [UseOp (ae_clock env 0)] s i t) s"
  by (auto simp: use_connection_tx_def tx_post access_get_iff split: connection_use.split prod.split
      intro!: saved_changes_by)

lemma revoke_connection_post:
  "tx_ensures (revoke_connection_tx env cmd) (\<lambda>x t.
     (t = s \<or> changes_by [RevokeConnOp (ae_clock env 0)] s (rvc_connection_id cmd) t)
     \<and> (x \<longrightarrow> (\<exists>c. loaded_connection (rvc_connection_id cmd) t = Some c \<and> conn_status c = ConnRevoked))) s"
proof -
  have revoked: "conn_status d = ConnRevoked" if "connection_revoke u c = Inr (d, o')" for u c d o'
    using that by (auto simp: connection_revoke_def split: if_splits)
  have "changes_by [RevokeConnOp u] s i t \<and> (\<exists>c. loaded_connection i t = Some c \<and> conn_status c = ConnRevoked)"
    if c: "loaded_connection i s = Some c" and d: "connection_revoke u c = Inr (d, o')"
      and t: "access_connection_save d s = Inr t" for i c d o' t u
    using saved_changes_by [OF c _ t, of "[RevokeConnOp u]"] c d revoked [OF d]
    by (simp add: changes_by_def)
  then show ?thesis
    by (auto simp: revoke_connection_tx_def tx_post access_get_iff map_err_Ok_iff case_prod_beta
        split: connection_revocation.split prod.split)
qed

text \<open>A successful authorization activates where it still may, and records the use.\<close>

lemma authorize_connection_post:
  "tx_ensures (authorize_connection_tx env cmd expected) (\<lambda>x t.
     (x = None \<and> t = s)
     \<or> (\<exists>c d. loaded_connection (aac_connection_id cmd) s = Some c
          \<and> d = fold connection_step [ActivateOp (ae_clock env 0), UseOp (ae_clock env 1)] c
          \<and> x = Some (connection_context d) \<and> conn_status d = ConnActive \<and> conn_permissions c = expected
          \<and> is_member (acc_people s) (conn_user_id c) (conn_workspace_id c)
          \<and> changes_by [ActivateOp (ae_clock env 0), UseOp (ae_clock env 1)] s (aac_connection_id cmd) t)) s"
proof -
  let ?ops = "[ActivateOp (ae_clock env 0), UseOp (ae_clock env 1)]"
  let ?d = "\<lambda>c. fst (use_at (ae_clock env (Suc 0)) (fst (connection_activate (ae_clock env 0) c)))"
  have step: "conn_status (?d c) = ConnActive \<and> changes_by ?ops s (aac_connection_id cmd) t"
    if "loaded_connection (aac_connection_id cmd) s = Some c"
      and "snd (use_at (ae_clock env (Suc 0)) (fst (connection_activate (ae_clock env 0) c))) = ConnectionUsed"
      and "access_connection_save (?d c) s = Inr t" for c t
    using saved_changes_by [OF that(1) _ that(3), of ?ops] that(2) by (auto simp: use_at_def split: if_splits)
  have member: "is_member (acc_people s) (conn_user_id c) w"
    if "fst (user_is_eligible c s) = Inr True" "conn_workspace_id c = w" for c w
    using eligible_is_member [OF that(1)] that(2) by simp
  show ?thesis
    by (auto simp: authorize_connection_tx_def tx_post access_get_iff
        split: connection_activation.split connection_use.split prod.split
        dest: step [simplified] intro: member)
qed

lemma access_flow_save_agents: "access_flow_save f s = Inr t \<Longrightarrow> acc_agents t = acc_agents s \<and> acc_people t = acc_people s"
  by (auto simp: access_flow_save_def and_then_Ok_iff)

lemma flow_tx_agents:
  "tx_ensures (request_flow_tx flow) (\<lambda>x t. acc_agents t = acc_agents s \<and> acc_people t = acc_people s) s"
  "tx_ensures (change_flow_tx i change) (\<lambda>x t. acc_agents t = acc_agents s \<and> acc_people t = acc_people s) s"
  "tx_ensures (attach_subject_tx env acmd) (\<lambda>x t. acc_agents t = acc_agents s \<and> acc_people t = acc_people s) s"
  "tx_ensures (consume_code_tx env ccmd) (\<lambda>x t. acc_agents t = acc_agents s \<and> acc_people t = acc_people s) s"
  by (auto simp: request_flow_tx_def change_flow_tx_def attach_subject_tx_def consume_code_tx_def tx_post
      access_flow_save_agents)

section \<open>Commands in any order\<close>

datatype access_command =
    PeopleCmd people_command
  | RequestConn access_env request_agent_connection
  | DenyConn access_env string
  | ConsumeConn access_env consume_agent_connection
  | ActivateConn access_env agent_connection_id
  | AuthorizeConn access_env authorize_agent_connection
  | UseConn access_env agent_connection_id
  | RevokeConn access_env revoke_agent_connection
  | RequestFlow access_env request_oauth_authorization
  | AttachSubject access_env attach_oauth_subject
  | CancelFlow cancel_oauth_authorization
  | ApproveFlow access_env approve_oauth_authorization
  | ConsumeCode access_env consume_oauth_code

fun access_step :: "access_command \<Rightarrow> access \<Rightarrow> access" where
  "access_step (PeopleCmd c) s = s\<lparr>acc_people := people_step c (acc_people s)\<rparr>"
| "access_step (RequestConn env cmd) s = snd (handle_request_agent_connection env cmd s)"
| "access_step (DenyConn env token) s = snd (handle_deny_agent_connection env token s)"
| "access_step (ConsumeConn env cmd) s = snd (handle_consume_agent_connection env cmd s)"
| "access_step (ActivateConn env i) s = snd (handle_activate_agent_connection env i s)"
| "access_step (AuthorizeConn env cmd) s = snd (handle_authorize_agent_connection env cmd s)"
| "access_step (UseConn env i) s = snd (handle_use_agent_connection env i s)"
| "access_step (RevokeConn env cmd) s = snd (handle_revoke_agent_connection env cmd s)"
| "access_step (RequestFlow env cmd) s = snd (handle_request_oauth_authorization env cmd s)"
| "access_step (AttachSubject env cmd) s = snd (handle_attach_oauth_subject env cmd s)"
| "access_step (CancelFlow cmd) s = snd (handle_cancel_oauth_authorization cmd s)"
| "access_step (ApproveFlow env cmd) s = snd (handle_approve_oauth_authorization env cmd s)"
| "access_step (ConsumeCode env cmd) s = snd (handle_consume_oauth_code env cmd s)"

text \<open>A new connection has a new id.\<close>

fun access_allowed :: "access_command \<Rightarrow> access \<Rightarrow> bool" where
  "access_allowed (RequestConn env cmd) s \<longleftrightarrow>
     \<not> row_exists connrec_id (ae_connection_id env) (connections_table (acc_agents s))"
| "access_allowed _ s \<longleftrightarrow> True"

definition access_empty :: "access \<Rightarrow> bool" where
  "access_empty s \<longleftrightarrow> connections_table (acc_agents s) = []"

text \<open>The operations of the aggregate a command may apply.\<close>

fun command_ops :: "access_command \<Rightarrow> connection_op list" where
  "command_ops (DenyConn env token) = [RevokeConnOp (ae_clock env 0)]"
| "command_ops (ConsumeConn env cmd) =
     [ConsumeOp (access_digest env (cac_continuation_token cmd)) (access_digest env (cac_nonce cmd)) (ae_clock env 0)]"
| "command_ops (ActivateConn env i) = [ActivateOp (ae_clock env 0)]"
| "command_ops (AuthorizeConn env cmd) = [ActivateOp (ae_clock env 0), UseOp (ae_clock env 1)]"
| "command_ops (UseConn env i) = [UseOp (ae_clock env 0)]"
| "command_ops (RevokeConn env cmd) = [RevokeConnOp (ae_clock env 0)]"
| "command_ops _ = []"


definition connection_evolves :: "connection_op list \<Rightarrow> access \<Rightarrow> access \<Rightarrow> bool" where
  "connection_evolves ops s t \<longleftrightarrow> (\<forall>i. loaded_connection i t = loaded_connection i s
     \<or> loaded_connection i t = map_option (fold connection_step ops) (loaded_connection i s))"

lemma evolves_refl [simp]: "connection_evolves ops s s"
  by (simp add: connection_evolves_def)

lemma changes_by_evolves: "t = s \<or> changes_by ops s i t \<Longrightarrow> connection_evolves ops s t"
  by (auto simp: connection_evolves_def changes_by_def)

lemma same_agents_evolves: "acc_agents t = acc_agents s \<Longrightarrow> connection_evolves ops s t"
  by (simp add: connection_evolves_def loaded_connection_def access_connection_get_def)

lemma unit_evolves:
  assumes "tx_ensures m Q s" and "\<And>x t. Q x t \<Longrightarrow> connection_evolves ops s t"
  shows "connection_evolves ops s (snd (in_unit_of_work m s))"
  by (rule unit_of_work_post) (auto intro: tx_ensures_mono [OF assms(1)] assms(2))

lemma authorize_evolves:
  "connection_evolves [ActivateOp (ae_clock env 0), UseOp (ae_clock env 1)] s
     (snd (in_unit_of_work (authorize_connection_tx env cmd expected) s))"
  by (rule unit_evolves [OF authorize_connection_post]) (auto intro: changes_by_evolves)

lemma revoke_evolves:
  "connection_evolves [RevokeConnOp (ae_clock env 0)] s (snd (in_unit_of_work (revoke_connection_tx env cmd) s))"
  by (rule unit_evolves [OF revoke_connection_post]) (auto intro: changes_by_evolves)

lemmas units_evolve =
  unit_evolves [OF deny_connection_post changes_by_evolves] unit_evolves [OF consume_connection_post changes_by_evolves]
  unit_evolves [OF activate_connection_post changes_by_evolves] unit_evolves [OF use_connection_post changes_by_evolves]
  authorize_evolves revoke_evolves

lemma flow_units_evolve:
  "connection_evolves ops s (snd (in_unit_of_work (request_flow_tx flow) s))"
  "connection_evolves ops s (snd (in_unit_of_work (change_flow_tx i change) s))"
  "connection_evolves ops s (snd (in_unit_of_work (attach_subject_tx env acmd) s))"
  "connection_evolves ops s (snd (in_unit_of_work (consume_code_tx env ccmd) s))"
  by (rule unit_evolves, rule flow_tx_agents, blast intro: same_agents_evolves)+

lemmas access_handler_defs =
  handle_deny_agent_connection_def handle_consume_agent_connection_def handle_activate_agent_connection_def
  handle_authorize_agent_connection_def handle_use_agent_connection_def handle_revoke_agent_connection_def
  handle_request_oauth_authorization_def handle_attach_oauth_subject_def handle_cancel_oauth_authorization_def
  handle_approve_oauth_authorization_def handle_consume_oauth_code_def

lemma access_step_evolves:
  assumes "\<And>env cmd. op \<noteq> RequestConn env cmd"
  shows "connection_evolves (command_ops op) s (access_step op s)"
proof (cases op)
  case (PeopleCmd c)
  then show ?thesis by (simp add: same_agents_evolves)
next
  case (RequestConn env cmd)
  with assms show ?thesis by blast
qed (auto simp: access_handler_defs units_evolve [simplified] flow_units_evolve split: sum.split option.split)

lemma canonical_permissions_sorted:
  assumes "canonical_permissions values = Inr ps" shows "sorted (map permission_index ps)"
proof -
  have "sorted (map permission_index all_permissions)" by (simp add: all_permissions_def)
  with assms show ?thesis by (simp add: canonical_permissions_Ok_iff sorted_filter)
qed

text \<open>The connection a successful request stores.\<close>

definition requested_as :: "access_env \<Rightarrow> request_agent_connection \<Rightarrow> agent_connection \<Rightarrow> bool" where
  "requested_as env cmd c \<longleftrightarrow>
     conn_id c = AgentConnectionId (ae_connection_id env) \<and> conn_user_id c = rac_user_id cmd
     \<and> conn_workspace_id c = rac_workspace_id cmd
     \<and> canonical_permissions (rac_permissions cmd) = Inr (conn_permissions c)
     \<and> conn_status c = ConnPending \<and> conn_pending_expires_at c = rac_expires_at cmd
     \<and> auth_continuation_digest (conn_authorization c) = access_digest env (rac_continuation_token cmd)
     \<and> auth_nonce_digest (conn_authorization c) = access_digest env (rac_nonce cmd)"

lemma request_step:
  "(fst (handle_request_agent_connection env cmd s) = Inr c \<longrightarrow>
     requested_as env cmd c \<and> is_member (acc_people s) (rac_user_id cmd) (rac_workspace_id cmd)
     \<and> loaded_connection i (access_step (RequestConn env cmd) s)
         = (if i = conn_id c then Some c else loaded_connection i s))
   \<and> (is_err (fst (handle_request_agent_connection env cmd s)) \<longrightarrow> access_step (RequestConn env cmd) s = s)"
proof -
  have loaded: "loaded_connection j t = (if j = conn_id d then Some d else loaded_connection j s)"
    if "canonical_permissions (rac_permissions cmd) = Inr ps"
      and "connection_request i' tr u w sb cl dn rs ps x k n t0 = Inr d" and "access_connection_save d s = Inr t"
    for ps i' tr u w sb cl dn rs x k n t0 d t j
  proof -
    have "wf_connection d" using connection_request_wf [OF that(2)] by simp
    moreover have "sorted (map permission_index ps)"
      using that(1) canonical_permissions_sorted by blast
    then have "canonical_connection d"
      using that(2) access_connection_save_Ok(9,10) [OF that(3)]
      by (auto simp: canonical_connection_def connection_request_def split: if_splits)
    ultimately show ?thesis using loaded_after_save that(3) by blast
  qed
  have unit: "in_unit_of_work (request_connection_tx d) s = (r, t) \<Longrightarrow>
      (case r of Inl e \<Rightarrow> t = s | Inr x \<Rightarrow> x = d \<and> access_connection_save d s = Inr t
         \<and> is_member (acc_people s) (conn_user_id d) (conn_workspace_id d))" for d r t
    using tx_ensuresD [OF request_connection_post] unit_of_work_Err by (auto split: sum.splits)
  show ?thesis
  proof (cases "canonical_permissions (rac_permissions cmd)")
    case (Inr ps)
    then show ?thesis
    proof (cases "connection_request (AgentConnectionId (ae_connection_id env))
        (AgentAuthorizationTransactionId (ae_transaction_id env)) (rac_user_id cmd) (rac_workspace_id cmd)
        (rac_auth0_subject cmd) (rac_auth0_client_id cmd) (rac_client_display_name cmd) (rac_resource cmd)
        ps (rac_expires_at cmd) (access_digest env (rac_continuation_token cmd))
        (access_digest env (rac_nonce cmd)) (ae_clock env 0)")
      case d: (Inr d)
      obtain r t where rt: "in_unit_of_work (request_connection_tx d) s = (r, t)" by fastforce
      have "requested_as env cmd d" "conn_user_id d = rac_user_id cmd" "conn_workspace_id d = rac_workspace_id cmd"
        using d Inr by (auto simp: requested_as_def connection_request_def split: if_splits)
      moreover have "handle_request_agent_connection env cmd s =
          (if ps = [] then (Err RequestInvalid, s) else (map_err request_error r, t))"
        using Inr d rt by (simp add: handle_request_agent_connection_def)
      ultimately show ?thesis using unit [OF rt] loaded [OF Inr d] by (cases r) auto
    qed (auto simp: handle_request_agent_connection_def)
  qed (simp add: handle_request_agent_connection_def)
qed


section \<open>The history of a stored connection\<close>

lemma allowed_run_append:
  "allowed_run step al (xs @ ys) a \<longleftrightarrow> allowed_run step al xs a \<and> allowed_run step al ys (fold step xs a)"
  by (induction xs arbitrary: a) auto

lemma loaded_row_exists:
  "loaded_connection i s = Some c \<Longrightarrow>
     row_exists connrec_id (agent_connection_uuid i) (connections_table (acc_agents s))"
  by (auto simp: access_get_iff [symmetric] access_connection_get_def connection_get_def Let_def row_exists_iff
      image_iff eq_commute [of "agent_connection_uuid i"] split: option.splits dest!: find_row_SomeD)

text \<open>
  The history of a stored connection \<open>c\<close>: it was requested by a member, and went through operations of
  later commands only.
\<close>

definition has_history ::
  "access \<Rightarrow> agent_connection_id \<Rightarrow> access_command list \<Rightarrow> agent_connection \<Rightarrow> bool" where
  "has_history s0 i ops c \<longleftrightarrow> (\<exists>xs env cmd ys c0 dops. ops = xs @ RequestConn env cmd # ys
     \<and> requested_as env cmd c0 \<and> conn_id c0 = i
     \<and> is_member (acc_people (fold access_step xs s0)) (rac_user_id cmd) (rac_workspace_id cmd)
     \<and> c = fold connection_step dops c0 \<and> set dops \<subseteq> (\<Union>op \<in> set ys. set (command_ops op)))"

lemma history_extend:
  assumes "has_history s0 i ops c" and "set dops \<subseteq> set (command_ops op)"
  shows "has_history s0 i (ops @ [op]) (fold connection_step dops c)"
proof -
  from assms(1) obtain xs env cmd ys c0 ds where *: "ops = xs @ RequestConn env cmd # ys"
    "requested_as env cmd c0" "conn_id c0 = i"
    "is_member (acc_people (fold access_step xs s0)) (rac_user_id cmd) (rac_workspace_id cmd)"
    "c = fold connection_step ds c0" "set ds \<subseteq> (\<Union>op \<in> set ys. set (command_ops op))"
    unfolding has_history_def by blast
  with assms(2) show ?thesis unfolding has_history_def
    by (intro exI [of _ xs] exI [of _ env] exI [of _ cmd] exI [of _ "ys @ [op]"] exI [of _ c0] exI [of _ "ds @ dops"])
      auto
qed

lemma history_new:
  assumes "requested_as env cmd c" and "is_member (acc_people (fold access_step ops s0)) (rac_user_id cmd) (rac_workspace_id cmd)"
  shows "has_history s0 (conn_id c) (ops @ [RequestConn env cmd]) c"
  unfolding has_history_def using assms
  by (intro exI [of _ ops] exI [of _ env] exI [of _ cmd] exI [of _ "[]"] exI [of _ c]) simp

lemma evolved_from:
  assumes "connection_evolves dops s t" and "loaded_connection i t = Some c"
  obtains c1 ds where "loaded_connection i s = Some c1" "c = fold connection_step ds c1" "set ds \<subseteq> set dops"
proof -
  from assms consider "loaded_connection i s = Some c"
    | c1 where "loaded_connection i s = Some c1" "c = fold connection_step dops c1"
    by (cases "loaded_connection i s") (auto simp: connection_evolves_def dest!: spec [of _ i])
  then show ?thesis
  proof cases
    case 1
    then show ?thesis using that [of c "[]"] by simp
  next
    case 2
    then show ?thesis using that by simp
  qed
qed

lemma connection_history:
  assumes "access_empty s0" and "loaded_connection i (fold access_step ops s0) = Some c"
  shows "has_history s0 i ops c"
  using assms(2)
proof (induction ops arbitrary: c rule: rev_induct)
  case Nil
  then show ?case
    using assms(1) loaded_row_exists [of i s0 c] by (simp add: access_empty_def row_exists_def)
next
  case (snoc op ops)
  let ?s = "fold access_step ops s0"
  have keep: ?case if "loaded_connection i ?s = Some c"
    using history_extend [OF snoc.IH [OF that], of "[]" op] by simp
  show ?case
  proof (cases "\<exists>env cmd. op = RequestConn env cmd")
    case True
    then obtain env cmd where op: "op = RequestConn env cmd" by blast
    show ?thesis
    proof (cases "fst (handle_request_agent_connection env cmd ?s)")
      case (Inr c1)
      with request_step [of env cmd ?s c1 i] snoc.prems keep history_new [of env cmd c1 ops s0] show ?thesis
        by (auto simp: op split: if_splits)
    next
      case (Inl e)
      with request_step [of env cmd ?s] snoc.prems keep show ?thesis by (simp add: op)
    qed
  next
    case False
    then have "connection_evolves (command_ops op) ?s (access_step op ?s)" by (blast intro: access_step_evolves)
    then obtain c1 ds where "loaded_connection i ?s = Some c1" "c = fold connection_step ds c1"
      "set ds \<subseteq> set (command_ops op)"
      by (rule evolved_from) (use snoc.prems in simp)
    with history_extend [OF snoc.IH] show ?thesis by blast
  qed
qed

text \<open>A revoked connection stays as it is.\<close>

lemma revoked_stays:
  assumes "loaded_connection i s = Some c" and "conn_status c = ConnRevoked"
    and "allowed_run access_step access_allowed ops s"
  shows "loaded_connection i (fold access_step ops s) = Some c"
  using assms(1,3)
proof (induction ops arbitrary: s)
  case (Cons op ops)
  have same: "fold connection_step ds c = c" for ds
    using conn.dead_run [of c c ds] assms(2) by simp
  have "loaded_connection i (access_step op s) = Some c"
  proof (cases "\<exists>env cmd. op = RequestConn env cmd")
    case True
    then obtain env cmd where op: "op = RequestConn env cmd" by blast
    have new: "i \<noteq> AgentConnectionId (ae_connection_id env)"
      using loaded_row_exists [OF Cons.prems(1)] Cons.prems(2) by (auto simp: op)
    show ?thesis
    proof (cases "fst (handle_request_agent_connection env cmd s)")
      case (Inr c1)
      with request_step [of env cmd s c1 i] new Cons.prems(1) show ?thesis by (auto simp: op requested_as_def)
    next
      case (Inl e)
      with request_step [of env cmd s] Cons.prems(1) show ?thesis by (simp add: op)
    qed
  next
    case False
    then have "connection_evolves (command_ops op) s (access_step op s)" by (blast intro: access_step_evolves)
    then show ?thesis using Cons.prems(1) same unfolding connection_evolves_def by (metis option.map(2))
  qed
  with Cons show ?case by simp
qed simp


section \<open>Properties\<close>

text \<open>The consumption command presents both secrets of the request before its deadline.\<close>

fun presents_secrets :: "access_env \<Rightarrow> request_agent_connection \<Rightarrow> access_command \<Rightarrow> bool" where
  "presents_secrets env cmd (ConsumeConn env2 consume) \<longleftrightarrow>
     access_digest env2 (cac_continuation_token consume) = access_digest env (rac_continuation_token cmd)
     \<and> access_digest env2 (cac_nonce consume) = access_digest env (rac_nonce cmd)
     \<and> ae_clock env2 0 < rac_expires_at cmd"
| "presents_secrets env cmd _ \<longleftrightarrow> False"

lemma consume_op_presented:
  assumes "ConsumeOp k n t \<in> set (command_ops op)"
  obtains env cmd where "op = ConsumeConn env cmd" "k = access_digest env (cac_continuation_token cmd)"
    "n = access_digest env (cac_nonce cmd)" "t = ae_clock env 0"
  using assms by (cases op) auto

lemma authorized_connection:
  assumes "handle_authorize_agent_connection env cmd s = (Inr (Some ctx), t)"
  obtains c where "loaded_connection (aac_connection_id cmd) s = Some c"
    "conn_status (fold connection_step [ActivateOp (ae_clock env 0), UseOp (ae_clock env 1)] c) = ConnActive"
    "ctx = connection_context c" "is_member (acc_people s) (conn_user_id c) (conn_workspace_id c)"
proof -
  from assms obtain expected where
    "authorize_connection_tx env cmd expected s = (Inr (Some ctx), t)"
    by (auto simp: handle_authorize_agent_connection_def apfst_def map_prod_def map_err_Ok_iff
        split: sum.splits prod.splits)
  from tx_ensuresD [OF authorize_connection_post this] that show ?thesis
    by (auto simp: connection_context_def simp del: connection_step.simps)
qed

lemma secrets_presented:
  assumes "requested_as env1 req c0"
    and "conn_status (fold connection_step [ActivateOp t, UseOp u] (fold connection_step dops c0)) = ConnActive"
    and "set dops \<subseteq> (\<Union>op \<in> set ys. set (command_ops op))"
  shows "list_ex (presents_secrets env1 req) ys"
proof -
  let ?k = "access_digest env1 (rac_continuation_token req)" and ?n = "access_digest env1 (rac_nonce req)"
  have "conn_status (fold connection_step (dops @ [ActivateOp t, UseOp u]) c0) = ConnActive"
    using assms(2) by simp
  from active_trace [OF _ this] assms(1) obtain v where
    v: "ConsumeOp ?k ?n v \<in> set (dops @ [ActivateOp t, UseOp u])" "v < rac_expires_at req"
    unfolding requested_as_def by (metis in_set_conv_decomp)
  then obtain op where op: "op \<in> set ys" "ConsumeOp ?k ?n v \<in> set (command_ops op)" using assms(3) by auto
  from op(2) v(2) have "presents_secrets env1 req op" by (auto elim: consume_op_presented)
  with op(1) show ?thesis by (auto simp: list_ex_iff)
qed

lemma revoked_loaded:
  assumes "fst (handle_revoke_agent_connection env cmd s) = Inr True"
  shows "\<exists>c. loaded_connection (rvc_connection_id cmd) (access_step (RevokeConn env cmd) s) = Some c
     \<and> conn_status c = ConnRevoked"
proof -
  obtain r t where rt: "in_unit_of_work (revoke_connection_tx env cmd) s = (r, t)" by fastforce
  with assms have "r = Inr True"
    by (cases r) (simp_all add: handle_revoke_agent_connection_def)
  with rt have "revoke_connection_tx env cmd s = (Inr True, t)" by simp
  from tx_ensuresD [OF revoke_connection_post this] show ?thesis
    by (simp add: handle_revoke_agent_connection_def rt)
qed

text \<open>
  C0: Whatever commands on people, connections and OAuth flows were handled before, in any order, an agent is
  authorized only as its user asked for: the user is a member of the workspace now and was one when they
  requested the connection, for that workspace and exactly those permissions; both secrets of the request were
  presented before its deadline; and no revocation of the connection has succeeded since.
\<close>

theorem agent_authorized_by_right:
  assumes "access_empty s0" and "allowed_run access_step access_allowed ops s0"
    and "handle_authorize_agent_connection env cmd (fold access_step ops s0) = (Inr (Some ctx), t)"
  shows "is_member (acc_people (fold access_step ops s0)) (ctx_user_id ctx) (ctx_workspace_id ctx)
   \<and> (\<exists>xs env1 req ys. ops = xs @ RequestConn env1 req # ys
        \<and> AgentConnectionId (ae_connection_id env1) = ctx_connection_id ctx
        \<and> rac_user_id req = ctx_user_id ctx \<and> rac_workspace_id req = ctx_workspace_id ctx
        \<and> permission_set (ctx_permissions ctx) = set (rac_permissions req)
        \<and> is_member (acc_people (fold access_step xs s0)) (ctx_user_id ctx) (ctx_workspace_id ctx)
        \<and> list_ex (presents_secrets env1 req) ys
        \<and> (\<forall>as env3 revoke bs. ys = as @ RevokeConn env3 revoke # bs
             \<and> rvc_connection_id revoke = ctx_connection_id ctx \<longrightarrow>
             fst (handle_revoke_agent_connection env3 revoke
               (fold access_step (xs @ RequestConn env1 req # as) s0)) \<noteq> Inr True))"
proof -
  let ?s = "fold access_step ops s0"
  from assms(3) obtain c where c: "loaded_connection (aac_connection_id cmd) ?s = Some c"
    and active: "conn_status (fold connection_step [ActivateOp (ae_clock env 0), UseOp (ae_clock env 1)] c) = ConnActive"
    and ctx: "ctx = connection_context c"
    and member: "is_member (acc_people ?s) (conn_user_id c) (conn_workspace_id c)"
    by (rule authorized_connection)
  from connection_history [OF assms(1) c] obtain xs env1 req ys c0 dops where
    ops: "ops = xs @ RequestConn env1 req # ys" and c0: "requested_as env1 req c0" "conn_id c0 = aac_connection_id cmd"
    and member0: "is_member (acc_people (fold access_step xs s0)) (rac_user_id req) (rac_workspace_id req)"
    and dops: "c = fold connection_step dops c0" "set dops \<subseteq> (\<Union>op \<in> set ys. set (command_ops op))"
    unfolding has_history_def by blast
  have static: "conn_id c = conn_id c0" "conn_user_id c = conn_user_id c0" "conn_workspace_id c = conn_workspace_id c0"
    "conn_permissions c = conn_permissions c0"
    by (simp_all add: dops(1) fold_keeps)
  have secrets: "list_ex (presents_secrets env1 req) ys"
    using secrets_presented [OF c0(1) _ dops(2)] active by (simp add: dops(1))
  have perms: "set (conn_permissions c0) = set (rac_permissions req)"
    using c0(1) by (auto simp: requested_as_def canonical_permissions_Ok_iff)
  have unrevoked: "fst (handle_revoke_agent_connection env3 revoke
      (fold access_step (xs @ RequestConn env1 req # as) s0)) \<noteq> Inr True"
    if ys: "ys = as @ RevokeConn env3 revoke # bs" and i: "rvc_connection_id revoke = conn_id c" for as env3 revoke bs
  proof
    let ?s1 = "fold access_step (xs @ RequestConn env1 req # as) s0"
    assume "fst (handle_revoke_agent_connection env3 revoke ?s1) = Inr True"
    then obtain d where d: "loaded_connection (conn_id c) (access_step (RevokeConn env3 revoke) ?s1) = Some d"
      "conn_status d = ConnRevoked"
      using revoked_loaded i by metis
    have "allowed_run access_step access_allowed bs (access_step (RevokeConn env3 revoke) ?s1)"
      using assms(2) by (simp add: ops ys allowed_run_append)
    from revoked_stays [OF d this] have "loaded_connection (conn_id c) ?s = Some d" by (simp add: ops ys)
    then have "c = d" using c loaded_wf(3) [OF c] by simp
    then have "conn_status (fold connection_step dops' c) = ConnRevoked" for dops'
      using conn.dead_run [of d d dops'] d(2) by simp
    then show False using active by (simp only: connection_status.simps)
  qed
  show ?thesis
    using member member0 c0 static secrets perms unrevoked ops
    unfolding ctx connection_context_def requested_as_def
    by (intro conjI exI [of _ xs] exI [of _ env1] exI [of _ req] exI [of _ ys]) auto
qed


definition sample_access :: access where
  "sample_access =
     \<lparr>acc_people = \<lparr>ppl_workspaces = \<lparr>workspaces_table = [\<lparr>wsrec_id = 7, wsrec_slug = None, wsrec_name = ''acme'', wsrec_created_at = 5\<rparr>],
        memberships_table = [\<lparr>memrec_user_id = 1, memrec_workspace_id = 7, memrec_role = ''owner'', memrec_created_at = 5\<rparr>]\<rparr>,
      ppl_users = [\<lparr>usrrec_id = 1, usrrec_auth0_sub = ''s'', usrrec_email = None, usrrec_name = None,
        usrrec_last_login_at = None, usrrec_created_at = 5\<rparr>],
      ppl_invitations = [], ppl_outbox = \<lparr>outbox_rows = [], outbox_next_id = 1\<rparr>\<rparr>,
      acc_agents = \<lparr>connections_table = [], connection_permissions_table = [], authorizations_table = []\<rparr>,
      acc_oauth = \<lparr>flows_table = [], codes_table = []\<rparr>\<rparr>"

definition sample_access_env :: "datetime \<Rightarrow> access_env" where
  "sample_access_env now = \<lparr>ae_clock = (\<lambda>n. now + int n), ae_sha256 = (\<lambda>bs. take 32 (bs @ replicate 32 0)),
     ae_connection_id = 11, ae_transaction_id = 12\<rparr>"

definition sample_request :: request_agent_connection where
  "sample_request = \<lparr>rac_user_id = UserId 1, rac_workspace_id = WorkspaceId 7, rac_auth0_subject = ''s'',
     rac_auth0_client_id = ''c'', rac_client_display_name = ''d'', rac_resource = ''r'',
     rac_permissions = [WriteEvidence, ReadEvidence], rac_expires_at = 100,
     rac_continuation_token = ''k'', rac_nonce = ''n''\<rparr>"

definition sample_authorize :: authorize_agent_connection where
  "sample_authorize = \<lparr>aac_connection_id = AgentConnectionId 11, aac_workspace_id = WorkspaceId 7,
     aac_auth0_subject = ''s'', aac_auth0_client_id = ''c'', aac_resource = ''r'',
     aac_permissions = [ReadEvidence, WriteEvidence]\<rparr>"

abbreviation sample_access_ops :: "access_command list" where
  "sample_access_ops \<equiv> [RequestConn (sample_access_env 10) sample_request,
     ConsumeConn (sample_access_env 20) \<lparr>cac_continuation_token = ''k'', cac_nonce = ''n''\<rparr>]"

lemma sample_trims: "trim ''s'' \<noteq> []" "trim ''c'' \<noteq> []" "trim ''d'' \<noteq> []" "trim ''r'' \<noteq> []"
  by code_simp+

lemmas access_eval =
  access_handler_defs handle_request_agent_connection_def request_connection_tx_def consume_connection_tx_def
  authorize_connection_tx_def user_is_eligible_def tx_defs in_unit_of_work_def users_auth0_sub_def get_membership_role_def
  find_row_def access_connection_get_def connection_get_def access_connection_save_def connection_save_def
  first_violation_def connection_violations_def authorization_violations_def row_exists_def
  canonical_permissions_def mark_seen.simps all_permissions_def connection_request_def consume_continuation_def connection_activate_def use_at_def
  connection_from_domain_def authorization_from_domain_def permission_from_domain_def connection_into_domain_def
  connection_permission_names_def continuation_connection_def at_most_one_def delete_rows_def
  live_tuple_taken_def digest_taken_def digest_from_bytes_def connection_status_from_str_def connection_rehydrate_def
  membership_role_from_row_def role_from_str_def permission_from_str_def access_digest_def sha256_digest_of_def
  connection_context_def Let_def sample_trims sample_access_def sample_access_env_def sample_request_def sample_authorize_def
  permission_position_def

lemma sample_authorized:
  "map_sum id (map_option ctx_connection_id) (fst (handle_authorize_agent_connection (sample_access_env 30) sample_authorize
     (fold access_step sample_access_ops sample_access))) = Inr (Some (AgentConnectionId 11))"
  by (simp add: access_eval)

theorem agent_authorized_by_right_witness:
  "\<exists>ctx t. handle_authorize_agent_connection (sample_access_env 30) sample_authorize
     (fold access_step sample_access_ops sample_access) = (Inr (Some ctx), t)
   \<and> is_member (acc_people (fold access_step sample_access_ops sample_access)) (ctx_user_id ctx) (ctx_workspace_id ctx)"
proof -
  let ?h = "handle_authorize_agent_connection (sample_access_env 30) sample_authorize
     (fold access_step sample_access_ops sample_access)"
  obtain ctx where "fst ?h = Inr (Some ctx)"
    using sample_authorized by (cases "fst ?h") auto
  then obtain t where h: "?h = (Inr (Some ctx), t)" by (metis prod.collapse)
  have "access_empty sample_access" by (simp add: access_empty_def sample_access_def)
  moreover have "allowed_run access_step access_allowed sample_access_ops sample_access"
    by (simp add: sample_access_def row_exists_def)
  ultimately show ?thesis using agent_authorized_by_right [OF _ _ h] h by blast
qed

end
