(* ===== verification/Tokens.thy ===== *)
theory Tokens
  imports Invitation_Authority
begin

text \<open>
  The encrypted tokens of \<^verbatim>\<open>src/authentication/paseto.rs\<close>: registered claims and the claims of a kind of
  token as one JSON object, encrypted under the active key with the key id in the footer and bound to its
  purpose by an implicit assertion. PASETO, JSON text and RFC 3339 times are the parameters of
  \<open>token_env\<close>; \<open>sealed_env_ok\<close> adds what is relied on here: a token does not open under another
  implicit assertion, and neither a UUID nor a time is written as the empty text.
\<close>

section \<open>Claims and keys\<close>

datatype paseto_error = TokenKeyring | TokenIssue | TokenVerify

record registered_claims =
  reg_subject :: uuid
  reg_token_id :: uuid
  reg_expires_at :: datetime

record issued_token =
  iss_token :: string
  iss_token_id :: uuid
  iss_key_id :: string
  iss_expires_at :: datetime

record 'a verified_token =
  ver_subject :: uuid
  ver_token_id :: uuid
  ver_key_id :: string
  ver_expires_at :: datetime
  ver_claims :: 'a

record paseto_key =
  pk_id :: string
  pk_secret :: string

record paseto_config =
  pc_active_key_id :: string
  pc_keys :: "paseto_key list"

record token_encryptor =
  enc_issuer :: string
  enc_audience :: string
  enc_key_id :: string
  enc_key :: bytes

record token_decryptor =
  dec_issuer :: string
  dec_audience :: string
  dec_keys :: "string \<rightharpoonup> bytes"

definition encryptor_from_config ::
  "token_env \<Rightarrow> string \<Rightarrow> string \<Rightarrow> paseto_config \<Rightarrow> paseto_error + token_encryptor" where
  "encryptor_from_config c issuer audience config =
     and_then (ok_or TokenKeyring (find (\<lambda>k. pk_id k = pc_active_key_id config) (pc_keys config))) (\<lambda>active.
     and_then (ok_or TokenKeyring (tok_key c (pk_secret active))) (\<lambda>key.
       Ok \<lparr>enc_issuer = issuer, enc_audience = audience, enc_key_id = pk_id active, enc_key = key\<rparr>))"

text \<open>A key that comes later replaces one of the same id.\<close>

definition decryptor_from_config ::
  "token_env \<Rightarrow> string \<Rightarrow> string \<Rightarrow> paseto_config \<Rightarrow> paseto_error + token_decryptor" where
  "decryptor_from_config c issuer audience config =
     and_then (collect_results (map (\<lambda>k. ok_or TokenKeyring
         (map_option (Pair (pk_id k)) (tok_key c (pk_secret k)))) (pc_keys config))) (\<lambda>keys.
       Ok \<lparr>dec_issuer = issuer, dec_audience = audience, dec_keys = map_of (rev keys)\<rparr>)"

section \<open>Payloads\<close>

definition registered_claim_names :: "string list" where
  "registered_claim_names = [''iss'', ''aud'', ''sub'', ''jti'', ''iat'', ''nbf'', ''exp'']"

definition registered_entries ::
  "token_env \<Rightarrow> string \<Rightarrow> string \<Rightarrow> registered_claims \<Rightarrow> datetime \<Rightarrow> (string \<times> json) list" where
  "registered_entries c issuer audience registered issued_at =
     [(''iss'', JStr issuer), (''aud'', JStr audience),
      (''sub'', json_of_uuid (tok_uuid c) (reg_subject registered)),
      (''jti'', json_of_uuid (tok_uuid c) (reg_token_id registered)),
      (''iat'', JStr (tok_time_text c issued_at)), (''nbf'', JStr (tok_time_text c issued_at)),
      (''exp'', JStr (tok_time_text c (reg_expires_at registered)))]"

definition payload_at ::
  "token_env \<Rightarrow> string \<Rightarrow> string \<Rightarrow> registered_claims \<Rightarrow> json \<Rightarrow> datetime \<Rightarrow> paseto_error + bytes" where
  "payload_at c issuer audience registered custom issued_at =
     (if reg_expires_at registered \<le> issued_at then Err TokenIssue
      else (case custom of
        JObj claims \<Rightarrow>
          if list_ex (\<lambda>name. name \<in> fst ` set claims) registered_claim_names then Err TokenIssue
          else Ok (tok_json_text c (JObj (claims @ registered_entries c issuer audience registered issued_at)))
      | _ \<Rightarrow> Err TokenIssue))"

definition string_claim :: "(string \<times> json) list \<Rightarrow> string \<Rightarrow> paseto_error + string" where
  "string_claim claims name =
     (case Option.bind (map_of claims name) json_as_str of
        None \<Rightarrow> Err TokenVerify
      | Some value \<Rightarrow> if value = [] then Err TokenVerify else Ok value)"

definition datetime_claim :: "token_env \<Rightarrow> (string \<times> json) list \<Rightarrow> string \<Rightarrow> paseto_error + datetime" where
  "datetime_claim c claims name =
     and_then (string_claim claims name) (\<lambda>t. ok_or TokenVerify (tok_time_parse c t))"

definition uuid_claim :: "token_env \<Rightarrow> (string \<times> json) list \<Rightarrow> string \<Rightarrow> paseto_error + uuid" where
  "uuid_claim c claims name =
     and_then (string_claim claims name) (\<lambda>t. ok_or TokenVerify (uuid_parse (tok_uuid c) t))"

definition verified_payload ::
  "token_env \<Rightarrow> ((string \<times> json) list \<Rightarrow> 'a option) \<Rightarrow> datetime \<Rightarrow> bytes \<Rightarrow> string \<Rightarrow> string \<Rightarrow> string
   \<Rightarrow> paseto_error + 'a verified_token" where
  "verified_payload c decode now payload key_id issuer audience =
     (case tok_json_parse c payload of
        Some (JObj claims) \<Rightarrow>
          and_then (string_claim claims ''iss'') (\<lambda>iss.
          if iss \<noteq> issuer then Err TokenVerify
          else and_then (string_claim claims ''aud'') (\<lambda>aud.
          if aud \<noteq> audience then Err TokenVerify
          else
            and_then (uuid_claim c claims ''sub'') (\<lambda>subject.
            and_then (uuid_claim c claims ''jti'') (\<lambda>token_id.
            and_then (datetime_claim c claims ''iat'') (\<lambda>issued_at.
            and_then (datetime_claim c claims ''nbf'') (\<lambda>not_before.
            and_then (datetime_claim c claims ''exp'') (\<lambda>expires_at.
            if issued_at > now \<or> not_before > now \<or> expires_at \<le> now \<or> issued_at \<ge> expires_at
            then Err TokenVerify
            else
              and_then (ok_or TokenVerify
                (decode (filter (\<lambda>e. fst e \<notin> set registered_claim_names) claims))) (\<lambda>custom.
              Ok \<lparr>ver_subject = subject, ver_token_id = token_id, ver_key_id = key_id,
                  ver_expires_at = expires_at, ver_claims = custom\<rparr>))))))))
      | _ \<Rightarrow> Err TokenVerify)"

definition parse_footer :: "token_env \<Rightarrow> bytes \<Rightarrow> paseto_error + string" where
  "parse_footer c footer =
     and_then (ok_or TokenVerify (Option.bind (tok_json_parse c footer) footer_from_json)) (\<lambda>kid.
       if trim kid = [] then Err TokenVerify else Ok kid)"

section \<open>Sealing and opening\<close>

definition token_encrypt ::
  "bytes \<Rightarrow> token_env \<Rightarrow> bytes \<Rightarrow> datetime \<Rightarrow> token_encryptor \<Rightarrow> registered_claims \<Rightarrow> json
   \<Rightarrow> paseto_error + issued_token" where
  "token_encrypt implicit c nonce now e registered custom =
     and_then (payload_at c (enc_issuer e) (enc_audience e) registered custom now) (\<lambda>payload.
     and_then (ok_or TokenIssue (tok_encrypt c nonce (enc_key e) payload
         (tok_json_text c (footer_to_json (enc_key_id e))) implicit)) (\<lambda>token.
     and_then (ok_or TokenIssue (tok_time_parse c (tok_time_text c (reg_expires_at registered)))) (\<lambda>expires_at.
       Ok \<lparr>iss_token = token, iss_token_id = reg_token_id registered, iss_key_id = enc_key_id e,
           iss_expires_at = expires_at\<rparr>)))"

definition token_decrypt ::
  "bytes \<Rightarrow> token_env \<Rightarrow> ((string \<times> json) list \<Rightarrow> 'a option) \<Rightarrow> datetime \<Rightarrow> token_decryptor \<Rightarrow> string
   \<Rightarrow> paseto_error + 'a verified_token" where
  "token_decrypt implicit c decode now d token =
     and_then (ok_or TokenVerify (tok_footer c token)) (\<lambda>footer.
     and_then (parse_footer c footer) (\<lambda>kid.
     and_then (ok_or TokenVerify (dec_keys d kid)) (\<lambda>key.
     and_then (ok_or TokenVerify (tok_decrypt c key token footer implicit)) (\<lambda>payload.
       verified_payload c decode now payload kid (dec_issuer d) (dec_audience d)))))"

text \<open>One encryptor and one decryptor per purpose, each with its implicit assertion.\<close>

datatype token_purpose =
    DownloadGrantToken | UploadGrantToken | AgentEvidenceUploadToken | AgentPolicyUploadToken
  | UploadSessionToken | McpOAuthToken | PolicyUploadGrantToken | PolicyUploadSessionToken

fun implicit_assertion_of :: "token_purpose \<Rightarrow> bytes" where
  "implicit_assertion_of DownloadGrantToken = map of_char ''proofplane:document-download:v1''"
| "implicit_assertion_of UploadGrantToken = map of_char ''proofplane:document-upload-grant:v1''"
| "implicit_assertion_of AgentEvidenceUploadToken = map of_char ''proofplane:agent-evidence-upload-grant:v1''"
| "implicit_assertion_of AgentPolicyUploadToken = map of_char ''proofplane:agent-policy-document-upload-grant:v1''"
| "implicit_assertion_of UploadSessionToken = map of_char ''proofplane:document-upload-session:v1''"
| "implicit_assertion_of McpOAuthToken = map of_char ''proofplane:mcp-oauth-access:v1''"
| "implicit_assertion_of PolicyUploadGrantToken = map of_char ''proofplane:policy-document-upload-grant:v1''"
| "implicit_assertion_of PolicyUploadSessionToken = map of_char ''proofplane:policy-document-upload-session:v1''"

definition download_grant_encrypt where
  "download_grant_encrypt = token_encrypt (implicit_assertion_of DownloadGrantToken)"
definition download_grant_decrypt where
  "download_grant_decrypt = token_decrypt (implicit_assertion_of DownloadGrantToken)"
definition upload_grant_encrypt where
  "upload_grant_encrypt = token_encrypt (implicit_assertion_of UploadGrantToken)"
definition upload_grant_decrypt where
  "upload_grant_decrypt = token_decrypt (implicit_assertion_of UploadGrantToken)"
definition agent_evidence_upload_encrypt where
  "agent_evidence_upload_encrypt = token_encrypt (implicit_assertion_of AgentEvidenceUploadToken)"
definition agent_evidence_upload_decrypt where
  "agent_evidence_upload_decrypt = token_decrypt (implicit_assertion_of AgentEvidenceUploadToken)"
definition agent_policy_upload_encrypt where
  "agent_policy_upload_encrypt = token_encrypt (implicit_assertion_of AgentPolicyUploadToken)"
definition agent_policy_upload_decrypt where
  "agent_policy_upload_decrypt = token_decrypt (implicit_assertion_of AgentPolicyUploadToken)"
definition upload_session_encrypt where
  "upload_session_encrypt = token_encrypt (implicit_assertion_of UploadSessionToken)"
definition upload_session_decrypt where
  "upload_session_decrypt = token_decrypt (implicit_assertion_of UploadSessionToken)"
definition mcp_oauth_encrypt where
  "mcp_oauth_encrypt = token_encrypt (implicit_assertion_of McpOAuthToken)"
definition mcp_oauth_decrypt where
  "mcp_oauth_decrypt = token_decrypt (implicit_assertion_of McpOAuthToken)"
definition policy_upload_grant_encrypt where
  "policy_upload_grant_encrypt = token_encrypt (implicit_assertion_of PolicyUploadGrantToken)"
definition policy_upload_grant_decrypt where
  "policy_upload_grant_decrypt = token_decrypt (implicit_assertion_of PolicyUploadGrantToken)"
definition policy_upload_session_encrypt where
  "policy_upload_session_encrypt = token_encrypt (implicit_assertion_of PolicyUploadSessionToken)"
definition policy_upload_session_decrypt where
  "policy_upload_session_decrypt = token_decrypt (implicit_assertion_of PolicyUploadSessionToken)"

fun encrypt_for ::
  "token_purpose \<Rightarrow> token_env \<Rightarrow> bytes \<Rightarrow> datetime \<Rightarrow> token_encryptor \<Rightarrow> registered_claims \<Rightarrow> json
   \<Rightarrow> paseto_error + issued_token" where
  "encrypt_for DownloadGrantToken = download_grant_encrypt"
| "encrypt_for UploadGrantToken = upload_grant_encrypt"
| "encrypt_for AgentEvidenceUploadToken = agent_evidence_upload_encrypt"
| "encrypt_for AgentPolicyUploadToken = agent_policy_upload_encrypt"
| "encrypt_for UploadSessionToken = upload_session_encrypt"
| "encrypt_for McpOAuthToken = mcp_oauth_encrypt"
| "encrypt_for PolicyUploadGrantToken = policy_upload_grant_encrypt"
| "encrypt_for PolicyUploadSessionToken = policy_upload_session_encrypt"

fun decrypt_for ::
  "token_purpose \<Rightarrow> token_env \<Rightarrow> ((string \<times> json) list \<Rightarrow> 'a option) \<Rightarrow> datetime \<Rightarrow> token_decryptor \<Rightarrow> string
   \<Rightarrow> paseto_error + 'a verified_token" where
  "decrypt_for DownloadGrantToken = download_grant_decrypt"
| "decrypt_for UploadGrantToken = upload_grant_decrypt"
| "decrypt_for AgentEvidenceUploadToken = agent_evidence_upload_decrypt"
| "decrypt_for AgentPolicyUploadToken = agent_policy_upload_decrypt"
| "decrypt_for UploadSessionToken = upload_session_decrypt"
| "decrypt_for McpOAuthToken = mcp_oauth_decrypt"
| "decrypt_for PolicyUploadGrantToken = policy_upload_grant_decrypt"
| "decrypt_for PolicyUploadSessionToken = policy_upload_session_decrypt"

lemmas purpose_defs =
  download_grant_encrypt_def download_grant_decrypt_def upload_grant_encrypt_def upload_grant_decrypt_def
  agent_evidence_upload_encrypt_def agent_evidence_upload_decrypt_def agent_policy_upload_encrypt_def
  agent_policy_upload_decrypt_def upload_session_encrypt_def upload_session_decrypt_def mcp_oauth_encrypt_def
  mcp_oauth_decrypt_def policy_upload_grant_encrypt_def policy_upload_grant_decrypt_def
  policy_upload_session_encrypt_def policy_upload_session_decrypt_def

lemma encrypt_for_eq: "encrypt_for p = token_encrypt (implicit_assertion_of p)"
  by (cases p) (simp_all add: purpose_defs)

lemma decrypt_for_eq: "decrypt_for p = token_decrypt (implicit_assertion_of p)"
  by (cases p) (simp_all add: purpose_defs)

declare encrypt_for.simps [simp del] decrypt_for.simps [simp del]

lemma implicit_assertion_inj: "implicit_assertion_of p = implicit_assertion_of q \<longleftrightarrow> p = q"
  by (cases p; cases q) simp_all


section \<open>Claims of the upload tokens\<close>

record agent_evidence_claims =
  aec_version :: int
  aec_upload_id :: string
  aec_workspace_id :: string
  aec_evidence_id :: string
  aec_submission_id :: string
  aec_issued_by_user_id :: string
  aec_issued_via_agent_connection_id :: string

definition agent_evidence_claims_new ::
  "uuid_codec \<Rightarrow> uuid \<Rightarrow> uuid \<Rightarrow> uuid \<Rightarrow> uuid \<Rightarrow> uuid \<Rightarrow> uuid \<Rightarrow> agent_evidence_claims" where
  "agent_evidence_claims_new u upload workspace evidence submission user connection =
     \<lparr>aec_version = 1, aec_upload_id = uuid_text u upload, aec_workspace_id = uuid_text u workspace,
      aec_evidence_id = uuid_text u evidence, aec_submission_id = uuid_text u submission,
      aec_issued_by_user_id = uuid_text u user, aec_issued_via_agent_connection_id = uuid_text u connection\<rparr>"

record verified_agent_evidence_claims =
  vae_upload_id :: uuid
  vae_workspace_id :: uuid
  vae_evidence_id :: uuid
  vae_submission_id :: uuid
  vae_issued_by_user_id :: uuid
  vae_issued_via_agent_connection_id :: uuid
  vae_expires_at :: datetime

definition verified_agent_evidence ::
  "uuid_codec \<Rightarrow> agent_evidence_claims verified_token \<Rightarrow> unit + verified_agent_evidence_claims" where
  "verified_agent_evidence u t =
     (let x = ver_claims t; parse = (\<lambda>s. ok_or () (uuid_parse u s)) in
      if aec_version x \<noteq> 1 then Err ()
      else
        and_then (parse (aec_upload_id x)) (\<lambda>upload.
        and_then (parse (aec_issued_by_user_id x)) (\<lambda>user.
        if upload \<noteq> ver_token_id t \<or> user \<noteq> ver_subject t then Err ()
        else
          and_then (parse (aec_workspace_id x)) (\<lambda>workspace.
          and_then (parse (aec_evidence_id x)) (\<lambda>evidence.
          and_then (parse (aec_submission_id x)) (\<lambda>submission.
          and_then (parse (aec_issued_via_agent_connection_id x)) (\<lambda>connection.
          Ok \<lparr>vae_upload_id = upload, vae_workspace_id = workspace, vae_evidence_id = evidence,
              vae_submission_id = submission, vae_issued_by_user_id = user,
              vae_issued_via_agent_connection_id = connection, vae_expires_at = ver_expires_at t\<rparr>)))))))"

text \<open>The claims of the links for a policy document, of a human and of an agent, differ in the name of their id.\<close>

record policy_claims =
  plc_version :: int
  plc_grant_id :: string
  plc_workspace_id :: string
  plc_policy_id :: string
  plc_issued_by_user_id :: string
  plc_issued_via_agent_connection_id :: string

definition policy_claims_new :: "uuid_codec \<Rightarrow> uuid \<Rightarrow> uuid \<Rightarrow> uuid \<Rightarrow> uuid \<Rightarrow> uuid \<Rightarrow> policy_claims" where
  "policy_claims_new u grant workspace policy user connection =
     \<lparr>plc_version = 1, plc_grant_id = uuid_text u grant, plc_workspace_id = uuid_text u workspace,
      plc_policy_id = uuid_text u policy, plc_issued_by_user_id = uuid_text u user,
      plc_issued_via_agent_connection_id = uuid_text u connection\<rparr>"

record verified_policy_claims =
  vpc_grant_id :: uuid
  vpc_workspace_id :: uuid
  vpc_policy_id :: uuid
  vpc_issued_by_user_id :: uuid
  vpc_issued_via_agent_connection_id :: uuid
  vpc_expires_at :: datetime

definition verified_policy :: "uuid_codec \<Rightarrow> policy_claims verified_token \<Rightarrow> unit + verified_policy_claims" where
  "verified_policy u t =
     (let x = ver_claims t; parse = (\<lambda>s. ok_or () (uuid_parse u s)) in
      if plc_version x \<noteq> 1 then Err ()
      else
        and_then (parse (plc_grant_id x)) (\<lambda>grant.
        and_then (parse (plc_issued_by_user_id x)) (\<lambda>user.
        if grant \<noteq> ver_token_id t \<or> user \<noteq> ver_subject t then Err ()
        else
          and_then (parse (plc_workspace_id x)) (\<lambda>workspace.
          and_then (parse (plc_policy_id x)) (\<lambda>policy.
          and_then (parse (plc_issued_via_agent_connection_id x)) (\<lambda>connection.
          Ok \<lparr>vpc_grant_id = grant, vpc_workspace_id = workspace, vpc_policy_id = policy,
              vpc_issued_by_user_id = user, vpc_issued_via_agent_connection_id = connection,
              vpc_expires_at = ver_expires_at t\<rparr>))))))"

text \<open>The claims of the links for an evidence document carry a period in RFC 3339 with its fraction.\<close>

record evidence_link_claims =
  elc_version :: int
  elc_grant_id :: string
  elc_workspace_id :: string
  elc_evidence_id :: string
  elc_valid_from :: string
  elc_valid_until :: string
  elc_issued_by_user_id :: string
  elc_issued_via_api_token_id :: "string option"
  elc_issued_via_agent_connection_id :: "string option"

definition evidence_link_claims_new ::
  "uuid_codec \<Rightarrow> (datetime \<Rightarrow> string) \<Rightarrow> uuid \<Rightarrow> uuid \<Rightarrow> uuid \<Rightarrow> datetime \<Rightarrow> datetime \<Rightarrow> uuid \<Rightarrow> uuid
   \<Rightarrow> evidence_link_claims" where
  "evidence_link_claims_new u text grant workspace evidence valid_from valid_until user connection =
     \<lparr>elc_version = 1, elc_grant_id = uuid_text u grant, elc_workspace_id = uuid_text u workspace,
      elc_evidence_id = uuid_text u evidence, elc_valid_from = text valid_from, elc_valid_until = text valid_until,
      elc_issued_by_user_id = uuid_text u user, elc_issued_via_api_token_id = None,
      elc_issued_via_agent_connection_id = Some (uuid_text u connection)\<rparr>"

record verified_evidence_link_claims =
  vel_grant_id :: uuid
  vel_workspace_id :: uuid
  vel_evidence_id :: uuid
  vel_valid_from :: datetime
  vel_valid_until :: datetime
  vel_issued_by_user_id :: uuid
  vel_issued_via_agent_connection_id :: uuid
  vel_expires_at :: datetime

definition verified_evidence_link ::
  "uuid_codec \<Rightarrow> (string \<Rightarrow> datetime option) \<Rightarrow> evidence_link_claims verified_token
   \<Rightarrow> unit + verified_evidence_link_claims" where
  "verified_evidence_link u time t =
     (let x = ver_claims t; parse = (\<lambda>s. ok_or () (uuid_parse u s)) in
      if elc_version x \<noteq> 1 then Err ()
      else
        and_then (parse (elc_grant_id x)) (\<lambda>grant.
        and_then (parse (elc_issued_by_user_id x)) (\<lambda>user.
        if grant \<noteq> ver_token_id t \<or> user \<noteq> ver_subject t then Err ()
        else
          and_then (case (elc_issued_via_api_token_id x, elc_issued_via_agent_connection_id x) of
              (None, Some i) \<Rightarrow> parse i
            | _ \<Rightarrow> Err ()) (\<lambda>connection.
          and_then (parse (elc_workspace_id x)) (\<lambda>workspace.
          and_then (parse (elc_evidence_id x)) (\<lambda>evidence.
          and_then (ok_or () (time (elc_valid_from x))) (\<lambda>valid_from.
          and_then (ok_or () (time (elc_valid_until x))) (\<lambda>valid_until.
          Ok \<lparr>vel_grant_id = grant, vel_workspace_id = workspace, vel_evidence_id = evidence,
              vel_valid_from = valid_from, vel_valid_until = valid_until, vel_issued_by_user_id = user,
              vel_issued_via_agent_connection_id = connection, vel_expires_at = ver_expires_at t\<rparr>))))))))"

section \<open>Opening what was sealed\<close>

definition sealed_env_ok :: "token_env \<Rightarrow> bool" where
  "sealed_env_ok c \<longleftrightarrow> token_env_ok c
     \<and> (\<forall>u. uuid_text (tok_uuid c) u \<noteq> []) \<and> (\<forall>t. tok_time_text c t \<noteq> [])
     \<and> (\<forall>nonce key payload footer implicit token key' implicit'.
          tok_encrypt c nonce key payload footer implicit = Some token \<and> implicit' \<noteq> implicit \<longrightarrow>
          tok_decrypt c key' token footer implicit' = None)"

lemma sealed_envD:
  assumes "sealed_env_ok c"
  shows "token_env_ok c" "uuid_text (tok_uuid c) u \<noteq> []" "tok_time_text c t \<noteq> []"
    "uuid_parse (tok_uuid c) (uuid_text (tok_uuid c) u) = Some u" "tok_json_parse c (tok_json_text c v) = Some v"
    "rfc3339_time t \<Longrightarrow> tok_time_parse c (tok_time_text c t) = Some (whole_seconds t)"
    "tok_encrypt c nonce key payload footer implicit = Some token \<Longrightarrow> tok_footer c token = Some footer"
    "tok_encrypt c nonce key payload footer implicit = Some token \<Longrightarrow>
       tok_decrypt c key token footer implicit = Some payload"
    "tok_encrypt c nonce key payload footer implicit = Some token \<Longrightarrow> implicit' \<noteq> implicit \<Longrightarrow>
       tok_decrypt c key' token footer implicit' = None"
  using assms unfolding sealed_env_ok_def token_env_ok_def uuid_codec_ok_def by blast+

lemma configured_keys:
  assumes "encryptor_from_config c issuer audience config = Inr e"
    and "decryptor_from_config c issuer audience config = Inr d" and "distinct (map pk_id (pc_keys config))"
  shows "dec_keys d (enc_key_id e) = Some (enc_key e)" "enc_issuer e = issuer" "dec_issuer d = issuer"
    "enc_audience e = audience" "dec_audience d = audience" "enc_key_id e = pc_active_key_id config"
proof -
  from assms(1) obtain active key where active: "find (\<lambda>k. pk_id k = pc_active_key_id config) (pc_keys config) = Some active"
    and key: "tok_key c (pk_secret active) = Some key"
    and e: "e = \<lparr>enc_issuer = issuer, enc_audience = audience, enc_key_id = pk_id active, enc_key = key\<rparr>"
    by (auto simp: encryptor_from_config_def and_then_Ok_iff)
  from assms(2) obtain keys where
    keys: "collect_results (map (\<lambda>k. ok_or TokenKeyring (map_option (Pair (pk_id k)) (tok_key c (pk_secret k))))
        (pc_keys config)) = Inr keys"
    and d: "d = \<lparr>dec_issuer = issuer, dec_audience = audience, dec_keys = map_of (rev keys)\<rparr>"
    by (auto simp: decryptor_from_config_def and_then_Ok_iff)
  have "active \<in> set (pc_keys config)" "pk_id active = pc_active_key_id config"
    using active by (auto simp: find_Some_iff)
  with keyring_lookup [OF keys assms(3) _ key] e d
  show "dec_keys d (enc_key_id e) = Some (enc_key e)" "enc_issuer e = issuer" "dec_issuer d = issuer"
    "enc_audience e = audience" "dec_audience d = audience" "enc_key_id e = pc_active_key_id config" by simp_all
qed

lemma payload_at_Ok:
  assumes "payload_at c issuer audience registered (JObj claims) issued_at = Inr payload"
  shows "payload = tok_json_text c (JObj (claims @ registered_entries c issuer audience registered issued_at))"
    "filter (\<lambda>e. fst e \<notin> set registered_claim_names) claims = claims"
    "n \<in> set registered_claim_names \<Longrightarrow> map_of claims n = None" "issued_at < reg_expires_at registered"
  using assms by (auto simp: payload_at_def list_ex_iff map_of_eq_None_iff filter_id_conv split: if_splits)

lemma verified_payload_sealed:
  assumes "sealed_env_ok c"
    and "payload_at c issuer audience registered (JObj claims) issued_at = Inr payload"
    and "issuer \<noteq> []" and "audience \<noteq> []" and "decode claims = Some x"
    and "rfc3339_time issued_at" and "rfc3339_time (reg_expires_at registered)"
  shows "verified_payload c decode now payload key_id issuer audience =
     (if whole_seconds issued_at \<le> now \<and> now < whole_seconds (reg_expires_at registered)
      then Inr \<lparr>ver_subject = reg_subject registered, ver_token_id = reg_token_id registered, ver_key_id = key_id,
                ver_expires_at = whole_seconds (reg_expires_at registered), ver_claims = x\<rparr>
      else Inl TokenVerify)"
proof -
  note payload = payload_at_Ok [OF assms(2)]
  have none: "map_of claims ''iss'' = None" "map_of claims ''aud'' = None" "map_of claims ''sub'' = None"
    "map_of claims ''jti'' = None" "map_of claims ''iat'' = None" "map_of claims ''nbf'' = None"
    "map_of claims ''exp'' = None"
    by (simp_all add: payload(3) registered_claim_names_def)
  have rest: "filter (\<lambda>e. fst e \<notin> set registered_claim_names)
      (claims @ registered_entries c issuer audience registered issued_at) = claims"
    by (simp add: payload(2)) (simp add: registered_entries_def registered_claim_names_def)
  let ?all = "claims @ registered_entries c issuer audience registered issued_at"
  let ?text = "uuid_text (tok_uuid c)"
  have "map_of ?all ''iss'' = Some (JStr issuer)" "map_of ?all ''aud'' = Some (JStr audience)"
    "map_of ?all ''sub'' = Some (JStr (?text (reg_subject registered)))"
    "map_of ?all ''jti'' = Some (JStr (?text (reg_token_id registered)))"
    "map_of ?all ''iat'' = Some (JStr (tok_time_text c issued_at))"
    "map_of ?all ''nbf'' = Some (JStr (tok_time_text c issued_at))"
    "map_of ?all ''exp'' = Some (JStr (tok_time_text c (reg_expires_at registered)))"
    by (simp_all add: map_add_def none) (simp_all add: registered_entries_def json_of_uuid_def)
  then have "string_claim ?all ''iss'' = Inr issuer" "string_claim ?all ''aud'' = Inr audience"
    "uuid_claim c ?all ''sub'' = Inr (reg_subject registered)"
    "uuid_claim c ?all ''jti'' = Inr (reg_token_id registered)"
    "datetime_claim c ?all ''iat'' = Inr (whole_seconds issued_at)"
    "datetime_claim c ?all ''nbf'' = Inr (whole_seconds issued_at)"
    "datetime_claim c ?all ''exp'' = Inr (whole_seconds (reg_expires_at registered))"
    using assms(3,4,6,7) by (simp_all add: string_claim_def uuid_claim_def datetime_claim_def sealed_envD [OF assms(1)])
  then show ?thesis
    using assms(5) sealed_envD(5) [OF assms(1)]
    by (simp add: verified_payload_def payload(1) rest del: filter_append)
qed


lemma token_decrypt_sealed:
  assumes "sealed_env_ok c" and "token_encrypt implicit c nonce issued_at e registered (JObj claims) = Inr t"
    and "dec_keys d (enc_key_id e) = Some (enc_key e)" and "dec_issuer d = enc_issuer e"
    and "dec_audience d = enc_audience e" and "trim (enc_key_id e) \<noteq> []"
    and "enc_issuer e \<noteq> []" and "enc_audience e \<noteq> []" and "decode claims = Some x"
    and "rfc3339_time issued_at" and "rfc3339_time (reg_expires_at registered)"
  shows "token_decrypt implicit' c decode now d (iss_token t) =
     (if implicit' = implicit \<and> whole_seconds issued_at \<le> now \<and> now < whole_seconds (reg_expires_at registered)
      then Inr \<lparr>ver_subject = reg_subject registered, ver_token_id = reg_token_id registered,
                ver_key_id = enc_key_id e, ver_expires_at = whole_seconds (reg_expires_at registered), ver_claims = x\<rparr>
      else Inl TokenVerify)"
proof -
  let ?footer = "tok_json_text c (footer_to_json (enc_key_id e))"
  from assms(2) obtain payload where
    payload: "payload_at c (enc_issuer e) (enc_audience e) registered (JObj claims) issued_at = Inr payload"
    and enc: "tok_encrypt c nonce (enc_key e) payload ?footer implicit = Some (iss_token t)"
    by (auto simp: token_encrypt_def and_then_Ok_iff)
  note sealed = sealed_envD [OF assms(1)]
  have "tok_footer c (iss_token t) = Some ?footer" using sealed(7) [OF enc] .
  moreover have "parse_footer c ?footer = Inr (enc_key_id e)"
    using assms(6) by (simp add: parse_footer_def sealed(5))
  moreover have "tok_decrypt c (enc_key e) (iss_token t) ?footer implicit' =
      (if implicit' = implicit then Some payload else None)"
    using sealed(8) [OF enc] sealed(9) [OF enc, of implicit' "enc_key e"] by auto
  ultimately show ?thesis
    using verified_payload_sealed [where decode = decode, OF assms(1) payload assms(7-11), of now "enc_key_id e"] assms(3-5)
    by (simp add: token_decrypt_def)
qed

section \<open>An instance of the parameters\<close>

definition sealing_env :: token_env where
  "sealing_env = dotted_token_env\<lparr>tok_time_text := (\<lambda>t. CHR ''t'' # dotted t),
     tok_time_parse := (\<lambda>t. Some (whole_seconds (undotted (tl t))))\<rparr>"

lemma sealing_env_ok: "sealed_env_ok sealing_env"
proof -
  have "uuid_text simple_uuid_codec u \<noteq> []" for u
    using simple_uuid_codec_ok by (simp add: uuid_codec_ok_def)
  then show ?thesis
    using dotted_token_env_ok
    by (simp add: sealed_env_ok_def token_env_ok_def sealing_env_def dotted_token_env_def)
qed

definition sample_config :: paseto_config where
  "sample_config = \<lparr>pc_active_key_id = ''k'', pc_keys = [\<lparr>pk_id = ''k'', pk_secret = ''secret''\<rparr>]\<rparr>"

section \<open>Properties\<close>

text \<open>
  C0: A token opens exactly for the purpose it was sealed for and during its life: the decryptor of that
  purpose with the same issuer, audience and keys gives back the subject, the token id, the key id, the expiry
  in whole seconds and the claims, and the decryptor of every other purpose, or any decryptor before the token
  was issued or once it has expired, refuses it.
\<close>

theorem token_opens_only_for_its_purpose:
  assumes "sealed_env_ok c" and "encryptor_from_config c issuer audience config = Inr e"
    and "decryptor_from_config c issuer audience config = Inr d" and "distinct (map pk_id (pc_keys config))"
    and "trim (pc_active_key_id config) \<noteq> []" and "issuer \<noteq> []" and "audience \<noteq> []"
    and "encrypt_for p c nonce issued_at e registered (JObj claims) = Inr t" and "decode claims = Some x"
    and "rfc3339_time issued_at" and "rfc3339_time (reg_expires_at registered)"
  shows "decrypt_for q c decode now d (iss_token t) =
     (if q = p \<and> whole_seconds issued_at \<le> now \<and> now < whole_seconds (reg_expires_at registered)
      then Inr \<lparr>ver_subject = reg_subject registered, ver_token_id = reg_token_id registered,
                ver_key_id = pc_active_key_id config, ver_expires_at = whole_seconds (reg_expires_at registered),
                ver_claims = x\<rparr>
      else Inl TokenVerify)"
  using token_decrypt_sealed [OF assms(1) assms(8) [unfolded encrypt_for_eq], of d decode x "implicit_assertion_of q" now]
    configured_keys [OF assms(2-4)] assms
  by (simp add: decrypt_for_eq implicit_assertion_inj)

theorem token_opens_only_for_its_purpose_witness:
  "\<exists>e d t. encryptor_from_config sealing_env ''i'' ''a'' sample_config = Inr e
     \<and> decryptor_from_config sealing_env ''i'' ''a'' sample_config = Inr d
     \<and> encrypt_for McpOAuthToken sealing_env [] 1000000000 e
         \<lparr>reg_subject = 1, reg_token_id = 2, reg_expires_at = 9000000000\<rparr> (JObj []) = Inr t
     \<and> is_ok (decrypt_for McpOAuthToken sealing_env (\<lambda>_. Some ()) 5000000000 d (iss_token t))
     \<and> decrypt_for UploadSessionToken sealing_env (\<lambda>_. Some ()) 5000000000 d (iss_token t) = Inl TokenVerify"
proof -
  let ?reg = "\<lparr>reg_subject = 1, reg_token_id = 2, reg_expires_at = 9000000000\<rparr> :: registered_claims"
  obtain e where e: "encryptor_from_config sealing_env ''i'' ''a'' sample_config = Inr e"
    by (simp add: encryptor_from_config_def sample_config_def sealing_env_def dotted_token_env_def)
  obtain d where d: "decryptor_from_config sealing_env ''i'' ''a'' sample_config = Inr d"
    by (simp add: decryptor_from_config_def sample_config_def sealing_env_def dotted_token_env_def)
  obtain t where t: "encrypt_for McpOAuthToken sealing_env [] 1000000000 e ?reg (JObj []) = Inr t"
    by (simp add: encrypt_for_eq token_encrypt_def payload_at_def list_ex_iff sealing_env_def dotted_token_env_def)
  have "trim ''k'' \<noteq> []" by code_simp
  then have "decrypt_for q sealing_env (\<lambda>_. Some ()) 5000000000 d (iss_token t) =
     (if q = McpOAuthToken
      then Inr \<lparr>ver_subject = 1, ver_token_id = 2, ver_key_id = ''k'', ver_expires_at = 9000000000, ver_claims = ()\<rparr>
      else Inl TokenVerify)" for q
    using token_opens_only_for_its_purpose [OF sealing_env_ok e d _ _ _ _ t, of "\<lambda>_. Some ()" "()" q 5000000000]
    by (simp add: sample_config_def rfc3339_time_def whole_seconds_def)
  with e d t show ?thesis by auto
qed

text \<open>The claims of an upload token, sealed by the code that issues it, verify to the ids they name.\<close>

lemma agent_evidence_claims_verify:
  assumes "uuid_codec_ok u"
  shows "verified_agent_evidence u
     \<lparr>ver_subject = user, ver_token_id = upload, ver_key_id = k, ver_expires_at = x,
      ver_claims = agent_evidence_claims_new u upload workspace evidence submission user connection\<rparr>
     = Inr \<lparr>vae_upload_id = upload, vae_workspace_id = workspace, vae_evidence_id = evidence,
            vae_submission_id = submission, vae_issued_by_user_id = user,
            vae_issued_via_agent_connection_id = connection, vae_expires_at = x\<rparr>"
  using assms by (simp add: verified_agent_evidence_def agent_evidence_claims_new_def uuid_codec_ok_def)

lemma policy_claims_verify:
  assumes "uuid_codec_ok u"
  shows "verified_policy u
     \<lparr>ver_subject = user, ver_token_id = grant, ver_key_id = k, ver_expires_at = x,
      ver_claims = policy_claims_new u grant workspace policy user connection\<rparr>
     = Inr \<lparr>vpc_grant_id = grant, vpc_workspace_id = workspace, vpc_policy_id = policy,
            vpc_issued_by_user_id = user, vpc_issued_via_agent_connection_id = connection, vpc_expires_at = x\<rparr>"
  using assms by (simp add: verified_policy_def policy_claims_new_def uuid_codec_ok_def)

lemma evidence_link_claims_verify:
  assumes "uuid_codec_ok u" and "time (text valid_from) = Some valid_from" and "time (text valid_until) = Some valid_until"
  shows "verified_evidence_link u time
     \<lparr>ver_subject = user, ver_token_id = grant, ver_key_id = k, ver_expires_at = x,
      ver_claims = evidence_link_claims_new u text grant workspace evidence valid_from valid_until user connection\<rparr>
     = Inr \<lparr>vel_grant_id = grant, vel_workspace_id = workspace, vel_evidence_id = evidence,
            vel_valid_from = valid_from, vel_valid_until = valid_until, vel_issued_by_user_id = user,
            vel_issued_via_agent_connection_id = connection, vel_expires_at = x\<rparr>"
  using assms by (simp add: verified_evidence_link_def evidence_link_claims_new_def uuid_codec_ok_def)

end
