(* ===== verification/Client_Resolution.thy ===== *)
theory Client_Resolution
  imports Tokens Scanner "HOL-Library.List_Lexorder"
begin

text \<open>
  How a client id resolves to the client's metadata: \<^verbatim>\<open>src/services/client_resolver.rs\<close> chooses between the
  signed ids of \<^verbatim>\<open>src/authentication/client_registration.rs\<close> and the metadata documents of
  \<^verbatim>\<open>src/services/cimd.rs\<close>, which are fetched only from addresses outside the private ranges. The URL
  parser, base64, HMAC, SHA-256, the text of JSON, name resolution and the HTTP client are parameters.
\<close>

section \<open>Parameters\<close>

datatype ip_addr =
  V4 "8 word" "8 word" "8 word" "8 word"
| V6 "16 word" "16 word" "16 word" "16 word" "16 word" "16 word" "16 word" "16 word"

record url =
  url_text :: string
  url_scheme :: string
  url_host_str :: "string option"
  url_host_ip :: "ip_addr option"
  url_port_or_default :: "nat option"
  url_path :: string
  url_query :: "string option"

record http_response =
  http_success :: bool
  http_content_length :: "nat option"
  http_chunks :: "(unit + bytes) list"

record client_env =
  cl_url :: "string \<Rightarrow> url option"
  cl_without_port :: "url \<Rightarrow> string"
  cl_b64 :: "bytes \<Rightarrow> string"
  cl_unb64 :: "string \<Rightarrow> bytes option"
  cl_hmac :: "bytes \<Rightarrow> bytes \<Rightarrow> bytes"
  cl_sha256 :: "bytes \<Rightarrow> bytes"
  cl_json_text :: "json \<Rightarrow> bytes"
  cl_json_parse :: "bytes \<Rightarrow> json option"
  cl_lookup :: "string \<Rightarrow> nat \<Rightarrow> (ip_addr \<times> nat) list option"
  cl_get :: "url \<Rightarrow> ip_addr \<times> nat \<Rightarrow> http_response option"

definition text_bytes :: "string \<Rightarrow> bytes" where
  "text_bytes s = map of_char s"

definition bytes_text :: "bytes \<Rightarrow> string" where
  "bytes_text bs = map (\<lambda>b. char_of (unat b)) bs"

lemma unat_of_char: "unat (of_char ch :: 8 word) = of_char ch"
  using unat_of_nat [where 'a = 8, of "of_char ch"] by (simp add: of_nat_of_char)

lemma bytes_text_bytes [simp]: "bytes_text (text_bytes s) = s"
  by (simp add: bytes_text_def text_bytes_def unat_of_char comp_def)

lemma text_bytes_eq [simp]: "text_bytes s = text_bytes t \<longleftrightarrow> s = t"
  by (metis bytes_text_bytes)

section \<open>Signed client ids\<close>

datatype client_registration_error = ClientIdMalformed | ClientIdUnknownKey | ClientIdInvalidSignature

record register_client_payload =
  rcp_client_name :: string
  rcp_redirect_uris :: "string list"

record registered_client =
  rgc_client_id :: string
  rgc_client_name :: string
  rgc_redirect_uris :: "string list"

datatype client_id_resolution =
  IdVerified registered_client | IdInvalid client_registration_error | IdUnrecognized

record canonical_meta =
  meta_client_name :: string
  meta_redirect_uris :: "string list"

definition meta_to_json :: "canonical_meta \<Rightarrow> json" where
  "meta_to_json m =
     JObj [(''client_name'', JStr (meta_client_name m)),
           (''redirect_uris'', JArr (map JStr (meta_redirect_uris m)))]"

fun json_str_list :: "json \<Rightarrow> string list option" where
  "json_str_list (JArr vs) = (if list_all (\<lambda>v. json_as_str v \<noteq> None) vs then Some (map (\<lambda>v. the (json_as_str v)) vs) else None)"
| "json_str_list _ = None"

definition meta_from_json :: "json \<Rightarrow> canonical_meta option" where
  "meta_from_json v =
     (let build = (\<lambda>n u. Option.bind (required_field json_as_str n) (\<lambda>n.
            map_option (\<lambda>u. \<lparr>meta_client_name = n, meta_redirect_uris = u\<rparr>) (required_field json_str_list u))) in
      case v of
        JObj entries \<Rightarrow>
          (case open_fields [''client_name'', ''redirect_uris''] entries of
             Some [n, u] \<Rightarrow> build n u
           | _ \<Rightarrow> None)
      | JArr [n, u] \<Rightarrow> build (Some n) (Some u)
      | _ \<Rightarrow> None)"

record client_registrar =
  reg_keys :: "string \<rightharpoonup> bytes"
  reg_active_kid :: string

definition derive_key :: "client_env \<Rightarrow> string \<Rightarrow> bytes" where
  "derive_key c secret = cl_sha256 c (text_bytes ''proofplane:client-registration:v1:'' @ text_bytes secret)"

definition registrar_from_config :: "client_env \<Rightarrow> paseto_config \<Rightarrow> paseto_error + client_registrar" where
  "registrar_from_config c config =
     (let keys = map_of (rev (map (\<lambda>k. (pk_id k, derive_key c (pk_secret k))) (pc_keys config))) in
      if keys (pc_active_key_id config) = None then Err TokenKeyring
      else Ok \<lparr>reg_keys = keys, reg_active_kid = pc_active_key_id config\<rparr>)"

definition is_loopback_http :: "url \<Rightarrow> bool" where
  "is_loopback_http u \<longleftrightarrow> url_scheme u = ''http''
     \<and> is_some_and (\<lambda>h. h \<in> {''127.0.0.1'', ''localhost'', ''::1'', ''[::1]''}) (url_host_str u)"

definition normalize_redirect_uri :: "client_env \<Rightarrow> string \<Rightarrow> string" where
  "normalize_redirect_uri c uri =
     (case cl_url c uri of
        None \<Rightarrow> uri
      | Some u \<Rightarrow> if is_loopback_http u then cl_without_port c u else uri)"

definition signing_input :: "client_env \<Rightarrow> string \<Rightarrow> canonical_meta \<Rightarrow> string" where
  "signing_input c kid meta =
     ''ppcli.v1.'' @ cl_b64 c (text_bytes kid) @ ''.'' @ cl_b64 c (cl_json_text c (meta_to_json meta))"

text \<open>\<^verbatim>\<open>encode\<close>; the active key is present by construction.\<close>

definition encode_client_id :: "client_env \<Rightarrow> client_registrar \<Rightarrow> canonical_meta \<Rightarrow> string" where
  "encode_client_id c r meta =
     (let input = signing_input c (reg_active_kid r) meta in
      input @ ''.'' @ cl_b64 c (cl_hmac c (the (reg_keys r (reg_active_kid r))) (text_bytes input)))"

definition sort_texts :: "string list \<Rightarrow> string list" where
  "sort_texts = sort_key (map byte_of)"

definition register_client :: "client_env \<Rightarrow> client_registrar \<Rightarrow> register_client_payload \<Rightarrow> registered_client" where
  "register_client c r payload =
     (let meta = \<lparr>meta_client_name = rcp_client_name payload,
            meta_redirect_uris = remdups_adj (sort_texts (map (normalize_redirect_uri c) (rcp_redirect_uris payload)))\<rparr> in
      \<lparr>rgc_client_id = encode_client_id c r meta, rgc_client_name = meta_client_name meta,
       rgc_redirect_uris = meta_redirect_uris meta\<rparr>)"

definition decode_client_id ::
  "client_env \<Rightarrow> client_registrar \<Rightarrow> string \<Rightarrow> client_registration_error + registered_client" where
  "decode_client_id c r client_id =
     (case split_on CHR ''.'' client_id of
        [ppcli, v1, kid64, meta64, tag64] \<Rightarrow>
          if ppcli \<noteq> ''ppcli'' \<or> v1 \<noteq> ''v1'' then Err ClientIdMalformed
          else
            and_then (ok_or ClientIdMalformed (cl_unb64 c kid64)) (\<lambda>kid_bytes.
            if \<not> utf8_valid kid_bytes then Err ClientIdMalformed
            else
              and_then (ok_or ClientIdUnknownKey (reg_keys r (bytes_text kid_bytes))) (\<lambda>key.
              and_then (ok_or ClientIdMalformed (cl_unb64 c tag64)) (\<lambda>tag.
              if cl_hmac c key (text_bytes (ppcli @ ''.'' @ v1 @ ''.'' @ kid64 @ ''.'' @ meta64)) \<noteq> tag
              then Err ClientIdInvalidSignature
              else
                and_then (ok_or ClientIdMalformed (cl_unb64 c meta64)) (\<lambda>meta_json.
                and_then (ok_or ClientIdMalformed (Option.bind (cl_json_parse c meta_json) meta_from_json)) (\<lambda>meta.
                Ok \<lparr>rgc_client_id = client_id, rgc_client_name = meta_client_name meta,
                    rgc_redirect_uris = meta_redirect_uris meta\<rparr>)))))
      | _ \<Rightarrow> Err ClientIdMalformed)"

definition resolve_signed :: "client_env \<Rightarrow> client_registrar \<Rightarrow> string \<Rightarrow> client_id_resolution" where
  "resolve_signed c r client_id =
     (if take 6 client_id \<noteq> ''ppcli.'' then IdUnrecognized
      else (case decode_client_id c r client_id of Inr client \<Rightarrow> IdVerified client | Inl e \<Rightarrow> IdInvalid e))"

section \<open>Metadata documents\<close>

datatype cimd_error = CimdInvalidClient | CimdForbiddenHost | CimdUnreachable

record resolved_client =
  rsc_client_name :: string
  rsc_redirect_uris :: "string list"

record metadata_document =
  mdd_client_id :: "string option"
  mdd_client_name :: "string option"
  mdd_redirect_uris :: "string list"

definition parse_https_url :: "client_env \<Rightarrow> string \<Rightarrow> cimd_error + url" where
  "parse_https_url c client_id =
     (case cl_url c client_id of
        None \<Rightarrow> Err CimdInvalidClient
      | Some u \<Rightarrow> if url_scheme u \<noteq> ''https'' \<or> url_host_str u = None then Err CimdInvalidClient else Ok u)"

text \<open>The classes of \<^verbatim>\<open>std::net\<close>, and the ranges the code adds to them.\<close>

definition is_forbidden_ipv4 :: "8 word \<Rightarrow> 8 word \<Rightarrow> 8 word \<Rightarrow> 8 word \<Rightarrow> bool" where
  "is_forbidden_ipv4 a b c d \<longleftrightarrow>
     (a = 10 \<or> a = 172 \<and> 16 \<le> b \<and> b \<le> 31 \<or> a = 192 \<and> b = 168)
     \<or> a = 127
     \<or> a = 169 \<and> b = 254
     \<or> a = 255 \<and> b = 255 \<and> c = 255 \<and> d = 255
     \<or> (a = 192 \<and> b = 0 \<and> c = 2 \<or> a = 198 \<and> b = 51 \<and> c = 100 \<or> a = 203 \<and> b = 0 \<and> c = 113)
     \<or> a = 0 \<and> b = 0 \<and> c = 0 \<and> d = 0
     \<or> 224 \<le> a \<and> a \<le> 239
     \<or> a = 100 \<and> and b 0xc0 = 0x40
     \<or> a = 198 \<and> and b 0xfe = 18"

definition is_forbidden_ipv6 :: "16 word list \<Rightarrow> bool" where
  "is_forbidden_ipv6 segments \<longleftrightarrow>
     segments = [0, 0, 0, 0, 0, 0, 0, 1]
     \<or> segments = [0, 0, 0, 0, 0, 0, 0, 0]
     \<or> and (hd segments) 0xff00 = 0xff00
     \<or> and (hd segments) 0xfe00 = 0xfc00
     \<or> and (hd segments) 0xffc0 = 0xfe80"

text \<open>An IPv6 address that carries an IPv4 address is judged by the address it carries.\<close>

definition is_forbidden_ip :: "ip_addr \<Rightarrow> bool" where
  "is_forbidden_ip ip =
     (case ip of
        V4 a b c d \<Rightarrow> is_forbidden_ipv4 a b c d
      | V6 s0 s1 s2 s3 s4 s5 s6 s7 \<Rightarrow>
          if [s0, s1, s2, s3, s4, s5] = [0, 0, 0, 0, 0, 0xffff]
          then is_forbidden_ipv4 (ucast (drop_bit 8 s6)) (ucast s6) (ucast (drop_bit 8 s7)) (ucast s7)
          else is_forbidden_ipv6 [s0, s1, s2, s3, s4, s5, s6, s7])"

definition permit_addr :: "ip_addr \<times> nat \<Rightarrow> cimd_error + (ip_addr \<times> nat)" where
  "permit_addr addr = (if is_forbidden_ip (fst addr) then Err CimdForbiddenHost else Ok addr)"

definition resolve_permitted_addr :: "client_env \<Rightarrow> url \<Rightarrow> cimd_error + (ip_addr \<times> nat)" where
  "resolve_permitted_addr c u =
     (case url_host_str u of
        None \<Rightarrow> Err CimdInvalidClient
      | Some host \<Rightarrow>
          (let port = (case url_port_or_default u of Some p \<Rightarrow> p | None \<Rightarrow> 443) in
           case url_host_ip u of
             Some ip \<Rightarrow> permit_addr (ip, port)
           | None \<Rightarrow>
               (case cl_lookup c host port of
                  None \<Rightarrow> Err CimdUnreachable
                | Some addrs \<Rightarrow> ok_or CimdForbiddenHost (find (\<lambda>a. is_ok (permit_addr a)) addrs))))"

definition max_document_bytes :: nat where
  "max_document_bytes = 64 * 1024"

fun read_chunks :: "nat \<Rightarrow> (unit + bytes) list \<Rightarrow> bytes \<Rightarrow> cimd_error + bytes" where
  "read_chunks max_bytes [] body = Ok body"
| "read_chunks max_bytes (Inl _ # chunks) body = Err CimdUnreachable"
| "read_chunks max_bytes (Inr chunk # chunks) body =
     (if length body + length chunk > max_bytes then Err CimdInvalidClient
      else read_chunks max_bytes chunks (body @ chunk))"

definition read_capped_body :: "nat \<Rightarrow> http_response \<Rightarrow> cimd_error + bytes" where
  "read_capped_body max_bytes response =
     (if is_some_and (\<lambda>len. len > max_bytes) (http_content_length response) then Err CimdInvalidClient
      else read_chunks max_bytes (http_chunks response) [])"

text \<open>A field with \<^verbatim>\<open>serde(default)\<close> may be absent; an optional one may be null.\<close>

definition document_from_json :: "json \<Rightarrow> metadata_document option" where
  "document_from_json v =
     (let build = (\<lambda>i n u. Option.bind (json_opt json_as_str i) (\<lambda>i. Option.bind (json_opt json_as_str n) (\<lambda>n.
            map_option (\<lambda>u. \<lparr>mdd_client_id = i, mdd_client_name = n, mdd_redirect_uris = u\<rparr>)
              (case u of None \<Rightarrow> Some [] | Some u \<Rightarrow> json_str_list u)))) in
      case v of
        JObj entries \<Rightarrow>
          (case open_fields [''client_id'', ''client_name'', ''redirect_uris''] entries of
             Some [i, n, u] \<Rightarrow> build i n u
           | _ \<Rightarrow> None)
      | JArr [] \<Rightarrow> build None None None
      | JArr [i] \<Rightarrow> build (Some i) None None
      | JArr [i, n] \<Rightarrow> build (Some i) (Some n) None
      | JArr [i, n, u] \<Rightarrow> build (Some i) (Some n) (Some u)
      | _ \<Rightarrow> None)"

definition default_client_name :: string where
  "default_client_name = ''MCP client''"

definition validate_document :: "url \<Rightarrow> metadata_document \<Rightarrow> cimd_error + resolved_client" where
  "validate_document u doc =
     (if is_some_and (\<lambda>declared. declared \<noteq> url_text u) (mdd_client_id doc) then Err CimdInvalidClient
      else if mdd_redirect_uris doc = [] then Err CimdInvalidClient
      else Ok \<lparr>rsc_client_name =
             (case mdd_client_name doc of
                None \<Rightarrow> default_client_name
              | Some name \<Rightarrow> if trim name = [] then default_client_name else trim name),
           rsc_redirect_uris = mdd_redirect_uris doc\<rparr>)"

text \<open>The request goes to the address that was checked, without following redirects.\<close>

definition fetch_document :: "client_env \<Rightarrow> url \<Rightarrow> ip_addr \<times> nat \<Rightarrow> nat \<Rightarrow> cimd_error + resolved_client" where
  "fetch_document c u addr max_bytes =
     and_then (ok_or CimdUnreachable (cl_get c u addr)) (\<lambda>response.
     if \<not> http_success response then Err CimdInvalidClient
     else
       and_then (read_capped_body max_bytes response) (\<lambda>body.
       and_then (ok_or CimdInvalidClient (Option.bind (cl_json_parse c body) document_from_json)) (\<lambda>doc.
       validate_document u doc)))"

definition cimd_resolve :: "client_env \<Rightarrow> string \<Rightarrow> cimd_error + resolved_client" where
  "cimd_resolve c client_id =
     and_then (parse_https_url c client_id) (\<lambda>u.
     and_then (resolve_permitted_addr c u) (\<lambda>addr.
       fetch_document c u addr max_document_bytes))"

section \<open>The resolver\<close>

datatype client_resolution_error =
  ResolutionCimd cimd_error | ResolutionInvalid client_registration_error | UnrecognizedFormat

definition is_cimd_client_id :: "client_env \<Rightarrow> string \<Rightarrow> bool" where
  "is_cimd_client_id c client_id = is_some_and (\<lambda>u. url_scheme u = ''https'') (cl_url c client_id)"

definition resolve_client ::
  "client_env \<Rightarrow> client_registrar \<Rightarrow> string \<Rightarrow> client_resolution_error + resolved_client" where
  "resolve_client c r client_id =
     (case resolve_signed c r client_id of
        IdVerified client \<Rightarrow> Ok \<lparr>rsc_client_name = rgc_client_name client, rsc_redirect_uris = rgc_redirect_uris client\<rparr>
      | IdUnrecognized \<Rightarrow>
          if is_cimd_client_id c client_id then map_err ResolutionCimd (cimd_resolve c client_id)
          else Err UnrecognizedFormat
      | IdInvalid e \<Rightarrow> Err (ResolutionInvalid e))"

section \<open>The forbidden addresses as blocks\<close>

text \<open>An address as a number, and the blocks an address is looked for in, as base and prefix length.\<close>

definition ipv4_value :: "nat \<Rightarrow> nat \<Rightarrow> nat \<Rightarrow> nat \<Rightarrow> nat" where
  "ipv4_value a b c d = ((a * 256 + b) * 256 + c) * 256 + d"

definition ipv6_value :: "16 word list \<Rightarrow> nat" where
  "ipv6_value segments = fold (\<lambda>s n. n * 65536 + unat s) segments 0"

definition in_block :: "nat \<Rightarrow> nat \<Rightarrow> nat \<times> nat \<Rightarrow> bool" where
  "in_block width address block \<longleftrightarrow>
     address div 2 ^ (width - snd block) = fst block div 2 ^ (width - snd block)"

definition private_v4_blocks :: "(nat \<times> nat) list" where
  "private_v4_blocks =
     [(ipv4_value 0 0 0 0, 32), (ipv4_value 10 0 0 0, 8), (ipv4_value 100 64 0 0, 10), (ipv4_value 127 0 0 0, 8),
      (ipv4_value 169 254 0 0, 16), (ipv4_value 172 16 0 0, 12), (ipv4_value 192 0 2 0, 24),
      (ipv4_value 192 168 0 0, 16), (ipv4_value 198 18 0 0, 15), (ipv4_value 198 51 100 0, 24),
      (ipv4_value 203 0 113 0, 24), (ipv4_value 224 0 0 0, 4), (ipv4_value 255 255 255 255, 32)]"

definition private_v6_blocks :: "(nat \<times> nat) list" where
  "private_v6_blocks =
     [(0, 128), (1, 128), (0xfc00 * 2 ^ 112, 7), (0xfe80 * 2 ^ 112, 10), (0xff00 * 2 ^ 112, 8)]"

definition mapped_block :: "nat \<times> nat" where
  "mapped_block = (0xffff * 2 ^ 32, 96)"

definition public_address :: "ip_addr \<Rightarrow> bool" where
  "public_address ip =
     (case ip of
        V4 a b c d \<Rightarrow> \<not> list_ex (in_block 32 (ipv4_value (unat a) (unat b) (unat c) (unat d))) private_v4_blocks
      | V6 s0 s1 s2 s3 s4 s5 s6 s7 \<Rightarrow>
          (let n = ipv6_value [s0, s1, s2, s3, s4, s5, s6, s7] in
           if in_block 128 n mapped_block then \<not> list_ex (in_block 32 (n mod 2 ^ 32)) private_v4_blocks
           else \<not> list_ex (in_block 128 n) private_v6_blocks))"

lemma masked_eq:
  fixes w :: "'a::len word"
  shows "and w (not (mask k)) = and v (not (mask k)) \<longleftrightarrow> unat w div 2 ^ k = unat v div 2 ^ k"
proof -
  have "and x (not (mask k)) = push_bit k (drop_bit k x)" for x :: "'a word"
    by (rule bit_word_eqI) (auto simp: bit_simps)
  moreover have "drop_bit k (and x (not (mask k))) = drop_bit k x" for x :: "'a word"
    by (rule bit_word_eqI) (auto simp: bit_simps dest: bit_imp_le_length)
  ultimately have "and w (not (mask k)) = and v (not (mask k)) \<longleftrightarrow> drop_bit k w = drop_bit k v" by metis
  then show ?thesis
    by (simp only: word_unat_eq_iff [of "drop_bit k w"] unat_drop_bit_eq) (simp add: drop_bit_eq_div)
qed

lemma masked_bytes:
  fixes b :: "8 word" and s :: "16 word"
  shows "and b 0xc0 = 0x40 \<longleftrightarrow> unat b div 64 = 1" "and b 0xfe = 18 \<longleftrightarrow> unat b div 2 = 9"
    "and s 0xff00 = 0xff00 \<longleftrightarrow> unat s div 256 = 255" "and s 0xfe00 = 0xfc00 \<longleftrightarrow> unat s div 512 = 126"
    "and s 0xffc0 = 0xfe80 \<longleftrightarrow> unat s div 64 = 1018"
proof -
  have "(0xc0 :: 8 word) = not (mask 6)" "(0xfe :: 8 word) = not (mask 1)" "(0xff00 :: 16 word) = not (mask 8)"
    "(0xfe00 :: 16 word) = not (mask 9)" "(0xffc0 :: 16 word) = not (mask 6)"
    by (simp_all add: mask_eq_exp_minus_1)
  moreover have "and 0x40 (0xc0 :: 8 word) = 0x40" "and 18 (0xfe :: 8 word) = 18"
    "and 0xff00 (0xff00 :: 16 word) = 0xff00" "and 0xfc00 (0xfe00 :: 16 word) = 0xfc00"
    "and 0xfe80 (0xffc0 :: 16 word) = 0xfe80"
    by simp_all
  ultimately show "and b 0xc0 = 0x40 \<longleftrightarrow> unat b div 64 = 1" "and b 0xfe = 18 \<longleftrightarrow> unat b div 2 = 9"
    "and s 0xff00 = 0xff00 \<longleftrightarrow> unat s div 256 = 255" "and s 0xfe00 = 0xfc00 \<longleftrightarrow> unat s div 512 = 126"
    "and s 0xffc0 = 0xfe80 \<longleftrightarrow> unat s div 64 = 1018"
    using masked_eq [of b 6 "0x40"] masked_eq [of b 1 "18"] masked_eq [of s 8 "0xff00"]
      masked_eq [of s 9 "0xfc00"] masked_eq [of s 6 "0xfe80"]
    by (simp_all only: ) simp_all
qed

lemma ipv4_value_div:
  fixes a b c d :: nat
  assumes "a < 256" "b < 256" "c < 256" "d < 256"
  shows "ipv4_value a b c d div 268435456 = a div 16" "ipv4_value a b c d div 16777216 = a"
    "ipv4_value a b c d div 4194304 = a * 4 + b div 64" "ipv4_value a b c d div 1048576 = a * 16 + b div 16"
    "ipv4_value a b c d div 131072 = a * 128 + b div 2" "ipv4_value a b c d div 65536 = a * 256 + b"
    "ipv4_value a b c d div 256 = ipv4_value 0 a b c"
  using assms unfolding ipv4_value_def by simp_all

lemma digit_eq: "(x :: nat) < m \<Longrightarrow> n * m + x = k \<longleftrightarrow> n = k div m \<and> x = k mod m"
  by auto

lemma ipv4_value_eq:
  assumes "b < 256" "c < 256" "d < 256"
  shows "ipv4_value a b c d = k \<longleftrightarrow>
     a = k div 256 div 256 div 256 \<and> b = k div 256 div 256 mod 256 \<and> c = k div 256 mod 256 \<and> d = k mod 256"
  unfolding ipv4_value_def digit_eq [OF assms(1)] digit_eq [OF assms(2)] digit_eq [OF assms(3)] by blast

lemma forbidden_ipv4_blocks:
  "is_forbidden_ipv4 a b c d \<longleftrightarrow>
     list_ex (in_block 32 (ipv4_value (unat a) (unat b) (unat c) (unat d))) private_v4_blocks"
proof -
  let ?a = "unat a" and ?b = "unat b" and ?c = "unat c" and ?d = "unat d"
  have lt: "?a < 256" "?b < 256" "?c < 256" "?d < 256"
    using unsigned_less [of a] unsigned_less [of b] unsigned_less [of c] unsigned_less [of d] by simp_all
  note divs = ipv4_value_div [OF lt]
  have quarters: "?b div 64 < 4" "?b div 16 < 16" "?b div 2 < 128" using lt by auto
  have ranges: "16 \<le> ?b \<and> ?b \<le> 31 \<longleftrightarrow> ?b div 16 = 1" "224 \<le> ?a \<and> ?a \<le> 239 \<longleftrightarrow> ?a div 16 = 14" by auto
  note arith = digit_eq [OF lt(2)] ipv4_value_eq [OF lt(1-3)] ipv4_value_eq [OF lt(2-4)] digit_eq [OF quarters(1)]
    digit_eq [OF quarters(2)] digit_eq [OF quarters(3)] ranges
  show ?thesis
    unfolding is_forbidden_ipv4_def masked_bytes
    by (simp add: private_v4_blocks_def in_block_def divs word_unat_eq_iff word_le_nat_alt arith)
      (simp add: ipv4_value_def, argo)
qed

lemma digits_div:
  fixes n x :: nat
  assumes "x < 65536"
  shows "(n * 65536 + x) div 65536 = n" "(n * 65536 + x) mod 65536 = x" "n * 65536 + x = 0 \<longleftrightarrow> n = 0 \<and> x = 0"
    "k < 65536 \<Longrightarrow> n * 65536 + x = k \<longleftrightarrow> n = 0 \<and> x = k"
  using assms by auto

lemma segment_less: "unat (s :: 16 word) < 65536"
  using unsigned_less [of s] by simp

lemma ipv6_value_snoc: "ipv6_value (segments @ [s]) = ipv6_value segments * 65536 + unat s"
  by (simp add: ipv6_value_def)

lemma ipv6_value_0: "ipv6_value segments = 0 \<longleftrightarrow> (\<forall>s \<in> set segments. s = 0)"
  by (induction segments rule: rev_induct)
    (auto simp: ipv6_value_def unsigned_eq_0_iff)

lemma ipv6_value_append:
  "ipv6_value (xs @ ys) = ipv6_value xs * 65536 ^ length ys + ipv6_value ys"
proof (induction ys rule: rev_induct)
  case (snoc y ys)
  then show ?case
    by (simp only: append_assoc [symmetric] ipv6_value_snoc) (simp add: algebra_simps)
qed (simp add: ipv6_value_def)

lemma ipv6_value_less: "ipv6_value xs < 65536 ^ length xs"
proof (induction xs rule: rev_induct)
  case (snoc x xs)
  then have "ipv6_value xs * 65536 + 65536 \<le> 65536 ^ length xs * 65536"
    by (metis Suc_leI add.commute mult_Suc mult_le_mono1)
  then show ?case using segment_less [of x] by (simp add: ipv6_value_snoc)
qed (simp add: ipv6_value_def)

lemma ipv6_value_div: "ipv6_value (xs @ ys) div 65536 ^ length ys = ipv6_value xs"
  "ipv6_value (xs @ ys) mod 65536 ^ length ys = ipv6_value ys"
  using ipv6_value_less [of ys] by (simp_all add: ipv6_value_append)

lemma ipv6_top:
  "ipv6_value [s0, s1, s2, s3, s4, s5, s6, s7] div 2 ^ (112 + k) = unat s0 div 2 ^ k"
proof -
  have "ipv6_value [s0, s1, s2, s3, s4, s5, s6, s7] div 2 ^ 112 = unat s0"
    using ipv6_value_div(1) [of "[s0]" "[s1, s2, s3, s4, s5, s6, s7]"] by (simp add: ipv6_value_def)
  then show ?thesis by (simp add: power_add div_mult2_eq)
qed

lemma ipv6_mapped:
  "in_block 128 (ipv6_value [s0, s1, s2, s3, s4, s5, s6, s7]) mapped_block \<longleftrightarrow>
     [s0, s1, s2, s3, s4, s5] = [0, 0, 0, 0, 0, 0xffff]"
proof -
  have "ipv6_value [s0, s1, s2, s3, s4, s5, s6, s7] div 2 ^ 32 = ipv6_value ([s0, s1, s2, s3, s4] @ [s5])"
    using ipv6_value_div(1) [of "[s0, s1, s2, s3, s4, s5]" "[s6, s7]"] by simp
  moreover have "ipv6_value ([s0, s1, s2, s3, s4] @ [s5]) = 65535 \<longleftrightarrow>
      ipv6_value [s0, s1, s2, s3, s4] = 0 \<and> unat s5 = 65535"
    using segment_less [of s5] unfolding ipv6_value_snoc by (simp add: digits_div)
  moreover have "unat s5 = 65535 \<longleftrightarrow> s5 = 0xffff" by (simp add: word_unat_eq_iff)
  ultimately show ?thesis by (simp add: in_block_def mapped_block_def ipv6_value_0)
qed

lemma ipv6_low:
  "ipv6_value [s0, s1, s2, s3, s4, s5, s6, s7] mod 4294967296 =
     ipv4_value (unat (ucast (drop_bit 8 s6) :: 8 word)) (unat (ucast s6 :: 8 word))
       (unat (ucast (drop_bit 8 s7) :: 8 word)) (unat (ucast s7 :: 8 word))"
proof -
  have bytes: "unat (ucast (drop_bit 8 s) :: 8 word) = unat s div 256" "unat (ucast s :: 8 word) = unat s mod 256"
    for s :: "16 word"
    using segment_less [of s]
    by (simp_all add: unsigned_ucast_eq take_bit_eq_mod drop_bit_eq_div unat_div_distrib)
  have "ipv6_value [s0, s1, s2, s3, s4, s5, s6, s7] mod 4294967296 = unat s6 * 65536 + unat s7"
    using ipv6_value_div(2) [of "[s0, s1, s2, s3, s4, s5]" "[s6, s7]"] by (simp add: ipv6_value_def)
  moreover have "(x * 256 + y div 256) * 256 + y mod 256 = x * 65536 + y" for x y :: nat
    by (simp only: distrib_right add.assoc mult.assoc div_mult_mod_eq)
  ultimately show ?thesis
    unfolding bytes(1) unfolding bytes(2) ipv4_value_def div_mult_mod_eq by (simp only:)
qed

lemma public_address_iff: "public_address ip \<longleftrightarrow> \<not> is_forbidden_ip ip"
proof (cases ip)
  case (V6 s0 s1 s2 s3 s4 s5 s6 s7)
  let ?n = "ipv6_value [s0, s1, s2, s3, s4, s5, s6, s7]"
  have one: "unat s7 = Suc 0 \<longleftrightarrow> s7 = 1" by (simp add: word_unat_eq_iff)
  have "?n = 0 \<longleftrightarrow> [s0, s1, s2, s3, s4, s5, s6, s7] = [0, 0, 0, 0, 0, 0, 0, 0]"
    by (simp add: ipv6_value_0)
  moreover have "?n = 1 \<longleftrightarrow> [s0, s1, s2, s3, s4, s5, s6, s7] = [0, 0, 0, 0, 0, 0, 0, 1]"
    using segment_less [of s7] ipv6_value_snoc [of "[s0, s1, s2, s3, s4, s5, s6]" s7] one
    by (simp add: digits_div ipv6_value_0)
  ultimately have "list_ex (in_block 128 ?n) private_v6_blocks \<longleftrightarrow>
      is_forbidden_ipv6 [s0, s1, s2, s3, s4, s5, s6, s7]"
    using ipv6_top [of s0 s1 s2 s3 s4 s5 s6 s7 8] ipv6_top [of s0 s1 s2 s3 s4 s5 s6 s7 9]
      ipv6_top [of s0 s1 s2 s3 s4 s5 s6 s7 6]
    by (simp add: private_v6_blocks_def in_block_def is_forbidden_ipv6_def masked_bytes) blast
  then show ?thesis
    by (simp add: V6 public_address_def is_forbidden_ip_def Let_def ipv6_mapped ipv6_low forbidden_ipv4_blocks
        del: One_nat_def)
qed (simp add: public_address_def is_forbidden_ip_def forbidden_ipv4_blocks)

section \<open>What a signed id says\<close>

definition client_env_ok :: "client_env \<Rightarrow> bool" where
  "client_env_ok c \<longleftrightarrow>
     (\<forall>bs. cl_unb64 c (cl_b64 c bs) = Some bs \<and> CHR ''.'' \<notin> set (cl_b64 c bs))
     \<and> (\<forall>v. cl_json_parse c (cl_json_text c v) = Some v)"

lemma client_envD:
  assumes "client_env_ok c"
  shows "cl_unb64 c (cl_b64 c bs) = Some bs" "split_on CHR ''.'' (cl_b64 c bs) = [cl_b64 c bs]"
    "CHR ''.'' \<notin> set (cl_b64 c bs)" "cl_json_parse c (cl_json_text c v) = Some v"
    "cl_b64 c bs = cl_b64 c bs' \<longleftrightarrow> bs = bs'" "cl_json_text c v = cl_json_text c v' \<longleftrightarrow> v = v'"
  using assms unfolding client_env_ok_def by (auto simp: split_on_no_sep) (metis option.inject)+

lemma json_str_list_JStr [simp]: "json_str_list (JArr (map JStr us)) = Some us"
  by (simp add: list_all_iff comp_def)

declare json_str_list.simps [simp del]

lemma meta_reload [simp]: "meta_from_json (meta_to_json m) = Some m"
  by (cases m) (simp add: meta_from_json_def meta_to_json_def open_fields_def required_field_def)

lemma meta_to_json_eq [simp]: "meta_to_json m = meta_to_json n \<longleftrightarrow> m = n"
  by (metis meta_reload option.inject)

lemma registrar_wf:
  assumes "registrar_from_config c config = Inr r"
  shows "reg_active_kid r = pc_active_key_id config" "reg_keys r (pc_active_key_id config) \<noteq> None"
  using assms by (auto simp: registrar_from_config_def Let_def split: if_splits)

lemma split_dotted:
  "CHR ''.'' \<notin> set p \<Longrightarrow> split_on CHR ''.'' (p @ CHR ''.'' # s) = p # split_on CHR ''.'' s"
  by (simp add: split_on_append_sep split_on_no_sep)

lemma encoded_segments:
  assumes "client_env_ok c"
  shows "split_on CHR ''.'' (encode_client_id c r meta) =
     [''ppcli'', ''v1'', cl_b64 c (text_bytes (reg_active_kid r)), cl_b64 c (cl_json_text c (meta_to_json meta)),
      cl_b64 c (cl_hmac c (the (reg_keys r (reg_active_kid r))) (text_bytes (signing_input c (reg_active_kid r) meta)))]"
  using client_envD(2,3) [OF assms]
    split_dotted [of "''ppcli''"] split_dotted [of "''v1''"]
  by (simp add: encode_client_id_def signing_input_def Let_def split_dotted)

lemma decode_encoded:
  assumes "client_env_ok c" and "reg_keys r (reg_active_kid r) \<noteq> None" and "utf8_valid (text_bytes (reg_active_kid r))"
  shows "decode_client_id c r (encode_client_id c r meta) =
     Inr \<lparr>rgc_client_id = encode_client_id c r meta, rgc_client_name = meta_client_name meta,
          rgc_redirect_uris = meta_redirect_uris meta\<rparr>"
  using assms(2,3) client_envD [OF assms(1)]
  by (auto simp: decode_client_id_def encoded_segments [OF assms(1)] signing_input_def)

lemma resolve_encoded:
  assumes "client_env_ok c" and "reg_keys r (reg_active_kid r) \<noteq> None" and "utf8_valid (text_bytes (reg_active_kid r))"
  shows "resolve_client c r (encode_client_id c r meta) =
     Inr \<lparr>rsc_client_name = meta_client_name meta, rsc_redirect_uris = meta_redirect_uris meta\<rparr>"
proof -
  have "take 6 (encode_client_id c r meta) = ''ppcli.''"
    by (simp add: encode_client_id_def signing_input_def Let_def)
  then show ?thesis by (simp add: resolve_client_def resolve_signed_def decode_encoded [OF assms])
qed

lemma encode_client_id_inj:
  assumes "client_env_ok c"
  shows "encode_client_id c r meta = encode_client_id c r meta' \<longleftrightarrow> meta = meta'"
proof
  assume "encode_client_id c r meta = encode_client_id c r meta'"
  then have "cl_b64 c (cl_json_text c (meta_to_json meta)) = cl_b64 c (cl_json_text c (meta_to_json meta'))"
    using encoded_segments [OF assms, of r meta] encoded_segments [OF assms, of r meta'] by simp
  then show "meta = meta'" by (simp add: client_envD(5,6) [OF assms])
qed simp

text \<open>The redirect addresses of a registration depend on their set only.\<close>

definition canonical_redirects :: "client_env \<Rightarrow> string list \<Rightarrow> string list" where
  "canonical_redirects c uris = remdups_adj (sort_texts (map (normalize_redirect_uri c) uris))"

lemma set_canonical_redirects: "set (canonical_redirects c uris) = normalize_redirect_uri c ` set uris"
  by (simp add: canonical_redirects_def sort_texts_def)

lemma bytes_inj: "inj (map byte_of)"
  by (simp add: inj_map_eq_map inj_on_def)

lemma distinct_remdups_adj_sorted: "sorted xs \<Longrightarrow> distinct (remdups_adj xs)"
  by (induction xs rule: remdups_adj.induct) fastforce+

lemma canonical_redirects_eq:
  "canonical_redirects c us = canonical_redirects c vs \<longleftrightarrow>
     normalize_redirect_uri c ` set us = normalize_redirect_uri c ` set vs"
proof
  let ?key = "map byte_of"
  have sorted: "sorted (map ?key (canonical_redirects c ws))" "distinct (map ?key (canonical_redirects c ws))" for ws
  proof -
    let ?xs = "sort_texts (map (normalize_redirect_uri c) ws)"
    have "sorted (map ?key ?xs)" by (simp add: sort_texts_def)
    moreover have "map ?key (remdups_adj ?xs) = remdups_adj (map ?key ?xs)"
      by (rule remdups_adj_map_injective [symmetric]) (rule bytes_inj)
    ultimately show "sorted (map ?key (canonical_redirects c ws))" "distinct (map ?key (canonical_redirects c ws))"
      by (simp_all add: canonical_redirects_def sorted_remdups_adj distinct_remdups_adj_sorted)
  qed
  assume "normalize_redirect_uri c ` set us = normalize_redirect_uri c ` set vs"
  then show "canonical_redirects c us = canonical_redirects c vs"
    using sorted [of us] sorted [of vs]
    by (intro map_sorted_distinct_set_unique [where f = ?key])
      (auto simp: set_canonical_redirects intro: inj_on_subset [OF bytes_inj])
qed (metis set_canonical_redirects)

lemma registered_meta:
  "rgc_client_id (register_client c r p) =
     encode_client_id c r \<lparr>meta_client_name = rcp_client_name p,
       meta_redirect_uris = canonical_redirects c (rcp_redirect_uris p)\<rparr>"
  by (simp add: register_client_def canonical_redirects_def Let_def)

lemma resolved_signed:
  assumes "take 6 client_id = ''ppcli.''" and "resolve_client c r client_id = Inr m"
  shows "\<exists>input tag kid key. client_id = input @ CHR ''.'' # tag \<and> reg_keys r kid = Some key
     \<and> cl_unb64 c tag = Some (cl_hmac c key (text_bytes input))"
proof -
  from assms obtain client where "decode_client_id c r client_id = Inr client"
    by (auto simp: resolve_client_def resolve_signed_def split: sum.splits)
  then obtain p v kid meta tag i key where split: "split_on CHR ''.'' client_id = [p, v, kid, meta, tag]"
    and key: "reg_keys r i = Some key"
    and tag: "cl_unb64 c tag = Some (cl_hmac c key (text_bytes (p @ ''.'' @ v @ ''.'' @ kid @ ''.'' @ meta)))"
    by (auto simp: decode_client_id_def and_then_Ok_iff split: list.splits if_splits)
  have "client_id = (p @ ''.'' @ v @ ''.'' @ kid @ ''.'' @ meta) @ CHR ''.'' # tag"
    using join_split_on [of "CHR ''.''" client_id] by (simp add: split)
  with key tag show ?thesis by blast
qed

section \<open>Properties\<close>

text \<open>
  C0: A client id that the registrar mints stands for the client's name and the set of its redirect addresses,
  a loopback address without its port: the id resolves to exactly these, two registrations get the same id
  exactly if they agree on them, and whatever id of this format resolves ends in the code of authentication of
  everything before it under a key of the registrar.
\<close>

theorem signed_client_id_exact:
  assumes "client_env_ok c" and "registrar_from_config c config = Inr r"
    and "utf8_valid (text_bytes (pc_active_key_id config))"
  shows "(\<exists>uris. resolve_client c r (rgc_client_id (register_client c r p)) =
         Inr \<lparr>rsc_client_name = rcp_client_name p, rsc_redirect_uris = uris\<rparr>
       \<and> set uris = normalize_redirect_uri c ` set (rcp_redirect_uris p))
     \<and> (rgc_client_id (register_client c r p) = rgc_client_id (register_client c r q) \<longleftrightarrow>
          rcp_client_name p = rcp_client_name q
          \<and> normalize_redirect_uri c ` set (rcp_redirect_uris p) = normalize_redirect_uri c ` set (rcp_redirect_uris q))
     \<and> (take 6 client_id = ''ppcli.'' \<and> resolve_client c r client_id = Inr m \<longrightarrow>
          (\<exists>input tag kid key. client_id = input @ CHR ''.'' # tag \<and> reg_keys r kid = Some key
             \<and> cl_unb64 c tag = Some (cl_hmac c key (text_bytes input))))"
  using resolve_encoded [OF assms(1)] registrar_wf [OF assms(2)] assms(3) resolved_signed
  by (auto simp: registered_meta encode_client_id_inj [OF assms(1)] canonical_redirects_eq set_canonical_redirects)

definition unary :: "'a::countable \<Rightarrow> string" where
  "unary x = replicate (to_nat x) CHR ''a''"

definition sample_client_env :: client_env where
  "sample_client_env =
     \<lparr>cl_url = (\<lambda>_. None), cl_without_port = url_text, cl_b64 = unary, cl_unb64 = (\<lambda>s. Some (from_nat (length s))),
      cl_hmac = (\<lambda>k m. k @ m), cl_sha256 = (\<lambda>bs. bs), cl_json_text = (\<lambda>v. replicate (to_nat v) 0),
      cl_json_parse = (\<lambda>bs. Some (from_nat (length bs))), cl_lookup = (\<lambda>_ _. None), cl_get = (\<lambda>_ _. None)\<rparr>"

lemma sample_client_env_ok: "client_env_ok sample_client_env"
  by (simp add: client_env_ok_def sample_client_env_def unary_def)

theorem signed_client_id_exact_witness:
  "\<exists>r. registrar_from_config sample_client_env sample_config = Inr r
     \<and> rgc_client_id (register_client sample_client_env r \<lparr>rcp_client_name = ''n'', rcp_redirect_uris = [''u'', ''v'', ''u'']\<rparr>)
       = rgc_client_id (register_client sample_client_env r \<lparr>rcp_client_name = ''n'', rcp_redirect_uris = [''v'', ''u'']\<rparr>)"
proof -
  obtain r where r: "registrar_from_config sample_client_env sample_config = Inr r"
    by (simp add: registrar_from_config_def sample_config_def Let_def)
  have "utf8_valid (text_bytes (pc_active_key_id sample_config))" by code_simp
  then show ?thesis
    using signed_client_id_exact [OF sample_client_env_ok r, of
        "\<lparr>rcp_client_name = ''n'', rcp_redirect_uris = [''u'', ''v'', ''u'']\<rparr>"
        "\<lparr>rcp_client_name = ''n'', rcp_redirect_uris = [''v'', ''u'']\<rparr>"] r
    by (auto simp: insert_commute)
qed

lemma fetch_congruent:
  "g u addr = cl_get c u addr \<Longrightarrow> fetch_document (c\<lparr>cl_get := g\<rparr>) u addr n = fetch_document c u addr n"
  by (simp add: fetch_document_def cong: if_cong)

lemma permitted_is_public:
  assumes "resolve_permitted_addr c u = Inr addr"
  shows "public_address (fst addr)"
  using assms unfolding resolve_permitted_addr_def Let_def public_address_iff
  by (auto simp: find_Some_iff permit_addr_def split: option.splits if_splits)

text \<open>
  C0: Resolving a client never depends on a host inside: whatever an address of the private, loopback,
  link-local, shared, benchmarking, documentation or multicast blocks, or such an IPv4 address carried in an
  IPv6 address, would answer, the result is the same.
\<close>

theorem metadata_fetch_stays_public:
  assumes "\<And>u ip port. public_address ip \<Longrightarrow> inside u (ip, port) = cl_get c u (ip, port)"
  shows "resolve_client (c\<lparr>cl_get := inside\<rparr>) r client_id = resolve_client c r client_id"
proof -
  let ?c = "c\<lparr>cl_get := inside\<rparr>"
  have same: "resolve_signed ?c r client_id = resolve_signed c r client_id"
    "is_cimd_client_id ?c client_id = is_cimd_client_id c client_id"
    "parse_https_url ?c client_id = parse_https_url c client_id"
    "resolve_permitted_addr ?c u = resolve_permitted_addr c u" for u
    by (simp_all add: resolve_signed_def decode_client_id_def is_cimd_client_id_def parse_https_url_def
        resolve_permitted_addr_def cong: if_cong option.case_cong list.case_cong)
  have "cimd_resolve ?c client_id = cimd_resolve c client_id"
  proof (cases "parse_https_url c client_id")
    case (Inr u)
    show ?thesis
    proof (cases "resolve_permitted_addr c u")
      case (Inr addr)
      from permitted_is_public [OF this] assms [of "fst addr" u "snd addr"] have "inside u addr = cl_get c u addr" by simp
      then show ?thesis by (simp add: cimd_resolve_def same \<open>parse_https_url c client_id = Inr u\<close> Inr fetch_congruent)
    qed (simp add: cimd_resolve_def same Inr)
  qed (simp add: cimd_resolve_def same)
  then show ?thesis by (simp add: resolve_client_def same cong: client_id_resolution.case_cong if_cong)
qed

definition inside_url :: url where
  "inside_url = \<lparr>url_text = ''https://10.0.0.1/'', url_scheme = ''https'', url_host_str = Some ''10.0.0.1'',
     url_host_ip = Some (V4 10 0 0 1), url_port_or_default = Some 443, url_path = ''/'', url_query = None\<rparr>"

definition inside_client_env :: client_env where
  "inside_client_env = sample_client_env\<lparr>cl_url := (\<lambda>s. if s = url_text inside_url then Some inside_url else None),
     cl_get := (\<lambda>_ _. Some \<lparr>http_success = True, http_content_length = None, http_chunks = []\<rparr>)\<rparr>"

abbreviation mute_inside :: "url \<Rightarrow> ip_addr \<times> nat \<Rightarrow> http_response option" where
  "mute_inside u addr \<equiv> if public_address (fst addr) then cl_get inside_client_env u addr else None"

theorem metadata_fetch_stays_public_witness:
  "resolve_client (inside_client_env\<lparr>cl_get := mute_inside\<rparr>) \<lparr>reg_keys = Map.empty, reg_active_kid = ''k''\<rparr> (url_text inside_url)
     = resolve_client inside_client_env \<lparr>reg_keys = Map.empty, reg_active_kid = ''k''\<rparr> (url_text inside_url)
   \<and> resolve_client inside_client_env \<lparr>reg_keys = Map.empty, reg_active_kid = ''k''\<rparr> (url_text inside_url)
     = Inl (ResolutionCimd CimdForbiddenHost)"
proof
  show "resolve_client (inside_client_env\<lparr>cl_get := mute_inside\<rparr>) \<lparr>reg_keys = Map.empty, reg_active_kid = ''k''\<rparr>
      (url_text inside_url)
    = resolve_client inside_client_env \<lparr>reg_keys = Map.empty, reg_active_kid = ''k''\<rparr> (url_text inside_url)"
    by (rule metadata_fetch_stays_public) simp
  show "resolve_client inside_client_env \<lparr>reg_keys = Map.empty, reg_active_kid = ''k''\<rparr> (url_text inside_url)
      = Inl (ResolutionCimd CimdForbiddenHost)"
    by (simp add: resolve_client_def resolve_signed_def inside_url_def inside_client_env_def sample_client_env_def
        is_cimd_client_id_def cimd_resolve_def parse_https_url_def resolve_permitted_addr_def permit_addr_def
        is_forbidden_ip_def is_forbidden_ipv4_def)
qed

end
