(* ===== verification/OAuth_Service.thy ===== *)
theory OAuth_Service
  imports Access_Safety Client_Resolution
begin

text \<open>
  The authorization server of \<^verbatim>\<open>src/services/oauth.rs\<close>: a client is resolved and asks for a code, the
  user logs in and consents, the code is exchanged for an access token with its PKCE verifier, and
  \<^verbatim>\<open>src/mcp/auth.rs\<close> turns the token of each request into the authority of the agent. It composes the
  commands of agent connections and of OAuth flows, each in its own unit of work, so what one command
  committed stays when a later one fails.
\<close>

section \<open>The service\<close>

record oauth_service =
  svc_clients :: client_registrar
  svc_resource :: string
  svc_encryptor :: token_encryptor
  svc_decryptor :: token_decryptor

text \<open>
  What the service takes from outside: the clock it reads itself and the one each command reads, random bytes,
  new ids, the nonce of a token, and a query appended to a URL.
\<close>

record service_env =
  se_clients :: client_env
  se_tokens :: token_env
  se_now :: "nat \<Rightarrow> datetime"
  se_clock :: "nat \<Rightarrow> nat \<Rightarrow> datetime"
  se_random :: "nat \<Rightarrow> bytes option"
  se_request_id :: uuid
  se_connection_id :: uuid
  se_transaction_id :: uuid
  se_token_id :: uuid
  se_token_nonce :: bytes
  se_append_pair :: "string \<Rightarrow> string \<Rightarrow> url \<Rightarrow> url"

definition command_env :: "service_env \<Rightarrow> nat \<Rightarrow> access_env" where
  "command_env env n =
     \<lparr>ae_clock = se_clock env n, ae_sha256 = cl_sha256 (se_clients env),
      ae_connection_id = se_connection_id env, ae_transaction_id = se_transaction_id env\<rparr>"

datatype oauth_error =
    InvalidRequest | InvalidClient | InvalidGrant | ServiceRepository repository_error
  | ServiceConnection connection_command_error | ServiceToken paseto_error
  | ServiceClient client_resolution_error | RandomFailed

definition authorization_code_ttl :: datetime where
  "authorization_code_ttl = 5 * 60 * nanos_per_second"

definition authorization_request_ttl :: datetime where
  "authorization_request_ttl = 10 * 60 * nanos_per_second"

definition access_token_ttl :: datetime where
  "access_token_ttl = 24 * 3600 * nanos_per_second"

record authorize_payload =
  azp_client_id :: string
  azp_redirect_uri :: string
  azp_code_challenge :: string
  azp_scopes :: "workspace_permission list"
  azp_state :: "string option"

record oauth_authorization_request =
  oar_id :: oauth_authorization_request_id
  oar_client_id :: string
  oar_client_name :: string
  oar_redirect_uri :: string
  oar_code_challenge :: string
  oar_state :: string
  oar_resource :: string
  oar_scopes :: "workspace_permission list"
  oar_auth0_subject :: "string option"
  oar_user_id :: "user_id option"
  oar_expires_at :: datetime

definition request_from_flow :: "oauth_flow \<Rightarrow> oauth_error + oauth_authorization_request" where
  "request_from_flow flow =
     Ok \<lparr>oar_id = flow_id flow, oar_client_id = flow_client_id flow, oar_client_name = flow_client_name flow,
         oar_redirect_uri = flow_redirect_uri flow, oar_code_challenge = flow_code_challenge flow,
         oar_state = flow_state flow, oar_resource = flow_resource flow, oar_scopes = flow_scopes flow,
         oar_auth0_subject = flow_auth0_subject flow, oar_user_id = flow_user_id flow,
         oar_expires_at = flow_expires_at flow\<rparr>"

record prepared_authorization =
  prp_request :: oauth_authorization_request
  prp_csrf_token :: string

record consent_prompt =
  cpr_request_id :: oauth_authorization_request_id
  cpr_client_name :: string

datatype callback_outcome = CallbackReusable url | ConsentRequired consent_prompt

record token_payload =
  tkp_client_id :: string
  tkp_redirect_uri :: string
  tkp_code :: string
  tkp_code_verifier :: string

record mcp_oauth_claims =
  moc_auth0_subject :: string
  moc_client_id :: string
  moc_connection_id :: uuid
  moc_workspace_id :: uuid
  moc_resource :: string
  moc_scopes :: "string list"

definition mcp_claims_to_json :: "uuid_codec \<Rightarrow> mcp_oauth_claims \<Rightarrow> json" where
  "mcp_claims_to_json u x =
     JObj [(''auth0_subject'', JStr (moc_auth0_subject x)), (''client_id'', JStr (moc_client_id x)),
           (''connection_id'', json_of_uuid u (moc_connection_id x)),
           (''workspace_id'', json_of_uuid u (moc_workspace_id x)),
           (''resource'', JStr (moc_resource x)), (''scopes'', JArr (map JStr (moc_scopes x)))]"

text \<open>The claims that are left of a payload, an object without repeated names.\<close>

definition mcp_claims_from_entries :: "uuid_codec \<Rightarrow> (string \<times> json) list \<Rightarrow> mcp_oauth_claims option" where
  "mcp_claims_from_entries u entries =
     (let field = map_of entries in
      Option.bind (required_field json_as_str (field ''auth0_subject'')) (\<lambda>subject.
      Option.bind (required_field json_as_str (field ''client_id'')) (\<lambda>client.
      Option.bind (required_field (json_uuid u) (field ''connection_id'')) (\<lambda>connection.
      Option.bind (required_field (json_uuid u) (field ''workspace_id'')) (\<lambda>workspace.
      Option.bind (required_field json_as_str (field ''resource'')) (\<lambda>resource.
      map_option (\<lambda>scopes. \<lparr>moc_auth0_subject = subject, moc_client_id = client, moc_connection_id = connection,
          moc_workspace_id = workspace, moc_resource = resource, moc_scopes = scopes\<rparr>)
        (required_field json_str_list (field ''scopes''))))))))"

section \<open>Helpers\<close>

text \<open>\<^verbatim>\<open>str::split_ascii_whitespace\<close>: space, tab, line feed, form feed and carriage return.\<close>

definition is_ascii_space :: "char \<Rightarrow> bool" where
  "is_ascii_space ch \<longleftrightarrow> byte_of ch \<in> {32, 9, 10, 12, 13}"

definition split_ascii_whitespace :: "string \<Rightarrow> string list" where
  "split_ascii_whitespace s =
     filter (\<lambda>p. p \<noteq> []) (split_on CHR '' '' (map (\<lambda>ch. if is_ascii_space ch then CHR '' '' else ch) s))"

definition parse_scope :: "string \<Rightarrow> oauth_error + workspace_permission list" where
  "parse_scope scope =
     (let values = split_ascii_whitespace scope in
      if values = [] then Err InvalidRequest
      else
        and_then (map_err (\<lambda>_. InvalidRequest) (collect_results (map permission_from_str values))) (\<lambda>permissions.
        map_err (\<lambda>_. InvalidRequest) (canonical_permissions permissions)))"

definition pkce_challenge :: "client_env \<Rightarrow> string \<Rightarrow> string" where
  "pkce_challenge c verifier = cl_b64 c (cl_sha256 c (text_bytes verifier))"

definition random_secret :: "service_env \<Rightarrow> nat \<Rightarrow> oauth_error + string" where
  "random_secret env n = map_err (\<lambda>_. RandomFailed) (ok_or () (map_option (cl_b64 (se_clients env)) (se_random env n)))"

definition append_state :: "service_env \<Rightarrow> string \<Rightarrow> url \<Rightarrow> url" where
  "append_state env state u = (if state = [] then u else se_append_pair env ''state'' state u)"

definition redirect_with_code :: "service_env \<Rightarrow> string \<Rightarrow> string \<Rightarrow> string \<Rightarrow> oauth_error + url" where
  "redirect_with_code env redirect_uri code state =
     and_then (ok_or InvalidRequest (cl_url (se_clients env) redirect_uri)) (\<lambda>u.
       Ok (append_state env state (se_append_pair env ''code'' code u)))"

definition redirect_with_error :: "service_env \<Rightarrow> string \<Rightarrow> string \<Rightarrow> string \<Rightarrow> oauth_error + url" where
  "redirect_with_error env redirect_uri error state =
     and_then (ok_or InvalidRequest (cl_url (se_clients env) redirect_uri)) (\<lambda>u.
       Ok (append_state env state (se_append_pair env ''error'' error u)))"

definition redirect_uri_matches :: "client_env \<Rightarrow> string \<Rightarrow> string \<Rightarrow> bool" where
  "redirect_uri_matches c declared requested \<longleftrightarrow>
     declared = requested
     \<or> (case (cl_url c declared, cl_url c requested) of
          (Some d, Some r) \<Rightarrow>
            is_loopback_http d \<and> is_loopback_http r
            \<and> url_scheme d = url_scheme r \<and> url_host_str d = url_host_str r
            \<and> url_path d = url_path r \<and> url_query d = url_query r
        | _ \<Rightarrow> False)"

definition valid_redirect_uri :: "client_env \<Rightarrow> string \<Rightarrow> bool" where
  "valid_redirect_uri c uri =
     (case cl_url c uri of
        None \<Rightarrow> False
      | Some u \<Rightarrow>
          if url_scheme u = ''https'' then True
          else if url_scheme u = ''http''
          then is_some_and (\<lambda>h. h \<in> {''127.0.0.1'', ''localhost'', ''::1''}) (url_host_str u)
          else False)"

fun request_authorization_error :: "oauth_command_error \<Rightarrow> oauth_error" where
  "request_authorization_error OAuthUnavailable = InvalidRequest"
| "request_authorization_error OAuthInvalid = InvalidRequest"
| "request_authorization_error (OAuthRepository e) = ServiceRepository e"

fun authorization_grant_error :: "oauth_command_error \<Rightarrow> oauth_error" where
  "authorization_grant_error OAuthUnavailable = InvalidGrant"
| "authorization_grant_error OAuthInvalid = InvalidGrant"
| "authorization_grant_error (OAuthRepository e) = ServiceRepository e"

text \<open>A result of the service with the tables: an error ends the operation and keeps what was committed.\<close>

definition then_on :: "('e + 'a) \<times> 's \<Rightarrow> ('a \<Rightarrow> 's \<Rightarrow> ('e + 'b) \<times> 's) \<Rightarrow> ('e + 'b) \<times> 's" where
  "then_on r f = (case r of (Inl e, s) \<Rightarrow> (Inl e, s) | (Inr x, s) \<Rightarrow> f x s)"

section \<open>Operations\<close>

definition prepare_authorization ::
  "service_env \<Rightarrow> oauth_service \<Rightarrow> authorize_payload \<Rightarrow> access \<Rightarrow> (oauth_error + prepared_authorization) \<times> access" where
  "prepare_authorization env svc p s =
     then_on (map_err ServiceClient (resolve_client (se_clients env) (svc_clients svc) (azp_client_id p)), s) (\<lambda>client s.
     if \<not> list_ex (\<lambda>uri. redirect_uri_matches (se_clients env) uri (azp_redirect_uri p)) (rsc_redirect_uris client)
     then (Err InvalidRequest, s)
     else
       then_on (random_secret env 0, s) (\<lambda>csrf s.
       then_on (apfst (map_err request_authorization_error)
         (handle_request_oauth_authorization (command_env env 0)
           \<lparr>roa_request_id = OAuthAuthorizationRequestId (se_request_id env), roa_client_id = azp_client_id p,
            roa_client_name = rsc_client_name client, roa_redirect_uri = azp_redirect_uri p,
            roa_code_challenge = azp_code_challenge p,
            roa_state = (case azp_state p of None \<Rightarrow> [] | Some state \<Rightarrow> state), roa_resource = svc_resource svc,
            roa_scopes = azp_scopes p, roa_csrf_token = csrf, roa_created_at = se_now env 0,
            roa_expires_at = se_now env 0 + authorization_request_ttl\<rparr> s)) (\<lambda>flow s.
       (and_then (request_from_flow flow) (\<lambda>request. Ok \<lparr>prp_request = request, prp_csrf_token = csrf\<rparr>), s))))"

text \<open>\<^verbatim>\<open>issue_code_redirect\<close> and \<^verbatim>\<open>issue_code_redirect_from_context\<close>, which differ in where the flow's data come from.\<close>

definition issue_code_redirect ::
  "service_env \<Rightarrow> nat \<Rightarrow> nat \<Rightarrow> oauth_authorization_request_id \<Rightarrow> string \<Rightarrow> string \<Rightarrow> agent_connection_id
   \<Rightarrow> workspace_id \<Rightarrow> access \<Rightarrow> (oauth_error + url) \<times> access" where
  "issue_code_redirect env secret command request_id redirect_uri state connection workspace s =
     then_on (random_secret env secret, s) (\<lambda>code s.
     then_on (apfst (map_err authorization_grant_error)
       (handle_approve_oauth_authorization (command_env env command)
         \<lparr>apo_request_id = request_id, apo_code = code, apo_agent_connection_id = connection,
          apo_workspace_id = workspace, apo_approved_at = se_now env 1,
          apo_code_expires_at = se_now env 1 + authorization_code_ttl\<rparr> s)) (\<lambda>_ s.
     (redirect_with_code env redirect_uri code state, s)))"

definition read_consent_context ::
  "service_env \<Rightarrow> nat \<Rightarrow> oauth_authorization_request_id \<Rightarrow> access \<Rightarrow> oauth_error + oauth_consent_context" where
  "read_consent_context env reading request_id s =
     and_then (map_err ServiceRepository (read_oauth_consent_context request_id (se_now env reading) s)) (ok_or InvalidGrant)"

definition consent_context ::
  "service_env \<Rightarrow> nat \<Rightarrow> oauth_authorization_request_id \<Rightarrow> access \<Rightarrow> oauth_error + consent_prompt" where
  "consent_context env reading request_id s =
     and_then (read_consent_context env reading request_id s) (\<lambda>context.
       Ok \<lparr>cpr_request_id = occ_request_id context, cpr_client_name = occ_client_name context\<rparr>)"

definition complete_upstream_login ::
  "service_env \<Rightarrow> string \<Rightarrow> string \<Rightarrow> user_id \<Rightarrow> access \<Rightarrow> (oauth_error + callback_outcome) \<times> access" where
  "complete_upstream_login env csrf_token auth0_subject user s =
     then_on (apfst (map_err authorization_grant_error)
       (handle_attach_oauth_subject (command_env env 0)
         \<lparr>aos_csrf_token = csrf_token, aos_auth0_subject = auth0_subject, aos_user_id = user,
          aos_attached_at = se_now env 0\<rparr> s)) (\<lambda>flow s.
     then_on (map_err ServiceRepository
       (find_reusable auth0_subject (flow_client_id flow) (flow_resource flow) (flow_scopes flow) s), s) (\<lambda>found s.
     case found of
       Some connection \<Rightarrow>
         then_on (issue_code_redirect env 0 1 (flow_id flow) (flow_redirect_uri flow) (flow_state flow)
             (reu_id connection) (reu_workspace_id connection) s) (\<lambda>u s.
         (Ok (CallbackReusable u), s))
     | None \<Rightarrow> then_on (consent_context env 1 (flow_id flow) s, s) (\<lambda>prompt s. (Ok (ConsentRequired prompt), s))))"

definition approve_consent ::
  "service_env \<Rightarrow> oauth_authorization_request_id \<Rightarrow> access \<Rightarrow> (oauth_error + url) \<times> access" where
  "approve_consent env request_id s =
     then_on (read_consent_context env 0 request_id s, s) (\<lambda>context s.
     then_on (random_secret env 0, s) (\<lambda>continuation_token s.
     then_on (random_secret env 1, s) (\<lambda>nonce s.
     then_on (apfst (map_err ServiceConnection)
       (handle_request_agent_connection (command_env env 0)
         \<lparr>rac_user_id = occ_user_id context, rac_workspace_id = occ_workspace_id context,
          rac_auth0_subject = occ_auth0_subject context, rac_auth0_client_id = occ_client_id context,
          rac_client_display_name = occ_client_name context, rac_resource = occ_resource context,
          rac_permissions = occ_scopes context, rac_expires_at = occ_expires_at context,
          rac_continuation_token = continuation_token, rac_nonce = nonce\<rparr> s)) (\<lambda>_ s.
     then_on (apfst (map_err ServiceConnection)
       (handle_consume_agent_connection (command_env env 1)
         \<lparr>cac_continuation_token = continuation_token, cac_nonce = nonce\<rparr> s)) (\<lambda>outcome s.
     case outcome of
       ConsumeInvalid \<Rightarrow> (Err InvalidGrant, s)
     | ConsumeApproved connection \<Rightarrow>
         issue_code_redirect env 2 2 (occ_request_id context) (occ_redirect_uri context) (occ_state context)
           (conn_id connection) (conn_workspace_id connection) s)))))"

definition cancel_consent ::
  "service_env \<Rightarrow> oauth_authorization_request_id \<Rightarrow> access \<Rightarrow> (oauth_error + url) \<times> access" where
  "cancel_consent env request_id s =
     then_on (apfst (map_err authorization_grant_error)
       (handle_cancel_oauth_authorization \<lparr>coa_request_id = request_id, coa_cancelled_at = se_now env 0\<rparr> s)) (\<lambda>flow s.
     (redirect_with_error env (flow_redirect_uri flow) ''access_denied'' (flow_state flow), s))"

definition issue_token_for_code ::
  "service_env \<Rightarrow> oauth_service \<Rightarrow> oauth_code_grant \<Rightarrow> access \<Rightarrow> (oauth_error + issued_token) \<times> access" where
  "issue_token_for_code env svc code s =
     then_on (apfst (map_err ServiceConnection)
       (handle_authorize_agent_connection (command_env env 1)
         \<lparr>aac_connection_id = ocg_agent_connection_id code, aac_workspace_id = ocg_workspace_id code,
          aac_auth0_subject = ocg_auth0_subject code, aac_auth0_client_id = ocg_client_id code,
          aac_resource = ocg_resource code, aac_permissions = ocg_scopes code\<rparr> s)) (\<lambda>found s.
     case found of
       None \<Rightarrow> (Err InvalidGrant, s)
     | Some context \<Rightarrow>
         (map_err ServiceToken (mcp_oauth_encrypt (se_tokens env) (se_token_nonce env) (se_now env 2) (svc_encryptor svc)
           \<lparr>reg_subject = user_uuid (ctx_user_id context), reg_token_id = se_token_id env,
            reg_expires_at = se_now env 1 + access_token_ttl\<rparr>
           (mcp_claims_to_json (tok_uuid (se_tokens env))
             \<lparr>moc_auth0_subject = ocg_auth0_subject code, moc_client_id = ocg_client_id code,
              moc_connection_id = agent_connection_uuid (ctx_connection_id context),
              moc_workspace_id = workspace_uuid (ctx_workspace_id context),
              moc_resource = ocg_resource code, moc_scopes = map permission_as_str (ocg_scopes code)\<rparr>)), s))"

definition issue_access_token ::
  "service_env \<Rightarrow> oauth_service \<Rightarrow> token_payload \<Rightarrow> access \<Rightarrow> (oauth_error + issued_token) \<times> access" where
  "issue_access_token env svc p s =
     then_on (apfst (map_err authorization_grant_error)
       (handle_consume_oauth_code (command_env env 0)
         \<lparr>coc_code = tkp_code p, coc_client_id = tkp_client_id p, coc_redirect_uri = tkp_redirect_uri p,
          coc_consumed_at = se_now env 0\<rparr> s)) (\<lambda>code s.
     if pkce_challenge (se_clients env) (tkp_code_verifier p) \<noteq> ocg_code_challenge code then (Err InvalidGrant, s)
     else issue_token_for_code env svc code s)"

section \<open>Tokens of requests\<close>

record verified_mcp_claims =
  vmc_subject :: string
  vmc_client_id :: string
  vmc_scopes :: "workspace_permission list"
  vmc_connection_id :: "agent_connection_id option"
  vmc_workspace_id :: "workspace_id option"

datatype verify_error = InvalidToken | InvalidScopes

fun join_words :: "string list \<Rightarrow> string" where
  "join_words [] = []"
| "join_words [w] = w"
| "join_words (w # ws) = w @ CHR '' '' # join_words ws"

definition verify_access_token ::
  "service_env \<Rightarrow> oauth_service \<Rightarrow> string \<Rightarrow> verify_error + verified_mcp_claims" where
  "verify_access_token env svc token =
     and_then (map_err (\<lambda>_. InvalidToken) (mcp_oauth_decrypt (se_tokens env)
         (mcp_claims_from_entries (tok_uuid (se_tokens env))) (se_now env 0) (svc_decryptor svc) token)) (\<lambda>verified.
     and_then (map_err (\<lambda>_. InvalidScopes) (parse_scope (join_words (moc_scopes (ver_claims verified))))) (\<lambda>scopes.
       Ok \<lparr>vmc_subject = moc_auth0_subject (ver_claims verified), vmc_client_id = moc_client_id (ver_claims verified),
           vmc_scopes = scopes, vmc_connection_id = Some (AgentConnectionId (moc_connection_id (ver_claims verified))),
           vmc_workspace_id = Some (WorkspaceId (moc_workspace_id (ver_claims verified)))\<rparr>))"

datatype agent_auth_error = AuthRejected | AuthUnavailable connection_command_error

definition agent_connection_principal ::
  "access_env \<Rightarrow> string \<Rightarrow> verified_mcp_claims \<Rightarrow> access \<Rightarrow> (agent_auth_error + agent_connection_context) \<times> access" where
  "agent_connection_principal env resource claims s =
     (case (vmc_connection_id claims, vmc_workspace_id claims) of
        (Some connection, Some workspace) \<Rightarrow>
          then_on (apfst (map_err AuthUnavailable) (handle_authorize_agent_connection env
            \<lparr>aac_connection_id = connection, aac_workspace_id = workspace, aac_auth0_subject = vmc_subject claims,
             aac_auth0_client_id = vmc_client_id claims, aac_resource = resource, aac_permissions = vmc_scopes claims\<rparr> s))
          (\<lambda>found s. (ok_or AuthRejected found, s))
      | _ \<Rightarrow> (Err AuthRejected, s))"

text \<open>The header of a request, when it can be read as text.\<close>

definition bearer_token :: "string option \<Rightarrow> string option" where
  "bearer_token header =
     Option.bind header (\<lambda>value.
       if take 7 value \<noteq> ''Bearer '' then None
       else (let token = drop 7 value in if token = [] \<or> trim token \<noteq> token then None else Some token))"

datatype request_outcome = Unauthorized | InternalServerError | Authenticated agent_connection_context

definition authenticate_request ::
  "service_env \<Rightarrow> oauth_service \<Rightarrow> string \<Rightarrow> string option \<Rightarrow> access \<Rightarrow> request_outcome \<times> access" where
  "authenticate_request env svc resource header s =
     (case bearer_token header of
        None \<Rightarrow> (Unauthorized, s)
      | Some token \<Rightarrow>
          (case verify_access_token env svc token of
             Inl _ \<Rightarrow> (Unauthorized, s)
           | Inr claims \<Rightarrow>
               (case agent_connection_principal (command_env env 0) resource claims s of
                  (Inr context, s) \<Rightarrow> (Authenticated context, s)
                | (Inl AuthRejected, s) \<Rightarrow> (Unauthorized, s)
                | (Inl (AuthUnavailable _), s) \<Rightarrow> (InternalServerError, s))))"

end
