(* ===== verification/OAuth_Exchange.thy ===== *)
theory OAuth_Exchange
  imports OAuth_Service
begin

text \<open>
  What the authorization server guarantees of codes and tokens: each of its operations is a sequence of the
  commands of connections and flows, no command changes a flow whose code is spent, so a code buys one token.
  A token verifies to what was consented to, and a connection that was never used before its deadline is offered
  to every later sign-in but authorizes none.
\<close>

section \<open>Spent codes stay spent\<close>

definition loaded_flow :: "oauth_authorization_request_id \<Rightarrow> access \<Rightarrow> oauth_flow option" where
  "loaded_flow i s = (case access_flow_get i s of Inr found \<Rightarrow> found | Inl _ \<Rightarrow> None)"

lemma flow_get_iff [simp]: "access_flow_get i s = Inr (Some f) \<longleftrightarrow> loaded_flow i s = Some f"
  by (auto simp: loaded_flow_def split: sum.split)

lemma flow_get_wf:
  assumes "flow_get i t = Inr (Some f)"
  shows "wf_flow f" "flow_id f = i"
    "flow_authorization_code f = Some code \<Longrightarrow>
       \<exists>r \<in> set (codes_table t). coderec_request_id r = oauth_authorization_request_uuid i
         \<and> coderec_code_digest r = as_bytes (code_digest code)"
proof -
  let ?k = "oauth_authorization_request_uuid i"
  from assms obtain r c where r: "find_row flowrec_id ?k (flows_table t) = Some r"
    and c: "map_transpose code_into_domain (find_row coderec_request_id ?k (codes_table t)) = Inr c"
    and f: "flow_into_domain r c = Inr f"
    by (auto simp: flow_get_def Let_def and_then_Ok_iff split: option.splits)
  have code: "is_none_or wf_flow_code c"
    using c by (cases "find_row coderec_request_id ?k (codes_table t)")
      (auto simp: code_into_domain_def and_then_Ok_iff code_rehydrate_Ok_iff)
  obtain g where "flow_rehydrate g = Inr f" and g: "flow_authorization_code g = c" "flow_id g = OAuthAuthorizationRequestId (flowrec_id r)"
    using f by (auto simp: flow_into_domain_def and_then_Ok_iff)
  with code have "g = f" "wf_flow f" by (simp_all add: flow_rehydrate_Ok_iff)
  then show "wf_flow f" by simp
  show "flow_id f = i" using g(2) \<open>g = f\<close> find_row_SomeD [OF r] by (cases i) simp
  assume "flow_authorization_code f = Some code"
  then have "c = Some code" using g(1) \<open>g = f\<close> by simp
  with c obtain row where row: "find_row coderec_request_id ?k (codes_table t) = Some row" "code_into_domain row = Inr code"
    by (cases "find_row coderec_request_id ?k (codes_table t)") (auto simp: and_then_Ok_iff)
  then have "coderec_code_digest row = as_bytes (code_digest code)"
    by (auto simp: code_into_domain_def and_then_Ok_iff code_rehydrate_Ok_iff digest_from_bytes_Ok)
  with find_row_SomeD [OF row(1)] show "\<exists>r \<in> set (codes_table t). coderec_request_id r = ?k
      \<and> coderec_code_digest r = as_bytes (code_digest code)" by blast
qed

lemma flow_get_other:
  assumes "flow_id g \<noteq> i"
  shows "flow_get i (flow_save g t) = flow_get i t"
proof -
  let ?k = "oauth_authorization_request_uuid i"
  have k: "oauth_authorization_request_uuid (flow_id g) \<noteq> ?k" using assms by (cases i; cases "flow_id g") auto
  have "find_row coderec_request_id ?k
      (delete_rows (\<lambda>c. coderec_request_id c = oauth_authorization_request_uuid (flow_id g)) rows) =
      find_row coderec_request_id ?k rows" for rows
    using k by (induction rows) (auto simp: find_row_def delete_rows_def)
  then have "find_row coderec_request_id ?k (codes_table (flow_save g t)) = find_row coderec_request_id ?k (codes_table t)"
    using k by (cases "code_from_domain g") (simp_all add: flow_save_def find_row_upsert code_from_domain_request)
  moreover have "find_row flowrec_id ?k (flows_table (flow_save g t)) = find_row flowrec_id ?k (flows_table t)"
    using k by (simp add: flow_save_def find_row_upsert) (simp add: flow_from_domain_def)
  ultimately show ?thesis by (simp only: flow_get_def Let_def)
qed

text \<open>A flow that was loaded with a spent code: no operation changes it any more.\<close>

definition keeps_spent :: "access \<Rightarrow> access \<Rightarrow> bool" where
  "keeps_spent s t \<longleftrightarrow> (\<forall>i f. loaded_flow i s = Some f \<and> code_spent f \<longrightarrow> loaded_flow i t = Some f)"

lemma keeps_spent_refl [simp]: "keeps_spent s s"
  by (simp add: keeps_spent_def)

lemma same_flows_keep: "acc_oauth t = acc_oauth s \<Longrightarrow> keeps_spent s t"
  by (simp add: keeps_spent_def loaded_flow_def access_flow_get_def)

lemma save_keeps_spent:
  assumes "access_flow_save g s = Inr t"
    and "\<And>f. loaded_flow (flow_id g) s = Some f \<Longrightarrow> \<not> code_spent f"
  shows "keeps_spent s t"
proof -
  have "t = s\<lparr>acc_oauth := flow_save g (acc_oauth s)\<rparr>"
    using assms(1) by (auto simp: access_flow_save_def and_then_Ok_iff)
  then show ?thesis
    using assms(2) flow_get_other [of g _ "acc_oauth s"]
    by (auto simp: keeps_spent_def loaded_flow_def access_flow_get_def) metis
qed

lemma loaded_flow_wf: "loaded_flow i s = Some f \<Longrightarrow> wf_flow f \<and> flow_id f = i"
  using flow_get_wf(1,2) [of i "acc_oauth s" f] by (auto simp: loaded_flow_def access_flow_get_def split: sum.splits)

text \<open>A change that keeps the id of its flow and refuses one whose code is spent.\<close>

definition spares_spent :: "(oauth_flow \<Rightarrow> oauth_flow_error + oauth_flow) \<Rightarrow> bool" where
  "spares_spent change \<longleftrightarrow> (\<forall>f g. wf_flow f \<and> change f = Inr g \<longrightarrow> flow_id g = flow_id f \<and> \<not> code_spent f)"

lemma changes_spare_spent:
  "spares_spent (attach_subject sub u t)" "spares_spent (flow_cancel t)"
  "spares_spent (approve_and_issue_code d c w t x)" "spares_spent (consume_code client redirect t)"
  by (auto simp: spares_spent_def op_defs wf_flow_def code_spent_def is_some_and_def
      split: if_splits option.splits)

lemma spared_save:
  assumes "spares_spent change" and "loaded_flow i s = Some f" and "change f = Inr g" and "access_flow_save g s = Inr t"
  shows "keeps_spent s t"
proof -
  have "wf_flow f" "flow_id f = i" using loaded_flow_wf [OF assms(2)] by simp_all
  then have "flow_id g = i" "\<not> code_spent f" using assms(1,3) by (auto simp: spares_spent_def)
  then show ?thesis using save_keeps_spent [OF assms(4)] assms(2) by simp
qed

lemma change_flow_spent:
  "spares_spent change \<Longrightarrow> tx_ensures (change_flow_tx i change) (\<lambda>x t. keeps_spent s t) s"
  by (auto simp: change_flow_tx_def tx_post intro: spared_save)

lemma flow_tx_spent:
  "tx_ensures (request_flow_tx flow) (\<lambda>x t. keeps_spent s t) s"
  "tx_ensures (attach_subject_tx env acmd) (\<lambda>x t. keeps_spent s t) s"
  "tx_ensures (consume_code_tx env ccmd) (\<lambda>x t. keeps_spent s t) s"
proof -
  show "tx_ensures (request_flow_tx flow) (\<lambda>x t. keeps_spent s t) s"
    by (auto simp: request_flow_tx_def tx_post loaded_flow_def intro!: save_keeps_spent)
  show "tx_ensures (attach_subject_tx env acmd) (\<lambda>x t. keeps_spent s t) s"
    using change_flow_spent [OF changes_spare_spent(1)] by (auto simp: attach_subject_tx_def tx_post)
  show "tx_ensures (consume_code_tx env ccmd) (\<lambda>x t. keeps_spent s t) s"
    by (auto simp: consume_code_tx_def tx_post intro: spared_save [OF changes_spare_spent(4)])
qed

lemma connection_save_oauth: "access_connection_save c s = Inr t \<Longrightarrow> acc_oauth t = acc_oauth s"
  by (auto simp: access_connection_save_def and_then_Ok_iff)

lemma connection_tx_oauth:
  "tx_ensures (request_connection_tx c) (\<lambda>x t. acc_oauth t = acc_oauth s) s"
  "tx_ensures (deny_connection_tx env i) (\<lambda>x t. acc_oauth t = acc_oauth s) s"
  "tx_ensures (consume_connection_tx env ccmd i) (\<lambda>x t. acc_oauth t = acc_oauth s) s"
  "tx_ensures (activate_connection_tx env i) (\<lambda>x t. acc_oauth t = acc_oauth s) s"
  "tx_ensures (authorize_connection_tx env acmd expected) (\<lambda>x t. acc_oauth t = acc_oauth s) s"
  "tx_ensures (use_connection_tx env i) (\<lambda>x t. acc_oauth t = acc_oauth s) s"
  "tx_ensures (revoke_connection_tx env rcmd) (\<lambda>x t. acc_oauth t = acc_oauth s) s"
  by (auto simp: request_connection_tx_def deny_connection_tx_def consume_connection_tx_def activate_connection_tx_def
      authorize_connection_tx_def use_connection_tx_def revoke_connection_tx_def user_is_eligible_def tx_post
      connection_save_oauth
      split: connection_consumption.split connection_activation.split connection_use.split
        connection_revocation.split prod.split)

lemma unit_keeps_spent:
  assumes "tx_ensures m Q s" and "\<And>x t. Q x t \<Longrightarrow> keeps_spent s t"
  shows "keeps_spent s (snd (in_unit_of_work m s))"
  by (rule unit_of_work_post) (auto intro: tx_ensures_mono [OF assms(1)] assms(2))

lemmas units_keep_spent =
  connection_tx_oauth [THEN unit_keeps_spent, OF same_flows_keep] flow_tx_spent [THEN unit_keeps_spent]
  changes_spare_spent [THEN change_flow_spent, THEN unit_keeps_spent]

lemma access_step_spent: "keeps_spent s (access_step op s)"
proof (cases op)
  case (PeopleCmd c)
  then show ?thesis by (simp add: same_flows_keep)
qed (auto simp: access_handler_defs handle_request_agent_connection_def units_keep_spent split: sum.split option.split)

section \<open>The service runs commands\<close>

datatype service_op =
    SvcPrepare service_env oauth_service authorize_payload
  | SvcLogin service_env string string user_id
  | SvcApprove service_env oauth_authorization_request_id
  | SvcCancel service_env oauth_authorization_request_id
  | SvcToken service_env oauth_service token_payload
  | SvcRequest service_env oauth_service string "string option"
  | SvcCommand access_command

fun service_step :: "service_op \<Rightarrow> access \<Rightarrow> access" where
  "service_step (SvcPrepare env svc p) s = snd (prepare_authorization env svc p s)"
| "service_step (SvcLogin env csrf subject user) s = snd (complete_upstream_login env csrf subject user s)"
| "service_step (SvcApprove env i) s = snd (approve_consent env i s)"
| "service_step (SvcCancel env i) s = snd (cancel_consent env i s)"
| "service_step (SvcToken env svc p) s = snd (issue_access_token env svc p s)"
| "service_step (SvcRequest env svc resource header) s = snd (authenticate_request env svc resource header s)"
| "service_step (SvcCommand cmd) s = access_step cmd s"

text \<open>Tables reached by commands, in the order the service runs them.\<close>

definition runs_commands :: "access \<Rightarrow> access \<Rightarrow> bool" where
  "runs_commands s t \<longleftrightarrow> (\<exists>cmds. t = fold access_step cmds s)"

lemma runs_refl [simp]: "runs_commands s s"
  unfolding runs_commands_def by (rule exI [of _ "[]"]) simp

lemma runs_trans: "runs_commands s t \<Longrightarrow> runs_commands t u \<Longrightarrow> runs_commands s u"
  unfolding runs_commands_def by (metis comp_apply fold_append)

lemma runs_one: "access_step cmd s = t \<Longrightarrow> runs_commands s t"
  unfolding runs_commands_def by (rule exI [of _ "[cmd]"]) simp

lemma handlers_run [simp]:
  "runs_commands s (snd (handle_request_agent_connection env c1 s))"
  "runs_commands s (snd (handle_consume_agent_connection env c2 s))"
  "runs_commands s (snd (handle_authorize_agent_connection env c3 s))"
  "runs_commands s (snd (handle_request_oauth_authorization env c4 s))"
  "runs_commands s (snd (handle_attach_oauth_subject env c5 s))"
  "runs_commands s (snd (handle_cancel_oauth_authorization c6 s))"
  "runs_commands s (snd (handle_approve_oauth_authorization env c7 s))"
  "runs_commands s (snd (handle_consume_oauth_code env c8 s))"
  by (rule runs_one, rule access_step.simps)+

lemma then_on_runs:
  assumes "runs_commands s (snd r)" and "\<And>x t. r = (Inr x, t) \<Longrightarrow> runs_commands t (snd (f x t))"
  shows "runs_commands s (snd (then_on r f))"
proof (cases r)
  case (Pair a t)
  with assms show ?thesis by (cases a) (auto simp: then_on_def intro: runs_trans)
qed

lemma issue_code_runs: "runs_commands s (snd (issue_code_redirect env n m i uri state c w s))"
  by (auto simp: issue_code_redirect_def intro!: then_on_runs)

lemma service_step_runs: "runs_commands s (service_step op s)"
proof (cases op)
  case (SvcPrepare env svc p)
  then show ?thesis by (auto simp: prepare_authorization_def intro!: then_on_runs)
next
  case (SvcLogin env csrf subject user)
  then show ?thesis
    by (auto simp: complete_upstream_login_def issue_code_runs intro!: then_on_runs split: option.split)
next
  case (SvcApprove env i)
  then show ?thesis
    by (auto simp: approve_consent_def issue_code_runs intro!: then_on_runs split: consume_connection_outcome.split)
next
  case (SvcCancel env i)
  then show ?thesis by (auto simp: cancel_consent_def intro!: then_on_runs)
next
  case (SvcToken env svc p)
  then show ?thesis
    by (auto simp: issue_access_token_def issue_token_for_code_def intro!: then_on_runs split: option.split)
next
  case (SvcRequest env svc resource header)
  have "runs_commands s (snd (agent_connection_principal e resource claims s))" for e claims
    by (auto simp: agent_connection_principal_def intro!: then_on_runs split: option.split)
  then have "agent_connection_principal e resource claims s = (x, t) \<Longrightarrow> runs_commands s t" for e claims x t
    by (metis snd_conv)
  then show ?thesis
    by (auto simp: SvcRequest authenticate_request_def split: option.split sum.split prod.split agent_auth_error.split)
next
  case (SvcCommand cmd)
  then show ?thesis by (simp add: runs_one)
qed

lemma keeps_spent_trans: "keeps_spent s t \<Longrightarrow> keeps_spent t u \<Longrightarrow> keeps_spent s u"
  by (simp add: keeps_spent_def)

lemma commands_keep_spent: "runs_commands s t \<Longrightarrow> keeps_spent s t"
proof -
  have "keeps_spent s (fold access_step cmds s)" for cmds
    by (induction cmds arbitrary: s) (auto intro: keeps_spent_trans access_step_spent)
  then show "runs_commands s t \<Longrightarrow> keeps_spent s t" by (auto simp: runs_commands_def)
qed

lemma service_runs: "runs_commands s (fold service_step ops s)"
  by (induction ops arbitrary: s) (auto intro: runs_trans service_step_runs)

section \<open>Exchanging a code\<close>

lemma then_on_Ok_iff: "then_on r f = (Inr y, u) \<longleftrightarrow> (\<exists>x t. r = (Inr x, t) \<and> f x t = (Inr y, u))"
  by (cases r) (auto simp: then_on_def split: sum.splits)

lemma apfst_map_err_Ok [simp]: "apfst (map_err g) r = (Inr x, t) \<longleftrightarrow> r = (Inr x, t)"
  by (cases r) (auto simp: map_err_Ok_iff)

lemma consumed_code:
  assumes "handle_consume_oauth_code env cmd s = (Inr grant, t)"
  obtains i f g where "resolve_id_by_code_digest (access_digest env (coc_code cmd)) s = Inr (Some i)"
    "loaded_flow i s = Some f" "consume_code (coc_client_id cmd) (coc_redirect_uri cmd) (coc_consumed_at cmd) f = Inr g"
    "code_grant g = Inr grant" "access_flow_save g s = Inr t"
proof -
  have "consume_code_tx env cmd s = (Inr (Some grant), t)"
    using assms by (cases "consume_code_tx env cmd s")
      (auto simp: handle_consume_oauth_code_def in_unit_of_work_def or_unavailable_def and_then_Ok_iff split: sum.splits)
  moreover have "tx_ensures (consume_code_tx env cmd) (\<lambda>x t. x = Some grant \<longrightarrow>
      (\<exists>i f g. resolve_id_by_code_digest (access_digest env (coc_code cmd)) s = Inr (Some i) \<and> loaded_flow i s = Some f
        \<and> consume_code (coc_client_id cmd) (coc_redirect_uri cmd) (coc_consumed_at cmd) f = Inr g
        \<and> code_grant g = Inr grant \<and> access_flow_save g s = Inr t)) s"
    by (auto simp: consume_code_tx_def tx_post)
  ultimately show ?thesis using that by (auto dest: tx_ensuresD)
qed

lemma saved_flow_loads:
  assumes "wf_flow g" and "access_flow_save g s = Inr t"
  shows "loaded_flow (flow_id g) t = Some g"
proof -
  have t: "t = s\<lparr>acc_oauth := flow_save g (acc_oauth s)\<rparr>" and "digests_32 g"
    using assms(2)
    by (auto simp: access_flow_save_def and_then_Ok_iff flow_violations_def code_violations_def first_violation_def
        digests_32_def flow_from_domain_def code_from_domain_def is_none_or_def
        split: if_splits option.splits)
  with flow_save_get [OF assms(1)] show ?thesis by (simp add: loaded_flow_def access_flow_get_def)
qed

lemma code_digest_of_row:
  assumes "table_wf coderec_request_id (codes_table (acc_oauth s))"
    and "resolve_id_by_code_digest d s = Inr (Some i)" and "loaded_flow i s = Some f"
    and "flow_authorization_code f = Some code"
  shows "as_bytes (code_digest code) = as_bytes d"
proof -
  from assms(2) obtain r where r: "r \<in> set (codes_table (acc_oauth s))" "coderec_code_digest r = as_bytes d"
    "i = OAuthAuthorizationRequestId (coderec_request_id r)"
    by (auto simp: resolve_id_by_code_digest_def and_then_Ok_iff at_most_one_def filter_eq_Cons_iff split: list.splits)
  have "flow_get i (acc_oauth s) = Inr (Some f)" using assms(3) flow_get_iff by (simp add: access_flow_get_def)
  from flow_get_wf(3) [OF this assms(4)] r assms(1) show ?thesis
    by (auto simp: table_wf_def distinct_map inj_on_def)
qed

text \<open>A code that was presented once cannot be presented again.\<close>

lemma spent_code_refused:
  assumes "loaded_flow i u = Some g" and "flow_authorization_code g = Some code" and "code_spent g"
    and "as_bytes (code_digest code) = as_bytes (access_digest env (coc_code cmd))"
  shows "is_err (fst (handle_consume_oauth_code env cmd u))"
proof (rule ccontr)
  assume "\<not> is_err (fst (handle_consume_oauth_code env cmd u))"
  then obtain grant t where "handle_consume_oauth_code env cmd u = (Inr grant, t)"
    by (cases "handle_consume_oauth_code env cmd u"; cases "fst (handle_consume_oauth_code env cmd u)") auto
  then obtain j f h where j: "resolve_id_by_code_digest (access_digest env (coc_code cmd)) u = Inr (Some j)"
    and f: "loaded_flow j u = Some f" and h: "consume_code (coc_client_id cmd) (coc_redirect_uri cmd) (coc_consumed_at cmd) f = Inr h"
    by (rule consumed_code)
  have "flow_get i (acc_oauth u) = Inr (Some g)" using assms(1) flow_get_iff by (simp add: access_flow_get_def)
  from flow_get_wf(3) [OF this assms(2)] assms(4) obtain r where
    "r \<in> set (filter (\<lambda>r. coderec_code_digest r = as_bytes (access_digest env (coc_code cmd))) (codes_table (acc_oauth u)))"
    "coderec_request_id r = oauth_authorization_request_uuid i" by auto
  moreover from j obtain x where
    "filter (\<lambda>r. coderec_code_digest r = as_bytes (access_digest env (coc_code cmd))) (codes_table (acc_oauth u)) = [x]"
    "j = OAuthAuthorizationRequestId (coderec_request_id x)"
    by (auto simp: resolve_id_by_code_digest_def and_then_Ok_iff at_most_one_def split: list.splits)
  ultimately have "j = i" by (cases i) (simp only: list.set singleton_iff oauth_authorization_request_id.sel)
  with f h assms(1,3) changes_spare_spent(4) loaded_flow_wf [OF assms(1)] show False
    by (auto simp: spares_spent_def)
qed

lemma authorized_matches:
  assumes "handle_authorize_agent_connection env cmd s = (Inr (Some ctx), t)"
  obtains c where "loaded_connection (aac_connection_id cmd) s = Some c" "conn_workspace_id c = aac_workspace_id cmd"
    "conn_auth0_subject c = aac_auth0_subject cmd" "conn_auth0_client_id c = aac_auth0_client_id cmd"
    "conn_resource c = aac_resource cmd" "canonical_permissions (aac_permissions cmd) = Inr (conn_permissions c)"
    "is_member (acc_people s) (conn_user_id c) (conn_workspace_id c)"
proof -
  from assms obtain expected where expected: "canonical_permissions (aac_permissions cmd) = Inr expected"
    and run: "authorize_connection_tx env cmd expected s = (Inr (Some ctx), t)"
    by (auto simp: handle_authorize_agent_connection_def split: sum.splits)
  have "tx_ensures (authorize_connection_tx env cmd expected) (\<lambda>x t. x = Some ctx \<longrightarrow>
      (\<exists>c. loaded_connection (aac_connection_id cmd) s = Some c \<and> conn_workspace_id c = aac_workspace_id cmd
        \<and> conn_auth0_subject c = aac_auth0_subject cmd \<and> conn_auth0_client_id c = aac_auth0_client_id cmd
        \<and> conn_resource c = aac_resource cmd \<and> conn_permissions c = expected
        \<and> is_member (acc_people s) (conn_user_id c) (conn_workspace_id c))) s"
    using eligible_is_member
    by (fastforce simp: authorize_connection_tx_def tx_post access_get_iff
        split: connection_activation.split connection_use.split prod.split)
  with run expected that show ?thesis by (auto dest: tx_ensuresD)
qed

lemma code_exchange:
  assumes "issue_access_token env svc p s = (Inr token, t)"
  obtains i f g code grant c s1 where "loaded_flow i s = Some f" "flow_authorization_code f = Some code"
    "consume_code (tkp_client_id p) (tkp_redirect_uri p) (se_now env 0) f = Inr g"
    "resolve_id_by_code_digest (access_digest (command_env env 0) (tkp_code p)) s = Inr (Some i)"
    "access_flow_save g s = Inr s1" "runs_commands s1 t" "code_grant g = Inr grant"
    "pkce_challenge (se_clients env) (tkp_code_verifier p) = flow_code_challenge f"
    "issue_token_for_code env svc grant s1 = (Inr token, t)"
proof -
  let ?cmd = "\<lparr>coc_code = tkp_code p, coc_client_id = tkp_client_id p, coc_redirect_uri = tkp_redirect_uri p,
      coc_consumed_at = se_now env 0\<rparr>"
  from assms obtain grant s1 where consumed: "handle_consume_oauth_code (command_env env 0) ?cmd s = (Inr grant, s1)"
    and pkce: "pkce_challenge (se_clients env) (tkp_code_verifier p) = ocg_code_challenge grant"
    and issued: "issue_token_for_code env svc grant s1 = (Inr token, t)"
    by (auto simp: issue_access_token_def then_on_Ok_iff split: if_splits)
  from consumed obtain i f g where f: "resolve_id_by_code_digest (access_digest (command_env env 0) (tkp_code p)) s = Inr (Some i)"
    "loaded_flow i s = Some f" "consume_code (tkp_client_id p) (tkp_redirect_uri p) (se_now env 0) f = Inr g"
    "code_grant g = Inr grant" "access_flow_save g s = Inr s1"
    by (rule consumed_code) simp
  obtain code where "flow_authorization_code f = Some code"
    using f(3) by (auto simp: consume_code_def split: option.splits)
  moreover have "ocg_code_challenge grant = flow_code_challenge f"
    using f(3,4) by (auto simp: consume_code_def code_grant_def and_then_Ok_iff split: option.splits if_splits)
  moreover have "runs_commands s1 (snd (issue_token_for_code env svc grant s1))"
    by (auto simp: issue_token_for_code_def intro!: then_on_runs split: option.split)
  ultimately show ?thesis using that f pkce issued by auto
qed

lemma issued_for_member:
  assumes "issue_token_for_code env svc grant s = (Inr token, t)"
  obtains c where "loaded_connection (ocg_agent_connection_id grant) s = Some c"
    "conn_workspace_id c = ocg_workspace_id grant" "conn_auth0_subject c = ocg_auth0_subject grant"
    "conn_auth0_client_id c = ocg_client_id grant" "canonical_permissions (ocg_scopes grant) = Inr (conn_permissions c)"
    "is_member (acc_people s) (conn_user_id c) (conn_workspace_id c)"
proof -
  from assms obtain ctx s2 where authorized: "handle_authorize_agent_connection (command_env env 1)
      \<lparr>aac_connection_id = ocg_agent_connection_id grant, aac_workspace_id = ocg_workspace_id grant,
       aac_auth0_subject = ocg_auth0_subject grant, aac_auth0_client_id = ocg_client_id grant,
       aac_resource = ocg_resource grant, aac_permissions = ocg_scopes grant\<rparr> s = (Inr (Some ctx), s2)"
    by (auto simp: issue_token_for_code_def then_on_Ok_iff split: option.splits)
  then show ?thesis by (rule authorized_matches) (use that in simp)
qed

lemma code_grantD:
  assumes "code_grant g = Inr grant"
  obtains code where "flow_authorization_code g = Some code" "flow_auth0_subject g = Some (ocg_auth0_subject grant)"
    "ocg_agent_connection_id grant = code_agent_connection_id code" "ocg_workspace_id grant = code_workspace_id code"
    "ocg_client_id grant = flow_client_id g" "ocg_resource grant = flow_resource g" "ocg_scopes grant = flow_scopes g"
  using assms by (auto simp: code_grant_def and_then_Ok_iff)

lemma consume_codeD:
  assumes "consume_code client redirect now f = Inr g" and "flow_authorization_code f = Some code"
  shows "g = f\<lparr>flow_authorization_code := Some (code\<lparr>code_consumed_at := Some now\<rparr>)\<rparr>"
    "flow_client_id f = client" "flow_redirect_uri f = redirect" "code_consumed_at code = None"
    "code_created_at code \<le> now" "now < code_expires_at code"
  using assms by (auto simp: consume_code_def split: if_splits)

section \<open>Properties\<close>

text \<open>
  C0: A code buys one token: it is given to the client that asked for the code, at the redirect address it named,
  with the verifier of the challenge it sent, within the life of the code, for a connection of the same subject,
  client and permissions whose holder is a member of the workspace; and after that the code is refused for
  good, whoever presents it and whatever the service, its commands and other users do in between.
\<close>

theorem code_buys_one_token:
  assumes "table_wf coderec_request_id (codes_table (acc_oauth s))"
    and "issue_access_token env svc p s = (Inr token, t)"
    and "tkp_code q = tkp_code p" and "cl_sha256 (se_clients env') = cl_sha256 (se_clients env)"
  shows "is_err (fst (issue_access_token env' svc' q (fold service_step ops t)))
     \<and> (\<exists>i f code c. loaded_flow i s = Some f \<and> flow_authorization_code f = Some code
          \<and> flow_client_id f = tkp_client_id p \<and> flow_redirect_uri f = tkp_redirect_uri p
          \<and> flow_code_challenge f = pkce_challenge (se_clients env) (tkp_code_verifier p)
          \<and> code_consumed_at code = None \<and> code_created_at code \<le> se_now env 0 \<and> se_now env 0 < code_expires_at code
          \<and> loaded_connection (code_agent_connection_id code) s = Some c
          \<and> conn_auth0_client_id c = flow_client_id f \<and> flow_auth0_subject f = Some (conn_auth0_subject c)
          \<and> canonical_permissions (flow_scopes f) = Inr (conn_permissions c)
          \<and> conn_workspace_id c = code_workspace_id code
          \<and> is_member (acc_people s) (conn_user_id c) (conn_workspace_id c))"
proof -
  from assms(2) obtain i f g code grant s1 where f: "loaded_flow i s = Some f" "flow_authorization_code f = Some code"
    and g: "consume_code (tkp_client_id p) (tkp_redirect_uri p) (se_now env 0) f = Inr g"
    and i: "resolve_id_by_code_digest (access_digest (command_env env 0) (tkp_code p)) s = Inr (Some i)"
    and s1: "access_flow_save g s = Inr s1" "runs_commands s1 t" and grant: "code_grant g = Inr grant"
    and pkce: "pkce_challenge (se_clients env) (tkp_code_verifier p) = flow_code_challenge f"
    and issued: "issue_token_for_code env svc grant s1 = (Inr token, t)"
    by (rule code_exchange)
  note consumed = consume_codeD [OF g f(2)]
  have "wf_flow g" using flow_step_wf [of f "ConsumeCodeOp (tkp_client_id p) (tkp_redirect_uri p) (se_now env 0)"]
      loaded_flow_wf [OF f(1)] g by simp
  moreover have spent: "code_spent g" by (simp add: consumed(1) code_spent_def)
  ultimately have "loaded_flow (flow_id g) (fold service_step ops t) = Some g"
    using saved_flow_loads [OF _ s1(1)] commands_keep_spent [OF runs_trans [OF s1(2) service_runs]]
    by (auto simp: keeps_spent_def)
  moreover have "as_bytes (code_digest code) = as_bytes (access_digest (command_env env' 0) (tkp_code q))"
    using code_digest_of_row [OF assms(1) i f] assms(3,4) by (simp add: access_digest_def command_env_def)
  ultimately have "is_err (fst (handle_consume_oauth_code (command_env env' 0)
      \<lparr>coc_code = tkp_code q, coc_client_id = tkp_client_id q, coc_redirect_uri = tkp_redirect_uri q,
       coc_consumed_at = se_now env' 0\<rparr> (fold service_step ops t)))"
    using spent by (intro spent_code_refused [where code = "code\<lparr>code_consumed_at := Some (se_now env 0)\<rparr>"])
      (auto simp: consumed(1))
  then have refused: "is_err (fst (issue_access_token env' svc' q (fold service_step ops t)))"
    by (auto simp: issue_access_token_def then_on_def split: prod.splits sum.splits)
  from issued obtain c where c: "loaded_connection (ocg_agent_connection_id grant) s1 = Some c"
    "conn_workspace_id c = ocg_workspace_id grant" "conn_auth0_subject c = ocg_auth0_subject grant"
    "conn_auth0_client_id c = ocg_client_id grant" "canonical_permissions (ocg_scopes grant) = Inr (conn_permissions c)"
    "is_member (acc_people s1) (conn_user_id c) (conn_workspace_id c)"
    by (rule issued_for_member)
  have same: "loaded_connection j s1 = loaded_connection j s" "acc_people s1 = acc_people s" for j
    using access_flow_save_agents [OF s1(1)] by (simp_all add: loaded_connection_def access_connection_get_def)
  from grant obtain code' where "flow_authorization_code g = Some code'" "flow_auth0_subject g = Some (ocg_auth0_subject grant)"
    "ocg_agent_connection_id grant = code_agent_connection_id code'" "ocg_workspace_id grant = code_workspace_id code'"
    "ocg_client_id grant = flow_client_id g" "ocg_scopes grant = flow_scopes g"
    by (rule code_grantD)
  with c consumed f pkce refused same show ?thesis
    by (intro conjI exI [of _ i] exI [of _ f] exI [of _ code] exI [of _ c]) auto
qed

text \<open>A run of the service from a request to a code, on the sample tables.\<close>

definition sample_service :: "token_encryptor \<Rightarrow> token_decryptor \<Rightarrow> oauth_service" where
  "sample_service e d =
     \<lparr>svc_clients = \<lparr>reg_keys = Map.empty, reg_active_kid = ''k''\<rparr>, svc_resource = ''r'',
      svc_encryptor = e, svc_decryptor = d\<rparr>"

definition sample_service_env :: "datetime \<Rightarrow> 8 word \<Rightarrow> service_env" where
  "sample_service_env now salt =
     \<lparr>se_clients = sample_client_env\<lparr>cl_url := (\<lambda>s. Some (inside_url\<lparr>url_text := s\<rparr>)), cl_b64 := bytes_text,
        cl_sha256 := (\<lambda>bs. take 32 (bs @ replicate 32 0))\<rparr>,
      se_tokens = sealing_env, se_now = (\<lambda>n. now + int n), se_clock = (\<lambda>n m. now + int n + int m),
      se_random = (\<lambda>n. Some [salt + of_nat n]), se_request_id = 21, se_connection_id = 11, se_transaction_id = 12,
      se_token_id = 31, se_token_nonce = [], se_append_pair = (\<lambda>_ _ u. u)\<rparr>"

definition sample_flow_request :: request_oauth_authorization where
  "sample_flow_request =
     \<lparr>roa_request_id = OAuthAuthorizationRequestId 21, roa_client_id = ''c'', roa_client_name = ''d'',
      roa_redirect_uri = ''u'', roa_code_challenge = pkce_challenge (se_clients (sample_service_env 0 0)) ''v'',
      roa_state = [], roa_resource = ''r'', roa_scopes = [WriteEvidence, ReadEvidence], roa_csrf_token = ''x'',
      roa_created_at = 10, roa_expires_at = 100\<rparr>"

abbreviation sample_service_ops :: "service_op list" where
  "sample_service_ops \<equiv>
     [SvcCommand (RequestFlow (sample_access_env 10) sample_flow_request),
      SvcLogin (sample_service_env 20 65) ''x'' ''s'' (UserId 1),
      SvcApprove (sample_service_env 30 65) (OAuthAuthorizationRequestId 21)]"

definition sample_token_payload :: token_payload where
  "sample_token_payload = \<lparr>tkp_client_id = ''c'', tkp_redirect_uri = ''u'', tkp_code = bytes_text [67], tkp_code_verifier = ''v''\<rparr>"

lemmas service_eval =
  complete_upstream_login_def approve_consent_def issue_code_redirect_def random_secret_def read_consent_context_def
  consent_context_def then_on_def command_env_def redirect_with_code_def append_state_def
  request_flow_tx_def change_flow_tx_def attach_subject_tx_def consume_code_tx_def access_flow_get_def
  access_flow_save_def flow_violations_def code_violations_def flow_get_def flow_save_def flow_from_domain_def
  flow_into_domain_def flow_rehydrate_def flow_request_def flow_available_at_def attach_subject_def
  approve_and_issue_code_def consume_code_def code_from_domain_def code_into_domain_def code_rehydrate_def
  parse_permissions_def permission_strings_def resolve_id_by_csrf_digest_def resolve_id_by_code_digest_def
  or_unavailable_def code_grant_def find_reusable_def held_by_member_def read_oauth_consent_context_def
  consent_context_from_row_def sample_service_env_def sample_service_def sample_flow_request_def
  sample_token_payload_def sample_client_env_def pkce_challenge_def text_bytes_def bytes_text_def
  issue_access_token_def issue_token_for_code_def authorization_code_ttl_def access_token_ttl_def

lemma sample_exchange:
  "is_ok (fst (issue_access_token (sample_service_env 50 65) (sample_service e d) sample_token_payload
     (fold service_step sample_service_ops sample_access)))"
  by (simp add: access_eval service_eval mcp_oauth_encrypt_def token_encrypt_def payload_at_def mcp_claims_to_json_def
      registered_claim_names_def sealing_env_def dotted_token_env_def)

lemma sample_codes: "length (codes_table (acc_oauth (fold service_step sample_service_ops sample_access))) = 1"
  by (simp add: access_eval service_eval)

theorem code_buys_one_token_witness:
  "\<forall>e d. \<exists>token t. issue_access_token (sample_service_env 50 65) (sample_service e d) sample_token_payload
       (fold service_step sample_service_ops sample_access) = (Inr token, t)
     \<and> is_err (fst (issue_access_token (sample_service_env 60 65) (sample_service e d) sample_token_payload
         (fold service_step [SvcApprove (sample_service_env 55 65) (OAuthAuthorizationRequestId 21)] t)))"
proof (intro allI)
  fix e d
  let ?s = "fold service_step sample_service_ops sample_access"
  let ?r = "issue_access_token (sample_service_env 50 65) (sample_service e d) sample_token_payload ?s"
  obtain token t where r: "?r = (Inr token, t)" using sample_exchange [of e d] by (cases ?r; cases "fst ?r") auto
  have "table_wf coderec_request_id (codes_table (acc_oauth ?s))"
    using sample_codes by (cases "codes_table (acc_oauth ?s)") (auto simp: table_wf_def)
  moreover have "cl_sha256 (se_clients (sample_service_env 60 65)) = cl_sha256 (se_clients (sample_service_env 50 65))"
    by (simp add: sample_service_env_def)
  ultimately show "\<exists>token t. ?r = (Inr token, t)
      \<and> is_err (fst (issue_access_token (sample_service_env 60 65) (sample_service e d) sample_token_payload
         (fold service_step [SvcApprove (sample_service_env 55 65) (OAuthAuthorizationRequestId 21)] t)))"
    using code_buys_one_token [OF _ r refl] r by blast
qed

section \<open>Tokens verify\<close>

lemma split_words:
  assumes "\<forall>w \<in> set ws. w \<noteq> [] \<and> (\<forall>ch \<in> set w. \<not> is_ascii_space ch)"
  shows "split_ascii_whitespace (join_words ws) = ws"
proof -
  let ?m = "map (\<lambda>ch. if is_ascii_space ch then CHR '' '' else ch)"
  have space: "is_ascii_space (CHR '' '')" by code_simp
  have word: "?m w = w \<and> CHR '' '' \<notin> set w" if "\<forall>ch \<in> set w. \<not> is_ascii_space ch" for w
    using that space by (auto intro: map_idI)
  have "filter (\<lambda>p. p \<noteq> []) (split_on CHR '' '' (?m (join_words ws))) = ws"
    using assms
  proof (induction ws rule: join_words.induct)
    case (2 w)
    then show ?case using word [of w] by (simp add: split_on_no_sep)
  next
    case (3 w v vs)
    then show ?case using word [of w] space by (simp add: split_on_append_sep split_on_no_sep)
  qed simp
  then show ?thesis by (simp add: split_ascii_whitespace_def)
qed

lemma permission_words: "permission_as_str p \<noteq> [] \<and> (\<forall>ch \<in> set (permission_as_str p). \<not> is_ascii_space ch)"
proof -
  have "list_all (\<lambda>p. permission_as_str p \<noteq> [] \<and> list_all (\<lambda>ch. \<not> is_ascii_space ch) (permission_as_str p)) all_permissions"
    by code_simp
  then show ?thesis using set_all_permissions by (simp add: list_all_iff)
qed

lemma parse_scope_words:
  assumes "ps \<noteq> []"
  shows "parse_scope (join_words (map permission_as_str ps)) = map_err (\<lambda>_. InvalidRequest) (canonical_permissions ps)"
  using assms permission_words
  by (simp add: parse_scope_def split_words Let_def comp_def permission_from_as_str)

lemma mcp_claims_reload:
  assumes "uuid_codec_ok u" and "mcp_claims_to_json u x = JObj entries"
  shows "mcp_claims_from_entries u entries = Some x"
  using assms by (cases x) (auto simp: mcp_claims_to_json_def mcp_claims_from_entries_def required_field_def)

definition granted_claims :: "agent_connection \<Rightarrow> oauth_code_grant \<Rightarrow> mcp_oauth_claims" where
  "granted_claims c grant =
     \<lparr>moc_auth0_subject = conn_auth0_subject c, moc_client_id = ocg_client_id grant,
      moc_connection_id = agent_connection_uuid (conn_id c), moc_workspace_id = workspace_uuid (conn_workspace_id c),
      moc_resource = ocg_resource grant, moc_scopes = map permission_as_str (ocg_scopes grant)\<rparr>"

lemma issued_claims:
  assumes "issue_token_for_code env svc grant s = (Inr token, t)"
  obtains c where "loaded_connection (ocg_agent_connection_id grant) s = Some c"
    "conn_workspace_id c = ocg_workspace_id grant" "conn_auth0_subject c = ocg_auth0_subject grant"
    "canonical_permissions (ocg_scopes grant) = Inr (conn_permissions c)"
    "mcp_oauth_encrypt (se_tokens env) (se_token_nonce env) (se_now env 2) (svc_encryptor svc)
       \<lparr>reg_subject = user_uuid (conn_user_id c), reg_token_id = se_token_id env,
        reg_expires_at = se_now env 1 + access_token_ttl\<rparr>
       (mcp_claims_to_json (tok_uuid (se_tokens env)) (granted_claims c grant)) = Inr token"
proof -
  let ?cmd = "\<lparr>aac_connection_id = ocg_agent_connection_id grant, aac_workspace_id = ocg_workspace_id grant,
       aac_auth0_subject = ocg_auth0_subject grant, aac_auth0_client_id = ocg_client_id grant,
       aac_resource = ocg_resource grant, aac_permissions = ocg_scopes grant\<rparr>"
  from assms obtain ctx s2 where authorized: "handle_authorize_agent_connection (command_env env 1) ?cmd s = (Inr (Some ctx), s2)"
    and sealed: "mcp_oauth_encrypt (se_tokens env) (se_token_nonce env) (se_now env 2) (svc_encryptor svc)
       \<lparr>reg_subject = user_uuid (ctx_user_id ctx), reg_token_id = se_token_id env,
        reg_expires_at = se_now env 1 + access_token_ttl\<rparr>
       (mcp_claims_to_json (tok_uuid (se_tokens env))
         \<lparr>moc_auth0_subject = ocg_auth0_subject grant, moc_client_id = ocg_client_id grant,
          moc_connection_id = agent_connection_uuid (ctx_connection_id ctx),
          moc_workspace_id = workspace_uuid (ctx_workspace_id ctx),
          moc_resource = ocg_resource grant, moc_scopes = map permission_as_str (ocg_scopes grant)\<rparr>) = Inr token"
    by (auto simp: issue_token_for_code_def then_on_Ok_iff map_err_Ok_iff split: option.splits)
  from authorized obtain c where c: "loaded_connection (ocg_agent_connection_id grant) s = Some c"
    "conn_workspace_id c = ocg_workspace_id grant" "conn_auth0_subject c = ocg_auth0_subject grant"
    "canonical_permissions (ocg_scopes grant) = Inr (conn_permissions c)"
    by (rule authorized_matches) simp
  from authorized have "ctx = connection_context c" by (rule authorized_connection) (use c(1) in simp)
  with sealed c that show ?thesis by (simp add: connection_context_def granted_claims_def)
qed

text \<open>
  C0: The token of an exchange verifies during its life, from the second it was sealed to the second it expires,
  to the client that redeemed the code, the subject that logged in and exactly the connection, the workspace and
  the permissions the holder of the connection consented to, and is refused at any other time.
\<close>

theorem issued_token_verifies:
  assumes "sealed_env_ok (se_tokens env)"
    and "encryptor_from_config (se_tokens env) issuer audience config = Inr (svc_encryptor svc)"
    and "decryptor_from_config (se_tokens env) issuer audience config = Inr (svc_decryptor svc)"
    and "distinct (map pk_id (pc_keys config))" and "trim (pc_active_key_id config) \<noteq> []"
    and "issuer \<noteq> []" and "audience \<noteq> []"
    and "rfc3339_time (se_now env 2)" and "rfc3339_time (se_now env 1 + access_token_ttl)"
    and "issue_access_token env svc p s = (Inr token, t)" and "se_tokens env' = se_tokens env"
  shows "\<exists>i f code c. loaded_flow i s = Some f \<and> flow_authorization_code f = Some code
     \<and> loaded_connection (code_agent_connection_id code) s = Some c \<and> flow_auth0_subject f = Some (conn_auth0_subject c)
     \<and> verify_access_token env' svc (iss_token token) =
         (if whole_seconds (se_now env 2) \<le> se_now env' 0 \<and> se_now env' 0 < whole_seconds (se_now env 1 + access_token_ttl)
          then Inr \<lparr>vmc_subject = conn_auth0_subject c, vmc_client_id = tkp_client_id p,
                    vmc_scopes = conn_permissions c, vmc_connection_id = Some (conn_id c),
                    vmc_workspace_id = Some (conn_workspace_id c)\<rparr>
          else Inl InvalidToken)"
proof -
  let ?u = "tok_uuid (se_tokens env)"
  from assms(10) obtain i f g code grant s1 where f: "loaded_flow i s = Some f" "flow_authorization_code f = Some code"
    and g: "consume_code (tkp_client_id p) (tkp_redirect_uri p) (se_now env 0) f = Inr g"
    and s1: "access_flow_save g s = Inr s1" and grant: "code_grant g = Inr grant"
    and issued: "issue_token_for_code env svc grant s1 = (Inr token, t)"
    by (rule code_exchange)
  note consumed = consume_codeD [OF g f(2)]
  from grant obtain code' where code': "flow_authorization_code g = Some code'" "flow_auth0_subject g = Some (ocg_auth0_subject grant)"
    "ocg_agent_connection_id grant = code_agent_connection_id code'" "ocg_client_id grant = flow_client_id g"
    "ocg_scopes grant = flow_scopes g" by (rule code_grantD)
  from issued obtain c where c: "loaded_connection (ocg_agent_connection_id grant) s1 = Some c"
    "conn_auth0_subject c = ocg_auth0_subject grant" "canonical_permissions (ocg_scopes grant) = Inr (conn_permissions c)"
    and sealed: "mcp_oauth_encrypt (se_tokens env) (se_token_nonce env) (se_now env 2) (svc_encryptor svc)
       \<lparr>reg_subject = user_uuid (conn_user_id c), reg_token_id = se_token_id env,
        reg_expires_at = se_now env 1 + access_token_ttl\<rparr>
       (mcp_claims_to_json ?u (granted_claims c grant)) = Inr token"
    by (rule issued_claims)
  obtain entries where entries: "mcp_claims_to_json ?u (granted_claims c grant) = JObj entries"
    by (simp add: mcp_claims_to_json_def)
  have "uuid_codec_ok ?u" using assms(1) by (simp add: sealed_env_ok_def token_env_ok_def)
  note decoded = mcp_claims_reload [OF this entries]
  note opened = token_decrypt_sealed [where decode = "mcp_claims_from_entries ?u", OF assms(1)
      sealed [unfolded mcp_oauth_encrypt_def entries], of "svc_decryptor svc", OF _ _ _ _ _ _ decoded]
  have "flow_scopes f \<noteq> []" using loaded_flow_wf [OF f(1)] by (simp add: wf_flow_def)
  then have scopes: "parse_scope (join_words (map permission_as_str (ocg_scopes grant))) = Inr (conn_permissions c)"
    using c(3) code'(5) by (simp add: parse_scope_words consumed(1))
  have "verify_access_token env' svc (iss_token token) =
      (if whole_seconds (se_now env 2) \<le> se_now env' 0 \<and> se_now env' 0 < whole_seconds (se_now env 1 + access_token_ttl)
       then Inr \<lparr>vmc_subject = conn_auth0_subject c, vmc_client_id = ocg_client_id grant, vmc_scopes = conn_permissions c,
                 vmc_connection_id = Some (AgentConnectionId (agent_connection_uuid (conn_id c))),
                 vmc_workspace_id = Some (WorkspaceId (workspace_uuid (conn_workspace_id c)))\<rparr>
       else Inl InvalidToken)"
    using opened [of "implicit_assertion_of McpOAuthToken" "se_now env' 0"] configured_keys [OF assms(2-4)]
      assms(5-9,11) scopes
    by (simp add: verify_access_token_def mcp_oauth_decrypt_def granted_claims_def)
  moreover have "loaded_connection j s1 = loaded_connection j s" for j
    using access_flow_save_agents [OF s1(1)] by (simp add: loaded_connection_def access_connection_get_def)
  ultimately show ?thesis
    using f c(1,2) code' consumed
    by (intro exI [of _ i] exI [of _ f] exI [of _ code] exI [of _ c]) auto
qed

theorem issued_token_verifies_witness:
  "\<exists>e d token t. issue_access_token (sample_service_env 50 65) (sample_service e d) sample_token_payload
       (fold service_step sample_service_ops sample_access) = (Inr token, t)
     \<and> is_ok (verify_access_token (sample_service_env 60 65) (sample_service e d) (iss_token token))
     \<and> is_err (verify_access_token (sample_service_env 90000000000000 65) (sample_service e d) (iss_token token))"
proof -
  let ?s = "fold service_step sample_service_ops sample_access"
  obtain e d where keys: "encryptor_from_config sealing_env ''i'' ''a'' sample_config = Inr e"
    "decryptor_from_config sealing_env ''i'' ''a'' sample_config = Inr d"
    by (simp add: encryptor_from_config_def decryptor_from_config_def sample_config_def sealing_env_def dotted_token_env_def)
  let ?r = "issue_access_token (sample_service_env 50 65) (sample_service e d) sample_token_payload ?s"
  obtain token t where r: "?r = (Inr token, t)" using sample_exchange [of e d] by (cases ?r; cases "fst ?r") auto
  have tokens: "se_tokens (sample_service_env now salt) = sealing_env" "se_now (sample_service_env now salt) n = now + int n"
    for now salt n by (simp_all add: sample_service_env_def)
  have "trim ''k'' \<noteq> []" by code_simp
  then have "\<exists>claims. verify_access_token (sample_service_env now 65) (sample_service e d) (iss_token token) =
      (if whole_seconds 52 \<le> now \<and> now < whole_seconds (51 + access_token_ttl) then Inr claims else Inl InvalidToken)" for now
    using issued_token_verifies [of "sample_service_env 50 65" "''i''" "''a''" sample_config "sample_service e d",
        OF _ _ _ _ _ _ _ _ _ r, of "sample_service_env now 65"] sealing_env_ok keys
    by (auto simp: tokens sample_service_def sample_config_def rfc3339_time_def access_token_ttl_def)
  from this [of 60] this [of 90000000000000] r show ?thesis
    by (intro exI [of _ e] exI [of _ d] exI [of _ token] exI [of _ t]) (auto simp: whole_seconds_def access_token_ttl_def)
qed

section \<open>Connections that were never used\<close>

text \<open>
  C0: A connection that was authorized but not used before its deadline is a dead end: it is what the next
  sign-in of its subject and client finds to reuse, yet exchanging the code of that sign-in fails, and leaves
  everything as it was, at every time after the deadline.
\<close>

theorem stale_connection_is_dead_end:
  assumes "find_reusable subject client resource scopes s = Inr (Some r)"
    and "loaded_connection (reu_id r) s = Some c" and "conn_status c = ConnAuthorized"
    and "conn_pending_expires_at c \<le> se_clock env 1 0" and "ocg_agent_connection_id grant = reu_id r"
  shows "\<exists>e. issue_token_for_code env svc grant s = (Inl e, s)"
proof -
  let ?cmd = "\<lparr>aac_connection_id = ocg_agent_connection_id grant, aac_workspace_id = ocg_workspace_id grant,
       aac_auth0_subject = ocg_auth0_subject grant, aac_auth0_client_id = ocg_client_id grant,
       aac_resource = ocg_resource grant, aac_permissions = ocg_scopes grant\<rparr>"
  let ?h = "handle_authorize_agent_connection (command_env env 1) ?cmd s"
  have "tx_ensures (authorize_connection_tx (command_env env 1) ?cmd expected) (\<lambda>x t. x = None \<and> t = s) s" for expected
    using assms(2-5)
    by (auto simp: authorize_connection_tx_def tx_post access_get_iff connection_activate_def command_env_def)
  then have "fst ?h = Inr None \<or> is_err (fst ?h)" "snd ?h = s"
    by (auto simp: handle_authorize_agent_connection_def tx_ensures_def in_unit_of_work_def
        split: sum.split prod.split)
  then show ?thesis
    by (cases ?h; cases "fst ?h") (auto simp: issue_token_for_code_def then_on_def)
qed

lemma sample_reusable:
  "find_reusable ''s'' ''c'' ''r'' [ReadEvidence, WriteEvidence] (fold access_step sample_access_ops sample_access) =
     Inr (Some \<lparr>reu_id = AgentConnectionId 11, reu_user_id = UserId 1, reu_workspace_id = WorkspaceId 7,
       reu_permissions = [ReadEvidence, WriteEvidence]\<rparr>)"
  by (simp add: access_eval service_eval parse_connection_permissions_def)

lemma sample_stale:
  "map_option (\<lambda>c. (conn_status c, conn_pending_expires_at c))
     (loaded_connection (AgentConnectionId 11) (fold access_step sample_access_ops sample_access)) = Some (ConnAuthorized, 100)"
  by (simp add: access_eval service_eval loaded_connection_def)

theorem stale_connection_is_dead_end_witness:
  "\<forall>enc dec. \<exists>e. issue_token_for_code (sample_service_env 200 65) (sample_service enc dec)
     \<lparr>ocg_request_id = OAuthAuthorizationRequestId 21, ocg_agent_connection_id = AgentConnectionId 11,
      ocg_workspace_id = WorkspaceId 7, ocg_client_id = ''c'', ocg_redirect_uri = ''u'', ocg_code_challenge = [],
      ocg_resource = ''r'', ocg_scopes = [ReadEvidence, WriteEvidence], ocg_auth0_subject = ''s'',
      ocg_user_id = UserId 1, ocg_expires_at = 300\<rparr> (fold access_step sample_access_ops sample_access) =
     (Inl e, fold access_step sample_access_ops sample_access)"
proof -
  obtain c where "loaded_connection (AgentConnectionId 11) (fold access_step sample_access_ops sample_access) = Some c"
    "conn_status c = ConnAuthorized" "conn_pending_expires_at c = 100"
    using sample_stale by auto
  then show ?thesis
    using stale_connection_is_dead_end [OF sample_reusable] by (simp add: sample_service_env_def)
qed

text \<open>
  Consent requests a connection and consumes its continuation in two units of work. When the second one does not
  happen, the connection stays pending: while it does, no later consent of its user for its client and resource
  succeeds, and the user can neither see nor revoke it.
\<close>

theorem abandoned_connection_blocks:
  assumes "x \<in> set (connections_table (acc_agents s))" and "connrec_status x = ''pending''"
    and "connrec_user_id x = user_uuid (rac_user_id cmd)" and "connrec_auth0_client_id x = rac_auth0_client_id cmd"
    and "connrec_resource x = rac_resource cmd" and "connrec_id x \<noteq> ae_connection_id env"
  shows "is_err (fst (handle_request_agent_connection env cmd s))"
proof (rule ccontr)
  assume "\<not> is_err (fst (handle_request_agent_connection env cmd s))"
  then obtain y where "fst (handle_request_agent_connection env cmd s) = Inr y"
    by (cases "fst (handle_request_agent_connection env cmd s)") auto
  then obtain c t where "fst (in_unit_of_work (request_connection_tx c) s) = Inr t"
    and c: "conn_id c = AgentConnectionId (ae_connection_id env)" "conn_user_id c = rac_user_id cmd"
      "conn_auth0_client_id c = rac_auth0_client_id cmd" "conn_resource c = rac_resource cmd" "conn_status c = ConnPending"
    by (auto simp: handle_request_agent_connection_def connection_request_def map_err_Ok_iff split: sum.splits if_splits)
  then obtain u where "request_connection_tx c s = (Inr t, u)"
    by (auto simp: in_unit_of_work_def split: prod.splits sum.splits)
  from tx_ensuresD [OF request_connection_post this] have "access_connection_save c s = Inr u" by simp
  from access_connection_save_Ok(3) [OF this] have "\<not> live_tuple_taken (connection_from_domain c) (connections_table (acc_agents s))"
    by (rule connection_save_Ok)
  with assms c show False
    by (auto simp: live_tuple_taken_def live_status_def connection_from_domain_def list_ex_iff)
qed

theorem pending_connection_not_revocable:
  assumes "loaded_connection (rvc_connection_id cmd) s = Some c" and "conn_status c = ConnPending"
    and "rvc_user_id cmd = Some u"
  shows "handle_revoke_agent_connection env cmd s = (Inr False, s)"
proof -
  have "access_connection_get (rvc_connection_id cmd) s = Inr (Some c)" using assms(1) by (simp add: access_get_iff)
  with assms(2,3) show ?thesis
    by (simp add: handle_revoke_agent_connection_def revoke_connection_tx_def in_unit_of_work_def tx_defs)
qed

end
