(* ===== verification/Spec2Isabelle.thy ===== *)
theory Spec2Isabelle
  imports Permissions Workspaces Invitations Documents Users Agent_Connections OAuth_Flows
    Auditor_Access Catalog Upload_Declarations Upload_Grants Messaging Object_Storage Outbox
    Store Document_Commands Document_Pipeline Document_Replays
    Scanner Worker_Messages Worker Evidence_Custody
    Invitation_Authority People People_Commands People_Tables Invitation_Delivery People_Safety
    Invitation_Links Invitation_Mail
    Catalogue_Store Catalogue_Commands Policy_Commands Catalogue_Tables Catalogue_Scope Catalogue_Safety
    Catalogue_Properties
    Access_Commands Access_Safety Tokens Client_Resolution OAuth_Service OAuth_Exchange
begin

text \<open>
  Verification of Proofplane, a service in which organisations collect evidence for audits.

  \<^bold>\<open>The program.\<close> \<^verbatim>\<open>src/src/domain\<close> holds the aggregates (workspaces, invitations, documents, users,
  agent connections, OAuth flows, auditor access, evidence, controls, policies, upload grants), each
  a value with operations that check their preconditions. \<^verbatim>\<open>src/src/persistence\<close> stores an aggregate
  as one or more rows and rebuilds it with validation; \<^verbatim>\<open>src/src/application/commands\<close> loads,
  changes and saves aggregates in one database transaction and appends the integration messages
  of the change to an outbox table; \<^verbatim>\<open>src/src/dequeuer\<close> publishes the outbox; \<^verbatim>\<open>src/src/worker.rs\<close>
  and \<^verbatim>\<open>src/src/handlers\<close> consume the messages and scan and promote uploaded objects.

  \<^bold>\<open>Theories.\<close>
  \<^item> \<open>Prelude\<close>: results as sums (\<open>Inl\<close> the error), their bind, tables as lists, 64-bit and 128-bit
    integers, time as nanoseconds; \<open>Rust_Text\<close>: strings as lists of UTF-8 bytes, trimming, splitting and
    decimal text as the standard library has them.
  \<^item> \<open>Validation\<close>, \<open>Identifiers\<close>, \<open>Permissions\<close>: \<^verbatim>\<open>domain/validation.rs\<close>, \<^verbatim>\<open>batch.rs\<close>, \<^verbatim>\<open>ids.rs\<close>,
    \<^verbatim>\<open>permission.rs\<close>: accumulated errors, batches, the permission bit set.
  \<^item> \<open>Persistence\<close>: repository errors, classification of constraint violations, the SQL built for a
    snapshot, units of work as state transformers that are rolled back on error, and the rules
    \<open>tx_post\<close> that compute the postcondition of a handler.
  \<^item> \<open>Workspaces\<close>, \<open>Invitations\<close>, \<open>Documents\<close>, \<open>Users\<close>, \<open>Agent_Connections\<close>, \<open>OAuth_Flows\<close>,
    \<open>Auditor_Access\<close>, \<open>Catalog\<close>, \<open>Upload_Declarations\<close>, \<open>Upload_Grants\<close>: one theory per aggregate of
    \<^verbatim>\<open>src/src/domain\<close>, its operations one definition each on every branch, its database record, and the
    repository where the aggregate spans several tables. The lemmas show what an operation accepts
    exactly, that every reachable aggregate satisfies its invariant and reloads from its row, and
    that the single-use objects (authorization codes, continuations, upload grants, invitations) are
    used at most once.
  \<^item> \<open>Messaging\<close>, \<open>Outbox\<close>: \<^verbatim>\<open>messaging.rs\<close>, \<^verbatim>\<open>persistence/outbox.rs\<close>, \<^verbatim>\<open>dequeuer/mod.rs\<close>: envelopes
    over JSON values, the outbox table, one dequeuer pass, retry delays, and the step relation in
    which appends, passes of several dequeuers and crashes interleave.
  \<^item> \<open>Object_Storage\<close>: \<^verbatim>\<open>object_storage/mod.rs\<close>: object keys, the filesystem store with failing input and
    output, the promotion of an object between stores.
  \<^item> \<open>Store\<close>: the database as the record \<open>db\<close>, and the repositories over it that the document
    commands use, with the CHECK, UNIQUE and foreign-key constraints of \<^verbatim>\<open>migrations/\<close>.
  \<^item> \<open>Document_Commands\<close>: \<^verbatim>\<open>application/commands/documents.rs\<close>, the seven handlers whole, as one
    locale \<open>document_handler\<close> they all interpret.
  \<^item> \<open>Document_Pipeline\<close>: commands, dequeuers and crashes interleaved; no document that waits for the
    scanner or the promotion is ever without a message that asks for it.
  \<^item> \<open>Document_Replays\<close>: repeating a successful creation or completion replays its outcome.

  \<^item> \<open>Scanner\<close>: \<^verbatim>\<open>scanner/mod.rs\<close>: the INSTREAM exchange with clamd, related to the format clamd reads.
  \<^item> \<open>Worker_Messages\<close>, \<open>Worker\<close>: \<^verbatim>\<open>worker.rs\<close>, \<^verbatim>\<open>handlers/document_scan.rs\<close>,
    \<^verbatim>\<open>handlers/document_finalization.rs\<close>: push messages, dispatch, and the two document handlers over the
    database, the object stores and the audit log, with every fault the code answers.
  \<^item> \<open>Evidence_Custody\<close>: commands, uploads and deliveries interleaved; every uploaded document is held by
    the evidence store, and a clean upload gets there.

  \<^item> \<open>Invitation_Authority\<close>: \<^verbatim>\<open>services/workspace_invitation_authority.rs\<close>: the key ring, the claims and
    the issue and verification of invitation tokens; a token that was issued verifies to its claims with
    the expiry cut to whole seconds.
  \<^item> \<open>People\<close>, \<open>People_Commands\<close>, \<open>People_Tables\<close>: workspaces, users and invitations as the record
    \<open>people\<close>, their repositories and reads, the handlers of \<^verbatim>\<open>create_owned_workspace.rs\<close>,
    \<^verbatim>\<open>remove_workspace_member.rs\<close>, \<^verbatim>\<open>provision_user.rs\<close>, \<^verbatim>\<open>record_user_login.rs\<close> and
    \<^verbatim>\<open>workspace_invitations.rs\<close>, the queries on people, and the invariant \<open>wf_people\<close> that every save keeps.
  \<^item> \<open>Invitation_Delivery\<close>: \<^verbatim>\<open>mail.rs\<close> and \<^verbatim>\<open>handlers/workspace_invitation_delivery.rs\<close>.
  \<^item> \<open>People_Safety\<close>, \<open>Invitation_Links\<close>, \<open>Invitation_Mail\<close>: all these handlers interleaved; the tables
    stay consistent, memberships change only by right, a created link is accepted and a resent one is
    not, a generation is mailed once.

  \<^item> \<open>Catalogue_Store\<close>, \<open>Catalogue_Commands\<close>, \<open>Policy_Commands\<close>: evidence, controls and policies with their
    mappings as the record \<open>catalogue\<close> around \<open>db\<close>, the repositories with the constraints of their tables,
    the reads of \<^verbatim>\<open>reads/controls.rs\<close>, \<^verbatim>\<open>frameworks.rs\<close>, \<^verbatim>\<open>evidence.rs\<close> and \<^verbatim>\<open>policies.rs\<close> that the
    handlers use, and the handlers that create, replace, map, unmap, archive, attach and detach.
  \<^item> \<open>Catalogue_Tables\<close>, \<open>Catalogue_Scope\<close>, \<open>Catalogue_Safety\<close>, \<open>Catalogue_Properties\<close>: the invariant
    \<open>wf_catalogue\<close>, what a save changes and what it leaves to the other workspaces, and all fifteen commands
    in any order.

  \<^item> \<open>Access_Commands\<close>, \<open>Access_Safety\<close>: the handlers of \<^verbatim>\<open>commands/agent_connections.rs\<close> and
    \<^verbatim>\<open>oauth_authorization_flows.rs\<close> over the record \<open>access\<close>, the reads and queries of the same names, and all
    commands in any order: an agent is authorized only by right.
  \<^item> \<open>Tokens\<close>: \<^verbatim>\<open>authentication/paseto.rs\<close>, the eight kinds of sealed token and their claims.
  \<^item> \<open>Client_Resolution\<close>: \<^verbatim>\<open>authentication/client_registration.rs\<close>, \<^verbatim>\<open>services/cimd.rs\<close> and
    \<^verbatim>\<open>client_resolver.rs\<close>: signed client ids, metadata documents and the addresses they are fetched from.
  \<^item> \<open>OAuth_Service\<close>, \<open>OAuth_Exchange\<close>: \<^verbatim>\<open>services/oauth.rs\<close> and \<^verbatim>\<open>mcp/auth.rs\<close>: every operation of the
    authorization server as the sequence of commands it runs, the exchange of codes and the verification of
    tokens.

  \<^bold>\<open>Parameters.\<close> Code outside the repository is an argument of the definitions that use it: UUID text
  (\<open>uuid_codec\<close>), SHA-256, MIME and header parsing, hex, the publisher, the input and output of the
  filesystem, PASETO encryption, the text of JSON and of RFC 3339 times in tokens (\<open>token_env\<close>), URLs, base64, HMAC, name
  resolution and HTTP requests (\<open>client_env\<close>), random bytes and new ids, the check of an e-mail address, the lower-case mapping and the collation of the database, and the answers of the mail
  provider. What is relied on is a hypothesis named where it is used, and every property that has one has a
  witness with a concrete instance.

  \<^bold>\<open>Bounds.\<close> No definition uses fuel. Integers are at the width of the source where the width matters
  (generations, attempt counts, content lengths, retry delays). Times are nanoseconds since the epoch as
  integers; the rounding of PostgreSQL to microseconds and the overflow of dates far beyond it are not
  modelled. Statements of one transaction see the rows their locks protect, so a transaction is one step
  of an interleaving.

  \<^bold>\<open>Not modelled.\<close> HTTP routes, the tools of the MCP server, the verification of Auth0 tokens, configuration,
  observability, migrations, seed data and process start (plumbing around third-party libraries); the commands
  that issue upload links and manage auditors, of which the aggregates are modelled; the Google Cloud
  Storage backend and the Pub/Sub client (calls of client libraries); the read-only SQL projections; the
  text form of JSON.
\<close>

text \<open>
  C0: Loading is total validation: whatever rows the tables hold, an aggregate that a repository returns has the
  identity it was asked for and the invariant of its domain type, for workspaces, users, invitations, agent
  connections, OAuth flows and agent upload grants; rows that do not make such a value are an error.
\<close>

theorem loaded_aggregates_are_valid:
  "(people_workspace_get w p = Inr (Some workspace) \<longrightarrow> wf_workspace workspace \<and> ws_id workspace = w)
   \<and> (user_get u p = Inr (Some user) \<longrightarrow> wf_user user)
   \<and> (invitation_get v p = Inr (Some invitation) \<longrightarrow> wf_invitation invitation)
   \<and> (access_connection_get c a = Inr (Some connection) \<longrightarrow>
        wf_connection connection \<and> canonical_connection connection \<and> conn_id connection = c)
   \<and> (access_flow_get f a = Inr (Some flow) \<longrightarrow> wf_flow flow \<and> flow_id flow = f)
   \<and> (evidence_grant_get codec g w d = Inr (Some grant) \<longrightarrow> wf_agent_evidence_grant codec grant)"
proof (intro conjI impI)
  assume "invitation_get v p = Inr (Some invitation)"
  then show "wf_invitation invitation"
    by (cases "find_row invrec_id (invitation_uuid v) (ppl_invitations p)")
      (auto simp: invitation_get_def and_then_Ok_iff dest: invitation_loaded_wf)
next
  assume "evidence_grant_get codec g w d = Inr (Some grant)"
  then show "wf_agent_evidence_grant codec grant"
    by (cases "find (\<lambda>r. aegrec_id r = agent_evidence_upload_grant_uuid g \<and> aegrec_workspace_id r = workspace_uuid w)
        (db_evidence_grants d)") (auto simp: evidence_grant_get_def and_then_Ok_iff dest: loaded_grant_wf)
qed (auto simp: access_connection_get_def dest: people_workspace_get_wf user_get_wf connection_get_wf loaded_flow_wf)

lemma sample_loads:
  "\<exists>user. user_get (UserId 1) (sample_invited x) = Inr (Some user)"
  "people_workspace_get (WorkspaceId 7) (sample_invited x) = Inr (Some sample_workspace)"
  "\<exists>flow. access_flow_get (OAuthAuthorizationRequestId 21)
     (access_step (RequestFlow (sample_access_env 10) sample_flow_request) sample_access) = Inr (Some flow)"
  "\<exists>connection. access_connection_get (AgentConnectionId 11) (fold access_step sample_access_ops sample_access)
     = Inr (Some connection)"
proof -
  show "\<exists>user. user_get (UserId 1) (sample_invited x) = Inr (Some user)"
    by (simp add: sample_invited_def sample_people_eq user_get_def find_row_def user_into_domain_def user_rehydrate_def)
  show "people_workspace_get (WorkspaceId 7) (sample_invited x) = Inr (Some sample_workspace)"
    using sample_reads(2) by (simp add: sample_invited_def people_workspace_get_def)
  show "\<exists>flow. access_flow_get (OAuthAuthorizationRequestId 21)
     (access_step (RequestFlow (sample_access_env 10) sample_flow_request) sample_access) = Inr (Some flow)"
    by (simp add: access_eval service_eval)
  show "\<exists>connection. access_connection_get (AgentConnectionId 11) (fold access_step sample_access_ops sample_access)
     = Inr (Some connection)"
    using sample_stale by (auto simp: access_get_iff)
qed

theorem loaded_aggregates_are_valid_witness:
  "wf_workspace sample_workspace \<and> wf_invitation sample_invitation_row
   \<and> (\<exists>user. user_get (UserId 1) (sample_invited (ppl_outbox sample_people)) = Inr (Some user) \<and> wf_user user)
   \<and> (\<exists>connection. access_connection_get (AgentConnectionId 11) (fold access_step sample_access_ops sample_access)
        = Inr (Some connection) \<and> wf_connection connection)
   \<and> (\<exists>flow. access_flow_get (OAuthAuthorizationRequestId 21)
        (access_step (RequestFlow (sample_access_env 10) sample_flow_request) sample_access) = Inr (Some flow) \<and> wf_flow flow)
   \<and> wf_agent_evidence_grant (env_upload sample_env) sample_grant"
proof (intro conjI)
  note valid = loaded_aggregates_are_valid
  show "wf_workspace sample_workspace" using valid sample_loads(2) by blast
  show "wf_invitation sample_invitation_row" using valid sample_invited_get by blast
  show "\<exists>user. user_get (UserId 1) (sample_invited (ppl_outbox sample_people)) = Inr (Some user) \<and> wf_user user"
    using sample_loads(1) [of "ppl_outbox sample_people"] by (metis valid)
  show "\<exists>connection. access_connection_get (AgentConnectionId 11) (fold access_step sample_access_ops sample_access)
      = Inr (Some connection) \<and> wf_connection connection"
    using sample_loads(4) by (metis valid)
  show "\<exists>flow. access_flow_get (OAuthAuthorizationRequestId 21)
      (access_step (RequestFlow (sample_access_env 10) sample_flow_request) sample_access) = Inr (Some flow) \<and> wf_flow flow"
    using sample_loads(3) by (metis valid)
  show "wf_agent_evidence_grant (env_upload sample_env) sample_grant" using valid sample_grant_loads by blast
qed

end
